(* ===== verification/Prelude.thy ===== *)
theory Prelude
  imports Main "HOL-Library.Word" "HOL-Library.State_Monad"
begin

text \<open>Shared vocabulary of the development: 64-bit integer and \<^verbatim>\<open>time\<close> arithmetic, and the state monad
  in which every service operation is written, with the rules that carry invariants and frame
  conditions through an operation and the inversion rules for its early returns.\<close>

named_theorems monad_simps \<open>running a monadic program on a state\<close>
named_theorems keeps_intros \<open>introduction rules that carry a state relation through a program\<close>
named_theorems sql_defs \<open>definitions of the statement layer and the repositories\<close>

section \<open>Integers and time\<close>

type_synonym go_time = int
type_synonym duration = int

text \<open>Go's \<^verbatim>\<open>int\<close>, \<^verbatim>\<open>int64\<close> and \<^verbatim>\<open>time.Duration\<close> are 64-bit two's complement: arithmetic wraps.\<close>

definition wrap64 :: "int \<Rightarrow> int" where
  "wrap64 x = (x + 2 ^ 63) mod 2 ^ 64 - 2 ^ 63"

definition nanosecond_per_second :: int where
  "nanosecond_per_second = 1000000000"

definition seconds :: "int \<Rightarrow> duration" where
  "seconds n = wrap64 (wrap64 n * nanosecond_per_second)"

text \<open>A \<^verbatim>\<open>time.Time\<close> is the number of nanoseconds since the Unix epoch; the zero value is
  1 January of the year 1. \<^verbatim>\<open>Sub\<close> saturates at the range of a Duration.\<close>

definition zero_time :: go_time where
  "zero_time = - 62135596800 * nanosecond_per_second"

definition time_unix :: "go_time \<Rightarrow> int" where
  "time_unix t = t div nanosecond_per_second"

definition time_sub :: "go_time \<Rightarrow> go_time \<Rightarrow> duration" where
  "time_sub a b = max (- (2 ^ 63)) (min (2 ^ 63 - 1) (a - b))"

lemma wrap64_id [simp]: "- (2 ^ 63) \<le> x \<Longrightarrow> x < 2 ^ 63 \<Longrightarrow> wrap64 x = x"
  by (simp add: wrap64_def)

lemma wrap64_range: "- (2 ^ 63) \<le> wrap64 x \<and> wrap64 x < 2 ^ 63"
  using pos_mod_bound [of "2 ^ 64" "x + 2 ^ 63"] pos_mod_sign [of "2 ^ 64" "x + 2 ^ 63"]
  by (simp add: wrap64_def)

lemma seconds_small:
  assumes "0 \<le> n" "n \<le> 9223372036"
  shows "seconds n = n * 1000000000"
  using assms by (simp add: seconds_def nanosecond_per_second_def)

section \<open>Searching lists\<close>

lemma find_SomeD: "find P xs = Some x \<Longrightarrow> x \<in> set xs \<and> P x"
  by (induction xs) (auto split: if_splits)

lemma find_append: "find P (xs @ ys) = (case find P xs of None \<Rightarrow> find P ys | Some x \<Rightarrow> Some x)"
  by (induction xs) auto

lemma find_key: "distinct (map f xs) \<Longrightarrow> x \<in> set xs \<Longrightarrow> find (\<lambda>y. f y = f x) xs = Some x"
  by (induction xs) (auto simp: image_iff)

lemma find_unique:
  assumes "x \<in> set xs" "P x" "\<And>y. y \<in> set xs \<Longrightarrow> P y \<Longrightarrow> y = x"
  shows "find P xs = Some x"
proof (cases "find P xs")
  case None
  then show ?thesis
    using assms(1,2) by (auto simp: find_None_iff)
next
  case (Some y)
  then show ?thesis
    using assms(3) find_SomeD by metis
qed

lemma distinct_map_eq: "distinct (map f xs) \<Longrightarrow> x \<in> set xs \<Longrightarrow> y \<in> set xs \<Longrightarrow> f x = f y \<Longrightarrow> x = y"
  by (auto simp: distinct_map dest: inj_onD)

section \<open>Operations as state transformers\<close>

text \<open>A Go method that can fail returns \<^verbatim>\<open>(value, error)\<close>; here it is a program of type
  \<open>('s, 'e + 'a) state\<close>, with \<^const>\<open>Inl\<close> for a non-nil error. \<open>orReturn m h k\<close> is the idiom
  \<^verbatim>\<open>x, err := m; if err != nil { return nil, h(err) }; k(x)\<close>.\<close>

definition succeed :: "'a \<Rightarrow> ('s, 'e + 'a) state" where
  "succeed a = State_Monad.return (Inr a)"

definition failWith :: "'e \<Rightarrow> ('s, 'e + 'a) state" where
  "failWith er = State_Monad.return (Inl er)"

definition orReturn ::
  "('s, 'e + 'a) state \<Rightarrow> ('e \<Rightarrow> 'f) \<Rightarrow> ('a \<Rightarrow> ('s, 'f + 'b) state) \<Rightarrow> ('s, 'f + 'b) state" where
  "orReturn m h k = State_Monad.bind m (\<lambda>r. case r of Inl er \<Rightarrow> failWith (h er) | Inr a \<Rightarrow> k a)"

definition mapErr :: "('e \<Rightarrow> 'f) \<Rightarrow> ('s, 'e + 'a) state \<Rightarrow> ('s, 'f + 'a) state" where
  "mapErr h m = orReturn m h succeed"

text \<open>\<open>steps R m\<close>: every run of \<open>m\<close> takes its state to a related one.\<close>

definition steps :: "('s \<Rightarrow> 's \<Rightarrow> bool) \<Rightarrow> ('s, 'a) state \<Rightarrow> bool" where
  "steps R m \<longleftrightarrow> (\<forall>s. R s (snd (run_state m s)))"

definition preserving :: "('s \<Rightarrow> bool) \<Rightarrow> 's \<Rightarrow> 's \<Rightarrow> bool" where
  "preserving I s t \<longleftrightarrow> (I s \<longrightarrow> I t)"

definition framing :: "('s \<Rightarrow> 'b) \<Rightarrow> 's \<Rightarrow> 's \<Rightarrow> bool" where
  "framing f s t \<longleftrightarrow> f t = f s"

lemma run_bind [monad_simps]:
  "run_state (State_Monad.bind m k) s = (case run_state m s of (a, s') \<Rightarrow> run_state (k a) s')"
  by (simp add: State_Monad.bind_def split: prod.split)

lemma run_return [monad_simps]: "run_state (State_Monad.return a) s = (a, s)"
  by (simp add: State_Monad.return_def)

lemma run_succeed [monad_simps]: "run_state (succeed a) s = (Inr a, s)"
  by (simp add: succeed_def run_return)

lemma run_failWith [monad_simps]: "run_state (failWith er) s = (Inl er, s)"
  by (simp add: failWith_def run_return)

lemma run_orReturn [monad_simps]:
  "run_state (orReturn m h k) s =
     (case run_state m s of
        (Inl er, s') \<Rightarrow> (Inl (h er), s')
      | (Inr a, s') \<Rightarrow> run_state (k a) s')"
  by (simp add: orReturn_def run_bind run_failWith split: prod.split sum.split)

lemma run_mapErr [monad_simps]:
  "run_state (mapErr h m) s =
     (case run_state m s of (Inl er, s') \<Rightarrow> (Inl (h er), s') | (Inr a, s') \<Rightarrow> (Inr a, s'))"
  by (simp add: mapErr_def run_orReturn run_succeed split: prod.split sum.split)

text \<open>A program that returned a value got past every early return.\<close>

lemma orReturn_InrE:
  assumes "run_state (orReturn m h k) s = (Inr b, t)"
  obtains a s' where "run_state m s = (Inr a, s')" and "run_state (k a) s' = (Inr b, t)"
  using assms by (auto simp: run_orReturn split: prod.splits sum.splits)

lemma orReturn_Inr_iff:
  "run_state (orReturn m h k) s = (Inr b, t)
     \<longleftrightarrow> (\<exists>a s'. run_state m s = (Inr a, s') \<and> run_state (k a) s' = (Inr b, t))"
  by (auto simp: run_orReturn split: prod.splits sum.splits)

lemma mapErr_Inr_iff [simp]:
  "run_state (mapErr h m) s = (Inr a, t) \<longleftrightarrow> run_state m s = (Inr a, t)"
  by (auto simp: run_mapErr split: prod.splits sum.splits)

lemma snd_run_mapErr [simp]: "snd (run_state (mapErr h m) s) = snd (run_state m s)"
  by (auto simp: run_mapErr split: prod.splits sum.splits)

text \<open>Reflexive and transitive relations on the state are kept by every way of composing programs.
  Invariants (\<^const>\<open>preserving\<close>) and frame conditions (\<^const>\<open>framing\<close>) are instances.\<close>

locale state_preorder =
  fixes R :: "'s \<Rightarrow> 's \<Rightarrow> bool"
  assumes R_refl: "R s s"
    and R_trans: "R s t \<Longrightarrow> R t u \<Longrightarrow> R s u"
begin

lemma steps_return: "steps R (State_Monad.return a)"
  by (simp add: steps_def run_return R_refl)

lemma steps_succeed: "steps R (succeed a)"
  by (simp add: succeed_def steps_return)

lemma steps_failWith: "steps R (failWith er)"
  by (simp add: failWith_def steps_return)

lemma steps_bind:
  assumes "steps R m" "\<And>a. steps R (k a)"
  shows "steps R (State_Monad.bind m k)"
  using assms by (auto simp: steps_def run_bind split: prod.split) (metis R_trans snd_conv)

lemma steps_orReturn:
  assumes "steps R m" "\<And>a. steps R (k a)"
  shows "steps R (orReturn m h k)"
  unfolding orReturn_def
  by (rule steps_bind) (auto simp: assms steps_failWith split: sum.split)

text \<open>The continuation need only be related for values the first program can return.\<close>

lemma steps_orReturn_run:
  assumes "steps R m" "\<And>s a s'. run_state m s = (Inr a, s') \<Longrightarrow> steps R (k a)"
  shows "steps R (orReturn m h k)"
  unfolding steps_def
proof
  fix s
  obtain x s' where x: "run_state m s = (x, s')"
    by fastforce
  then have "R s s'"
    using assms(1) by (metis steps_def snd_conv)
  then show "R s (snd (run_state (orReturn m h k) s))"
    using assms(2) x R_trans [of s s'] by (cases x) (auto simp: run_orReturn steps_def)
qed

lemma steps_mapErr: "steps R m \<Longrightarrow> steps R (mapErr h m)"
  by (simp add: mapErr_def steps_orReturn steps_succeed)

lemma steps_if: "steps R m \<Longrightarrow> steps R n \<Longrightarrow> steps R (if b then m else n)"
  by simp

lemma steps_option: "steps R m \<Longrightarrow> (\<And>a. steps R (k a)) \<Longrightarrow> steps R (case x of None \<Rightarrow> m | Some a \<Rightarrow> k a)"
  by (simp split: option.split)

lemma steps_sum: "(\<And>a. steps R (h a)) \<Longrightarrow> (\<And>a. steps R (k a)) \<Longrightarrow> steps R (case x of Inl a \<Rightarrow> h a | Inr a \<Rightarrow> k a)"
  by (simp split: sum.split)

lemma steps_prod: "(\<And>a b. steps R (k a b)) \<Longrightarrow> steps R (case x of (a, b) \<Rightarrow> k a b)"
  by (simp split: prod.split)

lemma steps_Let: "(\<And>a. steps R (k a)) \<Longrightarrow> steps R (Let x k)"
  by simp

lemma steps_run: "steps R m \<Longrightarrow> run_state m s = (r, t) \<Longrightarrow> R s t"
  unfolding steps_def by (metis snd_conv)

lemmas steps_intros =
  steps_return steps_succeed steps_failWith steps_bind steps_orReturn steps_mapErr steps_if
  steps_option steps_sum steps_prod steps_Let

end

interpretation inv: state_preorder "preserving I" for I
  by unfold_locales (auto simp: preserving_def)

interpretation frm: state_preorder "framing f" for f
  by unfold_locales (auto simp: framing_def)

end
