(* ===== verification/GoStrings.thy ===== *)
theory GoStrings
  imports Prelude "HOL-Library.Sublist"
begin

text \<open>The functions of Go's package \<^verbatim>\<open>strings\<close> the sources call, on byte strings, with the facts about
  splitting and joining white-space separated lists that the scope theories rest on.\<close>

section \<open>Byte strings\<close>

text \<open>A Go string is a byte sequence, which is what \<^typ>\<open>string\<close> is. \<^verbatim>\<open>space_len s\<close> is the byte length of
  the white-space rune (\<^verbatim>\<open>unicode.IsSpace\<close>) at the head of \<open>s\<close>, or 0. The lead bytes of the multi-byte
  spaces never occur inside another rune, so matching bytes is the same as decoding runes.\<close>

definition byte_code :: "char \<Rightarrow> nat" where
  "byte_code c = of_char c"

fun space_codes :: "nat list \<Rightarrow> nat" where
  "space_codes [] = 0"
| "space_codes (a # cs) =
     (if a = 32 \<or> (9 \<le> a \<and> a \<le> 13) then 1
      else case cs of
        [] \<Rightarrow> 0
      | b # ds \<Rightarrow>
          if a = 194 \<and> (b = 133 \<or> b = 160) then 2
          else case ds of
            [] \<Rightarrow> 0
          | c # _ \<Rightarrow>
              if a = 225 \<and> b = 154 \<and> c = 128
                 \<or> a = 226 \<and> b = 128 \<and> (128 \<le> c \<and> c \<le> 138 \<or> c = 168 \<or> c = 169 \<or> c = 175)
                 \<or> a = 226 \<and> b = 129 \<and> c = 159
                 \<or> a = 227 \<and> b = 128 \<and> c = 128
              then 3 else 0)"

definition space_len :: "string \<Rightarrow> nat" where
  "space_len s = space_codes (map byte_code (take 3 s))"

text \<open>\<^verbatim>\<open>strings.Fields\<close>: the maximal runs of bytes between white-space runes; \<open>cur\<close> is the run being read.\<close>

function fields_from :: "string \<Rightarrow> string \<Rightarrow> string list" where
  "fields_from cur [] = (if cur = [] then [] else [cur])"
| "fields_from cur (c # cs) =
     (case space_len (c # cs) of
        0 \<Rightarrow> fields_from (cur @ [c]) cs
      | Suc n \<Rightarrow> (if cur = [] then [] else [cur]) @ fields_from [] (drop n cs))"
  by pat_completeness auto
termination
  by (relation "measure (\<lambda>(_, s). length s)") auto

definition strings_Fields :: "string \<Rightarrow> string list" where
  "strings_Fields s = fields_from [] s"

text \<open>\<^verbatim>\<open>strings.TrimSpace\<close>: white-space runes are cut at both ends.\<close>

function trim_left :: "string \<Rightarrow> string" where
  "trim_left [] = []"
| "trim_left (c # cs) =
     (case space_len (c # cs) of 0 \<Rightarrow> c # cs | Suc n \<Rightarrow> trim_left (drop n cs))"
  by pat_completeness auto
termination
  by (relation "measure length") auto

fun trim_right :: "string \<Rightarrow> string" where
  "trim_right [] = []"
| "trim_right (c # cs) = (if trim_left (c # cs) = [] then [] else c # trim_right cs)"

definition strings_TrimSpace :: "string \<Rightarrow> string" where
  "strings_TrimSpace s = trim_right (trim_left s)"

fun strings_Join :: "string list \<Rightarrow> string \<Rightarrow> string" where
  "strings_Join [] sep = []"
| "strings_Join [s] sep = s"
| "strings_Join (s # t # ss) sep = s @ sep @ strings_Join (t # ss) sep"

text \<open>\<^verbatim>\<open>strings.ReplaceAll(s, c, "")\<close> for a one-byte \<open>c\<close>.\<close>

definition strings_Remove :: "char \<Rightarrow> string \<Rightarrow> string" where
  "strings_Remove c s = filter (\<lambda>d. d \<noteq> c) s"

text \<open>\<^verbatim>\<open>strings.Split(s, c)\<close> for a one-byte \<open>c\<close>: one piece more than there are separators.\<close>

fun strings_Split :: "char \<Rightarrow> string \<Rightarrow> string list" where
  "strings_Split c [] = [[]]"
| "strings_Split c (d # s) =
     (if d = c then [] # strings_Split c s
      else case strings_Split c s of [] \<Rightarrow> [[d]] | p # ps \<Rightarrow> (d # p) # ps)"

definition strings_HasPrefix :: "string \<Rightarrow> string \<Rightarrow> bool" where
  "strings_HasPrefix s p = prefix p s"

definition strings_TrimPrefix :: "string \<Rightarrow> string \<Rightarrow> string" where
  "strings_TrimPrefix s p = (if prefix p s then drop (length p) s else s)"

text \<open>ASCII case mapping; \<^verbatim>\<open>strings.ToUpper\<close> and \<^verbatim>\<open>strings.ToLower\<close> consult the Unicode tables only for
  a string with a byte above 127, where the table lookup is the parameter \<open>uni\<close>.\<close>

definition is_ascii :: "string \<Rightarrow> bool" where
  "is_ascii s = list_all (\<lambda>c. byte_code c < 128) s"

definition ascii_upper :: "char \<Rightarrow> char" where
  "ascii_upper c = (if 97 \<le> byte_code c \<and> byte_code c \<le> 122 then char_of (byte_code c - 32) else c)"

definition ascii_lower :: "char \<Rightarrow> char" where
  "ascii_lower c = (if 65 \<le> byte_code c \<and> byte_code c \<le> 90 then char_of (byte_code c + 32) else c)"

definition strings_ToUpper :: "(string \<Rightarrow> string) \<Rightarrow> string \<Rightarrow> string" where
  "strings_ToUpper uni s = (if is_ascii s then map ascii_upper s else uni s)"

definition strings_ToLower :: "(string \<Rightarrow> string) \<Rightarrow> string \<Rightarrow> string" where
  "strings_ToLower uni s = (if is_ascii s then map ascii_lower s else uni s)"

section \<open>Splitting and joining\<close>

text \<open>A word: no white-space rune starts anywhere in it.\<close>

fun spaceless :: "string \<Rightarrow> bool" where
  "spaceless [] = True"
| "spaceless (c # cs) = (space_len (c # cs) = 0 \<and> spaceless cs)"

lemma space_codes_3: "space_codes (a # b # c # ds) = space_codes [a, b, c]"
  by simp

lemma space_codes_cases:
  obtains "xs = []" | a where "xs = [a]" | a b where "xs = [a, b]" | a b c ds where "xs = a # b # c # ds"
  by (metis list.exhaust)

lemma space_codes_le: "space_codes xs \<le> length xs"
proof (cases xs rule: space_codes_cases)
  case (4 a b c ds)
  have "space_codes [a, b, c] \<le> 3"
    by simp
  then show ?thesis
    by (simp only: 4 space_codes_3 [of a b c ds] list.size)
qed auto

lemma space_codes_append: "0 < space_codes xs \<Longrightarrow> space_codes (xs @ ys) = space_codes xs"
proof (cases xs rule: space_codes_cases)
  case (4 a b c ds)
  show ?thesis
    by (simp only: 4 append_Cons space_codes_3 [of a b c ds] space_codes_3 [of a b c "ds @ ys"])
next
  case (2 a)
  then show "0 < space_codes xs \<Longrightarrow> space_codes (xs @ ys) = space_codes xs"
    by (simp split: if_split_asm, blast)
next
  case (3 a b)
  then show "0 < space_codes xs \<Longrightarrow> space_codes (xs @ ys) = space_codes xs"
    by (simp split: if_split_asm; blast)
qed simp

lemma space_codes_space: "xs \<noteq> [] \<Longrightarrow> space_codes (xs @ 32 # ys) = space_codes xs"
proof (cases xs rule: space_codes_cases)
  case (4 a b c ds)
  show ?thesis
    by (simp only: 4 append_Cons space_codes_3 [of a b c ds] space_codes_3 [of a b c "ds @ 32 # ys"])
qed (auto split: list.split)

lemma space_codes_take: "space_codes (take 3 xs) = space_codes xs"
  by (cases xs rule: space_codes_cases) (auto simp: numeral_eq_Suc)

lemma space_len_codes: "space_len s = space_codes (map byte_code s)"
  by (simp add: space_len_def take_map [symmetric] space_codes_take)

lemma space_len_le: "space_len s \<le> length s"
  using space_codes_le [of "map byte_code s"] by (simp add: space_len_codes)

lemma space_len_append: "0 < space_len s \<Longrightarrow> space_len (s @ t) = space_len s"
  by (simp add: space_len_codes space_codes_append)

lemma space_len_append_space: "s \<noteq> [] \<Longrightarrow> space_len (s @ CHR '' '' # t) = space_len s"
  by (simp add: space_len_codes space_codes_space byte_code_def)

lemma space_len_space [simp]: "space_len (CHR '' '' # t) = 1"
  by (simp add: space_len_codes byte_code_def split: list.split)

lemma spaceless_snocI:
  assumes "spaceless cur" "\<And>n. n < length cur \<Longrightarrow> space_len (drop n cur @ c # cs) = 0" "space_len (c # cs) = 0"
  shows "spaceless (cur @ [c])"
  using assms
proof (induction cur)
  case Nil
  then show ?case
    using space_len_append [of "[c]" cs] by fastforce
next
  case (Cons a cur)
  have "space_len (a # cur @ c # cs) = 0"
    using Cons.prems(2) [of 0] by simp
  then have "space_len (a # cur @ [c]) = 0"
    using space_len_append [of "a # cur @ [c]" cs] by fastforce
  moreover have "spaceless (cur @ [c])"
    using Cons.prems(1) Cons.prems(2) [of "Suc _"] Cons.prems(3) by (intro Cons.IH) auto
  ultimately show ?case
    by simp
qed

lemma fields_from_words:
  assumes "spaceless cur" "\<And>n. n < length cur \<Longrightarrow> space_len (drop n cur @ s) = 0" "w \<in> set (fields_from cur s)"
  shows "spaceless w \<and> w \<noteq> []"
  using assms
proof (induction cur s rule: fields_from.induct)
  case (1 cur)
  then show ?case
    by (auto split: if_splits)
next
  case (2 cur c cs)
  show ?case
  proof (cases "space_len (c # cs)")
    case 0
    have "n < length (cur @ [c]) \<Longrightarrow> space_len (drop n (cur @ [c]) @ cs) = 0" for n
      using "2.prems"(2) [of n] 0 by (cases "n < length cur") auto
    then show ?thesis
      using 2 0 spaceless_snocI [of cur c cs] by auto
  next
    case (Suc n)
    then show ?thesis
      using 2 by (auto split: if_splits)
  qed
qed

lemma Fields_words: "w \<in> set (strings_Fields s) \<Longrightarrow> spaceless w \<and> w \<noteq> []"
  unfolding strings_Fields_def by (rule fields_from_words [of "[]" s]) auto

lemma fields_from_spaceless: "spaceless w \<Longrightarrow> fields_from cur w = (if cur @ w = [] then [] else [cur @ w])"
  by (induction w arbitrary: cur) auto

lemma Fields_word [simp]: "spaceless w \<Longrightarrow> w \<noteq> [] \<Longrightarrow> strings_Fields w = [w]"
  by (simp add: strings_Fields_def fields_from_spaceless)

lemma fields_from_append_space:
  "fields_from cur (a @ CHR '' '' # b) = fields_from cur a @ fields_from [] b"
proof (induction cur a rule: fields_from.induct)
  case (1 cur)
  then show ?case
    by simp
next
  case (2 cur c cs)
  have eq: "space_len (c # cs @ CHR '' '' # b) = space_len (c # cs)"
    using space_len_append_space [of "c # cs" b] by simp
  show ?case
  proof (cases "space_len (c # cs)")
    case 0
    then show ?thesis
      using 2 eq by simp
  next
    case (Suc n)
    then have "n \<le> length cs"
      using space_len_le [of "c # cs"] by simp
    then show ?thesis
      using 2 eq Suc by simp
  qed
qed

lemma Fields_append_space: "strings_Fields (a @ CHR '' '' # b) = strings_Fields a @ strings_Fields b"
  by (simp add: strings_Fields_def fields_from_append_space)

lemma Fields_Nil [simp]: "strings_Fields [] = []"
  by (simp add: strings_Fields_def)

lemma Fields_Join: "strings_Fields (strings_Join ss '' '') = concat (map strings_Fields ss)"
proof (induction ss "'' ''" rule: strings_Join.induct)
  case (3 s t ss)
  then show ?case
    using Fields_append_space [of s "strings_Join (t # ss) '' ''"] by simp
qed simp_all

lemma Fields_Join_words:
  "\<forall>w \<in> set ws. spaceless w \<and> w \<noteq> [] \<Longrightarrow> strings_Fields (strings_Join ws '' '') = ws"
  unfolding Fields_Join by (induction ws) auto

lemma Fields_Join_Fields [simp]: "strings_Fields (strings_Join (strings_Fields s) '' '') = strings_Fields s"
  by (rule Fields_Join_words) (simp add: Fields_words)

lemma fields_from_nonempty: "cur \<noteq> [] \<Longrightarrow> fields_from cur t \<noteq> []"
  by (induction cur t rule: fields_from.induct) (auto split: nat.split)

lemma trim_left_Nil_iff: "trim_left s = [] \<longleftrightarrow> fields_from [] s = []"
  by (induction s rule: trim_left.induct) (auto simp: fields_from_nonempty split: nat.split)

lemma TrimSpace_Nil_iff: "strings_TrimSpace s = [] \<longleftrightarrow> strings_Fields s = []"
proof -
  have "trim_left (trim_left s) = trim_left s"
    by (induction s rule: trim_left.induct) (auto split: nat.split)
  then have "trim_right (trim_left s) = [] \<longleftrightarrow> trim_left s = []"
    by (cases "trim_left s") auto
  then show ?thesis
    by (simp add: strings_TrimSpace_def strings_Fields_def trim_left_Nil_iff)
qed

lemma TrimSpace_id:
  assumes "\<forall>c \<in> set s. 32 < byte_code c \<and> byte_code c < 128"
  shows "strings_TrimSpace s = s"
proof -
  have 1: "trim_left t = t" if "\<forall>c \<in> set t. 32 < byte_code c \<and> byte_code c < 128" for t
    using that by (cases t) (auto simp: space_len_def split: list.split)
  have "trim_right s = s"
    using assms
  proof (induction s)
    case (Cons c s)
    then show ?case
      using 1 [of "c # s"] by simp
  qed simp
  then show ?thesis
    using 1 [OF assms] by (simp add: strings_TrimSpace_def)
qed

end
