(* ===== verification/Crypto.thy ===== *)
theory Crypto
  imports GoStrings
begin

unbundle bit_operations_syntax

text \<open>The parts of Go's standard library behind token hashes: SHA-256 (\<^verbatim>\<open>crypto/sha256\<close>) on byte strings and
  unpadded base64url (\<^verbatim>\<open>encoding/base64.RawURLEncoding\<close>), both executable.\<close>

definition byte_codes :: "string \<Rightarrow> int list" where
  "byte_codes s = map (\<lambda>c. int (byte_code c)) s"

section \<open>SHA-256\<close>

text \<open>The round constants are the first 32 bits of the fractional parts of the cube roots of the first 64
  primes, written in decimal.\<close>

definition sha256_k :: "32 word list" where
  "sha256_k =
    [1116352408, 1899447441, 3049323471, 3921009573, 961987163, 1508970993,
     2453635748, 2870763221, 3624381080, 310598401, 607225278, 1426881987,
     1925078388, 2162078206, 2614888103, 3248222580, 3835390401, 4022224774,
     264347078, 604807628, 770255983, 1249150122, 1555081692, 1996064986,
     2554220882, 2821834349, 2952996808, 3210313671, 3336571891, 3584528711,
     113926993, 338241895, 666307205, 773529912, 1294757372, 1396182291,
     1695183700, 1986661051, 2177026350, 2456956037, 2730485921, 2820302411,
     3259730800, 3345764771, 3516065817, 3600352804, 4094571909, 275423344,
     430227734, 506948616, 659060556, 883997877, 958139571, 1322822218,
     1537002063, 1747873779, 1955562222, 2024104815, 2227730452, 2361852424,
     2428436474, 2756734187, 3204031479, 3329325298]"

definition sha256_init :: "32 word list" where
  "sha256_init =
    [1779033703, 3144134277, 1013904242, 2773480762, 1359893119, 2600822924, 528734635, 1541459225]"

definition rotr32 :: "nat \<Rightarrow> 32 word \<Rightarrow> 32 word" where
  "rotr32 n x = drop_bit n x OR push_bit (32 - n) x"

fun be_words :: "int list \<Rightarrow> 32 word list" where
  "be_words (a # b # c # d # bs) = word_of_int (((a * 256 + b) * 256 + c) * 256 + d) # be_words bs"
| "be_words _ = []"

definition be_bytes :: "32 word \<Rightarrow> int list" where
  "be_bytes x = (let n = uint x in [n div 16777216, n div 65536 mod 256, n div 256 mod 256, n mod 256])"

text \<open>The message schedule, newest word first.\<close>

fun sha256_extend :: "nat \<Rightarrow> 32 word list \<Rightarrow> 32 word list" where
  "sha256_extend 0 ws = ws"
| "sha256_extend (Suc n) ws =
     (let a = ws ! 1; b = ws ! 14;
          s1 = rotr32 17 a XOR rotr32 19 a XOR drop_bit 10 a;
          s0 = rotr32 7 b XOR rotr32 18 b XOR drop_bit 3 b
      in sha256_extend n ((s1 + ws ! 6 + s0 + ws ! 15) # ws))"

fun sha256_round :: "32 word \<times> 32 word \<Rightarrow> 32 word list \<Rightarrow> 32 word list" where
  "sha256_round (k, x) [a, b, c, d, e, f, g, h] =
     (let s1 = rotr32 6 e XOR rotr32 11 e XOR rotr32 25 e;
          ch = (e AND f) XOR (NOT e AND g);
          t1 = h + s1 + ch + k + x;
          s0 = rotr32 2 a XOR rotr32 13 a XOR rotr32 22 a;
          maj = (a AND b) XOR (a AND c) XOR (b AND c)
      in [t1 + s0 + maj, a, b, c, d + t1, e, f, g])"
| "sha256_round _ hs = hs"

definition sha256_block :: "int list \<Rightarrow> 32 word list \<Rightarrow> 32 word list" where
  "sha256_block bs hs =
     map2 (+) hs (fold sha256_round (zip sha256_k (rev (sha256_extend 48 (rev (be_words bs))))) hs)"

definition sha256_pad :: "int list \<Rightarrow> int list" where
  "sha256_pad bs =
     (let n = length bs
      in bs @ [128] @ replicate ((119 - n mod 64) mod 64) 0
         @ map (\<lambda>i. 8 * int n div 256 ^ i mod 256) [7, 6, 5, 4, 3, 2, 1, 0])"

function sha256_blocks :: "int list \<Rightarrow> 32 word list \<Rightarrow> 32 word list" where
  "sha256_blocks bs hs =
     (if bs = [] then hs else sha256_blocks (drop 64 bs) (sha256_block (take 64 bs) hs))"
  by pat_completeness auto
termination
  by (relation "measure (\<lambda>(bs, _). length bs)") auto

declare sha256_blocks.simps [simp del]

definition sha256 :: "string \<Rightarrow> string" where
  "sha256 s = map char_of (concat (map be_bytes (sha256_blocks (sha256_pad (byte_codes s)) sha256_init)))"

section \<open>base64url without padding\<close>

definition b64_alphabet :: string where
  "b64_alphabet = ''ABCDEFGHIJKLMNOPQRSTUVWXYZabcdefghijklmnopqrstuvwxyz0123456789-_''"

definition b64_char :: "int \<Rightarrow> char" where
  "b64_char n = b64_alphabet ! nat (n mod 64)"

fun b64_bytes :: "int list \<Rightarrow> string" where
  "b64_bytes (a # b # c # bs) =
     b64_char (a div 4) # b64_char (a mod 4 * 16 + b div 16) # b64_char (b mod 16 * 4 + c div 64)
     # b64_char c # b64_bytes bs"
| "b64_bytes [a, b] = [b64_char (a div 4), b64_char (a mod 4 * 16 + b div 16), b64_char (b mod 16 * 4)]"
| "b64_bytes [a] = [b64_char (a div 4), b64_char (a mod 4 * 16)]"
| "b64_bytes [] = []"

definition b64url :: "string \<Rightarrow> string" where
  "b64url s = b64_bytes (byte_codes s)"

text \<open>The encoding loses nothing, so two tokens with the same stored hash collide under SHA-256.\<close>

lemma b64_char_inj: "0 \<le> m \<Longrightarrow> m < 64 \<Longrightarrow> 0 \<le> n \<Longrightarrow> n < 64 \<Longrightarrow> b64_char m = b64_char n \<longleftrightarrow> m = n"
proof -
  assume "0 \<le> m" "m < 64" "0 \<le> n" "n < 64"
  moreover have "distinct b64_alphabet" "length b64_alphabet = 64"
    by (simp_all add: b64_alphabet_def)
  ultimately show ?thesis
    by (simp add: b64_char_def nth_eq_iff_index_eq nat_less_iff eq_nat_nat_iff)
qed

lemma b64_char_mod: "b64_char n = b64_char (n mod 64)"
  by (simp add: b64_char_def)

definition byte_range :: "int \<Rightarrow> bool" where
  "byte_range n \<longleftrightarrow> 0 \<le> n \<and> n < 256"

lemma b64_digit1: "byte_range a \<Longrightarrow> 0 \<le> a div 4 \<and> a div 4 < 64"
  unfolding byte_range_def by presburger

lemma byte_high4: "byte_range b \<Longrightarrow> 0 \<le> b div 16 \<and> b div 16 < 16"
  unfolding byte_range_def by presburger

lemma byte_high2: "byte_range b \<Longrightarrow> 0 \<le> b div 64 \<and> b div 64 < 4"
  unfolding byte_range_def by presburger

lemma b64_digit2: "byte_range b \<Longrightarrow> 0 \<le> a mod 4 * 16 + b div 16 \<and> a mod 4 * 16 + b div 16 < 64"
  using byte_high4 [of b] pos_mod_bound [of 4 a] pos_mod_sign [of 4 a] by linarith

lemma b64_digit3: "byte_range c \<Longrightarrow> 0 \<le> b mod 16 * 4 + c div 64 \<and> b mod 16 * 4 + c div 64 < 64"
  using byte_high2 [of c] pos_mod_bound [of 16 b] pos_mod_sign [of 16 b] by linarith

lemma radix_eq:
  fixes p q r t m :: int
  assumes "p * m + q = r * m + t" "0 \<le> q \<and> q < m" "0 \<le> t \<and> t < m"
  shows "p = r \<and> q = t"
proof -
  have "p = (p * m + q) div m" "r = (r * m + t) div m"
    using assms(2,3) by simp_all
  then show ?thesis
    using assms(1) by simp
qed

lemma b64_digit2_eq:
  assumes "byte_range b" "byte_range y" "a mod 4 * 16 + b div 16 = x mod 4 * 16 + y div 16"
  shows "a mod 4 = x mod 4 \<and> b div 16 = y div 16"
  using radix_eq [OF assms(3) byte_high4 byte_high4] assms(1,2) by blast

lemma b64_digit3_eq:
  assumes "byte_range c" "byte_range z" "b mod 16 * 4 + c div 64 = y mod 16 * 4 + z div 64"
  shows "b mod 16 = y mod 16 \<and> c div 64 = z div 64"
  using radix_eq [OF assms(3) byte_high2 byte_high2] assms(1,2) by blast

lemma div_mod_eq: "(a :: int) div k = b div k \<Longrightarrow> a mod k = b mod k \<Longrightarrow> a = b"
  by (metis div_mult_mod_eq)

lemma b64_quad_inj:
  assumes "byte_range a" "byte_range b" "byte_range c" "byte_range x" "byte_range y" "byte_range z"
  shows "[b64_char (a div 4), b64_char (a mod 4 * 16 + b div 16), b64_char (b mod 16 * 4 + c div 64), b64_char c]
       = [b64_char (x div 4), b64_char (x mod 4 * 16 + y div 16), b64_char (y mod 16 * 4 + z div 64), b64_char z]
     \<longleftrightarrow> a = x \<and> b = y \<and> c = z" (is "?l = ?r \<longleftrightarrow> _")
proof
  assume eq: "?l = ?r"
  note digits = assms [THEN b64_digit1] assms [THEN b64_digit2] assms [THEN b64_digit3]
  have "a div 4 = x div 4"
    using eq digits by (simp add: b64_char_inj)
  moreover have "a mod 4 * 16 + b div 16 = x mod 4 * 16 + y div 16"
    using eq digits by (simp add: b64_char_inj)
  moreover have "b mod 16 * 4 + c div 64 = y mod 16 * 4 + z div 64"
    using eq digits by (simp add: b64_char_inj)
  moreover have "c mod 64 = z mod 64"
    using eq b64_char_mod [of c] b64_char_mod [of z] b64_char_inj [of "c mod 64" "z mod 64"] by simp
  ultimately show "a = x \<and> b = y \<and> c = z"
    using b64_digit2_eq [OF assms(2,5)] b64_digit3_eq [OF assms(3,6)] by (metis div_mod_eq)
qed simp

lemma b64_bytes_inj:
  assumes "list_all byte_range xs" "list_all byte_range ys" "b64_bytes xs = b64_bytes ys"
  shows "xs = ys"
  using assms
proof (induction xs arbitrary: ys rule: b64_bytes.induct)
  case (1 a b c bs)
  then show ?case
    using b64_quad_inj [of a b c] by (cases ys rule: b64_bytes.cases) auto
next
  case (2 a b)
  then show ?case
    using b64_quad_inj [of a b 0 _ _ 0] by (cases ys rule: b64_bytes.cases) (auto simp: byte_range_def)
next
  case (3 a)
  then show ?case
    using b64_quad_inj [of a 0 0 _ 0 0] by (cases ys rule: b64_bytes.cases) (auto simp: byte_range_def)
next
  case 4
  then show ?case
    by (cases ys rule: b64_bytes.cases) auto
qed

lemma b64url_inj: "b64url s = b64url t \<longleftrightarrow> s = t"
proof
  have r: "list_all byte_range (byte_codes u)" for u
    using nat_of_char_less_256 by (auto simp: byte_range_def list_all_iff byte_codes_def byte_code_def)
  assume "b64url s = b64url t"
  then have "byte_codes s = byte_codes t"
    unfolding b64url_def using b64_bytes_inj [OF r r] by blast
  then show "s = t"
    unfolding byte_codes_def by (rule map_injective) (simp add: inj_def byte_code_def)
qed simp

lemma sha256_round_length: "length (sha256_round kx hs) = length hs"
  by (induction kx hs rule: sha256_round.induct) (simp_all add: Let_def)

lemma sha256_block_length: "length (sha256_block bs hs) = length hs"
proof -
  have "length (fold sha256_round xs gs) = length gs" for xs gs
    by (induction xs arbitrary: gs) (simp_all add: sha256_round_length)
  then show ?thesis
    by (simp add: sha256_block_def)
qed

lemma sha256_blocks_length: "length (sha256_blocks bs hs) = length hs"
proof (induction bs hs rule: sha256_blocks.induct)
  case (1 bs hs)
  then show ?case
    by (subst sha256_blocks.simps) (simp add: sha256_block_length)
qed

lemma sha256_length: "length (sha256 s) = 32"
proof -
  have "length (concat (map be_bytes ws)) = 4 * length ws" for ws
    by (induction ws) (simp_all add: be_bytes_def Let_def)
  then show ?thesis
    by (simp add: sha256_def sha256_blocks_length sha256_init_def)
qed

lemma b64_bytes_Nil_iff: "b64_bytes xs = [] \<longleftrightarrow> xs = []"
  by (cases xs rule: b64_bytes.cases) auto

lemma b64url_sha256_nonempty: "b64url (sha256 s) \<noteq> []"
  using sha256_length [of s] by (auto simp: b64url_def b64_bytes_Nil_iff byte_codes_def)

end
