(* ===== verification/Models.thy ===== *)
theory Models
  imports Crypto
begin

text \<open>The data of package \<^verbatim>\<open>models\<close> (\<^verbatim>\<open>internal/models/models.go\<close>): the sentinel errors, the rows of the
  tables, the protocol messages and claim sets, and the predicates declared on them. A pointer
  is an option, a nil or empty slice is the empty list. Methods that read the clock take the
  time as an argument. Field names carry the initials of their struct.\<close>

type_synonym uuid = "128 word"

abbreviation uuid_Nil :: uuid where
  "uuid_Nil \<equiv> 0"

section \<open>Errors\<close>

text \<open>One constructor per sentinel; \<open>ErrMsg\<close> is an error made by \<^verbatim>\<open>errors.New\<close> or \<^verbatim>\<open>fmt.Errorf\<close> on the spot,
  \<open>Wrapped m e\<close> is \<^verbatim>\<open>fmt.Errorf("m: %w", e)\<close>, \<open>DBError\<close> a failed statement and \<open>UniqueViolation\<close> a statement
  refused by a unique index. Comparing with \<open>==\<close> is equality, \<^verbatim>\<open>errors.Is\<close> also looks through wrapping.\<close>

datatype err =
    ErrResourceNotFound | ErrResourceConflict | ErrDuplicateResource | ErrBusinessRuleViolation
  | ErrTenantNotFound | ErrUserNotFound | ErrClientNotFound | ErrAuthCodeNotFound
  | ErrAccessTokenNotFound | ErrRefreshTokenNotFound | ErrInvalidCredentials | ErrInvalidClient
  | ErrInvalidGrant | ErrInvalidScope | ErrInsufficientScope | ErrSessionNotFound
  | ErrExpiredToken | ErrRevokedToken | ErrInvalidToken | ErrInsufficientPermissions
  | ErrTenantMismatch | ErrRoleNotFound | ErrPermissionNotFound | ErrPermissionDenied
  | ErrUserLocked | ErrUserSuspended | ErrUserPending | ErrEmailNotVerified
  | ErrInvalidVerificationCode | ErrVerificationExpired | ErrEmailAlreadyVerified
  | ErrMFANotEnabled | ErrMFAAlreadyEnabled | ErrMFANotEnrolling | ErrInvalidMFACode
  | ErrMFALocked | ErrInitialAccessTokenNotFound | ErrPKCEVerificationFailed
  | ErrAuthCodeAlreadyUsed | ErrUnauthorizedClient | ErrDeviceCodeNotFound
  | ErrAuthorizationPending | ErrSlowDown | ErrExpiredDeviceCode | ErrDeviceAccessDenied
  | RegistrationError string string
  | ErrMsg string
  | Wrapped string err
  | DBError
  | UniqueViolation

fun errors_Is :: "err \<Rightarrow> err \<Rightarrow> bool" where
  "errors_Is (Wrapped m e) t = (Wrapped m e = t \<or> errors_Is e t)"
| "errors_Is e t = (e = t)"

section \<open>Status values and identifiers\<close>

text \<open>Status columns are strings; the last constructor stands for any value the code does not name.\<close>

datatype UserStatus =
  UserStatusActive | UserStatusSuspended | UserStatusPending | UserStatusLocked | UserStatusOther string

datatype DeviceCodeStatus = DeviceCodePending | DeviceCodeApproved | DeviceCodeDenied | DeviceCodeOther string

definition GrantTypeAuthorizationCode :: string where
  "GrantTypeAuthorizationCode = ''authorization_code''"

definition GrantTypeRefreshToken :: string where
  "GrantTypeRefreshToken = ''refresh_token''"

definition GrantTypeClientCredentials :: string where
  "GrantTypeClientCredentials = ''client_credentials''"

definition GrantTypeDeviceCode :: string where
  "GrantTypeDeviceCode = ''urn:ietf:params:oauth:grant-type:device_code''"

definition GrantTypeTokenExchange :: string where
  "GrantTypeTokenExchange = ''urn:ietf:params:oauth:grant-type:token-exchange''"

definition TokenTypeAccessToken :: string where
  "TokenTypeAccessToken = ''urn:ietf:params:oauth:token-type:access_token''"

section \<open>Rows\<close>

record Tenant =
  t_ID :: uuid
  t_Name :: string
  t_Domain :: string
  t_IsActive :: bool
  t_CreatedAt :: go_time
  t_UpdatedAt :: go_time
  t_DeletedAt :: "go_time option"

text \<open>The columns of \<^verbatim>\<open>users\<close> that no code under \<^verbatim>\<open>src/\<close> reads (the two legacy code/token pairs and the free-form
  metadata) are left out.\<close>

record User =
  u_ID :: uuid
  u_TenantID :: uuid
  u_Username :: string
  u_Email :: string
  u_PasswordHash :: string
  u_Status :: UserStatus
  u_EmailVerified :: bool
  u_PhoneNumber :: string
  u_PhoneVerified :: bool
  u_FirstName :: string
  u_LastName :: string
  u_Avatar :: string
  u_Locale :: string
  u_Timezone :: string
  u_LastLoginAt :: "go_time option"
  u_LastLoginIP :: string
  u_FailedLoginAttempts :: int
  u_LockedAt :: "go_time option"
  u_LockedUntil :: "go_time option"
  u_CreatedAt :: go_time
  u_UpdatedAt :: go_time
  u_DeletedAt :: "go_time option"

record Client =
  c_ID :: uuid
  c_TenantID :: uuid
  c_ClientID :: string
  c_ClientSecret :: string
  c_PlainClientSecret :: string
  c_Name :: string
  c_RedirectURIs :: "string list"
  c_PostLogoutRedirectURIs :: "string list"
  c_GrantTypes :: "string list"
  c_Scopes :: "string list"
  c_IsPublic :: bool
  c_TokenEndpointAuthMethod :: string
  c_DynamicallyRegistered :: bool
  c_RegistrationAccessToken :: string
  c_CreatedAt :: go_time
  c_UpdatedAt :: go_time
  c_DeletedAt :: "go_time option"

record AuthorizationCode =
  ac_ID :: uuid
  ac_TenantID :: uuid
  ac_Code :: string
  ac_ClientID :: uuid
  ac_UserID :: uuid
  ac_RedirectURI :: string
  ac_Scope :: string
  ac_CodeChallenge :: string
  ac_CodeChallengeMethod :: string
  ac_Nonce :: string
  ac_AuthTime :: "go_time option"
  ac_AMR :: "string list"
  ac_UsedAt :: "go_time option"
  ac_ExpiresAt :: go_time
  ac_CreatedAt :: go_time

record Session =
  s_ID :: uuid
  s_TenantID :: uuid
  s_UserID :: uuid
  s_TokenHash :: string
  s_AuthTime :: go_time
  s_AMR :: "string list"
  s_IPAddress :: string
  s_UserAgent :: string
  s_ExpiresAt :: go_time
  s_CreatedAt :: go_time

record Consent =
  co_ID :: uuid
  co_TenantID :: uuid
  co_UserID :: uuid
  co_ClientID :: uuid
  co_Scope :: string
  co_CreatedAt :: go_time
  co_UpdatedAt :: go_time

record AccessToken =
  at_ID :: uuid
  at_TenantID :: uuid
  at_Token :: string
  at_ClientID :: uuid
  at_UserID :: uuid
  at_FamilyID :: uuid
  at_Scope :: string
  at_ExpiresAt :: go_time
  at_CreatedAt :: go_time

record RefreshToken =
  rt_ID :: uuid
  rt_TenantID :: uuid
  rt_Token :: string
  rt_ClientID :: uuid
  rt_UserID :: uuid
  rt_FamilyID :: uuid
  rt_Scope :: string
  rt_AuthTime :: "go_time option"
  rt_AMR :: "string list"
  rt_RevokedAt :: "go_time option"
  rt_ExpiresAt :: go_time
  rt_CreatedAt :: go_time

record DeviceCode =
  dc_ID :: uuid
  dc_TenantID :: uuid
  dc_DeviceCode :: string
  dc_UserCode :: string
  dc_ClientID :: uuid
  dc_UserID :: "uuid option"
  dc_Scope :: string
  dc_Status :: DeviceCodeStatus
  dc_Interval :: int
  dc_LastPolledAt :: "go_time option"
  dc_AuthTime :: "go_time option"
  dc_AMR :: "string list"
  dc_ExpiresAt :: go_time
  dc_CreatedAt :: go_time

record EmailVerification =
  emv_ID :: uuid
  emv_TenantID :: uuid
  emv_UserID :: uuid
  emv_Email :: string
  emv_CodeHash :: string
  emv_ExpiresAt :: go_time
  emv_VerifiedAt :: "go_time option"
  emv_CreatedAt :: go_time

record PasswordReset =
  pr_ID :: uuid
  pr_TenantID :: uuid
  pr_UserID :: uuid
  pr_TokenHash :: string
  pr_ExpiresAt :: go_time
  pr_UsedAt :: "go_time option"
  pr_CreatedAt :: go_time

record UserMFA =
  m_UserID :: uuid
  m_TenantID :: uuid
  m_TOTPSecret :: string
  m_ConfirmedAt :: "go_time option"
  m_LastUsedStep :: int
  m_FailedAttempts :: int
  m_LockedUntil :: "go_time option"
  m_CreatedAt :: go_time
  m_UpdatedAt :: go_time

record MFARecoveryCode =
  rc_ID :: uuid
  rc_TenantID :: uuid
  rc_UserID :: uuid
  rc_CodeHash :: string
  rc_UsedAt :: "go_time option"
  rc_CreatedAt :: go_time

record InitialAccessToken =
  ia_ID :: uuid
  ia_TenantID :: uuid
  ia_TokenHash :: string
  ia_Description :: string
  ia_Scopes :: "string list"
  ia_MaxUses :: int
  ia_Uses :: int
  ia_CreatedBy :: "uuid option"
  ia_ExpiresAt :: go_time
  ia_RevokedAt :: "go_time option"
  ia_CreatedAt :: go_time

record Role =
  r_ID :: uuid
  r_TenantID :: uuid
  r_Name :: string
  r_DisplayName :: string
  r_Description :: string
  r_IsSystem :: bool
  r_IsActive :: bool
  r_CreatedAt :: go_time
  r_UpdatedAt :: go_time
  r_DeletedAt :: "go_time option"

record Permission =
  p_ID :: uuid
  p_Name :: string
  p_DisplayName :: string
  p_Description :: string
  p_Resource :: string
  p_Action :: string
  p_IsSystem :: bool
  p_CreatedAt :: go_time
  p_UpdatedAt :: go_time
  p_DeletedAt :: "go_time option"

text \<open>The relationship fields of roles and permissions are loaded by joins; they are not columns.\<close>

record UserRole =
  ur_ID :: uuid
  ur_TenantID :: uuid
  ur_UserID :: uuid
  ur_RoleID :: uuid
  ur_GrantedBy :: uuid
  ur_GrantedAt :: go_time
  ur_ExpiresAt :: "go_time option"

record RolePermission =
  rp_ID :: uuid
  rp_RoleID :: uuid
  rp_PermissionID :: uuid
  rp_GrantedBy :: uuid
  rp_GrantedAt :: go_time

record IdempotencyKey =
  ik_ID :: uuid
  ik_TenantID :: uuid
  ik_Principal :: string
  ik_Key :: string
  ik_Method :: string
  ik_Path :: string
  ik_RequestHash :: string
  ik_StatusCode :: int
  ik_ResponseContentType :: string
  ik_ResponseBody :: string
  ik_CreatedAt :: go_time
  ik_ExpiresAt :: go_time

section \<open>Protocol messages and claims\<close>

record TokenResponse =
  tr_AccessToken :: string
  tr_TokenType :: string
  tr_ExpiresIn :: int
  tr_RefreshToken :: string
  tr_IDToken :: string
  tr_Scope :: string

record TokenExchangeResponse =
  te_AccessToken :: string
  te_IssuedTokenType :: string
  te_TokenType :: string
  te_ExpiresIn :: int
  te_Scope :: string

record DeviceAuthorizationResponse =
  da_DeviceCode :: string
  da_UserCode :: string
  da_VerificationURI :: string
  da_VerificationURIComplete :: string
  da_ExpiresIn :: int
  da_Interval :: int

record IntrospectionResponse =
  ir_Active :: bool
  ir_Scope :: string
  ir_ClientID :: string
  ir_TokenType :: string
  ir_Sub :: string
  ir_UserID :: string
  ir_Exp :: int
  ir_Iat :: int
  ir_Iss :: string

record UserInfo =
  ui_Sub :: string
  ui_Name :: string
  ui_GivenName :: string
  ui_FamilyName :: string
  ui_PreferredUsername :: string
  ui_Picture :: string
  ui_Locale :: string
  ui_Zoneinfo :: string
  ui_UpdatedAt :: int
  ui_Email :: string
  ui_EmailVerified :: "bool option"
  ui_PhoneNumber :: string
  ui_PhoneNumberVerified :: "bool option"

record IDTokenParams =
  ip_ClientID :: string
  ip_Scope :: string
  ip_Nonce :: string
  ip_AuthTime :: "go_time option"
  ip_AMR :: "string list"
  ip_AccessToken :: string

record IDTokenClaims =
  ic_UserInfo :: UserInfo
  ic_Iss :: string
  ic_Aud :: string
  ic_Exp :: int
  ic_Iat :: int
  ic_AuthTime :: int
  ic_AMR :: "string list"
  ic_Nonce :: string
  ic_AtHash :: string
  ic_TenantID :: string

text \<open>The optional actor claim is the subject of the acting party.\<close>

record JWTClaims =
  jc_Jti :: string
  jc_Sub :: string
  jc_Aud :: string
  jc_Iss :: string
  jc_Exp :: int
  jc_Iat :: int
  jc_TenantID :: string
  jc_Scope :: string
  jc_ClientID :: string
  jc_UserID :: string
  jc_Email :: string
  jc_Name :: string
  jc_Act :: "string option"

datatype TokenEventType = TokenEventIssued | TokenEventRevoked | TokenEventReuseDetected

datatype Credential = CredentialNone | CredentialAuthorizationCode | CredentialRefreshToken

record TokenEvent =
  ev_Type :: TokenEventType
  ev_TenantID :: uuid
  ev_ClientID :: uuid
  ev_UserID :: "uuid option"
  ev_GrantType :: string
  ev_Scope :: string
  ev_FamilyID :: uuid
  ev_Credential :: Credential
  ev_Actor :: string

section \<open>E-mail\<close>

record EmailTemplate =
  et_ID :: uuid
  et_TenantID :: uuid
  et_Name :: string
  et_Subject :: string
  et_BodyHTML :: string
  et_BodyText :: string
  et_Variables :: "string list"
  et_IsActive :: bool
  et_CreatedAt :: go_time
  et_UpdatedAt :: go_time
  et_DeletedAt :: "go_time option"

record EmailQueue =
  eq_ID :: uuid
  eq_TenantID :: uuid
  eq_UserID :: "uuid option"
  eq_ToEmail :: string
  eq_ToName :: string
  eq_FromEmail :: string
  eq_FromName :: string
  eq_Subject :: string
  eq_BodyHTML :: string
  eq_BodyText :: string
  eq_Status :: string
  eq_Priority :: int
  eq_Attempts :: int
  eq_MaxAttempts :: int
  eq_LastError :: string
  eq_ScheduledAt :: go_time
  eq_SentAt :: "go_time option"
  eq_CreatedAt :: go_time
  eq_UpdatedAt :: go_time

text \<open>The variables of a message are a Go map, here with its entries in the order the map is read in.\<close>

record SendEmailRequest =
  sr_ToEmail :: string
  sr_ToName :: string
  sr_Template :: string
  sr_Variables :: "(string \<times> string) list"
  sr_Priority :: int

section \<open>Zero values\<close>

text \<open>Struct literals in the sources leave the fields they do not name at their zero values.\<close>

definition IntrospectionResponse_zero :: IntrospectionResponse where
  "IntrospectionResponse_zero = \<lparr>ir_Active = False, ir_Scope = [], ir_ClientID = [], ir_TokenType = [],
     ir_Sub = [], ir_UserID = [], ir_Exp = 0, ir_Iat = 0, ir_Iss = []\<rparr>"

definition UserInfo_zero :: UserInfo where
  "UserInfo_zero = \<lparr>ui_Sub = [], ui_Name = [], ui_GivenName = [], ui_FamilyName = [], ui_PreferredUsername = [],
     ui_Picture = [], ui_Locale = [], ui_Zoneinfo = [], ui_UpdatedAt = 0, ui_Email = [], ui_EmailVerified = None,
     ui_PhoneNumber = [], ui_PhoneNumberVerified = None\<rparr>"

definition JWTClaims_zero :: JWTClaims where
  "JWTClaims_zero = \<lparr>jc_Jti = [], jc_Sub = [], jc_Aud = [], jc_Iss = [], jc_Exp = 0, jc_Iat = 0, jc_TenantID = [],
     jc_Scope = [], jc_ClientID = [], jc_UserID = [], jc_Email = [], jc_Name = [], jc_Act = None\<rparr>"

definition TokenEvent_zero :: TokenEvent where
  "TokenEvent_zero = \<lparr>ev_Type = TokenEventIssued, ev_TenantID = uuid_Nil, ev_ClientID = uuid_Nil, ev_UserID = None,
     ev_GrantType = [], ev_Scope = [], ev_FamilyID = uuid_Nil, ev_Credential = CredentialNone, ev_Actor = []\<rparr>"

section \<open>Predicates of the model types\<close>

definition StringArray_Contains :: "string list \<Rightarrow> string \<Rightarrow> bool" where
  "StringArray_Contains a value = list_ex (\<lambda>v. v = value) a"

definition Session_IsExpired :: "go_time \<Rightarrow> Session \<Rightarrow> bool" where
  "Session_IsExpired now s \<longleftrightarrow> \<not> now < s_ExpiresAt s"

definition RefreshToken_IsRevoked :: "RefreshToken \<Rightarrow> bool" where
  "RefreshToken_IsRevoked rt \<longleftrightarrow> rt_RevokedAt rt \<noteq> None"

definition DeviceCode_IsExpired :: "go_time \<Rightarrow> DeviceCode \<Rightarrow> bool" where
  "DeviceCode_IsExpired now dc \<longleftrightarrow> \<not> now < dc_ExpiresAt dc"

definition AuthorizationCode_IsUsed :: "AuthorizationCode \<Rightarrow> bool" where
  "AuthorizationCode_IsUsed ac \<longleftrightarrow> ac_UsedAt ac \<noteq> None"

definition AuthorizationCode_IsExpired :: "go_time \<Rightarrow> AuthorizationCode \<Rightarrow> bool" where
  "AuthorizationCode_IsExpired now ac \<longleftrightarrow> \<not> now < ac_ExpiresAt ac"

definition AccessToken_IsExpired :: "go_time \<Rightarrow> AccessToken \<Rightarrow> bool" where
  "AccessToken_IsExpired now t \<longleftrightarrow> \<not> now < at_ExpiresAt t"

definition RefreshToken_IsExpired :: "go_time \<Rightarrow> RefreshToken \<Rightarrow> bool" where
  "RefreshToken_IsExpired now rt \<longleftrightarrow> \<not> now < rt_ExpiresAt rt"

definition Client_HasRedirectURI :: "Client \<Rightarrow> string \<Rightarrow> bool" where
  "Client_HasRedirectURI c uri = list_ex (\<lambda>redirectURI. redirectURI = uri) (c_RedirectURIs c)"

definition Client_HasGrantType :: "Client \<Rightarrow> string \<Rightarrow> bool" where
  "Client_HasGrantType c grantType = list_ex (\<lambda>gt. gt = grantType) (c_GrantTypes c)"

definition Client_HasScope :: "Client \<Rightarrow> string \<Rightarrow> bool" where
  "Client_HasScope c scope = list_ex (\<lambda>s. s = scope) (c_Scopes c)"

definition User_IsLocked :: "go_time \<Rightarrow> User \<Rightarrow> bool" where
  "User_IsLocked now u \<longleftrightarrow>
     u_Status u = UserStatusLocked \<or> (case u_LockedUntil u of None \<Rightarrow> False | Some t \<Rightarrow> now < t)"

definition User_IsSuspended :: "User \<Rightarrow> bool" where
  "User_IsSuspended u \<longleftrightarrow> u_Status u = UserStatusSuspended"

definition User_IsPending :: "User \<Rightarrow> bool" where
  "User_IsPending u \<longleftrightarrow> u_Status u = UserStatusPending"

definition User_IsActive :: "go_time \<Rightarrow> User \<Rightarrow> bool" where
  "User_IsActive now u \<longleftrightarrow> u_Status u = UserStatusActive \<and> \<not> User_IsLocked now u \<and> \<not> User_IsSuspended u"

definition EmailVerification_IsExpired :: "go_time \<Rightarrow> EmailVerification \<Rightarrow> bool" where
  "EmailVerification_IsExpired now v \<longleftrightarrow> \<not> now < emv_ExpiresAt v"

definition PasswordReset_IsExpired :: "go_time \<Rightarrow> PasswordReset \<Rightarrow> bool" where
  "PasswordReset_IsExpired now r \<longleftrightarrow> \<not> now < pr_ExpiresAt r"

definition PasswordReset_IsUsed :: "PasswordReset \<Rightarrow> bool" where
  "PasswordReset_IsUsed r \<longleftrightarrow> pr_UsedAt r \<noteq> None"

definition UserMFA_Enabled :: "UserMFA \<Rightarrow> bool" where
  "UserMFA_Enabled m \<longleftrightarrow> m_ConfirmedAt m \<noteq> None"

definition UserRole_IsExpired :: "go_time \<Rightarrow> UserRole \<Rightarrow> bool" where
  "UserRole_IsExpired now ur \<longleftrightarrow> (case ur_ExpiresAt ur of None \<Rightarrow> False | Some t \<Rightarrow> t < now)"

definition IdempotencyKey_InProgress :: "IdempotencyKey \<Rightarrow> bool" where
  "IdempotencyKey_InProgress k \<longleftrightarrow> ik_StatusCode k = 0"

definition User_GetFullName :: "User \<Rightarrow> string" where
  "User_GetFullName u =
     (if u_FirstName u \<noteq> [] \<and> u_LastName u \<noteq> [] then u_FirstName u @ '' '' @ u_LastName u
      else if u_FirstName u \<noteq> [] then u_FirstName u
      else if u_LastName u \<noteq> [] then u_LastName u
      else u_Username u)"

section \<open>Pagination\<close>

text \<open>\<open>PageInfo\<close> of a list response; the sum of two Go ints wraps.\<close>

record PageInfo =
  pg_Limit :: int
  pg_Offset :: int
  pg_TotalCount :: int
  pg_HasMore :: bool

definition NewPaginatedResponse :: "'a list \<Rightarrow> int \<Rightarrow> int \<Rightarrow> int \<Rightarrow> 'a list \<times> PageInfo" where
  "NewPaginatedResponse items limit offset totalCount =
     (items, \<lparr>pg_Limit = limit, pg_Offset = offset, pg_TotalCount = totalCount,
              pg_HasMore = (wrap64 (offset + limit) < totalCount)\<rparr>)"

lemmas expiry_defs =
  Session_IsExpired_def DeviceCode_IsExpired_def AuthorizationCode_IsExpired_def
  AccessToken_IsExpired_def RefreshToken_IsExpired_def EmailVerification_IsExpired_def PasswordReset_IsExpired_def

lemma list_ex_eq_iff [simp]: "list_ex (\<lambda>v. v = x) xs \<longleftrightarrow> x \<in> set xs"
  by (auto simp: list_ex_iff)

end
