(* ===== verification/JwtKeys.thy ===== *)
theory JwtKeys
  imports Models
begin

text \<open>Package \<^verbatim>\<open>jwtkeys\<close> (\<^verbatim>\<open>internal/jwtkeys/jwtkeys.go\<close>): the set of keys that sign and verify JWTs. The
  golang-jwt library and the PEM, X.509 and key-generation code are parameters; choosing the key
  for a token, the checks on loaded keys and the published key set are definitions.\<close>

section \<open>Keys\<close>

definition AlgRS256 :: string where "AlgRS256 = ''RS256''"
definition AlgES256 :: string where "AlgES256 = ''ES256''"
definition AlgHS256 :: string where "AlgHS256 = ''HS256''"

definition minRSABits :: int where "minRSABits = 2048"

definition TypeAccessToken :: string where "TypeAccessToken = ''at+jwt''"

record curve =
  cv_Name :: string
  cv_BitSize :: nat

definition P256 :: curve where
  "P256 = \<lparr>cv_Name = ''P-256'', cv_BitSize = 256\<rparr>"

text \<open>Public and private material: modulus and exponent, curve and point, or the shared secret.\<close>

datatype verify_key = HMACVerify string | RSAPublicKey nat nat | ECDSAPublicKey curve nat nat

datatype sign_key = HMACSign string | RSAPrivateKey nat nat nat | ECDSAPrivateKey curve nat nat nat

record Key =
  k_ID :: string
  k_Alg :: string
  k_signKey :: "sign_key option"
  k_verifyKey :: verify_key

definition Key_CanSign :: "Key \<Rightarrow> bool" where
  "Key_CanSign k \<longleftrightarrow> k_signKey k \<noteq> None"

record KeySet =
  ks_active :: Key
  ks_keys :: "Key list"
  ks_byID :: "string \<Rightarrow> Key option"
  ks_algs :: "string list"

text \<open>One pass of the loop of \<^verbatim>\<open>NewKeySet\<close>; only the first key of the list is the active key.\<close>

fun NewKeySet_loop :: "bool \<Rightarrow> Key list \<Rightarrow> KeySet \<Rightarrow> err + KeySet" where
  "NewKeySet_loop isActive [] ks = Inr ks"
| "NewKeySet_loop isActive (k # rest) ks =
     (if k_Alg k = AlgHS256 \<and> \<not> isActive then Inl (ErrMsg ''HS256 secrets cannot be verification keys'')
      else if ks_byID ks (k_ID k) \<noteq> None then Inl (ErrMsg ''duplicate key id'')
      else NewKeySet_loop False rest
        (ks\<lparr>ks_byID := (ks_byID ks)(k_ID k \<mapsto> k),
            ks_keys := ks_keys ks @ [k],
            ks_algs := (if k_Alg k \<in> set (ks_algs ks) then ks_algs ks else ks_algs ks @ [k_Alg k])\<rparr>))"

definition NewKeySet :: "Key option \<Rightarrow> Key list \<Rightarrow> err + KeySet" where
  "NewKeySet active verification =
     (case active of
        None \<Rightarrow> Inl (ErrMsg ''active key must be able to sign'')
      | Some k \<Rightarrow>
          if \<not> Key_CanSign k then Inl (ErrMsg ''active key must be able to sign'')
          else NewKeySet_loop True (k # verification)
            \<lparr>ks_active = k, ks_keys = [], ks_byID = (\<lambda>_. None), ks_algs = []\<rparr>)"

definition hmacKey :: "string \<Rightarrow> Key" where
  "hmacKey secret = \<lparr>k_ID = [], k_Alg = AlgHS256, k_signKey = Some (HMACSign secret), k_verifyKey = HMACVerify secret\<rparr>"

definition NewHMAC :: "string \<Rightarrow> err + KeySet" where
  "NewHMAC secret = NewKeySet (Some (hmacKey secret)) []"

definition KeySet_Algorithm :: "KeySet \<Rightarrow> string" where
  "KeySet_Algorithm ks = k_Alg (ks_active ks)"

definition KeySet_ActiveKeyID :: "KeySet \<Rightarrow> string" where
  "KeySet_ActiveKeyID ks = k_ID (ks_active ks)"

section \<open>Signing and parsing\<close>

text \<open>The JOSE header fields the code sets or reads, the options it passes to the parser, and a parsed
  token. A missing or non-string header field is None.\<close>

record jwt_header =
  h_alg :: string
  h_typ :: "string option"
  h_kid :: "string option"

record parser_options =
  po_ValidMethods :: "string list"
  po_Issuer :: "string option"
  po_Audience :: "string option"
  po_ExpirationRequired :: bool
  po_WithoutClaimsValidation :: bool

record 'c jwt_token =
  tok_Header :: jwt_header
  tok_Claims :: 'c
  tok_Valid :: bool

datatype jwt_payload = AccessTokenPayload JWTClaims | IDTokenPayload IDTokenClaims

text \<open>The entry points of golang-jwt: \<^verbatim>\<open>Token.SignedString\<close>, and \<^verbatim>\<open>ParseWithClaims\<close> for each claims struct.\<close>

record jwtlib =
  SignedString :: "jwt_header \<Rightarrow> jwt_payload \<Rightarrow> sign_key option \<Rightarrow> err + string"
  ParseWithJWTClaims ::
    "string \<Rightarrow> (jwt_header \<Rightarrow> err + verify_key) \<Rightarrow> parser_options \<Rightarrow> err + JWTClaims jwt_token"
  ParseWithIDTokenClaims ::
    "string \<Rightarrow> (jwt_header \<Rightarrow> err + verify_key) \<Rightarrow> parser_options \<Rightarrow> err + IDTokenClaims jwt_token"

definition KeySet_header :: "KeySet \<Rightarrow> string \<Rightarrow> jwt_header" where
  "KeySet_header ks typ =
     \<lparr>h_alg = k_Alg (ks_active ks), h_typ = Some typ,
      h_kid = (if k_ID (ks_active ks) \<noteq> [] then Some (k_ID (ks_active ks)) else None)\<rparr>"

definition KeySet_SignTyped :: "jwtlib \<Rightarrow> KeySet \<Rightarrow> jwt_payload \<Rightarrow> string \<Rightarrow> err + string" where
  "KeySet_SignTyped lib ks claims typ =
     SignedString lib (KeySet_header ks typ) claims (k_signKey (ks_active ks))"

definition KeySet_Sign :: "jwtlib \<Rightarrow> KeySet \<Rightarrow> jwt_payload \<Rightarrow> err + string" where
  "KeySet_Sign lib ks claims = KeySet_SignTyped lib ks claims ''JWT''"

definition KeySet_keyfunc :: "KeySet \<Rightarrow> jwt_header \<Rightarrow> err + verify_key" where
  "KeySet_keyfunc ks h =
     (let kid = (case h_kid h of None \<Rightarrow> [] | Some s \<Rightarrow> s);
          found = (if kid = [] then
                     (if k_Alg (ks_active ks) \<noteq> AlgHS256 then Inl (ErrMsg ''token has no kid'')
                      else Inr (ks_active ks))
                   else (case ks_byID ks kid of None \<Rightarrow> Inl (ErrMsg ''unknown kid'') | Some k \<Rightarrow> Inr k))
      in case found of
           Inl e \<Rightarrow> Inl e
         | Inr key \<Rightarrow>
             if h_alg h \<noteq> k_Alg key then Inl (ErrMsg ''token alg does not match key alg'')
             else Inr (k_verifyKey key))"

definition KeySet_options :: "KeySet \<Rightarrow> parser_options \<Rightarrow> parser_options" where
  "KeySet_options ks opts = opts\<lparr>po_ValidMethods := ks_algs ks\<rparr>"

text \<open>\<^verbatim>\<open>KeySet.Parse\<close> into either claims struct.\<close>

definition KeySet_ParseJWTClaims ::
  "jwtlib \<Rightarrow> KeySet \<Rightarrow> string \<Rightarrow> parser_options \<Rightarrow> err + JWTClaims jwt_token" where
  "KeySet_ParseJWTClaims lib ks tok opts =
     ParseWithJWTClaims lib tok (KeySet_keyfunc ks) (KeySet_options ks opts)"

definition KeySet_ParseIDTokenClaims ::
  "jwtlib \<Rightarrow> KeySet \<Rightarrow> string \<Rightarrow> parser_options \<Rightarrow> err + IDTokenClaims jwt_token" where
  "KeySet_ParseIDTokenClaims lib ks tok opts =
     ParseWithIDTokenClaims lib tok (KeySet_keyfunc ks) (KeySet_options ks opts)"

definition HasType :: "(string \<Rightarrow> string) \<Rightarrow> 'c jwt_token \<Rightarrow> string \<Rightarrow> bool" where
  "HasType uni tok typ =
     (let got = strings_ToLower uni (case h_typ (tok_Header tok) of None \<Rightarrow> [] | Some s \<Rightarrow> s)
      in strings_TrimPrefix got ''application/'' = strings_ToLower uni typ)"

definition KeySet_TokenHash :: "KeySet \<Rightarrow> string \<Rightarrow> string" where
  "KeySet_TokenHash ks token = (let sum = sha256 token in b64url (take (length sum div 2) sum))"

section \<open>The published key set\<close>

record JWK =
  jwk_Kty :: string
  jwk_Use :: string
  jwk_Alg :: string
  jwk_Kid :: string
  jwk_N :: string
  jwk_E :: string
  jwk_Crv :: string
  jwk_X :: string
  jwk_Y :: string

text \<open>\<^verbatim>\<open>big.Int.Bytes\<close>: big-endian, no leading zero; \<^verbatim>\<open>FillBytes\<close> pads to a size.\<close>

fun nat_bytes :: "nat \<Rightarrow> nat list" where
  "nat_bytes n = (if n = 0 then [] else nat_bytes (n div 256) @ [n mod 256])"

declare nat_bytes.simps [simp del]

definition big_Bytes :: "nat \<Rightarrow> string" where
  "big_Bytes n = map char_of (nat_bytes n)"

definition big_FillBytes :: "nat \<Rightarrow> nat \<Rightarrow> string" where
  "big_FillBytes n sz = replicate (sz - length (big_Bytes n)) (char_of (0 :: nat)) @ big_Bytes n"

definition publicJWK :: "Key \<Rightarrow> JWK option" where
  "publicJWK k =
     (let jwk = \<lparr>jwk_Kty = [], jwk_Use = ''sig'', jwk_Alg = k_Alg k, jwk_Kid = k_ID k, jwk_N = [], jwk_E = [],
                 jwk_Crv = [], jwk_X = [], jwk_Y = []\<rparr>
      in case k_verifyKey k of
           RSAPublicKey n e \<Rightarrow>
             Some (jwk\<lparr>jwk_Kty := ''RSA'', jwk_N := b64url (big_Bytes n), jwk_E := b64url (big_Bytes e)\<rparr>)
         | ECDSAPublicKey cv x y \<Rightarrow>
             let sz = (cv_BitSize cv + 7) div 8
             in Some (jwk\<lparr>jwk_Kty := ''EC'', jwk_Crv := cv_Name cv, jwk_X := b64url (big_FillBytes x sz),
                          jwk_Y := b64url (big_FillBytes y sz)\<rparr>)
         | HMACVerify _ \<Rightarrow> None)"

definition KeySet_JWKS :: "KeySet \<Rightarrow> JWK list" where
  "KeySet_JWKS ks = List.map_filter publicJWK (ks_keys ks)"

text \<open>The thumbprint hashes the canonical JSON of the key's members; base64url text needs no escaping.\<close>

definition json_quote :: "string \<Rightarrow> string" where
  "json_quote s = CHR 0x22 # s @ [CHR 0x22]"

definition json_object :: "(string \<times> string) list \<Rightarrow> string" where
  "json_object kvs = ''{'' @ strings_Join (map (\<lambda>(k, v). json_quote k @ '':'' @ json_quote v) kvs) '','' @ ''}''"

definition thumbprint :: "JWK \<Rightarrow> string" where
  "thumbprint jwk =
     (let members =
        (if jwk_Kty jwk = ''RSA'' then
           json_object [(''e'', jwk_E jwk), (''kty'', jwk_Kty jwk), (''n'', jwk_N jwk)]
         else if jwk_Kty jwk = ''EC'' then
           json_object [(''crv'', jwk_Crv jwk), (''kty'', jwk_Kty jwk), (''x'', jwk_X jwk), (''y'', jwk_Y jwk)]
         else ''null'')
      in b64url (sha256 members))"

section \<open>Loading keys\<close>

text \<open>What the X.509 parsers return, and the code outside the repository that reads and generates keys.\<close>

datatype raw_key =
    RawRSAPrivate nat nat nat | RawRSAPublic nat nat
  | RawECPrivate curve nat nat nat | RawECPublic curve nat nat
  | RawOther string

record keylib =
  pem_Decode :: "string \<Rightarrow> (string \<times> string) option"
  ParsePKCS1PrivateKey :: "string \<Rightarrow> err + raw_key"
  ParseECPrivateKey :: "string \<Rightarrow> err + raw_key"
  ParsePKCS8PrivateKey :: "string \<Rightarrow> err + raw_key"
  ParsePKCS1PublicKey :: "string \<Rightarrow> err + raw_key"
  ParsePKIXPublicKey :: "string \<Rightarrow> err + raw_key"
  os_ReadFile :: "string \<Rightarrow> err + string"
  rsa_GenerateKey :: "int \<Rightarrow> err + raw_key"
  ecdsa_GenerateKey :: "curve \<Rightarrow> err + raw_key"

fun nat_BitLen :: "nat \<Rightarrow> nat" where
  "nat_BitLen n = (if n = 0 then 0 else Suc (nat_BitLen (n div 2)))"

declare nat_BitLen.simps [simp del]

definition newKey_wrap :: "raw_key \<Rightarrow> (sign_key option \<times> verify_key) option" where
  "newKey_wrap k =
     (case k of
        RawRSAPrivate n e d \<Rightarrow> Some (Some (RSAPrivateKey n e d), RSAPublicKey n e)
      | RawRSAPublic n e \<Rightarrow> Some (None, RSAPublicKey n e)
      | RawECPrivate cv x y d \<Rightarrow> Some (Some (ECDSAPrivateKey cv x y d), ECDSAPublicKey cv x y)
      | RawECPublic cv x y \<Rightarrow> Some (None, ECDSAPublicKey cv x y)
      | RawOther _ \<Rightarrow> None)"

definition newKey :: "raw_key \<Rightarrow> err + Key" where
  "newKey k =
     (case newKey_wrap k of
        None \<Rightarrow> Inl (ErrMsg ''unsupported key type'')
      | Some (sk, vk) \<Rightarrow>
          let finish = (\<lambda>alg.
                let key = \<lparr>k_ID = [], k_Alg = alg, k_signKey = sk, k_verifyKey = vk\<rparr>
                in case publicJWK key of
                     None \<Rightarrow> Inr key
                   | Some jwk \<Rightarrow> Inr (key\<lparr>k_ID := thumbprint jwk\<rparr>))
          in case vk of
               RSAPublicKey n _ \<Rightarrow>
                 if int (nat_BitLen n) < minRSABits then Inl (ErrMsg ''RSA key too small'') else finish AlgRS256
             | ECDSAPublicKey cv _ _ \<Rightarrow>
                 if cv \<noteq> P256 then Inl (ErrMsg ''EC key must use curve P-256'') else finish AlgES256
             | HMACVerify _ \<Rightarrow> finish [])"

definition ParsePEM :: "keylib \<Rightarrow> string \<Rightarrow> err + Key" where
  "ParsePEM kl data =
     (case pem_Decode kl data of
        None \<Rightarrow> Inl (ErrMsg ''no PEM block found'')
      | Some (typ, bytes) \<Rightarrow>
          let parsed =
            (if typ = ''RSA PRIVATE KEY'' then Inr (ParsePKCS1PrivateKey kl bytes)
             else if typ = ''EC PRIVATE KEY'' then Inr (ParseECPrivateKey kl bytes)
             else if typ = ''PRIVATE KEY'' then Inr (ParsePKCS8PrivateKey kl bytes)
             else if typ = ''RSA PUBLIC KEY'' then Inr (ParsePKCS1PublicKey kl bytes)
             else if typ = ''PUBLIC KEY'' then Inr (ParsePKIXPublicKey kl bytes)
             else Inl (ErrMsg ''unsupported PEM block type''))
          in case parsed of
               Inl e \<Rightarrow> Inl e
             | Inr (Inl e) \<Rightarrow> Inl (Wrapped (''failed to parse '' @ typ) e)
             | Inr (Inr raw) \<Rightarrow> newKey raw)"

definition LoadFile :: "keylib \<Rightarrow> string \<Rightarrow> err + Key" where
  "LoadFile kl path =
     (case os_ReadFile kl path of
        Inl e \<Rightarrow> Inl (Wrapped ''failed to read key file'' e)
      | Inr data \<Rightarrow> (case ParsePEM kl data of Inl e \<Rightarrow> Inl (Wrapped path e) | Inr key \<Rightarrow> Inr key))"

definition Generate :: "keylib \<Rightarrow> string \<Rightarrow> err + Key" where
  "Generate kl alg =
     (if alg = AlgRS256 then (case rsa_GenerateKey kl minRSABits of Inl e \<Rightarrow> Inl e | Inr k \<Rightarrow> newKey k)
      else if alg = AlgES256 then (case ecdsa_GenerateKey kl P256 of Inl e \<Rightarrow> Inl e | Inr k \<Rightarrow> newKey k)
      else Inl (ErrMsg ''cannot generate key for alg''))"

record Options =
  o_Alg :: string
  o_SigningKeyFile :: string
  o_VerificationKeyFiles :: string
  o_HMACSecret :: string
  o_AllowEphemeral :: bool

fun Load_verification :: "keylib \<Rightarrow> string list \<Rightarrow> err + Key list" where
  "Load_verification kl [] = Inr []"
| "Load_verification kl (p # paths) =
     (let path = strings_TrimSpace p
      in if path = [] then Load_verification kl paths
         else case LoadFile kl path of
                Inl e \<Rightarrow> Inl e
              | Inr key \<Rightarrow> (case Load_verification kl paths of Inl e \<Rightarrow> Inl e | Inr ks \<Rightarrow> Inr (key # ks)))"

definition Load_active :: "keylib \<Rightarrow> Options \<Rightarrow> string \<Rightarrow> err + Key \<times> bool" where
  "Load_active kl opts alg =
     (if o_SigningKeyFile opts \<noteq> [] then
        (case LoadFile kl (o_SigningKeyFile opts) of
           Inl e \<Rightarrow> Inl e
         | Inr active \<Rightarrow>
             if \<not> Key_CanSign active then Inl (ErrMsg ''signing key must be a private key'')
             else if k_Alg active \<noteq> alg then Inl (ErrMsg ''key is for another alg'')
             else Inr (active, False))
      else if o_AllowEphemeral opts then
        (case Generate kl alg of
           Inl e \<Rightarrow> Inl (Wrapped ''failed to generate ephemeral key'' e)
         | Inr active \<Rightarrow> Inr (active, True))
      else Inl (ErrMsg ''a signing key file is required''))"

definition Load :: "(string \<Rightarrow> string) \<Rightarrow> keylib \<Rightarrow> Options \<Rightarrow> err + KeySet \<times> bool" where
  "Load uni kl opts =
     (let alg = strings_ToUpper uni (strings_TrimSpace (o_Alg opts))
      in if alg = AlgHS256 then
           (if o_SigningKeyFile opts \<noteq> [] \<or> o_VerificationKeyFiles opts \<noteq> [] then
              Inl (ErrMsg ''key files are not used with HS256'')
            else if o_HMACSecret opts = [] then Inl (ErrMsg ''HS256 requires a JWT secret'')
            else (case NewHMAC (o_HMACSecret opts) of Inl e \<Rightarrow> Inl e | Inr ks \<Rightarrow> Inr (ks, False)))
         else if alg \<noteq> AlgRS256 \<and> alg \<noteq> AlgES256 then Inl (ErrMsg ''unsupported signing alg'')
         else case Load_active kl opts alg of
                Inl e \<Rightarrow> Inl e
              | Inr (active, ephemeral) \<Rightarrow>
                  (case Load_verification kl (strings_Split CHR '','' (o_VerificationKeyFiles opts)) of
                     Inl e \<Rightarrow> Inl e
                   | Inr verification \<Rightarrow>
                       (case NewKeySet (Some active) verification of
                          Inl e \<Rightarrow> Inl e
                        | Inr ks \<Rightarrow> Inr (ks, ephemeral))))"

section \<open>The key set invariant\<close>

text \<open>The index and the algorithm list describe the key list, and key ids are unique.\<close>

definition keyset_inv :: "KeySet \<Rightarrow> bool" where
  "keyset_inv ks \<longleftrightarrow>
     (\<forall>i. ks_byID ks i = find (\<lambda>k. k_ID k = i) (ks_keys ks)) \<and> distinct (map k_ID (ks_keys ks))
     \<and> set (ks_algs ks) = k_Alg ` set (ks_keys ks)"

text \<open>The algorithm of a key is the one its material is for, and only the shared secret has no id.\<close>

definition key_wf :: "Key \<Rightarrow> bool" where
  "key_wf k \<longleftrightarrow>
     (case k_verifyKey k of
        HMACVerify _ \<Rightarrow> k_Alg k = AlgHS256 \<and> k_ID k = []
      | RSAPublicKey _ _ \<Rightarrow> k_Alg k = AlgRS256 \<and> k_ID k \<noteq> []
      | ECDSAPublicKey _ _ _ \<Rightarrow> k_Alg k = AlgES256 \<and> k_ID k \<noteq> [])"

lemmas alg_defs = AlgRS256_def AlgES256_def AlgHS256_def

lemma find_id_None: "find (\<lambda>k. k_ID k = i) ks = None \<longleftrightarrow> i \<notin> k_ID ` set ks"
  by (auto simp: find_None_iff)

lemma NewKeySet_loop_inv:
  assumes "NewKeySet_loop b ks st = Inr st'" "keyset_inv st"
  shows "keyset_inv st' \<and> ks_keys st' = ks_keys st @ ks \<and> ks_active st' = ks_active st"
  using assms
proof (induction b ks st rule: NewKeySet_loop.induct)
  case (2 b k rest ks)
  have new: "k_ID k \<notin> k_ID ` set (ks_keys ks)"
    using "2.prems" by (auto simp: keyset_inv_def find_id_None [symmetric] split: if_splits)
  have none: "find (\<lambda>ka. k_ID ka = k_ID k) (ks_keys ks) = None"
    using new by (simp add: find_id_None)
  have "keyset_inv (ks\<lparr>ks_byID := (ks_byID ks)(k_ID k \<mapsto> k), ks_keys := ks_keys ks @ [k],
      ks_algs := (if k_Alg k \<in> set (ks_algs ks) then ks_algs ks else ks_algs ks @ [k_Alg k])\<rparr>)"
    using "2.prems"(2) new by (auto simp: keyset_inv_def find_append none split: option.split)
  then show ?case
    using 2 by (auto split: if_splits)
qed simp

lemma NewKeySet_loop_noHMAC:
  "NewKeySet_loop False ks st = Inr st' \<Longrightarrow> k \<in> set ks \<Longrightarrow> k_Alg k \<noteq> AlgHS256"
  by (induction ks arbitrary: st) (auto split: if_splits)

lemma NewKeySet_inv:
  assumes "NewKeySet active vs = Inr ks"
  shows "keyset_inv ks" "active = Some (ks_active ks)" "ks_keys ks = ks_active ks # vs"
    "\<And>k. k \<in> set vs \<Longrightarrow> k_Alg k \<noteq> AlgHS256" "Key_CanSign (ks_active ks)"
proof -
  obtain k where a: "active = Some k" "Key_CanSign k"
    and l: "NewKeySet_loop True (k # vs) \<lparr>ks_active = k, ks_keys = [], ks_byID = (\<lambda>_. None), ks_algs = []\<rparr> = Inr ks"
    using assms by (auto simp: NewKeySet_def split: option.splits if_splits)
  have "keyset_inv \<lparr>ks_active = k, ks_keys = [], ks_byID = (\<lambda>_. None), ks_algs = []\<rparr>"
    by (simp add: keyset_inv_def)
  from NewKeySet_loop_inv [OF l this]
  show "keyset_inv ks" "active = Some (ks_active ks)" "ks_keys ks = ks_active ks # vs" "Key_CanSign (ks_active ks)"
    using a by simp_all
  show "\<And>k. k \<in> set vs \<Longrightarrow> k_Alg k \<noteq> AlgHS256"
    using l by (auto dest: NewKeySet_loop_noHMAC)
qed

definition key_asym :: "Key \<Rightarrow> bool" where
  "key_asym k \<longleftrightarrow> key_wf k \<and> (\<forall>s. k_verifyKey k \<noteq> HMACVerify s)"

lemma newKey_wf: "newKey raw = Inr k \<Longrightarrow> key_asym k"
  by (cases raw) (auto simp: key_asym_def newKey_def newKey_wrap_def publicJWK_def key_wf_def Let_def thumbprint_def
      b64url_sha256_nonempty split: if_splits)

lemma LoadFile_wf: "LoadFile kl p = Inr k \<Longrightarrow> key_asym k"
  by (auto simp: LoadFile_def ParsePEM_def Let_def newKey_wf split: sum.splits option.splits if_splits)

lemma Load_verification_wf: "Load_verification kl ps = Inr ks \<Longrightarrow> k \<in> set ks \<Longrightarrow> key_asym k"
  by (induction ps arbitrary: ks) (auto simp: Let_def LoadFile_wf split: if_splits sum.splits)

lemma Load_active_wf: "Load_active kl opts alg = Inr (k, b) \<Longrightarrow> key_asym k"
  by (auto simp: Load_active_def Generate_def LoadFile_wf newKey_wf split: if_splits sum.splits)

text \<open>What every key set built by \<^const>\<open>Load\<close> satisfies.\<close>

lemma Load_inv:
  assumes "Load uni kl opts = Inr (ks, eph)"
  shows "keyset_inv ks" "\<And>k. k \<in> set (ks_keys ks) \<Longrightarrow> key_wf k" "ks_active ks \<in> set (ks_keys ks)"
    "Key_CanSign (ks_active ks)"
    "\<And>k s. k \<in> set (ks_keys ks) \<Longrightarrow> k_verifyKey k = HMACVerify s \<Longrightarrow> k = ks_active ks \<and> s = o_HMACSecret opts"
proof -
  consider (hmac) "NewHMAC (o_HMACSecret opts) = Inr ks"
    | (pem) active vs where "Load_active kl opts (strings_ToUpper uni (strings_TrimSpace (o_Alg opts))) = Inr (active, eph)"
        "Load_verification kl (strings_Split CHR '','' (o_VerificationKeyFiles opts)) = Inr vs"
        "NewKeySet (Some active) vs = Inr ks"
    using assms by (auto simp: Load_def Let_def split: if_splits sum.splits)
  then have "keyset_inv ks \<and> (\<forall>k \<in> set (ks_keys ks). key_wf k) \<and> ks_active ks \<in> set (ks_keys ks)
    \<and> Key_CanSign (ks_active ks)
    \<and> (\<forall>k s. k \<in> set (ks_keys ks) \<longrightarrow> k_verifyKey k = HMACVerify s \<longrightarrow> k = ks_active ks \<and> s = o_HMACSecret opts)"
  proof cases
    case hmac
    note inv = NewKeySet_inv [OF hmac [unfolded NewHMAC_def]]
    have "ks_active ks = hmacKey (o_HMACSecret opts)"
      using inv(2) by simp
    then show ?thesis
      using inv(1,3,5) by (simp add: hmacKey_def key_wf_def)
  next
    case pem
    have "\<And>k. k \<in> set (ks_keys ks) \<Longrightarrow> key_asym k"
      using NewKeySet_inv [OF pem(3)] Load_active_wf [OF pem(1)] Load_verification_wf [OF pem(2)] by auto
    then show ?thesis
      using NewKeySet_inv [OF pem(3)] by (auto simp: key_asym_def)
  qed
  then show "keyset_inv ks" "\<And>k. k \<in> set (ks_keys ks) \<Longrightarrow> key_wf k" "ks_active ks \<in> set (ks_keys ks)"
    "Key_CanSign (ks_active ks)"
    "\<And>k s. k \<in> set (ks_keys ks) \<Longrightarrow> k_verifyKey k = HMACVerify s \<Longrightarrow> k = ks_active ks \<and> s = o_HMACSecret opts"
    by blast+
qed

lemma keyfunc_key:
  assumes "keyset_inv ks" "ks_active ks \<in> set (ks_keys ks)" "KeySet_keyfunc ks h = Inr vk"
  shows "\<exists>k \<in> set (ks_keys ks). k_verifyKey k = vk \<and> k_Alg k = h_alg h
     \<and> (h_kid h = Some (k_ID k) \<or> h_kid h \<in> {None, Some []} \<and> k = ks_active ks)"
proof (cases "h_kid h \<in> {None, Some []}")
  case True
  then show ?thesis
    using assms(2,3) by (auto simp: KeySet_keyfunc_def split: if_splits)
next
  case False
  then obtain kid k where "h_kid h = Some kid" "ks_byID ks kid = Some k" "k_verifyKey k = vk" "k_Alg k = h_alg h"
    using assms(3) by (auto simp: KeySet_keyfunc_def split: option.splits if_splits)
  then show ?thesis
    using assms(1) find_SomeD [of "\<lambda>k. k_ID k = kid" "ks_keys ks" k] by (auto simp: keyset_inv_def)
qed

lemma publicJWK_Some:
  "publicJWK k = Some j \<Longrightarrow> jwk_Kid j = k_ID k \<and> jwk_Alg j = k_Alg k \<and> (\<forall>s. k_verifyKey k \<noteq> HMACVerify s)"
  by (auto simp: publicJWK_def Let_def split: verify_key.splits)

lemma publicJWK_None_iff: "publicJWK k = None \<longleftrightarrow> (\<exists>s. k_verifyKey k = HMACVerify s)"
  by (auto simp: publicJWK_def Let_def split: verify_key.splits)

section \<open>Properties\<close>

text \<open>C3: no algorithm confusion. Whatever header a presented token has, the key handed to the
  signature check of a loaded key set is of the family its \<^verbatim>\<open>alg\<close> names, and an HMAC check can only ever
  use the configured secret, never a public key.\<close>

theorem keyfunc_no_alg_confusion:
  assumes "Load uni kl opts = Inr (ks, eph)" "KeySet_keyfunc ks h = Inr vk"
  shows "h_alg h \<in> set (ks_algs ks)
     \<and> (case vk of HMACVerify s \<Rightarrow> h_alg h = AlgHS256 \<and> s = o_HMACSecret opts
                  | RSAPublicKey _ _ \<Rightarrow> h_alg h = AlgRS256
                  | ECDSAPublicKey _ _ _ \<Rightarrow> h_alg h = AlgES256)"
proof -
  note inv = Load_inv [OF assms(1)]
  obtain k where k: "k \<in> set (ks_keys ks)" "k_verifyKey k = vk" "k_Alg k = h_alg h"
    using keyfunc_key [OF inv(1,3) assms(2)] by blast
  then have "h_alg h \<in> set (ks_algs ks)"
    using inv(1) by (metis image_eqI keyset_inv_def)
  then show ?thesis
    using k inv(2) [OF k(1)] inv(5) [OF k(1)] by (auto simp: key_wf_def split: verify_key.splits)
qed

text \<open>rotation safety. A token signed by a loaded key set carries a header for which the same set
  selects the active key, and every asymmetric key the set would verify with is published in the
  JWKS under its own kid and alg, while a shared secret is never published.\<close>

theorem signed_tokens_verifiable_and_published:
  assumes "Load uni kl opts = Inr (ks, eph)"
  shows "KeySet_SignTyped lib ks claims typ = SignedString lib (KeySet_header ks typ) claims (k_signKey (ks_active ks))
     \<and> k_signKey (ks_active ks) \<noteq> None
     \<and> KeySet_keyfunc ks (KeySet_header ks typ) = Inr (k_verifyKey (ks_active ks))
     \<and> (\<forall>h vk. KeySet_keyfunc ks h = Inr vk \<longrightarrow> (\<nexists>s. vk = HMACVerify s) \<longrightarrow>
          (\<exists>j \<in> set (KeySet_JWKS ks). Some (jwk_Kid j) = h_kid h \<and> jwk_Alg j = h_alg h))
     \<and> (\<forall>j \<in> set (KeySet_JWKS ks). \<exists>k \<in> set (ks_keys ks). publicJWK k = Some j \<and> (\<nexists>s. k_verifyKey k = HMACVerify s))"
proof (intro conjI allI impI)
  note inv = Load_inv [OF assms]
  let ?a = "ks_active ks"
  show "KeySet_SignTyped lib ks claims typ = SignedString lib (KeySet_header ks typ) claims (k_signKey ?a)"
    by (simp add: KeySet_SignTyped_def)
  show "k_signKey ?a \<noteq> None"
    using inv(4) by (simp add: Key_CanSign_def)
  have "ks_byID ks (k_ID ?a) = Some ?a"
    using inv(1) find_key [of k_ID, OF _ inv(3)] by (simp add: keyset_inv_def)
  then show "KeySet_keyfunc ks (KeySet_header ks typ) = Inr (k_verifyKey ?a)"
    using inv(2) [OF inv(3)] by (auto simp: KeySet_keyfunc_def KeySet_header_def Let_def key_wf_def split: verify_key.splits)
next
  note inv = Load_inv [OF assms(1)]
  fix h vk
  assume kf: "KeySet_keyfunc ks h = Inr vk" and asym: "\<nexists>s. vk = HMACVerify s"
  obtain k where k: "k \<in> set (ks_keys ks)" "k_verifyKey k = vk" "k_Alg k = h_alg h"
    and kid: "h_kid h = Some (k_ID k) \<or> h_kid h \<in> {None, Some []} \<and> k = ks_active ks"
    using keyfunc_key [OF inv(1,3) kf] by blast
  obtain j where j: "publicJWK k = Some j"
    using asym k publicJWK_None_iff [of k] by auto
  have "h_kid h = Some (k_ID k)"
  proof (rule ccontr)
    assume "h_kid h \<noteq> Some (k_ID k)"
    with kid have n: "h_kid h \<in> {None, Some []}" "k = ks_active ks"
      by auto
    then have "k_Alg (ks_active ks) = AlgHS256"
      using kf by (auto simp: KeySet_keyfunc_def Let_def split: if_splits)
    then show False
      using inv(2) [OF k(1)] n k(2) asym by (auto simp: key_wf_def alg_defs split: verify_key.splits)
  qed
  then show "\<exists>j \<in> set (KeySet_JWKS ks). Some (jwk_Kid j) = h_kid h \<and> jwk_Alg j = h_alg h"
    using j publicJWK_Some [OF j] k by (auto simp: KeySet_JWKS_def map_filter_def intro!: bexI [of _ j] image_eqI [of _ _ k])
next
  show "\<forall>j \<in> set (KeySet_JWKS ks). \<exists>k \<in> set (ks_keys ks). publicJWK k = Some j \<and> (\<nexists>s. k_verifyKey k = HMACVerify s)"
    using publicJWK_Some by (auto simp: KeySet_JWKS_def map_filter_def)
qed

text \<open>Concrete instances: a shared secret, and a P-256 private key read from a file.\<close>

definition sample_keylib :: keylib where
  "sample_keylib = \<lparr>pem_Decode = (\<lambda>d. Some (''EC PRIVATE KEY'', d)),
     ParsePKCS1PrivateKey = (\<lambda>_. Inl (ErrMsg ''x509'')), ParseECPrivateKey = (\<lambda>_. Inr (RawECPrivate P256 5 7 3)),
     ParsePKCS8PrivateKey = (\<lambda>_. Inl (ErrMsg ''x509'')), ParsePKCS1PublicKey = (\<lambda>_. Inl (ErrMsg ''x509'')),
     ParsePKIXPublicKey = (\<lambda>_. Inl (ErrMsg ''x509'')), os_ReadFile = (\<lambda>_. Inr ''pem''),
     rsa_GenerateKey = (\<lambda>_. Inl (ErrMsg ''rand'')), ecdsa_GenerateKey = (\<lambda>_. Inl (ErrMsg ''rand''))\<rparr>"

definition sample_hs256 :: Options where
  "sample_hs256 = \<lparr>o_Alg = ''hs256 '', o_SigningKeyFile = [], o_VerificationKeyFiles = [], o_HMACSecret = ''secret'',
     o_AllowEphemeral = False\<rparr>"

definition sample_es256 :: Options where
  "sample_es256 = \<lparr>o_Alg = ''ES256'', o_SigningKeyFile = ''key.pem'', o_VerificationKeyFiles = [], o_HMACSecret = [],
     o_AllowEphemeral = False\<rparr>"

definition sample_hs_keys :: KeySet where
  "sample_hs_keys = \<lparr>ks_active = hmacKey ''secret'', ks_keys = [hmacKey ''secret''],
     ks_byID = [[] \<mapsto> hmacKey ''secret''], ks_algs = [AlgHS256]\<rparr>"

lemma sample_hs_load: "Load (\<lambda>s. s) sample_keylib sample_hs256 = Inr (sample_hs_keys, False)"
proof -
  have "strings_ToUpper (\<lambda>s. s) (strings_TrimSpace (o_Alg sample_hs256)) = AlgHS256"
    unfolding sample_hs256_def alg_defs Options.simps by code_simp
  then show ?thesis
    by (simp add: Load_def sample_hs256_def sample_hs_keys_def NewHMAC_def NewKeySet_def hmacKey_def Key_CanSign_def)
qed

theorem keyfunc_no_alg_confusion_witness:
  "Load (\<lambda>s. s) sample_keylib sample_hs256 = Inr (sample_hs_keys, False)
   \<and> KeySet_keyfunc sample_hs_keys \<lparr>h_alg = AlgHS256, h_typ = None, h_kid = None\<rparr> = Inr (HMACVerify ''secret'')
   \<and> AlgHS256 \<in> set (ks_algs sample_hs_keys)"
proof -
  have kf: "KeySet_keyfunc sample_hs_keys \<lparr>h_alg = AlgHS256, h_typ = None, h_kid = None\<rparr> = Inr (HMACVerify ''secret'')"
    by (simp add: KeySet_keyfunc_def sample_hs_keys_def hmacKey_def)
  show ?thesis
    using sample_hs_load kf keyfunc_no_alg_confusion [OF sample_hs_load kf] by simp
qed

definition sample_es_key :: Key where
  "sample_es_key = (let key = \<lparr>k_ID = [], k_Alg = AlgES256, k_signKey = Some (ECDSAPrivateKey P256 5 7 3),
       k_verifyKey = ECDSAPublicKey P256 5 7\<rparr> in key\<lparr>k_ID := thumbprint (the (publicJWK key))\<rparr>)"

definition sample_es_keys :: KeySet where
  "sample_es_keys = \<lparr>ks_active = sample_es_key, ks_keys = [sample_es_key],
     ks_byID = [k_ID sample_es_key \<mapsto> sample_es_key], ks_algs = [AlgES256]\<rparr>"

lemma sample_es_load: "Load (\<lambda>s. s) sample_keylib sample_es256 = Inr (sample_es_keys, False)"
proof -
  have alg: "strings_ToUpper (\<lambda>s. s) (strings_TrimSpace (o_Alg sample_es256)) = AlgES256"
    unfolding sample_es256_def alg_defs Options.simps by code_simp
  have ver: "Load_verification kl (strings_Split CHR '','' []) = Inr []" for kl
    by (simp add: strings_TrimSpace_def)
  have act: "Load_active sample_keylib sample_es256 AlgES256 = Inr (sample_es_key, False)"
    by (simp add: Load_active_def sample_es256_def LoadFile_def ParsePEM_def sample_keylib_def newKey_def newKey_wrap_def
        publicJWK_def sample_es_key_def Key_CanSign_def Let_def)
  have new: "NewKeySet (Some sample_es_key) [] = Inr sample_es_keys"
    by (simp add: NewKeySet_def Key_CanSign_def sample_es_key_def sample_es_keys_def Let_def alg_defs)
  show ?thesis
    unfolding Load_def alg Let_def using act new ver by (simp add: sample_es256_def alg_defs)
qed

theorem signed_tokens_verifiable_and_published_witness:
  "KeySet_keyfunc sample_es_keys (KeySet_header sample_es_keys TypeAccessToken) = Inr (ECDSAPublicKey P256 5 7)
   \<and> (\<exists>j \<in> set (KeySet_JWKS sample_es_keys). Some (jwk_Kid j) = h_kid (KeySet_header sample_es_keys TypeAccessToken))"
proof -
  have vk: "k_verifyKey (ks_active sample_es_keys) = ECDSAPublicKey P256 5 7"
    by (simp add: sample_es_keys_def sample_es_key_def Let_def)
  show ?thesis
    using signed_tokens_verifiable_and_published [OF sample_es_load, of _ _ TypeAccessToken] vk by fastforce
qed

end
