(* ===== verification/World.thy ===== *)
theory World
  imports JwtKeys
begin

text \<open>The state every service works on, and the statement layer below the repositories. The database
  is one list of rows per table. What a request sees of the outside (clock, configuration, random
  bytes, library code, and which statements fail) is the environment.\<close>

section \<open>Configuration and environment\<close>

record Config =
  cf_ServerURL :: string
  cf_AccessTokenDuration :: duration
  cf_RefreshTokenDuration :: duration
  cf_IDTokenDuration :: duration
  cf_SessionDuration :: duration
  cf_AuthorizationCodeDuration :: duration
  cf_DeviceCodeDuration :: duration
  cf_DeviceCodePollInterval :: int

text \<open>\<open>fails n\<close>: the \<open>n\<close>-th database statement returns an error. \<open>newUUID n\<close>, \<open>randBytes n\<close> and \<open>randInt n\<close> are the results of
  the \<open>n\<close>-th draw from the UUID generator or \<^verbatim>\<open>crypto/rand\<close> (which may fail). \<^verbatim>\<open>uuid.String\<close>, \<^verbatim>\<open>uuid.Parse\<close>, golang-jwt,
  bcrypt and the Unicode case tables are library functions. The clock is read once per request.\<close>

record env =
  now :: go_time
  config :: Config
  keys :: KeySet
  fails :: "nat \<Rightarrow> bool"
  newUUID :: "nat \<Rightarrow> uuid"
  randBytes :: "nat \<Rightarrow> nat \<Rightarrow> string option"
  randInt :: "nat \<Rightarrow> nat \<Rightarrow> nat option"
  uuidString :: "uuid \<Rightarrow> string"
  uuidParse :: "string \<Rightarrow> uuid option"
  jwt :: jwtlib
  bcryptGenerate :: "nat \<Rightarrow> string \<Rightarrow> string option"
  bcryptCompare :: "string \<Rightarrow> string \<Rightarrow> bool"
  uniUpper :: "string \<Rightarrow> string"
  uniLower :: "string \<Rightarrow> string"

section \<open>State\<close>

text \<open>The tables, the counters of statements and random draws, the events handed to the event sink, and one entry for every
  message that went through an SMTP dialogue: which, and whether the dialogue ended without an error.\<close>

record world =
  users :: "User list"
  clients :: "Client list"
  auth_codes :: "AuthorizationCode list"
  access_tokens :: "AccessToken list"
  refresh_tokens :: "RefreshToken list"
  device_codes :: "DeviceCode list"
  sessions :: "Session list"
  consents :: "Consent list"
  tenants :: "Tenant list"
  email_verifications :: "EmailVerification list"
  password_resets :: "PasswordReset list"
  user_mfa :: "UserMFA list"
  mfa_recovery_codes :: "MFARecoveryCode list"
  initial_access_tokens :: "InitialAccessToken list"
  roles :: "Role list"
  permissions :: "Permission list"
  user_roles :: "UserRole list"
  role_permissions :: "RolePermission list"
  idempotency_keys :: "IdempotencyKey list"
  email_templates :: "EmailTemplate list"
  email_queue :: "EmailQueue list"
  stmts :: nat
  draws :: nat
  events :: "TokenEvent list"
  smtp_log :: "(uuid \<times> bool) list"

definition empty_world :: world where
  "empty_world = \<lparr>users = [], clients = [], auth_codes = [], access_tokens = [], refresh_tokens = [],
     device_codes = [], sessions = [], consents = [], tenants = [], email_verifications = [], password_resets = [],
     user_mfa = [], mfa_recovery_codes = [], initial_access_tokens = [], roles = [], permissions = [], user_roles = [],
     role_permissions = [], idempotency_keys = [], email_templates = [], email_queue = [],
     stmts = 0, draws = 0, events = [], smtp_log = []\<rparr>"

type_synonym 'a op = "(world, err + 'a) state"

section \<open>Statements\<close>

text \<open>Every statement is counted, and fails when the environment says so, leaving the tables alone.\<close>

definition runSQL :: "env \<Rightarrow> (world \<Rightarrow> err + 'a \<times> world) \<Rightarrow> 'a op" where
  "runSQL e f = State (\<lambda>w.
     let w1 = w\<lparr>stmts := Suc (stmts w)\<rparr>
     in if fails e (stmts w) then (Inl DBError, w1)
        else (case f w1 of Inl er \<Rightarrow> (Inl er, w1) | Inr (a, w2) \<Rightarrow> (Inr a, w2)))"

text \<open>\<^verbatim>\<open>First\<close> with a WHERE clause (the unique indexes leave at most one match), INSERT under unique
  indexes (\<open>clash\<close> compares a stored row with the new one), UPDATE ... WHERE returning the rows it changed,
  DELETE ... WHERE, and gorm's \<^verbatim>\<open>Save\<close>: update by primary key, insert when there is no such row.\<close>

definition sqlFirst :: "env \<Rightarrow> (world \<Rightarrow> 'r list) \<Rightarrow> ('r \<Rightarrow> bool) \<Rightarrow> err \<Rightarrow> string \<Rightarrow> 'r op" where
  "sqlFirst e get P notFound msg =
     orReturn (runSQL e (\<lambda>w. Inr (find P (get w), w))) (Wrapped msg)
       (\<lambda>r. case r of None \<Rightarrow> failWith notFound | Some x \<Rightarrow> succeed x)"

definition sqlInsert ::
  "env \<Rightarrow> (world \<Rightarrow> 'r list) \<Rightarrow> (('r list \<Rightarrow> 'r list) \<Rightarrow> world \<Rightarrow> world) \<Rightarrow> ('r \<Rightarrow> 'r \<Rightarrow> bool) \<Rightarrow> 'r \<Rightarrow> string \<Rightarrow> unit op" where
  "sqlInsert e get upd clash row msg =
     mapErr (Wrapped msg)
       (runSQL e (\<lambda>w. if list_ex (\<lambda>r. clash r row) (get w) then Inl UniqueViolation
                      else Inr ((), upd (\<lambda>rows. rows @ [row]) w)))"

definition sqlUpdate ::
  "env \<Rightarrow> (world \<Rightarrow> 'r list) \<Rightarrow> (('r list \<Rightarrow> 'r list) \<Rightarrow> world \<Rightarrow> world) \<Rightarrow> ('r \<Rightarrow> bool) \<Rightarrow> ('r \<Rightarrow> 'r) \<Rightarrow> string \<Rightarrow> 'r list op" where
  "sqlUpdate e get upd P f msg =
     mapErr (Wrapped msg)
       (runSQL e (\<lambda>w. Inr (map f (filter P (get w)), upd (map (\<lambda>r. if P r then f r else r)) w)))"

definition sqlDelete ::
  "env \<Rightarrow> (('r list \<Rightarrow> 'r list) \<Rightarrow> world \<Rightarrow> world) \<Rightarrow> ('r \<Rightarrow> bool) \<Rightarrow> string \<Rightarrow> unit op" where
  "sqlDelete e upd P msg = mapErr (Wrapped msg) (runSQL e (\<lambda>w. Inr ((), upd (filter (\<lambda>r. \<not> P r)) w)))"

definition sqlSave ::
  "env \<Rightarrow> (world \<Rightarrow> 'r list) \<Rightarrow> (('r list \<Rightarrow> 'r list) \<Rightarrow> world \<Rightarrow> world) \<Rightarrow> ('r \<Rightarrow> uuid) \<Rightarrow> ('r \<Rightarrow> 'r \<Rightarrow> bool) \<Rightarrow> 'r \<Rightarrow> string \<Rightarrow> unit op" where
  "sqlSave e get upd key clash row msg =
     mapErr (Wrapped msg)
       (runSQL e (\<lambda>w.
          if list_ex (\<lambda>r. key r \<noteq> key row \<and> clash r row) (get w) then Inl UniqueViolation
          else if list_ex (\<lambda>r. key r = key row) (get w)
          then Inr ((), upd (map (\<lambda>r. if key r = key row then row else r)) w)
          else Inr ((), upd (\<lambda>rows. rows @ [row]) w)))"

definition save_row :: "('r \<Rightarrow> uuid) \<Rightarrow> 'r \<Rightarrow> 'r list \<Rightarrow> 'r list" where
  "save_row key row rows =
     (if list_ex (\<lambda>r. key r = key row) rows then map (\<lambda>r. if key r = key row then row else r) rows else rows @ [row])"

lemma save_row_in: "x \<in> set (save_row key row rows) \<Longrightarrow> x = row \<or> (x \<in> set rows \<and> key x \<noteq> key row)"
  by (auto simp: save_row_def list_ex_iff split: if_splits)

lemma save_row_set: "set (save_row key row rows) = insert row {x \<in> set rows. key x \<noteq> key row}"
  by (auto simp: save_row_def list_ex_iff)

section \<open>Identifiers, random tokens, events\<close>

definition uuid_New :: "env \<Rightarrow> (world, uuid) state" where
  "uuid_New e = State (\<lambda>w. (newUUID e (draws w), w\<lparr>draws := Suc (draws w)\<rparr>))"

definition randomToken :: "env \<Rightarrow> nat \<Rightarrow> string op" where
  "randomToken e len = State (\<lambda>w.
     (case randBytes e (draws w) len of
        None \<Rightarrow> Inl (ErrMsg ''rand'')
      | Some bytes \<Rightarrow> Inr (b64url bytes),
      w\<lparr>draws := Suc (draws w)\<rparr>))"

definition hashToken :: "string \<Rightarrow> string" where
  "hashToken token = b64url (sha256 token)"

definition emit :: "TokenEvent \<Rightarrow> (world, unit) state" where
  "emit ev = State (\<lambda>w. ((), w\<lparr>events := events w @ [ev]\<rparr>))"

definition userRef :: "uuid \<Rightarrow> uuid option" where
  "userRef userID = (if userID = uuid_Nil then None else Some userID)"

lemmas sql_op_defs [sql_defs] =
  sqlFirst_def sqlInsert_def sqlUpdate_def sqlDelete_def sqlSave_def

lemma run_runSQL [monad_simps]:
  "run_state (runSQL e f) w =
     (let w1 = w\<lparr>stmts := Suc (stmts w)\<rparr>
      in if fails e (stmts w) then (Inl DBError, w1)
         else (case f w1 of Inl er \<Rightarrow> (Inl er, w1) | Inr (a, w2) \<Rightarrow> (Inr a, w2)))"
  by (simp add: runSQL_def)

lemma run_uuid_New [monad_simps]: "run_state (uuid_New e) w = (newUUID e (draws w), w\<lparr>draws := Suc (draws w)\<rparr>)"
  by (simp add: uuid_New_def)

lemma run_randomToken [monad_simps]:
  "run_state (randomToken e len) w =
     (case randBytes e (draws w) len of None \<Rightarrow> Inl (ErrMsg ''rand'') | Some bytes \<Rightarrow> Inr (b64url bytes),
      w\<lparr>draws := Suc (draws w)\<rparr>)"
  by (simp add: randomToken_def)

lemma run_emit [monad_simps]: "run_state (emit ev) w = ((), w\<lparr>events := events w @ [ev]\<rparr>)"
  by (simp add: emit_def)

text \<open>Two tokens with one stored hash are a collision of SHA-256.\<close>

lemma hashToken_eq_iff: "hashToken s = hashToken t \<longleftrightarrow> sha256 s = sha256 t"
  by (simp add: hashToken_def b64url_inj)

section \<open>Tables\<close>

text \<open>What a table promises the repositories on top of it: reading after writing, and independence of
  the statement counter.\<close>

locale table =
  fixes get :: "world \<Rightarrow> 'r list"
    and upd :: "('r list \<Rightarrow> 'r list) \<Rightarrow> world \<Rightarrow> world"
  assumes get_upd: "get (upd f w) = f (get w)"
    and upd_const: "upd f w = upd (\<lambda>_. f (get w)) w"
    and get_stmts: "get (w\<lparr>stmts := n\<rparr>) = get w"
begin

lemma First_Inr:
  "run_state (sqlFirst e get P nf msg) w = (Inr r, w') \<longleftrightarrow>
     \<not> fails e (stmts w) \<and> find P (get w) = Some r \<and> w' = w\<lparr>stmts := Suc (stmts w)\<rparr>"
  by (auto simp: sqlFirst_def monad_simps Let_def get_stmts split: option.splits)

lemma First_snd: "snd (run_state (sqlFirst e get P nf msg) w) = w\<lparr>stmts := Suc (stmts w)\<rparr>"
  by (auto simp: sqlFirst_def monad_simps Let_def split: option.splits)

lemma First_run:
  "run_state (sqlFirst e get P nf msg) w =
     (if fails e (stmts w) then Inl (Wrapped msg DBError)
      else case find P (get w) of None \<Rightarrow> Inl nf | Some r \<Rightarrow> Inr r,
      w\<lparr>stmts := Suc (stmts w)\<rparr>)"
  by (auto simp: sqlFirst_def monad_simps Let_def get_stmts split: option.splits)

lemma Insert_Inr:
  "run_state (sqlInsert e get upd clash row msg) w = (Inr u, w') \<longleftrightarrow>
     \<not> fails e (stmts w) \<and> (\<forall>r \<in> set (get w). \<not> clash r row) \<and>
     w' = upd (\<lambda>_. get w @ [row]) (w\<lparr>stmts := Suc (stmts w)\<rparr>)"
  using upd_const [of "\<lambda>rows. rows @ [row]"]
  by (auto simp: sqlInsert_def monad_simps Let_def get_stmts list_ex_iff split: if_splits)

lemma Delete_run:
  "run_state (sqlDelete e upd P msg) w =
     (if fails e (stmts w) then (Inl (Wrapped msg DBError), w\<lparr>stmts := Suc (stmts w)\<rparr>)
      else (Inr (), upd (\<lambda>_. filter (\<lambda>r. \<not> P r) (get w)) (w\<lparr>stmts := Suc (stmts w)\<rparr>)))"
  using upd_const [of "filter (\<lambda>r. \<not> P r)"] by (auto simp: sqlDelete_def monad_simps Let_def get_stmts)

lemma Update_run:
  "run_state (sqlUpdate e get upd P f msg) w =
     (if fails e (stmts w) then (Inl (Wrapped msg DBError), w\<lparr>stmts := Suc (stmts w)\<rparr>)
      else (Inr (map f (filter P (get w))),
            upd (\<lambda>_. map (\<lambda>r. if P r then f r else r) (get w)) (w\<lparr>stmts := Suc (stmts w)\<rparr>)))"
  using upd_const [of "map (\<lambda>r. if P r then f r else r)"]
  by (auto simp: sqlUpdate_def monad_simps Let_def get_stmts)

lemma Insert_run:
  "run_state (sqlInsert e get upd clash row msg) w =
     (if fails e (stmts w) then (Inl (Wrapped msg DBError), w\<lparr>stmts := Suc (stmts w)\<rparr>)
      else if \<exists>r \<in> set (get w). clash r row then (Inl (Wrapped msg UniqueViolation), w\<lparr>stmts := Suc (stmts w)\<rparr>)
      else (Inr (), upd (\<lambda>_. get w @ [row]) (w\<lparr>stmts := Suc (stmts w)\<rparr>)))"
  using upd_const [of "\<lambda>rows. rows @ [row]"]
  by (auto simp: sqlInsert_def monad_simps Let_def get_stmts list_ex_iff)

lemma Save_run:
  "run_state (sqlSave e get upd key clash row msg) w =
     (if fails e (stmts w) then (Inl (Wrapped msg DBError), w\<lparr>stmts := Suc (stmts w)\<rparr>)
      else if \<exists>r \<in> set (get w). key r \<noteq> key row \<and> clash r row
      then (Inl (Wrapped msg UniqueViolation), w\<lparr>stmts := Suc (stmts w)\<rparr>)
      else (Inr (), upd (\<lambda>_. save_row key row (get w)) (w\<lparr>stmts := Suc (stmts w)\<rparr>)))"
  using upd_const [of "\<lambda>rows. rows @ [row]"] upd_const [of "map (\<lambda>r. if key r = key row then row else r)"]
  by (auto simp: sqlSave_def save_row_def monad_simps Let_def get_stmts list_ex_iff)

text \<open>What was inserted is found by any condition it is the only row to meet; what was deleted is gone.\<close>

lemma First_after_Insert:
  assumes "run_state (sqlInsert e get upd clash row msg) w = (Inr u, w')" "P row" "\<And>r. P r \<Longrightarrow> clash r row"
  shows "find P (get w') = Some row"
proof -
  have "find P (get w) = None"
    using assms by (auto simp: Insert_Inr find_None_iff)
  then show ?thesis
    using assms(1,2) by (simp add: Insert_Inr get_upd get_stmts find_append)
qed

lemma First_after_Delete:
  assumes "run_state (sqlDelete e upd P msg) w = (Inr u, w')"
  shows "find P (get w') = None"
  using assms by (auto simp: Delete_run get_upd get_stmts find_None_iff split: if_splits)

lemma steps_First: "R w (w\<lparr>stmts := Suc (stmts w)\<rparr>) \<Longrightarrow> R w (snd (run_state (sqlFirst e get P nf msg) w))"
  by (simp add: First_snd)

end

interpretation users: table users users_update
  by unfold_locales auto
interpretation clients: table clients clients_update
  by unfold_locales auto
interpretation auth_codes: table auth_codes auth_codes_update
  by unfold_locales auto
interpretation access_tokens: table access_tokens access_tokens_update
  by unfold_locales auto
interpretation refresh_tokens: table refresh_tokens refresh_tokens_update
  by unfold_locales auto
interpretation device_codes: table device_codes device_codes_update
  by unfold_locales auto
interpretation sessions: table sessions sessions_update
  by unfold_locales auto
interpretation consents: table consents consents_update
  by unfold_locales auto
interpretation tenants: table tenants tenants_update
  by unfold_locales auto
interpretation email_verifications: table email_verifications email_verifications_update
  by unfold_locales auto
interpretation password_resets: table password_resets password_resets_update
  by unfold_locales auto
interpretation user_mfa: table user_mfa user_mfa_update
  by unfold_locales auto
interpretation mfa_recovery_codes: table mfa_recovery_codes mfa_recovery_codes_update
  by unfold_locales auto
interpretation initial_access_tokens: table initial_access_tokens initial_access_tokens_update
  by unfold_locales auto
interpretation roles: table roles roles_update
  by unfold_locales auto
interpretation permissions: table permissions permissions_update
  by unfold_locales auto
interpretation user_roles: table user_roles user_roles_update
  by unfold_locales auto
interpretation role_permissions: table role_permissions role_permissions_update
  by unfold_locales auto
interpretation idempotency_keys: table idempotency_keys idempotency_keys_update
  by unfold_locales auto
interpretation email_templates: table email_templates email_templates_update
  by unfold_locales auto
interpretation email_queue: table email_queue email_queue_update
  by unfold_locales auto

end
