(* ===== verification/Repos.thy ===== *)
theory Repos
  imports World
begin

text \<open>The gorm repositories (\<^verbatim>\<open>internal/repo/gorm/*.go\<close>) of users, clients, authorization codes, access and refresh
  tokens, device codes, sessions and consents, as statements on the tables, with the unique indexes of
  \<^verbatim>\<open>internal/database/database.go\<close>. Rows of users and clients are deleted softly.\<close>

definition autoCreateTime :: "env \<Rightarrow> go_time \<Rightarrow> go_time" where
  "autoCreateTime e t = (if t = zero_time then now e else t)"

text \<open>\<^verbatim>\<open>Order("created_at DESC").Limit(l).Offset(o)\<close>: a negative limit and a non-positive offset are left out.\<close>

definition sqlPage :: "('r \<Rightarrow> go_time) \<Rightarrow> int \<Rightarrow> int \<Rightarrow> 'r list \<Rightarrow> 'r list" where
  "sqlPage created limit offset rows =
     (let sorted = sort_key (\<lambda>r. - created r) rows; rest = drop (nat offset) sorted
      in if 0 \<le> limit then take (nat limit) rest else rest)"

definition sqlList ::
  "env \<Rightarrow> (world \<Rightarrow> 'r list) \<Rightarrow> ('r \<Rightarrow> bool) \<Rightarrow> ('r \<Rightarrow> go_time) \<Rightarrow> int \<Rightarrow> int \<Rightarrow> string \<Rightarrow> string \<Rightarrow> ('r list \<times> int) op" where
  "sqlList e get P created limit offset msg1 msg2 =
     orReturn (runSQL e (\<lambda>w. Inr (int (length (filter P (get w))), w))) (Wrapped msg1) (\<lambda>total.
     orReturn (runSQL e (\<lambda>w. Inr (sqlPage created limit offset (filter P (get w)), w))) (Wrapped msg2) (\<lambda>rows.
     succeed (rows, total)))"

section \<open>Users\<close>

definition user_live :: "User \<Rightarrow> bool" where
  "user_live u \<longleftrightarrow> u_DeletedAt u = None"

definition users_clash :: "User \<Rightarrow> User \<Rightarrow> bool" where
  "users_clash r u \<longleftrightarrow> u_ID r = u_ID u
     \<or> user_live r \<and> user_live u \<and> u_TenantID r = u_TenantID u
       \<and> (u_Username r = u_Username u \<or> u_Email r = u_Email u)"

text \<open>The struct as gorm leaves it: column defaults and times filled in.\<close>

definition User_row :: "env \<Rightarrow> User \<Rightarrow> User" where
  "User_row e u =
     u\<lparr>u_Status := (if u_Status u = UserStatusOther [] then UserStatusPending else u_Status u),
       u_Locale := (if u_Locale u = [] then ''en'' else u_Locale u),
       u_Timezone := (if u_Timezone u = [] then ''UTC'' else u_Timezone u),
       u_CreatedAt := autoCreateTime e (u_CreatedAt u),
       u_UpdatedAt := autoCreateTime e (u_UpdatedAt u)\<rparr>"

definition User_Create :: "env \<Rightarrow> User \<Rightarrow> unit op" where
  "User_Create e u = sqlInsert e users users_update users_clash (User_row e u) ''failed to create user''"

definition User_GetByID :: "env \<Rightarrow> uuid \<Rightarrow> uuid \<Rightarrow> User op" where
  "User_GetByID e tenantID userID =
     sqlFirst e users (\<lambda>u. u_TenantID u = tenantID \<and> u_ID u = userID \<and> user_live u)
       ErrUserNotFound ''failed to get user by ID''"

definition User_GetByEmail :: "env \<Rightarrow> uuid \<Rightarrow> string \<Rightarrow> User op" where
  "User_GetByEmail e tenantID email =
     sqlFirst e users (\<lambda>u. u_TenantID u = tenantID \<and> u_Email u = email \<and> user_live u)
       ErrUserNotFound ''failed to get user by email''"

definition User_GetByUsername :: "env \<Rightarrow> uuid \<Rightarrow> string \<Rightarrow> User op" where
  "User_GetByUsername e tenantID username =
     sqlFirst e users (\<lambda>u. u_TenantID u = tenantID \<and> u_Username u = username \<and> user_live u)
       ErrUserNotFound ''failed to get user by username''"

definition User_Update :: "env \<Rightarrow> User \<Rightarrow> unit op" where
  "User_Update e u =
     sqlSave e users users_update u_ID users_clash (u\<lparr>u_UpdatedAt := now e\<rparr>) ''failed to update user''"

definition User_Delete :: "env \<Rightarrow> uuid \<Rightarrow> uuid \<Rightarrow> unit op" where
  "User_Delete e tenantID userID =
     orReturn (sqlUpdate e users users_update (\<lambda>u. u_TenantID u = tenantID \<and> u_ID u = userID \<and> user_live u)
        (\<lambda>u. u\<lparr>u_DeletedAt := Some (now e)\<rparr>) ''failed to delete user'') id (\<lambda>_. succeed ())"

definition User_List :: "env \<Rightarrow> uuid \<Rightarrow> int \<Rightarrow> int \<Rightarrow> (User list \<times> int) op" where
  "User_List e tenantID limit offset =
     sqlList e users (\<lambda>u. u_TenantID u = tenantID \<and> user_live u) u_CreatedAt limit offset
       ''failed to count users'' ''failed to list users''"

section \<open>Clients\<close>

definition client_live :: "Client \<Rightarrow> bool" where
  "client_live c \<longleftrightarrow> c_DeletedAt c = None"

definition clients_clash :: "Client \<Rightarrow> Client \<Rightarrow> bool" where
  "clients_clash r c \<longleftrightarrow> c_ID r = c_ID c
     \<or> client_live r \<and> client_live c \<and> c_TenantID r = c_TenantID c \<and> c_ClientID r = c_ClientID c"

text \<open>The plain secret is not a column.\<close>

definition Client_row :: "env \<Rightarrow> Client \<Rightarrow> Client" where
  "Client_row e c = c\<lparr>c_PlainClientSecret := []\<rparr>"

text \<open>Create returns the struct as gorm leaves it, with defaults and times filled in.\<close>

definition Client_Create :: "env \<Rightarrow> Client \<Rightarrow> Client op" where
  "Client_Create e c =
     (let c' = c\<lparr>c_TokenEndpointAuthMethod :=
                   (if c_TokenEndpointAuthMethod c = [] then ''client_secret_basic'' else c_TokenEndpointAuthMethod c),
                 c_CreatedAt := autoCreateTime e (c_CreatedAt c),
                 c_UpdatedAt := autoCreateTime e (c_UpdatedAt c)\<rparr>
      in orReturn (sqlInsert e clients clients_update clients_clash (Client_row e c') ''failed to create client'') id
           (\<lambda>_. succeed c'))"

definition Client_GetByID :: "env \<Rightarrow> uuid \<Rightarrow> uuid \<Rightarrow> Client op" where
  "Client_GetByID e tenantID clientID =
     sqlFirst e clients (\<lambda>c. c_TenantID c = tenantID \<and> c_ID c = clientID \<and> client_live c)
       ErrClientNotFound ''failed to get client by ID''"

definition Client_GetByClientID :: "env \<Rightarrow> uuid \<Rightarrow> string \<Rightarrow> Client op" where
  "Client_GetByClientID e tenantID clientID =
     sqlFirst e clients (\<lambda>c. c_TenantID c = tenantID \<and> c_ClientID c = clientID \<and> client_live c)
       ErrClientNotFound ''failed to get client by client_id''"

definition Client_Update :: "env \<Rightarrow> Client \<Rightarrow> unit op" where
  "Client_Update e c =
     sqlSave e clients clients_update c_ID clients_clash (Client_row e (c\<lparr>c_UpdatedAt := now e\<rparr>)) ''failed to update client''"

definition Client_Delete :: "env \<Rightarrow> uuid \<Rightarrow> uuid \<Rightarrow> unit op" where
  "Client_Delete e tenantID clientID =
     orReturn (sqlUpdate e clients clients_update (\<lambda>c. c_TenantID c = tenantID \<and> c_ID c = clientID \<and> client_live c)
        (\<lambda>c. c\<lparr>c_DeletedAt := Some (now e)\<rparr>) ''failed to delete client'') id (\<lambda>_. succeed ())"

definition Client_List :: "env \<Rightarrow> uuid \<Rightarrow> int \<Rightarrow> int \<Rightarrow> (Client list \<times> int) op" where
  "Client_List e tenantID limit offset =
     sqlList e clients (\<lambda>c. c_TenantID c = tenantID \<and> client_live c) c_CreatedAt limit offset
       ''failed to count clients'' ''failed to list clients''"

section \<open>Authorization codes\<close>

definition auth_codes_clash :: "AuthorizationCode \<Rightarrow> AuthorizationCode \<Rightarrow> bool" where
  "auth_codes_clash r c \<longleftrightarrow> ac_ID r = ac_ID c \<or> ac_Code r = ac_Code c"

definition AuthCode_Create :: "env \<Rightarrow> AuthorizationCode \<Rightarrow> unit op" where
  "AuthCode_Create e code =
     sqlInsert e auth_codes auth_codes_update auth_codes_clash
       (code\<lparr>ac_CreatedAt := autoCreateTime e (ac_CreatedAt code)\<rparr>) ''failed to create authorization code''"

definition AuthCode_GetByCode :: "env \<Rightarrow> uuid \<Rightarrow> string \<Rightarrow> AuthorizationCode op" where
  "AuthCode_GetByCode e tenantID code =
     sqlFirst e auth_codes (\<lambda>c. ac_TenantID c = tenantID \<and> ac_Code c = code)
       ErrAuthCodeNotFound ''failed to get authorization code''"

text \<open>\<^verbatim>\<open>Consume\<close> returns a code together with an error when the code was used before; the result is the
  code, if any, and the error, if any.\<close>

definition AuthCode_Consume :: "env \<Rightarrow> uuid \<Rightarrow> string \<Rightarrow> (world, AuthorizationCode option \<times> err option) state" where
  "AuthCode_Consume e tenantID code = do {
     r \<leftarrow> sqlUpdate e auth_codes auth_codes_update
            (\<lambda>c. ac_TenantID c = tenantID \<and> ac_Code c = code \<and> ac_UsedAt c = None)
            (\<lambda>c. c\<lparr>ac_UsedAt := Some (now e)\<rparr>) ''failed to consume authorization code'';
     case r of
       Inl er \<Rightarrow> State_Monad.return (None, Some er)
     | Inr (c # _) \<Rightarrow> State_Monad.return (Some c, None)
     | Inr [] \<Rightarrow> do {
         existing \<leftarrow> AuthCode_GetByCode e tenantID code;
         case existing of
           Inl _ \<Rightarrow> State_Monad.return (None, Some ErrAuthCodeNotFound)
         | Inr c \<Rightarrow> State_Monad.return (Some c, Some ErrAuthCodeAlreadyUsed)
       }
   }"

definition AuthCode_Delete :: "env \<Rightarrow> uuid \<Rightarrow> string \<Rightarrow> unit op" where
  "AuthCode_Delete e tenantID code =
     sqlDelete e auth_codes_update (\<lambda>c. ac_TenantID c = tenantID \<and> ac_Code c = code)
       ''failed to delete authorization code''"

definition AuthCode_DeleteExpired :: "env \<Rightarrow> unit op" where
  "AuthCode_DeleteExpired e =
     sqlDelete e auth_codes_update (\<lambda>c. ac_ExpiresAt c < now e) ''failed to delete expired authorization codes''"

section \<open>Access tokens\<close>

definition access_tokens_clash :: "AccessToken \<Rightarrow> AccessToken \<Rightarrow> bool" where
  "access_tokens_clash r t \<longleftrightarrow> at_ID r = at_ID t \<or> at_Token r = at_Token t"

definition AccessToken_Create :: "env \<Rightarrow> AccessToken \<Rightarrow> unit op" where
  "AccessToken_Create e token =
     sqlInsert e access_tokens access_tokens_update access_tokens_clash
       (token\<lparr>at_CreatedAt := autoCreateTime e (at_CreatedAt token)\<rparr>) ''failed to create access token''"

definition AccessToken_GetByToken :: "env \<Rightarrow> uuid \<Rightarrow> string \<Rightarrow> AccessToken op" where
  "AccessToken_GetByToken e tenantID token =
     sqlFirst e access_tokens (\<lambda>t. at_TenantID t = tenantID \<and> at_Token t = token)
       ErrAccessTokenNotFound ''failed to get access token''"

definition AccessToken_Delete :: "env \<Rightarrow> uuid \<Rightarrow> string \<Rightarrow> unit op" where
  "AccessToken_Delete e tenantID token =
     sqlDelete e access_tokens_update (\<lambda>t. at_TenantID t = tenantID \<and> at_Token t = token)
       ''failed to delete access token''"

definition AccessToken_DeleteExpired :: "env \<Rightarrow> unit op" where
  "AccessToken_DeleteExpired e =
     sqlDelete e access_tokens_update (\<lambda>t. at_ExpiresAt t < now e) ''failed to delete expired access tokens''"

definition AccessToken_DeleteByFamilyID :: "env \<Rightarrow> uuid \<Rightarrow> uuid \<Rightarrow> unit op" where
  "AccessToken_DeleteByFamilyID e tenantID familyID =
     sqlDelete e access_tokens_update (\<lambda>t. at_TenantID t = tenantID \<and> at_FamilyID t = familyID)
       ''failed to delete access tokens by family ID''"

definition AccessToken_DeleteByUserID :: "env \<Rightarrow> uuid \<Rightarrow> uuid \<Rightarrow> unit op" where
  "AccessToken_DeleteByUserID e tenantID userID =
     sqlDelete e access_tokens_update (\<lambda>t. at_TenantID t = tenantID \<and> at_UserID t = userID)
       ''failed to delete access tokens by user ID''"

definition AccessToken_DeleteByClientID :: "env \<Rightarrow> uuid \<Rightarrow> uuid \<Rightarrow> unit op" where
  "AccessToken_DeleteByClientID e tenantID clientID =
     sqlDelete e access_tokens_update (\<lambda>t. at_TenantID t = tenantID \<and> at_ClientID t = clientID)
       ''failed to delete access tokens by client ID''"

section \<open>Refresh tokens\<close>

definition refresh_tokens_clash :: "RefreshToken \<Rightarrow> RefreshToken \<Rightarrow> bool" where
  "refresh_tokens_clash r t \<longleftrightarrow> rt_ID r = rt_ID t \<or> rt_Token r = rt_Token t"

definition RefreshToken_Create :: "env \<Rightarrow> RefreshToken \<Rightarrow> unit op" where
  "RefreshToken_Create e token =
     sqlInsert e refresh_tokens refresh_tokens_update refresh_tokens_clash
       (token\<lparr>rt_CreatedAt := autoCreateTime e (rt_CreatedAt token)\<rparr>) ''failed to create refresh token''"

definition RefreshToken_GetByToken :: "env \<Rightarrow> uuid \<Rightarrow> string \<Rightarrow> RefreshToken op" where
  "RefreshToken_GetByToken e tenantID token =
     sqlFirst e refresh_tokens (\<lambda>t. rt_TenantID t = tenantID \<and> rt_Token t = token)
       ErrRefreshTokenNotFound ''failed to get refresh token''"

definition RefreshToken_Revoke :: "env \<Rightarrow> uuid \<Rightarrow> string \<Rightarrow> bool op" where
  "RefreshToken_Revoke e tenantID token =
     orReturn (sqlUpdate e refresh_tokens refresh_tokens_update
         (\<lambda>t. rt_TenantID t = tenantID \<and> rt_Token t = token \<and> rt_RevokedAt t = None)
         (\<lambda>t. t\<lparr>rt_RevokedAt := Some (now e)\<rparr>) ''failed to revoke refresh token'') id
       (\<lambda>rows. succeed (length rows = 1))"

definition RefreshToken_Delete :: "env \<Rightarrow> uuid \<Rightarrow> string \<Rightarrow> unit op" where
  "RefreshToken_Delete e tenantID token =
     sqlDelete e refresh_tokens_update (\<lambda>t. rt_TenantID t = tenantID \<and> rt_Token t = token)
       ''failed to delete refresh token''"

definition RefreshToken_DeleteExpired :: "env \<Rightarrow> unit op" where
  "RefreshToken_DeleteExpired e =
     sqlDelete e refresh_tokens_update (\<lambda>t. rt_ExpiresAt t < now e) ''failed to delete expired refresh tokens''"

definition RefreshToken_DeleteByFamilyID :: "env \<Rightarrow> uuid \<Rightarrow> uuid \<Rightarrow> unit op" where
  "RefreshToken_DeleteByFamilyID e tenantID familyID =
     sqlDelete e refresh_tokens_update (\<lambda>t. rt_TenantID t = tenantID \<and> rt_FamilyID t = familyID)
       ''failed to delete refresh tokens by family ID''"

definition RefreshToken_DeleteByUserID :: "env \<Rightarrow> uuid \<Rightarrow> uuid \<Rightarrow> unit op" where
  "RefreshToken_DeleteByUserID e tenantID userID =
     sqlDelete e refresh_tokens_update (\<lambda>t. rt_TenantID t = tenantID \<and> rt_UserID t = userID)
       ''failed to delete refresh tokens by user ID''"

definition RefreshToken_DeleteByClientID :: "env \<Rightarrow> uuid \<Rightarrow> uuid \<Rightarrow> unit op" where
  "RefreshToken_DeleteByClientID e tenantID clientID =
     sqlDelete e refresh_tokens_update (\<lambda>t. rt_TenantID t = tenantID \<and> rt_ClientID t = clientID)
       ''failed to delete refresh tokens by client ID''"

section \<open>Device codes\<close>

definition device_codes_clash :: "DeviceCode \<Rightarrow> DeviceCode \<Rightarrow> bool" where
  "device_codes_clash r c \<longleftrightarrow> dc_ID r = dc_ID c \<or> dc_DeviceCode r = dc_DeviceCode c \<or> dc_UserCode r = dc_UserCode c"

definition DeviceCode_Create :: "env \<Rightarrow> DeviceCode \<Rightarrow> unit op" where
  "DeviceCode_Create e code =
     sqlInsert e device_codes device_codes_update device_codes_clash
       (code\<lparr>dc_CreatedAt := autoCreateTime e (dc_CreatedAt code)\<rparr>) ''failed to create device code''"

definition DeviceCode_GetByDeviceCode :: "env \<Rightarrow> uuid \<Rightarrow> string \<Rightarrow> DeviceCode op" where
  "DeviceCode_GetByDeviceCode e tenantID deviceCode =
     sqlFirst e device_codes (\<lambda>c. dc_TenantID c = tenantID \<and> dc_DeviceCode c = deviceCode)
       ErrDeviceCodeNotFound ''failed to get device code''"

definition DeviceCode_GetByUserCode :: "env \<Rightarrow> uuid \<Rightarrow> string \<Rightarrow> DeviceCode op" where
  "DeviceCode_GetByUserCode e tenantID userCode =
     sqlFirst e device_codes (\<lambda>c. dc_TenantID c = tenantID \<and> dc_UserCode c = userCode)
       ErrDeviceCodeNotFound ''failed to get device code by user code''"

definition DeviceCode_Update :: "env \<Rightarrow> DeviceCode \<Rightarrow> unit op" where
  "DeviceCode_Update e code =
     sqlSave e device_codes device_codes_update dc_ID device_codes_clash code ''failed to update device code''"

definition DeviceCode_Delete :: "env \<Rightarrow> uuid \<Rightarrow> string \<Rightarrow> unit op" where
  "DeviceCode_Delete e tenantID deviceCode =
     sqlDelete e device_codes_update (\<lambda>c. dc_TenantID c = tenantID \<and> dc_DeviceCode c = deviceCode)
       ''failed to delete device code''"

definition DeviceCode_DeleteExpired :: "env \<Rightarrow> unit op" where
  "DeviceCode_DeleteExpired e =
     sqlDelete e device_codes_update (\<lambda>c. dc_ExpiresAt c < now e) ''failed to delete expired device codes''"

section \<open>Sessions and consents\<close>

definition sessions_clash :: "Session \<Rightarrow> Session \<Rightarrow> bool" where
  "sessions_clash r s \<longleftrightarrow> s_ID r = s_ID s \<or> s_TokenHash r = s_TokenHash s"

definition Session_Create :: "env \<Rightarrow> Session \<Rightarrow> unit op" where
  "Session_Create e session =
     sqlInsert e sessions sessions_update sessions_clash
       (session\<lparr>s_CreatedAt := autoCreateTime e (s_CreatedAt session)\<rparr>) ''failed to create session''"

definition Session_GetByTokenHash :: "env \<Rightarrow> uuid \<Rightarrow> string \<Rightarrow> Session op" where
  "Session_GetByTokenHash e tenantID tokenHash =
     sqlFirst e sessions (\<lambda>s. s_TenantID s = tenantID \<and> s_TokenHash s = tokenHash)
       ErrSessionNotFound ''failed to get session''"

definition Session_DeleteByTokenHash :: "env \<Rightarrow> uuid \<Rightarrow> string \<Rightarrow> unit op" where
  "Session_DeleteByTokenHash e tenantID tokenHash =
     sqlDelete e sessions_update (\<lambda>s. s_TenantID s = tenantID \<and> s_TokenHash s = tokenHash) ''failed to delete session''"

definition Session_DeleteByUserID :: "env \<Rightarrow> uuid \<Rightarrow> uuid \<Rightarrow> unit op" where
  "Session_DeleteByUserID e tenantID userID =
     sqlDelete e sessions_update (\<lambda>s. s_TenantID s = tenantID \<and> s_UserID s = userID) ''failed to delete user sessions''"

definition Session_DeleteExpired :: "env \<Rightarrow> unit op" where
  "Session_DeleteExpired e =
     sqlDelete e sessions_update (\<lambda>s. s_ExpiresAt s < now e) ''failed to delete expired sessions''"

definition consent_key :: "Consent \<Rightarrow> uuid \<times> uuid \<times> uuid" where
  "consent_key c = (co_TenantID c, co_UserID c, co_ClientID c)"

definition Consent_Get :: "env \<Rightarrow> uuid \<Rightarrow> uuid \<Rightarrow> uuid \<Rightarrow> Consent op" where
  "Consent_Get e tenantID userID clientID =
     sqlFirst e consents (\<lambda>c. co_TenantID c = tenantID \<and> co_UserID c = userID \<and> co_ClientID c = clientID)
       ErrResourceNotFound ''failed to get consent''"

text \<open>INSERT ... ON CONFLICT (tenant, user, client) DO UPDATE SET scope, updated_at; a clash on the primary
  key alone is still an error.\<close>

definition Consent_Upsert :: "env \<Rightarrow> Consent \<Rightarrow> unit op" where
  "Consent_Upsert e consent =
     (let row = consent\<lparr>co_CreatedAt := autoCreateTime e (co_CreatedAt consent),
                         co_UpdatedAt := autoCreateTime e (co_UpdatedAt consent)\<rparr>
      in mapErr (Wrapped ''failed to save consent'')
        (runSQL e (\<lambda>w.
          if list_ex (\<lambda>c. consent_key c = consent_key row) (consents w)
          then Inr ((), consents_update
                 (map (\<lambda>c. if consent_key c = consent_key row
                           then c\<lparr>co_Scope := co_Scope row, co_UpdatedAt := co_UpdatedAt row\<rparr> else c)) w)
          else if list_ex (\<lambda>c. co_ID c = co_ID row) (consents w) then Inl UniqueViolation
          else Inr ((), consents_update (\<lambda>rows. rows @ [row]) w))))"

definition Consent_Delete :: "env \<Rightarrow> uuid \<Rightarrow> uuid \<Rightarrow> uuid \<Rightarrow> unit op" where
  "Consent_Delete e tenantID userID clientID =
     sqlDelete e consents_update (\<lambda>c. co_TenantID c = tenantID \<and> co_UserID c = userID \<and> co_ClientID c = clientID)
       ''failed to delete consent''"

section \<open>Email verifications and password resets\<close>

definition EmailVerification_DeleteExpired :: "env \<Rightarrow> unit op" where
  "EmailVerification_DeleteExpired e =
     sqlDelete e email_verifications_update (\<lambda>v. emv_ExpiresAt v < now e)
       ''failed to delete expired email verifications''"

definition PasswordReset_DeleteExpired :: "env \<Rightarrow> unit op" where
  "PasswordReset_DeleteExpired e =
     sqlDelete e password_resets_update (\<lambda>v. pr_ExpiresAt v < now e \<and> pr_CreatedAt v < now e - seconds (24 * 3600))
       ''failed to delete expired password resets''"

lemmas token_repo_defs [sql_defs] =
  AuthCode_Create_def AuthCode_GetByCode_def AuthCode_Consume_def AuthCode_Delete_def AuthCode_DeleteExpired_def
  AccessToken_Create_def AccessToken_GetByToken_def AccessToken_Delete_def AccessToken_DeleteExpired_def
  AccessToken_DeleteByFamilyID_def AccessToken_DeleteByUserID_def AccessToken_DeleteByClientID_def
  RefreshToken_Create_def RefreshToken_GetByToken_def RefreshToken_Revoke_def RefreshToken_Delete_def
  RefreshToken_DeleteExpired_def RefreshToken_DeleteByFamilyID_def RefreshToken_DeleteByUserID_def
  RefreshToken_DeleteByClientID_def

lemmas other_repo_defs [sql_defs] =
  User_Create_def User_GetByID_def User_GetByEmail_def User_GetByUsername_def User_Update_def User_Delete_def
  User_List_def Client_Create_def Client_GetByID_def Client_GetByClientID_def Client_Update_def Client_Delete_def
  Client_List_def DeviceCode_Create_def DeviceCode_GetByDeviceCode_def DeviceCode_GetByUserCode_def
  DeviceCode_Update_def DeviceCode_Delete_def DeviceCode_DeleteExpired_def Session_Create_def
  Session_GetByTokenHash_def Session_DeleteByTokenHash_def Session_DeleteByUserID_def Session_DeleteExpired_def
  Consent_Get_def Consent_Upsert_def Consent_Delete_def EmailVerification_DeleteExpired_def
  PasswordReset_DeleteExpired_def

end
