(* ===== verification/Scope.thy ===== *)
theory Scope
  imports Models
begin

text \<open>OAuth scopes (\<^verbatim>\<open>internal/services/scope.go\<close>) and the user claims they release
  (\<^verbatim>\<open>internal/services/oidc_claims.go\<close>).\<close>

section \<open>Scope strings\<close>

definition ParseScope :: "string \<Rightarrow> string list" where
  "ParseScope scope = strings_Fields scope"

definition ScopeContains :: "string \<Rightarrow> string \<Rightarrow> bool" where
  "ScopeContains scope target = list_ex (\<lambda>s. s = target) (ParseScope scope)"

text \<open>\<open>allowedSet\<close> is the map the code fills before it checks the requested scopes.\<close>

definition ScopeIsSubset :: "string \<Rightarrow> string \<Rightarrow> bool" where
  "ScopeIsSubset requested allowed =
     (let allowedSet = fold (\<lambda>s m. m(s \<mapsto> ())) (ParseScope allowed) Map.empty
      in list_all (\<lambda>s. allowedSet s \<noteq> None) (ParseScope requested))"

definition ValidateScopeForClient :: "Client \<Rightarrow> string \<Rightarrow> err + string" where
  "ValidateScopeForClient client requested =
     (let registered = strings_Join (c_Scopes client) '' ''
      in if strings_TrimSpace requested = [] then Inr registered
         else if \<not> ScopeIsSubset requested registered then Inl ErrInvalidScope
         else Inr (strings_Join (ParseScope requested) '' ''))"

section \<open>Claims\<close>

definition ScopeOpenID :: string where "ScopeOpenID = ''openid''"
definition ScopeProfile :: string where "ScopeProfile = ''profile''"
definition ScopeEmail :: string where "ScopeEmail = ''email''"
definition ScopePhone :: string where "ScopePhone = ''phone''"

record authContext =
  ax_grantType :: string
  ax_authTime :: "go_time option"
  ax_amr :: "string list"
  ax_nonce :: string

definition authContext_zero :: authContext where
  "authContext_zero = \<lparr>ax_grantType = [], ax_authTime = None, ax_amr = [], ax_nonce = []\<rparr>"

definition profileClaims :: "User \<Rightarrow> UserInfo \<Rightarrow> UserInfo" where
  "profileClaims user claims =
     (let name = strings_TrimSpace (u_FirstName user @ '' '' @ u_LastName user);
          claims = claims\<lparr>ui_Name := (if name = [] then u_Username user else name),
                    ui_GivenName := u_FirstName user, ui_FamilyName := u_LastName user,
                    ui_PreferredUsername := u_Username user, ui_Picture := u_Avatar user,
                    ui_Locale := u_Locale user, ui_Zoneinfo := u_Timezone user\<rparr>
      in if u_UpdatedAt user \<noteq> zero_time then claims\<lparr>ui_UpdatedAt := time_unix (u_UpdatedAt user)\<rparr> else claims)"

definition userClaimsForScope :: "(uuid \<Rightarrow> string) \<Rightarrow> User \<Rightarrow> string \<Rightarrow> UserInfo" where
  "userClaimsForScope uuidString user scope =
     (let claims = UserInfo_zero\<lparr>ui_Sub := uuidString (u_ID user)\<rparr>;
          claims = (if ScopeContains scope ScopeProfile then profileClaims user claims else claims);
          claims = (if ScopeContains scope ScopeEmail
                    then claims\<lparr>ui_Email := u_Email user, ui_EmailVerified := Some (u_EmailVerified user)\<rparr>
                    else claims)
      in if ScopeContains scope ScopePhone \<and> u_PhoneNumber user \<noteq> []
         then claims\<lparr>ui_PhoneNumber := u_PhoneNumber user, ui_PhoneNumberVerified := Some (u_PhoneVerified user)\<rparr>
         else claims)"

section \<open>Scopes as sets\<close>

lemma ScopeContains_iff: "ScopeContains scope t \<longleftrightarrow> t \<in> set (ParseScope scope)"
  by (simp add: ScopeContains_def)

lemma fold_mapsto_dom: "fold (\<lambda>s m. m(s \<mapsto> ())) xs m t \<noteq> None \<longleftrightarrow> t \<in> set xs \<or> m t \<noteq> None"
  by (induction xs arbitrary: m) auto

lemma ScopeIsSubset_iff: "ScopeIsSubset r a \<longleftrightarrow> set (ParseScope r) \<subseteq> set (ParseScope a)"
  unfolding ScopeIsSubset_def Let_def list_all_iff fold_mapsto_dom by auto

lemma ScopeIsSubset_refl [simp]: "ScopeIsSubset s s"
  by (simp add: ScopeIsSubset_iff)

lemma ScopeIsSubset_trans: "ScopeIsSubset a b \<Longrightarrow> ScopeIsSubset b c \<Longrightarrow> ScopeIsSubset a c"
  by (auto simp: ScopeIsSubset_iff)

lemma ParseScope_Join: "set (ParseScope (strings_Join ss '' '')) = (\<Union>s \<in> set ss. set (ParseScope s))"
  by (simp add: ParseScope_def Fields_Join)

lemma ParseScope_Join_ParseScope [simp]: "ParseScope (strings_Join (ParseScope s) '' '') = ParseScope s"
  by (simp add: ParseScope_def)

lemma ValidateScopeForClient_Inr:
  assumes "ValidateScopeForClient c r = Inr s"
  shows "ScopeIsSubset s (strings_Join (c_Scopes c) '' '')"
    "ParseScope r \<noteq> [] \<Longrightarrow> ParseScope s = ParseScope r"
    "ParseScope r = [] \<Longrightarrow> s = strings_Join (c_Scopes c) '' ''"
  using assms
  by (auto simp: ValidateScopeForClient_def Let_def TrimSpace_Nil_iff ParseScope_def [symmetric] ScopeIsSubset_iff
      split: if_splits)

section \<open>Properties\<close>

definition registeredScopes :: "Client \<Rightarrow> string set" where
  "registeredScopes c = (\<Union>s \<in> set (c_Scopes c). set (ParseScope s))"

text \<open>Scope validation grants exactly what was asked, or everything registered when nothing was
  asked, never anything outside the client's registration; it refuses exactly the requests that name
  an unregistered scope; and what it grants it grants again unchanged.\<close>

theorem validate_scope_spec:
  "case ValidateScopeForClient c r of
     Inl er \<Rightarrow> er = ErrInvalidScope \<and> \<not> set (ParseScope r) \<subseteq> registeredScopes c
   | Inr s \<Rightarrow> set (ParseScope r) \<subseteq> registeredScopes c \<and> set (ParseScope s) \<subseteq> registeredScopes c
       \<and> ParseScope s = (if ParseScope r = [] then concat (map ParseScope (c_Scopes c)) else ParseScope r)
       \<and> ValidateScopeForClient c (strings_Join (ParseScope s) '' '')
           = Inr (if ParseScope s = [] then s else strings_Join (ParseScope s) '' '')"
proof -
  let ?J = "strings_Join (c_Scopes c) '' ''"
  have reg: "set (ParseScope ?J) = registeredScopes c"
    by (simp add: ParseScope_Join registeredScopes_def)
  have list: "concat (map ParseScope (c_Scopes c)) = ParseScope ?J"
    by (simp add: ParseScope_def Fields_Join cong: map_cong)
  have blank: "strings_TrimSpace t = [] \<longleftrightarrow> ParseScope t = []" for t
    by (simp add: TrimSpace_Nil_iff ParseScope_def)
  note defs = ValidateScopeForClient_def Let_def blank ScopeIsSubset_iff reg list
  show ?thesis
  proof (cases "ParseScope r = []")
    case True
    then show ?thesis
      by (simp add: defs)
  next
    case False
    then show ?thesis
      by (cases "set (ParseScope r) \<subseteq> registeredScopes c") (simp_all add: defs)
  qed
qed

text \<open>C4: claims are released per granted scope. The ID token and UserInfo claims of two users who
  agree on the subject and on the data of the granted scopes are the same: nothing else about the
  user flows into them.\<close>

definition agreeOnScope :: "string \<Rightarrow> User \<Rightarrow> User \<Rightarrow> bool" where
  "agreeOnScope scope u v \<longleftrightarrow> u_ID u = u_ID v
     \<and> (ScopeProfile \<in> set (ParseScope scope) \<longrightarrow>
          u_FirstName u = u_FirstName v \<and> u_LastName u = u_LastName v \<and> u_Username u = u_Username v
          \<and> u_Avatar u = u_Avatar v \<and> u_Locale u = u_Locale v \<and> u_Timezone u = u_Timezone v
          \<and> u_UpdatedAt u = u_UpdatedAt v)
     \<and> (ScopeEmail \<in> set (ParseScope scope) \<longrightarrow> u_Email u = u_Email v \<and> u_EmailVerified u = u_EmailVerified v)
     \<and> (ScopePhone \<in> set (ParseScope scope) \<longrightarrow> u_PhoneNumber u = u_PhoneNumber v \<and> u_PhoneVerified u = u_PhoneVerified v)"

theorem claims_noninterference:
  assumes "agreeOnScope scope u v"
  shows "userClaimsForScope str u scope = userClaimsForScope str v scope"
proof -
  have "ScopeProfile \<in> set (ParseScope scope) \<Longrightarrow> profileClaims u = profileClaims v"
    using assms by (intro ext) (simp add: agreeOnScope_def profileClaims_def Let_def)
  then show ?thesis
    using assms
    by (cases "ScopeProfile \<in> set (ParseScope scope)"; cases "ScopeEmail \<in> set (ParseScope scope)";
        cases "ScopePhone \<in> set (ParseScope scope)")
      (simp_all add: agreeOnScope_def userClaimsForScope_def ScopeContains_iff Let_def)
qed

definition sample_user :: User where
  "sample_user = \<lparr>u_ID = 7, u_TenantID = 1, u_Username = ''alice'', u_Email = ''a@x.io'', u_PasswordHash = ''h'',
     u_Status = UserStatusActive, u_EmailVerified = True, u_PhoneNumber = ''555'', u_PhoneVerified = False,
     u_FirstName = ''Alice'', u_LastName = ''A'', u_Avatar = [], u_Locale = ''en'', u_Timezone = ''UTC'',
     u_LastLoginAt = None, u_LastLoginIP = [], u_FailedLoginAttempts = 0, u_LockedAt = None, u_LockedUntil = None,
     u_CreatedAt = 0, u_UpdatedAt = 0, u_DeletedAt = None\<rparr>"

theorem claims_noninterference_witness:
  "agreeOnScope ''openid'' sample_user (sample_user\<lparr>u_Email := ''other'', u_Username := ''bob'', u_PhoneNumber := []\<rparr>)
   \<and> userClaimsForScope (\<lambda>_. ''id'') sample_user ''openid''
       = userClaimsForScope (\<lambda>_. ''id'') (sample_user\<lparr>u_Email := ''other'', u_Username := ''bob'', u_PhoneNumber := []\<rparr>) ''openid''"
proof -
  have "ParseScope ''openid'' = [''openid'']"
    unfolding ParseScope_def by code_simp
  then have "agreeOnScope ''openid'' sample_user (sample_user\<lparr>u_Email := ''other'', u_Username := ''bob'', u_PhoneNumber := []\<rparr>)"
    by (simp add: agreeOnScope_def ScopeProfile_def ScopeEmail_def ScopePhone_def sample_user_def)
  then show ?thesis
    using claims_noninterference by blast
qed

end
