(* ===== verification/AuthService.thy ===== *)
theory AuthService
  imports Repos Scope
begin

text \<open>The token service (\<^verbatim>\<open>internal/services/auth_service_impl.go\<close>): authorization codes, token issuance,
  refresh with rotation and reuse detection, revocation, introspection, validation and UserInfo.\<close>

section \<open>Access and ID tokens\<close>

definition accessTokenAudience :: "env \<Rightarrow> string" where
  "accessTokenAudience e = cf_ServerURL (config e)"

text \<open>\<^verbatim>\<open>int64(d.Seconds())\<close>, which truncates towards zero.\<close>

definition duration_seconds :: "duration \<Rightarrow> int" where
  "duration_seconds d =
     (if 0 \<le> d then d div nanosecond_per_second else - ((- d) div nanosecond_per_second))"

definition accessTokenClaims :: "env \<Rightarrow> uuid \<Rightarrow> uuid \<Rightarrow> Client \<Rightarrow> uuid \<Rightarrow> string \<Rightarrow> duration \<Rightarrow> JWTClaims" where
  "accessTokenClaims e jti tenantID client userID scope dur =
     (let claims = JWTClaims_zero\<lparr>
            jc_Jti := uuidString e jti,
            jc_Sub := c_ClientID client,
            jc_Aud := accessTokenAudience e,
            jc_Iss := cf_ServerURL (config e),
            jc_Exp := time_unix (now e + dur),
            jc_Iat := time_unix (now e),
            jc_TenantID := uuidString e tenantID,
            jc_Scope := scope,
            jc_ClientID := c_ClientID client\<rparr>
      in if userID \<noteq> uuid_Nil
         then claims\<lparr>jc_Sub := uuidString e userID, jc_UserID := uuidString e userID\<rparr>
         else claims)"

definition generateJWT :: "env \<Rightarrow> uuid \<Rightarrow> Client \<Rightarrow> uuid \<Rightarrow> string \<Rightarrow> duration \<Rightarrow> string op" where
  "generateJWT e tenantID client userID scope dur = do {
     jti \<leftarrow> uuid_New e;
     State_Monad.return
       (KeySet_SignTyped (jwt e) (keys e)
          (AccessTokenPayload (accessTokenClaims e jti tenantID client userID scope dur)) TypeAccessToken)
   }"

definition GenerateIDToken :: "env \<Rightarrow> User \<Rightarrow> IDTokenParams \<Rightarrow> err + string" where
  "GenerateIDToken e user params =
     KeySet_Sign (jwt e) (keys e) (IDTokenPayload
       \<lparr>ic_UserInfo = userClaimsForScope (uuidString e) user (ip_Scope params),
        ic_Iss = cf_ServerURL (config e),
        ic_Aud = ip_ClientID params,
        ic_Exp = time_unix (now e + cf_IDTokenDuration (config e)),
        ic_Iat = time_unix (now e),
        ic_AuthTime = (case ip_AuthTime params of
                         None \<Rightarrow> 0
                       | Some t \<Rightarrow> if t = zero_time then 0 else time_unix t),
        ic_AMR = (if ip_AMR params \<noteq> [] then ip_AMR params else []),
        ic_Nonce = ip_Nonce params,
        ic_AtHash = (if ip_AccessToken params \<noteq> [] then KeySet_TokenHash (keys e) (ip_AccessToken params) else []),
        ic_TenantID = uuidString e (u_TenantID user)\<rparr>)"

section \<open>Issuing tokens\<close>

definition issueRefreshToken :: "env \<Rightarrow> uuid \<Rightarrow> uuid \<Rightarrow> uuid \<Rightarrow> string \<Rightarrow> uuid \<Rightarrow> authContext \<Rightarrow> string op" where
  "issueRefreshToken e tenantID clientID userID scope familyID auth =
     orReturn (randomToken e 64) (Wrapped ''failed to generate refresh token'') (\<lambda>refreshTokenStr. do {
       i \<leftarrow> uuid_New e;
       orReturn (RefreshToken_Create e
           \<lparr>rt_ID = i, rt_TenantID = tenantID, rt_Token = hashToken refreshTokenStr, rt_ClientID = clientID,
            rt_UserID = userID, rt_FamilyID = familyID, rt_Scope = scope, rt_AuthTime = ax_authTime auth,
            rt_AMR = ax_amr auth, rt_RevokedAt = None,
            rt_ExpiresAt = now e + cf_RefreshTokenDuration (config e), rt_CreatedAt = zero_time\<rparr>)
         (Wrapped ''failed to store refresh token'')
         (\<lambda>_. succeed refreshTokenStr)
     })"

definition issueIDToken :: "env \<Rightarrow> uuid \<Rightarrow> Client \<Rightarrow> uuid \<Rightarrow> string \<Rightarrow> authContext \<Rightarrow> string \<Rightarrow> string op" where
  "issueIDToken e tenantID client userID scope auth accessToken =
     orReturn (User_GetByID e tenantID userID) (Wrapped ''failed to load user for ID token'') (\<lambda>user.
     orReturn (State_Monad.return (GenerateIDToken e user
         \<lparr>ip_ClientID = c_ClientID client, ip_Scope = scope, ip_Nonce = ax_nonce auth,
          ip_AuthTime = ax_authTime auth, ip_AMR = ax_amr auth, ip_AccessToken = accessToken\<rparr>))
       (Wrapped ''failed to generate ID token'') succeed)"

definition issueAccessToken ::
  "env \<Rightarrow> uuid \<Rightarrow> Client \<Rightarrow> uuid \<Rightarrow> string \<Rightarrow> (world, uuid) state \<Rightarrow> (string \<times> uuid) op" where
  "issueAccessToken e tenantID client userID scope family =
     orReturn (generateJWT e tenantID client userID scope (cf_AccessTokenDuration (config e)))
       (Wrapped ''failed to generate access token'') (\<lambda>accessToken. do {
       i \<leftarrow> uuid_New e;
       familyID \<leftarrow> family;
       orReturn (AccessToken_Create e
           \<lparr>at_ID = i, at_TenantID = tenantID, at_Token = hashToken accessToken, at_ClientID = c_ID client,
            at_UserID = userID, at_FamilyID = familyID, at_Scope = scope,
            at_ExpiresAt = now e + cf_AccessTokenDuration (config e), at_CreatedAt = zero_time\<rparr>)
         (Wrapped ''failed to store access token'')
         (\<lambda>_. succeed (accessToken, familyID))
     })"

definition issuedEvent :: "uuid \<Rightarrow> Client \<Rightarrow> uuid \<Rightarrow> authContext \<Rightarrow> string \<Rightarrow> uuid \<Rightarrow> TokenEvent" where
  "issuedEvent tenantID client userID auth scope familyID =
     TokenEvent_zero\<lparr>ev_Type := TokenEventIssued, ev_TenantID := tenantID, ev_ClientID := c_ID client,
       ev_UserID := userRef userID, ev_GrantType := ax_grantType auth, ev_Scope := scope, ev_FamilyID := familyID\<rparr>"

definition issueTokens ::
  "env \<Rightarrow> uuid \<Rightarrow> Client \<Rightarrow> uuid \<Rightarrow> string \<Rightarrow> uuid \<Rightarrow> bool \<Rightarrow> bool \<Rightarrow> authContext \<Rightarrow> TokenResponse op" where
  "issueTokens e tenantID client userID scope familyID includeRefreshToken includeIDToken auth =
     orReturn (issueAccessToken e tenantID client userID scope (State_Monad.return familyID)) id (\<lambda>(accessToken, _).
     orReturn (if includeRefreshToken
               then issueRefreshToken e tenantID (c_ID client) userID scope familyID auth
               else succeed []) id (\<lambda>refreshToken.
     orReturn (if includeIDToken \<and> ScopeContains scope ScopeOpenID
               then issueIDToken e tenantID client userID scope auth accessToken
               else succeed []) id (\<lambda>idToken. do {
       _ \<leftarrow> emit (issuedEvent tenantID client userID auth scope familyID);
       succeed \<lparr>tr_AccessToken = accessToken, tr_TokenType = ''Bearer'',
                tr_ExpiresIn = duration_seconds (cf_AccessTokenDuration (config e)),
                tr_RefreshToken = refreshToken, tr_IDToken = idToken, tr_Scope = scope\<rparr>
     })))"

definition GenerateTokens :: "env \<Rightarrow> uuid \<Rightarrow> uuid \<Rightarrow> uuid \<Rightarrow> string \<Rightarrow> bool \<Rightarrow> TokenResponse op" where
  "GenerateTokens e tenantID clientID userID scope includeIDToken =
     orReturn (Client_GetByID e tenantID clientID) (Wrapped ''failed to load client'') (\<lambda>client. do {
       familyID \<leftarrow> uuid_New e;
       issueTokens e tenantID client userID scope familyID True includeIDToken authContext_zero
     })"

text \<open>Client credentials: the subject is the client, and there is no refresh token.\<close>

definition GenerateClientCredentialsTokens :: "env \<Rightarrow> uuid \<Rightarrow> Client \<Rightarrow> string \<Rightarrow> TokenResponse op" where
  "GenerateClientCredentialsTokens e tenantID client scope =
     orReturn (issueAccessToken e tenantID client uuid_Nil scope (uuid_New e)) id (\<lambda>(accessToken, familyID). do {
       _ \<leftarrow> emit (TokenEvent_zero\<lparr>ev_Type := TokenEventIssued, ev_TenantID := tenantID, ev_ClientID := c_ID client,
              ev_GrantType := GrantTypeClientCredentials, ev_Scope := scope, ev_FamilyID := familyID\<rparr>);
       succeed \<lparr>tr_AccessToken = accessToken, tr_TokenType = ''Bearer'',
                tr_ExpiresIn = duration_seconds (cf_AccessTokenDuration (config e)),
                tr_RefreshToken = [], tr_IDToken = [], tr_Scope = scope\<rparr>
     })"

section \<open>Revoking a family\<close>

definition revokeTokenFamily :: "env \<Rightarrow> uuid \<Rightarrow> uuid \<Rightarrow> (world, unit) state" where
  "revokeTokenFamily e tenantID familyID = do {
     _ \<leftarrow> RefreshToken_DeleteByFamilyID e tenantID familyID;
     _ \<leftarrow> AccessToken_DeleteByFamilyID e tenantID familyID;
     State_Monad.return ()
   }"

section \<open>Authorization codes\<close>

definition GenerateAuthorizationCode ::
  "env \<Rightarrow> uuid \<Rightarrow> uuid \<Rightarrow> uuid \<Rightarrow> string \<Rightarrow> string \<Rightarrow> string \<Rightarrow> string \<Rightarrow> string \<Rightarrow> go_time \<Rightarrow> string list \<Rightarrow> AuthorizationCode op" where
  "GenerateAuthorizationCode e tenantID clientID userID redirectURI scope codeChallenge codeChallengeMethod nonce authTime amr =
     orReturn (randomToken e 32) (Wrapped ''failed to generate authorization code'') (\<lambda>code. do {
       i \<leftarrow> uuid_New e;
       let authCode = \<lparr>ac_ID = i, ac_TenantID = tenantID, ac_Code = code, ac_ClientID = clientID, ac_UserID = userID,
              ac_RedirectURI = redirectURI, ac_Scope = scope, ac_CodeChallenge = codeChallenge,
              ac_CodeChallengeMethod = codeChallengeMethod, ac_Nonce = nonce, ac_AuthTime = Some authTime,
              ac_AMR = amr, ac_UsedAt = None,
              ac_ExpiresAt = now e + cf_AuthorizationCodeDuration (config e), ac_CreatedAt = zero_time\<rparr>;
       orReturn (AuthCode_Create e authCode) (Wrapped ''failed to store authorization code'')
         (\<lambda>_. succeed (authCode\<lparr>ac_CreatedAt := autoCreateTime e zero_time\<rparr>))
     })"

definition ValidatePKCE :: "string \<Rightarrow> string \<Rightarrow> string \<Rightarrow> bool" where
  "ValidatePKCE codeVerifier codeChallenge method =
     (if method \<noteq> ''S256'' then False else b64url (sha256 codeVerifier) = codeChallenge)"

text \<open>The checks between consuming a code and loading its client, in the order of the code.\<close>

definition checkAuthCode :: "env \<Rightarrow> uuid \<Rightarrow> string \<Rightarrow> string \<Rightarrow> string \<Rightarrow> string \<Rightarrow> AuthorizationCode \<Rightarrow> unit op" where
  "checkAuthCode e tenantID code clientID redirectURI codeVerifier authCode =
     (if AuthorizationCode_IsExpired (now e) authCode then do {
        _ \<leftarrow> AuthCode_Delete e tenantID code;
        failWith ErrInvalidGrant
      }
      else if uuidString e (ac_ClientID authCode) \<noteq> clientID then failWith ErrInvalidGrant
      else if ac_RedirectURI authCode \<noteq> redirectURI then failWith ErrInvalidGrant
      else if ac_CodeChallenge authCode \<noteq> [] \<and> codeVerifier = [] then failWith ErrPKCEVerificationFailed
      else if ac_CodeChallenge authCode \<noteq> []
           \<and> \<not> ValidatePKCE codeVerifier (ac_CodeChallenge authCode) (ac_CodeChallengeMethod authCode)
      then failWith ErrPKCEVerificationFailed
      else succeed ())"

definition ExchangeAuthorizationCode ::
  "env \<Rightarrow> uuid \<Rightarrow> string \<Rightarrow> string \<Rightarrow> string \<Rightarrow> string \<Rightarrow> string \<Rightarrow> TokenResponse op" where
  "ExchangeAuthorizationCode e tenantID code clientID clientSecret redirectURI codeVerifier = do {
     (consumed, er) \<leftarrow> AuthCode_Consume e tenantID code;
     case (consumed, er) of
       (Some authCode, None) \<Rightarrow>
         orReturn (checkAuthCode e tenantID code clientID redirectURI codeVerifier authCode) id (\<lambda>_.
         orReturn (Client_GetByID e tenantID (ac_ClientID authCode)) (\<lambda>_. ErrInvalidGrant) (\<lambda>client.
         issueTokens e tenantID client (ac_UserID authCode) (ac_Scope authCode) (ac_ID authCode) True True
           \<lparr>ax_grantType = GrantTypeAuthorizationCode, ax_authTime = ac_AuthTime authCode,
            ax_amr = ac_AMR authCode, ax_nonce = ac_Nonce authCode\<rparr>))
     | (Some authCode, Some ErrAuthCodeAlreadyUsed) \<Rightarrow> do {
         _ \<leftarrow> revokeTokenFamily e tenantID (ac_ID authCode);
         _ \<leftarrow> emit (TokenEvent_zero\<lparr>ev_Type := TokenEventReuseDetected, ev_TenantID := tenantID,
                ev_ClientID := ac_ClientID authCode, ev_UserID := userRef (ac_UserID authCode),
                ev_FamilyID := ac_ID authCode, ev_Credential := CredentialAuthorizationCode\<rparr>);
         failWith ErrInvalidGrant
       }
     | _ \<Rightarrow> failWith ErrInvalidGrant
   }"

section \<open>Refreshing\<close>

text \<open>A replay of a rotated refresh token revokes the family.\<close>

definition refreshTokenReused :: "env \<Rightarrow> uuid \<Rightarrow> RefreshToken \<Rightarrow> (world, unit) state" where
  "refreshTokenReused e tenantID token = do {
     _ \<leftarrow> revokeTokenFamily e tenantID (rt_FamilyID token);
     emit (TokenEvent_zero\<lparr>ev_Type := TokenEventReuseDetected, ev_TenantID := tenantID,
       ev_ClientID := rt_ClientID token, ev_UserID := userRef (rt_UserID token),
       ev_FamilyID := rt_FamilyID token, ev_Credential := CredentialRefreshToken\<rparr>)
   }"

definition refreshScope :: "string \<Rightarrow> RefreshToken \<Rightarrow> err + string" where
  "refreshScope requestedScope token =
     (if requestedScope \<noteq> [] then
        (if \<not> ScopeIsSubset requestedScope (rt_Scope token) then Inl ErrInvalidScope else Inr requestedScope)
      else Inr (rt_Scope token))"

text \<open>The last step of a rotation: the claimed token must still be there once the new tokens are stored.\<close>

definition confirmRotation :: "env \<Rightarrow> uuid \<Rightarrow> RefreshToken \<Rightarrow> TokenResponse \<Rightarrow> TokenResponse op" where
  "confirmRotation e tenantID token tokenResponse = do {
     r \<leftarrow> RefreshToken_GetByToken e tenantID (rt_Token token);
     case r of
       Inr _ \<Rightarrow> succeed tokenResponse
     | Inl er \<Rightarrow>
         if \<not> errors_Is er ErrRefreshTokenNotFound
         then failWith (Wrapped ''failed to confirm refresh token rotation'' er)
         else do {
           _ \<leftarrow> revokeTokenFamily e tenantID (rt_FamilyID token);
           failWith ErrInvalidGrant
         }
   }"

definition RefreshTokens :: "env \<Rightarrow> uuid \<Rightarrow> string \<Rightarrow> string \<Rightarrow> string \<Rightarrow> TokenResponse op" where
  "RefreshTokens e tenantID refreshToken clientID requestedScope =
     orReturn (RefreshToken_GetByToken e tenantID (hashToken refreshToken)) (\<lambda>_. ErrInvalidGrant) (\<lambda>token.
     if RefreshToken_IsRevoked token then do {
       _ \<leftarrow> refreshTokenReused e tenantID token;
       failWith ErrInvalidGrant
     }
     else if RefreshToken_IsExpired (now e) token then do {
       _ \<leftarrow> RefreshToken_Delete e tenantID (hashToken refreshToken);
       failWith ErrInvalidGrant
     }
     else if uuidString e (rt_ClientID token) \<noteq> clientID then failWith ErrInvalidGrant
     else
       orReturn (State_Monad.return (refreshScope requestedScope token)) id (\<lambda>scope.
       orReturn (Client_GetByID e tenantID (rt_ClientID token)) (\<lambda>_. ErrInvalidGrant) (\<lambda>client.
       orReturn (RefreshToken_Revoke e tenantID (rt_Token token)) (Wrapped ''failed to rotate refresh token'') (\<lambda>claimed.
       if \<not> claimed then do {
         _ \<leftarrow> refreshTokenReused e tenantID token;
         failWith ErrInvalidGrant
       }
       else
         orReturn (issueTokens e tenantID client (rt_UserID token) scope (rt_FamilyID token) True True
             \<lparr>ax_grantType = GrantTypeRefreshToken, ax_authTime = rt_AuthTime token, ax_amr = rt_AMR token,
              ax_nonce = []\<rparr>) id
           (confirmRotation e tenantID token)))))"

section \<open>Revocation\<close>

text \<open>Both parts answer whether they handled the token; an unknown token is not an error.\<close>

definition revokeAsRefreshToken :: "env \<Rightarrow> uuid \<Rightarrow> string \<Rightarrow> string \<Rightarrow> uuid \<Rightarrow> (world, bool) state" where
  "revokeAsRefreshToken e tenantID tokenHash tokenTypeHint requestingClientID =
     (if tokenTypeHint = ''refresh_token'' \<or> tokenTypeHint = [] then do {
        r \<leftarrow> RefreshToken_GetByToken e tenantID tokenHash;
        case r of
          Inl _ \<Rightarrow> State_Monad.return False
        | Inr refreshToken \<Rightarrow>
            if rt_ClientID refreshToken \<noteq> requestingClientID then State_Monad.return True
            else do {
              _ \<leftarrow> revokeTokenFamily e tenantID (rt_FamilyID refreshToken);
              _ \<leftarrow> emit (TokenEvent_zero\<lparr>ev_Type := TokenEventRevoked, ev_TenantID := tenantID,
                     ev_ClientID := rt_ClientID refreshToken, ev_UserID := userRef (rt_UserID refreshToken),
                     ev_FamilyID := rt_FamilyID refreshToken\<rparr>);
              State_Monad.return True
            }
      }
      else State_Monad.return False)"

definition revokeAsAccessToken :: "env \<Rightarrow> uuid \<Rightarrow> string \<Rightarrow> string \<Rightarrow> uuid \<Rightarrow> (world, unit) state" where
  "revokeAsAccessToken e tenantID tokenHash tokenTypeHint requestingClientID =
     (if tokenTypeHint = ''access_token'' \<or> tokenTypeHint = [] then do {
        r \<leftarrow> AccessToken_GetByToken e tenantID tokenHash;
        case r of
          Inl _ \<Rightarrow> State_Monad.return ()
        | Inr accessToken \<Rightarrow>
            if at_ClientID accessToken \<noteq> requestingClientID then State_Monad.return ()
            else do {
              d \<leftarrow> AccessToken_Delete e tenantID tokenHash;
              case d of
                Inl _ \<Rightarrow> State_Monad.return ()
              | Inr _ \<Rightarrow>
                  emit (TokenEvent_zero\<lparr>ev_Type := TokenEventRevoked, ev_TenantID := tenantID,
                    ev_ClientID := at_ClientID accessToken, ev_UserID := userRef (at_UserID accessToken),
                    ev_FamilyID := at_FamilyID accessToken\<rparr>)
            }
      }
      else State_Monad.return ())"

definition RevokeToken :: "env \<Rightarrow> uuid \<Rightarrow> string \<Rightarrow> string \<Rightarrow> uuid \<Rightarrow> unit op" where
  "RevokeToken e tenantID token tokenTypeHint requestingClientID = do {
     let tokenHash = hashToken token;
     handled \<leftarrow> revokeAsRefreshToken e tenantID tokenHash tokenTypeHint requestingClientID;
     _ \<leftarrow> (if handled then State_Monad.return ()
           else revokeAsAccessToken e tenantID tokenHash tokenTypeHint requestingClientID);
     succeed ()
   }"

section \<open>Introspection and validation\<close>

definition IntrospectToken :: "env \<Rightarrow> uuid \<Rightarrow> string \<Rightarrow> IntrospectionResponse op" where
  "IntrospectToken e tenantID token = do {
     r \<leftarrow> AccessToken_GetByToken e tenantID (hashToken token);
     case r of
       Inl _ \<Rightarrow> succeed (IntrospectionResponse_zero\<lparr>ir_Active := False\<rparr>)
     | Inr accessToken \<Rightarrow>
         if AccessToken_IsExpired (now e) accessToken then succeed (IntrospectionResponse_zero\<lparr>ir_Active := False\<rparr>)
         else do {
           c \<leftarrow> Client_GetByID e tenantID (at_ClientID accessToken);
           case c of
             Inl _ \<Rightarrow> succeed (IntrospectionResponse_zero\<lparr>ir_Active := False\<rparr>)
           | Inr client \<Rightarrow>
               let response = IntrospectionResponse_zero\<lparr>
                     ir_Active := True, ir_Scope := at_Scope accessToken, ir_ClientID := c_ClientID client,
                     ir_TokenType := ''Bearer'', ir_Exp := time_unix (at_ExpiresAt accessToken),
                     ir_Iat := time_unix (at_CreatedAt accessToken), ir_Iss := cf_ServerURL (config e)\<rparr>
               in succeed (if at_UserID accessToken \<noteq> uuid_Nil
                    then response\<lparr>ir_Sub := uuidString e (at_UserID accessToken),
                                  ir_UserID := uuidString e (at_UserID accessToken)\<rparr>
                    else response)
         }
   }"

definition accessTokenOptions :: "env \<Rightarrow> parser_options" where
  "accessTokenOptions e =
     \<lparr>po_ValidMethods = [], po_Issuer = Some (cf_ServerURL (config e)), po_Audience = Some (accessTokenAudience e),
      po_ExpirationRequired = True, po_WithoutClaimsValidation = False\<rparr>"

definition ValidateAccessToken :: "env \<Rightarrow> uuid \<Rightarrow> string \<Rightarrow> JWTClaims op" where
  "ValidateAccessToken e tenantID tokenString =
     orReturn (State_Monad.return (KeySet_ParseJWTClaims (jwt e) (keys e) tokenString (accessTokenOptions e))) id (\<lambda>token.
     if \<not> tok_Valid token then failWith (ErrMsg ''invalid token'')
     else if \<not> HasType (uniLower e) token TypeAccessToken then failWith ErrInvalidToken
     else if jc_TenantID (tok_Claims token) \<noteq> uuidString e tenantID then failWith ErrTenantMismatch
     else orReturn (AccessToken_GetByToken e tenantID (hashToken tokenString)) (\<lambda>_. ErrRevokedToken)
            (\<lambda>_. succeed (tok_Claims token)))"

definition GetUserInfo :: "env \<Rightarrow> uuid \<Rightarrow> string \<Rightarrow> UserInfo op" where
  "GetUserInfo e tenantID accessToken =
     orReturn (ValidateAccessToken e tenantID accessToken) id (\<lambda>claims.
     if \<not> ScopeContains (jc_Scope claims) ScopeOpenID then failWith ErrInsufficientScope
     else case uuidParse e (jc_UserID claims) of
       None \<Rightarrow> failWith ErrInvalidToken
     | Some userID \<Rightarrow>
         orReturn (User_GetByID e tenantID userID) id (\<lambda>user.
         succeed (userClaimsForScope (uuidString e) user (jc_Scope claims))))"

definition ParseIDTokenHint :: "env \<Rightarrow> string \<Rightarrow> err + IDTokenClaims" where
  "ParseIDTokenHint e idToken =
     (case KeySet_ParseIDTokenClaims (jwt e) (keys e) idToken
             \<lparr>po_ValidMethods = [], po_Issuer = None, po_Audience = None, po_ExpirationRequired = False,
              po_WithoutClaimsValidation = True\<rparr> of
        Inl _ \<Rightarrow> Inl ErrInvalidToken
      | Inr token \<Rightarrow>
          if HasType (uniLower e) token TypeAccessToken then Inl ErrInvalidToken
          else if ic_Iss (tok_Claims token) \<noteq> cf_ServerURL (config e) then Inl ErrInvalidToken
          else Inr (tok_Claims token))"

definition GetJWKS :: "env \<Rightarrow> JWK list" where
  "GetJWKS e = KeySet_JWKS (keys e)"

section \<open>Cleanup\<close>

text \<open>Failures are logged and the next table is cleaned all the same.\<close>

definition CleanupExpiredTokens :: "env \<Rightarrow> unit op" where
  "CleanupExpiredTokens e = do {
     _ \<leftarrow> AuthCode_DeleteExpired e;
     _ \<leftarrow> AccessToken_DeleteExpired e;
     _ \<leftarrow> RefreshToken_DeleteExpired e;
     _ \<leftarrow> DeviceCode_DeleteExpired e;
     _ \<leftarrow> EmailVerification_DeleteExpired e;
     _ \<leftarrow> PasswordReset_DeleteExpired e;
     succeed ()
   }"

section \<open>What issuing tokens does\<close>

definition access_row :: "env \<Rightarrow> uuid \<Rightarrow> uuid \<Rightarrow> uuid \<Rightarrow> uuid \<Rightarrow> string \<Rightarrow> string \<Rightarrow> AccessToken \<Rightarrow> bool" where
  "access_row e t c u f s tok r \<longleftrightarrow>
     at_Token r = hashToken tok \<and> at_TenantID r = t \<and> at_ClientID r = c \<and> at_UserID r = u \<and> at_FamilyID r = f
     \<and> at_Scope r = s \<and> at_ExpiresAt r = now e + cf_AccessTokenDuration (config e)"

definition refresh_row ::
  "env \<Rightarrow> uuid \<Rightarrow> uuid \<Rightarrow> uuid \<Rightarrow> uuid \<Rightarrow> string \<Rightarrow> authContext \<Rightarrow> string \<Rightarrow> RefreshToken \<Rightarrow> bool" where
  "refresh_row e t c u f s auth tok r \<longleftrightarrow>
     rt_Token r = hashToken tok \<and> rt_TenantID r = t \<and> rt_ClientID r = c \<and> rt_UserID r = u \<and> rt_FamilyID r = f
     \<and> rt_Scope r = s \<and> rt_AuthTime r = ax_authTime auth \<and> rt_AMR r = ax_amr auth \<and> rt_RevokedAt r = None
     \<and> rt_ExpiresAt r = now e + cf_RefreshTokenDuration (config e)"

text \<open>An ID token is issued exactly when asked for under the openid scope, and then to the user of the grant.\<close>

definition id_token_for ::
  "env \<Rightarrow> uuid \<Rightarrow> Client \<Rightarrow> uuid \<Rightarrow> string \<Rightarrow> authContext \<Rightarrow> bool \<Rightarrow> User list \<Rightarrow> TokenResponse \<Rightarrow> bool" where
  "id_token_for e t c u s auth wantID us resp \<longleftrightarrow>
     (if wantID \<and> ScopeContains s ScopeOpenID
      then \<exists>user \<in> set us. u_ID user = u \<and> u_TenantID user = t \<and>
        GenerateIDToken e user \<lparr>ip_ClientID = c_ClientID c, ip_Scope = s, ip_Nonce = ax_nonce auth,
          ip_AuthTime = ax_authTime auth, ip_AMR = ax_amr auth, ip_AccessToken = tr_AccessToken resp\<rparr> = Inr (tr_IDToken resp)
      else tr_IDToken resp = [])"

lemma issueAccessToken_Inr:
  assumes "run_state (issueAccessToken e t c u s (State_Monad.return f)) w = (Inr (tok, g), w')"
  shows "g = f \<and> (\<exists>r. access_row e t (c_ID c) u f s tok r \<and> (\<forall>x \<in> set (access_tokens w). \<not> access_tokens_clash x r) \<and>
     w' = w\<lparr>draws := draws w + 2, stmts := Suc (stmts w), access_tokens := access_tokens w @ [r]\<rparr>)"
proof -
  let ?r = "last (access_tokens w')"
  have "g = f \<and> access_row e t (c_ID c) u f s tok ?r \<and> (\<forall>x \<in> set (access_tokens w). \<not> access_tokens_clash x ?r) \<and>
     w' = w\<lparr>draws := draws w + 2, stmts := Suc (stmts w), access_tokens := access_tokens w @ [?r]\<rparr>"
    using assms
    by (auto simp: issueAccessToken_def generateJWT_def AccessToken_Create_def orReturn_Inr_iff run_bind run_uuid_New
        run_return run_succeed access_tokens.Insert_Inr access_row_def)
  then show ?thesis
    by blast
qed

lemma issueRefreshToken_Inr:
  assumes "run_state (issueRefreshToken e t c u s f auth) w = (Inr tok, w')"
  shows "\<exists>r. refresh_row e t c u f s auth tok r \<and> (\<forall>x \<in> set (refresh_tokens w). \<not> refresh_tokens_clash x r) \<and>
     w' = w\<lparr>draws := draws w + 2, stmts := Suc (stmts w), refresh_tokens := refresh_tokens w @ [r]\<rparr>"
proof -
  let ?r = "last (refresh_tokens w')"
  have "refresh_row e t c u f s auth tok ?r \<and> (\<forall>x \<in> set (refresh_tokens w). \<not> refresh_tokens_clash x ?r) \<and>
     w' = w\<lparr>draws := draws w + 2, stmts := Suc (stmts w), refresh_tokens := refresh_tokens w @ [?r]\<rparr>"
    using assms
    by (auto simp: issueRefreshToken_def RefreshToken_Create_def orReturn_Inr_iff run_bind run_uuid_New run_randomToken
        run_return run_succeed refresh_tokens.Insert_Inr refresh_row_def split: option.splits)
  then show ?thesis
    by blast
qed

lemma issueIDToken_Inr:
  assumes "run_state (issueIDToken e t c u s auth tok) w = (Inr idt, w')"
  shows "w' = w\<lparr>stmts := Suc (stmts w)\<rparr> \<and> (\<exists>user. u_ID user = u \<and> u_TenantID user = t \<and> user \<in> set (users w) \<and>
     GenerateIDToken e user \<lparr>ip_ClientID = c_ClientID c, ip_Scope = s, ip_Nonce = ax_nonce auth,
          ip_AuthTime = ax_authTime auth, ip_AMR = ax_amr auth, ip_AccessToken = tok\<rparr> = Inr idt)"
  using assms
  by (auto simp: issueIDToken_def User_GetByID_def orReturn_Inr_iff run_return run_succeed users.First_Inr dest: find_SomeD)

lemma issueTokens_Inr:
  assumes "run_state (issueTokens e t c u s f True wantID auth) w = (Inr resp, w')"
  obtains a r n where "access_row e t (c_ID c) u f s (tr_AccessToken resp) a"
     "refresh_row e t (c_ID c) u f s auth (tr_RefreshToken resp) r"
     "\<forall>x \<in> set (access_tokens w). \<not> access_tokens_clash x a"
     "\<forall>x \<in> set (refresh_tokens w). \<not> refresh_tokens_clash x r"
     "tr_Scope resp = s"
     "id_token_for e t c u s auth wantID (users w) resp"
     "w' = w\<lparr>draws := draws w + 4, stmts := n, access_tokens := access_tokens w @ [a],
              refresh_tokens := refresh_tokens w @ [r], events := events w @ [issuedEvent t c u auth s f]\<rparr>"
proof -
  obtain tok g w1 rtok w2 idtok w3 where
    1: "run_state (issueAccessToken e t c u s (State_Monad.return f)) w = (Inr (tok, g), w1)" and
    2: "run_state (issueRefreshToken e t (c_ID c) u s f auth) w1 = (Inr rtok, w2)" and
    3: "run_state (if wantID \<and> ScopeContains s ScopeOpenID then issueIDToken e t c u s auth tok else succeed []) w2
          = (Inr idtok, w3)" and
    4: "w' = w3\<lparr>events := events w3 @ [issuedEvent t c u auth s f]\<rparr>" "resp = \<lparr>tr_AccessToken = tok, tr_TokenType = ''Bearer'',
          tr_ExpiresIn = duration_seconds (cf_AccessTokenDuration (config e)), tr_RefreshToken = rtok, tr_IDToken = idtok,
          tr_Scope = s\<rparr>"
    using assms by (auto simp: issueTokens_def orReturn_Inr_iff run_bind run_emit run_succeed cong: if_cong)
  obtain a where a: "access_row e t (c_ID c) u f s tok a" "\<forall>x \<in> set (access_tokens w). \<not> access_tokens_clash x a"
    "w1 = w\<lparr>draws := draws w + 2, stmts := Suc (stmts w), access_tokens := access_tokens w @ [a]\<rparr>"
    using issueAccessToken_Inr [OF 1] by blast
  obtain r where r: "refresh_row e t (c_ID c) u f s auth rtok r" "\<forall>x \<in> set (refresh_tokens w1). \<not> refresh_tokens_clash x r"
    "w2 = w1\<lparr>draws := draws w1 + 2, stmts := Suc (stmts w1), refresh_tokens := refresh_tokens w1 @ [r]\<rparr>"
    using issueRefreshToken_Inr [OF 2] by blast
  have n: "\<exists>n. w3 = w2\<lparr>stmts := n\<rparr>" and idt: "id_token_for e t c u s auth wantID (users w2) resp"
    using 3 issueIDToken_Inr [of e t c u s auth tok w2 idtok w3] 4(2)
    by (auto simp: run_succeed id_token_for_def split: if_splits intro: exI [of _ "stmts w2"])
  from n obtain n where "w3 = w2\<lparr>stmts := n\<rparr>" ..
  with a r 4 idt show thesis
    by (intro that [of a r n]) (simp_all add: numeral_eq_Suc)
qed

text \<open>The effect of a successful issuance with a refresh token, on the tables it touches.\<close>

definition issued ::
  "env \<Rightarrow> uuid \<Rightarrow> Client \<Rightarrow> uuid \<Rightarrow> string \<Rightarrow> uuid \<Rightarrow> bool \<Rightarrow> authContext \<Rightarrow> TokenResponse \<Rightarrow> world \<Rightarrow> world \<Rightarrow> bool" where
  "issued e t c u s f wantID auth resp w w' \<longleftrightarrow> (\<exists>a r.
     access_row e t (c_ID c) u f s (tr_AccessToken resp) a
     \<and> refresh_row e t (c_ID c) u f s auth (tr_RefreshToken resp) r
     \<and> (\<forall>x \<in> set (access_tokens w). \<not> access_tokens_clash x a)
     \<and> (\<forall>x \<in> set (refresh_tokens w). \<not> refresh_tokens_clash x r)
     \<and> id_token_for e t c u s auth wantID (users w) resp \<and> tr_Scope resp = s
     \<and> access_tokens w' = access_tokens w @ [a] \<and> refresh_tokens w' = refresh_tokens w @ [r])"

definition outside_tokens :: "world \<Rightarrow> User list \<times> Client list \<times> AuthorizationCode list \<times> DeviceCode list \<times> Session list \<times> Consent list" where
  "outside_tokens w = (users w, clients w, auth_codes w, device_codes w, sessions w, consents w)"

lemma issueTokens_issued:
  assumes "run_state (issueTokens e t c u s f True wantID auth) w = (Inr resp, w')"
  shows "issued e t c u s f wantID auth resp w w'" "outside_tokens w' = outside_tokens w"
proof -
  show "issued e t c u s f wantID auth resp w w'"
    by (rule issueTokens_Inr [OF assms]) (auto simp: issued_def)
  show "outside_tokens w' = outside_tokens w"
    by (rule issueTokens_Inr [OF assms]) (simp add: outside_tokens_def)
qed

section \<open>Tenant isolation\<close>

text \<open>The rows of other tenants in every table the service touches.\<close>

definition tenant_frame :: "uuid \<Rightarrow> world \<Rightarrow> world \<Rightarrow> bool" where
  "tenant_frame t w w' \<longleftrightarrow>
     users w' = users w \<and> clients w' = clients w \<and> sessions w' = sessions w \<and> consents w' = consents w
     \<and> filter (\<lambda>r. ac_TenantID r \<noteq> t) (auth_codes w') = filter (\<lambda>r. ac_TenantID r \<noteq> t) (auth_codes w)
     \<and> filter (\<lambda>r. at_TenantID r \<noteq> t) (access_tokens w') = filter (\<lambda>r. at_TenantID r \<noteq> t) (access_tokens w)
     \<and> filter (\<lambda>r. rt_TenantID r \<noteq> t) (refresh_tokens w') = filter (\<lambda>r. rt_TenantID r \<noteq> t) (refresh_tokens w)
     \<and> filter (\<lambda>r. dc_TenantID r \<noteq> t) (device_codes w') = filter (\<lambda>r. dc_TenantID r \<noteq> t) (device_codes w)"

interpretation tf: state_preorder "tenant_frame t" for t
  by unfold_locales (auto simp: tenant_frame_def)

lemma filter_map_tenant:
  assumes "\<And>r. P r \<Longrightarrow> tn r = t" "\<And>r. tn (g r) = tn r"
  shows "filter (\<lambda>r. tn r \<noteq> t) (map (\<lambda>r. if P r then g r else r) rs) = filter (\<lambda>r. tn r \<noteq> t) rs"
  by (induction rs) (auto simp: assms)

lemmas table_runs =
  users.First_run clients.First_run auth_codes.First_run access_tokens.First_run refresh_tokens.First_run
  device_codes.First_run
  auth_codes.Insert_run access_tokens.Insert_run refresh_tokens.Insert_run device_codes.Insert_run
  auth_codes.Delete_run access_tokens.Delete_run refresh_tokens.Delete_run device_codes.Delete_run
  auth_codes.Update_run access_tokens.Update_run refresh_tokens.Update_run

lemma tf_reads [keeps_intros]:
  "steps (tenant_frame t) (AuthCode_GetByCode e t' k)"
  "steps (tenant_frame t) (AccessToken_GetByToken e t' k)"
  "steps (tenant_frame t) (RefreshToken_GetByToken e t' k)"
  "steps (tenant_frame t) (User_GetByID e t' u)"
  "steps (tenant_frame t) (Client_GetByID e t' c)"
  by (simp_all add: steps_def tenant_frame_def table_runs AuthCode_GetByCode_def AccessToken_GetByToken_def
      RefreshToken_GetByToken_def User_GetByID_def Client_GetByID_def)

lemma tf_draws [keeps_intros]:
  "steps (tenant_frame t) (uuid_New e)" "steps (tenant_frame t) (randomToken e n)" "steps (tenant_frame t) (emit ev)"
  by (simp_all add: steps_def tenant_frame_def monad_simps)

lemma tf_creates [keeps_intros]:
  "ac_TenantID code = t \<Longrightarrow> steps (tenant_frame t) (AuthCode_Create e code)"
  "at_TenantID a = t \<Longrightarrow> steps (tenant_frame t) (AccessToken_Create e a)"
  "rt_TenantID r = t \<Longrightarrow> steps (tenant_frame t) (RefreshToken_Create e r)"
  by (simp_all add: steps_def tenant_frame_def table_runs AuthCode_Create_def AccessToken_Create_def RefreshToken_Create_def)

lemma tf_deletes [keeps_intros]:
  "steps (tenant_frame t) (AuthCode_Delete e t k)"
  "steps (tenant_frame t) (AccessToken_Delete e t k)"
  "steps (tenant_frame t) (RefreshToken_Delete e t k)"
  "steps (tenant_frame t) (AccessToken_DeleteByFamilyID e t f)"
  "steps (tenant_frame t) (RefreshToken_DeleteByFamilyID e t f)"
  by (auto simp: steps_def tenant_frame_def table_runs AuthCode_Delete_def AccessToken_Delete_def RefreshToken_Delete_def
      AccessToken_DeleteByFamilyID_def RefreshToken_DeleteByFamilyID_def intro!: filter_cong)

lemma tf_updates [keeps_intros]:
  "steps (tenant_frame t) (RefreshToken_Revoke e t k)"
  "steps (tenant_frame t) (AuthCode_Consume e t k)"
proof -
  have u: "steps (tenant_frame t) (sqlUpdate e refresh_tokens refresh_tokens_update (\<lambda>x. rt_TenantID x = t \<and> Q x)
      (\<lambda>x. x\<lparr>rt_RevokedAt := v\<rparr>) msg)" for Q v msg
    by (auto simp: steps_def tenant_frame_def table_runs intro!: filter_map_tenant)
  show "steps (tenant_frame t) (RefreshToken_Revoke e t k)"
    unfolding RefreshToken_Revoke_def by (intro tf.steps_intros u)
  have c: "steps (tenant_frame t) (sqlUpdate e auth_codes auth_codes_update (\<lambda>x. ac_TenantID x = t \<and> Q x)
      (\<lambda>x. x\<lparr>ac_UsedAt := v\<rparr>) msg)" for Q v msg
    by (auto simp: steps_def tenant_frame_def table_runs intro!: filter_map_tenant)
  show "steps (tenant_frame t) (AuthCode_Consume e t k)"
    unfolding AuthCode_Consume_def
    by (intro tf.steps_bind c) (auto split: sum.split list.split intro!: tf.steps_intros keeps_intros)
qed

lemma tf_issueTokens [keeps_intros]: "steps (tenant_frame t) (issueTokens e t c u s f b b' auth)"
  unfolding issueTokens_def issueAccessToken_def generateJWT_def issueRefreshToken_def issueIDToken_def
  by (intro tf.steps_intros keeps_intros; simp)

lemma tf_revokeTokenFamily [keeps_intros]: "steps (tenant_frame t) (revokeTokenFamily e t f)"
  unfolding revokeTokenFamily_def by (intro tf.steps_intros keeps_intros)

lemma tf_GenerateAuthorizationCode [keeps_intros]:
  "steps (tenant_frame t) (GenerateAuthorizationCode e t c u ru s cc cm n at amr)"
  unfolding GenerateAuthorizationCode_def Let_def by (intro tf.steps_intros keeps_intros; simp)

lemma tf_GenerateTokens [keeps_intros]: "steps (tenant_frame t) (GenerateTokens e t ci u s b)"
  unfolding GenerateTokens_def by (intro tf.steps_intros keeps_intros)

lemma tf_GenerateClientCredentialsTokens [keeps_intros]:
  "steps (tenant_frame t) (GenerateClientCredentialsTokens e t client s)"
  unfolding GenerateClientCredentialsTokens_def issueAccessToken_def generateJWT_def
  by (intro tf.steps_intros keeps_intros; simp)

lemma tf_ExchangeAuthorizationCode [keeps_intros]:
  "steps (tenant_frame t) (ExchangeAuthorizationCode e t code ci cs ru cv)"
  unfolding ExchangeAuthorizationCode_def checkAuthCode_def
  by (intro tf.steps_bind keeps_intros) (auto split: option.split err.split intro!: tf.steps_intros keeps_intros)

lemma tf_RefreshTokens [keeps_intros]: "steps (tenant_frame t) (RefreshTokens e t rt ci rs)"
  unfolding RefreshTokens_def refreshTokenReused_def confirmRotation_def
  by (intro tf.steps_intros keeps_intros)

lemma tf_RevokeToken [keeps_intros]: "steps (tenant_frame t) (RevokeToken e t tok hint c)"
  unfolding RevokeToken_def revokeAsRefreshToken_def revokeAsAccessToken_def
  by (intro tf.steps_intros keeps_intros)

lemma tf_IntrospectToken [keeps_intros]: "steps (tenant_frame t) (IntrospectToken e t' tok)"
  unfolding IntrospectToken_def by (intro tf.steps_intros keeps_intros)

lemma tf_ValidateAccessToken [keeps_intros]: "steps (tenant_frame t) (ValidateAccessToken e t' tok)"
  unfolding ValidateAccessToken_def by (intro tf.steps_intros keeps_intros)

lemma tf_GetUserInfo [keeps_intros]: "steps (tenant_frame t) (GetUserInfo e t' tok)"
  unfolding GetUserInfo_def by (intro tf.steps_intros keeps_intros)

end
