(* ===== verification/CryptoVectors.thy ===== *)
theory CryptoVectors
  imports Crypto
begin

text \<open>Published test vectors for the executable hash: the PKCE example of RFC 7636 (appendix B) and the
  one-block message of FIPS 180-2. They tie the definition to the standard, and give the concrete
  runs of the other theories two values known to be different.\<close>

definition rfc7636_octets :: string where
  "rfc7636_octets = map char_of [116 :: nat, 24, 223, 180, 151, 153, 224, 37, 79, 250, 96, 125, 216, 173, 187, 186,
     22, 212, 37, 77, 105, 214, 191, 240, 91, 88, 5, 88, 83, 132, 141, 121]"

definition rfc7636_verifier :: string where
  "rfc7636_verifier = ''dBjftJeZ4CVP-mB92K27uhbUJU1p1r_wW1gFWFOEjXk''"

definition rfc7636_challenge :: string where
  "rfc7636_challenge = ''E9Melhoa2OwvFrEMTJguCHaoeK1t8URWbuGJSstw-cM''"

lemma rfc7636_encode: "b64url rfc7636_octets = rfc7636_verifier"
  unfolding rfc7636_octets_def rfc7636_verifier_def by code_simp

lemma rfc7636_hash: "b64url (sha256 rfc7636_verifier) = rfc7636_challenge"
  unfolding rfc7636_verifier_def rfc7636_challenge_def by code_simp

lemma fips180_abc: "b64url (sha256 ''abc'') = ''ungWv48Bz-pBQUDeXa4iI7ADYaOWF3qctBD_YfIAFa0''"
  by code_simp

end
