(* ===== verification/Samples.thy ===== *)
theory Samples
  imports AuthService CryptoVectors
begin

text \<open>One concrete deployment for the theorems' instances: a tenant with a confidential client and a user, a
  stand-in for each library function, and a database in which an authorization code and a refresh
  token are live.\<close>

definition sample_jwt :: jwtlib where
  "sample_jwt = \<lparr>SignedString = (\<lambda>h p k. case p of AccessTokenPayload c \<Rightarrow> Inr (''at'' @ jc_Jti c) | IDTokenPayload c \<Rightarrow> Inr ''id''),
     ParseWithJWTClaims = (\<lambda>s kf opts. Inr \<lparr>tok_Header = \<lparr>h_alg = AlgHS256, h_typ = Some TypeAccessToken, h_kid = None\<rparr>,
        tok_Claims = JWTClaims_zero\<lparr>jc_TenantID := ''x'', jc_Scope := ''openid'', jc_UserID := ''xxxxxxx''\<rparr>, tok_Valid = True\<rparr>),
     ParseWithIDTokenClaims = (\<lambda>s kf opts. Inl (ErrMsg ''malformed''))\<rparr>"

definition sample_config :: Config where
  "sample_config = \<lparr>cf_ServerURL = ''https://id'', cf_AccessTokenDuration = seconds 3600,
     cf_RefreshTokenDuration = seconds 86400, cf_IDTokenDuration = seconds 3600, cf_SessionDuration = seconds 3600,
     cf_AuthorizationCodeDuration = seconds 600, cf_DeviceCodeDuration = seconds 600, cf_DeviceCodePollInterval = 5\<rparr>"

text \<open>A UUID is written in unary, which is injective; random bytes are the octets of RFC 7636.\<close>

definition sample_env :: env where
  "sample_env = \<lparr>now = 1000, config = sample_config, keys = sample_hs_keys, fails = (\<lambda>_. False),
     newUUID = (\<lambda>n. of_nat (n + 100)), randBytes = (\<lambda>_ _. Some rfc7636_octets),
     randInt = (\<lambda>n m. Some (n mod m)),
     uuidString = (\<lambda>u. replicate (unat u) CHR ''x''), uuidParse = (\<lambda>s. Some (of_nat (length s))),
     jwt = sample_jwt, bcryptGenerate = (\<lambda>_ p. Some (''b'' @ p)), bcryptCompare = (\<lambda>h p. h = ''b'' @ p),
     uniUpper = (\<lambda>s. s), uniLower = (\<lambda>s. s)\<rparr>"

definition sample_client :: Client where
  "sample_client = \<lparr>c_ID = 5, c_TenantID = 1, c_ClientID = ''app'', c_ClientSecret = ''bpw'', c_PlainClientSecret = [],
     c_Name = ''App'', c_RedirectURIs = [''https://app/cb''], c_PostLogoutRedirectURIs = [],
     c_GrantTypes = [''authorization_code''], c_Scopes = [''read'', ''openid''], c_IsPublic = False,
     c_TokenEndpointAuthMethod = ''client_secret_basic'', c_DynamicallyRegistered = False, c_RegistrationAccessToken = [],
     c_CreatedAt = 0, c_UpdatedAt = 0, c_DeletedAt = None\<rparr>"

definition sample_code :: AuthorizationCode where
  "sample_code = \<lparr>ac_ID = 20, ac_TenantID = 1, ac_Code = ''code'', ac_ClientID = 5, ac_UserID = 7,
     ac_RedirectURI = ''https://app/cb'', ac_Scope = ''read'', ac_CodeChallenge = rfc7636_challenge,
     ac_CodeChallengeMethod = ''S256'', ac_Nonce = [], ac_AuthTime = Some 900, ac_AMR = [''pwd''], ac_UsedAt = None,
     ac_ExpiresAt = 2000, ac_CreatedAt = 500\<rparr>"

definition sample_refresh :: RefreshToken where
  "sample_refresh = \<lparr>rt_ID = 30, rt_TenantID = 1, rt_Token = hashToken ''abc'', rt_ClientID = 5, rt_UserID = 7,
     rt_FamilyID = 40, rt_Scope = ''read'', rt_AuthTime = Some 900, rt_AMR = [''pwd''], rt_RevokedAt = None,
     rt_ExpiresAt = 5000, rt_CreatedAt = 500\<rparr>"

definition sample_world :: world where
  "sample_world = empty_world\<lparr>users := [sample_user], clients := [sample_client], auth_codes := [sample_code],
     refresh_tokens := [sample_refresh]\<rparr>"

lemma sample_hash_new: "hashToken rfc7636_verifier = rfc7636_challenge"
  by (simp add: hashToken_def rfc7636_hash)

lemma sample_hash_old: "hashToken ''abc'' = ''ungWv48Bz-pBQUDeXa4iI7ADYaOWF3qctBD_YfIAFa0''"
  by (simp add: hashToken_def fips180_abc)

lemma sample_hash_distinct [simp]:
  "hashToken rfc7636_verifier \<noteq> hashToken ''abc''" "hashToken ''abc'' \<noteq> hashToken rfc7636_verifier"
  by (simp_all add: sample_hash_new sample_hash_old rfc7636_challenge_def)

lemma sample_scope_read [simp]: "ParseScope ''read'' = [''read'']"
  unfolding ParseScope_def by code_simp

lemma sample_no_openid [simp]: "\<not> ScopeContains ''read'' ScopeOpenID"
  by (simp add: ScopeContains_iff ScopeOpenID_def)

lemma sample_nonempty [simp]: "rfc7636_verifier \<noteq> []" "rfc7636_challenge \<noteq> []"
  by (simp_all add: rfc7636_verifier_def rfc7636_challenge_def)

lemma sample_client_id: "replicate 5 CHR ''x'' = ''xxxxx''"
  by (simp add: numeral_eq_Suc)

lemmas sample_defs =
  sample_world_def sample_env_def sample_config_def sample_client_def sample_code_def sample_refresh_def sample_jwt_def
  sample_user_def empty_world_def sample_client_id rfc7636_hash rfc7636_encode expiry_defs client_live_def
  access_tokens_clash_def refresh_tokens_clash_def KeySet_SignTyped_def Let_def

lemmas service_defs =
  ExchangeAuthorizationCode_def checkAuthCode_def issueTokens_def issueAccessToken_def generateJWT_def
  issueRefreshToken_def issueIDToken_def RefreshTokens_def refreshScope_def confirmRotation_def
  revokeTokenFamily_def refreshTokenReused_def ValidatePKCE_def RevokeToken_def revokeAsRefreshToken_def
  revokeAsAccessToken_def

lemma sample_sign: "KeySet_SignTyped sample_jwt ks (AccessTokenPayload c) typ = Inr (''at'' @ jc_Jti c)"
  by (simp add: KeySet_SignTyped_def sample_jwt_def)

end
