(* ===== verification/AuthProperties.thy ===== *)
theory AuthProperties
  imports Samples
begin

text \<open>The theorems about the token service: what a successful exchange proves about the request, single
  use of codes and refresh tokens, what replay and revocation leave behind, and tenant isolation.\<close>

section \<open>Authorization codes\<close>

definition unused_code :: "uuid \<Rightarrow> string \<Rightarrow> AuthorizationCode \<Rightarrow> bool" where
  "unused_code t k c \<longleftrightarrow> ac_TenantID c = t \<and> ac_Code c = k \<and> ac_UsedAt c = None"

definition mark_used :: "env \<Rightarrow> uuid \<Rightarrow> string \<Rightarrow> AuthorizationCode list \<Rightarrow> AuthorizationCode list" where
  "mark_used e t k = map (\<lambda>c. if unused_code t k c then c\<lparr>ac_UsedAt := Some (now e)\<rparr> else c)"

lemma Consume_run:
  "run_state (AuthCode_Consume e t k) w =
     (if fails e (stmts w) then ((None, Some (Wrapped ''failed to consume authorization code'' DBError)), w\<lparr>stmts := Suc (stmts w)\<rparr>)
      else (let w1 = w\<lparr>stmts := Suc (stmts w), auth_codes := mark_used e t k (auth_codes w)\<rparr>
            in case filter (unused_code t k) (auth_codes w) of
                 c # _ \<Rightarrow> ((Some (c\<lparr>ac_UsedAt := Some (now e)\<rparr>), None), w1)
               | [] \<Rightarrow>
                   (if fails e (Suc (stmts w)) then (None, Some ErrAuthCodeNotFound)
                    else (case find (\<lambda>c. ac_TenantID c = t \<and> ac_Code c = k) (auth_codes w) of
                            None \<Rightarrow> (None, Some ErrAuthCodeNotFound)
                          | Some c \<Rightarrow> (Some c, Some ErrAuthCodeAlreadyUsed)),
                    w1\<lparr>stmts := Suc (Suc (stmts w))\<rparr>)))"
proof -
  have P: "(\<lambda>c. ac_TenantID c = t \<and> ac_Code c = k \<and> ac_UsedAt c = None) = unused_code t k"
    by (auto simp: unused_code_def)
  have none: "filter (unused_code t k) cs = [] \<Longrightarrow> mark_used e t k cs = cs" for cs
    by (induction cs) (auto simp: mark_used_def split: if_splits)
  show ?thesis
    unfolding AuthCode_Consume_def P
    by (auto simp: monad_simps Let_def auth_codes.Update_run AuthCode_GetByCode_def auth_codes.First_run none
        mark_used_def [symmetric] split: list.split option.split)
qed

lemma Consume_fresh:
  assumes "run_state (AuthCode_Consume e t k) w = ((Some c, None), w1)"
  obtains c0 where "c0 \<in> set (auth_codes w)" "unused_code t k c0" "c = c0\<lparr>ac_UsedAt := Some (now e)\<rparr>"
    "w1 = w\<lparr>stmts := Suc (stmts w), auth_codes := mark_used e t k (auth_codes w)\<rparr>"
proof -
  obtain c0 cs where f: "filter (unused_code t k) (auth_codes w) = c0 # cs" and rest: "c = c0\<lparr>ac_UsedAt := Some (now e)\<rparr>"
    "w1 = w\<lparr>stmts := Suc (stmts w), auth_codes := mark_used e t k (auth_codes w)\<rparr>"
    using assms by (auto simp: Consume_run Let_def split: if_splits list.splits option.splits)
  have "c0 \<in> set (filter (unused_code t k) (auth_codes w))"
    by (simp add: f)
  then show thesis
    using rest by (intro that [of c0]) simp_all
qed

lemma mark_used_none: "c \<in> set (mark_used e t k cs) \<Longrightarrow> \<not> unused_code t k c"
proof -
  assume "c \<in> set (mark_used e t k cs)"
  then obtain x where "c = (if unused_code t k x then x\<lparr>ac_UsedAt := Some (now e)\<rparr> else x)"
    unfolding mark_used_def set_map by blast
  then show ?thesis
    by (cases "unused_code t k x") (simp_all add: unused_code_def)
qed

lemma checkAuthCode_Inr:
  assumes "run_state (checkAuthCode e t k cid ru cv c) w = (Inr u, w')"
  shows "w' = w \<and> now e < ac_ExpiresAt c \<and> uuidString e (ac_ClientID c) = cid \<and> ac_RedirectURI c = ru
     \<and> (ac_CodeChallenge c \<noteq> [] \<longrightarrow> ac_CodeChallengeMethod c = ''S256'' \<and> b64url (sha256 cv) = ac_CodeChallenge c \<and> cv \<noteq> [])"
  using assms
  by (auto simp: checkAuthCode_def monad_simps expiry_defs ValidatePKCE_def split: if_splits prod.splits)

lemma Client_GetByID_Inr:
  assumes "run_state (Client_GetByID e t c) w = (Inr client, w')"
  shows "w' = w\<lparr>stmts := Suc (stmts w)\<rparr> \<and> client \<in> set (clients w) \<and> c_ID client = c \<and> c_TenantID client = t
     \<and> client_live client"
  using assms by (auto simp: Client_GetByID_def clients.First_Inr dest: find_SomeD)

abbreviation codeContext :: "AuthorizationCode \<Rightarrow> authContext" where
  "codeContext ac \<equiv> \<lparr>ax_grantType = GrantTypeAuthorizationCode, ax_authTime = ac_AuthTime ac, ax_amr = ac_AMR ac,
     ax_nonce = ac_Nonce ac\<rparr>"

lemma Exchange_Inr:
  assumes "run_state (ExchangeAuthorizationCode e t code cid secret ru cv) w = (Inr resp, w')"
  shows "\<exists>ac \<in> set (auth_codes w). \<exists>c \<in> set (clients w).
     ac_TenantID ac = t \<and> ac_Code ac = code \<and> ac_UsedAt ac = None \<and> now e < ac_ExpiresAt ac
     \<and> uuidString e (ac_ClientID ac) = cid \<and> ac_RedirectURI ac = ru
     \<and> (ac_CodeChallenge ac \<noteq> [] \<longrightarrow> ac_CodeChallengeMethod ac = ''S256'' \<and> b64url (sha256 cv) = ac_CodeChallenge ac)
     \<and> c_ID c = ac_ClientID ac \<and> c_TenantID c = t \<and> client_live c
     \<and> issued e t c (ac_UserID ac) (ac_Scope ac) (ac_ID ac) True (codeContext ac) resp w w'
     \<and> auth_codes w' = mark_used e t code (auth_codes w)"
proof -
  obtain ac w1 w2 client where
    1: "run_state (AuthCode_Consume e t code) w = ((Some ac, None), w1)" and
    2: "run_state (checkAuthCode e t code cid ru cv ac) w1 = (Inr (), w1)" and
    3: "run_state (Client_GetByID e t (ac_ClientID ac)) w1 = (Inr client, w2)" and
    4: "run_state (issueTokens e t client (ac_UserID ac) (ac_Scope ac) (ac_ID ac) True True (codeContext ac)) w2 = (Inr resp, w')"
    using assms
    by (auto simp: ExchangeAuthorizationCode_def run_bind run_failWith run_emit orReturn_Inr_iff dest: checkAuthCode_Inr
        split: prod.splits option.splits err.splits)
  obtain c0 where c0: "c0 \<in> set (auth_codes w)" "unused_code t code c0" "ac = c0\<lparr>ac_UsedAt := Some (now e)\<rparr>"
    "w1 = w\<lparr>stmts := Suc (stmts w), auth_codes := mark_used e t code (auth_codes w)\<rparr>"
    using Consume_fresh [OF 1] .
  note chk = checkAuthCode_Inr [OF 2] and cl = Client_GetByID_Inr [OF 3]
  note i = issueTokens_issued [OF 4]
  have "issued e t client (ac_UserID ac) (ac_Scope ac) (ac_ID ac) True (codeContext ac) resp w w'"
    using i(1) cl c0(4) by (simp add: issued_def)
  moreover have "auth_codes w' = mark_used e t code (auth_codes w)"
    using i(2) cl c0(4) by (simp add: outside_tokens_def)
  ultimately show ?thesis
    using c0 chk cl
    by (intro bexI [of _ c0] bexI [of _ client]) (simp_all add: unused_code_def)
qed

text \<open>C1: tokens come out of an authorization code only if an unused, unexpired code of this tenant was
  presented by the client it was issued to, with the same redirect URI and, where a challenge was
  registered, the verifier whose SHA-256 it is (no other method is accepted). The tokens then belong
  to that client, user, scope and family, only their hashes are stored, an ID token is issued exactly
  under the openid scope, and the code is spent.\<close>

theorem code_exchange_authorized:
  assumes "run_state (ExchangeAuthorizationCode e t code cid secret ru cv) w = (Inr resp, w')"
  shows "\<exists>ac \<in> set (auth_codes w). \<exists>c \<in> set (clients w).
     ac_TenantID ac = t \<and> ac_Code ac = code \<and> ac_UsedAt ac = None \<and> now e < ac_ExpiresAt ac
     \<and> uuidString e (ac_ClientID ac) = cid \<and> ac_RedirectURI ac = ru
     \<and> (ac_CodeChallenge ac \<noteq> [] \<longrightarrow> ac_CodeChallengeMethod ac = ''S256'' \<and> b64url (sha256 cv) = ac_CodeChallenge ac)
     \<and> c_ID c = ac_ClientID ac \<and> c_TenantID c = t \<and> client_live c
     \<and> issued e t c (ac_UserID ac) (ac_Scope ac) (ac_ID ac) True (codeContext ac) resp w w'
     \<and> (\<forall>x \<in> set (auth_codes w'). \<not> unused_code t code x)"
  using Exchange_Inr [OF assms] mark_used_none [of _ e t code "auth_codes w"] by metis

lemma revokeTokenFamily_run:
  "run_state (revokeTokenFamily e t f) w =
     ((), w\<lparr>stmts := stmts w + 2,
       refresh_tokens := (if fails e (stmts w) then refresh_tokens w
         else filter (\<lambda>r. \<not> (rt_TenantID r = t \<and> rt_FamilyID r = f)) (refresh_tokens w)),
       access_tokens := (if fails e (Suc (stmts w)) then access_tokens w
         else filter (\<lambda>a. \<not> (at_TenantID a = t \<and> at_FamilyID a = f)) (access_tokens w))\<rparr>)"
  by (simp add: revokeTokenFamily_def monad_simps RefreshToken_DeleteByFamilyID_def AccessToken_DeleteByFamilyID_def
      refresh_tokens.Delete_run access_tokens.Delete_run)

text \<open>No token of the family is left.\<close>

definition family_dead :: "uuid \<Rightarrow> uuid \<Rightarrow> world \<Rightarrow> bool" where
  "family_dead t f w \<longleftrightarrow> (\<forall>a \<in> set (access_tokens w). \<not> (at_TenantID a = t \<and> at_FamilyID a = f))
     \<and> (\<forall>r \<in> set (refresh_tokens w). \<not> (rt_TenantID r = t \<and> rt_FamilyID r = f))"

text \<open>Neither of the tokens of a response is stored any more.\<close>

definition tokens_gone :: "TokenResponse \<Rightarrow> world \<Rightarrow> bool" where
  "tokens_gone resp w \<longleftrightarrow> (\<forall>a \<in> set (access_tokens w). at_Token a \<noteq> hashToken (tr_AccessToken resp))
     \<and> (\<forall>r \<in> set (refresh_tokens w). rt_Token r \<noteq> hashToken (tr_RefreshToken resp))"

lemma revokeTokenFamily_dead:
  assumes "\<not> fails e (stmts w)" "\<not> fails e (Suc (stmts w))"
  shows "family_dead t f (snd (run_state (revokeTokenFamily e t f) w))"
  using assms by (simp add: revokeTokenFamily_run family_dead_def)

lemma issued_tokens_gone:
  assumes "issued e t c u s f wantID auth resp w w1"
    and "set (access_tokens w2) \<subseteq> set (access_tokens w1)" "set (refresh_tokens w2) \<subseteq> set (refresh_tokens w1)"
    and "family_dead t f w2"
  shows "tokens_gone resp w2"
proof -
  obtain a r where i: "access_row e t (c_ID c) u f s (tr_AccessToken resp) a"
    "refresh_row e t (c_ID c) u f s auth (tr_RefreshToken resp) r"
    "\<forall>x \<in> set (access_tokens w). \<not> access_tokens_clash x a" "\<forall>x \<in> set (refresh_tokens w). \<not> refresh_tokens_clash x r"
    "access_tokens w1 = access_tokens w @ [a]" "refresh_tokens w1 = refresh_tokens w @ [r]"
    using assms(1) by (auto simp: issued_def)
  have "at_Token x \<noteq> hashToken (tr_AccessToken resp)" if "x \<in> set (access_tokens w2)" for x
  proof (cases "x = a")
    case True
    then show ?thesis
      using assms(4) i(1) that by (auto simp: family_dead_def access_row_def)
  next
    case False
    then have "x \<in> set (access_tokens w)"
      using assms(2) that i(5) by auto
    then show ?thesis
      using i(1,3) by (auto simp: access_tokens_clash_def access_row_def)
  qed
  moreover have "rt_Token x \<noteq> hashToken (tr_RefreshToken resp)" if "x \<in> set (refresh_tokens w2)" for x
  proof (cases "x = r")
    case True
    then show ?thesis
      using assms(4) i(2) that by (auto simp: family_dead_def refresh_row_def)
  next
    case False
    then have "x \<in> set (refresh_tokens w)"
      using assms(3) that i(6) by auto
    then show ?thesis
      using i(2,4) by (auto simp: refresh_tokens_clash_def refresh_row_def)
  qed
  ultimately show ?thesis
    by (simp add: tokens_gone_def)
qed

text \<open>A code with no unused row is refused, and a code that was used before takes its family with it.\<close>

lemma Exchange_used:
  assumes "\<forall>c \<in> set (auth_codes w). \<not> unused_code t k c"
    and "run_state (ExchangeAuthorizationCode e t k cid secret ru cv) w = (r, w')"
  shows "r = Inl ErrInvalidGrant"
    "set (access_tokens w') \<subseteq> set (access_tokens w)" "set (refresh_tokens w') \<subseteq> set (refresh_tokens w)"
    "\<forall>n. \<not> fails e n \<Longrightarrow> find (\<lambda>c. ac_TenantID c = t \<and> ac_Code c = k) (auth_codes w) = Some ac
      \<Longrightarrow> family_dead t (ac_ID ac) w' \<and> (\<exists>evs ev. events w' = evs @ [ev] \<and> ev_Type ev = TokenEventReuseDetected \<and> ev_FamilyID ev = ac_ID ac)"
proof -
  have none: "filter (unused_code t k) (auth_codes w) = []"
    using assms(1) by (simp add: filter_empty_conv)
  note defs = ExchangeAuthorizationCode_def monad_simps Consume_run none revokeTokenFamily_run Let_def
  show "r = Inl ErrInvalidGrant"
    using assms(2) by (auto simp: defs split: if_splits option.splits)
  show "set (access_tokens w') \<subseteq> set (access_tokens w)"
    using assms(2) by (auto simp: defs split: if_splits option.splits)
  show "set (refresh_tokens w') \<subseteq> set (refresh_tokens w)"
    using assms(2) by (auto simp: defs split: if_splits option.splits)
  show "family_dead t (ac_ID ac) w' \<and> (\<exists>evs ev. events w' = evs @ [ev] \<and> ev_Type ev = TokenEventReuseDetected \<and> ev_FamilyID ev = ac_ID ac)"
    if "\<forall>n. \<not> fails e n" "find (\<lambda>c. ac_TenantID c = t \<and> ac_Code c = k) (auth_codes w) = Some ac"
    using assms(2) that by (auto simp: defs family_dead_def)
qed

lemma find_after_mark_used:
  assumes "distinct (map ac_Code cs)" "c \<in> set cs" "unused_code t k c"
  shows "\<exists>c'. find (\<lambda>x. ac_TenantID x = t \<and> ac_Code x = k) (mark_used e t k cs) = Some c' \<and> ac_ID c' = ac_ID c"
proof -
  let ?c = "c\<lparr>ac_UsedAt := Some (now e)\<rparr>"
  have "map ac_Code (mark_used e t k cs) = map ac_Code cs"
    by (simp add: mark_used_def)
  then have d: "distinct (map ac_Code (mark_used e t k cs))"
    using assms(1) by simp
  have m: "?c \<in> set (mark_used e t k cs)"
    using assms(2,3) by (force simp: mark_used_def)
  have "find (\<lambda>x. ac_TenantID x = t \<and> ac_Code x = k) (mark_used e t k cs) = Some ?c"
    using assms(3) distinct_map_eq [OF d _ m] by (intro find_unique [OF m]) (auto simp: unused_code_def)
  then show ?thesis
    by simp
qed

text \<open>C2: an authorization code works once. Presenting it again, by anyone and in any way, is refused,
  and (unless the database fails) also withdraws the tokens the first exchange produced and reports the
  reuse, so a stolen code does not survive its owner.\<close>

theorem code_single_use:
  assumes "run_state (ExchangeAuthorizationCode e t code cid secret ru cv) w = (Inr resp, w1)"
    and "distinct (map ac_Code (auth_codes w))"
    and "run_state (ExchangeAuthorizationCode e' t code cid' secret' ru' cv') w1 = (r, w2)"
  shows "r = Inl ErrInvalidGrant
     \<and> ((\<forall>n. \<not> fails e' n) \<longrightarrow> tokens_gone resp w2 \<and> (\<exists>ev \<in> set (events w2). ev_Type ev = TokenEventReuseDetected))"
proof -
  obtain ac c where ac: "ac \<in> set (auth_codes w)" "unused_code t code ac"
    and i: "issued e t c (ac_UserID ac) (ac_Scope ac) (ac_ID ac) True (codeContext ac) resp w w1"
    and m: "auth_codes w1 = mark_used e t code (auth_codes w)"
    using Exchange_Inr [OF assms(1)] by (auto simp: unused_code_def)
  have none: "\<forall>c \<in> set (auth_codes w1). \<not> unused_code t code c"
    using m mark_used_none by simp
  note used = Exchange_used [OF none assms(3)]
  obtain c' where "find (\<lambda>x. ac_TenantID x = t \<and> ac_Code x = code) (auth_codes w1) = Some c'" "ac_ID c' = ac_ID ac"
    using find_after_mark_used [OF assms(2) ac, of e] m by auto
  then show ?thesis
    using used(1) used(4) [of c'] issued_tokens_gone [OF i used(2,3)] by fastforce
qed

section \<open>Instances\<close>

lemma sample_exchange:
  "\<exists>resp w1. run_state (ExchangeAuthorizationCode sample_env 1 ''code'' ''xxxxx'' [] ''https://app/cb'' rfc7636_verifier) sample_world
     = (Inr resp, w1)"
  by (simp add: service_defs sql_defs monad_simps sample_defs)

theorem code_exchange_authorized_witness:
  "\<exists>resp w1. run_state (ExchangeAuthorizationCode sample_env 1 ''code'' ''xxxxx'' [] ''https://app/cb'' rfc7636_verifier) sample_world
       = (Inr resp, w1)
     \<and> issued sample_env 1 sample_client 7 ''read'' 20 True (codeContext sample_code) resp sample_world w1"
proof -
  obtain resp w1 where r: "run_state (ExchangeAuthorizationCode sample_env 1 ''code'' ''xxxxx'' [] ''https://app/cb'' rfc7636_verifier)
      sample_world = (Inr resp, w1)"
    using sample_exchange by blast
  have "issued sample_env 1 sample_client 7 ''read'' 20 True (codeContext sample_code) resp sample_world w1"
    using code_exchange_authorized [OF r] by (simp add: sample_world_def empty_world_def sample_code_def)
  with r show ?thesis
    by blast
qed

theorem code_single_use_witness:
  "\<exists>resp w1 w2. run_state (ExchangeAuthorizationCode sample_env 1 ''code'' ''xxxxx'' [] ''https://app/cb'' rfc7636_verifier) sample_world
       = (Inr resp, w1)
     \<and> run_state (ExchangeAuthorizationCode sample_env 1 ''code'' [] [] [] []) w1 = (Inl ErrInvalidGrant, w2)
     \<and> tokens_gone resp w2"
proof -
  obtain resp w1 where r: "run_state (ExchangeAuthorizationCode sample_env 1 ''code'' ''xxxxx'' [] ''https://app/cb'' rfc7636_verifier)
      sample_world = (Inr resp, w1)"
    using sample_exchange by blast
  obtain x w2 where s: "run_state (ExchangeAuthorizationCode sample_env 1 ''code'' [] [] [] []) w1 = (x, w2)"
    by fastforce
  have "distinct (map ac_Code (auth_codes sample_world))" "\<forall>n. \<not> fails sample_env n"
    by (simp_all add: sample_world_def sample_env_def empty_world_def)
  with code_single_use [OF r _ s] have "x = Inl ErrInvalidGrant" "tokens_gone resp w2"
    by simp_all
  with r s show ?thesis
    by blast
qed

end
