(* ===== verification/RefreshProperties.thy ===== *)
theory RefreshProperties
  imports AuthProperties
begin

text \<open>Refresh tokens, one request at a time: what a successful refresh proves and does, that each refresh
  token works once and its replay ends the family, and that no sequence of refreshes widens a grant.
  Interleaved requests are the subject of \<open>RefreshConcurrency\<close>.\<close>

section \<open>One refresh\<close>

definition live_refresh :: "uuid \<Rightarrow> string \<Rightarrow> RefreshToken \<Rightarrow> bool" where
  "live_refresh t h r \<longleftrightarrow> rt_TenantID r = t \<and> rt_Token r = h \<and> rt_RevokedAt r = None"

definition mark_revoked :: "env \<Rightarrow> uuid \<Rightarrow> string \<Rightarrow> RefreshToken list \<Rightarrow> RefreshToken list" where
  "mark_revoked e t h = map (\<lambda>r. if live_refresh t h r then r\<lparr>rt_RevokedAt := Some (now e)\<rparr> else r)"

abbreviation refreshContext :: "RefreshToken \<Rightarrow> authContext" where
  "refreshContext r \<equiv> \<lparr>ax_grantType = GrantTypeRefreshToken, ax_authTime = rt_AuthTime r, ax_amr = rt_AMR r, ax_nonce = []\<rparr>"

lemma GetRefresh_Inr:
  "run_state (RefreshToken_GetByToken e t h) w = (Inr r, w') \<longleftrightarrow>
     \<not> fails e (stmts w) \<and> find (\<lambda>r. rt_TenantID r = t \<and> rt_Token r = h) (refresh_tokens w) = Some r
     \<and> w' = w\<lparr>stmts := Suc (stmts w)\<rparr>"
  by (simp add: RefreshToken_GetByToken_def refresh_tokens.First_Inr)

lemma GetRefresh_run:
  "run_state (RefreshToken_GetByToken e t h) w =
     (if fails e (stmts w) then Inl (Wrapped ''failed to get refresh token'' DBError)
      else case find (\<lambda>r. rt_TenantID r = t \<and> rt_Token r = h) (refresh_tokens w) of
        None \<Rightarrow> Inl ErrRefreshTokenNotFound | Some r \<Rightarrow> Inr r,
      w\<lparr>stmts := Suc (stmts w)\<rparr>)"
  by (simp add: RefreshToken_GetByToken_def refresh_tokens.First_run)

lemma Revoke_run:
  "run_state (RefreshToken_Revoke e t h) w =
     (if fails e (stmts w)
      then (Inl (Wrapped ''failed to revoke refresh token'' DBError), w\<lparr>stmts := Suc (stmts w)\<rparr>)
      else (Inr (length (filter (live_refresh t h) (refresh_tokens w)) = 1),
            w\<lparr>stmts := Suc (stmts w), refresh_tokens := mark_revoked e t h (refresh_tokens w)\<rparr>))"
proof -
  have P: "(\<lambda>r. rt_TenantID r = t \<and> rt_Token r = h \<and> rt_RevokedAt r = None) = live_refresh t h"
    by (auto simp: live_refresh_def)
  show ?thesis
    unfolding RefreshToken_Revoke_def P by (simp add: monad_simps refresh_tokens.Update_run mark_revoked_def)
qed

lemma mark_revoked_none: "r \<in> set (mark_revoked e t h rs) \<Longrightarrow> \<not> live_refresh t h r"
proof -
  assume "r \<in> set (mark_revoked e t h rs)"
  then obtain x where "r = (if live_refresh t h x then x\<lparr>rt_RevokedAt := Some (now e)\<rparr> else x)"
    unfolding mark_revoked_def set_map by blast
  then show ?thesis
    by (cases "live_refresh t h x") (simp_all add: live_refresh_def)
qed

lemma case_fail_Inr [simp]: "(case p of (a, w) \<Rightarrow> (Inl er, w)) \<noteq> (Inr x, w')"
  by (simp split: prod.split)

lemma confirmRotation_Inr:
  assumes "run_state (confirmRotation e t r resp) w = (Inr resp', w')"
  shows "resp' = resp \<and> w' = w\<lparr>stmts := Suc (stmts w)\<rparr>"
  using assms
  by (auto simp: confirmRotation_def run_bind run_succeed run_failWith GetRefresh_run
      split: if_splits prod.splits option.splits)

lemma Refresh_Inr:
  assumes "run_state (RefreshTokens e t tok cid req) w = (Inr resp, w')"
  shows "\<exists>r \<in> set (refresh_tokens w). \<exists>c \<in> set (clients w).
     live_refresh t (hashToken tok) r \<and> now e < rt_ExpiresAt r \<and> uuidString e (rt_ClientID r) = cid
     \<and> c_ID c = rt_ClientID r \<and> c_TenantID c = t \<and> client_live c
     \<and> ScopeIsSubset (tr_Scope resp) (rt_Scope r) \<and> (req = [] \<longrightarrow> tr_Scope resp = rt_Scope r) \<and> (req \<noteq> [] \<longrightarrow> tr_Scope resp = req)
     \<and> issued e t c (rt_UserID r) (tr_Scope resp) (rt_FamilyID r) True (refreshContext r) resp
         (w\<lparr>refresh_tokens := mark_revoked e t (hashToken tok) (refresh_tokens w)\<rparr>) w'"
proof -
  let ?h = "hashToken tok"
  obtain r w1 s c w2 w3 w4 resp0 where
    1: "run_state (RefreshToken_GetByToken e t ?h) w = (Inr r, w1)" and
    r: "\<not> RefreshToken_IsRevoked r" "\<not> RefreshToken_IsExpired (now e) r" "uuidString e (rt_ClientID r) = cid" and
    s: "refreshScope req r = Inr s" and
    2: "run_state (Client_GetByID e t (rt_ClientID r)) w1 = (Inr c, w2)" and
    3: "run_state (RefreshToken_Revoke e t (rt_Token r)) w2 = (Inr True, w3)" and
    40: "run_state (issueTokens e t c (rt_UserID r) s (rt_FamilyID r) True True (refreshContext r)) w3 = (Inr resp0, w4)" and
    50: "run_state (confirmRotation e t r resp0) w4 = (Inr resp, w')"
    using assms by (auto simp: RefreshTokens_def orReturn_Inr_iff run_bind run_failWith run_return split: if_splits)
  have 4: "run_state (issueTokens e t c (rt_UserID r) s (rt_FamilyID r) True True (refreshContext r)) w3 = (Inr resp, w4)"
    and w4: "w' = w4\<lparr>stmts := Suc (stmts w4)\<rparr>"
    using 40 confirmRotation_Inr [OF 50] by simp_all
  have f: "r \<in> set (refresh_tokens w)" "rt_TenantID r = t" "rt_Token r = ?h" "w1 = w\<lparr>stmts := Suc (stmts w)\<rparr>"
    using 1 by (auto simp: GetRefresh_Inr dest: find_SomeD)
  note cl = Client_GetByID_Inr [OF 2] and i = issueTokens_issued [OF 4]
  have w3: "refresh_tokens w3 = mark_revoked e t ?h (refresh_tokens w)" "access_tokens w3 = access_tokens w" "users w3 = users w"
    using 3 cl f by (auto simp: Revoke_run split: if_splits)
  have w': "refresh_tokens w' = refresh_tokens w4" "access_tokens w' = access_tokens w4"
    using w4 by simp_all
  have "issued e t c (rt_UserID r) s (rt_FamilyID r) True (refreshContext r) resp
         (w\<lparr>refresh_tokens := mark_revoked e t ?h (refresh_tokens w)\<rparr>) w'"
    using i(1) w3 w' by (simp add: issued_def)
  moreover from this have "tr_Scope resp = s"
    by (auto simp: issued_def)
  ultimately show ?thesis
    using f r s cl
    by (intro bexI [of _ r] bexI [of _ c])
      (auto simp: live_refresh_def expiry_defs RefreshToken_IsRevoked_def refreshScope_def split: if_splits)
qed

text \<open>C5: a refresh succeeds only with a live (neither rotated nor expired) token of this tenant presented
  by the client it was issued to, whose client still exists. The scope is the granted one or the requested
  subset of it. The presented token is rotated out, and the new tokens join its family with the original
  authentication time and methods and without a nonce.\<close>

theorem refresh_rotates:
  assumes "run_state (RefreshTokens e t tok cid req) w = (Inr resp, w')"
  shows "\<exists>r \<in> set (refresh_tokens w). \<exists>c \<in> set (clients w).
     live_refresh t (hashToken tok) r \<and> now e < rt_ExpiresAt r \<and> uuidString e (rt_ClientID r) = cid
     \<and> c_ID c = rt_ClientID r \<and> c_TenantID c = t \<and> client_live c
     \<and> ScopeIsSubset (tr_Scope resp) (rt_Scope r) \<and> (req = [] \<longrightarrow> tr_Scope resp = rt_Scope r) \<and> (req \<noteq> [] \<longrightarrow> tr_Scope resp = req)
     \<and> issued e t c (rt_UserID r) (tr_Scope resp) (rt_FamilyID r) True (refreshContext r) resp
         (w\<lparr>refresh_tokens := mark_revoked e t (hashToken tok) (refresh_tokens w)\<rparr>) w'"
  by (rule Refresh_Inr [OF assms])

section \<open>Replay\<close>

lemma refreshTokenReused_run:
  "run_state (refreshTokenReused e t r) w =
     (let w1 = snd (run_state (revokeTokenFamily e t (rt_FamilyID r)) w)
      in ((), w1\<lparr>events := events w1 @ [TokenEvent_zero\<lparr>ev_Type := TokenEventReuseDetected, ev_TenantID := t,
           ev_ClientID := rt_ClientID r, ev_UserID := userRef (rt_UserID r), ev_FamilyID := rt_FamilyID r,
           ev_Credential := CredentialRefreshToken\<rparr>]\<rparr>))"
  by (simp add: refreshTokenReused_def monad_simps Let_def split: prod.split)

lemma Refresh_revoked:
  assumes "find (\<lambda>r. rt_TenantID r = t \<and> rt_Token r = hashToken tok) (refresh_tokens w) = Some r" "rt_RevokedAt r \<noteq> None"
    and "run_state (RefreshTokens e t tok cid req) w = (x, w')"
  shows "x = Inl ErrInvalidGrant"
    "set (access_tokens w') \<subseteq> set (access_tokens w)" "set (refresh_tokens w') \<subseteq> set (refresh_tokens w)"
    "\<forall>n. \<not> fails e n \<Longrightarrow> family_dead t (rt_FamilyID r) w'
       \<and> (\<exists>ev \<in> set (events w'). ev_Type ev = TokenEventReuseDetected \<and> ev_FamilyID ev = rt_FamilyID r)"
proof -
  have rev: "RefreshToken_IsRevoked r"
    using assms(2) by (simp add: RefreshToken_IsRevoked_def)
  note defs = RefreshTokens_def monad_simps GetRefresh_run assms(1) rev refreshTokenReused_run revokeTokenFamily_run Let_def
  show "x = Inl ErrInvalidGrant"
    using assms(3) by (auto simp: defs split: if_splits)
  show "set (access_tokens w') \<subseteq> set (access_tokens w)"
    using assms(3) by (auto simp: defs split: if_splits)
  show "set (refresh_tokens w') \<subseteq> set (refresh_tokens w)"
    using assms(3) by (auto simp: defs split: if_splits)
  show "family_dead t (rt_FamilyID r) w'
       \<and> (\<exists>ev \<in> set (events w'). ev_Type ev = TokenEventReuseDetected \<and> ev_FamilyID ev = rt_FamilyID r)"
    if "\<forall>n. \<not> fails e n"
    using assms(3) that by (auto simp: defs family_dead_def)
qed

section \<open>Sequences of refreshes\<close>

text \<open>Whom a refresh token speaks for.\<close>

definition grant_of :: "RefreshToken \<Rightarrow> uuid \<times> uuid \<times> uuid \<times> uuid" where
  "grant_of r = (rt_TenantID r, rt_FamilyID r, rt_ClientID r, rt_UserID r)"

definition access_grant_of :: "AccessToken \<Rightarrow> uuid \<times> uuid \<times> uuid \<times> uuid" where
  "access_grant_of a = (at_TenantID a, at_FamilyID a, at_ClientID a, at_UserID a)"

text \<open>Every token stored later goes back to one stored earlier for the same tenant, family, client and
  user, with at least its scope.\<close>

definition narrows :: "world \<Rightarrow> world \<Rightarrow> bool" where
  "narrows w w' \<longleftrightarrow>
     (\<forall>r' \<in> set (refresh_tokens w'). \<exists>r \<in> set (refresh_tokens w).
        grant_of r' = grant_of r \<and> ScopeIsSubset (rt_Scope r') (rt_Scope r))
     \<and> (\<forall>a' \<in> set (access_tokens w'). a' \<in> set (access_tokens w) \<or>
          (\<exists>r \<in> set (refresh_tokens w). access_grant_of a' = grant_of r \<and> ScopeIsSubset (at_Scope a') (rt_Scope r)))"

lemma narrows_trans:
  assumes "narrows u v" "narrows v w"
  shows "narrows u w"
proof -
  have r: "\<exists>r \<in> set (refresh_tokens u). grant_of r' = grant_of r \<and> ScopeIsSubset s (rt_Scope r)"
    if "r' \<in> set (refresh_tokens v)" "ScopeIsSubset s (rt_Scope r')" for r' s
    using assms(1) that ScopeIsSubset_trans unfolding narrows_def by blast
  show ?thesis
    unfolding narrows_def
  proof (intro conjI ballI)
    fix x assume "x \<in> set (refresh_tokens w)"
    then obtain y where "y \<in> set (refresh_tokens v)" "grant_of x = grant_of y" "ScopeIsSubset (rt_Scope x) (rt_Scope y)"
      using assms(2) unfolding narrows_def by blast
    then show "\<exists>r \<in> set (refresh_tokens u). grant_of x = grant_of r \<and> ScopeIsSubset (rt_Scope x) (rt_Scope r)"
      using r by metis
  next
    fix x assume "x \<in> set (access_tokens w)"
    then consider "x \<in> set (access_tokens v)"
      | y where "y \<in> set (refresh_tokens v)" "access_grant_of x = grant_of y" "ScopeIsSubset (at_Scope x) (rt_Scope y)"
      using assms(2) unfolding narrows_def by blast
    then show "x \<in> set (access_tokens u) \<or>
        (\<exists>r \<in> set (refresh_tokens u). access_grant_of x = grant_of r \<and> ScopeIsSubset (at_Scope x) (rt_Scope r))"
    proof cases
      case 1
      then show ?thesis
        using assms(1) unfolding narrows_def by blast
    next
      case (2 y)
      then show ?thesis
        using r by metis
    qed
  qed
qed

interpretation nw: state_preorder narrows
proof
  show "narrows w w" for w
    by (auto simp: narrows_def)
  show "narrows u v \<Longrightarrow> narrows v w \<Longrightarrow> narrows u w" for u v w
    by (rule narrows_trans)
qed

definition grows :: "uuid \<times> uuid \<times> uuid \<times> uuid \<Rightarrow> string \<Rightarrow> world \<Rightarrow> world \<Rightarrow> bool" where
  "grows g s w w' \<longleftrightarrow>
     (\<exists>as. access_tokens w' = access_tokens w @ as \<and> (\<forall>a \<in> set as. access_grant_of a = g \<and> at_Scope a = s))
     \<and> (\<exists>rs. refresh_tokens w' = refresh_tokens w @ rs \<and> (\<forall>r \<in> set rs. grant_of r = g \<and> rt_Scope r = s))"

interpretation gr: state_preorder "grows g s" for g s
proof
  show "grows g s w w" for w
    by (simp add: grows_def)
  show "grows g s u v \<Longrightarrow> grows g s v w \<Longrightarrow> grows g s u w" for u v w
    by (fastforce simp: grows_def)
qed

lemma grows_basic:
  "steps (grows g s) (uuid_New e)" "steps (grows g s) (randomToken e n)" "steps (grows g s) (emit ev)"
  "steps (grows g s) (User_GetByID e t u)"
  by (simp_all add: steps_def grows_def monad_simps User_GetByID_def users.First_run)

lemma grows_AccessToken_Create:
  "access_grant_of a = g \<Longrightarrow> at_Scope a = s \<Longrightarrow> steps (grows g s) (AccessToken_Create e a)"
  by (simp add: steps_def grows_def AccessToken_Create_def access_tokens.Insert_run access_grant_of_def)

lemma grows_RefreshToken_Create:
  "grant_of r = g \<Longrightarrow> rt_Scope r = s \<Longrightarrow> steps (grows g s) (RefreshToken_Create e r)"
  by (simp add: steps_def grows_def RefreshToken_Create_def refresh_tokens.Insert_run grant_of_def)

lemma grows_issueTokens: "steps (grows (t, f, c_ID c, u) s) (issueTokens e t c u s f b b' auth)"
  unfolding issueTokens_def issueAccessToken_def generateJWT_def issueRefreshToken_def issueIDToken_def
    State_Monad.bind_left_identity
  by (intro gr.steps_intros grows_basic grows_AccessToken_Create grows_RefreshToken_Create;
      simp add: access_grant_of_def grant_of_def)

lemma grows_narrows:
  assumes "grows (grant_of r) s w w'" "r \<in> set (refresh_tokens w)" "ScopeIsSubset s (rt_Scope r)"
  shows "narrows w w'"
  using assms by (fastforce simp: grows_def narrows_def)

lemma narrows_fewer:
  assumes "set (refresh_tokens w') \<subseteq> set (refresh_tokens w)" "set (access_tokens w') \<subseteq> set (access_tokens w)"
  shows "narrows w w'"
  using assms by (auto simp: narrows_def)

lemma narrows_revokeTokenFamily: "steps narrows (revokeTokenFamily e t f)"
  by (auto simp: steps_def revokeTokenFamily_run intro!: narrows_fewer)

lemma narrows_basic:
  "steps narrows (emit ev)" "steps narrows (RefreshToken_GetByToken e t h)" "steps narrows (Client_GetByID e t c)"
  "steps narrows (RefreshToken_Delete e t h)"
  by (auto simp: steps_def monad_simps GetRefresh_run Client_GetByID_def clients.First_run RefreshToken_Delete_def
      refresh_tokens.Delete_run intro!: narrows_fewer)

lemma mark_revoked_keeps:
  assumes "r \<in> set rs"
  shows "\<exists>r' \<in> set (mark_revoked e t h rs). grant_of r' = grant_of r \<and> rt_Scope r' = rt_Scope r"
  using assms by (intro bexI [of _ "if live_refresh t h r then r\<lparr>rt_RevokedAt := Some (now e)\<rparr> else r"])
    (auto simp: mark_revoked_def grant_of_def)

lemma narrows_Revoke: "steps narrows (RefreshToken_Revoke e t h)"
  by (fastforce simp: steps_def Revoke_run narrows_def mark_revoked_def grant_of_def)

lemma narrows_confirm: "steps narrows (confirmRotation e t r resp)"
  unfolding confirmRotation_def
  by (intro nw.steps_intros narrows_basic narrows_revokeTokenFamily)

lemma narrows_reused: "steps narrows (refreshTokenReused e t r)"
  unfolding refreshTokenReused_def by (intro nw.steps_intros narrows_basic narrows_revokeTokenFamily)

text \<open>From the claim on: the claimed token is still stored, so what is issued goes back to it.\<close>

lemma narrows_issue_confirm:
  assumes "r' \<in> set (refresh_tokens w)" "grant_of r' = grant_of r" "rt_Scope r' = rt_Scope r" "refreshScope req r = Inr s"
    "c_ID c = rt_ClientID r" "rt_TenantID r = t"
  shows "narrows w (snd (run_state (orReturn
     (issueTokens e t c (rt_UserID r) s (rt_FamilyID r) True True auth) id (confirmRotation e t r)) w))"
proof -
  obtain x w1 where i: "run_state (issueTokens e t c (rt_UserID r) s (rt_FamilyID r) True True auth) w = (x, w1)"
    by fastforce
  have "grows (grant_of r) s w w1"
    using gr.steps_run [OF grows_issueTokens i] assms(5,6) by (simp add: grant_of_def)
  moreover have "ScopeIsSubset s (rt_Scope r)"
    using assms(4) by (auto simp: refreshScope_def split: if_splits)
  ultimately have 1: "narrows w w1"
    using assms(1-3) grows_narrows [of r' s w w1] by simp
  have 2: "narrows w1 (snd (run_state (confirmRotation e t r y) w1))" for y
    using narrows_confirm [of e t r y] by (simp add: steps_def)
  show ?thesis
    using 1 narrows_trans [OF 1 2] by (simp add: run_orReturn i split: sum.split)
qed

lemma narrows_then_fail:
  assumes "steps narrows m"
  shows "narrows w (snd (run_state (State_Monad.bind m (\<lambda>_. failWith er)) w))"
proof -
  have "steps narrows (State_Monad.bind m (\<lambda>_. failWith er))"
    by (intro nw.steps_intros assms)
  then show ?thesis
    unfolding steps_def by blast
qed

lemma narrows_RefreshTokens: "narrows w (snd (run_state (RefreshTokens e t tok cid req) w))"
proof (cases "run_state (RefreshToken_GetByToken e t (hashToken tok)) w")
  case (Pair x w1)
  have n1: "narrows w w1"
    by (rule nw.steps_run [OF narrows_basic(2) Pair])
  have "narrows w1 (snd (run_state (case x of Inl er \<Rightarrow> failWith ErrInvalidGrant | Inr r \<Rightarrow>
      orReturn (State_Monad.return (refreshScope req r)) id (\<lambda>s.
       orReturn (Client_GetByID e t (rt_ClientID r)) (\<lambda>_. ErrInvalidGrant) (\<lambda>client.
       orReturn (RefreshToken_Revoke e t (rt_Token r)) (Wrapped ''failed to rotate refresh token'') (\<lambda>claimed.
       if \<not> claimed then State_Monad.bind (refreshTokenReused e t r) (\<lambda>_. failWith ErrInvalidGrant)
       else orReturn (issueTokens e t client (rt_UserID r) s (rt_FamilyID r) True True (refreshContext r)) id
           (confirmRotation e t r))))) w1))" (is "narrows w1 (snd (run_state ?rest w1))")
  proof (cases x)
    case (Inl er)
    then show ?thesis
      by (simp add: run_failWith nw.R_refl)
  next
    case (Inr r)
    then have r: "r \<in> set (refresh_tokens w1)" "rt_TenantID r = t"
      using Pair by (auto simp: GetRefresh_Inr dest: find_SomeD)
    show ?thesis
    proof (cases "refreshScope req r")
      case (Inl er)
      then show ?thesis
        by (simp add: \<open>x = Inr r\<close> run_orReturn run_return nw.R_refl)
    next
      case s: (Inr s)
      obtain y w2 where c: "run_state (Client_GetByID e t (rt_ClientID r)) w1 = (y, w2)"
        by fastforce
      then have w2: "refresh_tokens w2 = refresh_tokens w1" "narrows w1 w2"
        using nw.steps_run [OF narrows_basic(3) c] by (auto simp: Client_GetByID_def clients.First_run)
      obtain z w3 where v: "run_state (RefreshToken_Revoke e t (rt_Token r)) w2 = (z, w3)"
        by fastforce
      have n3: "narrows w1 w3"
        using narrows_trans [OF w2(2) nw.steps_run [OF narrows_Revoke v]] .
      have reused: "narrows w3 (snd (run_state (State_Monad.bind (refreshTokenReused e t r) (\<lambda>_. failWith ErrInvalidGrant)) w3))"
        by (rule narrows_then_fail [OF narrows_reused])
      have issue: "narrows w3 (snd (run_state (orReturn (issueTokens e t client (rt_UserID r) s (rt_FamilyID r) True True
          (refreshContext r)) id (confirmRotation e t r)) w3))" if "y = Inr client" "z = Inr True" for client
      proof -
        have "refresh_tokens w3 = mark_revoked e t (rt_Token r) (refresh_tokens w1)"
          using v that w2 by (auto simp: Revoke_run split: if_splits)
        then obtain r' where "r' \<in> set (refresh_tokens w3)" "grant_of r' = grant_of r" "rt_Scope r' = rt_Scope r"
          using mark_revoked_keeps [OF r(1)] by metis
        moreover have "c_ID client = rt_ClientID r"
          using Client_GetByID_Inr c that by metis
        ultimately show ?thesis
          using narrows_issue_confirm s r(2) by blast
      qed
      show ?thesis
        using w2(2) n3 narrows_trans [OF n3 reused] narrows_trans [OF n3 issue] s
        by (auto simp: \<open>x = Inr r\<close> run_orReturn run_return c v split: sum.split)
    qed
  qed
  moreover have "narrows w1 (snd (run_state (State_Monad.bind (refreshTokenReused e t r) (\<lambda>_. failWith ErrInvalidGrant)) w1))"
    "narrows w1 (snd (run_state (State_Monad.bind (RefreshToken_Delete e t h) (\<lambda>_. failWith ErrInvalidGrant)) w1))" for r h
    by (rule narrows_then_fail, intro narrows_reused narrows_basic)+
  ultimately show ?thesis
    using n1 narrows_trans [OF n1] by (cases x) (auto simp: RefreshTokens_def run_orReturn Pair run_failWith)
qed

text \<open>C7: no sequence of refresh requests, by whatever clients and whatever fails on the way, widens what
  was granted: every token stored at the end goes back to a refresh token stored at the start for the
  same tenant, family, client and user, whose scope includes its own (or is an access token stored then).\<close>

theorem refreshes_never_widen:
  "narrows w (fold (\<lambda>(e, t, tok, cid, req) v. snd (run_state (RefreshTokens e t tok cid req) v)) reqs w)"
proof (induction reqs arbitrary: w)
  case (Cons q reqs)
  obtain e t tok cid req where q: "q = (e, t, tok, cid, req)"
    by (cases q)
  show ?case
    using narrows_trans [OF narrows_RefreshTokens Cons.IH] by (simp add: q)
qed (simp add: nw.R_refl)

section \<open>Instances\<close>

lemma sample_refresh_run:
  "\<exists>resp w1. run_state (RefreshTokens sample_env 1 ''abc'' ''xxxxx'' []) sample_world = (Inr resp, w1)"
  by (simp add: service_defs sql_defs monad_simps sample_defs RefreshToken_IsRevoked_def)

theorem refresh_rotates_witness:
  "\<exists>resp w1. run_state (RefreshTokens sample_env 1 ''abc'' ''xxxxx'' []) sample_world = (Inr resp, w1)
     \<and> tr_Scope resp = ''read''"
proof -
  obtain resp w1 where r: "run_state (RefreshTokens sample_env 1 ''abc'' ''xxxxx'' []) sample_world = (Inr resp, w1)"
    using sample_refresh_run by blast
  have "tr_Scope resp = ''read''"
    using refresh_rotates [OF r] by (auto simp: sample_world_def sample_refresh_def empty_world_def)
  with r show ?thesis
    by blast
qed

end
