(* ===== verification/RefreshReplay.thy ===== *)
theory RefreshReplay
  imports RefreshProperties
begin

text \<open>Replay detection: a refresh token that was rotated out is never accepted again, and presenting it empties its family, whatever
  other refreshes came in between.\<close>

section \<open>Replay after any other refreshes\<close>

text \<open>The first token stored under a hash is rotated out.\<close>

definition spent :: "uuid \<Rightarrow> string \<Rightarrow> uuid \<Rightarrow> world \<Rightarrow> bool" where
  "spent t h f w \<longleftrightarrow> (\<exists>r. find (\<lambda>r. rt_TenantID r = t \<and> rt_Token r = h) (refresh_tokens w) = Some r \<and> rt_RevokedAt r \<noteq> None \<and> rt_FamilyID r = f)"

text \<open>It stays so, until its whole family is gone.\<close>

definition closing :: "uuid \<Rightarrow> string \<Rightarrow> uuid \<Rightarrow> world \<Rightarrow> world \<Rightarrow> bool" where
  "closing t h f w w' \<longleftrightarrow> (spent t h f w \<longrightarrow> spent t h f w' \<or> family_dead t f w')"

lemma find_filter_keep: "(\<And>x. x \<in> set xs \<Longrightarrow> P x \<Longrightarrow> Q x) \<Longrightarrow> find P (filter Q xs) = find P xs"
  by (induction xs) auto

lemma spent_map:
  assumes "spent t h f w" "refresh_tokens w' = map g (refresh_tokens w)"
    and "\<And>r. rt_TenantID (g r) = rt_TenantID r \<and> rt_Token (g r) = rt_Token r \<and> rt_FamilyID (g r) = rt_FamilyID r"
    and "\<And>r. rt_RevokedAt r \<noteq> None \<Longrightarrow> rt_RevokedAt (g r) \<noteq> None"
  shows "spent t h f w'"
proof -
  have "find (\<lambda>r. rt_TenantID r = t \<and> rt_Token r = h) (map g rs) = map_option g (find (\<lambda>r. rt_TenantID r = t \<and> rt_Token r = h) rs)" for rs
    using assms(3) by (induction rs) auto
  then show ?thesis
    using assms unfolding spent_def by auto
qed

lemma spent_append: "spent t h f w \<Longrightarrow> refresh_tokens w' = refresh_tokens w @ rs \<Longrightarrow> spent t h f w'"
  by (auto simp: spent_def find_append)

lemma closing_bind:
  assumes "steps (preserving (spent t h f)) m" "\<And>a. steps (closing t h f) (k a)"
  shows "steps (closing t h f) (State_Monad.bind m k)"
  using assms by (auto simp: steps_def preserving_def closing_def run_bind split: prod.split) (metis snd_conv)+

lemma closing_keep: "steps (preserving (spent t h f)) m \<Longrightarrow> steps (closing t h f) m"
  by (auto simp: steps_def preserving_def closing_def)

lemma closing_orReturn:
  assumes "steps (preserving (spent t h f)) m" "\<And>a. steps (closing t h f) (k a)"
  shows "steps (closing t h f) (orReturn m g k)"
  unfolding orReturn_def
  by (rule closing_bind) (auto simp: assms closing_keep inv.steps_failWith split: sum.split)

lemma closing_then_fail: "steps (closing t h f) m \<Longrightarrow> steps (closing t h f) (State_Monad.bind m (\<lambda>_. failWith er))"
  by (auto simp: steps_def run_bind run_failWith split: prod.split) (metis snd_conv)

lemma keeps_spent:
  "steps (preserving (spent t h f)) (RefreshToken_GetByToken e t' h')" "steps (preserving (spent t h f)) (Client_GetByID e t' c)"
  "steps (preserving (spent t h f)) (emit ev)" "steps (preserving (spent t h f)) (RefreshToken_Revoke e t' h')"
  "steps (preserving (spent t h f)) (issueTokens e t' client u s f' b b' auth)"
proof -
  show "steps (preserving (spent t h f)) (RefreshToken_GetByToken e t' h')" "steps (preserving (spent t h f)) (Client_GetByID e t' c)"
    "steps (preserving (spent t h f)) (emit ev)" for c
    by (auto simp: steps_def preserving_def monad_simps GetRefresh_run Client_GetByID_def clients.First_run spent_def)
  show "steps (preserving (spent t h f)) (RefreshToken_Revoke e t' h')"
    unfolding steps_def preserving_def
  proof (intro allI impI)
    fix w
    assume s: "spent t h f w"
    then have "spent t h f (w\<lparr>stmts := n, refresh_tokens := mark_revoked e t' h' (refresh_tokens w)\<rparr>)" for n
      by (rule spent_map [where g = "\<lambda>r. if live_refresh t' h' r then r\<lparr>rt_RevokedAt := Some (now e)\<rparr> else r"])
        (auto simp: mark_revoked_def)
    moreover have "spent t h f (w\<lparr>stmts := n\<rparr>)" for n
      using s by (simp add: spent_def)
    ultimately show "spent t h f (snd (run_state (RefreshToken_Revoke e t' h') w))"
      by (simp add: Revoke_run)
  qed
  show "steps (preserving (spent t h f)) (issueTokens e t' client u s f' b b' auth)"
    unfolding steps_def preserving_def
  proof (intro allI impI)
    fix w
    assume "spent t h f w"
    moreover obtain rs where "refresh_tokens (snd (run_state (issueTokens e t' client u s f' b b' auth) w)) = refresh_tokens w @ rs"
      using grows_issueTokens [of t' f' client u s e b b' auth] unfolding steps_def grows_def by blast
    ultimately show "spent t h f (snd (run_state (issueTokens e t' client u s f' b b' auth) w))"
      by (rule spent_append)
  qed
qed

lemma closing_revoke:
  assumes "\<forall>n. \<not> fails e n"
  shows "steps (closing t h f) (revokeTokenFamily e t' f')" "steps (closing t h f) (refreshTokenReused e t' r)"
proof -
  show 1: "steps (closing t h f) (revokeTokenFamily e t' f')" for f'
    unfolding steps_def closing_def
  proof (intro allI impI)
    fix w
    assume s: "spent t h f w"
    show "spent t h f (snd (run_state (revokeTokenFamily e t' f') w)) \<or> family_dead t f (snd (run_state (revokeTokenFamily e t' f') w))"
    proof (cases "t' = t \<and> f' = f")
      case True
      then show ?thesis
        using assms revokeTokenFamily_dead by blast
    next
      case False
      then have "find (\<lambda>r. rt_TenantID r = t \<and> rt_Token r = h) (filter (\<lambda>r. \<not> (rt_TenantID r = t' \<and> rt_FamilyID r = f')) rs) = Some r"
        if "find (\<lambda>r. rt_TenantID r = t \<and> rt_Token r = h) rs = Some r" "rt_FamilyID r = f" for r rs
        using that by (induction rs) (auto split: if_splits)
      then show ?thesis
        using s assms by (auto simp: revokeTokenFamily_run spent_def)
    qed
  qed
  show "steps (closing t h f) (refreshTokenReused e t' r)"
    using 1 [of "rt_FamilyID r"]
    by (simp add: steps_def closing_def refreshTokenReused_run Let_def spent_def family_dead_def)
qed

lemma closing_confirm: "\<forall>n. \<not> fails e n \<Longrightarrow> steps (closing t h f) (confirmRotation e t' r resp)"
  unfolding confirmRotation_def
  by (intro closing_bind keeps_spent)
    (auto simp: closing_keep inv.steps_failWith inv.steps_succeed intro!: closing_then_fail closing_revoke split: sum.split)

lemma closing_RefreshTokens:
  assumes "\<forall>n. \<not> fails e n"
  shows "closing t h f w (snd (run_state (RefreshTokens e t' tok cid req) w))"
proof (cases "find (\<lambda>r. rt_TenantID r = t' \<and> rt_Token r = hashToken tok) (refresh_tokens w)")
  case None
  then show ?thesis
    using assms by (simp add: RefreshTokens_def run_orReturn GetRefresh_run closing_def spent_def)
next
  case (Some r)
  let ?w = "w\<lparr>stmts := Suc (stmts w)\<rparr>"
  have keep: "closing t h f w (snd (run_state m ?w))" if "steps (closing t h f) m" for m :: "TokenResponse op"
  proof -
    have "closing t h f ?w (snd (run_state m ?w))"
      using that by (simp add: steps_def)
    then show ?thesis
      by (simp add: closing_def spent_def)
  qed
  have deleted: "closing t h f w (snd (run_state (State_Monad.bind (RefreshToken_Delete e t' (hashToken tok)) (\<lambda>_. failWith ErrInvalidGrant)) ?w))"
    if "rt_RevokedAt r = None"
    unfolding closing_def
  proof
    assume "spent t h f w"
    then obtain x where x: "find (\<lambda>r. rt_TenantID r = t \<and> rt_Token r = h) (refresh_tokens w) = Some x" "rt_RevokedAt x \<noteq> None" "rt_FamilyID x = f"
      unfolding spent_def by blast
    then have "(t, h) \<noteq> (t', hashToken tok)"
      using Some that by auto
    then have "find (\<lambda>r. rt_TenantID r = t \<and> rt_Token r = h)
        (filter (\<lambda>r. \<not> (rt_TenantID r = t' \<and> rt_Token r = hashToken tok)) (refresh_tokens w)) = Some x"
      using x(1) by (subst find_filter_keep) auto
    then show "spent t h f (snd (run_state (State_Monad.bind (RefreshToken_Delete e t' (hashToken tok)) (\<lambda>_. failWith ErrInvalidGrant)) ?w))
        \<or> family_dead t f (snd (run_state (State_Monad.bind (RefreshToken_Delete e t' (hashToken tok)) (\<lambda>_. failWith ErrInvalidGrant)) ?w))"
      using x assms by (simp add: run_bind run_failWith RefreshToken_Delete_def refresh_tokens.Delete_run spent_def)
  qed
  have rest: "steps (closing t h f) (orReturn (State_Monad.return (refreshScope req r)) id (\<lambda>scope.
       orReturn (Client_GetByID e t' (rt_ClientID r)) (\<lambda>_. ErrInvalidGrant) (\<lambda>client.
       orReturn (RefreshToken_Revoke e t' (rt_Token r)) (Wrapped ''failed to rotate refresh token'') (\<lambda>claimed.
       if \<not> claimed then State_Monad.bind (refreshTokenReused e t' r) (\<lambda>_. failWith ErrInvalidGrant)
       else orReturn (issueTokens e t' client (rt_UserID r) scope (rt_FamilyID r) True True (refreshContext r)) id (confirmRotation e t' r)))))"
    by (intro closing_orReturn keeps_spent inv.steps_return)
      (auto intro!: closing_then_fail closing_revoke closing_orReturn keeps_spent closing_confirm assms)
  show ?thesis
    using keep [OF closing_then_fail [OF closing_revoke(2) [OF assms]]] keep [OF rest] deleted keep [OF closing_keep [OF inv.steps_failWith]] assms Some
    by (auto simp: RefreshTokens_def run_orReturn [of "RefreshToken_GetByToken e t' (hashToken tok)"] GetRefresh_run RefreshToken_IsRevoked_def)
qed

text \<open>Without faults a sequence of refreshes leaves the token spent or its family empty.\<close>

abbreviation refreshes :: "(env \<times> uuid \<times> string \<times> string \<times> string) list \<Rightarrow> world \<Rightarrow> world" where
  "refreshes \<equiv> fold (\<lambda>(e, t, tok, cid, req) v. snd (run_state (RefreshTokens e t tok cid req) v))"

lemma family_dead_narrows: "family_dead t f w \<Longrightarrow> narrows w w' \<Longrightarrow> family_dead t f w'"
  unfolding family_dead_def narrows_def grant_of_def access_grant_of_def by (metis prod.inject)

lemma spent_refreshes:
  assumes "spent t h f w \<or> family_dead t f w" "\<forall>(e, _) \<in> set reqs. \<forall>n. \<not> fails e n"
  shows "spent t h f (refreshes reqs w) \<or> family_dead t f (refreshes reqs w)"
  using assms
proof (induction reqs arbitrary: w)
  case (Cons q reqs)
  obtain e t' tok cid req where q: "q = (e, t', tok, cid, req)"
    by (cases q)
  let ?v = "snd (run_state (RefreshTokens e t' tok cid req) w)"
  have "spent t h f ?v \<or> family_dead t f ?v"
    using Cons.prems closing_RefreshTokens [of e t h f w t' tok cid req] family_dead_narrows [OF _ narrows_RefreshTokens] q
    by (auto simp: closing_def)
  then show ?case
    using Cons q by simp
qed simp

text \<open>C6: a refresh token works once. Presenting it again after a successful rotation, whatever other refreshes come in between, is
  refused (a later token that happens to have the same hash apart). While the database answers, no access and no refresh token of its
  family is left then, whoever holds it and however often it was rotated since, and the reuse is reported unless the family was gone
  already; right after the rotation these are the tokens the rotation produced.\<close>

theorem refresh_single_use:
  assumes "r \<in> set (refresh_tokens w)" "rt_TenantID r = t" "rt_Token r = hashToken tok" "distinct (map rt_Token (refresh_tokens w))"
    and "run_state (RefreshTokens e t tok cid req) w = (Inr resp, w1)"
    and "\<forall>(e, _) \<in> set reqs. \<forall>n. \<not> fails e n"
    and "\<forall>r' \<in> set (refresh_tokens (refreshes reqs w1)). rt_Token r' = hashToken tok \<longrightarrow> rt_FamilyID r' = rt_FamilyID r"
    and "run_state (RefreshTokens e' t tok cid' req') (refreshes reqs w1) = (x, w2)"
  shows "x = Inl ErrInvalidGrant
     \<and> ((\<forall>n. \<not> fails e' n) \<longrightarrow> family_dead t (rt_FamilyID r) w2
          \<and> (family_dead t (rt_FamilyID r) (refreshes reqs w1)
             \<or> (\<exists>ev \<in> set (events w2). ev_Type ev = TokenEventReuseDetected \<and> ev_FamilyID ev = rt_FamilyID r))
          \<and> (reqs = [] \<longrightarrow> tokens_gone resp w2))"
proof -
  let ?h = "hashToken tok" and ?f = "rt_FamilyID r" and ?v = "refreshes reqs w1"
  obtain r0 c where r0: "r0 \<in> set (refresh_tokens w)" "live_refresh t ?h r0"
    and i: "issued e t c (rt_UserID r0) (tr_Scope resp) (rt_FamilyID r0) True (refreshContext r0) resp
         (w\<lparr>refresh_tokens := mark_revoked e t ?h (refresh_tokens w)\<rparr>) w1"
    using Refresh_Inr [OF assms(5)] by blast
  have "r0 = r"
    using distinct_map_eq [OF assms(4) r0(1) assms(1)] r0(2) assms(3) by (simp add: live_refresh_def)
  note r = r0 [unfolded this] and i = i [unfolded this]
  let ?r = "r\<lparr>rt_RevokedAt := Some (now e)\<rparr>" and ?rs = "mark_revoked e t ?h (refresh_tokens w)"
  obtain n where n: "refresh_tokens w1 = ?rs @ [n]"
    using i by (auto simp: issued_def)
  have m: "?r \<in> set ?rs"
    using r by (force simp: mark_revoked_def)
  have "map rt_Token ?rs = map rt_Token (refresh_tokens w)"
    by (simp add: mark_revoked_def)
  then have d: "distinct (map rt_Token ?rs)"
    using assms(4) by simp
  have "rt_Token y = ?h \<Longrightarrow> y = ?r" if "y \<in> set ?rs" for y
    using distinct_map_eq [OF d that m] assms(3) by simp
  then have "find (\<lambda>r. rt_TenantID r = t \<and> rt_Token r = ?h) ?rs = Some ?r"
    using assms(2,3) by (intro find_unique [OF m]) simp_all
  then have found: "find (\<lambda>r. rt_TenantID r = t \<and> rt_Token r = ?h) (refresh_tokens w1) = Some ?r"
    using n by (simp add: find_append)
  then have "spent t ?h ?f w1"
    by (simp add: spent_def)
  then consider "spent t ?h ?f ?v" | "family_dead t ?f ?v" "find (\<lambda>r. rt_TenantID r = t \<and> rt_Token r = ?h) (refresh_tokens ?v) = None"
    using spent_refreshes [of t ?h ?f w1 reqs] assms(6,7) unfolding family_dead_def find_None_iff by blast
  then show ?thesis
  proof cases
    case 1
    then obtain s where s: "find (\<lambda>r. rt_TenantID r = t \<and> rt_Token r = ?h) (refresh_tokens ?v) = Some s" "rt_RevokedAt s \<noteq> None" "rt_FamilyID s = ?f"
      unfolding spent_def by blast
    note rep = Refresh_revoked [OF s(1,2) assms(8), unfolded s(3)]
    have "tokens_gone resp w2" if "reqs = []" "family_dead t ?f w2"
      using issued_tokens_gone [OF i _ _ that(2)] rep(2,3) that(1) by simp
    then show ?thesis
      using rep(1,4) by blast
  next
    case 2
    then have "x = Inl ErrInvalidGrant" "family_dead t ?f w2"
      using assms(8) family_dead_narrows [OF 2(1) narrows_RefreshTokens [of ?v e' t tok cid' req']]
      by (auto simp: RefreshTokens_def run_orReturn GetRefresh_run split: if_splits)
    moreover have "reqs \<noteq> []"
      using 2(2) found by auto
    ultimately show ?thesis
      using 2(1) by blast
  qed
qed

theorem refresh_single_use_witness:
  "\<exists>resp w1 w2. run_state (RefreshTokens sample_env 1 ''abc'' ''xxxxx'' []) sample_world = (Inr resp, w1)
     \<and> run_state (RefreshTokens sample_env 1 ''abc'' ''xxxxx'' []) (refreshes [(sample_env, 1, ''no such token'', ''xxxxx'', [])] w1)
         = (Inl ErrInvalidGrant, w2) \<and> family_dead 1 40 w2"
proof -
  obtain resp w1 where r: "run_state (RefreshTokens sample_env 1 ''abc'' ''xxxxx'' []) sample_world = (Inr resp, w1)"
    using sample_refresh_run by blast
  let ?v = "refreshes [(sample_env, 1, ''no such token'', ''xxxxx'', [])] w1"
  obtain x w2 where s: "run_state (RefreshTokens sample_env 1 ''abc'' ''xxxxx'' []) ?v = (x, w2)"
    by fastforce
  have row: "refresh_tokens sample_world = [sample_refresh]" "rt_FamilyID sample_refresh = 40" "rt_TenantID sample_refresh = 1"
    "rt_Token sample_refresh = hashToken ''abc''" "\<forall>n. \<not> fails sample_env n"
    by (simp_all add: sample_world_def sample_refresh_def sample_env_def empty_world_def)
  have "narrows sample_world ?v"
    using narrows_trans [OF narrows_RefreshTokens [of sample_world sample_env 1 "''abc''" "''xxxxx''" "[]", unfolded r snd_conv]
        narrows_RefreshTokens [of w1 sample_env 1 "''no such token''" "''xxxxx''" "[]"]] by simp
  then have "\<forall>r' \<in> set (refresh_tokens ?v). rt_FamilyID r' = 40"
    using row by (auto simp: narrows_def grant_of_def)
  with refresh_single_use [OF _ _ _ _ r _ _ s, of sample_refresh] row have "x = Inl ErrInvalidGrant" "family_dead 1 40 w2"
    by auto
  with r s show ?thesis
    by blast
qed

end
