(* ===== verification/RefreshConcurrency.thy ===== *)
theory RefreshConcurrency
  imports RefreshProperties
begin

text \<open>Concurrent refresh requests. Each request runs \<^const>\<open>RefreshTokens\<close> one database statement at a time
  (\<open>rstep\<close>), the statements of different requests interleave in any order (\<open>csystem\<close>), and a run without
  interference is \<^const>\<open>RefreshTokens\<close> itself. The theorems are the two promises of the comments in
  \<^verbatim>\<open>auth_service_impl.go\<close>: of the requests presenting one token at most one gets new tokens, and a
  family whose revocation a replay triggered ends up empty whatever the interleaving.\<close>

section \<open>A request as a sequence of statements\<close>

record request =
  q_token :: string
  q_client :: string
  q_scope :: string

text \<open>The statement a request executes next, with its local variables. The flag of the two deletions tells
  a detected reuse (reported) from a lost rotation. \<open>PFailed\<close> is an error between the claim and the
  confirmation.\<close>

datatype pc =
    PStart
  | PDelete
  | PClient RefreshToken string
  | PClaim RefreshToken string Client
  | PAccess RefreshToken string Client
  | PRefresh RefreshToken string Client string
  | PUser RefreshToken string Client string string
  | PConfirm RefreshToken TokenResponse
  | PDelRefresh RefreshToken bool
  | PDelAccess RefreshToken bool
  | PDone "err + TokenResponse"
  | PFailed err

definition afterRead :: "env \<Rightarrow> request \<Rightarrow> RefreshToken \<Rightarrow> pc" where
  "afterRead e q token =
     (if RefreshToken_IsRevoked token then PDelRefresh token True
      else if RefreshToken_IsExpired (now e) token then PDelete
      else if uuidString e (rt_ClientID token) \<noteq> q_client q then PDone (Inl ErrInvalidGrant)
      else case refreshScope (q_scope q) token of
        Inl er \<Rightarrow> PDone (Inl er)
      | Inr s \<Rightarrow> PClient token s)"

fun rstep :: "env \<Rightarrow> uuid \<Rightarrow> request \<Rightarrow> pc \<Rightarrow> (world, pc) state" where
  "rstep e t q PStart = do {
     r \<leftarrow> RefreshToken_GetByToken e t (hashToken (q_token q));
     State_Monad.return (case r of Inl _ \<Rightarrow> PDone (Inl ErrInvalidGrant) | Inr token \<Rightarrow> afterRead e q token)
   }"
| "rstep e t q PDelete = do {
     _ \<leftarrow> RefreshToken_Delete e t (hashToken (q_token q));
     State_Monad.return (PDone (Inl ErrInvalidGrant))
   }"
| "rstep e t q (PClient token s) = do {
     r \<leftarrow> Client_GetByID e t (rt_ClientID token);
     State_Monad.return (case r of Inl _ \<Rightarrow> PDone (Inl ErrInvalidGrant) | Inr client \<Rightarrow> PClaim token s client)
   }"
| "rstep e t q (PClaim token s client) = do {
     r \<leftarrow> RefreshToken_Revoke e t (rt_Token token);
     State_Monad.return (case r of
         Inl er \<Rightarrow> PDone (Inl (Wrapped ''failed to rotate refresh token'' er))
       | Inr claimed \<Rightarrow> if claimed then PAccess token s client else PDelRefresh token True)
   }"
| "rstep e t q (PAccess token s client) = do {
     r \<leftarrow> issueAccessToken e t client (rt_UserID token) s (State_Monad.return (rt_FamilyID token));
     State_Monad.return (case r of Inl er \<Rightarrow> PFailed er | Inr (accessToken, _) \<Rightarrow> PRefresh token s client accessToken)
   }"
| "rstep e t q (PRefresh token s client accessToken) = do {
     r \<leftarrow> issueRefreshToken e t (c_ID client) (rt_UserID token) s (rt_FamilyID token) (refreshContext token);
     State_Monad.return (case r of Inl er \<Rightarrow> PFailed er | Inr refreshToken \<Rightarrow> PUser token s client accessToken refreshToken)
   }"
| "rstep e t q (PUser token s client accessToken refreshToken) = do {
     r \<leftarrow> (if ScopeContains s ScopeOpenID
           then issueIDToken e t client (rt_UserID token) s (refreshContext token) accessToken
           else succeed []);
     case r of
       Inl er \<Rightarrow> State_Monad.return (PFailed er)
     | Inr idToken \<Rightarrow> do {
         _ \<leftarrow> emit (issuedEvent t client (rt_UserID token) (refreshContext token) s (rt_FamilyID token));
         State_Monad.return (PConfirm token
           \<lparr>tr_AccessToken = accessToken, tr_TokenType = ''Bearer'',
            tr_ExpiresIn = duration_seconds (cf_AccessTokenDuration (config e)),
            tr_RefreshToken = refreshToken, tr_IDToken = idToken, tr_Scope = s\<rparr>)
       }
   }"
| "rstep e t q (PConfirm token resp) = do {
     r \<leftarrow> RefreshToken_GetByToken e t (rt_Token token);
     State_Monad.return (case r of
         Inr _ \<Rightarrow> PDone (Inr resp)
       | Inl er \<Rightarrow>
           if \<not> errors_Is er ErrRefreshTokenNotFound
           then PFailed (Wrapped ''failed to confirm refresh token rotation'' er)
           else PDelRefresh token False)
   }"
| "rstep e t q (PDelRefresh token reuse) = do {
     _ \<leftarrow> RefreshToken_DeleteByFamilyID e t (rt_FamilyID token);
     State_Monad.return (PDelAccess token reuse)
   }"
| "rstep e t q (PDelAccess token reuse) = do {
     _ \<leftarrow> AccessToken_DeleteByFamilyID e t (rt_FamilyID token);
     _ \<leftarrow> (if reuse
           then emit (TokenEvent_zero\<lparr>ev_Type := TokenEventReuseDetected, ev_TenantID := t,
             ev_ClientID := rt_ClientID token, ev_UserID := userRef (rt_UserID token),
             ev_FamilyID := rt_FamilyID token, ev_Credential := CredentialRefreshToken\<rparr>)
           else State_Monad.return ());
     State_Monad.return (PDone (Inl ErrInvalidGrant))
   }"
| "rstep e t q (PDone x) = State_Monad.return (PDone x)"
| "rstep e t q (PFailed er) = State_Monad.return (PFailed er)"

fun pc_result :: "pc \<Rightarrow> (err + TokenResponse) option" where
  "pc_result (PDone x) = Some x"
| "pc_result (PFailed er) = Some (Inl er)"
| "pc_result _ = None"

text \<open>A request on its own: \<open>n\<close> statements in a row.\<close>

fun rsteps :: "env \<Rightarrow> uuid \<Rightarrow> request \<Rightarrow> nat \<Rightarrow> pc \<Rightarrow> (world, pc) state" where
  "rsteps e t q 0 p = State_Monad.return p"
| "rsteps e t q (Suc n) p = State_Monad.bind (rstep e t q p) (rsteps e t q n)"

fun pc_rank :: "pc \<Rightarrow> nat" where
  "pc_rank PStart = 9"
| "pc_rank (PClient _ _) = 8"
| "pc_rank (PClaim _ _ _) = 7"
| "pc_rank (PAccess _ _ _) = 6"
| "pc_rank (PRefresh _ _ _ _) = 5"
| "pc_rank (PUser _ _ _ _ _) = 4"
| "pc_rank (PConfirm _ _) = 3"
| "pc_rank (PDelRefresh _ _) = 2"
| "pc_rank (PDelAccess _ _) = 1"
| "pc_rank PDelete = 1"
| "pc_rank (PDone _) = 0"
| "pc_rank (PFailed _) = 0"

lemma rsteps_final [simp]: "run_state (rsteps e t q n (PDone x)) w = (PDone x, w)" "run_state (rsteps e t q n (PFailed er)) w = (PFailed er, w)"
  by (induction n) (simp_all add: run_bind run_return)

lemma run_state_surj: "run_state m w = (fst (run_state m w), snd (run_state m w))"
  by simp

section \<open>Without interference\<close>

lemma rsteps_Suc: "run_state (rsteps e t q (Suc n) p) w = (case run_state (rstep e t q p) w of (p', w') \<Rightarrow> run_state (rsteps e t q n p') w')"
  by (simp add: run_bind)

text \<open>From \<open>p\<close>, enough statements in a row do what the program \<open>m\<close> does.\<close>

definition implements :: "env \<Rightarrow> uuid \<Rightarrow> request \<Rightarrow> pc \<Rightarrow> TokenResponse op \<Rightarrow> bool" where
  "implements e t q p m \<longleftrightarrow> (\<forall>w n. pc_rank p \<le> n \<longrightarrow>
     (\<exists>p'. run_state (rsteps e t q n p) w = (p', snd (run_state m w)) \<and> pc_result p' = Some (fst (run_state m w))))"

lemma implements_step:
  assumes "\<And>w. \<exists>p1 w1 m'. run_state (rstep e t q p) w = (p1, w1) \<and> pc_rank p1 < pc_rank p
     \<and> implements e t q p1 m' \<and> run_state m w = run_state m' w1"
  shows "implements e t q p m"
  unfolding implements_def
proof (intro allI impI)
  fix w n
  assume n: "pc_rank p \<le> n"
  obtain p1 w1 m' where 1: "run_state (rstep e t q p) w = (p1, w1)" "pc_rank p1 < pc_rank p" "implements e t q p1 m'"
    "run_state m w = run_state m' w1"
    using assms by blast
  then obtain k where k: "n = Suc k" "pc_rank p1 \<le> k"
    using n by (cases n) auto
  then show "\<exists>p'. run_state (rsteps e t q n p) w = (p', snd (run_state m w)) \<and> pc_result p' = Some (fst (run_state m w))"
    using 1 by (simp add: implements_def rsteps_Suc del: rsteps.simps)
qed

lemma implements_done: "implements e t q (PDone x) (State_Monad.return x)"
  by (simp add: implements_def run_return)

lemma implements_failed: "implements e t q (PFailed er) (failWith er)"
  by (simp add: implements_def failWith_def run_return)

lemma implements_done_Inl: "implements e t q (PDone (Inl er)) (failWith er)"
  by (simp add: failWith_def implements_done)

lemma implements_done_Inr: "implements e t q (PDone (Inr x)) (succeed x)"
  by (simp add: succeed_def implements_done)

lemmas implements_final = implements_done_Inl implements_done_Inr implements_failed

text \<open>One statement \<open>m\<close>, then a continuation that the next program counter implements.\<close>

lemma implements_bind:
  assumes "rstep e t q p = State_Monad.bind m (\<lambda>r. State_Monad.return (k r))"
    and "\<And>r. pc_rank (k r) < pc_rank p" "\<And>r. implements e t q (k r) (c r)"
  shows "implements e t q p (State_Monad.bind m c)"
proof (rule implements_step)
  fix w
  obtain r w1 where "run_state m w = (r, w1)"
    by fastforce
  then show "\<exists>p1 w1 m'. run_state (rstep e t q p) w = (p1, w1) \<and> pc_rank p1 < pc_rank p \<and> implements e t q p1 m'
      \<and> run_state (State_Monad.bind m c) w = run_state m' w1"
    using assms by (auto simp: run_bind run_return)
qed

lemma implements_DelAccess:
  "implements e t q (PDelAccess r b) (State_Monad.bind (AccessToken_DeleteByFamilyID e t (rt_FamilyID r)) (\<lambda>_.
     State_Monad.bind (if b then emit (TokenEvent_zero\<lparr>ev_Type := TokenEventReuseDetected, ev_TenantID := t,
             ev_ClientID := rt_ClientID r, ev_UserID := userRef (rt_UserID r),
             ev_FamilyID := rt_FamilyID r, ev_Credential := CredentialRefreshToken\<rparr>) else State_Monad.return ())
       (\<lambda>_. failWith ErrInvalidGrant)))"
  by (rule implements_step)
    (auto simp: run_bind run_return split: prod.split
      intro!: exI [of _ "failWith ErrInvalidGrant"] implements_done_Inl)

lemma implements_DelRefresh:
  "implements e t q (PDelRefresh r True) (State_Monad.bind (refreshTokenReused e t r) (\<lambda>_. failWith ErrInvalidGrant))"
  "implements e t q (PDelRefresh r False) (State_Monad.bind (revokeTokenFamily e t (rt_FamilyID r)) (\<lambda>_. failWith ErrInvalidGrant))"
proof -
  have *: "implements e t q (PDelRefresh r b) (State_Monad.bind (RefreshToken_DeleteByFamilyID e t (rt_FamilyID r)) (\<lambda>_.
     State_Monad.bind (AccessToken_DeleteByFamilyID e t (rt_FamilyID r)) (\<lambda>_.
     State_Monad.bind (if b then emit (TokenEvent_zero\<lparr>ev_Type := TokenEventReuseDetected, ev_TenantID := t,
             ev_ClientID := rt_ClientID r, ev_UserID := userRef (rt_UserID r),
             ev_FamilyID := rt_FamilyID r, ev_Credential := CredentialRefreshToken\<rparr>) else State_Monad.return ())
       (\<lambda>_. failWith ErrInvalidGrant))))" for b
    by (rule implements_bind, rule rstep.simps, simp, rule implements_DelAccess)
  show "implements e t q (PDelRefresh r True) (State_Monad.bind (refreshTokenReused e t r) (\<lambda>_. failWith ErrInvalidGrant))"
    using * [of True] by (simp add: refreshTokenReused_def revokeTokenFamily_def)
  show "implements e t q (PDelRefresh r False) (State_Monad.bind (revokeTokenFamily e t (rt_FamilyID r)) (\<lambda>_. failWith ErrInvalidGrant))"
    using * [of False] by (simp add: revokeTokenFamily_def)
qed

lemma implements_Confirm: "implements e t q (PConfirm r resp) (confirmRotation e t r resp)"
  unfolding confirmRotation_def
  by (rule implements_bind)
    (auto split: sum.split intro: implements_final implements_DelRefresh)

lemma orReturn_assoc: "orReturn (orReturn m h k) g k' = orReturn m (g \<circ> h) (\<lambda>a. orReturn (k a) g k')"
  by (rule state_ext) (simp add: run_orReturn split: prod.split sum.split)

lemma orReturn_id_bind: "orReturn m id k = State_Monad.bind m (\<lambda>r. case r of Inl er \<Rightarrow> failWith er | Inr a \<Rightarrow> k a)"
  unfolding orReturn_def id_apply ..

lemma orReturn_emit: "orReturn (State_Monad.bind (emit ev) (\<lambda>_. succeed x)) g k = State_Monad.bind (emit ev) (\<lambda>_. k x)"
  by (rule state_ext) (simp add: run_orReturn run_bind run_emit run_succeed)

abbreviation finalResponse :: "env \<Rightarrow> string \<Rightarrow> string \<Rightarrow> string \<Rightarrow> string \<Rightarrow> TokenResponse" where
  "finalResponse e a rt idt s \<equiv> \<lparr>tr_AccessToken = a, tr_TokenType = ''Bearer'',
     tr_ExpiresIn = duration_seconds (cf_AccessTokenDuration (config e)), tr_RefreshToken = rt, tr_IDToken = idt, tr_Scope = s\<rparr>"

lemma implements_User:
  "implements e t q (PUser r s c a rt) (orReturn
     (if ScopeContains s ScopeOpenID then issueIDToken e t c (rt_UserID r) s (refreshContext r) a else succeed []) id (\<lambda>idt.
     State_Monad.bind (emit (issuedEvent t c (rt_UserID r) (refreshContext r) s (rt_FamilyID r)))
       (\<lambda>_. confirmRotation e t r (finalResponse e a rt idt s))))" (is "implements e t q _ (orReturn ?m id ?k)")
proof (rule implements_step)
  fix w
  obtain x w1 where x: "run_state ?m w = (x, w1)"
    by fastforce
  show "\<exists>p1 w1 m'. run_state (rstep e t q (PUser r s c a rt)) w = (p1, w1) \<and> pc_rank p1 < pc_rank (PUser r s c a rt)
      \<and> implements e t q p1 m' \<and> run_state (orReturn ?m id ?k) w = run_state m' w1"
  proof (cases x)
    case (Inl er)
    then show ?thesis
      using x by (intro exI [of _ "PFailed er"] exI [of _ w1] exI [of _ "failWith er"])
        (simp add: run_bind run_return run_orReturn implements_final run_failWith)
  next
    case (Inr idt)
    let ?w = "w1\<lparr>events := events w1 @ [issuedEvent t c (rt_UserID r) (refreshContext r) s (rt_FamilyID r)]\<rparr>"
    show ?thesis
      using x Inr
      by (intro exI [of _ "PConfirm r (finalResponse e a rt idt s)"] exI [of _ ?w]
          exI [of _ "confirmRotation e t r (finalResponse e a rt idt s)"])
        (simp add: run_bind run_return run_orReturn run_emit implements_Confirm)
  qed
qed

lemma implements_Issue:
  "implements e t q (PAccess r s c) (orReturn
     (issueTokens e t c (rt_UserID r) s (rt_FamilyID r) True True (refreshContext r)) id (confirmRotation e t r))"
proof -
  let ?user = "\<lambda>a rt. orReturn
     (if ScopeContains s ScopeOpenID then issueIDToken e t c (rt_UserID r) s (refreshContext r) a else succeed []) id (\<lambda>idt.
     State_Monad.bind (emit (issuedEvent t c (rt_UserID r) (refreshContext r) s (rt_FamilyID r)))
       (\<lambda>_. confirmRotation e t r (finalResponse e a rt idt s)))"
  let ?refresh = "\<lambda>a. orReturn (issueRefreshToken e t (c_ID c) (rt_UserID r) s (rt_FamilyID r) (refreshContext r)) id (?user a)"
  have refresh: "implements e t q (PRefresh r s c a) (?refresh a)" for a
    unfolding orReturn_id_bind [of "issueRefreshToken _ _ _ _ _ _ _"]
  proof (rule implements_bind, rule rstep.simps)
    fix x
    show "implements e t q (case x of Inl er \<Rightarrow> PFailed er | Inr rt \<Rightarrow> PUser r s c a rt)
        (case x of Inl er \<Rightarrow> failWith er | Inr rt \<Rightarrow> ?user a rt)"
      by (cases x; simp only: sum.case; rule implements_final implements_User)
  qed (simp split: sum.split)
  have access: "implements e t q (PAccess r s c)
     (orReturn (issueAccessToken e t c (rt_UserID r) s (State_Monad.return (rt_FamilyID r))) id (\<lambda>(a, _). ?refresh a))"
    unfolding orReturn_id_bind [of "issueAccessToken _ _ _ _ _ _"]
  proof (rule implements_bind, rule rstep.simps)
    fix x :: "err + string \<times> uuid"
    show "implements e t q (case x of Inl er \<Rightarrow> PFailed er | Inr (a, _) \<Rightarrow> PRefresh r s c a)
        (case x of Inl er \<Rightarrow> failWith er | Inr y \<Rightarrow> (case y of (a, _) \<Rightarrow> ?refresh a))"
    proof (cases x)
      case (Inr y)
      obtain a f where y: "y = (a, f)"
        by fastforce
      show ?thesis
        unfolding Inr y sum.case prod.case by (rule refresh)
    qed (simp only: sum.case, rule implements_final)
  qed (simp split: sum.split)
  have "orReturn (issueTokens e t c (rt_UserID r) s (rt_FamilyID r) True True (refreshContext r)) id (confirmRotation e t r)
      = orReturn (issueAccessToken e t c (rt_UserID r) s (State_Monad.return (rt_FamilyID r))) id (\<lambda>(a, _). ?refresh a)"
    by (simp add: issueTokens_def orReturn_assoc orReturn_emit case_prod_unfold)
  with access show ?thesis
    by simp
qed

lemma implements_Claim:
  "implements e t q (PClaim r s c)
     (orReturn (RefreshToken_Revoke e t (rt_Token r)) (Wrapped ''failed to rotate refresh token'') (\<lambda>claimed.
       if \<not> claimed then State_Monad.bind (refreshTokenReused e t r) (\<lambda>_. failWith ErrInvalidGrant)
       else orReturn (issueTokens e t c (rt_UserID r) s (rt_FamilyID r) True True (refreshContext r)) id (confirmRotation e t r)))"
  unfolding orReturn_def [of "RefreshToken_Revoke _ _ _"]
proof (rule implements_bind, rule rstep.simps)
  fix x :: "err + bool"
  show "implements e t q (case x of Inl er \<Rightarrow> PDone (Inl (Wrapped ''failed to rotate refresh token'' er))
         | Inr claimed \<Rightarrow> if claimed then PAccess r s c else PDelRefresh r True)
      (case x of Inl er \<Rightarrow> failWith (Wrapped ''failed to rotate refresh token'' er)
       | Inr claimed \<Rightarrow> if \<not> claimed then State_Monad.bind (refreshTokenReused e t r) (\<lambda>_. failWith ErrInvalidGrant)
           else orReturn (issueTokens e t c (rt_UserID r) s (rt_FamilyID r) True True (refreshContext r)) id (confirmRotation e t r))"
  proof (cases x)
    case (Inr b)
    then show ?thesis
      by (cases b) (simp_all only: sum.case if_True if_False not_True_eq_False not_False_eq_True implements_Issue implements_DelRefresh)
  qed (simp only: sum.case, rule implements_final)
qed (simp split: sum.split)

lemma implements_Client:
  "implements e t q (PClient r s)
     (orReturn (Client_GetByID e t (rt_ClientID r)) (\<lambda>_. ErrInvalidGrant) (\<lambda>c.
     (orReturn (RefreshToken_Revoke e t (rt_Token r)) (Wrapped ''failed to rotate refresh token'') (\<lambda>claimed.
       if \<not> claimed then State_Monad.bind (refreshTokenReused e t r) (\<lambda>_. failWith ErrInvalidGrant)
       else orReturn (issueTokens e t c (rt_UserID r) s (rt_FamilyID r) True True (refreshContext r)) id (confirmRotation e t r)))))"
  unfolding orReturn_def [of "Client_GetByID _ _ _"]
proof (rule implements_bind, rule rstep.simps, goal_cases)
  case (2 x)
  then show ?case
    by (cases x; simp only: sum.case; rule implements_final implements_Claim)
qed (simp split: sum.split)

lemma implements_Delete:
  "implements e t q PDelete (State_Monad.bind (RefreshToken_Delete e t (hashToken (q_token q))) (\<lambda>_. failWith ErrInvalidGrant))"
  by (rule implements_bind, rule rstep.simps) (simp_all add: implements_final)

lemma orReturn_pure: "orReturn (State_Monad.return x) id k = (case x of Inl er \<Rightarrow> failWith er | Inr a \<Rightarrow> k a)"
  by (rule state_ext) (simp add: run_orReturn run_return run_failWith split: sum.split)

text \<open>C8: the statement machine is the service operation. Started on its own, a request reaches its end after
  at most nine statements, with the result and the database that \<^const>\<open>RefreshTokens\<close> gives, on every path
  and whichever statements fail.\<close>

theorem refresh_statements_refine:
  "\<exists>p. run_state (rsteps e t \<lparr>q_token = tok, q_client = cid, q_scope = req\<rparr> 9 PStart) w
         = (p, snd (run_state (RefreshTokens e t tok cid req) w))
     \<and> pc_result p = Some (fst (run_state (RefreshTokens e t tok cid req) w))"
proof -
  let ?q = "\<lparr>q_token = tok, q_client = cid, q_scope = req\<rparr>"
  have "implements e t ?q PStart (RefreshTokens e t tok cid req)"
    unfolding RefreshTokens_def orReturn_def [of "RefreshToken_GetByToken _ _ _"] orReturn_pure
  proof (rule implements_bind, unfold rstep.simps request.simps, rule refl, goal_cases)
    case (1 x)
    show ?case
      by (auto simp: afterRead_def split: sum.split)
  next
    case (2 x)
    show ?case
    proof (cases x)
      case (Inr r)
      show ?thesis
        unfolding Inr sum.case afterRead_def
        using implements_Delete [of e t ?q]
        by (cases "refreshScope req r") (simp_all add: implements_final implements_DelRefresh implements_Client)
    qed (simp only: sum.case, rule implements_final)
  qed
  then show ?thesis
    by (simp add: implements_def)
qed

end
