(* ===== verification/RefreshRaces.thy ===== *)
theory RefreshRaces
  imports RefreshConcurrency
begin

text \<open>Requests refreshing tokens of one tenant at the same time. The system interleaves the statements of
  \<^const>\<open>rstep\<close> in any order. Two ghost variables record which token each request claimed and which
  families a revocation has struck.\<close>

section \<open>The interleaving\<close>

record csys =
  cs_world :: world
  cs_pc :: "nat \<Rightarrow> pc"
  cs_killed :: "uuid set"
  cs_won :: "nat \<Rightarrow> string option"

fun kills :: "pc \<Rightarrow> uuid set" where
  "kills (PDelRefresh r _) = {rt_FamilyID r}"
| "kills _ = {}"

fun wins :: "pc \<Rightarrow> pc \<Rightarrow> string option" where
  "wins (PClaim r _ _) (PAccess _ _ _) = Some (rt_Token r)"
| "wins _ _ = None"

inductive cstep :: "env \<Rightarrow> uuid \<Rightarrow> (nat \<Rightarrow> request) \<Rightarrow> csys \<Rightarrow> csys \<Rightarrow> bool" for e t qs where
  "0 < pc_rank (cs_pc s i) \<Longrightarrow> run_state (rstep e t (qs i) (cs_pc s i)) (cs_world s) = (p, w) \<Longrightarrow>
   cstep e t qs s
     \<lparr>cs_world = w, cs_pc = (cs_pc s)(i := p), cs_killed = cs_killed s \<union> kills (cs_pc s i),
      cs_won = (case wins (cs_pc s i) p of None \<Rightarrow> cs_won s | Some h \<Rightarrow> (cs_won s)(i \<mapsto> h))\<rparr>"

definition cinit :: "world \<Rightarrow> csys" where
  "cinit w = \<lparr>cs_world = w, cs_pc = (\<lambda>_. PStart), cs_killed = {}, cs_won = Map.empty\<rparr>"

inductive creach :: "env \<Rightarrow> uuid \<Rightarrow> (nat \<Rightarrow> request) \<Rightarrow> world \<Rightarrow> csys \<Rightarrow> bool" for e t qs w0 where
  init: "creach e t qs w0 (cinit w0)"
| step: "creach e t qs w0 s \<Longrightarrow> cstep e t qs s s' \<Longrightarrow> creach e t qs w0 s'"

text \<open>The hash under which the refresh token of the \<open>n\<close>-th draw is stored. Random tokens do not repeat, and
  none has the hash of a token already stored.\<close>

definition new_hash :: "env \<Rightarrow> nat \<Rightarrow> string option" where
  "new_hash e n = map_option (\<lambda>bs. hashToken (b64url bs)) (randBytes e n 64)"

definition old :: "env \<Rightarrow> nat \<Rightarrow> string \<Rightarrow> bool" where
  "old e d h \<longleftrightarrow> (\<forall>n \<ge> d. new_hash e n \<noteq> Some h)"

definition fresh_tokens :: "env \<Rightarrow> world \<Rightarrow> bool" where
  "fresh_tokens e w \<longleftrightarrow> (\<forall>r \<in> set (refresh_tokens w). old e (draws w) (rt_Token r))
     \<and> (\<forall>m n h. draws w \<le> m \<longrightarrow> m < n \<longrightarrow> new_hash e m = Some h \<longrightarrow> new_hash e n \<noteq> Some h)"

section \<open>What a statement does to the token tables\<close>

definition present :: "uuid \<Rightarrow> string \<Rightarrow> RefreshToken list \<Rightarrow> bool" where
  "present t h R \<longleftrightarrow> (\<exists>x \<in> set R. rt_TenantID x = t \<and> rt_Token x = h)"

lemma present_find: "present t h R \<longleftrightarrow> find (\<lambda>x. rt_TenantID x = t \<and> rt_Token x = h) R \<noteq> None"
  by (auto simp: present_def find_None_iff)

lemma present_iff: "present t h R \<longleftrightarrow> (t, h) \<in> set (map (\<lambda>x. (rt_TenantID x, rt_Token x)) R)"
  by (auto simp: present_def)

text \<open>The moves on program counter, refresh tokens, access tokens and number of draws.\<close>

inductive rmove ::
  "env \<Rightarrow> uuid \<Rightarrow> request \<Rightarrow> pc \<Rightarrow> RefreshToken list \<Rightarrow> AccessToken list \<Rightarrow> nat
   \<Rightarrow> pc \<Rightarrow> RefreshToken list \<Rightarrow> AccessToken list \<Rightarrow> nat \<Rightarrow> bool" for e t q where
  unknown: "rmove e t q PStart R A d (PDone (Inl ErrInvalidGrant)) R A d"
| read: "r \<in> set R \<Longrightarrow> rt_TenantID r = t \<Longrightarrow> rt_Token r = hashToken (q_token q) \<Longrightarrow>
    rmove e t q PStart R A d (afterRead e q r) R A d"
| delete: "rmove e t q PDelete R A d (PDone (Inl ErrInvalidGrant))
    (filter (\<lambda>x. rt_TenantID x = t \<longrightarrow> rt_Token x \<noteq> hashToken (q_token q)) R) A d"
| noclient: "rmove e t q (PClient r s) R A d (PDone (Inl ErrInvalidGrant)) R A d"
| client: "rmove e t q (PClient r s) R A d (PClaim r s c) R A d"
| claim: "length (filter (live_refresh t (rt_Token r)) R) = Suc 0 \<Longrightarrow>
    rmove e t q (PClaim r s c) R A d (PAccess r s c) (mark_revoked e t (rt_Token r) R) A d"
| lose: "rmove e t q (PClaim r s c) R A d (PDelRefresh r True) (mark_revoked e t (rt_Token r) R) A d"
| access: "at_TenantID a = t \<Longrightarrow> at_FamilyID a = rt_FamilyID r \<Longrightarrow> d \<le> d' \<Longrightarrow>
    rmove e t q (PAccess r s c) R A d (PRefresh r s c tok) R (A @ [a]) d'"
| refresh: "rt_TenantID x = t \<Longrightarrow> rt_FamilyID x = rt_FamilyID r \<Longrightarrow> new_hash e d = Some (rt_Token x) \<Longrightarrow>
    \<forall>y \<in> set R. rt_Token y \<noteq> rt_Token x \<Longrightarrow> d < d' \<Longrightarrow>
    rmove e t q (PRefresh r s c tok) R A d (PUser r s c tok rtok) (R @ [x]) A d'"
| user: "rmove e t q (PUser r s c tok rtok) R A d (PConfirm r resp) R A d"
| failed: "p \<in> {PAccess r s c, PRefresh r s c tok, PUser r s c tok rtok} \<Longrightarrow> d \<le> d' \<Longrightarrow>
    rmove e t q p R A d (PFailed er) R A d'"
| confirm: "present t (rt_Token r) R \<Longrightarrow> rmove e t q (PConfirm r resp) R A d (PDone (Inr resp)) R A d"
| gone: "\<not> present t (rt_Token r) R \<Longrightarrow> rmove e t q (PConfirm r resp) R A d (PDelRefresh r False) R A d"
| delrefresh: "rmove e t q (PDelRefresh r b) R A d (PDelAccess r b)
    (filter (\<lambda>x. rt_TenantID x = t \<longrightarrow> rt_FamilyID x \<noteq> rt_FamilyID r) R) A d"
| delaccess: "rmove e t q (PDelAccess r b) R A d (PDone (Inl ErrInvalidGrant)) R
    (filter (\<lambda>x. at_TenantID x = t \<longrightarrow> at_FamilyID x \<noteq> rt_FamilyID r) A) d"

lemma issueAccessToken_move:
  assumes "run_state (issueAccessToken e t c u s (State_Monad.return f)) w = (x, w')"
  shows "refresh_tokens w' = refresh_tokens w \<and> draws w \<le> draws w' \<and>
     (case x of Inl er \<Rightarrow> access_tokens w' = access_tokens w
      | Inr _ \<Rightarrow> \<exists>a. access_tokens w' = access_tokens w @ [a] \<and> at_TenantID a = t \<and> at_FamilyID a = f)"
  using assms
  by (auto simp: issueAccessToken_def generateJWT_def AccessToken_Create_def monad_simps access_tokens.Insert_run
      split: sum.splits if_splits)

lemma issueRefreshToken_move:
  assumes "run_state (issueRefreshToken e t c u s f auth) w = (x, w')"
  shows "access_tokens w' = access_tokens w \<and> draws w \<le> draws w' \<and>
     (case x of Inl er \<Rightarrow> refresh_tokens w' = refresh_tokens w
      | Inr _ \<Rightarrow> draws w < draws w' \<and> (\<exists>r. refresh_tokens w' = refresh_tokens w @ [r] \<and> rt_TenantID r = t \<and> rt_FamilyID r = f
          \<and> new_hash e (draws w) = Some (rt_Token r) \<and> (\<forall>y \<in> set (refresh_tokens w). rt_Token y \<noteq> rt_Token r)))"
  using assms
  by (auto simp: issueRefreshToken_def RefreshToken_Create_def monad_simps refresh_tokens.Insert_run new_hash_def
      refresh_tokens_clash_def split: sum.splits if_splits option.splits)

lemma issueIDToken_move:
  assumes "run_state (issueIDToken e t c u s auth tok) w = (x, w')"
  shows "access_tokens w' = access_tokens w \<and> refresh_tokens w' = refresh_tokens w \<and> draws w' = draws w"
  using assms
  by (auto simp: issueIDToken_def User_GetByID_def monad_simps users.First_run split: sum.splits if_splits option.splits)

lemma rstep_rmove:
  assumes "run_state (rstep e t q p) w = (p', w')" "0 < pc_rank p" "\<forall>n. \<not> fails e n"
  shows "rmove e t q p (refresh_tokens w) (access_tokens w) (draws w)
           p' (refresh_tokens w') (access_tokens w') (draws w')"
proof (cases p)
  case PStart
  then show ?thesis
    using assms by (auto simp: run_bind run_return GetRefresh_run dest!: find_SomeD split: option.splits intro: rmove.intros)
next
  case PDelete
  then show ?thesis
    using assms by (auto simp: run_bind run_return RefreshToken_Delete_def refresh_tokens.Delete_run intro: rmove.delete)
next
  case (PClient r s)
  then show ?thesis
    using assms by (auto simp: run_bind run_return Client_GetByID_def clients.First_run split: option.splits intro: rmove.intros)
next
  case (PClaim r s c)
  then show ?thesis
    using assms by (auto simp: run_bind run_return Revoke_run split: if_splits intro: rmove.intros)
next
  case (PAccess r s c)
  obtain x w1 where "run_state (issueAccessToken e t c (rt_UserID r) s (State_Monad.return (rt_FamilyID r))) w = (x, w1)"
    by fastforce
  then show ?thesis
    using assms PAccess issueAccessToken_move
    by (fastforce simp: run_bind run_return split: sum.splits intro: rmove.intros)
next
  case (PRefresh r s c tok)
  obtain x w1 where "run_state (issueRefreshToken e t (c_ID c) (rt_UserID r) s (rt_FamilyID r) (refreshContext r)) w = (x, w1)"
    by fastforce
  then show ?thesis
    using assms PRefresh issueRefreshToken_move
    by (fastforce simp: run_bind run_return split: sum.splits intro: rmove.intros)
next
  case (PUser r s c tok rtok)
  obtain x w1 where x: "run_state (if ScopeContains s ScopeOpenID then issueIDToken e t c (rt_UserID r) s (refreshContext r) tok
      else succeed []) w = (x, w1)"
    by fastforce
  then have "access_tokens w1 = access_tokens w \<and> refresh_tokens w1 = refresh_tokens w \<and> draws w1 = draws w"
    using issueIDToken_move by (auto simp: run_succeed split: if_splits)
  then show ?thesis
    using assms PUser x by (auto simp: run_bind run_return run_emit split: sum.splits intro: rmove.intros)
next
  case (PConfirm r resp)
  then show ?thesis
    using assms
    by (cases "find (\<lambda>x. rt_TenantID x = t \<and> rt_Token x = rt_Token r) (refresh_tokens w)")
      (auto simp: run_bind run_return GetRefresh_run present_find intro!: rmove.confirm rmove.gone)
next
  case (PDelRefresh r b)
  then show ?thesis
    using assms by (auto simp: run_bind run_return RefreshToken_DeleteByFamilyID_def refresh_tokens.Delete_run intro: rmove.delrefresh)
next
  case (PDelAccess r b)
  then show ?thesis
    using assms by (cases b) (auto simp: run_bind run_return run_emit AccessToken_DeleteByFamilyID_def access_tokens.Delete_run
      intro: rmove.delaccess)
qed (use assms in auto)

section \<open>What the moves keep\<close>

fun held :: "pc \<Rightarrow> RefreshToken option" where
  "held (PClient r _) = Some r"
| "held (PClaim r _ _) = Some r"
| "held (PAccess r _ _) = Some r"
| "held (PRefresh r _ _ _) = Some r"
| "held (PUser r _ _ _ _) = Some r"
| "held (PConfirm r _) = Some r"
| "held (PDelRefresh r _) = Some r"
| "held (PDelAccess r _) = Some r"
| "held _ = None"

text \<open>A request between its claim and its confirmation.\<close>

fun inflight :: "pc \<Rightarrow> RefreshToken option" where
  "inflight (PAccess r _ _) = Some r"
| "inflight (PRefresh r _ _ _) = Some r"
| "inflight (PUser r _ _ _ _) = Some r"
| "inflight (PConfirm r _) = Some r"
| "inflight _ = None"

lemma held_afterRead [simp]: "held (afterRead e q r) \<in> {None, Some r}" "inflight (afterRead e q r) = None"
  "afterRead e q r \<noteq> PFailed er" "afterRead e q r \<noteq> PDone (Inr resp)"
  by (auto simp: afterRead_def split: sum.split)

lemma held_afterRead_Some: "held (afterRead e q r) = Some x \<Longrightarrow> x = r"
  using held_afterRead(1) [of e q r] by auto

lemma inflight_held: "inflight p = Some r \<Longrightarrow> held p = Some r"
  by (cases p) auto

definition same_grant :: "RefreshToken \<Rightarrow> RefreshToken \<Rightarrow> bool" where
  "same_grant x y \<longleftrightarrow> rt_Token x = rt_Token y \<and> rt_TenantID x = rt_TenantID y \<and> rt_FamilyID x = rt_FamilyID y"

lemma same_grant_refl [simp]: "same_grant x x"
  by (simp add: same_grant_def)

lemma mark_revoked_tokens [simp]: "map rt_Token (mark_revoked e t h R) = map rt_Token R"
  by (simp add: mark_revoked_def comp_def)

lemma mark_revoked_rows: "x \<in> set (mark_revoked e t h R) \<Longrightarrow> \<exists>y \<in> set R. same_grant x y \<and> (rt_RevokedAt x = None \<longrightarrow> x = y \<and> \<not> live_refresh t h y)"
  by (auto simp: mark_revoked_def same_grant_def)

lemma present_mark_revoked [simp]: "present t h (mark_revoked e t' h' R) = present t h R"
proof -
  have "map (\<lambda>x. (rt_TenantID x, rt_Token x)) (mark_revoked e t' h' R) = map (\<lambda>x. (rt_TenantID x, rt_Token x)) R"
    by (simp add: mark_revoked_def)
  then show ?thesis
    by (simp only: present_iff)
qed

lemma rmove_rows_cases:
  assumes "rmove e t q p R A d p' R' A' d'" "x \<in> set R'"
  shows "x \<in> set R \<or> (\<exists>h. x \<in> set (mark_revoked e t h R))
    \<or> (rt_TenantID x = t \<and> new_hash e d = Some (rt_Token x) \<and> d < d' \<and> (\<forall>y \<in> set R. rt_Token y \<noteq> rt_Token x)
       \<and> (\<exists>r. inflight p = Some r \<and> rt_FamilyID x = rt_FamilyID r))"
  using assms by cases auto

lemma rmove_rows:
  assumes "rmove e t q p R A d p' R' A' d'" "x \<in> set R'"
  shows "(\<exists>y \<in> set R. same_grant x y)
    \<or> (rt_TenantID x = t \<and> new_hash e d = Some (rt_Token x) \<and> d < d' \<and> (\<forall>y \<in> set R. rt_Token y \<noteq> rt_Token x)
       \<and> (\<exists>r. inflight p = Some r \<and> rt_FamilyID x = rt_FamilyID r))"
  using rmove_rows_cases [OF assms] same_grant_refl mark_revoked_rows by blast

lemma rmove_not_live:
  assumes "rmove e t q p R A d p' R' A' d'" "\<forall>x \<in> set R. \<not> live_refresh t h x" "old e d h" "x \<in> set R'"
  shows "\<not> live_refresh t h x"
  using rmove_rows_cases [OF assms(1,4)] assms(2,3) mark_revoked_rows [of x e t _ R]
  by (auto simp: live_refresh_def old_def)

lemma rmove_wins:
  assumes "rmove e t q p R A d p' R' A' d'" "wins p p' = Some h"
  shows "\<exists>r s c. p = PClaim r s c \<and> p' = PAccess r s c \<and> h = rt_Token r \<and> R' = mark_revoked e t h R
    \<and> (\<exists>x \<in> set R. live_refresh t h x)"
  using assms by cases (auto simp: length_Suc_conv filter_eq_Cons_iff)

lemma rmove_done:
  assumes "rmove e t q p R A d (PDone (Inr resp)) R' A' d'"
  shows "\<exists>r. p = PConfirm r resp"
  using assms by cases (auto dest!: sym [of "PDone _"])

lemma rmove_draws: "rmove e t q p R A d p' R' A' d' \<Longrightarrow> d \<le> d'"
  by (erule rmove.cases) auto

lemma rmove_held:
  assumes "rmove e t q p R A d p' R' A' d'" "held p' = Some r"
  shows "held p = Some r \<or> (r \<in> set R \<and> R' = R \<and> rt_TenantID r = t \<and> rt_Token r = hashToken (q_token q))"
  using assms by cases (auto dest: held_afterRead_Some)

lemma rmove_inflight:
  assumes "rmove e t q p R A d p' R' A' d'" "inflight p' = Some r"
  shows "inflight p = Some r \<or> (\<exists>s c. p = PClaim r s c \<and> p' = PAccess r s c)"
  using assms by cases auto

lemma rmove_distinct:
  assumes "rmove e t q p R A d p' R' A' d'" "distinct (map rt_Token R)"
  shows "distinct (map rt_Token R')"
  using assms by cases (auto simp: distinct_map_filter)

text \<open>Every step of the system is a move of one request.\<close>

lemma cstep_rmove:
  assumes "cstep e t qs s s'" "\<forall>n. \<not> fails e n"
  obtains i p where
    "rmove e t (qs i) (cs_pc s i) (refresh_tokens (cs_world s)) (access_tokens (cs_world s)) (draws (cs_world s))
       p (refresh_tokens (cs_world s')) (access_tokens (cs_world s')) (draws (cs_world s'))"
    "cs_pc s' = (cs_pc s)(i := p)" "cs_killed s' = cs_killed s \<union> kills (cs_pc s i)"
    "cs_won s' = (case wins (cs_pc s i) p of None \<Rightarrow> cs_won s | Some h \<Rightarrow> (cs_won s)(i \<mapsto> h))"
    "pc_rank p < pc_rank (cs_pc s i)"
  using assms
proof cases
  case (1 i p w)
  have "rmove e t (qs i) (cs_pc s i) (refresh_tokens (cs_world s)) (access_tokens (cs_world s)) (draws (cs_world s))
       p (refresh_tokens w) (access_tokens w) (draws w)"
    using rstep_rmove [OF 1(3) 1(2) assms(2)] .
  then show thesis
    using that [of i p] 1 by (auto elim!: rmove.cases simp: afterRead_def split: sum.split)
qed

section \<open>Invariants\<close>

text \<open>Tokens are never reused: the stored and the held ones differ from every token still to be drawn, and a
  held token determines its family.\<close>

definition tokens_inv :: "env \<Rightarrow> uuid \<Rightarrow> (nat \<Rightarrow> request) \<Rightarrow> csys \<Rightarrow> bool" where
  "tokens_inv e t qs s \<longleftrightarrow>
     (let R = refresh_tokens (cs_world s); d = draws (cs_world s) in
        distinct (map rt_Token R) \<and> fresh_tokens e (cs_world s)
      \<and> (\<forall>i r. held (cs_pc s i) = Some r \<longrightarrow>
           rt_TenantID r = t \<and> rt_Token r = hashToken (q_token (qs i)) \<and> old e d (rt_Token r)
         \<and> (\<forall>x \<in> set R. rt_Token x = rt_Token r \<longrightarrow> rt_FamilyID x = rt_FamilyID r)))"

lemma old_mono: "old e d h \<Longrightarrow> d \<le> d' \<Longrightarrow> old e d' h"
  by (simp add: old_def)

lemma tokens_inv_step:
  assumes "tokens_inv e t qs s" "cstep e t qs s s'" "\<forall>n. \<not> fails e n"
  shows "tokens_inv e t qs s'"
proof -
  obtain i p where m: "rmove e t (qs i) (cs_pc s i) (refresh_tokens (cs_world s)) (access_tokens (cs_world s)) (draws (cs_world s))
       p (refresh_tokens (cs_world s')) (access_tokens (cs_world s')) (draws (cs_world s'))" "cs_pc s' = (cs_pc s)(i := p)"
    using cstep_rmove [OF assms(2,3)] .
  let ?R = "refresh_tokens (cs_world s)" and ?R' = "refresh_tokens (cs_world s')"
    and ?d = "draws (cs_world s)" and ?d' = "draws (cs_world s')"
  have inv: "distinct (map rt_Token ?R)" "\<forall>x \<in> set ?R. old e ?d (rt_Token x)"
    "\<And>m n h. ?d \<le> m \<Longrightarrow> m < n \<Longrightarrow> new_hash e m = Some h \<Longrightarrow> new_hash e n \<noteq> Some h"
    using assms(1) by (auto simp: tokens_inv_def Let_def fresh_tokens_def)
  have heldD: "rt_TenantID r = t \<and> rt_Token r = hashToken (q_token (qs j)) \<and> old e ?d (rt_Token r)
      \<and> (\<forall>x \<in> set ?R. rt_Token x = rt_Token r \<longrightarrow> rt_FamilyID x = rt_FamilyID r)" if "held (cs_pc s' j) = Some r" for j r
  proof (cases "held (cs_pc s j) = Some r")
    case True
    then show ?thesis
      using assms(1) unfolding tokens_inv_def Let_def by blast
  next
    case False
    then have "r \<in> set ?R" "rt_TenantID r = t" "rt_Token r = hashToken (q_token (qs j))"
      using that rmove_held [OF m(1)] by (auto simp: m(2) split: if_splits)
    moreover from this have "x = r" if "x \<in> set ?R" "rt_Token x = rt_Token r" for x
      using that inv(1) \<open>r \<in> set ?R\<close> calculation inj_onD [of rt_Token "set ?R" x r]
      by (simp add: distinct_map)
    ultimately show ?thesis
      using inv(2) by blast
  qed
  have d: "?d \<le> ?d'"
    using rmove_draws [OF m(1)] .
  have "old e ?d' (rt_Token x)" if "x \<in> set ?R'" for x
    using rmove_rows [OF m(1) that] inv(2) old_mono [OF _ d] inv(3) [of ?d]
    by (auto simp: same_grant_def old_def)
  then have "fresh_tokens e (cs_world s')"
    unfolding fresh_tokens_def using inv(3) le_trans [OF d] by blast
  moreover have "rt_FamilyID x = rt_FamilyID r"
    if "held (cs_pc s' j) = Some r" "x \<in> set ?R'" "rt_Token x = rt_Token r" for j r x
    using rmove_rows [OF m(1) that(2)] heldD [OF that(1)] that(3) by (auto simp: same_grant_def old_def)
  ultimately show ?thesis
    using heldD rmove_distinct [OF m(1) inv(1)] old_mono [OF _ d]
    unfolding tokens_inv_def Let_def by blast
qed

text \<open>A token has one live row at most until it is claimed, and none afterwards.\<close>

definition won_inv :: "env \<Rightarrow> uuid \<Rightarrow> (nat \<Rightarrow> request) \<Rightarrow> csys \<Rightarrow> bool" where
  "won_inv e t qs s \<longleftrightarrow>
     (\<forall>i h. cs_won s i = Some h \<longrightarrow> old e (draws (cs_world s)) h
        \<and> (\<forall>x \<in> set (refresh_tokens (cs_world s)). \<not> live_refresh t h x))
   \<and> (\<forall>i j h. cs_won s i = Some h \<longrightarrow> cs_won s j = Some h \<longrightarrow> i = j)
   \<and> (\<forall>i r. inflight (cs_pc s i) = Some r \<longrightarrow> cs_won s i = Some (rt_Token r))
   \<and> (\<forall>i resp. cs_pc s i = PDone (Inr resp) \<longrightarrow> cs_won s i = Some (hashToken (q_token (qs i))))"

lemma won_inv_step:
  assumes "won_inv e t qs s" "tokens_inv e t qs s" "cstep e t qs s s'" "\<forall>n. \<not> fails e n"
  shows "won_inv e t qs s'"
proof -
  obtain i p where m: "rmove e t (qs i) (cs_pc s i) (refresh_tokens (cs_world s)) (access_tokens (cs_world s)) (draws (cs_world s))
       p (refresh_tokens (cs_world s')) (access_tokens (cs_world s')) (draws (cs_world s'))" "cs_pc s' = (cs_pc s)(i := p)"
    and won: "cs_won s' = (case wins (cs_pc s i) p of None \<Rightarrow> cs_won s | Some h \<Rightarrow> (cs_won s)(i \<mapsto> h))"
    using cstep_rmove [OF assms(3,4)] .
  let ?R = "refresh_tokens (cs_world s)" and ?R' = "refresh_tokens (cs_world s')"
    and ?d = "draws (cs_world s)" and ?d' = "draws (cs_world s')"
  have d: "?d \<le> ?d'"
    using rmove_draws [OF m(1)] .
  have inv: "\<And>j h. cs_won s j = Some h \<Longrightarrow> old e ?d h \<and> (\<forall>x \<in> set ?R. \<not> live_refresh t h x)"
    "\<And>j k h. cs_won s j = Some h \<Longrightarrow> cs_won s k = Some h \<Longrightarrow> j = k"
    "\<And>j r. inflight (cs_pc s j) = Some r \<Longrightarrow> cs_won s j = Some (rt_Token r)"
    "\<And>j resp. cs_pc s j = PDone (Inr resp) \<Longrightarrow> cs_won s j = Some (hashToken (q_token (qs j)))"
    using assms(1) unfolding won_inv_def by blast+
  have held: "rt_Token r = hashToken (q_token (qs j)) \<and> old e ?d (rt_Token r)" if "held (cs_pc s j) = Some r" for j r
    using assms(2) that unfolding tokens_inv_def Let_def by blast
  have keep: "old e ?d' h \<and> (\<forall>x \<in> set ?R'. \<not> live_refresh t h x)" if "cs_won s j = Some h" for j h
    using inv(1) [OF that] rmove_not_live [OF m(1)] old_mono [OF _ d] by blast
  show ?thesis
  proof (cases "wins (cs_pc s i) p")
    case None
    then have w: "cs_won s' = cs_won s"
      by (simp add: won)
    have fl: "inflight p = Some r \<Longrightarrow> inflight (cs_pc s i) = Some r" for r
      using rmove_inflight [OF m(1)] None by auto
    have dn: "p = PDone (Inr resp) \<Longrightarrow> cs_won s i = Some (hashToken (q_token (qs i)))" for resp
    proof -
      assume "p = PDone (Inr resp)"
      then obtain r where "cs_pc s i = PConfirm r resp"
        using rmove_done m(1) by blast
      then show ?thesis
        using inv(3) [of i r] held [of i r] by simp
    qed
    show ?thesis
      unfolding won_inv_def w using keep inv fl dn by (auto simp: m(2))
  next
    case (Some h)
    then obtain r sc c where r: "cs_pc s i = PClaim r sc c" "p = PAccess r sc c" "h = rt_Token r"
      "?R' = mark_revoked e t h ?R" "\<exists>x \<in> set ?R. live_refresh t h x"
      using rmove_wins [OF m(1)] by blast
    have w: "cs_won s' = (cs_won s)(i \<mapsto> h)"
      by (simp add: won Some)
    have "cs_won s j \<noteq> Some h" for j
      using inv(1) r(5) by blast
    moreover have "\<not> live_refresh t h x" if "x \<in> set ?R'" for x
      using that unfolding r(4) by (rule mark_revoked_none)
    moreover have "held (cs_pc s i) = Some r"
      by (simp add: r(1))
    then have "old e ?d' h"
      using old_mono [OF conjunct2 [OF held] d] unfolding r(3) by blast
    ultimately show ?thesis
      unfolding won_inv_def w m(2) using keep inv r(2,3)
      by (intro conjI allI impI) (auto split: if_splits)
  qed
qed

text \<open>A revoked family keeps rows only while somebody is still to remove them: a request that is about to
  delete the family, a request whose claimed token is gone and whose confirmation will fail, or one that
  failed half way.\<close>

definition family_refresh :: "uuid \<Rightarrow> uuid \<Rightarrow> world \<Rightarrow> bool" where
  "family_refresh t f w \<longleftrightarrow> (\<exists>x \<in> set (refresh_tokens w). rt_TenantID x = t \<and> rt_FamilyID x = f)"

definition family_access :: "uuid \<Rightarrow> uuid \<Rightarrow> world \<Rightarrow> bool" where
  "family_access t f w \<longleftrightarrow> (\<exists>x \<in> set (access_tokens w). at_TenantID x = t \<and> at_FamilyID x = f)"

definition revoker :: "uuid \<Rightarrow> uuid \<Rightarrow> RefreshToken list \<Rightarrow> pc \<Rightarrow> bool" where
  "revoker t f R p \<longleftrightarrow> (\<exists>r b. p = PDelRefresh r b \<and> rt_FamilyID r = f)
     \<or> (\<exists>r. inflight p = Some r \<and> rt_FamilyID r = f \<and> \<not> present t (rt_Token r) R)
     \<or> (\<exists>er. p = PFailed er)"

definition pending :: "uuid \<Rightarrow> uuid \<Rightarrow> csys \<Rightarrow> bool" where
  "pending t f s \<longleftrightarrow> (\<exists>i. revoker t f (refresh_tokens (cs_world s)) (cs_pc s i))"

definition killed_inv :: "uuid \<Rightarrow> csys \<Rightarrow> bool" where
  "killed_inv t s \<longleftrightarrow> (\<forall>f \<in> cs_killed s.
      (family_refresh t f (cs_world s) \<longrightarrow> pending t f s)
    \<and> (family_access t f (cs_world s) \<longrightarrow> pending t f s \<or> (\<exists>i r b. cs_pc s i = PDelAccess r b \<and> rt_FamilyID r = f)))"

lemma rmove_present:
  assumes "rmove e t q p R A d p' R' A' d'" "old e d h" "present t h R'"
  shows "present t h R"
  using rmove_rows [OF assms(1)] assms(2,3) by (fastforce simp: present_def same_grant_def old_def)

lemma rmove_revoker:
  assumes "rmove e t q p R A d p' R' A' d'" "revoker t f R p" "\<And>r. held p = Some r \<Longrightarrow> old e d (rt_Token r)"
  shows "revoker t f R' p' \<or> (\<exists>r b. p = PDelRefresh r b \<and> rt_FamilyID r = f)"
proof (cases "\<exists>r. inflight p = Some r \<and> rt_FamilyID r = f \<and> \<not> present t (rt_Token r) R")
  case True
  then obtain r where r: "inflight p = Some r" "rt_FamilyID r = f" "\<not> present t (rt_Token r) R"
    by blast
  then have "\<not> present t (rt_Token r) R'"
    using rmove_present [OF assms(1) assms(3)] inflight_held by blast
  with assms(1) r show ?thesis
    by cases (auto simp: revoker_def)
qed (use assms(1,2) in \<open>auto simp: revoker_def elim: rmove.cases\<close>)

lemma rmove_access:
  assumes "rmove e t q p R A d p' R' A' d'" "x \<in> set A'"
  shows "x \<in> set A \<or> (\<exists>r. inflight p = Some r \<and> at_FamilyID x = rt_FamilyID r)"
  using assms by cases auto

lemma killed_inv_step:
  assumes "killed_inv t s" "tokens_inv e t qs s" "cstep e t qs s s'" "\<forall>n. \<not> fails e n"
  shows "killed_inv t s'"
proof -
  obtain i p where m: "rmove e t (qs i) (cs_pc s i) (refresh_tokens (cs_world s)) (access_tokens (cs_world s)) (draws (cs_world s))
       p (refresh_tokens (cs_world s')) (access_tokens (cs_world s')) (draws (cs_world s'))" "cs_pc s' = (cs_pc s)(i := p)"
    and killed: "cs_killed s' = cs_killed s \<union> kills (cs_pc s i)"
    using cstep_rmove [OF assms(3,4)] .
  let ?R = "refresh_tokens (cs_world s)" and ?R' = "refresh_tokens (cs_world s')"
  have held: "rt_TenantID r = t" "old e (draws (cs_world s)) (rt_Token r)"
    "\<And>x. x \<in> set ?R \<Longrightarrow> rt_Token x = rt_Token r \<Longrightarrow> rt_FamilyID x = rt_FamilyID r" if "held (cs_pc s j) = Some r" for j r
    using assms(2) that unfolding tokens_inv_def Let_def by blast+
  have fly: "family_refresh t f (cs_world s) \<or> pending t f s"
    if "inflight (cs_pc s i) = Some r" "rt_FamilyID r = f" for r f
  proof (cases "present t (rt_Token r) ?R")
    case True
    then show ?thesis
      using held(3) [OF inflight_held [OF that(1)]] that(2) by (auto simp: present_def family_refresh_def)
  qed (use that in \<open>auto simp: pending_def revoker_def\<close>)
  show ?thesis
    unfolding killed_inv_def
  proof
    fix f
    assume f: "f \<in> cs_killed s'"
    show "(family_refresh t f (cs_world s') \<longrightarrow> pending t f s')
      \<and> (family_access t f (cs_world s') \<longrightarrow> pending t f s' \<or> (\<exists>i r b. cs_pc s' i = PDelAccess r b \<and> rt_FamilyID r = f))"
    proof (cases "\<exists>r b. cs_pc s i = PDelRefresh r b \<and> rt_FamilyID r = f")
      case True
      then obtain r b where "cs_pc s i = PDelRefresh r b" "rt_FamilyID r = f"
        by blast
      with m(1) show ?thesis
        by cases (auto simp: family_refresh_def m(2))
    next
      case False
      then have fk: "f \<in> cs_killed s"
        using f by (cases "cs_pc s i") (auto simp: killed)
      then have pre: "family_refresh t f (cs_world s) \<Longrightarrow> pending t f s"
        "family_access t f (cs_world s) \<Longrightarrow> pending t f s \<or> (\<exists>i r b. cs_pc s i = PDelAccess r b \<and> rt_FamilyID r = f)"
        using assms(1) by (auto simp: killed_inv_def)
      have keep: "pending t f s'" if pend: "pending t f s"
      proof -
        obtain j where j: "revoker t f ?R (cs_pc s j)"
          using pend by (auto simp: pending_def)
        have "revoker t f ?R' (cs_pc s' j)"
        proof (cases "j = i")
          case True
          then show ?thesis
            using rmove_revoker [OF m(1), of f] j held(2) False by (auto simp: m(2))
        next
          case other: False
          then show ?thesis
            using j rmove_present [OF m(1)] held(2) inflight_held by (fastforce simp: m(2) revoker_def)
        qed
        then show ?thesis
          by (auto simp: pending_def)
      qed
      have "pending t f s'" if "family_refresh t f (cs_world s')"
        using that rmove_rows [OF m(1)] fly pre(1) keep by (fastforce simp: family_refresh_def same_grant_def)
      moreover have "pending t f s' \<or> (\<exists>i r b. cs_pc s' i = PDelAccess r b \<and> rt_FamilyID r = f)"
        if acc: "family_access t f (cs_world s')"
      proof (cases "family_access t f (cs_world s)")
        case True
        then consider "pending t f s" | j r b where "cs_pc s j = PDelAccess r b" "rt_FamilyID r = f"
          using pre(2) by blast
        then show ?thesis
        proof cases
          case (2 j r b)
          have "j \<noteq> i"
            using m(1) acc 2 by (auto simp: family_access_def elim: rmove.cases)
          then show ?thesis
            using 2 by (auto simp: m(2))
        qed (use keep in blast)
      next
        case False
        then show ?thesis
          using acc rmove_access [OF m(1)] fly pre(1) keep by (fastforce simp: family_access_def)
      qed
      ultimately show ?thesis
        by blast
    qed
  qed
qed

section \<open>The promises\<close>

lemma creach_inv:
  assumes "creach e t qs w0 s" "\<forall>n. \<not> fails e n" "fresh_tokens e w0" "distinct (map rt_Token (refresh_tokens w0))"
  shows "tokens_inv e t qs s \<and> won_inv e t qs s \<and> killed_inv t s"
  using assms(1)
proof induction
  case init
  then show ?case
    using assms(3,4) by (simp add: tokens_inv_def won_inv_def killed_inv_def cinit_def)
next
  case (step s s')
  then show ?case
    using tokens_inv_step won_inv_step killed_inv_step assms(2) by blast
qed

text \<open>C9: of any number of requests that present the same refresh token at the same time, interleaved in any
  way, at most one is answered with tokens.\<close>

theorem one_winner_per_token:
  assumes "creach e t qs w0 s" "\<forall>n. \<not> fails e n" "fresh_tokens e w0" "distinct (map rt_Token (refresh_tokens w0))"
  shows "Uniq (\<lambda>i. q_token (qs i) = tok \<and> (\<exists>resp. cs_pc s i = PDone (Inr resp)))"
  using creach_inv [OF assms] unfolding won_inv_def Uniq_def by metis

text \<open>C10: While no statement fails and random tokens do not repeat, whatever the interleaving, a family struck by a revocation
  holds no access and no refresh token once every request that began has been answered, even if other requests were storing tokens
  into it at that moment, provided none ended with an internal error between its claim and its confirmation.\<close>

theorem revoked_family_stays_empty:
  assumes "creach e t qs w0 s" "\<forall>n. \<not> fails e n" "fresh_tokens e w0" "distinct (map rt_Token (refresh_tokens w0))"
    and "f \<in> cs_killed s" "\<forall>i. cs_pc s i = PStart \<or> (\<exists>x. cs_pc s i = PDone x)"
  shows "family_dead t f (cs_world s)"
proof -
  have "\<not> revoker t f R (cs_pc s i)" "cs_pc s i \<noteq> PDelAccess r b" for R i r b
    using assms(6) [rule_format, of i] by (auto simp: revoker_def)
  then have "\<not> family_refresh t f (cs_world s)" "\<not> family_access t f (cs_world s)"
    using creach_inv [OF assms(1-4)] assms(5) by (auto simp: killed_inv_def pending_def)
  then show ?thesis
    by (auto simp: family_dead_def family_refresh_def family_access_def)
qed

lemma rstep_rank: "0 < pc_rank p \<Longrightarrow> pc_rank (fst (run_state (rstep e t q p) w)) < pc_rank p"
  by (cases p) (auto simp: run_bind run_return case_prod_unfold afterRead_def split: sum.split)

text \<open>C11: requests terminate. However the statements of \<open>n\<close> requests interleave, and whichever of them fail,
  only finitely many steps are possible.\<close>

theorem refresh_requests_terminate:
  "wf {(s', s). cstep e t qs s s' \<and> (\<forall>i. i < n \<or> cs_pc s' i = cs_pc s i)}" (is "wf ?S")
proof (rule wf_subset [OF wf_measure])
  show "?S \<subseteq> measure (\<lambda>s. \<Sum>i<n. pc_rank (cs_pc s i))"
  proof (clarsimp)
    fix s s'
    assume "cstep e t qs s s'" and rest: "\<forall>i. i < n \<or> cs_pc s' i = cs_pc s i"
    then obtain i p where i: "cs_pc s' = (cs_pc s)(i := p)" "pc_rank p < pc_rank (cs_pc s i)"
      using rstep_rank by (cases rule: cstep.cases) (metis csys.select_convs(2) fst_conv)
    then have "i < n"
      using rest by (metis fun_upd_same less_irrefl)
    with i show "(\<Sum>i<n. pc_rank (cs_pc s' i)) < (\<Sum>i<n. pc_rank (cs_pc s i))"
      by (intro sum_strict_mono_ex1) auto
  qed
qed

section \<open>A schedule\<close>

text \<open>Statements in the order a schedule gives.\<close>

fun csched :: "env \<Rightarrow> uuid \<Rightarrow> (nat \<Rightarrow> request) \<Rightarrow> nat list \<Rightarrow> csys \<Rightarrow> csys" where
  "csched e t qs [] s = s"
| "csched e t qs (i # is) s =
     (if pc_rank (cs_pc s i) = 0 then csched e t qs is s
      else let (p, w) = run_state (rstep e t (qs i) (cs_pc s i)) (cs_world s)
        in csched e t qs is
             \<lparr>cs_world = w, cs_pc = (cs_pc s)(i := p), cs_killed = cs_killed s \<union> kills (cs_pc s i),
              cs_won = (case wins (cs_pc s i) p of None \<Rightarrow> cs_won s | Some h \<Rightarrow> (cs_won s)(i \<mapsto> h))\<rparr>)"

lemma creach_csched: "creach e t qs w0 s \<Longrightarrow> creach e t qs w0 (csched e t qs is s)"
proof (induction "is" arbitrary: s)
  case (Cons i "is")
  obtain p w where "run_state (rstep e t (qs i) (cs_pc s i)) (cs_world s) = (p, w)"
    by fastforce
  then show ?case
    using Cons.IH creach.step [OF Cons.prems cstep.intros] Cons.prems by simp
qed simp

text \<open>Two requests present the token of the sample deployment. Both read it while it is live; the second loses
  the claim and revokes the family before the first has stored its tokens.\<close>

definition race_env :: env where
  "race_env = sample_env\<lparr>randBytes := (\<lambda>n _. if n = 2 then Some rfc7636_octets else None)\<rparr>"

definition race :: "nat list \<Rightarrow> csys" where
  "race ns = csched race_env 1 (\<lambda>_. \<lparr>q_token = ''abc'', q_client = ''xxxxx'', q_scope = []\<rparr>) ns (cinit sample_world)"

lemmas race_defs =
  race_def race_env_def cinit_def afterRead_def refreshScope_def issueAccessToken_def generateJWT_def
  issueRefreshToken_def sql_defs monad_simps sample_defs RefreshToken_IsRevoked_def

lemma race_start:
  "\<forall>n. \<not> fails race_env n" "fresh_tokens race_env sample_world" "distinct (map rt_Token (refresh_tokens sample_world))"
  by (auto simp: race_env_def sample_env_def sample_world_def empty_world_def fresh_tokens_def old_def new_hash_def
      sample_refresh_def rfc7636_encode split: if_splits)

lemma creach_race:
  "creach race_env 1 (\<lambda>_. \<lparr>q_token = ''abc'', q_client = ''xxxxx'', q_scope = []\<rparr>) sample_world (race ns)"
  unfolding race_def by (rule creach_csched [OF creach.init])

theorem one_winner_per_token_witness:
  "(\<exists>resp. cs_pc (race [0, 1, 0, 0, 0, 0, 0, 0]) 0 = PDone (Inr resp))
     \<and> \<not> (\<exists>resp. cs_pc (race [0, 1, 0, 0, 0, 0, 0, 0]) 1 = PDone (Inr resp))"
proof -
  have "\<exists>resp. cs_pc (race [0, 1, 0, 0, 0, 0, 0, 0]) 0 = PDone (Inr resp)"
    by (simp add: race_defs)
  then show ?thesis
    using one_winner_per_token [OF creach_race race_start, of "''abc''" "[0, 1, 0, 0, 0, 0, 0, 0]"]
    unfolding Uniq_def by fastforce
qed

theorem revoked_family_stays_empty_witness:
  "cs_killed (race [0, 1, 0, 1, 0, 1, 1, 1, 0, 0, 0, 0, 0, 0]) = {40}
     \<and> family_dead 1 40 (cs_world (race [0, 1, 0, 1, 0, 1, 1, 1, 0, 0, 0, 0, 0, 0]))" (is "?k \<and> ?d")
proof -
  have "?k \<and> (\<forall>i. cs_pc (race [0, 1, 0, 1, 0, 1, 1, 1, 0, 0, 0, 0, 0, 0]) i = PStart
      \<or> (\<exists>x. cs_pc (race [0, 1, 0, 1, 0, 1, 1, 1, 0, 0, 0, 0, 0, 0]) i = PDone x))"
    by (simp add: race_defs)
  then show ?thesis
    using revoked_family_stays_empty [OF creach_race race_start, of 40] by simp
qed

text \<open>The proviso is needed: here the first request claims its token, the second revokes the family, and the first then stores an
  access token and fails for want of randomness. The token was never handed out, but it stays in the revoked family.\<close>

lemma failed_rotation_leaves_token:
  "let s = csched (race_env\<lparr>randBytes := (\<lambda>_ _. None)\<rparr>) 1 (\<lambda>_. \<lparr>q_token = ''abc'', q_client = ''xxxxx'', q_scope = []\<rparr>)
       [0, 1, 0, 1, 0, 1, 1, 1, 0, 0] (cinit sample_world)
   in cs_killed s = {40} \<and> (\<exists>er. cs_pc s 0 = PFailed er) \<and> (\<exists>er. cs_pc s 1 = PDone (Inl er)) \<and> family_access 1 40 (cs_world s)"
  by (simp add: race_defs family_access_def)

end
