(* ===== verification/DeviceGrant.thy ===== *)
theory DeviceGrant
  imports AuthService
begin

text \<open>The device authorization grant (RFC 8628) and token exchange (RFC 8693) of
  \<^verbatim>\<open>internal/services/device_token_exchange.go\<close>.\<close>

section \<open>User codes\<close>

definition userCodeCharset :: string where
  "userCodeCharset = ''BCDFGHJKLMNPQRSTVWXZ''"

definition userCodeLength :: nat where
  "userCodeLength = 8"

definition NormalizeUserCode :: "env \<Rightarrow> string \<Rightarrow> string" where
  "NormalizeUserCode e code =
     strings_Remove CHR '' '' (strings_Remove CHR ''-'' (strings_ToUpper (uniUpper e) (strings_TrimSpace code)))"

definition FormatUserCode :: "string \<Rightarrow> string" where
  "FormatUserCode code = (if length code = userCodeLength then take 4 code @ ''-'' @ drop 4 code else code)"

text \<open>\<^verbatim>\<open>rand.Int(rand.Reader, max)\<close> is one draw; the loop fills the buffer from the left.\<close>

fun generateUserCode_loop :: "env \<Rightarrow> nat \<Rightarrow> string op" where
  "generateUserCode_loop e 0 = succeed []"
| "generateUserCode_loop e (Suc i) =
     orReturn (State (\<lambda>w. (case randInt e (draws w) (length userCodeCharset) of
                             None \<Rightarrow> Inl (ErrMsg ''rand'')
                           | Some n \<Rightarrow> Inr n, w\<lparr>draws := Suc (draws w)\<rparr>))) id (\<lambda>n.
     orReturn (generateUserCode_loop e i) id (\<lambda>rest. succeed (userCodeCharset ! n # rest)))"

definition generateUserCode :: "env \<Rightarrow> string op" where
  "generateUserCode e = generateUserCode_loop e userCodeLength"

section \<open>Starting and resolving\<close>

definition CreateDeviceAuthorization :: "env \<Rightarrow> uuid \<Rightarrow> Client \<Rightarrow> string \<Rightarrow> DeviceAuthorizationResponse op" where
  "CreateDeviceAuthorization e tenantID client scope =
     orReturn (randomToken e 48) id (\<lambda>deviceCode.
     orReturn (generateUserCode e) id (\<lambda>userCode.
       let interval = (if cf_DeviceCodePollInterval (config e) \<le> 0 then 5 else cf_DeviceCodePollInterval (config e));
           duration = (if cf_DeviceCodeDuration (config e) \<le> 0 then seconds 600 else cf_DeviceCodeDuration (config e))
       in do {
         i \<leftarrow> uuid_New e;
         orReturn (DeviceCode_Create e
             \<lparr>dc_ID = i, dc_TenantID = tenantID, dc_DeviceCode = hashToken deviceCode, dc_UserCode = userCode,
              dc_ClientID = c_ID client, dc_UserID = None, dc_Scope = scope, dc_Status = DeviceCodePending,
              dc_Interval = interval, dc_LastPolledAt = None, dc_AuthTime = None, dc_AMR = [],
              dc_ExpiresAt = now e + duration, dc_CreatedAt = zero_time\<rparr>) id (\<lambda>_.
         let verificationURI = cf_ServerURL (config e) @ ''/oauth/device'';
             displayCode = FormatUserCode userCode
         in succeed
           \<lparr>da_DeviceCode = deviceCode, da_UserCode = displayCode, da_VerificationURI = verificationURI,
            da_VerificationURIComplete = verificationURI @ ''?user_code='' @ displayCode,
            da_ExpiresIn = duration_seconds duration, da_Interval = interval\<rparr>)
       }))"

definition resolveDeviceCode :: "env \<Rightarrow> uuid \<Rightarrow> string \<Rightarrow> (DeviceCode \<Rightarrow> DeviceCode) \<Rightarrow> unit op" where
  "resolveDeviceCode e tenantID userCode decide =
     orReturn (DeviceCode_GetByUserCode e tenantID (NormalizeUserCode e userCode)) (\<lambda>_. ErrDeviceCodeNotFound) (\<lambda>dc.
     if DeviceCode_IsExpired (now e) dc then failWith ErrExpiredDeviceCode
     else if dc_Status dc \<noteq> DeviceCodePending then failWith ErrDeviceCodeNotFound
     else DeviceCode_Update e (decide dc))"

definition ApproveDeviceCode :: "env \<Rightarrow> uuid \<Rightarrow> string \<Rightarrow> uuid \<Rightarrow> string list \<Rightarrow> unit op" where
  "ApproveDeviceCode e tenantID userCode userID amr =
     resolveDeviceCode e tenantID userCode (\<lambda>dc. dc
       \<lparr>dc_Status := DeviceCodeApproved, dc_UserID := Some userID, dc_AuthTime := Some (now e), dc_AMR := amr\<rparr>)"

definition DenyDeviceCode :: "env \<Rightarrow> uuid \<Rightarrow> string \<Rightarrow> unit op" where
  "DenyDeviceCode e tenantID userCode =
     resolveDeviceCode e tenantID userCode (\<lambda>dc. dc\<lparr>dc_Status := DeviceCodeDenied\<rparr>)"

section \<open>Polling\<close>

definition pollTooFast :: "env \<Rightarrow> DeviceCode \<Rightarrow> bool" where
  "pollTooFast e dc \<longleftrightarrow>
     (case dc_LastPolledAt dc of None \<Rightarrow> False | Some t \<Rightarrow> time_sub (now e) t < seconds (dc_Interval dc))"

text \<open>What a poll does with the row it read, from the recorded poll on.\<close>

definition pollDeviceCode :: "env \<Rightarrow> uuid \<Rightarrow> Client \<Rightarrow> DeviceCode \<Rightarrow> TokenResponse op" where
  "pollDeviceCode e tenantID client dc = do {
     _ \<leftarrow> DeviceCode_Update e (dc\<lparr>dc_LastPolledAt := Some (now e)\<rparr>);
     if pollTooFast e dc then failWith ErrSlowDown
     else case dc_Status dc of
       DeviceCodePending \<Rightarrow> failWith ErrAuthorizationPending
     | DeviceCodeDenied \<Rightarrow> do {
         _ \<leftarrow> DeviceCode_Delete e tenantID (dc_DeviceCode dc);
         failWith ErrDeviceAccessDenied
       }
     | DeviceCodeApproved \<Rightarrow>
         (case dc_UserID dc of
            None \<Rightarrow> failWith ErrInvalidGrant
          | Some userID \<Rightarrow>
              orReturn (DeviceCode_Delete e tenantID (dc_DeviceCode dc)) (\<lambda>_. ErrInvalidGrant) (\<lambda>_.
              issueTokens e tenantID client userID (dc_Scope dc) (dc_ID dc) True True
                \<lparr>ax_grantType = GrantTypeDeviceCode, ax_authTime = dc_AuthTime dc, ax_amr = dc_AMR dc, ax_nonce = []\<rparr>))
     | DeviceCodeOther _ \<Rightarrow> failWith ErrInvalidGrant
   }"

definition ExchangeDeviceCode :: "env \<Rightarrow> uuid \<Rightarrow> Client \<Rightarrow> string \<Rightarrow> TokenResponse op" where
  "ExchangeDeviceCode e tenantID client deviceCode =
     orReturn (DeviceCode_GetByDeviceCode e tenantID (hashToken deviceCode)) (\<lambda>_. ErrInvalidGrant) (\<lambda>dc.
     if dc_ClientID dc \<noteq> c_ID client then failWith ErrInvalidGrant
     else if DeviceCode_IsExpired (now e) dc then do {
       _ \<leftarrow> DeviceCode_Delete e tenantID (dc_DeviceCode dc);
       failWith ErrExpiredDeviceCode
     }
     else pollDeviceCode e tenantID client dc)"

section \<open>Token exchange\<close>

definition exchangedScope :: "Client \<Rightarrow> string \<Rightarrow> string \<Rightarrow> err + string" where
  "exchangedScope client subjectScope requestedScope =
     (if requestedScope \<noteq> [] \<and> \<not> ScopeIsSubset requestedScope subjectScope then Inl ErrInvalidScope
      else let scope = (if requestedScope \<noteq> [] then strings_Join (ParseScope requestedScope) '' '' else subjectScope)
           in case ValidateScopeForClient client scope of
                Inl _ \<Rightarrow> Inl ErrInvalidScope
              | Inr _ \<Rightarrow> Inr scope)"

definition exchangedClaims :: "env \<Rightarrow> uuid \<Rightarrow> uuid \<Rightarrow> Client \<Rightarrow> JWTClaims \<Rightarrow> string \<Rightarrow> JWTClaims" where
  "exchangedClaims e jti tenantID client subject scope = JWTClaims_zero\<lparr>
     jc_Jti := uuidString e jti,
     jc_Sub := jc_Sub subject,
     jc_Aud := accessTokenAudience e,
     jc_Iss := cf_ServerURL (config e),
     jc_Exp := time_unix (now e + cf_AccessTokenDuration (config e)),
     jc_Iat := time_unix (now e),
     jc_TenantID := uuidString e tenantID,
     jc_Scope := scope,
     jc_ClientID := c_ClientID client,
     jc_UserID := jc_UserID subject,
     jc_Act := Some (c_ClientID client)\<rparr>"

definition ExchangeToken :: "env \<Rightarrow> uuid \<Rightarrow> Client \<Rightarrow> string \<Rightarrow> string \<Rightarrow> string \<Rightarrow> TokenExchangeResponse op" where
  "ExchangeToken e tenantID client subjectToken subjectTokenType requestedScope =
     (if subjectTokenType \<noteq> TokenTypeAccessToken then failWith ErrInvalidGrant
      else
        orReturn (ValidateAccessToken e tenantID subjectToken) (\<lambda>_. ErrInvalidGrant) (\<lambda>subject.
        orReturn (State_Monad.return (exchangedScope client (jc_Scope subject) requestedScope)) id (\<lambda>scope. do {
          jti \<leftarrow> uuid_New e;
          orReturn (State_Monad.return (KeySet_SignTyped (jwt e) (keys e)
              (AccessTokenPayload (exchangedClaims e jti tenantID client subject scope)) TypeAccessToken)) id (\<lambda>accessToken.
            let userID = (if jc_UserID subject \<noteq> []
                          then (case uuidParse e (jc_UserID subject) of Some parsed \<Rightarrow> parsed | None \<Rightarrow> uuid_Nil)
                          else uuid_Nil)
            in do {
              i \<leftarrow> uuid_New e;
              familyID \<leftarrow> uuid_New e;
              orReturn (AccessToken_Create e
                  \<lparr>at_ID = i, at_TenantID = tenantID, at_Token = hashToken accessToken, at_ClientID = c_ID client,
                   at_UserID = userID, at_FamilyID = familyID, at_Scope = scope,
                   at_ExpiresAt = now e + cf_AccessTokenDuration (config e), at_CreatedAt = zero_time\<rparr>) id (\<lambda>_. do {
                _ \<leftarrow> emit (TokenEvent_zero\<lparr>ev_Type := TokenEventIssued, ev_TenantID := tenantID,
                       ev_ClientID := c_ID client, ev_UserID := userRef userID, ev_GrantType := GrantTypeTokenExchange,
                       ev_Scope := scope, ev_FamilyID := familyID, ev_Actor := c_ClientID client\<rparr>);
                succeed \<lparr>te_AccessToken = accessToken, te_IssuedTokenType = TokenTypeAccessToken,
                         te_TokenType = ''Bearer'',
                         te_ExpiresIn = duration_seconds (cf_AccessTokenDuration (config e)), te_Scope = scope\<rparr>
              })
            })
        })))"

end
