(* ===== verification/DeviceProperties.thy ===== *)
theory DeviceProperties
  imports DeviceGrant RefreshProperties
begin

text \<open>What the device grant and token exchange guarantee: the codes shown to users are read back, tokens are
  issued only for an approved code, a decision is final, and exchanged tokens stay within their ceiling.\<close>

section \<open>User codes\<close>

lemma charset_chars:
  assumes "c \<in> set userCodeCharset"
  shows "32 < byte_code c" "byte_code c < 123" "ascii_upper c = c" "ascii_upper (ascii_lower c) = c"
    "32 < byte_code (ascii_lower c)" "byte_code (ascii_lower c) < 123" "c \<noteq> CHR ''-''" "c \<noteq> CHR '' ''"
  using assms
  by (auto simp: userCodeCharset_def ascii_upper_def ascii_lower_def byte_code_def)

lemma generateUserCode_loop_Inr:
  assumes "run_state (generateUserCode_loop e i) w = (Inr code, w')" "\<forall>n k. randInt e n (length userCodeCharset) = Some k \<longrightarrow> k < length userCodeCharset"
  shows "length code = i \<and> set code \<subseteq> set userCodeCharset"
  using assms(1)
proof (induction i arbitrary: w code)
  case 0
  then show ?case
    by (simp add: run_succeed)
next
  case (Suc i)
  then obtain n rest where "randInt e (draws w) (length userCodeCharset) = Some n" "code = userCodeCharset ! n # rest"
    "length rest = i" "set rest \<subseteq> set userCodeCharset"
    by (fastforce simp: orReturn_Inr_iff run_succeed split: option.splits)
  then show ?case
    using assms(2) by auto
qed

lemma NormalizeUserCode_ascii:
  assumes "\<forall>c \<in> set s. 32 < byte_code c \<and> byte_code c < 128"
  shows "NormalizeUserCode e s = filter (\<lambda>c. c \<noteq> CHR '' '' \<and> c \<noteq> CHR ''-'') (map ascii_upper s)"
proof -
  have "is_ascii s"
    using assms by (auto simp: is_ascii_def list_all_iff)
  then show ?thesis
    using TrimSpace_id [OF assms] by (simp add: NormalizeUserCode_def strings_ToUpper_def strings_Remove_def conj_commute)
qed

lemma normalize_charset:
  "set xs \<subseteq> set userCodeCharset \<Longrightarrow> filter (\<lambda>c. c \<noteq> CHR '' '' \<and> c \<noteq> CHR ''-'') (map ascii_upper xs) = xs"
  "set xs \<subseteq> set userCodeCharset \<Longrightarrow> filter (\<lambda>c. c \<noteq> CHR '' '' \<and> c \<noteq> CHR ''-'') (map ascii_upper (map ascii_lower xs)) = xs"
  by (induction xs) (simp_all add: charset_chars)

lemma FormatUserCode_normal:
  assumes "length code = userCodeLength" "set code \<subseteq> set userCodeCharset"
  shows "NormalizeUserCode e (FormatUserCode code) = code \<and> NormalizeUserCode e (map ascii_lower (FormatUserCode code)) = code"
proof -
  have sub: "set (take 4 code) \<subseteq> set userCodeCharset" "set (drop 4 code) \<subseteq> set userCodeCharset"
    using assms(2) by (auto dest: in_set_takeD in_set_dropD)
  have dash: "byte_code CHR ''-'' = 45" "ascii_upper CHR ''-'' = CHR ''-''" "ascii_lower CHR ''-'' = CHR ''-''"
    by (simp_all add: byte_code_def ascii_upper_def ascii_lower_def)
  have split: "FormatUserCode code = take 4 code @ CHR ''-'' # drop 4 code"
    by (simp add: FormatUserCode_def assms(1))
  have "\<forall>c \<in> set (FormatUserCode code). 32 < byte_code c \<and> byte_code c < 128"
    using sub charset_chars(1,2) by (fastforce simp: split dash)
  moreover have "\<forall>c \<in> set (map ascii_lower (FormatUserCode code)). 32 < byte_code c \<and> byte_code c < 128"
    using sub charset_chars(5,6) by (fastforce simp: split dash)
  ultimately show ?thesis
    using normalize_charset [OF sub(1)] normalize_charset [OF sub(2)]
    by (simp add: NormalizeUserCode_ascii split dash)
qed

text \<open>the code a device shows, formatted with a hyphen and typed back in upper or lower case, is the code
  stored in its authorization.\<close>

theorem user_code_roundtrip:
  assumes "run_state (generateUserCode e) w = (Inr code, w')" "\<forall>n k. randInt e n (length userCodeCharset) = Some k \<longrightarrow> k < length userCodeCharset"
  shows "NormalizeUserCode e (FormatUserCode code) = code \<and> NormalizeUserCode e (map ascii_lower (FormatUserCode code)) = code"
  using FormatUserCode_normal generateUserCode_loop_Inr [OF assms [unfolded generateUserCode_def]] by blast

section \<open>Token exchange\<close>

lemma ValidateScope_registered:
  assumes "ValidateScopeForClient c r = Inr s"
  shows "set (ParseScope r) \<subseteq> registeredScopes c"
  using ValidateScopeForClient_Inr [OF assms]
  by (cases "ParseScope r = []") (auto simp: ScopeIsSubset_iff ParseScope_Join registeredScopes_def)

lemma exchangedScope_Inr:
  assumes "exchangedScope c s r = Inr scope"
  shows "set (ParseScope scope) \<subseteq> set (ParseScope s) \<inter> registeredScopes c"
  using assms by (auto simp: exchangedScope_def Let_def ScopeIsSubset_iff dest!: ValidateScope_registered
      split: if_splits sum.splits)

lemma ExchangeToken_Inr:
  assumes "run_state (ExchangeToken e t client tok typ req) w = (Inr resp, w')"
  shows "\<exists>subject w1 jti row.
     run_state (ValidateAccessToken e t tok) w = (Inr subject, w1)
     \<and> (\<exists>a \<in> set (access_tokens w). at_TenantID a = t \<and> at_Token a = hashToken tok)
     \<and> set (ParseScope (te_Scope resp)) \<subseteq> set (ParseScope (jc_Scope subject)) \<inter> registeredScopes client
     \<and> KeySet_SignTyped (jwt e) (keys e) (AccessTokenPayload (exchangedClaims e jti t client subject (te_Scope resp)))
         TypeAccessToken = Inr (te_AccessToken resp)
     \<and> access_tokens w' = access_tokens w @ [row] \<and> refresh_tokens w' = refresh_tokens w
     \<and> access_row e t (c_ID client) (at_UserID row) (at_FamilyID row) (te_Scope resp) (te_AccessToken resp) row
     \<and> (at_UserID row = uuid_Nil \<or> uuidParse e (jc_UserID subject) = Some (at_UserID row))"
proof -
  obtain subject w1 scope where
    1: "run_state (ValidateAccessToken e t tok) w = (Inr subject, w1)" and
    2: "exchangedScope client (jc_Scope subject) req = Inr scope" and
    3: "te_Scope resp = scope \<and> KeySet_SignTyped (jwt e) (keys e)
          (AccessTokenPayload (exchangedClaims e (newUUID e (draws w1)) t client subject scope)) TypeAccessToken = Inr (te_AccessToken resp)
       \<and> access_tokens w' = access_tokens w1 @ [last (access_tokens w')] \<and> refresh_tokens w' = refresh_tokens w1
       \<and> access_row e t (c_ID client) (at_UserID (last (access_tokens w'))) (at_FamilyID (last (access_tokens w'))) scope
           (te_AccessToken resp) (last (access_tokens w'))
       \<and> (at_UserID (last (access_tokens w')) = uuid_Nil
          \<or> uuidParse e (jc_UserID subject) = Some (at_UserID (last (access_tokens w'))))"
    using assms
    by (auto simp: ExchangeToken_def orReturn_Inr_iff run_bind run_return run_succeed run_failWith run_uuid_New run_emit Let_def
        AccessToken_Create_def access_tokens.Insert_Inr access_row_def split: if_splits option.splits)
  have w1: "access_tokens w1 = access_tokens w \<and> refresh_tokens w1 = refresh_tokens w
      \<and> (\<exists>a \<in> set (access_tokens w). at_TenantID a = t \<and> at_Token a = hashToken tok)"
    using 1 by (auto simp: ValidateAccessToken_def orReturn_Inr_iff run_return run_succeed run_failWith
        AccessToken_GetByToken_def access_tokens.First_Inr dest!: find_SomeD split: if_splits)
  show ?thesis
    using 1 3 w1 exchangedScope_Inr [OF 2] by auto
qed


section \<open>One poll\<close>

abbreviation deviceContext :: "DeviceCode \<Rightarrow> authContext" where
  "deviceContext dc \<equiv> \<lparr>ax_grantType = GrantTypeDeviceCode, ax_authTime = dc_AuthTime dc, ax_amr = dc_AMR dc, ax_nonce = []\<rparr>"

lemma DeviceUpdate_run:
  "run_state (DeviceCode_Update e dc) w =
     (if fails e (stmts w) then (Inl (Wrapped ''failed to update device code'' DBError), w\<lparr>stmts := Suc (stmts w)\<rparr>)
      else if \<exists>r \<in> set (device_codes w). dc_ID r \<noteq> dc_ID dc \<and> device_codes_clash r dc
      then (Inl (Wrapped ''failed to update device code'' UniqueViolation), w\<lparr>stmts := Suc (stmts w)\<rparr>)
      else (Inr (), w\<lparr>stmts := Suc (stmts w), device_codes := save_row dc_ID dc (device_codes w)\<rparr>))"
  by (simp add: DeviceCode_Update_def device_codes.Save_run)

lemma DeviceUpdate_snd:
  "\<exists>n R. snd (run_state (DeviceCode_Update e dc) w) = w\<lparr>stmts := n, device_codes := R\<rparr>
     \<and> (R = device_codes w \<or> R = save_row dc_ID dc (device_codes w))"
proof -
  have same: "w\<lparr>stmts := n\<rparr> = w\<lparr>stmts := n, device_codes := device_codes w\<rparr>" for n
    by simp
  show ?thesis
    unfolding DeviceUpdate_run
    by (cases "fails e (stmts w)"; cases "\<exists>r \<in> set (device_codes w). dc_ID r \<noteq> dc_ID dc \<and> device_codes_clash r dc")
      (simp_all only: if_True if_False snd_conv, (subst same, blast)+, blast)
qed

lemma poll_Inr:
  assumes "run_state (pollDeviceCode e t c dc) w = (Inr resp, w')"
  shows "\<not> pollTooFast e dc \<and> dc_Status dc = DeviceCodeApproved
    \<and> (\<exists>u. dc_UserID dc = Some u \<and> issued e t c u (dc_Scope dc) (dc_ID dc) True (deviceContext dc) resp w w')
    \<and> (\<forall>x \<in> set (device_codes w'). dc_TenantID x = t \<longrightarrow> dc_DeviceCode x \<noteq> dc_DeviceCode dc)"
proof -
  obtain n R where up: "snd (run_state (DeviceCode_Update e (dc\<lparr>dc_LastPolledAt := Some (now e)\<rparr>)) w) = w\<lparr>stmts := n, device_codes := R\<rparr>"
    using DeviceUpdate_snd by blast
  obtain u w2 where "\<not> pollTooFast e dc" "dc_Status dc = DeviceCodeApproved" "dc_UserID dc = Some u"
    and del: "run_state (DeviceCode_Delete e t (dc_DeviceCode dc)) (w\<lparr>stmts := n, device_codes := R\<rparr>) = (Inr (), w2)"
    and iss: "run_state (issueTokens e t c u (dc_Scope dc) (dc_ID dc) True True (deviceContext dc)) w2 = (Inr resp, w')"
    using assms up
    by (auto simp: pollDeviceCode_def run_bind run_failWith case_prod_unfold orReturn_Inr_iff
        split: if_splits DeviceCodeStatus.splits option.splits)
  moreover have w2: "w2 = w\<lparr>stmts := Suc n, device_codes := filter (\<lambda>x. \<not> (dc_TenantID x = t \<and> dc_DeviceCode x = dc_DeviceCode dc)) R\<rparr>"
    using del by (auto simp: DeviceCode_Delete_def device_codes.Delete_run split: if_splits)
  ultimately show ?thesis
    using issueTokens_issued [OF iss] by (auto simp: issued_def outside_tokens_def)
qed

lemma ExchangeDevice_Inr:
  assumes "run_state (ExchangeDeviceCode e t c code) w = (Inr resp, w')"
  shows "\<exists>dc \<in> set (device_codes w). dc_TenantID dc = t \<and> dc_DeviceCode dc = hashToken code \<and> dc_ClientID dc = c_ID c
    \<and> now e < dc_ExpiresAt dc \<and> \<not> pollTooFast e dc \<and> dc_Status dc = DeviceCodeApproved
    \<and> (\<exists>u. dc_UserID dc = Some u \<and> issued e t c u (dc_Scope dc) (dc_ID dc) True (deviceContext dc) resp w w')
    \<and> (\<forall>x \<in> set (device_codes w'). dc_TenantID x = t \<longrightarrow> dc_DeviceCode x \<noteq> hashToken code)"
proof -
  obtain dc where poll: "run_state (pollDeviceCode e t c dc) (w\<lparr>stmts := Suc (stmts w)\<rparr>) = (Inr resp, w')"
    and dc: "find (\<lambda>x. dc_TenantID x = t \<and> dc_DeviceCode x = hashToken code) (device_codes w) = Some dc"
    "dc_ClientID dc = c_ID c" "now e < dc_ExpiresAt dc"
    using assms
    by (auto simp: ExchangeDeviceCode_def orReturn_Inr_iff run_bind run_failWith case_prod_unfold DeviceCode_GetByDeviceCode_def
        device_codes.First_Inr DeviceCode_IsExpired_def split: if_splits)
  show ?thesis
    using poll_Inr [OF poll] find_SomeD [OF dc(1)] dc(2,3)
    by (intro bexI [of _ dc]) (simp_all add: issued_def)
qed

text \<open>polling yields tokens only for an unexpired code of this tenant and client that a user approved, not
  faster than its interval; the tokens are that user's, with the scope that was asked, and the code is gone.\<close>

theorem device_exchange_authorized:
  assumes "run_state (ExchangeDeviceCode e t c code) w = (Inr resp, w')"
  shows "\<exists>dc \<in> set (device_codes w). dc_TenantID dc = t \<and> dc_DeviceCode dc = hashToken code \<and> dc_ClientID dc = c_ID c
    \<and> now e < dc_ExpiresAt dc \<and> dc_Status dc = DeviceCodeApproved
    \<and> (\<forall>p. dc_LastPolledAt dc = Some p \<longrightarrow> seconds (dc_Interval dc) \<le> time_sub (now e) p)
    \<and> (\<exists>u. dc_UserID dc = Some u \<and> issued e t c u (dc_Scope dc) (dc_ID dc) True (deviceContext dc) resp w w')
    \<and> (\<forall>x \<in> set (device_codes w'). dc_TenantID x = t \<longrightarrow> dc_DeviceCode x \<noteq> hashToken code)"
  using ExchangeDevice_Inr [OF assms] by (fastforce simp: pollTooFast_def)

section \<open>Sequences of requests\<close>

datatype device_request =
    StartDevice uuid Client string
  | ApproveDevice uuid string uuid "string list"
  | DenyDevice uuid string
  | PollDevice uuid Client string

text \<open>Each request has its own environment, so the clock moves between them.\<close>

fun device_handle :: "env \<Rightarrow> device_request \<Rightarrow> (world, unit) state" where
  "device_handle e (StartDevice t c s) = do { _ \<leftarrow> CreateDeviceAuthorization e t c s; State_Monad.return () }"
| "device_handle e (ApproveDevice t uc u amr) = do { _ \<leftarrow> ApproveDeviceCode e t uc u amr; State_Monad.return () }"
| "device_handle e (DenyDevice t uc) = do { _ \<leftarrow> DenyDeviceCode e t uc; State_Monad.return () }"
| "device_handle e (PollDevice t c code) = do { _ \<leftarrow> ExchangeDeviceCode e t c code; State_Monad.return () }"

fun device_run :: "(env \<times> device_request) list \<Rightarrow> (world, unit) state" where
  "device_run [] = State_Monad.return ()"
| "device_run ((e, r) # rs) = do { _ \<leftarrow> device_handle e r; device_run rs }"

text \<open>No later draw produces the device code again.\<close>

definition fresh_code :: "string \<Rightarrow> env \<Rightarrow> bool" where
  "fresh_code h e \<longleftrightarrow> (\<forall>n bs. randBytes e n 48 = Some bs \<longrightarrow> hashToken (b64url bs) \<noteq> h)"

definition closed_code :: "uuid \<Rightarrow> string \<Rightarrow> world \<Rightarrow> bool" where
  "closed_code t h w \<longleftrightarrow>
     (\<forall>x \<in> set (device_codes w). dc_TenantID x = t \<longrightarrow> dc_DeviceCode x = h \<longrightarrow> dc_Status x = DeviceCodeDenied)"

lemma closed_steps_draws [keeps_intros]:
  "steps (preserving (closed_code t h)) (uuid_New e)" "steps (preserving (closed_code t h)) (randomToken e n)"
  "steps (preserving (closed_code t h)) (emit ev)"
  by (simp_all add: steps_def preserving_def closed_code_def monad_simps)

lemma closed_steps_reads [keeps_intros]:
  "steps (preserving (closed_code t h)) (AccessToken_Create e a)"
  "steps (preserving (closed_code t h)) (RefreshToken_Create e r)"
  "steps (preserving (closed_code t h)) (User_GetByID e t' u)"
  "steps (preserving (closed_code t h)) (DeviceCode_Delete e t' k)"
  by (auto simp: steps_def preserving_def closed_code_def AccessToken_Create_def access_tokens.Insert_run
      RefreshToken_Create_def refresh_tokens.Insert_run User_GetByID_def users.First_snd DeviceCode_Delete_def device_codes.Delete_run)

lemma closed_steps_issue [keeps_intros]: "steps (preserving (closed_code t h)) (issueTokens e t' c u s f b1 b2 auth)"
  unfolding issueTokens_def issueAccessToken_def issueRefreshToken_def issueIDToken_def generateJWT_def
  by (intro inv.steps_intros keeps_intros)

lemma closed_Update:
  assumes "dc_TenantID dc = t \<Longrightarrow> dc_DeviceCode dc = h \<Longrightarrow> dc_Status dc = DeviceCodeDenied"
  shows "steps (preserving (closed_code t h)) (DeviceCode_Update e dc)"
  using assms by (auto simp: steps_def preserving_def closed_code_def DeviceUpdate_run save_row_set)

lemma closed_poll:
  assumes "dc_TenantID dc = t \<Longrightarrow> dc_DeviceCode dc = h \<Longrightarrow> dc_Status dc = DeviceCodeDenied"
  shows "steps (preserving (closed_code t h)) (pollDeviceCode e t' c dc)"
  unfolding pollDeviceCode_def
  by (rule inv.steps_bind [OF closed_Update], use assms in simp)
    (auto split: DeviceCodeStatus.split option.split intro!: inv.steps_intros keeps_intros)

lemma closed_First:
  assumes "\<And>dc. dc \<in> set (device_codes w) \<Longrightarrow> P dc \<Longrightarrow> preserving (closed_code t h) w (snd (run_state (k dc) (w\<lparr>stmts := Suc (stmts w)\<rparr>)))"
  shows "preserving (closed_code t h) w (snd (run_state (orReturn (sqlFirst e device_codes P nf msg) g k) w))"
  using assms find_SomeD [of P "device_codes w"]
  by (auto simp: run_orReturn device_codes.First_run preserving_def closed_code_def split: option.split)

lemma closed_code_stmts [simp]: "closed_code t h (w\<lparr>stmts := n\<rparr>) = closed_code t h w"
  by (simp add: closed_code_def)

lemma preserving_stmts: "steps (preserving (closed_code t h)) m \<Longrightarrow>
    preserving (closed_code t h) w (snd (run_state m (w\<lparr>stmts := n\<rparr>)))"
  by (simp add: steps_def preserving_def)

lemma closed_Exchange: "steps (preserving (closed_code t h)) (ExchangeDeviceCode e t' c code)"
  unfolding steps_def
proof
  fix w
  show "preserving (closed_code t h) w (snd (run_state (ExchangeDeviceCode e t' c code) w))"
  proof (cases "closed_code t h w")
    case True
    show ?thesis
      unfolding ExchangeDeviceCode_def DeviceCode_GetByDeviceCode_def
    proof (rule closed_First, rule preserving_stmts)
      fix dc
      assume "dc \<in> set (device_codes w)"
      then have "dc_TenantID dc = t \<Longrightarrow> dc_DeviceCode dc = h \<Longrightarrow> dc_Status dc = DeviceCodeDenied"
        using True by (auto simp: closed_code_def)
      from closed_poll [OF this]
      show "steps (preserving (closed_code t h)) (if dc_ClientID dc \<noteq> c_ID c then failWith ErrInvalidGrant
         else if DeviceCode_IsExpired (now e) dc
           then State_Monad.bind (DeviceCode_Delete e t' (dc_DeviceCode dc)) (\<lambda>_. failWith ErrExpiredDeviceCode)
           else pollDeviceCode e t' c dc)"
        by (intro inv.steps_intros keeps_intros)
    qed
  qed (simp add: preserving_def)
qed

lemma closed_resolve:
  assumes "\<And>dc. dc_TenantID (decide dc) = dc_TenantID dc \<and> dc_DeviceCode (decide dc) = dc_DeviceCode dc"
  shows "steps (preserving (closed_code t h)) (resolveDeviceCode e t' uc decide)"
  unfolding steps_def
proof
  fix w
  show "preserving (closed_code t h) w (snd (run_state (resolveDeviceCode e t' uc decide) w))"
  proof (cases "closed_code t h w")
    case True
    show ?thesis
      unfolding resolveDeviceCode_def DeviceCode_GetByUserCode_def
    proof (rule closed_First, rule preserving_stmts)
      fix dc
      assume "dc \<in> set (device_codes w)"
      then have "dc_Status dc = DeviceCodePending \<Longrightarrow> \<not> (dc_TenantID dc = t \<and> dc_DeviceCode dc = h)"
        using True by (auto simp: closed_code_def)
      then show "steps (preserving (closed_code t h)) (if DeviceCode_IsExpired (now e) dc then failWith ErrExpiredDeviceCode
         else if dc_Status dc \<noteq> DeviceCodePending then failWith ErrDeviceCodeNotFound
         else DeviceCode_Update e (decide dc))"
        using assms [of dc] by (auto intro!: inv.steps_failWith closed_Update)
    qed
  qed (simp add: preserving_def)
qed

lemma closed_userCode: "steps (preserving (closed_code t h)) (generateUserCode_loop e i)"
proof (induction i)
  case (Suc i)
  show ?case
    unfolding generateUserCode_loop.simps
  proof (intro inv.steps_intros Suc)
    show "steps (preserving (closed_code t h)) (State (\<lambda>w. (case randInt e (draws w) (length userCodeCharset) of
        None \<Rightarrow> Inl (ErrMsg ''rand'') | Some n \<Rightarrow> Inr n, w\<lparr>draws := Suc (draws w)\<rparr>)))"
      by (simp add: steps_def preserving_def closed_code_def)
  qed
qed (simp add: inv.steps_succeed)

lemma closed_Create:
  assumes "fresh_code h e"
  shows "steps (preserving (closed_code t h)) (CreateDeviceAuthorization e t' c s)"
proof -
  have tok: "hashToken tok \<noteq> h" if "run_state (randomToken e 48) w = (Inr tok, w')" for tok w w'
    using that assms by (auto simp: run_randomToken fresh_code_def split: option.splits)
  have ins: "steps (preserving (closed_code t h)) (DeviceCode_Create e dc)" if "dc_DeviceCode dc \<noteq> h" for dc
    using that by (auto simp: steps_def preserving_def closed_code_def DeviceCode_Create_def device_codes.Insert_run)
  show ?thesis
    unfolding CreateDeviceAuthorization_def generateUserCode_def
    by (intro inv.steps_orReturn_run [OF closed_steps_draws(2)] inv.steps_intros keeps_intros closed_userCode ins)
      (simp add: tok)
qed

lemma closed_handle: "fresh_code h e \<Longrightarrow> steps (preserving (closed_code t h)) (device_handle e r)"
  by (cases r) (auto simp: ApproveDeviceCode_def DenyDeviceCode_def
      intro!: inv.steps_intros closed_Create closed_Exchange closed_resolve)

lemma closed_run: "\<forall>(e, r) \<in> set rs. fresh_code h e \<Longrightarrow> steps (preserving (closed_code t h)) (device_run rs)"
  by (induction rs rule: device_run.induct) (auto intro!: inv.steps_intros closed_handle)

lemma closed_no_tokens:
  assumes "closed_code t (hashToken code) w" "\<forall>(e, r) \<in> set rs. fresh_code (hashToken code) e"
  shows "\<nexists>resp. fst (run_state (ExchangeDeviceCode e t c code) (snd (run_state (device_run rs) w))) = Inr resp"
proof
  let ?w = "snd (run_state (device_run rs) w)"
  assume "\<exists>resp. fst (run_state (ExchangeDeviceCode e t c code) ?w) = Inr resp"
  then obtain resp w' where "run_state (ExchangeDeviceCode e t c code) ?w = (Inr resp, w')"
    by (metis prod.collapse)
  moreover have "closed_code t (hashToken code) ?w"
    using closed_run [OF assms(2)] assms(1) by (simp add: steps_def preserving_def)
  ultimately show False
    by (auto dest!: ExchangeDevice_Inr simp: closed_code_def)
qed

text \<open>C12: a device code yields tokens once. After a successful exchange no sequence of later requests, of any
  kind and for any client, makes the code good again.\<close>

theorem device_code_single_use:
  assumes "run_state (ExchangeDeviceCode e t c code) w = (Inr resp, w1)"
    and "\<forall>(e, r) \<in> set rs. fresh_code (hashToken code) e"
  shows "\<nexists>resp. fst (run_state (ExchangeDeviceCode e2 t c2 code) (snd (run_state (device_run rs) w1))) = Inr resp"
  by (rule closed_no_tokens [OF _ assms(2)]) (use ExchangeDevice_Inr [OF assms(1)] in \<open>auto simp: closed_code_def\<close>)

text \<open>C13: a denial is final. Once a user has denied a pending authorization, no later approval, poll or other
  request makes its device code yield tokens.\<close>

theorem device_denial_final:
  assumes "run_state (DenyDeviceCode e t uc) w = (Inr (), w1)"
    and "dc \<in> set (device_codes w)" "dc_TenantID dc = t" "dc_UserCode dc = NormalizeUserCode e uc" "dc_DeviceCode dc = hashToken code"
    and "distinct (map dc_UserCode (device_codes w))" "distinct (map dc_DeviceCode (device_codes w))"
    and "\<forall>(e, r) \<in> set rs. fresh_code (hashToken code) e"
  shows "\<nexists>resp. fst (run_state (ExchangeDeviceCode e2 t c2 code) (snd (run_state (device_run rs) w1))) = Inr resp"
proof (rule closed_no_tokens [OF _ assms(8)])
  have "find (\<lambda>x. dc_TenantID x = t \<and> dc_UserCode x = NormalizeUserCode e uc) (device_codes w) = Some dc"
    using assms(2-4) distinct_map_eq [OF assms(6)] by (intro find_unique) auto
  then have "run_state (DeviceCode_Update e (dc\<lparr>dc_Status := DeviceCodeDenied\<rparr>)) (w\<lparr>stmts := Suc (stmts w)\<rparr>) = (Inr (), w1)"
    using assms(1) by (auto simp: DenyDeviceCode_def resolveDeviceCode_def orReturn_Inr_iff run_failWith
        DeviceCode_GetByUserCode_def device_codes.First_Inr split: if_splits)
  then have "device_codes w1 = save_row dc_ID (dc\<lparr>dc_Status := DeviceCodeDenied\<rparr>) (device_codes w)"
    by (auto simp: DeviceUpdate_run split: if_splits)
  then show "closed_code t (hashToken code) w1"
    using distinct_map_eq [OF assms(7) _ assms(2)] assms(5)
    by (auto simp: closed_code_def save_row_set)
qed

section \<open>Instances\<close>

definition sample_device :: DeviceCode where
  "sample_device = \<lparr>dc_ID = 60, dc_TenantID = 1, dc_DeviceCode = hashToken ''abc'', dc_UserCode = ''BCDFGHJK'', dc_ClientID = 5,
     dc_UserID = Some 7, dc_Scope = ''read'', dc_Status = DeviceCodeApproved, dc_Interval = 5, dc_LastPolledAt = None,
     dc_AuthTime = Some 900, dc_AMR = [''pwd''], dc_ExpiresAt = 2000, dc_CreatedAt = 500\<rparr>"

definition device_world :: world where
  "device_world = empty_world\<lparr>users := [sample_user], clients := [sample_client], device_codes := [sample_device]\<rparr>"

definition pending_world :: world where
  "pending_world = empty_world\<lparr>users := [sample_user], clients := [sample_client],
     device_codes := [sample_device\<lparr>dc_Status := DeviceCodePending, dc_UserID := None, dc_AuthTime := None, dc_AMR := []\<rparr>]\<rparr>"

definition subject_world :: world where
  "subject_world = empty_world\<lparr>users := [sample_user], clients := [sample_client], access_tokens :=
     [\<lparr>at_ID = 50, at_TenantID = 1, at_Token = hashToken ''abc'', at_ClientID = 6, at_UserID = 7, at_FamilyID = 40,
       at_Scope = ''openid'', at_ExpiresAt = 2000, at_CreatedAt = 500\<rparr>]\<rparr>"

text \<open>Two tokens each, with known hashes: the octets of RFC 7636, and the two bytes written \<open>abc\<close>.\<close>

definition polls_env :: env where
  "polls_env = sample_env
     \<lparr>randBytes := (\<lambda>n _. Some (if n = 2 then rfc7636_octets else [CHR 0x69, CHR 0xB7])),
      jwt := sample_jwt\<lparr>SignedString := (\<lambda>h p k. case p of
        AccessTokenPayload c \<Rightarrow> Inr (if length (jc_Jti c) = 100 then rfc7636_verifier else ''abc'') | IDTokenPayload c \<Rightarrow> Inr ''id'')\<rparr>\<rparr>"

lemma b64url_abc: "b64url [CHR 0x69, CHR 0xB7] = ''abc''"
  by code_simp

lemma sample_no_fails [simp]: "\<not> fails sample_env n" "\<not> fails polls_env n"
  by (simp_all add: polls_env_def sample_env_def)

lemmas device_sample_defs =
  sample_defs device_world_def pending_world_def subject_world_def sample_device_def pollDeviceCode_def pollTooFast_def
  DeviceCode_Delete_def DeviceUpdate_run save_row_def device_codes.Delete_run DeviceCode_GetByDeviceCode_def
  DeviceCode_GetByUserCode_def device_codes.First_run device_codes_clash_def DeviceCode_IsExpired_def ExchangeDeviceCode_def
  issueTokens_def issueAccessToken_def generateJWT_def issueRefreshToken_def

lemma sample_userCode: "\<exists>code w'. run_state (generateUserCode_loop sample_env i) w = (Inr code, w')"
proof (induction i arbitrary: w)
  case (Suc i)
  obtain code w' where "run_state (generateUserCode_loop sample_env i) (w\<lparr>draws := Suc (draws w)\<rparr>) = (Inr code, w')"
    using Suc by blast
  then show ?case
    by (simp add: run_orReturn run_succeed sample_env_def [THEN arg_cong [of _ _ randInt]])
qed (simp add: run_succeed)

theorem user_code_roundtrip_witness:
  "\<exists>code w'. run_state (generateUserCode sample_env) empty_world = (Inr code, w')
     \<and> NormalizeUserCode sample_env (FormatUserCode code) = code
     \<and> NormalizeUserCode sample_env (map ascii_lower (FormatUserCode code)) = code"
proof -
  obtain code w' where r: "run_state (generateUserCode sample_env) empty_world = (Inr code, w')"
    using sample_userCode unfolding generateUserCode_def by blast
  have "\<forall>n k. randInt sample_env n (length userCodeCharset) = Some k \<longrightarrow> k < length userCodeCharset"
    by (auto simp: sample_env_def userCodeCharset_def)
  from user_code_roundtrip [OF r this] r show ?thesis
    by blast
qed

lemma sample_device_run: "\<exists>resp w1. run_state (ExchangeDeviceCode sample_env 1 sample_client ''abc'') device_world = (Inr resp, w1)"
  by (simp add: device_sample_defs sql_defs monad_simps)

theorem device_exchange_authorized_witness:
  "\<exists>resp w1. run_state (ExchangeDeviceCode sample_env 1 sample_client ''abc'') device_world = (Inr resp, w1) \<and> tr_Scope resp = ''read''"
proof -
  obtain resp w1 where r: "run_state (ExchangeDeviceCode sample_env 1 sample_client ''abc'') device_world = (Inr resp, w1)"
    using sample_device_run by blast
  have "tr_Scope resp = ''read''"
    using device_exchange_authorized [OF r] by (auto simp: device_world_def sample_device_def empty_world_def issued_def)
  with r show ?thesis
    by blast
qed

theorem device_code_single_use_witness:
  "\<exists>resp w1. run_state (ExchangeDeviceCode sample_env 1 sample_client ''abc'') device_world = (Inr resp, w1)
     \<and> (\<nexists>r. fst (run_state (ExchangeDeviceCode sample_env 1 sample_client ''abc'')
            (snd (run_state (device_run [(sample_env, ApproveDevice 1 ''bcdf-ghjk'' 7 [])]) w1))) = Inr r)"
proof -
  obtain resp w1 where r: "run_state (ExchangeDeviceCode sample_env 1 sample_client ''abc'') device_world = (Inr resp, w1)"
    using sample_device_run by blast
  have "\<forall>(e, r) \<in> set [(sample_env, ApproveDevice 1 ''bcdf-ghjk'' 7 [])]. fresh_code (hashToken ''abc'') e"
    by (simp add: fresh_code_def sample_env_def rfc7636_encode)
  with r show ?thesis
    using device_code_single_use [OF r] by blast
qed

lemma sample_normalize: "NormalizeUserCode e ''BCDFGHJK'' = ''BCDFGHJK''"
  using FormatUserCode_normal [of "''BCDFGHJK''" e]
  by (subst NormalizeUserCode_ascii) (auto simp: byte_code_def ascii_upper_def)

theorem device_denial_final_witness:
  "\<exists>w1. run_state (DenyDeviceCode sample_env 1 ''BCDFGHJK'') pending_world = (Inr (), w1)
     \<and> (\<nexists>r. fst (run_state (ExchangeDeviceCode sample_env 1 sample_client ''abc'')
            (snd (run_state (device_run [(sample_env, ApproveDevice 1 ''BCDFGHJK'' 7 [])]) w1))) = Inr r)"
proof -
  have "fst (run_state (DenyDeviceCode sample_env 1 ''BCDFGHJK'') pending_world) = Inr ()"
    by (simp add: DenyDeviceCode_def resolveDeviceCode_def sample_normalize device_sample_defs monad_simps)
  then obtain w1 where r: "run_state (DenyDeviceCode sample_env 1 ''BCDFGHJK'') pending_world = (Inr (), w1)"
    by (metis prod.collapse)
  have "\<forall>(e, r) \<in> set [(sample_env, ApproveDevice 1 ''BCDFGHJK'' 7 [])]. fresh_code (hashToken ''abc'') e"
    by (simp add: fresh_code_def sample_env_def rfc7636_encode)
  moreover have "device_codes pending_world = [sample_device\<lparr>dc_Status := DeviceCodePending, dc_UserID := None, dc_AuthTime := None, dc_AMR := []\<rparr>]"
    by (simp add: pending_world_def)
  moreover define rs where "rs = [(sample_env, ApproveDevice 1 ''BCDFGHJK'' 7 [])]"
  ultimately show ?thesis
    using device_denial_final [OF r, of "hd (device_codes pending_world)" "''abc''" rs] r
    unfolding rs_def [symmetric] by (simp add: sample_device_def sample_normalize)
qed

lemma sample_typ: "strings_TrimPrefix (strings_ToLower (\<lambda>s. s) TypeAccessToken) ''application/'' = strings_ToLower (\<lambda>s. s) TypeAccessToken"
  by code_simp

lemma sample_openid: "strings_TrimSpace ''openid'' = ''openid''" "ParseScope ''openid'' = [''openid'']"
  "ScopeIsSubset ''openid'' ''read openid''"
  by code_simp+

lemma sample_openid_granted: "c_Scopes c = [''read'', ''openid''] \<Longrightarrow> ValidateScopeForClient c ''openid'' = Inr ''openid''"
  by (simp add: ValidateScopeForClient_def sample_openid)


section \<open>Concurrent polls\<close>

text \<open>Two polls read the row before either goes on. The device code is removed before the tokens are issued, but
  \<^const>\<open>DeviceCode_Delete\<close> does not report whether it removed a row: both polls get tokens, although the code is
  meant to be single-use.\<close>

definition racing_polls :: "env \<Rightarrow> uuid \<Rightarrow> Client \<Rightarrow> string \<Rightarrow> (world, (err + TokenResponse) \<times> (err + TokenResponse)) state" where
  "racing_polls e t c code = do {
     a \<leftarrow> DeviceCode_GetByDeviceCode e t (hashToken code);
     b \<leftarrow> DeviceCode_GetByDeviceCode e t (hashToken code);
     r1 \<leftarrow> orReturn (State_Monad.return a) id (pollDeviceCode e t c);
     r2 \<leftarrow> orReturn (State_Monad.return b) id (pollDeviceCode e t c);
     State_Monad.return (r1, r2)
   }"

lemma racing_first:
  "\<exists>r1 a r ev n. run_state (pollDeviceCode polls_env 1 sample_client sample_device) (device_world\<lparr>stmts := 2\<rparr>) =
     (Inr r1, device_world\<lparr>stmts := n, draws := 4, device_codes := [], access_tokens := [a], refresh_tokens := [r], events := [ev]\<rparr>)
     \<and> at_ID a = 101 \<and> at_Token a = hashToken rfc7636_verifier \<and> rt_ID r = 103 \<and> rt_Token r = hashToken rfc7636_verifier"
  by (simp add: device_sample_defs sql_defs monad_simps polls_env_def b64url_abc accessTokenClaims_def)

lemma racing_second:
  assumes "at_ID a = 101" "at_Token a = hashToken rfc7636_verifier" "rt_ID r = 103" "rt_Token r = hashToken rfc7636_verifier"
  shows "\<exists>r2. fst (run_state (pollDeviceCode polls_env 1 sample_client sample_device)
     (device_world\<lparr>stmts := n, draws := 4, device_codes := [], access_tokens := [a], refresh_tokens := [r], events := [ev]\<rparr>)) = Inr r2"
  using assms by (simp add: device_sample_defs sql_defs monad_simps polls_env_def b64url_abc accessTokenClaims_def)

theorem device_code_race:
  "\<exists>r1 r2. fst (run_state (racing_polls polls_env 1 sample_client ''abc'') device_world) = (Inr r1, Inr r2)"
proof -
  have get: "run_state (DeviceCode_GetByDeviceCode polls_env 1 (hashToken ''abc'')) (device_world\<lparr>stmts := n\<rparr>)
      = (Inr sample_device, device_world\<lparr>stmts := Suc n\<rparr>)" for n
    by (simp add: DeviceCode_GetByDeviceCode_def device_codes.First_run device_world_def sample_device_def)
  have "device_world = device_world\<lparr>stmts := 0\<rparr>"
    by (simp add: device_world_def empty_world_def)
  then have gets: "run_state (DeviceCode_GetByDeviceCode polls_env 1 (hashToken ''abc'')) device_world = (Inr sample_device, device_world\<lparr>stmts := 1\<rparr>)"
    "run_state (DeviceCode_GetByDeviceCode polls_env 1 (hashToken ''abc'')) (device_world\<lparr>stmts := 1\<rparr>) = (Inr sample_device, device_world\<lparr>stmts := 2\<rparr>)"
    using get [of 0] get [of 1] by (simp_all add: numeral_2_eq_2)
  note gets = gets [unfolded One_nat_def]
  obtain r1 a r ev n where first: "run_state (pollDeviceCode polls_env 1 sample_client sample_device) (device_world\<lparr>stmts := 2\<rparr>) =
     (Inr r1, device_world\<lparr>stmts := n, draws := 4, device_codes := [], access_tokens := [a], refresh_tokens := [r], events := [ev]\<rparr>)"
    "at_ID a = 101" "at_Token a = hashToken rfc7636_verifier" "rt_ID r = 103" "rt_Token r = hashToken rfc7636_verifier"
    using racing_first by blast
  obtain r2 w2 where "run_state (pollDeviceCode polls_env 1 sample_client sample_device)
     (device_world\<lparr>stmts := n, draws := 4, device_codes := [], access_tokens := [a], refresh_tokens := [r], events := [ev]\<rparr>) = (Inr r2, w2)"
    using racing_second [OF first(2-)] by (metis prod.collapse)
  then show ?thesis
    by (simp add: racing_polls_def run_bind run_orReturn run_return gets first(1))
qed

text \<open>Recording a poll writes the whole row back (gorm's \<^verbatim>\<open>Save\<close>), so a poll that read the row before the user
  approved it undoes the approval.\<close>

theorem device_poll_loses_approval:
  "\<exists>dc w0 w1 w2.
     run_state (DeviceCode_GetByDeviceCode sample_env 1 (hashToken ''abc'')) pending_world = (Inr dc, w0)
     \<and> run_state (ApproveDeviceCode sample_env 1 ''BCDFGHJK'' 7 []) w0 = (Inr (), w1)
     \<and> map dc_Status (device_codes w1) = [DeviceCodeApproved]
     \<and> run_state (pollDeviceCode sample_env 1 sample_client dc) w1 = (Inl ErrAuthorizationPending, w2)
     \<and> map dc_Status (device_codes w2) = [DeviceCodePending]"
  by (simp add: ApproveDeviceCode_def resolveDeviceCode_def sample_normalize device_sample_defs monad_simps)

end
