(* ===== verification/SessionService.thy ===== *)
theory SessionService
  imports Samples
begin

text \<open>Login sessions and remembered consent (\<^verbatim>\<open>internal/services/session_service_impl.go\<close>).\<close>

definition sessionTokenBytes :: nat where
  "sessionTokenBytes = 32"

definition CreateSession :: "env \<Rightarrow> uuid \<Rightarrow> uuid \<Rightarrow> string list \<Rightarrow> string \<Rightarrow> string \<Rightarrow> (string \<times> Session) op" where
  "CreateSession e tenantID userID amr ipAddress userAgent =
     orReturn (randomToken e sessionTokenBytes) (Wrapped ''failed to generate session token'') (\<lambda>token. do {
       i \<leftarrow> uuid_New e;
       let session = \<lparr>s_ID = i, s_TenantID = tenantID, s_UserID = userID, s_TokenHash = hashToken token,
             s_AuthTime = now e, s_AMR = amr, s_IPAddress = ipAddress, s_UserAgent = userAgent,
             s_ExpiresAt = now e + cf_SessionDuration (config e), s_CreatedAt = zero_time\<rparr>;
       orReturn (Session_Create e session) (Wrapped ''failed to store session'')
         (\<lambda>_. succeed (token, session\<lparr>s_CreatedAt := autoCreateTime e zero_time\<rparr>))
     })"

definition GetSession :: "env \<Rightarrow> uuid \<Rightarrow> string \<Rightarrow> Session op" where
  "GetSession e tenantID token =
     (if token = [] then failWith ErrSessionNotFound
      else orReturn (Session_GetByTokenHash e tenantID (hashToken token)) id (\<lambda>session.
        if Session_IsExpired (now e) session then do {
          _ \<leftarrow> Session_DeleteByTokenHash e tenantID (s_TokenHash session);
          failWith ErrSessionNotFound
        }
        else succeed session))"

definition EndSession :: "env \<Rightarrow> uuid \<Rightarrow> string \<Rightarrow> unit op" where
  "EndSession e tenantID token =
     (if token = [] then succeed () else Session_DeleteByTokenHash e tenantID (hashToken token))"

definition CleanupExpiredSessions :: "env \<Rightarrow> unit op" where
  "CleanupExpiredSessions e = Session_DeleteExpired e"

section \<open>Consent\<close>

definition HasConsent :: "env \<Rightarrow> uuid \<Rightarrow> uuid \<Rightarrow> uuid \<Rightarrow> string \<Rightarrow> bool op" where
  "HasConsent e tenantID userID clientID scope = do {
     r \<leftarrow> Consent_Get e tenantID userID clientID;
     case r of
       Inl er \<Rightarrow> if errors_Is er ErrResourceNotFound then succeed False else failWith er
     | Inr consent \<Rightarrow> succeed (ScopeIsSubset scope (co_Scope consent))
   }"

text \<open>The loop over \<open>a\<close> then \<open>b\<close>; \<open>seen\<close> is the map and \<open>out\<close> the slice.\<close>

fun unionScopes_loop :: "(string \<Rightarrow> bool) \<Rightarrow> string list \<Rightarrow> string list \<Rightarrow> string list" where
  "unionScopes_loop seen out [] = out"
| "unionScopes_loop seen out (s # ss) =
     (if \<not> seen s then unionScopes_loop (seen(s := True)) (out @ [s]) ss else unionScopes_loop seen out ss)"

definition unionScopes :: "string list \<Rightarrow> string list \<Rightarrow> string list" where
  "unionScopes a b = unionScopes_loop (\<lambda>_. False) [] (a @ b)"

definition GrantConsent :: "env \<Rightarrow> uuid \<Rightarrow> uuid \<Rightarrow> uuid \<Rightarrow> string \<Rightarrow> unit op" where
  "GrantConsent e tenantID userID clientID scope = do {
     let granted = ParseScope scope;
     r \<leftarrow> Consent_Get e tenantID userID clientID;
     orReturn (State_Monad.return (case r of
         Inr existing \<Rightarrow> Inr (unionScopes (ParseScope (co_Scope existing)) granted)
       | Inl er \<Rightarrow> if \<not> errors_Is er ErrResourceNotFound then Inl er else Inr granted)) id (\<lambda>granted. do {
       i \<leftarrow> uuid_New e;
       Consent_Upsert e
         \<lparr>co_ID = i, co_TenantID = tenantID, co_UserID = userID, co_ClientID = clientID,
          co_Scope = strings_Join granted '' '', co_CreatedAt = zero_time, co_UpdatedAt = now e\<rparr>
     })
   }"

section \<open>Properties\<close>

lemma b64url_empty: "b64url [] = []"
  by code_simp

lemma Session_Get_run:
  "run_state (Session_GetByTokenHash e t h) w =
     (if fails e (stmts w) then Inl (Wrapped ''failed to get session'' DBError)
      else case find (\<lambda>s. s_TenantID s = t \<and> s_TokenHash s = h) (sessions w) of None \<Rightarrow> Inl ErrSessionNotFound | Some s \<Rightarrow> Inr s,
      w\<lparr>stmts := Suc (stmts w)\<rparr>)"
  by (simp add: Session_GetByTokenHash_def sessions.First_run)

lemma GetSession_absent:
  assumes "\<forall>s \<in> set (sessions w). s_TenantID s = t \<longrightarrow> s_TokenHash s \<noteq> hashToken tok" "\<not> fails e (stmts w)"
  shows "fst (run_state (GetSession e t tok) w) = Inl ErrSessionNotFound"
proof -
  have "find (\<lambda>s. s_TenantID s = t \<and> s_TokenHash s = hashToken tok) (sessions w) = None"
    using assms(1) by (auto simp: find_None_iff)
  then show ?thesis
    using assms(2) by (simp add: GetSession_def run_failWith run_orReturn Session_Get_run)
qed

lemma CreateSession_Inr:
  assumes "run_state (CreateSession e t u amr ip ua) w = (Inr (tok, s), w1)"
  shows "sessions w1 = sessions w @ [s] \<and> (\<forall>x \<in> set (sessions w). s_TokenHash x \<noteq> hashToken tok)
    \<and> s_TenantID s = t \<and> s_UserID s = u \<and> s_TokenHash s = hashToken tok \<and> s_AMR s = amr \<and> s_AuthTime s = now e
    \<and> s_ExpiresAt s = now e + cf_SessionDuration (config e)
    \<and> (\<exists>n bs. randBytes e n 32 = Some bs \<and> tok = b64url bs)"
  using assms
  by (auto simp: CreateSession_def orReturn_Inr_iff run_bind run_uuid_New run_succeed run_randomToken Session_Create_def
      sessions.Insert_Inr sessions_clash_def Let_def autoCreateTime_def sessionTokenBytes_def split: option.splits)

text \<open>C15: a session lives exactly from its creation to its expiry or its end. With the token that was returned it is found
  for its own tenant, as created, while it has not expired; later, or after a logout, it is not, and no other tenant finds
  it. Only the token's hash is stored.\<close>

theorem session_lifetime:
  assumes "run_state (CreateSession e t u amr ip ua) w = (Inr (tok, s), w1)"
    and "\<forall>n bs. randBytes e n 32 = Some bs \<longrightarrow> bs \<noteq> []" "\<forall>n. \<not> fails e2 n"
  shows "fst (run_state (GetSession e2 t tok) w1) = (if now e2 < s_ExpiresAt s then Inr s else Inl ErrSessionNotFound)
    \<and> s_UserID s = u \<and> s_AMR s = amr \<and> s_AuthTime s = now e \<and> s_ExpiresAt s = now e + cf_SessionDuration (config e)
    \<and> (t2 = t \<or> fst (run_state (GetSession e2 t2 tok) w1) = Inl ErrSessionNotFound)
    \<and> fst (run_state (GetSession e2 t tok) (snd (run_state (EndSession e2 t tok) w1))) = Inl ErrSessionNotFound
    \<and> (\<forall>x \<in> set (sessions w1). s_TokenHash x = hashToken tok \<longrightarrow> x = s)"
proof -
  note c = CreateSession_Inr [OF assms(1)]
  have tok: "tok \<noteq> []"
    using c assms(2) b64url_inj [of _ "[]"] b64url_empty by metis
  have "find (\<lambda>s. s_TenantID s = t \<and> s_TokenHash s = hashToken tok) (sessions w1) = Some s"
    using c by (intro find_unique) auto
  then have "fst (run_state (GetSession e2 t tok) w1) = (if now e2 < s_ExpiresAt s then Inr s else Inl ErrSessionNotFound)"
    using assms(3) tok by (simp add: GetSession_def run_orReturn Session_Get_run Session_IsExpired_def run_succeed run_bind
        run_failWith split: prod.split)
  moreover have "t2 = t \<or> fst (run_state (GetSession e2 t2 tok) w1) = Inl ErrSessionNotFound"
    using c assms(3) GetSession_absent [of w1 t2 tok e2] by auto
  moreover have "fst (run_state (GetSession e2 t tok) (snd (run_state (EndSession e2 t tok) w1))) = Inl ErrSessionNotFound"
    using assms(3) tok by (intro GetSession_absent)
      (auto simp: EndSession_def Session_DeleteByTokenHash_def sessions.Delete_run)
  ultimately show ?thesis
    using c by auto
qed

definition consentedScopes :: "uuid \<Rightarrow> uuid \<Rightarrow> uuid \<Rightarrow> world \<Rightarrow> string set" where
  "consentedScopes t u c w =
     (case find (\<lambda>r. co_TenantID r = t \<and> co_UserID r = u \<and> co_ClientID r = c) (consents w) of
        None \<Rightarrow> {} | Some r \<Rightarrow> set (ParseScope (co_Scope r)))"

lemma unionScopes_loop_set: "(\<forall>s. seen s \<longleftrightarrow> s \<in> set out) \<Longrightarrow>
    set (unionScopes_loop seen out ss) = set out \<union> set ss \<and> (distinct out \<longrightarrow> distinct (unionScopes_loop seen out ss))"
  by (induction seen out ss rule: unionScopes_loop.induct) auto

lemma unionScopes_set: "set (unionScopes a b) = set a \<union> set b" "distinct (unionScopes a b)"
  using unionScopes_loop_set [of "\<lambda>_. False" "[]" "a @ b"] by (auto simp: unionScopes_def)

lemma find_map_update:
  assumes "\<And>r. P (f r) = P r"
  shows "find P (map f rs) = map_option f (find P rs)"
  using assms by (induction rs) auto

lemma ParseScope_word: "s \<in> set (ParseScope x) \<Longrightarrow> ParseScope s = [s]"
  unfolding ParseScope_def by (rule Fields_word) (simp_all add: Fields_words)

lemma unionScopes_parsed:
  "set (ParseScope (strings_Join (unionScopes (ParseScope x) (ParseScope y)) '' '')) = set (ParseScope x) \<union> set (ParseScope y)"
  by (auto simp: ParseScope_Join unionScopes_set ParseScope_word)

lemma Consent_Get_run:
  "run_state (Consent_Get e t u c) w =
     (if fails e (stmts w) then Inl (Wrapped ''failed to get consent'' DBError)
      else case find (\<lambda>r. co_TenantID r = t \<and> co_UserID r = u \<and> co_ClientID r = c) (consents w) of
        None \<Rightarrow> Inl ErrResourceNotFound | Some r \<Rightarrow> Inr r,
      w\<lparr>stmts := Suc (stmts w)\<rparr>)"
  by (simp add: Consent_Get_def consents.First_run)

lemma HasConsent_run:
  assumes "\<not> fails e (stmts w)"
  shows "fst (run_state (HasConsent e t u c r) w) =
    Inr (case find (\<lambda>x. co_TenantID x = t \<and> co_UserID x = u \<and> co_ClientID x = c) (consents w) of
       None \<Rightarrow> False | Some x \<Rightarrow> ScopeIsSubset r (co_Scope x))"
  using assms by (simp add: HasConsent_def run_bind Consent_Get_run run_succeed split: option.split)

lemma Upsert_table:
  assumes "run_state (Consent_Upsert e co) w = (Inr v, w')"
  obtains f row where "\<forall>x. consent_key (f x) = consent_key x" "\<forall>x. consent_key x = consent_key co \<longrightarrow> co_Scope (f x) = co_Scope co"
    "\<forall>x. consent_key x \<noteq> consent_key co \<longrightarrow> f x = x" "consent_key row = consent_key co" "co_Scope row = co_Scope co"
    "consents w' = (if find (\<lambda>x. consent_key x = consent_key co) (consents w) = None then consents w @ [row] else map f (consents w))"
proof
  let ?row = "co\<lparr>co_CreatedAt := autoCreateTime e (co_CreatedAt co), co_UpdatedAt := autoCreateTime e (co_UpdatedAt co)\<rparr>"
  let ?f = "\<lambda>c. if consent_key c = consent_key ?row then c\<lparr>co_Scope := co_Scope ?row, co_UpdatedAt := co_UpdatedAt ?row\<rparr> else c"
  have keys: "consent_key ?row = consent_key co"
    by (simp add: consent_key_def)
  show "\<forall>x. consent_key (?f x) = consent_key x"
    by (simp add: consent_key_def)
  show "\<forall>x. consent_key x = consent_key co \<longrightarrow> co_Scope (?f x) = co_Scope co"
    "\<forall>x. consent_key x \<noteq> consent_key co \<longrightarrow> ?f x = x" "consent_key ?row = consent_key co" "co_Scope ?row = co_Scope co"
    unfolding keys by simp_all
  have "find (\<lambda>x. consent_key x = consent_key co) rs = None \<longleftrightarrow> \<not> list_ex (\<lambda>c. consent_key c = consent_key ?row) rs" for rs
    by (auto simp: find_None_iff list_ex_iff consent_key_def)
  then show "consents w' = (if find (\<lambda>x. consent_key x = consent_key co) (consents w) = None then consents w @ [?row] else map ?f (consents w))"
    using assms by (auto simp: Consent_Upsert_def run_mapErr run_runSQL Let_def split: if_splits)
qed

lemma Upsert_Inr:
  assumes "run_state (Consent_Upsert e co) w = (Inr v, w')"
  shows "\<exists>x. find (\<lambda>x. consent_key x = consent_key co) (consents w') = Some x \<and> co_Scope x = co_Scope co"
    and "k \<noteq> consent_key co \<Longrightarrow> find (\<lambda>x. consent_key x = k) (consents w') = find (\<lambda>x. consent_key x = k) (consents w)"
proof -
  obtain f row where f: "\<forall>x. consent_key (f x) = consent_key x" "\<forall>x. consent_key x = consent_key co \<longrightarrow> co_Scope (f x) = co_Scope co"
    "\<forall>x. consent_key x \<noteq> consent_key co \<longrightarrow> f x = x" "consent_key row = consent_key co" "co_Scope row = co_Scope co"
    "consents w' = (if find (\<lambda>x. consent_key x = consent_key co) (consents w) = None then consents w @ [row] else map f (consents w))"
    using Upsert_table [OF assms] .
  have m: "find (\<lambda>x. consent_key x = k) (map f rs) = map_option f (find (\<lambda>x. consent_key x = k) rs)" for k rs
    by (rule find_map_update) (simp add: f(1))
  show "\<exists>x. find (\<lambda>x. consent_key x = consent_key co) (consents w') = Some x \<and> co_Scope x = co_Scope co"
  proof (cases "find (\<lambda>x. consent_key x = consent_key co) (consents w)")
    case None
    then show ?thesis
      by (simp add: f find_append)
  next
    case (Some x)
    then show ?thesis
      using find_SomeD [OF Some] by (simp add: f(6) m f(2))
  qed
  assume k: "k \<noteq> consent_key co"
  show "find (\<lambda>x. consent_key x = k) (consents w') = find (\<lambda>x. consent_key x = k) (consents w)"
  proof (cases "find (\<lambda>x. consent_key x = k) (consents w)")
    case None
    then show ?thesis
      using k by (simp add: f(6) m find_append f(4))
  next
    case (Some x)
    then show ?thesis
      using k find_SomeD [OF Some] by (simp add: f(6) m find_append f(3))
  qed
qed

lemma GrantConsent_Inr:
  assumes "run_state (GrantConsent e t u c scope) w = (Inr v, w1)" "\<forall>n. \<not> fails e2 n"
  shows "fst (run_state (HasConsent e2 t u c r) w1)
      = Inr (set (ParseScope r) \<subseteq> consentedScopes t u c w \<union> set (ParseScope scope))
    \<and> consentedScopes t u c w1 = consentedScopes t u c w \<union> set (ParseScope scope)
    \<and> ((t2, u2, c2) = (t, u, c) \<or> consentedScopes t2 u2 c2 w1 = consentedScopes t2 u2 c2 w)"
proof -
  have keyeq: "(\<lambda>x. co_TenantID x = t' \<and> co_UserID x = u' \<and> co_ClientID x = c') = (\<lambda>x. consent_key x = (t', u', c'))" for t' u' c'
    by (auto simp: consent_key_def)
  define old where "old = find (\<lambda>x. consent_key x = (t, u, c)) (consents w)"
  define granted where "granted = (case old of None \<Rightarrow> ParseScope scope
      | Some x \<Rightarrow> unionScopes (ParseScope (co_Scope x)) (ParseScope scope))"
  have up: "run_state (Consent_Upsert e \<lparr>co_ID = newUUID e (draws w), co_TenantID = t, co_UserID = u, co_ClientID = c,
          co_Scope = strings_Join granted '' '', co_CreatedAt = zero_time, co_UpdatedAt = now e\<rparr>)
        (w\<lparr>stmts := Suc (stmts w), draws := Suc (draws w)\<rparr>) = (Inr v, w1)"
    using assms(1)
    by (auto simp: GrantConsent_def Let_def run_bind Consent_Get_run orReturn_Inr_iff run_return run_uuid_New old_def granted_def
        keyeq split: if_splits option.splits)
  have set_granted: "set (ParseScope (strings_Join granted '' '')) = consentedScopes t u c w \<union> set (ParseScope scope)"
    unfolding granted_def consentedScopes_def keyeq old_def [symmetric]
    by (cases old) (simp_all add: unionScopes_parsed)
  have key: "consent_key \<lparr>co_ID = i, co_TenantID = t, co_UserID = u, co_ClientID = c,
      co_Scope = s, co_CreatedAt = a, co_UpdatedAt = b\<rparr> = (t, u, c)" for i s a b
    by (simp add: consent_key_def)
  obtain x where x: "find (\<lambda>x. consent_key x = (t, u, c)) (consents w1) = Some x" "co_Scope x = strings_Join granted '' ''"
    using Upsert_Inr(1) [OF up] unfolding key by auto
  have other: "consentedScopes t2 u2 c2 w1 = consentedScopes t2 u2 c2 w" if "(t2, u2, c2) \<noteq> (t, u, c)"
    using Upsert_Inr(2) [OF up, of "(t2, u2, c2)"] that unfolding key consentedScopes_def keyeq by simp
  have same: "consentedScopes t u c w1 = consentedScopes t u c w \<union> set (ParseScope scope)"
    unfolding consentedScopes_def [of t u c w1] keyeq by (simp add: x set_granted)
  have "fst (run_state (HasConsent e2 t u c r) w1)
      = Inr (set (ParseScope r) \<subseteq> consentedScopes t u c w \<union> set (ParseScope scope))"
    using assms(2) by (simp add: HasConsent_run keyeq x ScopeIsSubset_iff set_granted)
  with same other show ?thesis
    by blast
qed

text \<open>C16: consent accumulates. After a grant the user is not asked again exactly for requests within what was granted
  before together with the new scopes, and the consent for any other tenant, user or client is as it was.\<close>

theorem consent_accumulates:
  assumes "run_state (GrantConsent e t u c scope) w = (Inr v, w1)" "\<forall>n. \<not> fails e2 n"
  shows "fst (run_state (HasConsent e2 t u c r) w1)
      = Inr (set (ParseScope r) \<subseteq> consentedScopes t u c w \<union> set (ParseScope scope))
    \<and> consentedScopes t u c w1 = consentedScopes t u c w \<union> set (ParseScope scope)
    \<and> ((t2, u2, c2) = (t, u, c) \<or> consentedScopes t2 u2 c2 w1 = consentedScopes t2 u2 c2 w)"
  by (rule GrantConsent_Inr [OF assms])

theorem session_lifetime_witness:
  "\<exists>tok s w1. run_state (CreateSession sample_env 1 7 [''pwd''] [] []) sample_world = (Inr (tok, s), w1)
     \<and> fst (run_state (GetSession sample_env 1 tok) w1) = Inr s
     \<and> fst (run_state (GetSession (sample_env\<lparr>now := 10000000000000\<rparr>) 1 tok) w1) = Inl ErrSessionNotFound"
proof -
  have "\<exists>tok s w1. run_state (CreateSession sample_env 1 7 [''pwd''] [] []) sample_world = (Inr (tok, s), w1)"
    by (simp add: CreateSession_def sessionTokenBytes_def Session_Create_def sessions.Insert_run sample_defs monad_simps)
  then obtain tok s w1 where r: "run_state (CreateSession sample_env 1 7 [''pwd''] [] []) sample_world = (Inr (tok, s), w1)"
    by blast
  have oct: "rfc7636_octets \<noteq> []"
    by (simp add: rfc7636_octets_def)
  have "s_ExpiresAt s = 1000 + seconds 3600"
    using session_lifetime [OF r, of sample_env] oct by (simp add: sample_env_def sample_config_def)
  then show ?thesis
    using session_lifetime [OF r, of sample_env 1] session_lifetime [OF r, of "sample_env\<lparr>now := 10000000000000\<rparr>" 1] r oct
    by (simp add: sample_env_def seconds_small)
qed

theorem consent_accumulates_witness:
  "\<exists>w1 w2. run_state (GrantConsent sample_env 1 7 5 ''read'') sample_world = (Inr (), w1)
     \<and> run_state (GrantConsent (sample_env\<lparr>newUUID := (\<lambda>_. 400)\<rparr>) 1 7 5 ''openid'') w1 = (Inr (), w2)
     \<and> fst (run_state (HasConsent sample_env 1 7 5 ''openid read'') w2) = Inr True"
proof -
  have "fst (run_state (GrantConsent sample_env 1 7 5 ''read'') sample_world) = Inr ()"
    by (simp add: GrantConsent_def Let_def Consent_Get_run Consent_Upsert_def sample_defs monad_simps)
  then obtain w1 where 1: "run_state (GrantConsent sample_env 1 7 5 ''read'') sample_world = (Inr (), w1)"
    by (metis prod.collapse)
  have "fst (run_state (GrantConsent (sample_env\<lparr>newUUID := (\<lambda>_. 400)\<rparr>) 1 7 5 ''openid'')
      (snd (run_state (GrantConsent sample_env 1 7 5 ''read'') sample_world))) = Inr ()"
    by (simp add: GrantConsent_def Let_def Consent_Get_run Consent_Upsert_def consent_key_def sample_defs monad_simps)
  then obtain w2 where 2: "run_state (GrantConsent (sample_env\<lparr>newUUID := (\<lambda>_. 400)\<rparr>) 1 7 5 ''openid'') w1 = (Inr (), w2)"
    unfolding 1 by (metis prod.collapse snd_conv)
  have nf: "\<forall>n. \<not> fails sample_env n"
    by (simp add: sample_env_def)
  have "ParseScope ''openid'' = [''openid'']" "ParseScope ''openid read'' = [''openid'', ''read'']"
    by code_simp+
  then show ?thesis
    using 1 2 consent_accumulates [OF 1 nf] consent_accumulates [OF 2 nf, of "''openid read''"] by auto
qed

end
