(* ===== verification/Hmac.thy ===== *)
theory Hmac
  imports Crypto
begin

text \<open>More of the standard library, used by the second factor and the client secret cache: SHA-1, HMAC, hexadecimal,
  base32, base64 with the standard alphabet, decimal numbers, the percent escaping of \<^verbatim>\<open>net/url\<close> and the decoding of
  UTF-8, all executable.\<close>

section \<open>SHA-1 and HMAC\<close>

definition sha1_init :: "32 word list" where
  "sha1_init = [1732584193, 4023233417, 2562383102, 271733878, 3285377520]"

text \<open>The two parts of a rotation have no bit in common, so their sum is their disjunction.\<close>

definition rotl32 :: "nat \<Rightarrow> 32 word \<Rightarrow> 32 word" where
  "rotl32 n x = push_bit n x + drop_bit (32 - n) x"

fun sha1_extend :: "nat \<Rightarrow> 32 word list \<Rightarrow> 32 word list" where
  "sha1_extend 0 ws = ws"
| "sha1_extend (Suc n) ws =
     (let x = ws ! 2 XOR ws ! 7 XOR ws ! 13 XOR ws ! 15 in sha1_extend n (rotl32 1 x # ws))"

definition sha1_ch :: "32 word \<Rightarrow> 32 word \<Rightarrow> 32 word \<Rightarrow> 32 word" where
  "sha1_ch b c d = (b AND c) OR (NOT b AND d)"

definition sha1_parity :: "32 word \<Rightarrow> 32 word \<Rightarrow> 32 word \<Rightarrow> 32 word" where
  "sha1_parity b c d = b XOR c XOR d"

definition sha1_maj :: "32 word \<Rightarrow> 32 word \<Rightarrow> 32 word \<Rightarrow> 32 word" where
  "sha1_maj b c d = (b AND c) OR (b AND d) OR (c AND d)"

text \<open>Four stages of twenty rounds.\<close>

definition sha1_stages :: "((32 word \<Rightarrow> 32 word \<Rightarrow> 32 word \<Rightarrow> 32 word) \<times> 32 word) list" where
  "sha1_stages = concat (map (replicate 20)
     [(sha1_ch, 1518500249), (sha1_parity, 1859775393), (sha1_maj, 2400959708), (sha1_parity, 3395469782)])"

fun sha1_round ::
  "((32 word \<Rightarrow> 32 word \<Rightarrow> 32 word \<Rightarrow> 32 word) \<times> 32 word) \<times> 32 word \<Rightarrow> 32 word list \<Rightarrow> 32 word list" where
  "sha1_round ((f, k), x) [a, b, c, d, e] = [rotl32 5 a + f b c d + e + k + x, a, rotl32 30 b, c, d]"
| "sha1_round _ hs = hs"

definition sha1_block :: "int list \<Rightarrow> 32 word list \<Rightarrow> 32 word list" where
  "sha1_block bs hs = map2 (+) hs (fold sha1_round (zip sha1_stages (rev (sha1_extend 64 (rev (be_words bs))))) hs)"

function sha1_blocks :: "int list \<Rightarrow> 32 word list \<Rightarrow> 32 word list" where
  "sha1_blocks bs hs = (if bs = [] then hs else sha1_blocks (drop 64 bs) (sha1_block (take 64 bs) hs))"
  by pat_completeness auto
termination
  by (relation "measure (\<lambda>(bs, _). length bs)") auto

declare sha1_blocks.simps [simp del]

definition sha1 :: "string \<Rightarrow> string" where
  "sha1 s = map char_of (concat (map be_bytes (sha1_blocks (sha256_pad (byte_codes s)) sha1_init)))"

text \<open>Both hashes have blocks of 64 bytes and share the padding.\<close>

definition xor_byte :: "nat \<Rightarrow> char \<Rightarrow> char" where
  "xor_byte n c = char_of (n XOR byte_code c)"

definition hmac :: "(string \<Rightarrow> string) \<Rightarrow> string \<Rightarrow> string \<Rightarrow> string" where
  "hmac H key msg =
     (let k = (if length key > 64 then H key else key);
          block = k @ replicate (64 - length k) (char_of (0 :: nat))
      in H (map (xor_byte 92) block @ H (map (xor_byte 54) block @ msg)))"

section \<open>Hexadecimal, base32 and base64\<close>

definition hex_digits :: string where
  "hex_digits = ''0123456789abcdef''"

definition hex_EncodeToString :: "string \<Rightarrow> string" where
  "hex_EncodeToString s = concat (map (\<lambda>c. [hex_digits ! (byte_code c div 16), hex_digits ! (byte_code c mod 16)]) s)"

definition b32_alphabet :: string where
  "b32_alphabet = ''ABCDEFGHIJKLMNOPQRSTUVWXYZ234567''"

text \<open>Five bytes are eight digits; the last group is cut to the digits that carry data.\<close>

definition b32_group :: "nat list \<Rightarrow> string" where
  "b32_group bs =
     (let n = fold (\<lambda>b v. v * 256 + b) (bs @ replicate (5 - length bs) 0) 0
      in map (\<lambda>i. b32_alphabet ! (n div 32 ^ i mod 32)) [7, 6, 5, 4, 3, 2, 1, 0])"

function b32_bytes :: "nat list \<Rightarrow> string" where
  "b32_bytes bs =
     (if bs = [] then []
      else if length bs < 5 then take ((length bs * 8 + 4) div 5) (b32_group bs)
      else b32_group (take 5 bs) @ b32_bytes (drop 5 bs))"
  by pat_completeness auto
termination
  by (relation "measure length") auto

declare b32_bytes.simps [simp del]

definition b32_EncodeToString :: "string \<Rightarrow> string" where
  "b32_EncodeToString s = b32_bytes (map byte_code s)"

text \<open>\<^verbatim>\<open>base64.RawStdEncoding\<close>. Decoding skips CR and LF and ignores the unused bits of the last digit.\<close>

definition b64std_char :: "char \<Rightarrow> char" where
  "b64std_char c = (if c = CHR ''-'' then CHR ''+'' else if c = CHR ''_'' then CHR ''/'' else c)"

definition b64std_EncodeToString :: "string \<Rightarrow> string" where
  "b64std_EncodeToString s = map b64std_char (b64url s)"

definition b64std_value :: "char \<Rightarrow> int option" where
  "b64std_value c =
     (case find (\<lambda>i. b64std_char (b64_alphabet ! i) = c) [0..<64] of None \<Rightarrow> None | Some i \<Rightarrow> Some (int i))"

fun b64_values :: "string \<Rightarrow> int list option" where
  "b64_values [] = Some []"
| "b64_values (c # cs) =
     (case b64std_value c of None \<Rightarrow> None | Some v \<Rightarrow> map_option ((#) v) (b64_values cs))"

fun b64_unpack :: "int list \<Rightarrow> int list option" where
  "b64_unpack (a # b # c # d # vs) =
     map_option (\<lambda>rest. (a * 4 + b div 16) # (b mod 16 * 16 + c div 4) # (c mod 4 * 64 + d) # rest) (b64_unpack vs)"
| "b64_unpack [a, b, c] = Some [a * 4 + b div 16, b mod 16 * 16 + c div 4]"
| "b64_unpack [a, b] = Some [a * 4 + b div 16]"
| "b64_unpack [a] = None"
| "b64_unpack [] = Some []"

definition b64std_DecodeString :: "string \<Rightarrow> string option" where
  "b64std_DecodeString s =
     (case b64_values (filter (\<lambda>c. byte_code c \<noteq> 10 \<and> byte_code c \<noteq> 13) s) of
        None \<Rightarrow> None
      | Some vs \<Rightarrow> map_option (map (\<lambda>v. char_of (nat v))) (b64_unpack vs))"

section \<open>Numbers and escaping\<close>

function decimal :: "nat \<Rightarrow> string" where
  "decimal n = (if n < 10 then [char_of (48 + n)] else decimal (n div 10) @ [char_of (48 + n mod 10)])"
  by pat_completeness auto
termination
  by (relation "measure id") auto

declare decimal.simps [simp del]

definition zero_padded :: "nat \<Rightarrow> nat \<Rightarrow> string" where
  "zero_padded width n = (let s = decimal n in replicate (width - length s) CHR ''0'' @ s)"

definition url_unreserved :: "char \<Rightarrow> bool" where
  "url_unreserved c \<longleftrightarrow>
     (let b = byte_code c in 97 \<le> b \<and> b \<le> 122 \<or> 65 \<le> b \<and> b \<le> 90 \<or> 48 \<le> b \<and> b \<le> 57)
     \<or> c \<in> set ''-_.~''"

definition upper_hex :: string where
  "upper_hex = ''0123456789ABCDEF''"

definition percent :: "char \<Rightarrow> string" where
  "percent c = [CHR ''%'', upper_hex ! (byte_code c div 16), upper_hex ! (byte_code c mod 16)]"

definition url_PathEscape :: "string \<Rightarrow> string" where
  "url_PathEscape s = concat (map (\<lambda>c. if url_unreserved c \<or> c \<in> set ''$&+:=@'' then [c] else percent c) s)"

definition url_QueryEscape :: "string \<Rightarrow> string" where
  "url_QueryEscape s = concat (map (\<lambda>c. if c = CHR '' '' then ''+'' else if url_unreserved c then [c] else percent c) s)"

section \<open>Runes\<close>

text \<open>The width of the UTF-8 encoded rune at the head of a byte sequence, or 0 for an invalid encoding, and the
  replacement of each invalid byte by U+FFFD that \<^verbatim>\<open>strings.Map\<close> makes.\<close>

definition continuation :: "nat \<Rightarrow> bool" where
  "continuation b \<longleftrightarrow> 128 \<le> b \<and> b \<le> 191"

fun rune_len :: "nat list \<Rightarrow> nat" where
  "rune_len [] = 0"
| "rune_len (a # bs) =
     (if a < 128 then 1
      else case bs of
        [] \<Rightarrow> 0
      | b # cs \<Rightarrow>
          if 194 \<le> a \<and> a \<le> 223 then (if continuation b then 2 else 0)
          else case cs of
            [] \<Rightarrow> 0
          | c # ds \<Rightarrow>
              if 224 \<le> a \<and> a \<le> 239
              then (if (if a = 224 then 160 else 128) \<le> b \<and> b \<le> (if a = 237 then 159 else 191) \<and> continuation c then 3 else 0)
              else case ds of
                [] \<Rightarrow> 0
              | d # _ \<Rightarrow>
                  if 240 \<le> a \<and> a \<le> 244
                     \<and> (if a = 240 then 144 else 128) \<le> b \<and> b \<le> (if a = 244 then 143 else 191)
                     \<and> continuation c \<and> continuation d
                  then 4 else 0)"

function valid_runes :: "string \<Rightarrow> string" where
  "valid_runes s =
     (if s = [] then []
      else case rune_len (map byte_code (take 4 s)) of
        0 \<Rightarrow> map char_of [239 :: nat, 191, 189] @ valid_runes (drop 1 s)
      | Suc n \<Rightarrow> take (Suc n) s @ valid_runes (drop (Suc n) s))"
  by pat_completeness auto
termination
  by (relation "measure length") auto

declare valid_runes.simps [simp del]

section \<open>Round trips and widths\<close>

lemma decimal_digits: "c \<in> set (decimal n) \<Longrightarrow> 48 \<le> byte_code c \<and> byte_code c \<le> 57"
proof (induction n rule: decimal.induct)
  case (1 n)
  then show ?case
    by (subst (asm) decimal.simps) (auto simp: byte_code_def split: if_splits)
qed

lemma decimal_length: "n < 10 ^ k \<Longrightarrow> 0 < k \<Longrightarrow> length (decimal n) \<le> k"
proof (induction n arbitrary: k rule: decimal.induct)
  case (1 n)
  show ?case
  proof (cases "n < 10")
    case True
    then show ?thesis
      using 1(3) by (subst decimal.simps) simp
  next
    case False
    obtain j where "k = Suc j"
      using 1(3) by (cases k) auto
    moreover from this have "0 < j"
      using 1(2) False by (cases j) auto
    ultimately have j: "k = Suc j" "0 < j"
      by simp_all
    then have "n div 10 < 10 ^ j"
      using 1(2) by (simp add: less_mult_imp_div_less mult.commute)
    then show ?thesis
      using 1(1) [OF False, of j] False j by (subst decimal.simps) simp
  qed
qed

lemma zero_padded_shape:
  assumes "n < 10 ^ k" "0 < k"
  shows "length (zero_padded k n) = k \<and> (\<forall>c \<in> set (zero_padded k n). 48 \<le> byte_code c \<and> byte_code c \<le> 57)"
  using decimal_length [OF assms] decimal_digits [of _ n] by (auto simp: zero_padded_def Let_def byte_code_def)

lemma b64std_value_char:
  assumes "0 \<le> n" "n < 64"
  shows "b64std_value (b64std_char (b64_char n)) = Some n"
proof -
  have "list_all (\<lambda>i. b64std_value (b64std_char (b64_alphabet ! i)) = Some (int i)) [0..<64]"
    by code_simp
  then show ?thesis
    using assms by (auto simp: list_all_iff b64_char_def dest!: bspec [of _ _ "nat n"])
qed

text \<open>Only bits that decoding ignores distinguish \<^const>\<open>b64_char\<close> arguments above 63.\<close>

lemma b64std_value_mod [simp]: "b64std_value (b64std_char (b64_char n)) = Some (n mod 64)"
  using b64std_value_char [of "n mod 64"] by (simp add: b64_char_mod [symmetric])

lemma b64_unpack_bytes:
  "\<forall>b \<in> set bs. byte_range b \<Longrightarrow> \<exists>vs. b64_values (map b64std_char (b64_bytes bs)) = Some vs \<and> b64_unpack vs = Some bs"
proof (induction bs rule: b64_bytes.induct)
  case (1 a b c bs)
  then obtain vs where "b64_values (map b64std_char (b64_bytes bs)) = Some vs" "b64_unpack vs = Some bs"
    by auto
  moreover have "byte_range a" "byte_range b" "byte_range c"
    using 1 by auto
  ultimately show ?case
    by (auto simp: byte_range_def)
qed (auto simp: byte_range_def)

lemma b64_bytes_chars: "c \<in> set (b64_bytes bs) \<Longrightarrow> \<exists>n. c = b64_char n"
  by (induction bs rule: b64_bytes.induct) auto

lemma b64std_char_line: "byte_code (b64std_char (b64_char n)) \<noteq> 10 \<and> byte_code (b64std_char (b64_char n)) \<noteq> 13"
proof -
  have "\<forall>c \<in> set b64_alphabet. byte_code (b64std_char c) \<noteq> 10 \<and> byte_code (b64std_char c) \<noteq> 13"
    by (simp add: b64_alphabet_def b64std_char_def byte_code_def)
  moreover have "length b64_alphabet = 64"
    by (simp add: b64_alphabet_def)
  then have "b64_char n \<in> set b64_alphabet"
    by (simp add: b64_char_def nat_less_iff)
  ultimately show ?thesis
    by blast
qed

lemma b64std_roundtrip: "b64std_DecodeString (b64std_EncodeToString s) = Some s"
proof -
  have "\<forall>b \<in> set (byte_codes s). byte_range b"
    using nat_of_char_less_256 by (auto simp: byte_codes_def byte_code_def byte_range_def)
  then obtain vs where "b64_values (b64std_EncodeToString s) = Some vs" "b64_unpack vs = Some (byte_codes s)"
    using b64_unpack_bytes by (auto simp: b64std_EncodeToString_def b64url_def)
  moreover have "filter (\<lambda>c. byte_code c \<noteq> 10 \<and> byte_code c \<noteq> 13) (b64std_EncodeToString s) = b64std_EncodeToString s"
    using b64_bytes_chars b64std_char_line by (fastforce simp: b64std_EncodeToString_def b64url_def filter_id_conv)
  moreover have "map (\<lambda>v. char_of (nat v)) (byte_codes s) = s"
    by (simp add: byte_codes_def byte_code_def comp_def)
  ultimately show ?thesis
    by (simp add: b64std_DecodeString_def)
qed

end
