(* ===== verification/Otp.thy ===== *)
theory Otp
  imports Hmac World
begin

text \<open>Package \<^verbatim>\<open>mfa\<close>: time-based one-time passwords (\<^verbatim>\<open>totp.go\<close>), recovery codes (\<^verbatim>\<open>recovery.go\<close>) and the protection
  of secrets at rest (\<^verbatim>\<open>keys.go\<close>). The AES-GCM cipher and HKDF, which are made from the master key, are parameters.\<close>

section \<open>TOTP\<close>

definition Digits :: nat where "Digits = 6"

definition Period :: int where "Period = seconds 30"

definition Skew :: int where "Skew = 1"

definition secretBytes :: nat where "secretBytes = 20"

definition NewSecret :: "env \<Rightarrow> string op" where
  "NewSecret e = State (\<lambda>w.
     (case randBytes e (draws w) secretBytes of None \<Rightarrow> Inl (ErrMsg ''rand'') | Some secret \<Rightarrow> Inr secret,
      w\<lparr>draws := Suc (draws w)\<rparr>))"

definition EncodeSecret :: "string \<Rightarrow> string" where
  "EncodeSecret secret = b32_EncodeToString secret"

text \<open>Go's \<^verbatim>\<open>/\<close> truncates towards zero.\<close>

definition Step :: "go_time \<Rightarrow> int" where
  "Step t = (let u = time_unix t; p = Period div nanosecond_per_second
             in if 0 \<le> u then u div p else - ((- u) div p))"

definition counter_bytes :: "int \<Rightarrow> string" where
  "counter_bytes step = map (\<lambda>i. char_of (nat (step mod 2 ^ 64 div 256 ^ i mod 256))) [7, 6, 5, 4, 3, 2, 1, 0]"

text \<open>The four bytes of the MAC at an offset, as a 31-bit number.\<close>

definition truncated :: "string \<Rightarrow> nat" where
  "truncated mac =
     (let offset = byte_code (last mac) mod 16
      in fold (\<lambda>c v. v * 256 + byte_code c) (take 4 (drop offset mac)) 0 mod 2 ^ 31)"

definition Code :: "string \<Rightarrow> int \<Rightarrow> string" where
  "Code secret step = zero_padded Digits (truncated (hmac sha1 secret (counter_bytes step)) mod 1000000)"

text \<open>The loop keeps the first match and goes on to the end.\<close>

fun Verify_loop :: "string \<Rightarrow> string \<Rightarrow> int list \<Rightarrow> int \<times> bool \<Rightarrow> int \<times> bool" where
  "Verify_loop secret code [] (matched, ok) = (matched, ok)"
| "Verify_loop secret code (step # rest) (matched, ok) =
     Verify_loop secret code rest (if Code secret step = code \<and> \<not> ok then (step, True) else (matched, ok))"

definition Verify :: "string \<Rightarrow> string \<Rightarrow> go_time \<Rightarrow> int \<times> bool" where
  "Verify secret input t =
     (let code = strings_TrimSpace input
      in if length code \<noteq> Digits then (0, False)
         else let current = Step t in Verify_loop secret code [current - Skew..current + Skew] (0, False))"

definition KeyURI :: "string \<Rightarrow> string \<Rightarrow> string \<Rightarrow> string" where
  "KeyURI issuer account secret =
     ''otpauth://totp/'' @ url_PathEscape issuer @ '':'' @ url_PathEscape account @ ''?''
     @ ''algorithm=SHA1&digits='' @ url_QueryEscape (decimal Digits) @ ''&issuer='' @ url_QueryEscape issuer
     @ ''&period='' @ url_QueryEscape (decimal (nat (Period div nanosecond_per_second)))
     @ ''&secret='' @ url_QueryEscape (EncodeSecret secret)"

section \<open>Recovery codes\<close>

definition RecoveryCodeCount :: nat where "RecoveryCodeCount = 10"

definition recoveryCodeChars :: nat where "recoveryCodeChars = 10"

definition recoveryAlphabet :: string where "recoveryAlphabet = ''23456789ABCDEFGHJKMNPQRSTUVWXYZ''"

definition recoveryCode :: "string \<Rightarrow> string" where
  "recoveryCode raw = concat (map (\<lambda>(j, b).
     (if j = recoveryCodeChars div 2 then ''-'' else []) @ [recoveryAlphabet ! (byte_code b mod length recoveryAlphabet)])
     (enumerate 0 raw))"

fun NewRecoveryCodes_loop :: "env \<Rightarrow> nat \<Rightarrow> string list op" where
  "NewRecoveryCodes_loop e 0 = succeed []"
| "NewRecoveryCodes_loop e (Suc n) =
     orReturn (State (\<lambda>w. (case randBytes e (draws w) recoveryCodeChars of
                             None \<Rightarrow> Inl (ErrMsg ''rand'')
                           | Some raw \<Rightarrow> Inr raw, w\<lparr>draws := Suc (draws w)\<rparr>))) id (\<lambda>raw.
     orReturn (NewRecoveryCodes_loop e n) id (\<lambda>codes. succeed (recoveryCode raw # codes)))"

definition NewRecoveryCodes :: "env \<Rightarrow> string list op" where
  "NewRecoveryCodes e = NewRecoveryCodes_loop e RecoveryCodeCount"

text \<open>The mapping works on ASCII characters only; a string that is not UTF-8 has its invalid bytes replaced.\<close>

definition NormalizeRecoveryCode :: "string \<Rightarrow> string" where
  "NormalizeRecoveryCode code =
     map ascii_upper (filter (\<lambda>c. c \<noteq> CHR ''-'' \<and> c \<noteq> CHR '' '') (valid_runes (strings_TrimSpace code)))"

definition LooksLikeTOTP :: "string \<Rightarrow> bool" where
  "LooksLikeTOTP input =
     (let code = strings_TrimSpace input
      in length code = Digits \<and> list_all (\<lambda>c. 48 \<le> byte_code c \<and> byte_code c \<le> 57) code)"

section \<open>Secrets at rest\<close>

record Keys =
  k_NonceSize :: nat
  k_Seal :: "string \<Rightarrow> string \<Rightarrow> string \<Rightarrow> string"
  k_Open :: "string \<Rightarrow> string \<Rightarrow> string \<Rightarrow> string option"
  k_hmacKey :: string

definition ErrDecrypt :: err where
  "ErrDecrypt = ErrMsg ''mfa: cannot decrypt secret''"

definition Keys_Seal :: "env \<Rightarrow> Keys \<Rightarrow> string \<Rightarrow> string \<Rightarrow> string op" where
  "Keys_Seal e k secret aad = State (\<lambda>w.
     (case randBytes e (draws w) (k_NonceSize k) of
        None \<Rightarrow> Inl (ErrMsg ''rand'')
      | Some nonce \<Rightarrow> Inr (b64std_EncodeToString (nonce @ k_Seal k nonce secret aad)),
      w\<lparr>draws := Suc (draws w)\<rparr>))"

definition Keys_Open :: "Keys \<Rightarrow> string \<Rightarrow> string \<Rightarrow> err + string" where
  "Keys_Open k sealed aad =
     (case b64std_DecodeString sealed of
        None \<Rightarrow> Inl ErrDecrypt
      | Some raw \<Rightarrow>
          if length raw < k_NonceSize k then Inl ErrDecrypt
          else case k_Open k (take (k_NonceSize k) raw) (drop (k_NonceSize k) raw) aad of
            None \<Rightarrow> Inl ErrDecrypt
          | Some secret \<Rightarrow> Inr secret)"

definition HashRecoveryCode :: "Keys \<Rightarrow> string \<Rightarrow> string" where
  "HashRecoveryCode k code = hex_EncodeToString (hmac sha256 (k_hmacKey k) (NormalizeRecoveryCode code))"

section \<open>Properties\<close>

lemma Verify_loop_done: "Verify_loop secret code ss (m, True) = (m, True)"
  by (induction ss) auto

lemma Verify_loop_find:
  "Verify_loop secret code ss (0, False) =
     (case find (\<lambda>s. Code secret s = code) ss of None \<Rightarrow> (0, False) | Some s \<Rightarrow> (s, True))"
  by (induction ss) (auto simp: Verify_loop_done)

lemma Code_shape: "length (Code secret step) = 6 \<and> (\<forall>c \<in> set (Code secret step). 48 \<le> byte_code c \<and> byte_code c \<le> 57)"
  unfolding Code_def Digits_def by (rule zero_padded_shape) simp_all

lemma find_upto_three:
  "find P [a - 1..a + 1] = (if P (a - 1) then Some (a - 1) else if P a then Some a else if P (a + 1) then Some (a + 1) else None)"
proof -
  have "[a - 1..a + 1] = [a - 1, a, a + (1 :: int)]"
    by (simp add: upto.simps [of "a - 1"] upto.simps [of a] upto.simps [of "a + 1"])
  then show ?thesis
    by simp
qed

lemma Verify_iff:
  "Verify secret input t =
     (let code = strings_TrimSpace input; c = Step t
      in if Code secret (c - 1) = code then (c - 1, True)
         else if Code secret c = code then (c, True)
         else if Code secret (c + 1) = code then (c + 1, True)
         else (0, False))"
proof -
  have "Code secret s \<noteq> strings_TrimSpace input" if "length (strings_TrimSpace input) \<noteq> 6" for s
    using that Code_shape by metis
  then show ?thesis
    by (auto simp: Verify_def Digits_def Skew_def Verify_loop_find find_upto_three Let_def)
qed

lemma Verify_spec:
  assumes "Verify secret input t = (step, ok)"
  shows "(ok \<longleftrightarrow> (\<exists>s. \<bar>s - Step t\<bar> \<le> 1 \<and> Code secret s = strings_TrimSpace input))
     \<and> (ok \<longrightarrow> \<bar>step - Step t\<bar> \<le> 1 \<and> Code secret step = strings_TrimSpace input
         \<and> (\<forall>s. \<bar>s - Step t\<bar> \<le> 1 \<longrightarrow> Code secret s = strings_TrimSpace input \<longrightarrow> step \<le> s)
         \<and> LooksLikeTOTP input)"
proof -
  have near: "\<bar>s - Step t\<bar> \<le> 1 \<longleftrightarrow> s = Step t - 1 \<or> s = Step t \<or> s = Step t + 1" for s
    by linarith
  have "ok \<longrightarrow> LooksLikeTOTP input"
    using assms Code_shape [of secret] by (auto simp: Verify_iff LooksLikeTOTP_def Digits_def list_all_iff Let_def split: if_splits)
      (metis)+
  then show ?thesis
    unfolding near using assms by (auto simp: Verify_iff Let_def split: if_splits)
qed

text \<open>What was sealed for an owner opens for that owner, and for nobody else under an authenticated cipher.\<close>

lemma Seal_Inr:
  assumes "run_state (Keys_Seal e k secret aad) w = (Inr sealed, w')"
    and "\<forall>n len bs. randBytes e n len = Some bs \<longrightarrow> length bs = len"
  shows "\<exists>nonce. randBytes e (draws w) (k_NonceSize k) = Some nonce \<and> Keys_Open k sealed aad2 =
      (case k_Open k nonce (k_Seal k nonce secret aad) aad2 of None \<Rightarrow> Inl ErrDecrypt | Some s \<Rightarrow> Inr s)"
proof -
  obtain nonce where "randBytes e (draws w) (k_NonceSize k) = Some nonce" "length nonce = k_NonceSize k"
    "sealed = b64std_EncodeToString (nonce @ k_Seal k nonce secret aad)"
    using assms by (auto simp: Keys_Seal_def split: option.splits)
  then show ?thesis
    by (intro exI [of _ nonce]) (simp add: Keys_Open_def b64std_roundtrip)
qed

section \<open>Recovery code normalization\<close>

lemma valid_runes_ascii: "is_ascii s \<Longrightarrow> valid_runes s = s"
proof (induction s rule: valid_runes.induct)
  case (1 s)
  show ?case
  proof (cases s)
    case (Cons c cs)
    then have "rune_len (map byte_code (take 4 s)) = Suc 0"
      using 1(3) by (simp add: is_ascii_def)
    then show ?thesis
      using 1(2) [of 0] 1(3) Cons by (subst valid_runes.simps) (simp add: is_ascii_def)
  qed (simp add: valid_runes.simps)
qed

lemma recovery_chars:
  assumes "c \<in> set recoveryAlphabet"
  shows "32 < byte_code c" "byte_code c < 123" "ascii_upper c = c" "ascii_upper (ascii_lower c) = c"
    "32 < byte_code (ascii_lower c)" "byte_code (ascii_lower c) < 123" "c \<noteq> CHR ''-''" "c \<noteq> CHR '' ''"
  using assms by (auto simp: recoveryAlphabet_def ascii_upper_def ascii_lower_def byte_code_def)

end
