(* ===== verification/OtpProperties.thy ===== *)
theory OtpProperties
  imports Otp
begin

text \<open>What the one-time-password package promises: the acceptance window of a TOTP code, recovery codes surviving the way
  people type them, and secrets that open only for their owner.\<close>

text \<open>C20: A code is accepted exactly when it is the code of the current 30-second step or one of its two neighbours,
  surrounding white space aside, and the step reported is the earliest such one.\<close>

theorem totp_verify_spec:
  "(Verify secret input t = (step, True) \<longleftrightarrow>
      \<bar>step - Step t\<bar> \<le> 1 \<and> Code secret step = strings_TrimSpace input
      \<and> \<not> (\<exists>s < step. \<bar>s - Step t\<bar> \<le> 1 \<and> Code secret s = strings_TrimSpace input))
   \<and> (snd (Verify secret input t) \<longleftrightarrow> (\<exists>s. \<bar>s - Step t\<bar> \<le> 1 \<and> Code secret s = strings_TrimSpace input))"
proof -
  have near: "\<bar>s - Step t\<bar> \<le> 1 \<longleftrightarrow> s = Step t - 1 \<or> s = Step t \<or> s = Step t + 1" for s
    by linarith
  show ?thesis
    unfolding Verify_iff Let_def near by (auto dest: spec [of _ "Step t - 1"] spec [of _ "Step t"])
qed

section \<open>Recovery codes as they are typed\<close>

lemma space_len_plain:
  assumes "32 \<le> byte_code c" "byte_code c < 128"
  shows "space_len (c # cs) = (if c = CHR '' '' then 1 else 0)"
proof -
  have "byte_code c = 32 \<longleftrightarrow> c = CHR '' ''"
  proof -
    have "byte_code (CHR '' '') = 32"
      by (simp add: byte_code_def)
    then show ?thesis
      by (metis byte_code_def of_char_eq_iff)
  qed
  then show ?thesis
    using assms by (auto simp: space_len_def split: list.split)
qed

abbreviation no_space :: "string \<Rightarrow> string" where
  "no_space s \<equiv> filter (\<lambda>c. c \<noteq> CHR '' '') s"

lemma trim_left_plain:
  assumes "\<forall>c \<in> set s. 32 \<le> byte_code c \<and> byte_code c < 128"
  shows "no_space (trim_left s) = no_space s \<and> set (trim_left s) \<subseteq> set s"
  using assms by (induction s) (auto simp: space_len_plain)

lemma trim_right_plain:
  assumes "\<forall>c \<in> set s. 32 \<le> byte_code c \<and> byte_code c < 128"
  shows "no_space (trim_right s) = no_space s \<and> set (trim_right s) \<subseteq> set s"
  using assms
proof (induction s)
  case (Cons c s)
  have "no_space (trim_left (c # s)) = no_space (c # s)"
    using Cons.prems trim_left_plain by blast
  then show ?case
    using Cons by (cases "trim_left (c # s) = []") auto
qed simp

lemma TrimSpace_plain:
  assumes "\<forall>c \<in> set s. 32 \<le> byte_code c \<and> byte_code c < 128"
  shows "no_space (strings_TrimSpace s) = no_space s \<and> set (strings_TrimSpace s) \<subseteq> set s"
proof -
  have l: "no_space (trim_left s) = no_space s" "set (trim_left s) \<subseteq> set s"
    using trim_left_plain [OF assms] by simp_all
  moreover have "no_space (trim_right (trim_left s)) = no_space (trim_left s) \<and> set (trim_right (trim_left s)) \<subseteq> set (trim_left s)"
    using assms l(2) by (intro trim_right_plain) blast
  ultimately show ?thesis
    unfolding strings_TrimSpace_def by auto
qed

text \<open>What is typed: the code's characters in either case, with dashes and spaces anywhere.\<close>

definition code_chars :: "string \<Rightarrow> string" where
  "code_chars raw = map (\<lambda>b. recoveryAlphabet ! (byte_code b mod length recoveryAlphabet)) raw"

definition typed_as :: "string \<Rightarrow> string \<Rightarrow> bool" where
  "typed_as s cs \<longleftrightarrow> map ascii_upper (filter (\<lambda>c. c \<noteq> CHR ''-'' \<and> c \<noteq> CHR '' '') s) = cs"

lemma alphabet_nonempty: "length recoveryAlphabet = 31"
  by (simp add: recoveryAlphabet_def)

lemma code_chars_alphabet: "set (code_chars raw) \<subseteq> set recoveryAlphabet"
  by (auto simp: code_chars_def alphabet_nonempty)

lemma recoveryCode_chars: "filter (\<lambda>c. c \<noteq> CHR ''-'') (recoveryCode raw) = code_chars raw"
proof -
  have in_alphabet: "recoveryAlphabet ! (byte_code b mod length recoveryAlphabet) \<noteq> CHR ''-''" for b
    using recovery_chars(7) [of "recoveryAlphabet ! (byte_code b mod length recoveryAlphabet)"] by (simp add: alphabet_nonempty)
  have "filter (\<lambda>c. c \<noteq> CHR ''-'') (concat (map (\<lambda>(j, b).
       (if j = recoveryCodeChars div 2 then ''-'' else []) @ [recoveryAlphabet ! (byte_code b mod length recoveryAlphabet)])
       (enumerate n raw))) = code_chars raw" for n
    using in_alphabet by (induction raw arbitrary: n) (auto simp: code_chars_def)
  then show ?thesis
    by (simp add: recoveryCode_def)
qed

lemma typed_range:
  assumes "typed_as s (code_chars raw)" "c \<in> set s"
  shows "32 \<le> byte_code c \<and> byte_code c < 128"
proof (cases "c = CHR ''-'' \<or> c = CHR '' ''")
  case True
  then show ?thesis
    by (auto simp: byte_code_def)
next
  case False
  then have "ascii_upper c \<in> set (map ascii_upper (filter (\<lambda>c. c \<noteq> CHR ''-'' \<and> c \<noteq> CHR '' '') s))"
    using assms(2) by auto
  then have "ascii_upper c \<in> set recoveryAlphabet"
    using assms(1) code_chars_alphabet [of raw] unfolding typed_as_def by (metis subsetD)
  then show ?thesis
    using recovery_chars(1,2) [of "ascii_upper c"] by (auto simp: ascii_upper_def split: if_splits)
qed

lemma Normalize_typed:
  assumes "typed_as s (code_chars raw)"
  shows "NormalizeRecoveryCode s = code_chars raw"
proof -
  let ?t = "strings_TrimSpace s"
  have t: "no_space ?t = no_space s" "set ?t \<subseteq> set s"
    using TrimSpace_plain [of s] typed_range [OF assms] by blast+
  have "is_ascii ?t"
    using t(2) typed_range [OF assms] by (auto simp: is_ascii_def list_all_iff)
  moreover have "filter (\<lambda>c. c \<noteq> CHR ''-'' \<and> c \<noteq> CHR '' '') x = filter (\<lambda>c. c \<noteq> CHR ''-'') (no_space x)" for x
    by (simp add: conj_commute)
  ultimately show ?thesis
    using assms t(1) by (simp add: NormalizeRecoveryCode_def typed_as_def valid_runes_ascii del: filter_filter)
qed

lemma Normalize_displayed: "NormalizeRecoveryCode (recoveryCode raw) = code_chars raw"
proof (rule Normalize_typed)
  have c: "ascii_upper c = c \<and> c \<noteq> CHR '' ''" if "c \<in> set (code_chars raw)" for c
    using that code_chars_alphabet recovery_chars(3,8) by blast
  have "filter (\<lambda>c. c \<noteq> CHR ''-'' \<and> c \<noteq> CHR '' '') (recoveryCode raw) = no_space (code_chars raw)"
    unfolding recoveryCode_chars [symmetric] by (simp add: conj_commute)
  also have "no_space (code_chars raw) = code_chars raw"
    using c by simp
  finally show "typed_as (recoveryCode raw) (code_chars raw)"
    using c by (simp add: typed_as_def map_idI)
qed

text \<open>A recovery code typed back in either case, with dashes and spaces anywhere, hashes to what was stored for the
  displayed code, and is never taken for a TOTP code.\<close>

theorem recovery_code_roundtrip:
  assumes "length raw = recoveryCodeChars"
    and "map ascii_upper (filter (\<lambda>c. c \<noteq> CHR ''-'' \<and> c \<noteq> CHR '' '') s) = filter (\<lambda>c. c \<noteq> CHR ''-'') (recoveryCode raw)"
  shows "HashRecoveryCode ks s = HashRecoveryCode ks (recoveryCode raw) \<and> \<not> LooksLikeTOTP s"
proof -
  have typed: "typed_as s (code_chars raw)"
    using assms(2) by (simp add: typed_as_def recoveryCode_chars)
  have "length (code_chars raw) \<le> length (strings_TrimSpace s)"
  proof -
    have "set (strings_TrimSpace s) \<subseteq> set s"
      using TrimSpace_plain [of s] typed_range [OF typed] by blast
    then have "is_ascii (strings_TrimSpace s)"
      using typed_range [OF typed] by (auto simp: is_ascii_def list_all_iff)
    then have "length (NormalizeRecoveryCode s) \<le> length (strings_TrimSpace s)"
      by (simp add: NormalizeRecoveryCode_def valid_runes_ascii)
    then show ?thesis
      by (simp add: Normalize_typed [OF typed])
  qed
  then have "\<not> LooksLikeTOTP s"
    using assms(1) by (auto simp: code_chars_def LooksLikeTOTP_def recoveryCodeChars_def Digits_def Let_def)
  then show ?thesis
    using Normalize_typed [OF typed] Normalize_displayed by (simp add: HashRecoveryCode_def)
qed

lemma recovery_code_roundtrip_witness:
  "HashRecoveryCode \<lparr>k_NonceSize = 12, k_Seal = (\<lambda>n s a. s), k_Open = (\<lambda>n c a. None), k_hmacKey = ''key''\<rparr> '' 2345 6-789 aB '' =
     HashRecoveryCode \<lparr>k_NonceSize = 12, k_Seal = (\<lambda>n s a. s), k_Open = (\<lambda>n c a. None), k_hmacKey = ''key''\<rparr>
       (recoveryCode (map char_of [0 :: nat, 1, 2, 3, 35, 5, 6, 7, 8, 40]))"
proof -
  have upper_a: "char_of (65 :: nat) = CHR ''A''"
    by code_simp
  have "code_chars (map char_of [0 :: nat, 1, 2, 3, 35, 5, 6, 7, 8, 40]) = ''23456789AB''"
    by (simp add: code_chars_def recoveryAlphabet_def byte_code_def)
  moreover have "map ascii_upper (filter (\<lambda>c. c \<noteq> CHR ''-'' \<and> c \<noteq> CHR '' '') '' 2345 6-789 aB '') = ''23456789AB''"
    using upper_a by (simp add: ascii_upper_def byte_code_def)
  ultimately have "map ascii_upper (filter (\<lambda>c. c \<noteq> CHR ''-'' \<and> c \<noteq> CHR '' '') '' 2345 6-789 aB '') =
      filter (\<lambda>c. c \<noteq> CHR ''-'') (recoveryCode (map char_of [0 :: nat, 1, 2, 3, 35, 5, 6, 7, 8, 40]))"
    by (simp only: recoveryCode_chars)
  then show ?thesis
    using recovery_code_roundtrip [of "map char_of [0 :: nat, 1, 2, 3, 35, 5, 6, 7, 8, 40]"]
    by (simp add: recoveryCodeChars_def)
qed

text \<open>A secret sealed for an owner is recovered by opening it for the same owner; under a cipher that authenticates its
  additional data it does not open for anyone else.\<close>

theorem sealed_secret_bound_to_owner:
  assumes "run_state (Keys_Seal e ks secret aad) w = (Inr sealed, w')"
    and "\<forall>n len bs. randBytes e n len = Some bs \<longrightarrow> length bs = len"
    and "\<forall>nonce s a b. k_Open ks nonce (k_Seal ks nonce s a) b = (if a = b then Some s else None)"
  shows "Keys_Open ks sealed aad = Inr secret \<and> (other \<noteq> aad \<longrightarrow> Keys_Open ks sealed other = Inl ErrDecrypt)"
  using Seal_Inr [OF assms(1,2)] assms(3) by fastforce

text \<open>A cipher with that law, without secrecy: the additional data is written out before the text.\<close>

fun tag_seal :: "string \<Rightarrow> string \<Rightarrow> string" where
  "tag_seal s [] = CHR ''0'' # s"
| "tag_seal s (a # as) = CHR ''1'' # a # tag_seal s as"

fun tag_open :: "string \<Rightarrow> string \<Rightarrow> string option" where
  "tag_open (x # c) [] = (if x = CHR ''0'' then Some c else None)"
| "tag_open (x # y # c) (b # bs) = (if x = CHR ''1'' \<and> y = b then tag_open c bs else None)"
| "tag_open _ _ = None"

lemma tag_open_seal: "tag_open (tag_seal s as) bs = (if as = bs then Some s else None)"
proof (induction as arbitrary: bs)
  case Nil
  show ?case
    by (cases bs; cases s) auto
next
  case (Cons a as)
  then show ?case
    by (cases bs) auto
qed

definition tag_keys :: Keys where
  "tag_keys = \<lparr>k_NonceSize = 12, k_Seal = (\<lambda>n s a. tag_seal s a), k_Open = (\<lambda>n c a. tag_open c a), k_hmacKey = ''key''\<rparr>"

definition tag_env :: "env \<Rightarrow> env" where
  "tag_env e = e\<lparr>randBytes := (\<lambda>_ len. Some (replicate len CHR ''n''))\<rparr>"

lemma sealed_secret_bound_to_owner_witness:
  "\<exists>sealed w'. run_state (Keys_Seal (tag_env undefined) tag_keys ''secret'' ''1|7'') empty_world = (Inr sealed, w')
     \<and> Keys_Open tag_keys sealed ''1|7'' = Inr ''secret'' \<and> Keys_Open tag_keys sealed ''1|8'' = Inl ErrDecrypt"
proof -
  have rand: "\<forall>n len bs. randBytes (tag_env undefined) n len = Some bs \<longrightarrow> length bs = len"
    by (auto simp: tag_env_def)
  have law: "\<forall>nonce s a b. k_Open tag_keys nonce (k_Seal tag_keys nonce s a) b = (if a = b then Some s else None)"
    by (simp add: tag_keys_def tag_open_seal)
  obtain sealed w' where "run_state (Keys_Seal (tag_env undefined) tag_keys ''secret'' ''1|7'') empty_world = (Inr sealed, w')"
    by (simp add: Keys_Seal_def tag_env_def)
  then show ?thesis
    using sealed_secret_bound_to_owner [OF _ rand law, of "''secret''" "''1|7''" empty_world sealed w' "''1|8''"] by auto
qed

end
