(* ===== verification/MoreRepos.thy ===== *)
theory MoreRepos
  imports Repos
begin

text \<open>The repositories of tenants, second factors, initial access tokens, e-mail verifications, password resets, roles,
  permissions, their assignments and idempotency keys (\<^verbatim>\<open>internal/repo/gorm/*.go\<close>), and database transactions.\<close>

section \<open>Transactions\<close>

text \<open>\<^verbatim>\<open>db.Transaction(f)\<close>: BEGIN and COMMIT are statements that can fail, and an error of \<open>f\<close> or of COMMIT leaves the
  tables as they were before BEGIN.\<close>

definition transaction :: "env \<Rightarrow> 'a op \<Rightarrow> 'a op" where
  "transaction e m = State (\<lambda>w.
     case run_state (runSQL e (\<lambda>v. Inr ((), v))) w of
       (Inl er, w1) \<Rightarrow> (Inl er, w1)
     | (Inr _, w1) \<Rightarrow>
         (case run_state m w1 of
            (Inl er, w2) \<Rightarrow> (Inl er, w1\<lparr>stmts := Suc (stmts w2), draws := draws w2\<rparr>)
          | (Inr a, w2) \<Rightarrow>
              if fails e (stmts w2) then (Inl DBError, w1\<lparr>stmts := Suc (stmts w2), draws := draws w2\<rparr>)
              else (Inr a, w2\<lparr>stmts := Suc (stmts w2)\<rparr>)))"

definition sqlCount :: "env \<Rightarrow> (world \<Rightarrow> 'r list) \<Rightarrow> ('r \<Rightarrow> bool) \<Rightarrow> string \<Rightarrow> int op" where
  "sqlCount e get P msg = mapErr (Wrapped msg) (runSQL e (\<lambda>w. Inr (int (length (filter P (get w))), w)))"

definition sqlFind :: "env \<Rightarrow> (world \<Rightarrow> 'r list) \<Rightarrow> ('r \<Rightarrow> bool) \<Rightarrow> string \<Rightarrow> 'r list op" where
  "sqlFind e get P msg = mapErr (Wrapped msg) (runSQL e (\<lambda>w. Inr (filter P (get w), w)))"

section \<open>Tenants\<close>

definition tenant_live :: "Tenant \<Rightarrow> bool" where
  "tenant_live t \<longleftrightarrow> t_DeletedAt t = None"

definition tenants_clash :: "Tenant \<Rightarrow> Tenant \<Rightarrow> bool" where
  "tenants_clash r t \<longleftrightarrow> t_ID r = t_ID t \<or> tenant_live r \<and> tenant_live t \<and> t_Domain r = t_Domain t"

text \<open>A false \<^verbatim>\<open>is_active\<close> is the zero value, for which gorm's Create writes the column default \<^verbatim>\<open>true\<close>.\<close>

definition Tenant_Create :: "env \<Rightarrow> Tenant \<Rightarrow> unit op" where
  "Tenant_Create e t =
     sqlInsert e tenants tenants_update tenants_clash
       (t\<lparr>t_IsActive := True, t_CreatedAt := autoCreateTime e (t_CreatedAt t), t_UpdatedAt := autoCreateTime e (t_UpdatedAt t)\<rparr>)
       ''failed to create tenant''"

definition Tenant_GetByID :: "env \<Rightarrow> uuid \<Rightarrow> Tenant op" where
  "Tenant_GetByID e i =
     sqlFirst e tenants (\<lambda>t. t_ID t = i \<and> tenant_live t) ErrTenantNotFound ''failed to get tenant by ID''"

definition Tenant_GetByDomain :: "env \<Rightarrow> string \<Rightarrow> Tenant op" where
  "Tenant_GetByDomain e dmn =
     sqlFirst e tenants (\<lambda>t. t_Domain t = dmn \<and> tenant_live t) ErrTenantNotFound ''failed to get tenant by domain''"

definition Tenant_Update :: "env \<Rightarrow> Tenant \<Rightarrow> unit op" where
  "Tenant_Update e t =
     sqlSave e tenants tenants_update t_ID tenants_clash (t\<lparr>t_UpdatedAt := now e\<rparr>) ''failed to update tenant''"

definition Tenant_Delete :: "env \<Rightarrow> uuid \<Rightarrow> unit op" where
  "Tenant_Delete e i =
     orReturn (sqlUpdate e tenants tenants_update (\<lambda>t. t_ID t = i \<and> tenant_live t)
        (\<lambda>t. t\<lparr>t_DeletedAt := Some (now e)\<rparr>) ''failed to delete tenant'') id (\<lambda>_. succeed ())"

definition Tenant_List :: "env \<Rightarrow> int \<Rightarrow> int \<Rightarrow> (Tenant list \<times> int) op" where
  "Tenant_List e limit offset =
     sqlList e tenants tenant_live t_CreatedAt limit offset ''failed to count tenants'' ''failed to list tenants''"

section \<open>Second factors\<close>

definition MFA_Get :: "env \<Rightarrow> uuid \<Rightarrow> uuid \<Rightarrow> UserMFA op" where
  "MFA_Get e tenantID userID =
     sqlFirst e user_mfa (\<lambda>m. m_TenantID m = tenantID \<and> m_UserID m = userID) ErrMFANotEnabled ''failed to get MFA settings''"

text \<open>INSERT ... ON CONFLICT (user_id) DO UPDATE ... WHERE the stored row is unconfirmed and of the same tenant; no row
  affected means a confirmed authenticator.\<close>

definition MFA_SavePending :: "env \<Rightarrow> UserMFA \<Rightarrow> unit op" where
  "MFA_SavePending e mfa =
     (let row = mfa\<lparr>m_ConfirmedAt := None, m_CreatedAt := now e, m_UpdatedAt := now e\<rparr>;
          upd = (\<lambda>r. r\<lparr>m_TOTPSecret := m_TOTPSecret row, m_LastUsedStep := m_LastUsedStep row,
                       m_FailedAttempts := m_FailedAttempts row, m_LockedUntil := m_LockedUntil row,
                       m_CreatedAt := m_CreatedAt row, m_UpdatedAt := m_UpdatedAt row\<rparr>)
      in orReturn (runSQL e (\<lambda>w.
           case find (\<lambda>r. m_UserID r = m_UserID row) (user_mfa w) of
             None \<Rightarrow> Inr (True, user_mfa_update (\<lambda>rows. rows @ [row]) w)
           | Some r \<Rightarrow>
               if m_ConfirmedAt r = None \<and> m_TenantID r = m_TenantID row
               then Inr (True, user_mfa_update (map (\<lambda>r. if m_UserID r = m_UserID row then upd r else r)) w)
               else Inr (False, w))) (Wrapped ''failed to save MFA enrollment'')
         (\<lambda>affected. if \<not> affected then failWith ErrMFAAlreadyEnabled else succeed ()))"

definition recovery_clash :: "MFARecoveryCode \<Rightarrow> MFARecoveryCode \<Rightarrow> bool" where
  "recovery_clash r c \<longleftrightarrow> rc_ID r = rc_ID c
     \<or> rc_TenantID r = rc_TenantID c \<and> rc_UserID r = rc_UserID c \<and> rc_CodeHash r = rc_CodeHash c"

fun newRecoveryRows :: "env \<Rightarrow> uuid \<Rightarrow> uuid \<Rightarrow> string list \<Rightarrow> (world, MFARecoveryCode list) state" where
  "newRecoveryRows e tenantID userID [] = State_Monad.return []"
| "newRecoveryRows e tenantID userID (h # hs) = do {
     i \<leftarrow> uuid_New e;
     rows \<leftarrow> newRecoveryRows e tenantID userID hs;
     State_Monad.return (\<lparr>rc_ID = i, rc_TenantID = tenantID, rc_UserID = userID, rc_CodeHash = h, rc_UsedAt = None,
       rc_CreatedAt = now e\<rparr> # rows)
   }"

text \<open>One INSERT of all rows: a clash among them or with a stored row refuses it.\<close>

fun clash_free :: "('r \<Rightarrow> 'r \<Rightarrow> bool) \<Rightarrow> 'r list \<Rightarrow> 'r list \<Rightarrow> bool" where
  "clash_free clash stored [] = True"
| "clash_free clash stored (r # rs) = (list_all (\<lambda>x. \<not> clash x r) stored \<and> clash_free clash (stored @ [r]) rs)"

definition replaceRecoveryCodes :: "env \<Rightarrow> uuid \<Rightarrow> uuid \<Rightarrow> string list \<Rightarrow> unit op" where
  "replaceRecoveryCodes e tenantID userID codeHashes =
     orReturn (sqlDelete e mfa_recovery_codes_update (\<lambda>c. rc_TenantID c = tenantID \<and> rc_UserID c = userID)
       ''failed to delete recovery codes'') id (\<lambda>_.
     if codeHashes = [] then succeed ()
     else do {
       codes \<leftarrow> newRecoveryRows e tenantID userID codeHashes;
       mapErr (Wrapped ''failed to store recovery codes'')
         (runSQL e (\<lambda>w. if clash_free recovery_clash (mfa_recovery_codes w) codes
                        then Inr ((), mfa_recovery_codes_update (\<lambda>rows. rows @ codes) w)
                        else Inl UniqueViolation))
     })"

definition MFA_Confirm :: "env \<Rightarrow> uuid \<Rightarrow> uuid \<Rightarrow> int \<Rightarrow> string list \<Rightarrow> unit op" where
  "MFA_Confirm e tenantID userID step recoveryCodeHashes = transaction e (
     orReturn (sqlUpdate e user_mfa user_mfa_update
         (\<lambda>m. m_TenantID m = tenantID \<and> m_UserID m = userID \<and> m_ConfirmedAt m = None)
         (\<lambda>m. m\<lparr>m_ConfirmedAt := Some (now e), m_LastUsedStep := step, m_FailedAttempts := 0, m_LockedUntil := None,
                m_UpdatedAt := now e\<rparr>) ''failed to confirm MFA enrollment'') id (\<lambda>rows.
     if rows = [] then failWith ErrMFANotEnrolling
     else replaceRecoveryCodes e tenantID userID recoveryCodeHashes))"

definition MFA_UseStep :: "env \<Rightarrow> uuid \<Rightarrow> uuid \<Rightarrow> int \<Rightarrow> bool op" where
  "MFA_UseStep e tenantID userID step =
     orReturn (sqlUpdate e user_mfa user_mfa_update
         (\<lambda>m. m_TenantID m = tenantID \<and> m_UserID m = userID \<and> m_ConfirmedAt m \<noteq> None \<and> m_LastUsedStep m < step)
         (\<lambda>m. m\<lparr>m_LastUsedStep := step, m_FailedAttempts := 0, m_LockedUntil := None, m_UpdatedAt := now e\<rparr>)
         ''failed to record TOTP use'') id (\<lambda>rows. succeed (length rows = 1))"

definition MFA_UseRecoveryCode :: "env \<Rightarrow> uuid \<Rightarrow> uuid \<Rightarrow> string \<Rightarrow> bool op" where
  "MFA_UseRecoveryCode e tenantID userID codeHash = transaction e (
     orReturn (sqlUpdate e mfa_recovery_codes mfa_recovery_codes_update
         (\<lambda>c. rc_TenantID c = tenantID \<and> rc_UserID c = userID \<and> rc_CodeHash c = codeHash \<and> rc_UsedAt c = None)
         (\<lambda>c. c\<lparr>rc_UsedAt := Some (now e)\<rparr>) ''failed to use recovery code'') id (\<lambda>rows.
     if rows = [] then succeed False
     else orReturn (runSQL e (\<lambda>w. Inr ((), user_mfa_update
         (map (\<lambda>m. if m_TenantID m = tenantID \<and> m_UserID m = userID
                   then m\<lparr>m_FailedAttempts := 0, m_LockedUntil := None, m_UpdatedAt := now e\<rparr> else m)) w))) id
       (\<lambda>_. succeed True)))"

definition MFA_RecordFailure :: "env \<Rightarrow> uuid \<Rightarrow> uuid \<Rightarrow> int \<Rightarrow> go_time \<Rightarrow> unit op" where
  "MFA_RecordFailure e tenantID userID maxFailures lockUntil =
     orReturn (sqlUpdate e user_mfa user_mfa_update (\<lambda>m. m_TenantID m = tenantID \<and> m_UserID m = userID)
         (\<lambda>m. m\<lparr>m_FailedAttempts := m_FailedAttempts m + 1,
                m_LockedUntil := (if maxFailures \<le> m_FailedAttempts m + 1 then Some lockUntil else m_LockedUntil m),
                m_UpdatedAt := now e\<rparr>) ''failed to record MFA failure'') id (\<lambda>_. succeed ())"

definition MFA_ReplaceRecoveryCodes :: "env \<Rightarrow> uuid \<Rightarrow> uuid \<Rightarrow> string list \<Rightarrow> unit op" where
  "MFA_ReplaceRecoveryCodes e tenantID userID codeHashes = transaction e (replaceRecoveryCodes e tenantID userID codeHashes)"

definition MFA_CountUnusedRecoveryCodes :: "env \<Rightarrow> uuid \<Rightarrow> uuid \<Rightarrow> int op" where
  "MFA_CountUnusedRecoveryCodes e tenantID userID =
     sqlCount e mfa_recovery_codes (\<lambda>c. rc_TenantID c = tenantID \<and> rc_UserID c = userID \<and> rc_UsedAt c = None)
       ''failed to count recovery codes''"

definition MFA_Delete :: "env \<Rightarrow> uuid \<Rightarrow> uuid \<Rightarrow> unit op" where
  "MFA_Delete e tenantID userID = transaction e (
     orReturn (sqlDelete e mfa_recovery_codes_update (\<lambda>c. rc_TenantID c = tenantID \<and> rc_UserID c = userID)
       ''failed to delete recovery codes'') id (\<lambda>_.
     sqlDelete e user_mfa_update (\<lambda>m. m_TenantID m = tenantID \<and> m_UserID m = userID) ''failed to delete MFA settings''))"

section \<open>Initial access tokens\<close>

definition initial_access_tokens_clash :: "InitialAccessToken \<Rightarrow> InitialAccessToken \<Rightarrow> bool" where
  "initial_access_tokens_clash r t \<longleftrightarrow> ia_ID r = ia_ID t \<or> ia_TokenHash r = ia_TokenHash t"

definition InitialAccessToken_Create :: "env \<Rightarrow> InitialAccessToken \<Rightarrow> unit op" where
  "InitialAccessToken_Create e t =
     sqlInsert e initial_access_tokens initial_access_tokens_update initial_access_tokens_clash
       (t\<lparr>ia_CreatedAt := autoCreateTime e (ia_CreatedAt t)\<rparr>) ''failed to create initial access token''"

definition InitialAccessToken_GetByHash :: "env \<Rightarrow> uuid \<Rightarrow> string \<Rightarrow> InitialAccessToken op" where
  "InitialAccessToken_GetByHash e tenantID tokenHash =
     sqlFirst e initial_access_tokens (\<lambda>t. ia_TenantID t = tenantID \<and> ia_TokenHash t = tokenHash)
       ErrInitialAccessTokenNotFound ''failed to get initial access token''"

definition InitialAccessToken_Consume :: "env \<Rightarrow> uuid \<Rightarrow> string \<Rightarrow> InitialAccessToken op" where
  "InitialAccessToken_Consume e tenantID tokenHash =
     orReturn (sqlUpdate e initial_access_tokens initial_access_tokens_update
         (\<lambda>t. ia_TenantID t = tenantID \<and> ia_TokenHash t = tokenHash \<and> ia_RevokedAt t = None \<and> now e < ia_ExpiresAt t
              \<and> ia_Uses t < ia_MaxUses t)
         (\<lambda>t. t\<lparr>ia_Uses := ia_Uses t + 1\<rparr>) ''failed to use initial access token'') id (\<lambda>tokens.
     case tokens of [] \<Rightarrow> failWith ErrInitialAccessTokenNotFound | t # _ \<Rightarrow> succeed t)"

definition InitialAccessToken_List :: "env \<Rightarrow> uuid \<Rightarrow> InitialAccessToken list op" where
  "InitialAccessToken_List e tenantID =
     mapErr (Wrapped ''failed to list initial access tokens'') (runSQL e (\<lambda>w.
       Inr (sqlPage ia_CreatedAt 100 0 (filter (\<lambda>t. ia_TenantID t = tenantID) (initial_access_tokens w)), w)))"

definition InitialAccessToken_Revoke :: "env \<Rightarrow> uuid \<Rightarrow> uuid \<Rightarrow> unit op" where
  "InitialAccessToken_Revoke e tenantID i =
     orReturn (sqlUpdate e initial_access_tokens initial_access_tokens_update
         (\<lambda>t. ia_TenantID t = tenantID \<and> ia_ID t = i \<and> ia_RevokedAt t = None)
         (\<lambda>t. t\<lparr>ia_RevokedAt := Some (now e)\<rparr>) ''failed to revoke initial access token'') id (\<lambda>rows.
     if rows = [] then failWith ErrInitialAccessTokenNotFound else succeed ())"

section \<open>E-mail verifications and password resets\<close>

definition email_verifications_clash :: "EmailVerification \<Rightarrow> EmailVerification \<Rightarrow> bool" where
  "email_verifications_clash r v \<longleftrightarrow> emv_ID r = emv_ID v \<or> emv_CodeHash r = emv_CodeHash v"

definition EmailVerification_Create :: "env \<Rightarrow> EmailVerification \<Rightarrow> unit op" where
  "EmailVerification_Create e v =
     sqlInsert e email_verifications email_verifications_update email_verifications_clash
       (v\<lparr>emv_CreatedAt := autoCreateTime e (emv_CreatedAt v)\<rparr>) ''failed to create email verification''"

definition EmailVerification_GetByCodeHash :: "env \<Rightarrow> uuid \<Rightarrow> string \<Rightarrow> EmailVerification op" where
  "EmailVerification_GetByCodeHash e tenantID codeHash =
     sqlFirst e email_verifications (\<lambda>v. emv_TenantID v = tenantID \<and> emv_CodeHash v = codeHash)
       ErrInvalidVerificationCode ''failed to get email verification''"

definition EmailVerification_MarkVerified :: "env \<Rightarrow> uuid \<Rightarrow> bool op" where
  "EmailVerification_MarkVerified e i =
     orReturn (sqlUpdate e email_verifications email_verifications_update (\<lambda>v. emv_ID v = i \<and> emv_VerifiedAt v = None)
         (\<lambda>v. v\<lparr>emv_VerifiedAt := Some (now e)\<rparr>) ''failed to mark email verified'') id
       (\<lambda>rows. succeed (length rows = 1))"

definition EmailVerification_DeletePendingByUserID :: "env \<Rightarrow> uuid \<Rightarrow> uuid \<Rightarrow> unit op" where
  "EmailVerification_DeletePendingByUserID e tenantID userID =
     sqlDelete e email_verifications_update (\<lambda>v. emv_TenantID v = tenantID \<and> emv_UserID v = userID \<and> emv_VerifiedAt v = None)
       ''failed to delete pending email verifications''"

definition password_resets_clash :: "PasswordReset \<Rightarrow> PasswordReset \<Rightarrow> bool" where
  "password_resets_clash r v \<longleftrightarrow> pr_ID r = pr_ID v \<or> pr_TokenHash r = pr_TokenHash v"

definition PasswordReset_Create :: "env \<Rightarrow> PasswordReset \<Rightarrow> unit op" where
  "PasswordReset_Create e v =
     sqlInsert e password_resets password_resets_update password_resets_clash
       (v\<lparr>pr_CreatedAt := autoCreateTime e (pr_CreatedAt v)\<rparr>) ''failed to create password reset''"

definition PasswordReset_GetByTokenHash :: "env \<Rightarrow> uuid \<Rightarrow> string \<Rightarrow> PasswordReset op" where
  "PasswordReset_GetByTokenHash e tenantID tokenHash =
     sqlFirst e password_resets (\<lambda>v. pr_TenantID v = tenantID \<and> pr_TokenHash v = tokenHash)
       ErrInvalidVerificationCode ''failed to get password reset''"

definition PasswordReset_MarkUsed :: "env \<Rightarrow> uuid \<Rightarrow> bool op" where
  "PasswordReset_MarkUsed e i =
     orReturn (sqlUpdate e password_resets password_resets_update (\<lambda>v. pr_ID v = i \<and> pr_UsedAt v = None)
         (\<lambda>v. v\<lparr>pr_UsedAt := Some (now e)\<rparr>) ''failed to mark password reset used'') id
       (\<lambda>rows. succeed (length rows = 1))"

definition PasswordReset_CountSince :: "env \<Rightarrow> uuid \<Rightarrow> uuid \<Rightarrow> go_time \<Rightarrow> int op" where
  "PasswordReset_CountSince e tenantID userID since =
     sqlCount e password_resets (\<lambda>v. pr_TenantID v = tenantID \<and> pr_UserID v = userID \<and> since < pr_CreatedAt v)
       ''failed to count password resets''"

definition PasswordReset_RevokeUnusedByUserID :: "env \<Rightarrow> uuid \<Rightarrow> uuid \<Rightarrow> unit op" where
  "PasswordReset_RevokeUnusedByUserID e tenantID userID =
     orReturn (sqlUpdate e password_resets password_resets_update
         (\<lambda>v. pr_TenantID v = tenantID \<and> pr_UserID v = userID \<and> pr_UsedAt v = None)
         (\<lambda>v. v\<lparr>pr_UsedAt := Some (now e)\<rparr>) ''failed to revoke unused password resets'') id (\<lambda>_. succeed ())"

section \<open>Tokens of a user\<close>

definition AccessToken_DeleteByUserID :: "env \<Rightarrow> uuid \<Rightarrow> uuid \<Rightarrow> unit op" where
  "AccessToken_DeleteByUserID e tenantID userID =
     sqlDelete e access_tokens_update (\<lambda>t. at_TenantID t = tenantID \<and> at_UserID t = userID) ''failed to delete access tokens by user ID''"

definition RefreshToken_DeleteByUserID :: "env \<Rightarrow> uuid \<Rightarrow> uuid \<Rightarrow> unit op" where
  "RefreshToken_DeleteByUserID e tenantID userID =
     sqlDelete e refresh_tokens_update (\<lambda>t. rt_TenantID t = tenantID \<and> rt_UserID t = userID) ''failed to delete refresh tokens by user ID''"

section \<open>Roles and permissions\<close>

definition role_live :: "Role \<Rightarrow> bool" where
  "role_live r \<longleftrightarrow> r_DeletedAt r = None"

definition roles_clash :: "Role \<Rightarrow> Role \<Rightarrow> bool" where
  "roles_clash r s \<longleftrightarrow> r_ID r = r_ID s
     \<or> role_live r \<and> role_live s \<and> r_TenantID r = r_TenantID s \<and> r_Name r = r_Name s"

definition Role_Create :: "env \<Rightarrow> Role \<Rightarrow> unit op" where
  "Role_Create e r =
     sqlInsert e roles roles_update roles_clash
       (r\<lparr>r_IsActive := True, r_CreatedAt := autoCreateTime e (r_CreatedAt r), r_UpdatedAt := autoCreateTime e (r_UpdatedAt r)\<rparr>)
       ''failed to create role''"

definition Role_GetByID :: "env \<Rightarrow> uuid \<Rightarrow> uuid \<Rightarrow> Role op" where
  "Role_GetByID e tenantID roleID =
     sqlFirst e roles (\<lambda>r. r_TenantID r = tenantID \<and> r_ID r = roleID \<and> role_live r) ErrRoleNotFound ''failed to get role by ID''"

definition Role_GetByName :: "env \<Rightarrow> uuid \<Rightarrow> string \<Rightarrow> Role op" where
  "Role_GetByName e tenantID nm =
     sqlFirst e roles (\<lambda>r. r_TenantID r = tenantID \<and> r_Name r = nm \<and> role_live r) ErrRoleNotFound ''failed to get role by name''"

definition Role_Update :: "env \<Rightarrow> Role \<Rightarrow> unit op" where
  "Role_Update e r = sqlSave e roles roles_update r_ID roles_clash (r\<lparr>r_UpdatedAt := now e\<rparr>) ''failed to update role''"

definition Role_Delete :: "env \<Rightarrow> uuid \<Rightarrow> uuid \<Rightarrow> unit op" where
  "Role_Delete e tenantID roleID =
     orReturn (sqlUpdate e roles roles_update (\<lambda>r. r_TenantID r = tenantID \<and> r_ID r = roleID \<and> role_live r)
         (\<lambda>r. r\<lparr>r_DeletedAt := Some (now e)\<rparr>) ''failed to delete role'') id (\<lambda>_. succeed ())"

definition Role_List :: "env \<Rightarrow> uuid \<Rightarrow> int \<Rightarrow> int \<Rightarrow> (Role list \<times> int) op" where
  "Role_List e tenantID limit offset =
     sqlList e roles (\<lambda>r. r_TenantID r = tenantID \<and> role_live r) r_CreatedAt limit offset
       ''failed to count roles'' ''failed to list roles''"

definition permission_live :: "Permission \<Rightarrow> bool" where
  "permission_live p \<longleftrightarrow> p_DeletedAt p = None"

definition permissions_clash :: "Permission \<Rightarrow> Permission \<Rightarrow> bool" where
  "permissions_clash r p \<longleftrightarrow> p_ID r = p_ID p \<or> permission_live r \<and> permission_live p \<and> p_Name r = p_Name p"

definition Permission_Create :: "env \<Rightarrow> Permission \<Rightarrow> unit op" where
  "Permission_Create e p =
     sqlInsert e permissions permissions_update permissions_clash
       (p\<lparr>p_CreatedAt := autoCreateTime e (p_CreatedAt p), p_UpdatedAt := autoCreateTime e (p_UpdatedAt p)\<rparr>)
       ''failed to create permission''"

definition Permission_GetByID :: "env \<Rightarrow> uuid \<Rightarrow> Permission op" where
  "Permission_GetByID e permissionID =
     sqlFirst e permissions (\<lambda>p. p_ID p = permissionID \<and> permission_live p) ErrPermissionNotFound ''failed to get permission by ID''"

definition Permission_GetByName :: "env \<Rightarrow> string \<Rightarrow> Permission op" where
  "Permission_GetByName e nm =
     sqlFirst e permissions (\<lambda>p. p_Name p = nm \<and> permission_live p) ErrPermissionNotFound ''failed to get permission by name''"

definition Permission_Update :: "env \<Rightarrow> Permission \<Rightarrow> unit op" where
  "Permission_Update e p =
     sqlSave e permissions permissions_update p_ID permissions_clash (p\<lparr>p_UpdatedAt := now e\<rparr>) ''failed to update permission''"

definition Permission_Delete :: "env \<Rightarrow> uuid \<Rightarrow> unit op" where
  "Permission_Delete e permissionID =
     orReturn (sqlUpdate e permissions permissions_update (\<lambda>p. p_ID p = permissionID \<and> permission_live p)
         (\<lambda>p. p\<lparr>p_DeletedAt := Some (now e)\<rparr>) ''failed to delete permission'') id (\<lambda>_. succeed ())"

definition user_roles_clash :: "UserRole \<Rightarrow> UserRole \<Rightarrow> bool" where
  "user_roles_clash r u \<longleftrightarrow> ur_ID r = ur_ID u
     \<or> ur_TenantID r = ur_TenantID u \<and> ur_UserID r = ur_UserID u \<and> ur_RoleID r = ur_RoleID u"

definition UserRole_Create :: "env \<Rightarrow> UserRole \<Rightarrow> unit op" where
  "UserRole_Create e u =
     sqlInsert e user_roles user_roles_update user_roles_clash
       (u\<lparr>ur_GrantedAt := autoCreateTime e (ur_GrantedAt u)\<rparr>) ''failed to create user role''"

definition UserRole_GetByUserAndRole :: "env \<Rightarrow> uuid \<Rightarrow> uuid \<Rightarrow> uuid \<Rightarrow> UserRole op" where
  "UserRole_GetByUserAndRole e tenantID userID roleID =
     sqlFirst e user_roles (\<lambda>u. ur_TenantID u = tenantID \<and> ur_UserID u = userID \<and> ur_RoleID u = roleID)
       ErrRoleNotFound ''failed to get user role''"

definition UserRole_Delete :: "env \<Rightarrow> uuid \<Rightarrow> uuid \<Rightarrow> uuid \<Rightarrow> unit op" where
  "UserRole_Delete e tenantID userID roleID =
     sqlDelete e user_roles_update (\<lambda>u. ur_TenantID u = tenantID \<and> ur_UserID u = userID \<and> ur_RoleID u = roleID)
       ''failed to delete user role''"

definition UserRole_GetUserRoles :: "env \<Rightarrow> uuid \<Rightarrow> uuid \<Rightarrow> UserRole list op" where
  "UserRole_GetUserRoles e tenantID userID =
     sqlFind e user_roles (\<lambda>u. ur_TenantID u = tenantID \<and> ur_UserID u = userID) ''failed to get user roles''"

definition UserRole_GetRoleUsers :: "env \<Rightarrow> uuid \<Rightarrow> uuid \<Rightarrow> UserRole list op" where
  "UserRole_GetRoleUsers e tenantID roleID =
     sqlFind e user_roles (\<lambda>u. ur_TenantID u = tenantID \<and> ur_RoleID u = roleID) ''failed to get role users''"

definition UserRole_DeleteExpired :: "env \<Rightarrow> unit op" where
  "UserRole_DeleteExpired e =
     sqlDelete e user_roles_update (\<lambda>u. case ur_ExpiresAt u of None \<Rightarrow> False | Some t \<Rightarrow> t < now e)
       ''failed to delete expired user roles''"

definition role_permissions_clash :: "RolePermission \<Rightarrow> RolePermission \<Rightarrow> bool" where
  "role_permissions_clash r p \<longleftrightarrow> rp_ID r = rp_ID p \<or> rp_RoleID r = rp_RoleID p \<and> rp_PermissionID r = rp_PermissionID p"

definition RolePermission_Create :: "env \<Rightarrow> RolePermission \<Rightarrow> unit op" where
  "RolePermission_Create e p =
     sqlInsert e role_permissions role_permissions_update role_permissions_clash
       (p\<lparr>rp_GrantedAt := autoCreateTime e (rp_GrantedAt p)\<rparr>) ''failed to create role permission''"

definition RolePermission_GetByRoleAndPermission :: "env \<Rightarrow> uuid \<Rightarrow> uuid \<Rightarrow> RolePermission op" where
  "RolePermission_GetByRoleAndPermission e roleID permissionID =
     sqlFirst e role_permissions (\<lambda>p. rp_RoleID p = roleID \<and> rp_PermissionID p = permissionID)
       ErrPermissionNotFound ''failed to get role permission''"

definition RolePermission_Delete :: "env \<Rightarrow> uuid \<Rightarrow> uuid \<Rightarrow> unit op" where
  "RolePermission_Delete e roleID permissionID =
     sqlDelete e role_permissions_update (\<lambda>p. rp_RoleID p = roleID \<and> rp_PermissionID p = permissionID)
       ''failed to delete role permission''"

definition RolePermission_GetRolePermissions :: "env \<Rightarrow> uuid \<Rightarrow> RolePermission list op" where
  "RolePermission_GetRolePermissions e roleID =
     sqlFind e role_permissions (\<lambda>p. rp_RoleID p = roleID) ''failed to get role permissions''"

definition RolePermission_GetPermissionRoles :: "env \<Rightarrow> uuid \<Rightarrow> RolePermission list op" where
  "RolePermission_GetPermissionRoles e permissionID =
     sqlFind e role_permissions (\<lambda>p. rp_PermissionID p = permissionID) ''failed to get permission roles''"

section \<open>Idempotency keys\<close>

definition idempotency_scope :: "IdempotencyKey \<Rightarrow> uuid \<times> string \<times> string" where
  "idempotency_scope k = (ik_TenantID k, ik_Principal k, ik_Key k)"

text \<open>INSERT, or take over a dead record in the same statement; the answer tells a new record from the existing one.\<close>

definition IdempotencyKey_Begin :: "env \<Rightarrow> IdempotencyKey \<Rightarrow> go_time \<Rightarrow> (bool \<times> IdempotencyKey option) op" where
  "IdempotencyKey_Begin e r staleBefore =
     (let row = r\<lparr>ik_CreatedAt := now e\<rparr>;
          dead = (\<lambda>k. ik_ExpiresAt k < now e \<or> ik_StatusCode k = 0 \<and> ik_CreatedAt k < staleBefore)
      in orReturn (runSQL e (\<lambda>w.
           case find (\<lambda>k. idempotency_scope k = idempotency_scope row) (idempotency_keys w) of
             None \<Rightarrow>
               if list_ex (\<lambda>k. ik_ID k = ik_ID row) (idempotency_keys w) then Inl UniqueViolation
               else Inr (True, idempotency_keys_update (\<lambda>rows. rows @ [row]) w)
           | Some k \<Rightarrow>
               if dead k
               then if list_ex (\<lambda>k. idempotency_scope k \<noteq> idempotency_scope row \<and> ik_ID k = ik_ID row) (idempotency_keys w) then Inl UniqueViolation
                 else Inr (True, idempotency_keys_update (map (\<lambda>k. if idempotency_scope k = idempotency_scope row then row else k)) w)
               else Inr (False, w))) (Wrapped ''failed to store idempotency key'') (\<lambda>affected.
         if affected then succeed (True, None)
         else orReturn (sqlFirst e idempotency_keys (\<lambda>k. idempotency_scope k = idempotency_scope row)
                ErrResourceConflict ''failed to get idempotency key'') id (\<lambda>existing. succeed (False, Some existing))))"

definition IdempotencyKey_Complete :: "env \<Rightarrow> uuid \<Rightarrow> int \<Rightarrow> string \<Rightarrow> string \<Rightarrow> unit op" where
  "IdempotencyKey_Complete e i statusCode contentType body =
     orReturn (sqlUpdate e idempotency_keys idempotency_keys_update (\<lambda>k. ik_ID k = i)
         (\<lambda>k. k\<lparr>ik_StatusCode := statusCode, ik_ResponseContentType := contentType, ik_ResponseBody := body\<rparr>)
         ''failed to complete idempotency key'') id (\<lambda>_. succeed ())"

definition IdempotencyKey_Delete :: "env \<Rightarrow> uuid \<Rightarrow> unit op" where
  "IdempotencyKey_Delete e i =
     sqlDelete e idempotency_keys_update (\<lambda>k. ik_ID k = i) ''failed to delete idempotency key''"

definition IdempotencyKey_DeleteExpired :: "env \<Rightarrow> unit op" where
  "IdempotencyKey_DeleteExpired e =
     sqlDelete e idempotency_keys_update (\<lambda>k. ik_ExpiresAt k < now e) ''failed to delete expired idempotency keys''"

section \<open>Running transactions and queries\<close>

lemma run_transaction [monad_simps]:
  "run_state (transaction e m) w =
     (let w1 = w\<lparr>stmts := Suc (stmts w)\<rparr>
      in if fails e (stmts w) then (Inl DBError, w1)
         else case run_state m w1 of
            (Inl er, w2) \<Rightarrow> (Inl er, w1\<lparr>stmts := Suc (stmts w2), draws := draws w2\<rparr>)
          | (Inr a, w2) \<Rightarrow>
              if fails e (stmts w2) then (Inl DBError, w1\<lparr>stmts := Suc (stmts w2), draws := draws w2\<rparr>)
              else (Inr a, w2\<lparr>stmts := Suc (stmts w2)\<rparr>))"
  by (simp add: transaction_def run_runSQL Let_def)

text \<open>A transaction succeeds exactly when its body and the commit do; otherwise the tables are as before.\<close>

lemma transaction_Inr:
  assumes "run_state (transaction e m) w = (Inr a, w')"
  shows "\<exists>w2. run_state m (w\<lparr>stmts := Suc (stmts w)\<rparr>) = (Inr a, w2) \<and> w' = w2\<lparr>stmts := Suc (stmts w2)\<rparr>"
  using assms by (auto simp: run_transaction Let_def split: if_splits prod.splits sum.splits)

lemma transaction_Inl:
  assumes "run_state (transaction e m) w = (Inl er, w')"
  shows "\<exists>n d. w' = w\<lparr>stmts := n, draws := d\<rparr>"
proof (cases "fails e (stmts w)")
  case True
  then show ?thesis
    using assms by (auto simp: run_transaction Let_def intro!: exI [of _ "Suc (stmts w)", OF exI [of _ "draws w"]])
next
  case False
  obtain r w2 where "run_state m (w\<lparr>stmts := Suc (stmts w)\<rparr>) = (r, w2)"
    by fastforce
  then show ?thesis
    using assms False
    by (auto simp: run_transaction Let_def split: sum.splits if_splits
        intro!: exI [of _ "Suc (stmts w2)", OF exI [of _ "draws w2"]])
qed

lemma run_sqlCount [monad_simps]:
  "run_state (sqlCount e get P msg) w =
     (if fails e (stmts w) then Inl (Wrapped msg DBError) else Inr (int (length (filter P (get (w\<lparr>stmts := Suc (stmts w)\<rparr>))))),
      w\<lparr>stmts := Suc (stmts w)\<rparr>)"
  by (simp add: sqlCount_def run_mapErr run_runSQL Let_def)

lemma run_sqlFind [monad_simps]:
  "run_state (sqlFind e get P msg) w =
     (if fails e (stmts w) then Inl (Wrapped msg DBError) else Inr (filter P (get (w\<lparr>stmts := Suc (stmts w)\<rparr>))),
      w\<lparr>stmts := Suc (stmts w)\<rparr>)"
  by (simp add: sqlFind_def run_mapErr run_runSQL Let_def)

end
