(* ===== verification/MFAService.thy ===== *)
theory MFAService
  imports Otp MoreRepos
begin

text \<open>The second factor of a login (\<^verbatim>\<open>internal/services/mfa_service_impl.go\<close>): enrollment, verification with replay
  protection and lockout, recovery codes. The service's clock is the clock of the request.\<close>

definition MaxMFAFailures :: int where "MaxMFAFailures = 5"

definition MFALockoutDuration :: duration where "MFALockoutDuration = seconds (15 * 60)"

definition mfaEnrollmentWindow :: duration where "mfaEnrollmentWindow = seconds (15 * 60)"

definition defaultMFAIssuer :: string where "defaultMFAIssuer = ''ShieldGate''"

definition AMRPassword :: string where "AMRPassword = ''pwd''"

definition AMROTP :: string where "AMROTP = ''otp''"

definition AMRMFA :: string where "AMRMFA = ''mfa''"

definition MFAMethodTOTP :: string where "MFAMethodTOTP = ''totp''"

definition MFAMethodRecoveryCode :: string where "MFAMethodRecoveryCode = ''recovery_code''"

definition AMRForSecondFactor :: "string \<Rightarrow> string list" where
  "AMRForSecondFactor m = (if m = MFAMethodTOTP then [AMRPassword, AMROTP, AMRMFA] else [AMRPassword, AMRMFA])"

record MFAStatus =
  ms_Enabled :: bool
  ms_Methods :: "string list"
  ms_EnabledAt :: "go_time option"
  ms_RecoveryCodesRemaining :: int

record TOTPEnrollment =
  te_Secret :: string
  te_OTPAuthURI :: string

definition secretAAD :: "env \<Rightarrow> uuid \<Rightarrow> uuid \<Rightarrow> string" where
  "secretAAD e tenantID userID = uuidString e tenantID @ ''|'' @ uuidString e userID"

definition MFA_Status :: "env \<Rightarrow> uuid \<Rightarrow> uuid \<Rightarrow> MFAStatus op" where
  "MFA_Status e tenantID userID = do {
     let status = \<lparr>ms_Enabled = False, ms_Methods = [], ms_EnabledAt = None, ms_RecoveryCodesRemaining = 0\<rparr>;
     r \<leftarrow> MFA_Get e tenantID userID;
     case r of
       Inl er \<Rightarrow> if errors_Is er ErrMFANotEnabled then succeed status else failWith er
     | Inr settings \<Rightarrow>
         if \<not> UserMFA_Enabled settings then succeed status
         else orReturn (MFA_CountUnusedRecoveryCodes e tenantID userID) id (\<lambda>remaining.
           succeed \<lparr>ms_Enabled = True, ms_Methods = [MFAMethodTOTP], ms_EnabledAt = m_ConfirmedAt settings,
                    ms_RecoveryCodesRemaining = remaining\<rparr>)
   }"

definition IsEnabled :: "env \<Rightarrow> uuid \<Rightarrow> uuid \<Rightarrow> bool op" where
  "IsEnabled e tenantID userID = do {
     r \<leftarrow> MFA_Get e tenantID userID;
     case r of
       Inl er \<Rightarrow> if errors_Is er ErrMFANotEnabled then succeed False else failWith er
     | Inr settings \<Rightarrow> succeed (UserMFA_Enabled settings)
   }"

definition BeginTOTPEnrollment :: "env \<Rightarrow> Keys \<Rightarrow> uuid \<Rightarrow> uuid \<Rightarrow> TOTPEnrollment op" where
  "BeginTOTPEnrollment e ks tenantID userID =
     orReturn (User_GetByID e tenantID userID) id (\<lambda>user.
     orReturn (NewSecret e) (Wrapped ''failed to generate TOTP secret'') (\<lambda>secret.
     orReturn (Keys_Seal e ks secret (secretAAD e tenantID userID)) (Wrapped ''failed to encrypt TOTP secret'') (\<lambda>sealed.
     orReturn (MFA_SavePending e \<lparr>m_UserID = userID, m_TenantID = tenantID, m_TOTPSecret = sealed, m_ConfirmedAt = None,
         m_LastUsedStep = 0, m_FailedAttempts = 0, m_LockedUntil = None, m_CreatedAt = zero_time, m_UpdatedAt = zero_time\<rparr>) id (\<lambda>_. do {
       r \<leftarrow> Tenant_GetByID e tenantID;
       let issuer = (case r of Inr tenant \<Rightarrow> if t_Name tenant \<noteq> [] then t_Name tenant else defaultMFAIssuer
                     | Inl _ \<Rightarrow> defaultMFAIssuer);
       succeed \<lparr>te_Secret = EncodeSecret secret, te_OTPAuthURI = KeyURI issuer (u_Email user) secret\<rparr>
     }))))"

definition newRecoveryCodes :: "env \<Rightarrow> Keys \<Rightarrow> (string list \<times> string list) op" where
  "newRecoveryCodes e ks =
     orReturn (NewRecoveryCodes e) (Wrapped ''failed to generate recovery codes'')
       (\<lambda>codes. succeed (codes, map (HashRecoveryCode ks) codes))"

definition endSessions :: "env \<Rightarrow> uuid \<Rightarrow> uuid \<Rightarrow> unit op" where
  "endSessions e tenantID userID =
     orReturn (Session_DeleteByUserID e tenantID userID) (Wrapped ''failed to end user sessions'') (\<lambda>_. succeed ())"

definition ConfirmTOTPEnrollment :: "env \<Rightarrow> Keys \<Rightarrow> uuid \<Rightarrow> uuid \<Rightarrow> string \<Rightarrow> string list op" where
  "ConfirmTOTPEnrollment e ks tenantID userID code = do {
     r \<leftarrow> MFA_Get e tenantID userID;
     case r of
       Inl er \<Rightarrow> failWith (if errors_Is er ErrMFANotEnabled then ErrMFANotEnrolling else er)
     | Inr settings \<Rightarrow>
         if UserMFA_Enabled settings then failWith ErrMFAAlreadyEnabled
         else if time_sub (now e) (m_UpdatedAt settings) > mfaEnrollmentWindow then failWith ErrMFANotEnrolling
         else orReturn (State_Monad.return (Keys_Open ks (m_TOTPSecret settings) (secretAAD e tenantID userID))) id (\<lambda>secret.
           case Otp.Verify secret code (now e) of (step, ok) \<Rightarrow>
             if \<not> ok then failWith ErrInvalidMFACode
             else orReturn (newRecoveryCodes e ks) id (\<lambda>(codes, hashes).
               orReturn (MFA_Confirm e tenantID userID step hashes) id (\<lambda>_.
               orReturn (endSessions e tenantID userID) id (\<lambda>_. succeed codes))))
   }"

text \<open>\<^verbatim>\<open>check\<close>: the method and whether the code was accepted, without counting failures.\<close>

definition MFA_check :: "env \<Rightarrow> Keys \<Rightarrow> UserMFA \<Rightarrow> string \<Rightarrow> (string \<times> bool) op" where
  "MFA_check e ks settings code =
     (if LooksLikeTOTP code
      then orReturn (State_Monad.return (Keys_Open ks (m_TOTPSecret settings) (secretAAD e (m_TenantID settings) (m_UserID settings)))) id
        (\<lambda>secret. case Otp.Verify secret code (now e) of (step, ok) \<Rightarrow>
           if \<not> ok then succeed ([], False)
           else orReturn (MFA_UseStep e (m_TenantID settings) (m_UserID settings) step) id
             (\<lambda>fresh. succeed (MFAMethodTOTP, fresh)))
      else orReturn (MFA_UseRecoveryCode e (m_TenantID settings) (m_UserID settings) (HashRecoveryCode ks code)) id
             (\<lambda>used. succeed (MFAMethodRecoveryCode, used)))"

definition MFA_Verify :: "env \<Rightarrow> Keys \<Rightarrow> uuid \<Rightarrow> uuid \<Rightarrow> string \<Rightarrow> string op" where
  "MFA_Verify e ks tenantID userID code =
     orReturn (MFA_Get e tenantID userID) id (\<lambda>settings.
     if \<not> UserMFA_Enabled settings then failWith ErrMFANotEnabled
     else if (case m_LockedUntil settings of Some t \<Rightarrow> now e < t | None \<Rightarrow> False) then failWith ErrMFALocked
     else orReturn (MFA_check e ks settings code) id (\<lambda>(m, ok).
       if ok then succeed m
       else orReturn (MFA_RecordFailure e tenantID userID MaxMFAFailures (now e + MFALockoutDuration)) id (\<lambda>_.
         failWith (if MaxMFAFailures \<le> m_FailedAttempts settings + 1 then ErrMFALocked else ErrInvalidMFACode))))"

definition RegenerateRecoveryCodes :: "env \<Rightarrow> Keys \<Rightarrow> uuid \<Rightarrow> uuid \<Rightarrow> string list op" where
  "RegenerateRecoveryCodes e ks tenantID userID =
     orReturn (IsEnabled e tenantID userID) id (\<lambda>enabled.
     if \<not> enabled then failWith ErrMFANotEnabled
     else orReturn (newRecoveryCodes e ks) id (\<lambda>(codes, hashes).
       orReturn (MFA_ReplaceRecoveryCodes e tenantID userID hashes) id (\<lambda>_. succeed codes)))"

definition MFA_Disable :: "env \<Rightarrow> uuid \<Rightarrow> uuid \<Rightarrow> unit op" where
  "MFA_Disable e tenantID userID =
     orReturn (MFA_Get e tenantID userID) id (\<lambda>_.
     orReturn (MFA_Delete e tenantID userID) id (\<lambda>_.
     endSessions e tenantID userID))"

end
