(* ===== verification/Effects.thy ===== *)
theory Effects
  imports MoreRepos
begin

text \<open>Relations between the state before and after an operation that do not see the statement and draw counters: what
  the layers below the services must keep of them, once for every such relation.\<close>

named_theorems effect_intros \<open>operations whose writes lie outside the relations at hand\<close>

locale world_preorder = state_preorder R for R :: "world \<Rightarrow> world \<Rightarrow> bool" +
  assumes counters: "R w (w\<lparr>stmts := n, draws := d\<rparr>)"
begin

lemma stmts_only: "R w (w\<lparr>stmts := n\<rparr>)"
  using counters [where w = w and n = n and d = "draws w"] by simp

lemma draws_only: "R w (w\<lparr>draws := n\<rparr>)"
  using counters [where w = w and n = "stmts w" and d = n] by simp

lemma steps_runSQL:
  assumes "\<And>w r w'. f w = Inr (r, w') \<Longrightarrow> R w w'"
  shows "steps R (runSQL e f)"
  unfolding steps_def
proof
  fix w
  show "R w (snd (run_state (runSQL e f) w))"
    using stmts_only [of w "Suc (stmts w)"] assms [of "w\<lparr>stmts := Suc (stmts w)\<rparr>"]
      R_trans [of w "w\<lparr>stmts := Suc (stmts w)\<rparr>"]
    by (auto simp: run_runSQL Let_def split: sum.split)
qed

lemma steps_sqlFirst: "steps R (sqlFirst e get P nf msg)"
  unfolding sqlFirst_def by (intro steps_intros steps_runSQL) (auto simp: R_refl)

lemma steps_sqlCount: "steps R (sqlCount e get P msg)"
  unfolding sqlCount_def by (intro steps_intros steps_runSQL) (auto simp: R_refl)

lemma steps_sqlFind: "steps R (sqlFind e get P msg)"
  unfolding sqlFind_def by (intro steps_intros steps_runSQL) (auto simp: R_refl)

lemma steps_sqlList: "steps R (sqlList e get P key limit offset msg1 msg2)"
  unfolding sqlList_def by (intro steps_intros steps_runSQL) (auto simp: R_refl)

lemma steps_sqlUpdate:
  assumes "\<And>w. R w (upd (map (\<lambda>r. if P r then f r else r)) w)"
  shows "steps R (sqlUpdate e get upd P f msg)"
  unfolding sqlUpdate_def by (intro steps_intros steps_runSQL) (auto simp: assms)

lemma steps_sqlDelete:
  assumes "\<And>w. R w (upd (filter (\<lambda>r. \<not> P r)) w)"
  shows "steps R (sqlDelete e upd P msg)"
  unfolding sqlDelete_def by (intro steps_intros steps_runSQL) (auto simp: assms)

lemma steps_sqlInsert:
  assumes "\<And>w. R w (upd (\<lambda>rows. rows @ [row]) w)"
  shows "steps R (sqlInsert e get upd clash row msg)"
  unfolding sqlInsert_def by (intro steps_intros steps_runSQL) (auto simp: assms split: if_splits)

lemma steps_sqlSave:
  assumes "\<And>w. R w (upd (\<lambda>rows. rows @ [row]) w)" "\<And>w. R w (upd (map (\<lambda>r. if key r = key row then row else r)) w)"
  shows "steps R (sqlSave e get upd key clash row msg)"
  unfolding sqlSave_def by (intro steps_intros steps_runSQL) (auto simp: assms split: if_splits)

lemma steps_draw: "steps R (State (\<lambda>w. (g w, w\<lparr>draws := Suc (draws w)\<rparr>)))"
  by (simp add: steps_def draws_only)

lemma steps_uuid_New: "steps R (uuid_New e)"
  by (simp add: uuid_New_def steps_draw)

lemma steps_randomToken: "steps R (randomToken e n)"
  by (simp add: randomToken_def steps_draw)

lemma steps_transaction:
  assumes "steps R m"
  shows "steps R (transaction e m)"
  unfolding steps_def
proof
  fix w
  obtain r w2 where m: "run_state m (w\<lparr>stmts := Suc (stmts w)\<rparr>) = (r, w2)"
    by fastforce
  have "R (w\<lparr>stmts := Suc (stmts w)\<rparr>) w2"
    using assms m by (metis steps_def snd_conv)
  then have "R w (w2\<lparr>stmts := n\<rparr>)" for n
    using stmts_only R_trans by meson
  then show "R w (snd (run_state (transaction e m) w))"
    using m counters stmts_only by (auto simp: run_transaction Let_def split: sum.split)
qed

lemmas world_steps =
  steps_return steps_succeed steps_failWith steps_bind steps_orReturn steps_mapErr steps_if steps_option steps_sum
  steps_prod steps_Let steps_sqlFirst steps_sqlCount steps_sqlFind steps_sqlList steps_draw steps_uuid_New
  steps_randomToken steps_transaction

end

end
