(* ===== verification/MFAProperties.thy ===== *)
theory MFAProperties
  imports MFAService Effects Samples
begin

text \<open>The promises of the second factor: a TOTP step is accepted once, recovery codes are single-use, wrong codes lock the
  account, and an enrollment is completed only by a code of its secret.\<close>

lemma filter_unique:
  assumes "distinct xs" "x \<in> set xs" "P x" "\<And>y. y \<in> set xs \<Longrightarrow> P y \<Longrightarrow> y = x"
  shows "filter P xs = [x]"
  using assms
proof (induction xs)
  case (Cons a xs)
  show ?case
  proof (cases "a = x")
    case True
    then have "filter P xs = []"
      using Cons.prems(1,4) unfolding filter_empty_conv by (metis distinct.simps(2) list.set_intros(2))
    then show ?thesis
      using True Cons.prems(3) by simp
  next
    case False
    then have "\<not> P a" "filter P xs = [x]"
      using Cons.prems(1,2) Cons.prems(4) [of a] Cons.IH [OF _ _ Cons.prems(3)] Cons.prems(4) by auto
    then show ?thesis
      by simp
  qed
qed simp

section \<open>A confirmed authenticator only moves forward\<close>

definition owned :: "uuid \<Rightarrow> uuid \<Rightarrow> UserMFA \<Rightarrow> bool" where
  "owned t u m \<longleftrightarrow> m_TenantID m = t \<and> m_UserID m = u"

definition mfa_later :: "UserMFA \<Rightarrow> UserMFA \<Rightarrow> bool" where
  "mfa_later m m' \<longleftrightarrow> m_TenantID m' = m_TenantID m \<and> m_UserID m' = m_UserID m \<and> m_TOTPSecret m' = m_TOTPSecret m
     \<and> UserMFA_Enabled m' \<and> m_LastUsedStep m \<le> m_LastUsedStep m'"

definition mfa_grows :: "uuid \<Rightarrow> uuid \<Rightarrow> world \<Rightarrow> world \<Rightarrow> bool" where
  "mfa_grows t u w w' \<longleftrightarrow> (distinct (map m_UserID (user_mfa w)) \<longrightarrow>
     distinct (map m_UserID (user_mfa w'))
     \<and> (\<forall>m \<in> set (user_mfa w). owned t u m \<and> UserMFA_Enabled m \<longrightarrow> (\<exists>m' \<in> set (user_mfa w'). mfa_later m m')))"

lemma mfa_later_refl: "UserMFA_Enabled m \<Longrightarrow> mfa_later m m"
  by (simp add: mfa_later_def)

lemma mfa_later_trans: "mfa_later m m' \<Longrightarrow> mfa_later m' m'' \<Longrightarrow> mfa_later m m''"
  by (simp add: mfa_later_def)

lemma mfa_later_owned: "mfa_later m m' \<Longrightarrow> (owned t u m' \<longleftrightarrow> owned t u m) \<and> UserMFA_Enabled m'"
  by (simp add: mfa_later_def owned_def)

lemma grows_same: "user_mfa w' = user_mfa w \<Longrightarrow> mfa_grows t u w w'"
  using mfa_later_refl by (auto simp: mfa_grows_def)

interpretation mg: world_preorder "mfa_grows t u" for t u
proof unfold_locales
  fix w v x :: world
  assume a: "mfa_grows t u w v" "mfa_grows t u v x"
  show "mfa_grows t u w x"
    unfolding mfa_grows_def
  proof (intro impI conjI ballI)
    assume d: "distinct (map m_UserID (user_mfa w))"
    then show "distinct (map m_UserID (user_mfa x))"
      using a by (simp add: mfa_grows_def)
    fix m
    assume m: "m \<in> set (user_mfa w)" "owned t u m \<and> UserMFA_Enabled m"
    obtain m' where m': "m' \<in> set (user_mfa v)" "mfa_later m m'"
      using a(1) d m unfolding mfa_grows_def by blast
    then obtain m'' where "m'' \<in> set (user_mfa x)" "mfa_later m' m''"
      using a d m(2) mfa_later_owned [OF m'(2)] unfolding mfa_grows_def by blast
    then show "\<exists>m'' \<in> set (user_mfa x). mfa_later m m''"
      using mfa_later_trans [OF m'(2)] by blast
  qed
qed (simp_all add: grows_same)

lemma grows_map:
  assumes "\<And>m. m \<in> set (user_mfa w) \<Longrightarrow> m_UserID (f m) = m_UserID m"
    "\<And>m. m \<in> set (user_mfa w) \<Longrightarrow> owned t u m \<Longrightarrow> UserMFA_Enabled m \<Longrightarrow> mfa_later m (f m)"
  shows "mfa_grows t u w (user_mfa_update (map f) w)"
proof -
  have "map m_UserID (map f (user_mfa w)) = map m_UserID (user_mfa w)"
    using assms(1) by simp
  then show ?thesis
    using assms(2) unfolding mfa_grows_def by (auto simp del: map_map)
qed

text \<open>The row an enrollment replaces is the only one of its user, and unconfirmed.\<close>

lemma grows_pending_map:
  assumes "find (\<lambda>r. m_UserID r = i) (user_mfa w) = Some x" "m_ConfirmedAt x = None" "\<And>r. m_UserID (g r) = m_UserID r"
  shows "mfa_grows t u w (user_mfa_update (map (\<lambda>r. if m_UserID r = i then g r else r)) w)"
proof (cases "distinct (map m_UserID (user_mfa w))")
  case True
  have "\<not> UserMFA_Enabled m" if "m \<in> set (user_mfa w)" "m_UserID m = i" for m
    using find_SomeD [OF assms(1)] distinct_map_eq [OF True that(1), of x] that assms(2) by (auto simp: UserMFA_Enabled_def)
  then show ?thesis
    using assms(3) mfa_later_refl by (intro grows_map) auto
qed (simp add: mfa_grows_def)

lemma grows_SavePending: "steps (mfa_grows t u) (MFA_SavePending e m)"
  unfolding MFA_SavePending_def Let_def
proof (intro mg.world_steps mg.steps_runSQL)
  fix w w' :: world and r
  let ?row = "m\<lparr>m_ConfirmedAt := None, m_CreatedAt := now e, m_UpdatedAt := now e\<rparr>"
  assume run: "(case find (\<lambda>r. m_UserID r = m_UserID ?row) (user_mfa w) of
       None \<Rightarrow> Inr (True, user_mfa_update (\<lambda>rows. rows @ [?row]) w)
     | Some r \<Rightarrow> if m_ConfirmedAt r = None \<and> m_TenantID r = m_TenantID ?row
         then Inr (True, user_mfa_update (map (\<lambda>r. if m_UserID r = m_UserID ?row
            then r\<lparr>m_TOTPSecret := m_TOTPSecret ?row, m_LastUsedStep := m_LastUsedStep ?row,
                   m_FailedAttempts := m_FailedAttempts ?row, m_LockedUntil := m_LockedUntil ?row,
                   m_CreatedAt := m_CreatedAt ?row, m_UpdatedAt := m_UpdatedAt ?row\<rparr> else r)) w)
         else Inr (False, w)) = Inr (r, w')"
  show "mfa_grows t u w w'"
  proof (cases "find (\<lambda>r. m_UserID r = m_UserID ?row) (user_mfa w)")
    case None
    then have "w' = user_mfa_update (\<lambda>rows. rows @ [?row]) w"
      using run by simp
    then show ?thesis
      using None mfa_later_refl by (auto simp: mfa_grows_def find_None_iff)
  next
    case (Some x)
    then show ?thesis
      using run Some by (auto simp: grows_same split: if_splits intro!: grows_pending_map [of _ _ x])
  qed
qed

lemma grows_recovery_rows [effect_intros]: "steps (mfa_grows t u) (newRecoveryRows e t' u' hs)"
  by (induction hs) (auto intro!: mg.world_steps)

lemma grows_writes [effect_intros]:
  "steps (mfa_grows t u) (MFA_UseStep e t' u' s)"
  "steps (mfa_grows t u) (MFA_RecordFailure e t' u' n l)"
  "steps (mfa_grows t u) (MFA_UseRecoveryCode e t' u' h)"
  "steps (mfa_grows t u) (MFA_ReplaceRecoveryCodes e t' u' hs)"
  "steps (mfa_grows t u) (MFA_Confirm e t' u' s hs)"
  "steps (mfa_grows t u) (Session_DeleteByUserID e t' u')"
  unfolding MFA_UseStep_def MFA_RecordFailure_def MFA_UseRecoveryCode_def MFA_ReplaceRecoveryCodes_def MFA_Confirm_def
    replaceRecoveryCodes_def Session_DeleteByUserID_def
  by (intro mg.world_steps mg.steps_sqlUpdate mg.steps_sqlDelete mg.steps_runSQL grows_recovery_rows;
      auto simp: mfa_later_def owned_def UserMFA_Enabled_def grows_same intro!: grows_map split: if_splits)+

section \<open>Requests\<close>

datatype mfa_request =
    StatusMFA uuid uuid
  | EnrollMFA uuid uuid
  | ConfirmMFA uuid uuid string
  | VerifyMFA uuid uuid string
  | RegenerateMFA uuid uuid
  | DisableMFA uuid uuid

fun mfa_handle :: "env \<Rightarrow> Keys \<Rightarrow> mfa_request \<Rightarrow> (world, unit) state" where
  "mfa_handle e ks (StatusMFA t u) = do { _ \<leftarrow> MFA_Status e t u; State_Monad.return () }"
| "mfa_handle e ks (EnrollMFA t u) = do { _ \<leftarrow> BeginTOTPEnrollment e ks t u; State_Monad.return () }"
| "mfa_handle e ks (ConfirmMFA t u c) = do { _ \<leftarrow> ConfirmTOTPEnrollment e ks t u c; State_Monad.return () }"
| "mfa_handle e ks (VerifyMFA t u c) = do { _ \<leftarrow> MFA_Verify e ks t u c; State_Monad.return () }"
| "mfa_handle e ks (RegenerateMFA t u) = do { _ \<leftarrow> RegenerateRecoveryCodes e ks t u; State_Monad.return () }"
| "mfa_handle e ks (DisableMFA t u) = do { _ \<leftarrow> MFA_Disable e t u; State_Monad.return () }"

text \<open>Each request has its own environment, so the clock moves between them; the keys are the server's.\<close>

fun mfa_run :: "Keys \<Rightarrow> (env \<times> mfa_request) list \<Rightarrow> (world, unit) state" where
  "mfa_run ks [] = State_Monad.return ()"
| "mfa_run ks ((e, r) # rs) = do { _ \<leftarrow> mfa_handle e ks r; mfa_run ks rs }"

lemma grows_recovery [effect_intros]: "steps (mfa_grows t u) (newRecoveryCodes e ks)"
proof -
  have "steps (mfa_grows t u) (NewRecoveryCodes_loop e n)" for n
    by (induction n) (auto intro!: mg.world_steps)
  then show ?thesis
    unfolding newRecoveryCodes_def NewRecoveryCodes_def by (intro mg.world_steps)
qed

lemma grows_Verify: "steps (mfa_grows t u) (MFA_Verify e ks t' u' c)"
  unfolding MFA_Verify_def MFA_check_def MFA_Get_def by (intro mg.world_steps effect_intros)

lemma grows_Disable:
  assumes "(t', u') \<noteq> (t, u)"
  shows "steps (mfa_grows t u) (MFA_Disable e t' u')"
proof -
  have "mfa_grows t u w (user_mfa_update (filter (\<lambda>m. \<not> (m_TenantID m = t' \<and> m_UserID m = u'))) w)" for w
    using assms mfa_later_refl distinct_map_filter by (fastforce simp: mfa_grows_def owned_def)
  then show ?thesis
    unfolding MFA_Disable_def MFA_Get_def MFA_Delete_def endSessions_def
    by (intro mg.world_steps mg.steps_sqlDelete effect_intros) (simp_all add: grows_same)
qed

lemma grows_handle:
  assumes "r \<noteq> DisableMFA t u"
  shows "steps (mfa_grows t u) (mfa_handle e ks r)"
  using assms
  by (cases r) (auto simp: MFA_Status_def BeginTOTPEnrollment_def ConfirmTOTPEnrollment_def RegenerateRecoveryCodes_def
      IsEnabled_def MFA_CountUnusedRecoveryCodes_def MFA_Get_def endSessions_def NewSecret_def Keys_Seal_def User_GetByID_def
      Tenant_GetByID_def split_beta
      intro!: mg.world_steps effect_intros grows_Verify grows_Disable grows_SavePending)

lemma grows_run:
  assumes "\<forall>e. (e, DisableMFA t u) \<notin> set rs"
  shows "steps (mfa_grows t u) (mfa_run ks rs)"
  using assms by (induction ks rs rule: mfa_run.induct) (auto intro!: mg.world_steps grows_handle)

section \<open>Accepting a code\<close>

definition mfa_unlocked :: "env \<Rightarrow> UserMFA \<Rightarrow> bool" where
  "mfa_unlocked e m \<longleftrightarrow> (case m_LockedUntil m of Some t \<Rightarrow> t \<le> now e | None \<Rightarrow> True)"

definition totp_used :: "env \<Rightarrow> uuid \<Rightarrow> uuid \<Rightarrow> int \<Rightarrow> UserMFA \<Rightarrow> UserMFA" where
  "totp_used e t u s m =
     (if owned t u m \<and> UserMFA_Enabled m \<and> m_LastUsedStep m < s
      then m\<lparr>m_LastUsedStep := s, m_FailedAttempts := 0, m_LockedUntil := None, m_UpdatedAt := now e\<rparr> else m)"

lemma Get_run:
  "run_state (MFA_Get e t u) w =
     (if fails e (stmts w) then Inl (Wrapped ''failed to get MFA settings'' DBError)
      else case find (owned t u) (user_mfa w) of None \<Rightarrow> Inl ErrMFANotEnabled | Some m \<Rightarrow> Inr m,
      w\<lparr>stmts := Suc (stmts w)\<rparr>)"
  by (simp add: MFA_Get_def user_mfa.First_run owned_def [abs_def])

lemma UseStep_run:
  "run_state (MFA_UseStep e t u s) w =
     (if fails e (stmts w) then (Inl (Wrapped ''failed to record TOTP use'' DBError), w\<lparr>stmts := Suc (stmts w)\<rparr>)
      else (Inr (length (filter (\<lambda>m. owned t u m \<and> UserMFA_Enabled m \<and> m_LastUsedStep m < s) (user_mfa w)) = 1),
            w\<lparr>stmts := Suc (stmts w), user_mfa := map (totp_used e t u s) (user_mfa w)\<rparr>))"
  by (auto simp: MFA_UseStep_def monad_simps user_mfa.Update_run owned_def UserMFA_Enabled_def totp_used_def [abs_def]
      conj_assoc cong: if_cong)

text \<open>What follows the checks on the stored settings.\<close>

definition mfa_settle :: "env \<Rightarrow> Keys \<Rightarrow> uuid \<Rightarrow> uuid \<Rightarrow> UserMFA \<Rightarrow> string \<Rightarrow> string op" where
  "mfa_settle e ks t u m code =
     orReturn (MFA_check e ks m code) id (\<lambda>(meth, ok).
       if ok then succeed meth
       else orReturn (MFA_RecordFailure e t u MaxMFAFailures (now e + MFALockoutDuration)) id (\<lambda>_.
         failWith (if MaxMFAFailures \<le> m_FailedAttempts m + 1 then ErrMFALocked else ErrInvalidMFACode)))"

lemma Verify_run:
  "run_state (MFA_Verify e ks t u code) w =
     (let w1 = w\<lparr>stmts := Suc (stmts w)\<rparr>
      in if fails e (stmts w) then (Inl (Wrapped ''failed to get MFA settings'' DBError), w1)
         else case find (owned t u) (user_mfa w) of
           None \<Rightarrow> (Inl ErrMFANotEnabled, w1)
         | Some m \<Rightarrow>
             if \<not> UserMFA_Enabled m then (Inl ErrMFANotEnabled, w1)
             else if \<not> mfa_unlocked e m then (Inl ErrMFALocked, w1)
             else run_state (mfa_settle e ks t u m code) w1)"
  by (auto simp: MFA_Verify_def run_orReturn Get_run run_failWith mfa_unlocked_def mfa_settle_def Let_def split: option.splits)

lemma Verify_totp_Inr:
  assumes "run_state (MFA_Verify e ks t u code) w = (Inr meth, w')" "LooksLikeTOTP code"
  shows "\<exists>m sec step. find (owned t u) (user_mfa w) = Some m \<and> UserMFA_Enabled m \<and> mfa_unlocked e m
     \<and> Keys_Open ks (m_TOTPSecret m) (secretAAD e t u) = Inr sec \<and> Otp.Verify sec code (now e) = (step, True)
     \<and> length (filter (\<lambda>m. owned t u m \<and> UserMFA_Enabled m \<and> m_LastUsedStep m < step) (user_mfa w)) = 1
     \<and> user_mfa w' = map (totp_used e t u step) (user_mfa w) \<and> meth = MFAMethodTOTP"
proof -
  obtain m where m: "find (owned t u) (user_mfa w) = Some m" "UserMFA_Enabled m" "mfa_unlocked e m"
    "run_state (mfa_settle e ks t u m code) (w\<lparr>stmts := Suc (stmts w)\<rparr>) = (Inr meth, w')"
    using assms(1) by (auto simp: Verify_run Let_def split: if_splits option.splits)
  have own: "m_TenantID m = t" "m_UserID m = u"
    using find_SomeD [OF m(1)] by (simp_all add: owned_def)
  obtain meth' ok w2 where c: "run_state (MFA_check e ks m code) (w\<lparr>stmts := Suc (stmts w)\<rparr>) = (Inr (meth', ok), w2)"
    "ok" "meth' = meth" "w' = w2"
    using m(4) by (auto simp: mfa_settle_def run_orReturn run_failWith run_succeed split: prod.splits sum.splits if_splits)
  obtain sec where sec: "Keys_Open ks (m_TOTPSecret m) (secretAAD e t u) = Inr sec"
    using c(1) assms(2) own by (auto simp: MFA_check_def run_orReturn run_return split: sum.splits)
  obtain step v where ver: "Otp.Verify sec code (now e) = (step, v)"
    by fastforce
  show ?thesis
    using c m ver sec assms(2) own
    by (auto simp: MFA_check_def run_orReturn run_return run_succeed UseStep_run split: if_splits)
qed

text \<open>The step of an accepted code is newer than the last one, and becomes the last one.\<close>

lemma Verify_totp_step:
  assumes "run_state (MFA_Verify e ks t u code) w = (Inr meth, w')" "LooksLikeTOTP code"
    and "distinct (map m_UserID (user_mfa w))"
  shows "\<exists>m sec step. find (owned t u) (user_mfa w) = Some m \<and> UserMFA_Enabled m
     \<and> Keys_Open ks (m_TOTPSecret m) (secretAAD e t u) = Inr sec \<and> Otp.Verify sec code (now e) = (step, True)
     \<and> m_LastUsedStep m < step \<and> totp_used e t u step m \<in> set (user_mfa w') \<and> m_LastUsedStep (totp_used e t u step m) = step"
proof -
  obtain m sec step where m: "find (owned t u) (user_mfa w) = Some m" "UserMFA_Enabled m"
    "Keys_Open ks (m_TOTPSecret m) (secretAAD e t u) = Inr sec" "Otp.Verify sec code (now e) = (step, True)"
    "length (filter (\<lambda>m. owned t u m \<and> UserMFA_Enabled m \<and> m_LastUsedStep m < step) (user_mfa w)) = 1"
    "user_mfa w' = map (totp_used e t u step) (user_mfa w)"
    using Verify_totp_Inr [OF assms(1,2)] by blast
  obtain x where "x \<in> set (user_mfa w)" "owned t u x" "m_LastUsedStep x < step"
    using m(5) by (metis (no_types, lifting) filter_False length_0_conv zero_neq_one)
  then have "m_LastUsedStep m < step"
    using distinct_map_eq [OF assms(3), of x m] find_SomeD [OF m(1)] by (auto simp: owned_def)
  then show ?thesis
    using m find_SomeD [OF m(1)] by (auto simp: totp_used_def)
qed

lemma find_owned:
  assumes "distinct (map m_UserID (user_mfa w))" "m \<in> set (user_mfa w)" "owned t u m"
  shows "find (owned t u) (user_mfa w) = Some m"
proof (rule find_unique)
  show "m \<in> set (user_mfa w)" "owned t u m"
    by (fact assms(2,3))+
  show "y = m" if "y \<in> set (user_mfa w)" "owned t u y" for y
    using distinct_map_eq [OF assms(1) that(1) assms(2)] that(2) assms(3) by (simp add: owned_def)
qed

lemma Verify_earliest:
  assumes "Otp.Verify sec code tm = (step, True)" "s < step" "\<bar>s - Step tm\<bar> \<le> 1"
  shows "Code sec s \<noteq> strings_TrimSpace code"
proof
  assume "Code sec s = strings_TrimSpace code"
  then have "step \<le> s"
    using Verify_spec [OF assms(1)] assms(3) by blast
  then show False
    using assms(2) by simp
qed

text \<open>C17: Between two accepted TOTP codes of one enrollment, whatever requests come in between (other than disabling the
  second factor), the accepted time step strictly increases. Both steps are steps of the enrolled secret, the first match in the window
  of their request; each becomes the last used step that is stored, and the second is newer than what was stored for it by then. So a
  code that was observed is not accepted again while its step is in the window.\<close>

theorem totp_steps_increase:
  assumes "distinct (map m_UserID (user_mfa w))"
    and "run_state (MFA_Verify e1 ks t u code1) w = (Inr meth1, w1)" "LooksLikeTOTP code1"
    and "run_state (mfa_run ks rs) w1 = ((), w2)" "\<forall>e. (e, DisableMFA t u) \<notin> set rs"
    and "run_state (MFA_Verify e2 ks t u code2) w2 = (Inr meth2, w3)" "LooksLikeTOTP code2"
    and "uuidString e2 = uuidString e1"
  shows "\<exists>m m1 m2 m3 sec s1 s2.
     find (owned t u) (user_mfa w) = Some m \<and> UserMFA_Enabled m \<and> Keys_Open ks (m_TOTPSecret m) (secretAAD e1 t u) = Inr sec
     \<and> Otp.Verify sec code1 (now e1) = (s1, True) \<and> Otp.Verify sec code2 (now e2) = (s2, True)
     \<and> find (owned t u) (user_mfa w1) = Some m1 \<and> find (owned t u) (user_mfa w2) = Some m2 \<and> find (owned t u) (user_mfa w3) = Some m3
     \<and> m_TOTPSecret m2 = m_TOTPSecret m
     \<and> m_LastUsedStep m < s1 \<and> m_LastUsedStep m1 = s1 \<and> s1 \<le> m_LastUsedStep m2 \<and> m_LastUsedStep m2 < s2 \<and> m_LastUsedStep m3 = s2
     \<and> Code sec s1 = strings_TrimSpace code1 \<and> Code sec s2 = strings_TrimSpace code2
     \<and> (strings_TrimSpace code2 = strings_TrimSpace code1 \<longrightarrow> 1 < \<bar>s1 - Step (now e2)\<bar>)"
proof -
  obtain m sec s1 where m: "find (owned t u) (user_mfa w) = Some m" "UserMFA_Enabled m"
    "Keys_Open ks (m_TOTPSecret m) (secretAAD e1 t u) = Inr sec" "Otp.Verify sec code1 (now e1) = (s1, True)"
    "m_LastUsedStep m < s1" "totp_used e1 t u s1 m \<in> set (user_mfa w1)" "m_LastUsedStep (totp_used e1 t u s1 m) = s1"
    using Verify_totp_step [OF assms(2,3,1)] by blast
  let ?m = "totp_used e1 t u s1 m"
  have own: "owned t u ?m" "UserMFA_Enabled ?m" "m_TOTPSecret ?m = m_TOTPSecret m"
    using m(2) find_SomeD [OF m(1)] by (auto simp: totp_used_def owned_def UserMFA_Enabled_def)
  have d1: "distinct (map m_UserID (user_mfa w1))"
    using mg.steps_run [OF grows_Verify assms(2)] assms(1) by (auto simp: mfa_grows_def)
  have g: "mfa_grows t u w1 w2"
    by (rule mg.steps_run [OF grows_run assms(4)]) (use assms(5) in simp)
  obtain m' where m': "m' \<in> set (user_mfa w2)" "mfa_later ?m m'"
    using g d1 m(6) own(1,2) unfolding mfa_grows_def by blast
  have d2: "distinct (map m_UserID (user_mfa w2))"
    using g d1 by (simp add: mfa_grows_def)
  have d3: "distinct (map m_UserID (user_mfa w3))"
    using mg.steps_run [OF grows_Verify assms(6)] d2 by (auto simp: mfa_grows_def)
  obtain m2 sec2 s2 where m2: "find (owned t u) (user_mfa w2) = Some m2"
    "Keys_Open ks (m_TOTPSecret m2) (secretAAD e2 t u) = Inr sec2" "Otp.Verify sec2 code2 (now e2) = (s2, True)" "m_LastUsedStep m2 < s2"
    "totp_used e2 t u s2 m2 \<in> set (user_mfa w3)" "m_LastUsedStep (totp_used e2 t u s2 m2) = s2"
    using Verify_totp_step [OF assms(6,7) d2] by blast
  have "m2 = m'"
    using distinct_map_eq [OF d2 _ m'(1), of m2] find_SomeD [OF m2(1)] m'(2) own(1) by (auto simp: mfa_later_def owned_def)
  then have later: "sec2 = sec" "s1 \<le> m_LastUsedStep m2" "m_TOTPSecret m2 = m_TOTPSecret m"
    using m2(2) m(3,7) own(3) m'(2) assms(8) by (auto simp: mfa_later_def secretAAD_def)
  have own2: "owned t u (totp_used e2 t u s2 m2)"
    using find_SomeD [OF m2(1)] by (auto simp: totp_used_def owned_def)
  have stored: "find (owned t u) (user_mfa w1) = Some ?m" "find (owned t u) (user_mfa w3) = Some (totp_used e2 t u s2 m2)"
    using find_owned [OF d1 m(6) own(1)] find_owned [OF d3 m2(5) own2] .
  have "1 < \<bar>s1 - Step (now e2)\<bar>" if "strings_TrimSpace code2 = strings_TrimSpace code1"
    using Verify_earliest [OF m2(3), of s1] Verify_spec [OF m(4)] later m2(4) that by force
  then show ?thesis
    using Verify_spec [OF m(4)] Verify_spec [OF m2(3)] m(1-5,7) m2(1,3,4,6) later stored by blast
qed

section \<open>A right code is accepted\<close>

lemma totp_accepted:
  assumes "\<forall>n. \<not> fails e n" "distinct (map m_UserID (user_mfa w))"
    and "m \<in> set (user_mfa w)" "owned t u m" "UserMFA_Enabled m" "mfa_unlocked e m"
    and "Keys_Open ks (m_TOTPSecret m) (secretAAD e t u) = Inr sec"
    and "Otp.Verify sec code (now e) = (step, True)" "m_LastUsedStep m < step"
  shows "run_state (MFA_Verify e ks t u code) w =
     (Inr MFAMethodTOTP, w\<lparr>stmts := stmts w + 2, user_mfa := map (totp_used e t u step) (user_mfa w)\<rparr>)"
proof -
  have uniq: "x = m" if "x \<in> set (user_mfa w)" "owned t u x" for x
    using distinct_map_eq [OF assms(2) that(1) assms(3)] that(2) assms(4) by (simp add: owned_def)
  have f: "find (owned t u) (user_mfa w) = Some m"
    using assms(3,4) uniq by (rule find_unique)
  have "distinct (user_mfa w)"
    using assms(2) distinct_map by blast
  then have "filter (\<lambda>x. owned t u x \<and> UserMFA_Enabled x \<and> m_LastUsedStep x < step) (user_mfa w) = [m]"
    by (rule filter_unique) (use assms(3-5,9) in simp_all, use uniq in blast)
  moreover have "LooksLikeTOTP code"
    using Verify_spec [OF assms(8)] by simp
  ultimately show ?thesis
    using assms(1,4-8) f
    by (simp add: Verify_run mfa_settle_def MFA_check_def run_orReturn run_return run_succeed UseStep_run Let_def owned_def)
qed

section \<open>Wrong codes\<close>

definition mfa_failed :: "env \<Rightarrow> uuid \<Rightarrow> uuid \<Rightarrow> UserMFA \<Rightarrow> UserMFA" where
  "mfa_failed e t u m =
     (if owned t u m
      then m\<lparr>m_FailedAttempts := m_FailedAttempts m + 1,
             m_LockedUntil := (if MaxMFAFailures \<le> m_FailedAttempts m + 1 then Some (now e + MFALockoutDuration) else m_LockedUntil m),
             m_UpdatedAt := now e\<rparr>
      else m)"

lemma RecordFailure_run:
  "run_state (MFA_RecordFailure e t u MaxMFAFailures (now e + MFALockoutDuration)) w =
     (if fails e (stmts w) then (Inl (Wrapped ''failed to record MFA failure'' DBError), w\<lparr>stmts := Suc (stmts w)\<rparr>)
      else (Inr (), w\<lparr>stmts := Suc (stmts w), user_mfa := map (mfa_failed e t u) (user_mfa w)\<rparr>))"
  by (auto simp: MFA_RecordFailure_def monad_simps user_mfa.Update_run owned_def mfa_failed_def [abs_def] cong: if_cong)

definition code_of :: "uuid \<Rightarrow> uuid \<Rightarrow> string \<Rightarrow> MFARecoveryCode \<Rightarrow> bool" where
  "code_of t u h c \<longleftrightarrow> rc_TenantID c = t \<and> rc_UserID c = u \<and> rc_CodeHash c = h"

definition code_used :: "env \<Rightarrow> uuid \<Rightarrow> uuid \<Rightarrow> string \<Rightarrow> MFARecoveryCode \<Rightarrow> MFARecoveryCode" where
  "code_used e t u h c = (if code_of t u h c \<and> rc_UsedAt c = None then c\<lparr>rc_UsedAt := Some (now e)\<rparr> else c)"

lemma UseRecoveryCode_Inr:
  assumes "run_state (MFA_UseRecoveryCode e t u h) w = (Inr ok, w')"
  shows "(ok \<longleftrightarrow> (\<exists>c \<in> set (mfa_recovery_codes w). code_of t u h c \<and> rc_UsedAt c = None))
     \<and> mfa_recovery_codes w' = map (code_used e t u h) (mfa_recovery_codes w) \<and> (\<not> ok \<longrightarrow> user_mfa w' = user_mfa w)"
proof -
  let ?P = "\<lambda>c. code_of t u h c \<and> rc_UsedAt c = None"
  have P: "(\<lambda>c. rc_TenantID c = t \<and> rc_UserID c = u \<and> rc_CodeHash c = h \<and> rc_UsedAt c = None) = ?P"
    by (simp add: code_of_def conj_assoc)
  have mark: "(\<lambda>c. if ?P c then c\<lparr>rc_UsedAt := Some (now e)\<rparr> else c) = code_used e t u h"
    by (simp add: code_used_def [abs_def])
  obtain w2 where body: "run_state (orReturn (sqlUpdate e mfa_recovery_codes mfa_recovery_codes_update ?P
        (\<lambda>c. c\<lparr>rc_UsedAt := Some (now e)\<rparr>) ''failed to use recovery code'') id (\<lambda>rows.
      if rows = [] then succeed False
      else orReturn (runSQL e (\<lambda>w. Inr ((), user_mfa_update
         (map (\<lambda>m. if m_TenantID m = t \<and> m_UserID m = u
                   then m\<lparr>m_FailedAttempts := 0, m_LockedUntil := None, m_UpdatedAt := now e\<rparr> else m)) w))) id
       (\<lambda>_. succeed True))) (w\<lparr>stmts := Suc (stmts w)\<rparr>) = (Inr ok, w2)" "w' = w2\<lparr>stmts := Suc (stmts w2)\<rparr>"
    using transaction_Inr [OF assms [unfolded MFA_UseRecoveryCode_def P]] by blast
  show ?thesis
  proof (cases "filter ?P (mfa_recovery_codes w) = []")
    case True
    then have "map (code_used e t u h) (mfa_recovery_codes w) = mfa_recovery_codes w"
      by (intro map_idI) (auto simp: code_used_def filter_empty_conv)
    then show ?thesis
      using body True by (auto simp: run_orReturn run_succeed mfa_recovery_codes.Update_run mark filter_empty_conv split: if_splits)
  next
    case False
    then show ?thesis
      using body
      by (auto simp: run_orReturn run_succeed run_runSQL Let_def mfa_recovery_codes.Update_run mark filter_empty_conv split: if_splits)
  qed
qed

lemma UseStep_not_fresh:
  assumes "run_state (MFA_UseStep e t u s) w = (Inr False, w')" "distinct (map m_UserID (user_mfa w))"
  shows "user_mfa w' = user_mfa w"
proof -
  let ?P = "\<lambda>m. owned t u m \<and> UserMFA_Enabled m \<and> m_LastUsedStep m < s"
  have n: "length (filter ?P (user_mfa w)) \<noteq> 1" "user_mfa w' = map (totp_used e t u s) (user_mfa w)"
    using assms(1) by (auto simp: UseStep_run split: if_splits)
  have "\<not> ?P m" if "m \<in> set (user_mfa w)" for m
  proof
    assume P: "?P m"
    have "filter ?P (user_mfa w) = [m]"
    proof (rule filter_unique)
      show "m \<in> set (user_mfa w)" "?P m"
        by (fact that P)+
      show "distinct (user_mfa w)"
        using assms(2) distinct_map by blast
      show "y = m" if "y \<in> set (user_mfa w)" "?P y" for y
        using distinct_map_eq [OF assms(2) that(1) \<open>m \<in> set (user_mfa w)\<close>] that(2) P by (simp add: owned_def)
    qed
    then show False
      using n(1) by simp
  qed
  then show ?thesis
    unfolding n(2) by (intro map_idI) (auto simp: totp_used_def)
qed

section \<open>Recovery codes\<close>

definition recovery_spent :: "uuid \<Rightarrow> uuid \<Rightarrow> string \<Rightarrow> world \<Rightarrow> bool" where
  "recovery_spent t u h w \<longleftrightarrow> (\<forall>c \<in> set (mfa_recovery_codes w). code_of t u h c \<longrightarrow> rc_UsedAt c \<noteq> None)"

lemma spent_same: "mfa_recovery_codes w' = mfa_recovery_codes w \<Longrightarrow> preserving (recovery_spent t u h) w w'"
  by (simp add: preserving_def recovery_spent_def)

interpretation spent: world_preorder "preserving (recovery_spent t u h)" for t u h
  by unfold_locales (simp add: spent_same)

lemma spent_writes [effect_intros]:
  "steps (preserving (recovery_spent t u h)) (MFA_UseStep e t' u' s)"
  "steps (preserving (recovery_spent t u h)) (MFA_RecordFailure e t' u' n l)"
  "steps (preserving (recovery_spent t u h)) (MFA_UseRecoveryCode e t' u' h')"
  "steps (preserving (recovery_spent t u h)) (MFA_SavePending e m)"
  "steps (preserving (recovery_spent t u h)) (MFA_Delete e t' u')"
  "steps (preserving (recovery_spent t u h)) (Session_DeleteByUserID e t' u')"
  unfolding MFA_UseStep_def MFA_RecordFailure_def MFA_UseRecoveryCode_def MFA_SavePending_def MFA_Delete_def
    Session_DeleteByUserID_def Let_def
  by (intro spent.world_steps spent.steps_sqlUpdate spent.steps_sqlDelete spent.steps_runSQL;
      auto simp: spent_same preserving_def recovery_spent_def split: option.splits if_splits)+

lemma newRecoveryRows_run:
  assumes "run_state (newRecoveryRows e t u hs) w = (rows, w')"
  shows "mfa_recovery_codes w' = mfa_recovery_codes w \<and> user_mfa w' = user_mfa w \<and> stmts w' = stmts w
     \<and> map rc_CodeHash rows = hs
     \<and> (\<forall>c \<in> set rows. rc_TenantID c = t \<and> rc_UserID c = u \<and> rc_UsedAt c = None)"
  using assms
proof (induction hs arbitrary: w rows w')
  case (Cons h hs)
  obtain rs where "run_state (newRecoveryRows e t u hs) (w\<lparr>draws := Suc (draws w)\<rparr>) = (rs, w')"
    "rows = \<lparr>rc_ID = newUUID e (draws w), rc_TenantID = t, rc_UserID = u, rc_CodeHash = h, rc_UsedAt = None, rc_CreatedAt = now e\<rparr> # rs"
    using Cons.prems by (auto simp: monad_simps split: prod.splits)
  then show ?case
    using Cons.IH by fastforce
qed (simp add: monad_simps)

lemma spent_codes [effect_intros]:
  assumes "(t', u') \<noteq> (t, u)"
  shows "steps (preserving (recovery_spent t u h)) (replaceRecoveryCodes e t' u' hs)"
proof -
  have store: "steps (preserving (recovery_spent t u h)) (do {
         codes \<leftarrow> newRecoveryRows e t' u' hs;
         mapErr (Wrapped ''failed to store recovery codes'')
           (runSQL e (\<lambda>w. if clash_free recovery_clash (mfa_recovery_codes w) codes
                          then Inr ((), mfa_recovery_codes_update (\<lambda>rows. rows @ codes) w)
                          else Inl UniqueViolation))
       })"
    unfolding steps_def
  proof
    fix w
    obtain rows v where r: "run_state (newRecoveryRows e t' u' hs) w = (rows, v)"
      by fastforce
    have "\<not> code_of t u h c" if "c \<in> set rows" for c
      using newRecoveryRows_run [OF r] that assms by (auto simp: code_of_def)
    then show "preserving (recovery_spent t u h) w (snd (run_state (do {
         codes \<leftarrow> newRecoveryRows e t' u' hs;
         mapErr (Wrapped ''failed to store recovery codes'')
           (runSQL e (\<lambda>w. if clash_free recovery_clash (mfa_recovery_codes w) codes
                          then Inr ((), mfa_recovery_codes_update (\<lambda>rows. rows @ codes) w)
                          else Inl UniqueViolation))
       }) w))"
      using newRecoveryRows_run [OF r] by (auto simp: run_bind r run_mapErr run_runSQL Let_def preserving_def recovery_spent_def)
  qed
  then show ?thesis
    unfolding replaceRecoveryCodes_def
    by (intro inv.steps_orReturn inv.steps_if inv.steps_succeed store spent.steps_sqlDelete)
      (auto simp: preserving_def recovery_spent_def)
qed

definition issues_codes :: "uuid \<Rightarrow> uuid \<Rightarrow> mfa_request \<Rightarrow> bool" where
  "issues_codes t u r \<longleftrightarrow> r = RegenerateMFA t u \<or> (\<exists>c. r = ConfirmMFA t u c)"

lemma spent_recovery [effect_intros]: "steps (preserving (recovery_spent t u h)) (newRecoveryCodes e ks)"
proof -
  have "steps (preserving (recovery_spent t u h)) (NewRecoveryCodes_loop e n)" for n
    by (induction n) (auto intro!: spent.world_steps)
  then show ?thesis
    unfolding newRecoveryCodes_def NewRecoveryCodes_def by (intro spent.world_steps)
qed

lemma spent_issue [effect_intros]:
  assumes "(t', u') \<noteq> (t, u)"
  shows "steps (preserving (recovery_spent t u h)) (MFA_ReplaceRecoveryCodes e t' u' hs)"
    "steps (preserving (recovery_spent t u h)) (MFA_Confirm e t' u' s hs)"
  unfolding MFA_ReplaceRecoveryCodes_def MFA_Confirm_def using assms
  by (auto intro!: spent.world_steps effect_intros spent.steps_sqlUpdate simp: spent_same)

lemma spent_handle:
  assumes "\<not> issues_codes t u r"
  shows "steps (preserving (recovery_spent t u h)) (mfa_handle e ks r)"
  using assms
  by (cases r) (auto simp: issues_codes_def MFA_Status_def BeginTOTPEnrollment_def ConfirmTOTPEnrollment_def
      RegenerateRecoveryCodes_def IsEnabled_def MFA_CountUnusedRecoveryCodes_def MFA_Get_def endSessions_def NewSecret_def
      Keys_Seal_def User_GetByID_def Tenant_GetByID_def split_beta MFA_Verify_def MFA_check_def MFA_Disable_def
      intro!: spent.world_steps effect_intros)

lemma spent_run:
  assumes "\<forall>(e, r) \<in> set rs. \<not> issues_codes t u r"
  shows "steps (preserving (recovery_spent t u h)) (mfa_run ks rs)"
  using assms by (induction ks rs rule: mfa_run.induct) (auto intro!: spent.world_steps spent_handle)

text \<open>An accepted recovery code was unused before and is used afterwards.\<close>

lemma Verify_recovery_Inr:
  assumes "run_state (MFA_Verify e ks t u code) w = (Inr meth, w')" "\<not> LooksLikeTOTP code"
  shows "meth = MFAMethodRecoveryCode \<and> recovery_spent t u (HashRecoveryCode ks code) w'
     \<and> \<not> recovery_spent t u (HashRecoveryCode ks code) w"
proof -
  obtain m where m: "find (owned t u) (user_mfa w) = Some m"
    "run_state (mfa_settle e ks t u m code) (w\<lparr>stmts := Suc (stmts w)\<rparr>) = (Inr meth, w')"
    using assms(1) by (auto simp: Verify_run Let_def split: if_splits option.splits)
  have own: "m_TenantID m = t" "m_UserID m = u"
    using find_SomeD [OF m(1)] by (simp_all add: owned_def)
  have c: "run_state (MFA_UseRecoveryCode e t u (HashRecoveryCode ks code)) (w\<lparr>stmts := Suc (stmts w)\<rparr>) = (Inr True, w')"
    "meth = MFAMethodRecoveryCode"
    using m(2) assms(2) own
    by (auto simp: mfa_settle_def MFA_check_def run_orReturn run_failWith run_succeed split: prod.splits sum.splits if_splits)
  show ?thesis
    using UseRecoveryCode_Inr [OF c(1)] c(2)
    by (auto simp: recovery_spent_def code_used_def code_of_def)
qed

text \<open>C19: A recovery code that was accepted is refused from then on, however it is typed and whatever requests come in
  between, until the user's codes are issued anew.\<close>

theorem recovery_code_single_use:
  assumes "run_state (MFA_Verify e1 ks t u code) w = (Inr meth, w1)" "\<not> LooksLikeTOTP code"
    and "run_state (mfa_run ks rs) w1 = ((), w2)" "\<forall>(e, r) \<in> set rs. \<not> issues_codes t u r"
    and "NormalizeRecoveryCode again = NormalizeRecoveryCode code" "\<not> LooksLikeTOTP again"
  shows "\<exists>er. fst (run_state (MFA_Verify e2 ks t u again) w2) = Inl er"
proof -
  have "recovery_spent t u (HashRecoveryCode ks code) w1"
    using Verify_recovery_Inr [OF assms(1,2)] by simp
  then have "recovery_spent t u (HashRecoveryCode ks code) w2"
    using inv.steps_run [OF spent_run [OF assms(4)] assms(3)] by (simp add: preserving_def)
  then have "recovery_spent t u (HashRecoveryCode ks again) w2"
    using assms(5) by (simp add: HashRecoveryCode_def)
  then show ?thesis
    using Verify_recovery_Inr [OF _ assms(6), of e2 ks t u w2] by (cases "run_state (MFA_Verify e2 ks t u again) w2"; cases "fst (run_state (MFA_Verify e2 ks t u again) w2)") auto
qed

section \<open>Guessing\<close>

text \<open>A code is compared when the stored settings let it through to the check.\<close>

definition lets_through :: "env \<Rightarrow> uuid \<Rightarrow> uuid \<Rightarrow> world \<Rightarrow> bool" where
  "lets_through e t u w \<longleftrightarrow>
     (case find (owned t u) (user_mfa w) of None \<Rightarrow> False | Some m \<Rightarrow> UserMFA_Enabled m \<and> mfa_unlocked e m)"

fun codes_compared :: "Keys \<Rightarrow> uuid \<Rightarrow> uuid \<Rightarrow> (env \<times> string) list \<Rightarrow> world \<Rightarrow> nat" where
  "codes_compared ks t u [] w = 0"
| "codes_compared ks t u ((e, c) # cs) w =
     (if lets_through e t u w then 1 else 0) + codes_compared ks t u cs (snd (run_state (MFA_Verify e ks t u c) w))"

fun all_refused :: "Keys \<Rightarrow> uuid \<Rightarrow> uuid \<Rightarrow> (env \<times> string) list \<Rightarrow> world \<Rightarrow> bool" where
  "all_refused ks t u [] w = True"
| "all_refused ks t u ((e, c) # cs) w =
     (isl (fst (run_state (MFA_Verify e ks t u c) w)) \<and> all_refused ks t u cs (snd (run_state (MFA_Verify e ks t u c) w)))"

definition in_window :: "Keys \<Rightarrow> uuid \<Rightarrow> uuid \<Rightarrow> string \<Rightarrow> go_time \<Rightarrow> env \<Rightarrow> bool" where
  "in_window ks t u sealed T e \<longleftrightarrow> (\<forall>n. \<not> fails e n) \<and> T \<le> now e \<and> now e < T + MFALockoutDuration
     \<and> \<not> isl (Keys_Open ks sealed (secretAAD e t u))"

lemma check_refused:
  assumes "run_state (MFA_check e ks m code) w = (Inr (meth, False), w')" "distinct (map m_UserID (user_mfa w))"
  shows "user_mfa w' = user_mfa w"
proof -
  consider (same) "w' = w" | (step) s where "run_state (MFA_UseStep e (m_TenantID m) (m_UserID m) s) w = (Inr False, w')"
    | (code) "run_state (MFA_UseRecoveryCode e (m_TenantID m) (m_UserID m) (HashRecoveryCode ks code)) w = (Inr False, w')"
    using assms(1) by (auto simp: MFA_check_def run_orReturn run_return run_succeed split: sum.splits prod.splits if_splits)
  then show ?thesis
    using UseStep_not_fresh [OF _ assms(2)] UseRecoveryCode_Inr by cases auto
qed

lemma UseRecoveryCode_no_error:
  assumes "\<forall>n. \<not> fails e n"
  shows "\<exists>ok w'. run_state (MFA_UseRecoveryCode e t u h) w = (Inr ok, w')"
  using assms unfolding MFA_UseRecoveryCode_def
  by (simp add: run_transaction run_orReturn run_succeed run_runSQL Let_def mfa_recovery_codes.Update_run) blast

lemma check_no_error:
  assumes "in_window ks t u (m_TOTPSecret m) T e" "owned t u m"
  shows "\<exists>r w'. run_state (MFA_check e ks m code) w = (Inr r, w')"
proof -
  have e: "\<forall>n. \<not> fails e n" and own: "m_TenantID m = t" "m_UserID m = u"
    using assms by (simp_all add: in_window_def owned_def)
  obtain sec where sec: "Keys_Open ks (m_TOTPSecret m) (secretAAD e t u) = Inr sec"
    using assms(1) by (auto simp: in_window_def isl_def) (metis sum.exhaust)
  obtain ok w1 where "run_state (MFA_UseRecoveryCode e t u (HashRecoveryCode ks code)) w = (Inr ok, w1)"
    using UseRecoveryCode_no_error [OF e] by blast
  then show ?thesis
    using sec e own by (simp add: MFA_check_def run_orReturn run_return run_succeed UseStep_run split: prod.split)
qed

text \<open>A refused request leaves the row, or counts a compared code.\<close>

lemma Verify_refused:
  assumes "distinct (map m_UserID (user_mfa w))" "m \<in> set (user_mfa w)" "owned t u m"
    and "in_window ks t u (m_TOTPSecret m) T e" "isl (fst (run_state (MFA_Verify e ks t u code) w))"
  shows "(if lets_through e t u w then mfa_failed e t u m else m) \<in> set (user_mfa (snd (run_state (MFA_Verify e ks t u code) w)))
     \<and> (lets_through e t u w \<longrightarrow> mfa_unlocked e m)"
proof -
  have f: "find (owned t u) (user_mfa w) = Some m"
    using find_owned [OF assms(1-3)] .
  obtain meth ok w1 where c: "run_state (MFA_check e ks m code) (w\<lparr>stmts := Suc (stmts w)\<rparr>) = (Inr (meth, ok), w1)"
    using check_no_error [OF assms(4,3)] by fastforce
  have "user_mfa w1 = user_mfa w" if "\<not> ok"
    using check_refused [of e ks m code "w\<lparr>stmts := Suc (stmts w)\<rparr>" meth w1] c that assms(1) by simp
  then show ?thesis
    using assms f c
    by (auto simp: Verify_run lets_through_def mfa_settle_def run_orReturn run_succeed run_failWith RecordFailure_run in_window_def Let_def)
qed

lemma mfa_failed_row:
  "owned t u (mfa_failed e t u m) = owned t u m" "m_UserID (mfa_failed e t u m) = m_UserID m"
  "m_TOTPSecret (mfa_failed e t u m) = m_TOTPSecret m"
  "owned t u m \<Longrightarrow> m_FailedAttempts (mfa_failed e t u m) = m_FailedAttempts m + 1"
  by (simp_all add: mfa_failed_def owned_def)

text \<open>The lock of a row that reached the limit in the window outlasts the window.\<close>

definition hot :: "go_time \<Rightarrow> UserMFA \<Rightarrow> bool" where
  "hot T m \<longleftrightarrow> (MaxMFAFailures \<le> m_FailedAttempts m \<longrightarrow> (\<exists>l. m_LockedUntil m = Some l \<and> T + MFALockoutDuration \<le> l))"

lemma guesses_from_hot:
  assumes "distinct (map m_UserID (user_mfa w))" "m \<in> set (user_mfa w)" "owned t u m" "hot T m"
    and "\<forall>(e, c) \<in> set cs. in_window ks t u (m_TOTPSecret m) T e" "all_refused ks t u cs w"
  shows "int (codes_compared ks t u cs w) \<le> max 0 (MaxMFAFailures - m_FailedAttempts m)"
  using assms
proof (induction cs arbitrary: w m)
  case (Cons a cs)
  obtain e c where a: "a = (e, c)"
    by fastforce
  let ?w' = "snd (run_state (MFA_Verify e ks t u c) w)"
  let ?m = "if lets_through e t u w then mfa_failed e t u m else m"
  have win: "in_window ks t u (m_TOTPSecret m) T e"
    using Cons.prems(5) a by simp
  have r: "?m \<in> set (user_mfa ?w')" "lets_through e t u w \<Longrightarrow> mfa_unlocked e m"
    using Verify_refused [OF Cons.prems(1-3) win] Cons.prems(6) a by auto
  have d: "distinct (map m_UserID (user_mfa ?w'))"
    using grows_Verify [of t u e ks t u c] Cons.prems(1) by (auto simp: steps_def mfa_grows_def)
  have below: "m_FailedAttempts m < MaxMFAFailures" if "lets_through e t u w"
    using r(2) [OF that] Cons.prems(4) win by (auto simp: hot_def mfa_unlocked_def in_window_def)
  have "hot T ?m"
    using Cons.prems(3,4) win by (auto simp: hot_def mfa_failed_def in_window_def)
  moreover have "\<forall>(e, c) \<in> set cs. in_window ks t u (m_TOTPSecret ?m) T e" "all_refused ks t u cs ?w'" "owned t u ?m"
    using Cons.prems(3,5,6) a by (auto simp: mfa_failed_row)
  ultimately have "int (codes_compared ks t u cs ?w') \<le> max 0 (MaxMFAFailures - m_FailedAttempts ?m)"
    using Cons.IH [OF d r(1)] by blast
  then show ?case
    using a below Cons.prems(3) by (auto simp: mfa_failed_row)
qed simp

text \<open>C18: As long as every answer is a refusal, no more than five codes (fewer after earlier failures, at least one once a lock
  has run out) are compared within any quarter of an hour, however many requests are sent.\<close>

theorem mfa_guess_bound:
  assumes "distinct (map m_UserID (user_mfa w))" "m \<in> set (user_mfa w)" "owned t u m"
    and "\<forall>(e, c) \<in> set cs. in_window ks t u (m_TOTPSecret m) T e" "all_refused ks t u cs w"
  shows "int (codes_compared ks t u cs w) \<le> max 1 (MaxMFAFailures - m_FailedAttempts m)"
  using assms
proof (induction cs arbitrary: w m)
  case (Cons a cs)
  obtain e c where a: "a = (e, c)"
    by fastforce
  let ?w' = "snd (run_state (MFA_Verify e ks t u c) w)"
  have win: "in_window ks t u (m_TOTPSecret m) T e"
    using Cons.prems(4) a by simp
  have r: "(if lets_through e t u w then mfa_failed e t u m else m) \<in> set (user_mfa ?w')"
    using Verify_refused [OF Cons.prems(1-3) win] Cons.prems(5) a by auto
  have d: "distinct (map m_UserID (user_mfa ?w'))"
    using grows_Verify [of t u e ks t u c] Cons.prems(1) by (auto simp: steps_def mfa_grows_def)
  show ?case
  proof (cases "lets_through e t u w")
    case True
    have "hot T (mfa_failed e t u m)"
      using Cons.prems(3) win by (auto simp: hot_def mfa_failed_def in_window_def)
    then have "int (codes_compared ks t u cs ?w') \<le> max 0 (MaxMFAFailures - m_FailedAttempts (mfa_failed e t u m))"
      using r True Cons.prems(3-5) a d by (intro guesses_from_hot [of ?w']) (auto simp: mfa_failed_row)
    then show ?thesis
      using True a Cons.prems(3) by (auto simp: mfa_failed_row)
  next
    case False
    then show ?thesis
      using Cons.IH [OF d, of m] r Cons.prems(3-5) a by auto
  qed
qed simp

section \<open>Instances\<close>

text \<open>A user with a confirmed authenticator and one recovery code; the cipher is the identity.\<close>

definition mfa_keys :: Keys where
  "mfa_keys = \<lparr>k_NonceSize = 0, k_Seal = (\<lambda>n s a. s), k_Open = (\<lambda>n c a. Some c), k_hmacKey = ''hmac key''\<rparr>"

definition mfa_secret :: string where
  "mfa_secret = ''12345678901234567890''"

definition mfa_row :: UserMFA where
  "mfa_row = \<lparr>m_UserID = 7, m_TenantID = 1, m_TOTPSecret = b64std_EncodeToString mfa_secret, m_ConfirmedAt = Some 0,
     m_LastUsedStep = 0, m_FailedAttempts = 0, m_LockedUntil = None, m_CreatedAt = 0, m_UpdatedAt = 0\<rparr>"

definition mfa_world :: world where
  "mfa_world = empty_world\<lparr>user_mfa := [mfa_row],
     mfa_recovery_codes := [\<lparr>rc_ID = 50, rc_TenantID = 1, rc_UserID = 7,
       rc_CodeHash = HashRecoveryCode mfa_keys ''ABCDE-23456'', rc_UsedAt = None, rc_CreatedAt = 0\<rparr>]\<rparr>"

definition mfa_env :: "int \<Rightarrow> env" where
  "mfa_env s = sample_env\<lparr>now := s * nanosecond_per_second\<rparr>"

lemma mfa_open: "Keys_Open mfa_keys (b64std_EncodeToString s) a = Inr s"
  by (simp add: Keys_Open_def mfa_keys_def b64std_roundtrip)

lemma mfa_env_simps: "fails (mfa_env s) n = False" "uuidString (mfa_env s) = uuidString sample_env"
  "now (mfa_env s) = s * nanosecond_per_second"
  by (simp_all add: mfa_env_def sample_env_def)

lemma Verify_own: "\<exists>s. Otp.Verify sec (Code sec (Step t)) t = (s, True) \<and> \<bar>s - Step t\<bar> \<le> 1"
proof -
  have "strings_TrimSpace (Code sec (Step t)) = Code sec (Step t)"
    using Code_shape [of sec "Step t"] by (intro TrimSpace_id) force
  then show ?thesis
    by (auto simp: Verify_iff Let_def)
qed

lemma mfa_steps: "Step (now (mfa_env 600)) = 20" "Step (now (mfa_env 1200)) = 40"
  by (simp_all add: mfa_env_simps Step_def time_unix_def Period_def seconds_def nanosecond_per_second_def Let_def)

lemma totp_steps_increase_witness:
  "\<exists>w1 w2 w3 meth2 m1 m3.
     run_state (MFA_Verify (mfa_env 600) mfa_keys 1 7 (Code mfa_secret 20)) mfa_world = (Inr MFAMethodTOTP, w1)
     \<and> run_state (mfa_run mfa_keys [(mfa_env 700, StatusMFA 1 8)]) w1 = ((), w2)
     \<and> run_state (MFA_Verify (mfa_env 1200) mfa_keys 1 7 (Code mfa_secret 40)) w2 = (Inr meth2, w3)
     \<and> find (owned 1 7) (user_mfa w1) = Some m1 \<and> find (owned 1 7) (user_mfa w3) = Some m3
     \<and> 0 < m_LastUsedStep m1 \<and> m_LastUsedStep m1 < m_LastUsedStep m3
     \<and> Code mfa_secret (m_LastUsedStep m1) = strings_TrimSpace (Code mfa_secret 20)
     \<and> Code mfa_secret (m_LastUsedStep m3) = strings_TrimSpace (Code mfa_secret 40)"
proof -
  obtain s1 s2 where s: "Otp.Verify mfa_secret (Code mfa_secret 20) (now (mfa_env 600)) = (s1, True)" "\<bar>s1 - 20\<bar> \<le> 1"
    "Otp.Verify mfa_secret (Code mfa_secret 40) (now (mfa_env 1200)) = (s2, True)" "\<bar>s2 - 40\<bar> \<le> 1"
    using Verify_own [of mfa_secret "now (mfa_env 600)"] Verify_own [of mfa_secret "now (mfa_env 1200)"]
    unfolding mfa_steps by blast
  have row: "user_mfa mfa_world = [mfa_row]" "owned 1 7 mfa_row" "UserMFA_Enabled mfa_row" "mfa_unlocked e mfa_row" for e
    by (simp_all add: mfa_world_def mfa_row_def owned_def UserMFA_Enabled_def mfa_unlocked_def empty_world_def)
  have sec: "m_TOTPSecret mfa_row = b64std_EncodeToString mfa_secret" "m_LastUsedStep mfa_row = 0"
    by (simp_all add: mfa_row_def)
  let ?row = "totp_used (mfa_env 600) 1 7 s1 mfa_row"
  have row1: "owned 1 7 ?row" "UserMFA_Enabled ?row" "mfa_unlocked e ?row"
    "m_TOTPSecret ?row = b64std_EncodeToString mfa_secret" "m_LastUsedStep ?row = s1" for e
    using s(2) by (auto simp: totp_used_def owned_def UserMFA_Enabled_def mfa_unlocked_def mfa_row_def)
  have 1: "run_state (MFA_Verify (mfa_env 600) mfa_keys 1 7 (Code mfa_secret 20)) mfa_world =
      (Inr MFAMethodTOTP, mfa_world\<lparr>stmts := stmts mfa_world + 2, user_mfa := [?row]\<rparr>)"
    using totp_accepted [of "mfa_env 600" mfa_world mfa_row 1 7 mfa_keys mfa_secret "Code mfa_secret 20" s1] s(1,2) row sec
    by (simp add: mfa_env_simps mfa_open)
  let ?w = "mfa_world\<lparr>stmts := stmts mfa_world + 2, user_mfa := [?row]\<rparr>"
  have 2: "run_state (mfa_run mfa_keys [(mfa_env 700, StatusMFA 1 8)]) ?w = ((), ?w\<lparr>stmts := stmts mfa_world + 3\<rparr>)"
    using row1(1) by (simp add: MFA_Status_def Get_run run_bind run_return run_succeed mfa_env_simps owned_def Let_def)
  have 3: "\<exists>m w'. run_state (MFA_Verify (mfa_env 1200) mfa_keys 1 7 (Code mfa_secret 40)) (?w\<lparr>stmts := stmts mfa_world + 3\<rparr>) = (Inr m, w')"
    using totp_accepted [of "mfa_env 1200" "?w\<lparr>stmts := stmts mfa_world + 3\<rparr>" ?row 1 7 mfa_keys mfa_secret "Code mfa_secret 40" s2]
      s row1 by (simp add: mfa_env_simps mfa_open)
  have L: "LooksLikeTOTP (Code mfa_secret 20)" "LooksLikeTOTP (Code mfa_secret 40)"
    using Verify_spec [OF s(1)] Verify_spec [OF s(3)] by simp_all
  obtain m w3 where w3: "run_state (MFA_Verify (mfa_env 1200) mfa_keys 1 7 (Code mfa_secret 40)) (?w\<lparr>stmts := stmts mfa_world + 3\<rparr>) = (Inr m, w3)"
    using 3 by blast
  have side: "distinct (map m_UserID (user_mfa mfa_world))" "\<forall>e. (e, DisableMFA 1 7) \<notin> set [(mfa_env 700, StatusMFA 1 8)]"
    "uuidString (mfa_env 1200) = uuidString (mfa_env 600)"
    using row(1) by (simp_all add: mfa_env_simps)
  from totp_steps_increase [OF side(1) 1 L(1) 2 side(2) w3 L(2) side(3)]
  obtain m m1 m3 k1 k2 key and m2 :: UserMFA where t: "find (owned 1 7) (user_mfa mfa_world) = Some m"
    "Keys_Open mfa_keys (m_TOTPSecret m) (secretAAD (mfa_env 600) 1 7) = Inr key"
    "find (owned 1 7) (user_mfa ?w) = Some m1" "find (owned 1 7) (user_mfa w3) = Some m3"
    "m_LastUsedStep m < k1" "m_LastUsedStep m1 = k1" "k1 \<le> m_LastUsedStep m2" "m_LastUsedStep m2 < k2" "m_LastUsedStep m3 = k2"
    "Code key k1 = strings_TrimSpace (Code mfa_secret 20)" "Code key k2 = strings_TrimSpace (Code mfa_secret 40)"
    by blast
  have "m = mfa_row"
    using t(1) row(1,2) by simp
  then have "key = mfa_secret" "0 < k1"
    using t(2,5) sec by (simp_all add: mfa_open)
  then have "0 < m_LastUsedStep m1 \<and> m_LastUsedStep m1 < m_LastUsedStep m3
     \<and> Code mfa_secret (m_LastUsedStep m1) = strings_TrimSpace (Code mfa_secret 20)
     \<and> Code mfa_secret (m_LastUsedStep m3) = strings_TrimSpace (Code mfa_secret 40)"
    using t(6-11) by simp
  with 1 2 w3 t(3,4) show ?thesis
    by blast
qed

lemma recovery_code_single_use_witness:
  "\<exists>er. fst (run_state (MFA_Verify (mfa_env 800) mfa_keys 1 7 '' abcde 23456'')
      (snd (run_state (mfa_run mfa_keys [(mfa_env 700, DisableMFA 1 8)])
        (snd (run_state (MFA_Verify (mfa_env 600) mfa_keys 1 7 ''ABCDE-23456'') mfa_world))))) = Inl er"
proof -
  have L: "\<not> LooksLikeTOTP ''ABCDE-23456''" "\<not> LooksLikeTOTP '' abcde 23456''"
    "NormalizeRecoveryCode '' abcde 23456'' = NormalizeRecoveryCode ''ABCDE-23456''"
    by code_simp+
  obtain w1 where 1: "run_state (MFA_Verify (mfa_env 600) mfa_keys 1 7 ''ABCDE-23456'') mfa_world = (Inr MFAMethodRecoveryCode, w1)"
    using L(1) by (simp add: Verify_run Let_def mfa_env_simps mfa_world_def mfa_row_def owned_def empty_world_def UserMFA_Enabled_def
        mfa_unlocked_def mfa_settle_def MFA_check_def run_orReturn run_succeed MFA_UseRecoveryCode_def run_transaction run_runSQL
        mfa_recovery_codes.Update_run)
  obtain w2 where 2: "run_state (mfa_run mfa_keys [(mfa_env 700, DisableMFA 1 8)]) w1 = ((), w2)"
    by (metis old.unit.exhaust surj_pair)
  show ?thesis
    using recovery_code_single_use [OF 1 L(1) 2 _ L(3,2)] 1 2 by (simp add: issues_codes_def)
qed

lemma refused_without_codes:
  assumes "\<forall>h. recovery_spent t u h w" "\<forall>(e, c) \<in> set cs. \<not> LooksLikeTOTP c"
  shows "all_refused ks t u cs w"
  using assms
proof (induction cs arbitrary: w)
  case (Cons a cs)
  obtain e c where a: "a = (e, c)"
    by fastforce
  let ?w' = "snd (run_state (MFA_Verify e ks t u c) w)"
  have "recovery_spent t u h ?w'" for h
    using spent_handle [of t u "VerifyMFA t u c" h e ks] Cons.prems(1)
    by (simp add: issues_codes_def steps_def preserving_def run_bind run_return split_beta)
  then have "all_refused ks t u cs ?w'"
    using Cons.IH [of ?w'] Cons.prems(2) by simp
  moreover have "isl (fst (run_state (MFA_Verify e ks t u c) w))"
    using Verify_recovery_Inr [of e ks t u c w] Cons.prems a
    by (cases "run_state (MFA_Verify e ks t u c) w"; cases "fst (run_state (MFA_Verify e ks t u c) w)") auto
  ultimately show ?case
    using a by simp
qed simp

lemma mfa_guess_bound_witness:
  "codes_compared mfa_keys 1 7 (replicate 1000 (mfa_env 600, ''ABCDE-23456'')) (mfa_world\<lparr>mfa_recovery_codes := []\<rparr>) \<le> 5"
proof -
  have "\<not> LooksLikeTOTP ''ABCDE-23456''"
    by code_simp
  then have "all_refused mfa_keys 1 7 (replicate 1000 (mfa_env 600, ''ABCDE-23456'')) (mfa_world\<lparr>mfa_recovery_codes := []\<rparr>)"
    by (intro refused_without_codes) (simp_all add: recovery_spent_def)
  then have "int (codes_compared mfa_keys 1 7 (replicate 1000 (mfa_env 600, ''ABCDE-23456'')) (mfa_world\<lparr>mfa_recovery_codes := []\<rparr>))
      \<le> max 1 (MaxMFAFailures - m_FailedAttempts mfa_row)"
    by (intro mfa_guess_bound [where T = "600 * nanosecond_per_second"])
      (simp_all add: mfa_world_def owned_def in_window_def mfa_env_simps mfa_row_def mfa_open MFALockoutDuration_def seconds_small)
  then show ?thesis
    by (simp add: MaxMFAFailures_def mfa_row_def)
qed

end
