(* ===== verification/Rbac.thy ===== *)
theory Rbac
  imports MoreRepos
begin

text \<open>Roles and permissions (\<^verbatim>\<open>internal/services/role_service_impl.go\<close>, \<^verbatim>\<open>permission_service_impl.go\<close>) and the authorization
  middleware on top of them (\<^verbatim>\<open>internal/middleware/authz.go\<close>). Audit entries and log lines are left out.\<close>

record CreateRoleRequest =
  crr_Name :: string
  crr_DisplayName :: string
  crr_Description :: string
  crr_Permissions :: "string list"

text \<open>\<^verbatim>\<open>Permissions\<close> is a slice that may be nil: \<^const>\<open>None\<close>.\<close>

record UpdateRoleRequest =
  urr_DisplayName :: string
  urr_Description :: string
  urr_IsActive :: "bool option"
  urr_Permissions :: "string list option"

record CreatePermissionRequest =
  cpr_Name :: string
  cpr_DisplayName :: string
  cpr_Description :: string
  cpr_Resource :: string
  cpr_Action :: string

record UpdatePermissionRequest =
  upr_DisplayName :: string
  upr_Description :: string
  upr_Resource :: string
  upr_Action :: string

section \<open>Role service\<close>

text \<open>The loop that attaches permissions by name: a name that cannot be loaded is skipped, a failed insert is logged.\<close>

fun addPermissions :: "env \<Rightarrow> uuid \<Rightarrow> uuid \<Rightarrow> string list \<Rightarrow> (world, unit) state" where
  "addPermissions e tenantID roleID [] = State_Monad.return ()"
| "addPermissions e tenantID roleID (permissionName # names) = do {
     r \<leftarrow> Permission_GetByName e permissionName;
     case r of
       Inl _ \<Rightarrow> addPermissions e tenantID roleID names
     | Inr permission \<Rightarrow> do {
         i \<leftarrow> uuid_New e;
         _ \<leftarrow> RolePermission_Create e \<lparr>rp_ID = i, rp_RoleID = roleID, rp_PermissionID = p_ID permission,
                rp_GrantedBy = tenantID, rp_GrantedAt = now e\<rparr>;
         addPermissions e tenantID roleID names
       }
   }"

fun removePermissions :: "env \<Rightarrow> uuid \<Rightarrow> RolePermission list \<Rightarrow> (world, unit) state" where
  "removePermissions e roleID [] = State_Monad.return ()"
| "removePermissions e roleID (rp # rps) = do {
     _ \<leftarrow> RolePermission_Delete e roleID (rp_PermissionID rp);
     removePermissions e roleID rps
   }"

text \<open>Errors are compared with \<^verbatim>\<open>==\<close> here, so a wrapped sentinel does not count. A nil pointer is \<^const>\<open>None\<close>.\<close>

definition unlessError :: "err \<Rightarrow> err + 'a \<Rightarrow> err + 'a option" where
  "unlessError sentinel r = (case r of Inr x \<Rightarrow> Inr (Some x) | Inl er \<Rightarrow> if er \<noteq> sentinel then Inl er else Inr None)"

definition Role_CreateRole :: "env \<Rightarrow> uuid \<Rightarrow> CreateRoleRequest \<Rightarrow> Role op" where
  "Role_CreateRole e tenantID req = do {
     existing \<leftarrow> Role_GetByName e tenantID (crr_Name req);
     orReturn (State_Monad.return (unlessError ErrRoleNotFound existing)) (Wrapped ''failed to check existing role'') (\<lambda>existingRole.
     if existingRole \<noteq> None then failWith ErrDuplicateResource
     else do {
       i \<leftarrow> uuid_New e;
       let role = \<lparr>r_ID = i, r_TenantID = tenantID, r_Name = crr_Name req, r_DisplayName = crr_DisplayName req,
                   r_Description = crr_Description req, r_IsSystem = False, r_IsActive = True,
                   r_CreatedAt = now e, r_UpdatedAt = now e, r_DeletedAt = None\<rparr>;
       orReturn (Role_Create e role) (Wrapped ''failed to create role'') (\<lambda>_. do {
         _ \<leftarrow> addPermissions e tenantID i (crr_Permissions req);
         succeed role
       })
     })
   }"

text \<open>The service's \<^verbatim>\<open>GetByID\<close> and \<^verbatim>\<open>GetByName\<close> wrap every error but the sentinel.\<close>

definition keepSentinel :: "err \<Rightarrow> string \<Rightarrow> err \<Rightarrow> err" where
  "keepSentinel sentinel msg er = (if er = sentinel then er else Wrapped msg er)"

definition RoleService_GetByID :: "env \<Rightarrow> uuid \<Rightarrow> uuid \<Rightarrow> Role op" where
  "RoleService_GetByID e tenantID roleID =
     orReturn (Role_GetByID e tenantID roleID) (keepSentinel ErrRoleNotFound ''failed to get role'') succeed"

definition RoleService_GetByName :: "env \<Rightarrow> uuid \<Rightarrow> string \<Rightarrow> Role op" where
  "RoleService_GetByName e tenantID name =
     orReturn (Role_GetByName e tenantID name) (keepSentinel ErrRoleNotFound ''failed to get role'') succeed"

definition updatedRole :: "env \<Rightarrow> UpdateRoleRequest \<Rightarrow> Role \<Rightarrow> Role" where
  "updatedRole e req role =
     (let role1 = (if urr_DisplayName req \<noteq> [] then role\<lparr>r_DisplayName := urr_DisplayName req\<rparr> else role);
          role2 = (if urr_Description req \<noteq> [] then role1\<lparr>r_Description := urr_Description req\<rparr> else role1);
          role3 = (case urr_IsActive req of None \<Rightarrow> role2 | Some b \<Rightarrow> role2\<lparr>r_IsActive := b\<rparr>)
      in role3\<lparr>r_UpdatedAt := now e\<rparr>)"

definition Role_UpdateRole :: "env \<Rightarrow> uuid \<Rightarrow> uuid \<Rightarrow> UpdateRoleRequest \<Rightarrow> Role op" where
  "Role_UpdateRole e tenantID roleID req =
     orReturn (Role_GetByID e tenantID roleID) (Wrapped ''failed to get role'') (\<lambda>role0.
     if r_IsSystem role0 then failWith ErrBusinessRuleViolation
     else let role = updatedRole e req role0 in
       orReturn (Role_Update e role) (Wrapped ''failed to update role'') (\<lambda>_.
         case urr_Permissions req of
           None \<Rightarrow> succeed role
         | Some names \<Rightarrow> do {
             existing \<leftarrow> RolePermission_GetRolePermissions e roleID;
             _ \<leftarrow> (case existing of Inl _ \<Rightarrow> State_Monad.return () | Inr rps \<Rightarrow> removePermissions e roleID rps);
             _ \<leftarrow> addPermissions e tenantID roleID names;
             succeed role
           }))"

definition Role_DeleteRole :: "env \<Rightarrow> uuid \<Rightarrow> uuid \<Rightarrow> unit op" where
  "Role_DeleteRole e tenantID roleID =
     orReturn (Role_GetByID e tenantID roleID) (Wrapped ''failed to get role'') (\<lambda>role.
     if r_IsSystem role then failWith ErrBusinessRuleViolation
     else orReturn (UserRole_GetRoleUsers e tenantID roleID) (Wrapped ''failed to check role assignments'') (\<lambda>userRoles.
       if userRoles \<noteq> [] then failWith ErrBusinessRuleViolation
       else do {
         existing \<leftarrow> RolePermission_GetRolePermissions e roleID;
         _ \<leftarrow> (case existing of Inl _ \<Rightarrow> State_Monad.return () | Inr rps \<Rightarrow> removePermissions e roleID rps);
         mapErr (Wrapped ''failed to delete role'') (Role_Delete e tenantID roleID)
       }))"

definition Role_ListRoles :: "env \<Rightarrow> uuid \<Rightarrow> int \<Rightarrow> int \<Rightarrow> (Role list \<times> PageInfo) op" where
  "Role_ListRoles e tenantID limit offset =
     orReturn (Role_List e tenantID limit offset) (Wrapped ''failed to list roles'')
       (\<lambda>(roles, totalCount). succeed (NewPaginatedResponse roles limit offset totalCount))"

definition AddPermission :: "env \<Rightarrow> uuid \<Rightarrow> uuid \<Rightarrow> uuid \<Rightarrow> uuid \<Rightarrow> unit op" where
  "AddPermission e tenantID roleID permissionID grantedBy =
     orReturn (Role_GetByID e tenantID roleID) (Wrapped ''failed to get role'') (\<lambda>_.
     orReturn (Permission_GetByID e permissionID) (Wrapped ''failed to get permission'') (\<lambda>_. do {
       existing \<leftarrow> RolePermission_GetByRoleAndPermission e roleID permissionID;
       orReturn (State_Monad.return (unlessError ErrPermissionNotFound existing)) (Wrapped ''failed to check existing permission'') (\<lambda>x.
       if x \<noteq> None then failWith ErrDuplicateResource
       else do {
         i \<leftarrow> uuid_New e;
         mapErr (Wrapped ''failed to add permission to role'')
           (RolePermission_Create e \<lparr>rp_ID = i, rp_RoleID = roleID, rp_PermissionID = permissionID, rp_GrantedBy = grantedBy,
              rp_GrantedAt = now e\<rparr>)
       })
     }))"

definition RemovePermission :: "env \<Rightarrow> uuid \<Rightarrow> uuid \<Rightarrow> uuid \<Rightarrow> unit op" where
  "RemovePermission e tenantID roleID permissionID =
     orReturn (Role_GetByID e tenantID roleID) (Wrapped ''failed to get role'') (\<lambda>_.
     orReturn (Permission_GetByID e permissionID) (Wrapped ''failed to get permission'') (\<lambda>_.
     mapErr (Wrapped ''failed to remove permission from role'') (RolePermission_Delete e roleID permissionID)))"

fun loadPermissions :: "env \<Rightarrow> RolePermission list \<Rightarrow> (world, Permission list) state" where
  "loadPermissions e [] = State_Monad.return []"
| "loadPermissions e (rp # rps) = do {
     r \<leftarrow> Permission_GetByID e (rp_PermissionID rp);
     ps \<leftarrow> loadPermissions e rps;
     State_Monad.return (case r of Inl _ \<Rightarrow> ps | Inr p \<Rightarrow> p # ps)
   }"

definition GetPermissions :: "env \<Rightarrow> uuid \<Rightarrow> uuid \<Rightarrow> Permission list op" where
  "GetPermissions e tenantID roleID =
     orReturn (Role_GetByID e tenantID roleID) (Wrapped ''failed to get role'') (\<lambda>_.
     orReturn (RolePermission_GetRolePermissions e roleID) (Wrapped ''failed to get role permissions'') (\<lambda>rps. do {
       ps \<leftarrow> loadPermissions e rps;
       succeed ps
     }))"

definition AssignToUser :: "env \<Rightarrow> uuid \<Rightarrow> uuid \<Rightarrow> uuid \<Rightarrow> uuid \<Rightarrow> go_time option \<Rightarrow> unit op" where
  "AssignToUser e tenantID roleID userID grantedBy expiresAt =
     orReturn (Role_GetByID e tenantID roleID) (Wrapped ''failed to get role'') (\<lambda>_. do {
       existing \<leftarrow> UserRole_GetByUserAndRole e tenantID userID roleID;
       orReturn (State_Monad.return (unlessError ErrRoleNotFound existing)) (Wrapped ''failed to check existing user role'') (\<lambda>x.
       if x \<noteq> None then failWith ErrDuplicateResource
       else do {
         i \<leftarrow> uuid_New e;
         mapErr (Wrapped ''failed to assign role to user'')
           (UserRole_Create e \<lparr>ur_ID = i, ur_TenantID = tenantID, ur_UserID = userID, ur_RoleID = roleID,
              ur_GrantedBy = grantedBy, ur_GrantedAt = now e, ur_ExpiresAt = expiresAt\<rparr>)
       })
     })"

definition RevokeFromUser :: "env \<Rightarrow> uuid \<Rightarrow> uuid \<Rightarrow> uuid \<Rightarrow> unit op" where
  "RevokeFromUser e tenantID roleID userID =
     orReturn (Role_GetByID e tenantID roleID) (Wrapped ''failed to get role'') (\<lambda>_.
     mapErr (Wrapped ''failed to revoke role from user'') (UserRole_Delete e tenantID userID roleID))"

text \<open>Expired assignments, roles that cannot be loaded and inactive roles are skipped.\<close>

fun loadRoles :: "env \<Rightarrow> uuid \<Rightarrow> UserRole list \<Rightarrow> (world, Role list) state" where
  "loadRoles e tenantID [] = State_Monad.return []"
| "loadRoles e tenantID (ur # urs) =
     (if UserRole_IsExpired (now e) ur then loadRoles e tenantID urs
      else do {
        r \<leftarrow> Role_GetByID e tenantID (ur_RoleID ur);
        rest \<leftarrow> loadRoles e tenantID urs;
        State_Monad.return (case r of Inl _ \<Rightarrow> rest | Inr role \<Rightarrow> if \<not> r_IsActive role then rest else role # rest)
      })"

definition GetUserRoles :: "env \<Rightarrow> uuid \<Rightarrow> uuid \<Rightarrow> Role list op" where
  "GetUserRoles e tenantID userID =
     orReturn (UserRole_GetUserRoles e tenantID userID) (Wrapped ''failed to get user roles'') (\<lambda>urs. do {
       rs \<leftarrow> loadRoles e tenantID urs;
       succeed rs
     })"

section \<open>Permission service\<close>

definition PermissionActionManage :: string where
  "PermissionActionManage = ''manage''"

definition Permission_CreatePermission :: "env \<Rightarrow> CreatePermissionRequest \<Rightarrow> Permission op" where
  "Permission_CreatePermission e req = do {
     existing \<leftarrow> Permission_GetByName e (cpr_Name req);
     orReturn (State_Monad.return (unlessError ErrPermissionNotFound existing)) (Wrapped ''failed to check existing permission'') (\<lambda>x.
     if x \<noteq> None then failWith ErrDuplicateResource
     else do {
       i \<leftarrow> uuid_New e;
       let permission = \<lparr>p_ID = i, p_Name = cpr_Name req, p_DisplayName = cpr_DisplayName req, p_Description = cpr_Description req,
             p_Resource = cpr_Resource req, p_Action = cpr_Action req, p_IsSystem = False, p_CreatedAt = now e,
             p_UpdatedAt = now e, p_DeletedAt = None\<rparr>;
       orReturn (Permission_Create e permission) (Wrapped ''failed to create permission'') (\<lambda>_. succeed permission)
     })
   }"

definition PermissionService_GetByID :: "env \<Rightarrow> uuid \<Rightarrow> Permission op" where
  "PermissionService_GetByID e permissionID =
     orReturn (Permission_GetByID e permissionID) (keepSentinel ErrPermissionNotFound ''failed to get permission'') succeed"

definition PermissionService_GetByName :: "env \<Rightarrow> string \<Rightarrow> Permission op" where
  "PermissionService_GetByName e name =
     orReturn (Permission_GetByName e name) (keepSentinel ErrPermissionNotFound ''failed to get permission'') succeed"

definition Permission_UpdatePermission :: "env \<Rightarrow> uuid \<Rightarrow> UpdatePermissionRequest \<Rightarrow> Permission op" where
  "Permission_UpdatePermission e permissionID req =
     orReturn (Permission_GetByID e permissionID) (keepSentinel ErrPermissionNotFound ''failed to get permission'') (\<lambda>p0.
     if p_IsSystem p0 then failWith ErrBusinessRuleViolation
     else let p1 = (if upr_DisplayName req \<noteq> [] then p0\<lparr>p_DisplayName := upr_DisplayName req\<rparr> else p0);
              p2 = (if upr_Description req \<noteq> [] then p1\<lparr>p_Description := upr_Description req\<rparr> else p1);
              p3 = (if upr_Resource req \<noteq> [] then p2\<lparr>p_Resource := upr_Resource req\<rparr> else p2);
              p4 = (if upr_Action req \<noteq> [] then p3\<lparr>p_Action := upr_Action req\<rparr> else p3);
              permission = p4\<lparr>p_UpdatedAt := now e\<rparr>
          in orReturn (Permission_Update e permission) (Wrapped ''failed to update permission'') (\<lambda>_. succeed permission))"

text \<open>A permission is detached from every role before it is deleted; the first failure stops.\<close>

fun detachPermission :: "env \<Rightarrow> uuid \<Rightarrow> RolePermission list \<Rightarrow> unit op" where
  "detachPermission e permissionID [] = succeed ()"
| "detachPermission e permissionID (rp # rps) =
     orReturn (RolePermission_Delete e (rp_RoleID rp) permissionID) (Wrapped ''failed to detach permission from role'')
       (\<lambda>_. detachPermission e permissionID rps)"

definition Permission_DeletePermission :: "env \<Rightarrow> uuid \<Rightarrow> unit op" where
  "Permission_DeletePermission e permissionID =
     orReturn (Permission_GetByID e permissionID) (keepSentinel ErrPermissionNotFound ''failed to get permission'') (\<lambda>p.
     if p_IsSystem p then failWith ErrBusinessRuleViolation
     else orReturn (RolePermission_GetPermissionRoles e permissionID) (Wrapped ''failed to get permission roles'') (\<lambda>rps.
       orReturn (detachPermission e permissionID rps) id (\<lambda>_.
       mapErr (Wrapped ''failed to delete permission'') (Permission_Delete e permissionID))))"

text \<open>The two nested loops of \<^verbatim>\<open>GetUserPermissions\<close>: \<open>seen\<close> is the map, \<open>acc\<close> the slice.\<close>

fun rolePermissions_loop ::
  "env \<Rightarrow> RolePermission list \<Rightarrow> (uuid \<Rightarrow> bool) \<Rightarrow> Permission list \<Rightarrow> ((uuid \<Rightarrow> bool) \<times> Permission list) op" where
  "rolePermissions_loop e [] seen acc = succeed (seen, acc)"
| "rolePermissions_loop e (rp # rps) seen acc =
     (if seen (rp_PermissionID rp) then rolePermissions_loop e rps seen acc
      else do {
        r \<leftarrow> Permission_GetByID e (rp_PermissionID rp);
        case r of
          Inl er \<Rightarrow> if er = ErrPermissionNotFound then rolePermissions_loop e rps seen acc
                     else failWith (Wrapped ''failed to get permission'' er)
        | Inr p \<Rightarrow> rolePermissions_loop e rps (seen(rp_PermissionID rp := True)) (acc @ [p])
      })"

fun userRoles_loop :: "env \<Rightarrow> uuid \<Rightarrow> UserRole list \<Rightarrow> (uuid \<Rightarrow> bool) \<Rightarrow> Permission list \<Rightarrow> Permission list op" where
  "userRoles_loop e tenantID [] seen acc = succeed acc"
| "userRoles_loop e tenantID (ur # urs) seen acc =
     (if UserRole_IsExpired (now e) ur then userRoles_loop e tenantID urs seen acc
      else do {
        r \<leftarrow> Role_GetByID e tenantID (ur_RoleID ur);
        case r of
          Inl er \<Rightarrow> if er = ErrRoleNotFound then userRoles_loop e tenantID urs seen acc
                     else failWith (Wrapped ''failed to get role'' er)
        | Inr role \<Rightarrow>
            if \<not> r_IsActive role then userRoles_loop e tenantID urs seen acc
            else orReturn (RolePermission_GetRolePermissions e (r_ID role)) (Wrapped ''failed to get role permissions'') (\<lambda>rps.
              orReturn (rolePermissions_loop e rps seen acc) id (\<lambda>(seen, acc). userRoles_loop e tenantID urs seen acc))
      })"

definition GetUserPermissions :: "env \<Rightarrow> uuid \<Rightarrow> uuid \<Rightarrow> Permission list op" where
  "GetUserPermissions e tenantID userID =
     orReturn (UserRole_GetUserRoles e tenantID userID) (Wrapped ''failed to get user roles'')
       (\<lambda>urs. userRoles_loop e tenantID urs (\<lambda>_. False) [])"

definition HasPermission :: "env \<Rightarrow> uuid \<Rightarrow> uuid \<Rightarrow> string \<Rightarrow> string \<Rightarrow> bool op" where
  "HasPermission e tenantID userID resource action =
     orReturn (GetUserPermissions e tenantID userID) id (\<lambda>ps.
       succeed (list_ex (\<lambda>p. p_Resource p = resource \<and> (p_Action p = action \<or> p_Action p = PermissionActionManage)) ps))"

end
