(* ===== verification/RbacProperties.thy ===== *)
theory RbacProperties
  imports Rbac Effects Samples
begin

text \<open>Role-based access control against its relational specification: a permission is held through an unexpired assignment
  of a live, active role of the tenant.\<close>

section \<open>Specification\<close>

definition role_of :: "world \<Rightarrow> uuid \<Rightarrow> uuid \<Rightarrow> Role option" where
  "role_of w t i = find (\<lambda>r. r_TenantID r = t \<and> r_ID r = i \<and> role_live r) (roles w)"

definition permission_of :: "world \<Rightarrow> uuid \<Rightarrow> Permission option" where
  "permission_of w i = find (\<lambda>p. p_ID p = i \<and> permission_live p) (permissions w)"

definition role_grants :: "world \<Rightarrow> uuid \<Rightarrow> Permission set" where
  "role_grants w roleID = {p. \<exists>rp \<in> set (role_permissions w). rp_RoleID rp = roleID \<and> permission_of w (rp_PermissionID rp) = Some p}"

definition user_holds :: "world \<Rightarrow> go_time \<Rightarrow> uuid \<Rightarrow> uuid \<Rightarrow> Permission set" where
  "user_holds w tm t u = {p. \<exists>ur \<in> set (user_roles w). \<exists>role. ur_TenantID ur = t \<and> ur_UserID ur = u \<and> \<not> UserRole_IsExpired tm ur
     \<and> role_of w t (ur_RoleID ur) = Some role \<and> r_IsActive role \<and> p \<in> role_grants w (r_ID role)}"

text \<open>Everything below reads the tables only.\<close>

definition only_read :: "world \<Rightarrow> world \<Rightarrow> bool" where
  "only_read w w' \<longleftrightarrow> (\<exists>n. w' = w\<lparr>stmts := n\<rparr>)"

lemma only_readD:
  assumes "only_read w w'"
  shows "role_of w' t i = role_of w t i" "permission_of w' j = permission_of w j" "role_grants w' k = role_grants w k"
    "user_roles w' = user_roles w" "role_permissions w' = role_permissions w"
  using assms by (auto simp: only_read_def role_of_def permission_of_def role_grants_def)

lemma only_read_refl: "only_read w w"
  unfolding only_read_def by (rule exI [of _ "stmts w"]) simp

lemma only_read_Suc: "only_read w (w\<lparr>stmts := n\<rparr>)"
  by (auto simp: only_read_def)

lemma only_read_trans: "only_read w v \<Longrightarrow> only_read v x \<Longrightarrow> only_read w x"
  by (auto simp: only_read_def)

lemma PermissionGet_run:
  "run_state (Permission_GetByID e i) w =
     (if fails e (stmts w) then Inl (Wrapped ''failed to get permission by ID'' DBError)
      else case permission_of w i of None \<Rightarrow> Inl ErrPermissionNotFound | Some p \<Rightarrow> Inr p, w\<lparr>stmts := Suc (stmts w)\<rparr>)"
  by (simp add: Permission_GetByID_def permissions.First_run permission_of_def)

lemma RoleGet_run:
  "run_state (Role_GetByID e t i) w =
     (if fails e (stmts w) then Inl (Wrapped ''failed to get role by ID'' DBError)
      else case role_of w t i of None \<Rightarrow> Inl ErrRoleNotFound | Some r \<Rightarrow> Inr r, w\<lparr>stmts := Suc (stmts w)\<rparr>)"
  by (simp add: Role_GetByID_def roles.First_run role_of_def)

lemma RolePermissions_run:
  "run_state (RolePermission_GetRolePermissions e i) w =
     (if fails e (stmts w) then Inl (Wrapped ''failed to get role permissions'' DBError)
      else Inr (filter (\<lambda>p. rp_RoleID p = i) (role_permissions w)), w\<lparr>stmts := Suc (stmts w)\<rparr>)"
  by (simp add: RolePermission_GetRolePermissions_def run_sqlFind)

lemma UserRoles_run:
  "run_state (UserRole_GetUserRoles e t u) w =
     (if fails e (stmts w) then Inl (Wrapped ''failed to get user roles'' DBError)
      else Inr (filter (\<lambda>x. ur_TenantID x = t \<and> ur_UserID x = u) (user_roles w)), w\<lparr>stmts := Suc (stmts w)\<rparr>)"
  by (simp add: UserRole_GetUserRoles_def run_sqlFind)

section \<open>The loops\<close>

text \<open>Every permission marked as seen has been collected.\<close>

definition collected :: "world \<Rightarrow> (uuid \<Rightarrow> bool) \<Rightarrow> Permission list \<Rightarrow> bool" where
  "collected w seen acc \<longleftrightarrow> (\<forall>i. seen i \<longrightarrow> (\<exists>p \<in> set acc. permission_of w i = Some p))"

lemma rolePermissions_loop_Inr:
  assumes "run_state (rolePermissions_loop e rps seen acc) w = (Inr (seen', acc'), w')" "collected w seen acc"
  shows "set acc' = set acc \<union> {p. \<exists>rp \<in> set rps. permission_of w (rp_PermissionID rp) = Some p}
     \<and> collected w seen' acc' \<and> only_read w w'"
  using assms
proof (induction rps arbitrary: seen acc w)
  case Nil
  then show ?case
    by (auto simp: run_succeed only_read_refl)
next
  case (Cons rp rps)
  let ?i = "rp_PermissionID rp" and ?w = "w\<lparr>stmts := Suc (stmts w)\<rparr>"
  have r: "only_read w ?w" "permission_of ?w = permission_of w" "collected ?w = collected w"
    by (auto simp: only_read_Suc permission_of_def collected_def fun_eq_iff)
  show ?case
  proof (cases "seen ?i")
    case True
    then show ?thesis
      using Cons.IH [of seen acc w] Cons.prems by (auto simp: collected_def)
  next
    case False
    show ?thesis
    proof (cases "permission_of w ?i")
      case None
      then show ?thesis
        using Cons.IH [of seen acc ?w] Cons.prems False r only_read_trans
        by (auto simp: run_bind PermissionGet_run run_failWith split: if_splits)
    next
      case (Some p)
      then have c: "collected ?w (seen(?i := True)) (acc @ [p])"
        using Cons.prems(2) unfolding r by (auto simp: collected_def)
      have run: "run_state (rolePermissions_loop e rps (seen(?i := True)) (acc @ [p])) ?w = (Inr (seen', acc'), w')"
        using Cons.prems(1) False Some by (auto simp: run_bind PermissionGet_run run_failWith split: if_splits)
      show ?thesis
        using Cons.IH [OF run c] Some only_read_trans [OF r(1)] unfolding r by auto
    qed
  qed
qed

lemma userRoles_loop_Inr:
  assumes "run_state (userRoles_loop e t urs seen acc) w = (Inr acc', w')" "collected w seen acc"
  shows "set acc' = set acc \<union> {p. \<exists>ur \<in> set urs. \<exists>role. \<not> UserRole_IsExpired (now e) ur \<and> role_of w t (ur_RoleID ur) = Some role
       \<and> r_IsActive role \<and> p \<in> role_grants w (r_ID role)} \<and> only_read w w'"
  using assms
proof (induction urs arbitrary: seen acc w)
  case Nil
  then show ?case
    by (auto simp: run_succeed only_read_refl)
next
  case (Cons ur urs)
  let ?w = "w\<lparr>stmts := Suc (stmts w)\<rparr>"
  have r: "only_read w ?w" "role_of ?w = role_of w" "role_grants ?w = role_grants w" "collected ?w = collected w"
    by (auto simp: only_read_Suc role_of_def role_grants_def permission_of_def collected_def fun_eq_iff)
  consider (skip) "UserRole_IsExpired (now e) ur" | (gone) "\<not> UserRole_IsExpired (now e) ur" "role_of w t (ur_RoleID ur) = None"
    | (role) role where "\<not> UserRole_IsExpired (now e) ur" "role_of w t (ur_RoleID ur) = Some role"
    by blast
  then show ?case
  proof cases
    case skip
    then show ?thesis
      using Cons.IH [of seen acc w] Cons.prems by auto
  next
    case gone
    then show ?thesis
      using Cons.IH [of seen acc ?w] Cons.prems r only_read_trans
      by (auto simp: run_bind RoleGet_run run_failWith split: if_splits)
  next
    case role
    show ?thesis
    proof (cases "r_IsActive role")
      case False
      then show ?thesis
        using Cons.IH [of seen acc ?w] Cons.prems role r only_read_trans
        by (auto simp: run_bind RoleGet_run run_failWith split: if_splits)
    next
      case True
      let ?rps = "filter (\<lambda>p. rp_RoleID p = r_ID role) (role_permissions w)"
      obtain v seen1 acc1 w1 where v: "only_read w v"
        and loop: "run_state (rolePermissions_loop e ?rps seen acc) v = (Inr (seen1, acc1), w1)"
          "run_state (userRoles_loop e t urs seen1 acc1) w1 = (Inr acc', w')"
        using Cons.prems(1) role True only_read_Suc [of w "Suc (Suc (stmts w))"]
        by (auto simp: run_bind RoleGet_run run_failWith run_orReturn RolePermissions_run split: if_splits sum.splits prod.splits)
      have "collected v seen acc"
        using Cons.prems(2) by (simp add: collected_def only_readD [OF v])
      then have inner: "set acc1 = set acc \<union> role_grants w (r_ID role)" "collected v seen1 acc1" "only_read v w1"
        using rolePermissions_loop_Inr [OF loop(1)] by (auto simp: only_readD [OF v] role_grants_def)
      have w1: "only_read w w1"
        using only_read_trans [OF v inner(3)] .
      have "collected w1 seen1 acc1"
        using inner(2) by (simp add: collected_def only_readD [OF v] only_readD [OF w1])
      then show ?thesis
        using Cons.IH [OF loop(2)] inner(1) role True only_read_trans [OF w1] by (auto simp: only_readD [OF w1])
    qed
  qed
qed

section \<open>Holding a permission\<close>

definition covers :: "string \<Rightarrow> string \<Rightarrow> Permission \<Rightarrow> bool" where
  "covers resource action p \<longleftrightarrow> p_Resource p = resource \<and> (p_Action p = action \<or> p_Action p = PermissionActionManage)"

lemma GetUserPermissions_Inr:
  assumes "run_state (GetUserPermissions e t u) w = (Inr ps, w')"
  shows "set ps = user_holds w (now e) t u \<and> only_read w w'"
proof -
  let ?w = "w\<lparr>stmts := Suc (stmts w)\<rparr>" and ?urs = "filter (\<lambda>x. ur_TenantID x = t \<and> ur_UserID x = u) (user_roles w)"
  have loop: "run_state (userRoles_loop e t ?urs (\<lambda>_. False) []) ?w = (Inr ps, w')"
    using assms by (auto simp: GetUserPermissions_def run_orReturn UserRoles_run split: if_splits)
  have r: "only_read w ?w"
    by (rule only_read_Suc)
  show ?thesis
    using userRoles_loop_Inr [OF loop] only_read_trans [OF r]
    by (auto simp: collected_def only_readD [OF r] user_holds_def)
qed

lemma HasPermission_Inr:
  assumes "run_state (HasPermission e t u resource action) w = (Inr allowed, w')"
  shows "(allowed \<longleftrightarrow> (\<exists>p \<in> user_holds w (now e) t u. covers resource action p)) \<and> only_read w w'"
proof -
  obtain ps where ps: "run_state (GetUserPermissions e t u) w = (Inr ps, w')"
    "allowed = list_ex (\<lambda>p. p_Resource p = resource \<and> (p_Action p = action \<or> p_Action p = PermissionActionManage)) ps"
    using assms by (auto simp: HasPermission_def run_orReturn run_succeed split: prod.splits sum.splits)
  show ?thesis
    using GetUserPermissions_Inr [OF ps(1)] by (auto simp: ps(2) list_ex_iff covers_def)
qed

text \<open>C21: Whenever the permission check answers, it answers what the relational reading of the tables says: the user has an
  unexpired assignment, in this tenant, of a live and active role that carries a live permission for the resource and the
  action or \<^verbatim>\<open>manage\<close>. Nothing but the statement counter changes.\<close>

theorem has_permission_spec:
  assumes "run_state (HasPermission e t u resource action) w = (Inr allowed, w')"
  shows "(allowed \<longleftrightarrow> (\<exists>p \<in> user_holds w (now e) t u. covers resource action p)) \<and> only_read w w'"
  by (rule HasPermission_Inr [OF assms])

section \<open>Instances\<close>

definition rbac_role :: Role where
  "rbac_role = \<lparr>r_ID = 60, r_TenantID = 1, r_Name = ''editor'', r_DisplayName = ''Editor'', r_Description = [], r_IsSystem = False,
     r_IsActive = True, r_CreatedAt = 0, r_UpdatedAt = 0, r_DeletedAt = None\<rparr>"

definition rbac_permission :: Permission where
  "rbac_permission = \<lparr>p_ID = 61, p_Name = ''users.manage'', p_DisplayName = ''Manage users'', p_Description = [], p_Resource = ''users'',
     p_Action = ''manage'', p_IsSystem = False, p_CreatedAt = 0, p_UpdatedAt = 0, p_DeletedAt = None\<rparr>"

definition rbac_assignment :: "go_time option \<Rightarrow> UserRole" where
  "rbac_assignment x = \<lparr>ur_ID = 62, ur_TenantID = 1, ur_UserID = 7, ur_RoleID = 60, ur_GrantedBy = 7, ur_GrantedAt = 0, ur_ExpiresAt = x\<rparr>"

definition rbac_world :: "go_time option \<Rightarrow> world" where
  "rbac_world x = empty_world\<lparr>roles := [rbac_role], permissions := [rbac_permission], user_roles := [rbac_assignment x],
     role_permissions := [\<lparr>rp_ID = 63, rp_RoleID = 60, rp_PermissionID = 61, rp_GrantedBy = 7, rp_GrantedAt = 0\<rparr>]\<rparr>"

lemma has_permission_spec_witness:
  "\<exists>p \<in> user_holds (rbac_world None) (now sample_env) 1 7. covers ''users'' ''delete'' p"
proof -
  have "\<exists>w'. run_state (HasPermission sample_env 1 7 ''users'' ''delete'') (rbac_world None) = (Inr True, w')"
    by (simp add: HasPermission_def GetUserPermissions_def run_orReturn UserRoles_run run_bind RoleGet_run RolePermissions_run
        PermissionGet_run run_succeed sample_env_def rbac_world_def rbac_role_def rbac_permission_def rbac_assignment_def empty_world_def
        UserRole_IsExpired_def role_of_def role_live_def permission_of_def permission_live_def PermissionActionManage_def)
  then show ?thesis
    using has_permission_spec by blast
qed

section \<open>Assignments\<close>

lemma AssignToUser_Inr:
  assumes "run_state (AssignToUser e t r u g expires) w = (Inr (), w')"
  shows "\<exists>role ur. role_of w t r = Some role \<and> (\<forall>x \<in> set (user_roles w). \<not> (ur_TenantID x = t \<and> ur_UserID x = u \<and> ur_RoleID x = r))
     \<and> ur_TenantID ur = t \<and> ur_UserID ur = u \<and> ur_RoleID ur = r \<and> ur_ExpiresAt ur = expires
     \<and> user_roles w' = user_roles w @ [ur] \<and> roles w' = roles w \<and> permissions w' = permissions w \<and> role_permissions w' = role_permissions w"
proof -
  obtain role where role: "role_of w t r = Some role" "\<not> fails e (stmts w)"
    using assms by (auto simp: AssignToUser_def orReturn_Inr_iff RoleGet_run split: if_splits option.splits)
  have none: "find (\<lambda>x. ur_TenantID x = t \<and> ur_UserID x = u \<and> ur_RoleID x = r) (user_roles w) = None"
    using assms role
    by (auto simp: AssignToUser_def run_orReturn RoleGet_run run_bind run_return run_failWith UserRole_GetByUserAndRole_def
        user_roles.First_run unlessError_def split: if_splits option.splits sum.splits prod.splits)
  have "\<exists>ur. ur_TenantID ur = t \<and> ur_UserID ur = u \<and> ur_RoleID ur = r \<and> ur_ExpiresAt ur = expires
      \<and> user_roles w' = user_roles w @ [ur] \<and> roles w' = roles w \<and> permissions w' = permissions w \<and> role_permissions w' = role_permissions w"
    using assms role
    by (auto simp: none AssignToUser_def run_orReturn RoleGet_run run_bind run_return run_uuid_New run_mapErr UserRole_GetByUserAndRole_def
        user_roles.First_run unlessError_def UserRole_Create_def user_roles.Insert_run Let_def split: if_splits)
  then show ?thesis
    using role(1) none unfolding find_None_iff by blast
qed

lemma RevokeFromUser_Inr:
  assumes "run_state (RevokeFromUser e t r u) w = (Inr (), w')"
  shows "user_roles w' = filter (\<lambda>x. \<not> (ur_TenantID x = t \<and> ur_UserID x = u \<and> ur_RoleID x = r)) (user_roles w)"
  using assms
  by (auto simp: RevokeFromUser_def run_orReturn RoleGet_run run_mapErr UserRole_Delete_def user_roles.Delete_run
      split: if_splits option.splits)

text \<open>Granting a role to a user makes its permissions the user's at once, and revoking it takes exactly its own
  permissions away; assignments of other users and roles are untouched.\<close>

theorem assignment_takes_effect:
  assumes "run_state (AssignToUser e t r u g expires) w = (Inr (), w1)"
    and "run_state (RevokeFromUser e2 t r u) w1 = (Inr (), w2)"
  shows "(\<exists>role. role_of w t r = Some role
       \<and> user_holds w1 tm t u = user_holds w tm t u \<union>
           (if r_IsActive role \<and> (case expires of None \<Rightarrow> True | Some x \<Rightarrow> tm \<le> x) then role_grants w (r_ID role) else {}))
     \<and> user_roles w2 = user_roles w"
proof -
  obtain role ur where a: "role_of w t r = Some role"
    "\<forall>x \<in> set (user_roles w). \<not> (ur_TenantID x = t \<and> ur_UserID x = u \<and> ur_RoleID x = r)"
    "ur_TenantID ur = t" "ur_UserID ur = u" "ur_RoleID ur = r" "ur_ExpiresAt ur = expires"
    "user_roles w1 = user_roles w @ [ur]" "roles w1 = roles w" "permissions w1 = permissions w" "role_permissions w1 = role_permissions w"
    using AssignToUser_Inr [OF assms(1)] by blast
  have same: "role_of w1 = role_of w" "role_grants w1 = role_grants w"
    using a(8-10) by (simp_all add: role_of_def [abs_def] role_grants_def [abs_def] permission_of_def)
  have "UserRole_IsExpired tm ur \<longleftrightarrow> \<not> (case expires of None \<Rightarrow> True | Some x \<Rightarrow> tm \<le> x)"
    using a(6) by (auto simp: UserRole_IsExpired_def split: option.split)
  then have "user_holds w1 tm t u = user_holds w tm t u \<union>
      (if r_IsActive role \<and> (case expires of None \<Rightarrow> True | Some x \<Rightarrow> tm \<le> x) then role_grants w (r_ID role) else {})"
    using a(1,3-5) unfolding user_holds_def same a(7) by auto
  moreover have "user_roles w2 = user_roles w"
    using RevokeFromUser_Inr [OF assms(2)] a(2-5,7) by (simp add: filter_id_conv)
  ultimately show ?thesis
    using a(1) by blast
qed

lemma assignment_takes_effect_witness:
  "rbac_permission \<in> user_holds (snd (run_state (AssignToUser sample_env 1 60 8 7 (Some 2000)) (rbac_world None))) 1500 1 8
   \<and> rbac_permission \<notin> user_holds (snd (run_state (AssignToUser sample_env 1 60 8 7 (Some 2000)) (rbac_world None))) 2500 1 8"
proof -
  obtain w1 where 1: "run_state (AssignToUser sample_env 1 60 8 7 (Some 2000)) (rbac_world None) = (Inr (), w1)"
    by (simp add: AssignToUser_def run_orReturn RoleGet_run run_bind run_return run_uuid_New run_mapErr UserRole_GetByUserAndRole_def
        user_roles.First_run unlessError_def UserRole_Create_def user_roles.Insert_run Let_def sample_env_def rbac_world_def
        rbac_role_def rbac_assignment_def empty_world_def role_of_def role_live_def user_roles_clash_def)
  have "role_of w1 1 60 = role_of (rbac_world None) 1 60"
    using AssignToUser_Inr [OF 1] by (auto simp: role_of_def)
  then obtain w2 where 2: "run_state (RevokeFromUser sample_env 1 60 8) w1 = (Inr (), w2)"
    by (simp add: RevokeFromUser_def run_orReturn RoleGet_run run_mapErr UserRole_Delete_def user_roles.Delete_run sample_env_def
        rbac_world_def rbac_role_def role_of_def role_live_def)
  have facts: "role_of (rbac_world None) 1 60 = Some rbac_role" "r_IsActive rbac_role" "user_holds (rbac_world None) tm 1 8 = {}"
    "rbac_permission \<in> role_grants (rbac_world None) (r_ID rbac_role)" for tm
    by (auto simp: role_of_def role_live_def rbac_world_def rbac_role_def rbac_assignment_def rbac_permission_def user_holds_def
        role_grants_def permission_of_def permission_live_def)
  show ?thesis
    using assignment_takes_effect [OF 1 2, of 1500] assignment_takes_effect [OF 1 2, of 2500] facts by (simp add: 1)
qed

text \<open>An assignment that has run out still counts as existing, and nothing removes it: the role cannot be granted again.\<close>

lemma expired_assignment_blocks_renewal:
  "fst (run_state (AssignToUser (sample_env\<lparr>now := 1000\<rparr>) 1 60 7 7 (Some 5000)) (rbac_world (Some 500))) = Inl ErrDuplicateResource
   \<and> user_holds (rbac_world (Some 500)) 1000 1 7 = {}"
  by (auto simp: AssignToUser_def run_orReturn RoleGet_run run_bind run_return run_failWith UserRole_GetByUserAndRole_def
      user_roles.First_run unlessError_def sample_env_def rbac_world_def rbac_role_def rbac_assignment_def empty_world_def role_of_def
      role_live_def user_holds_def UserRole_IsExpired_def)

end
