(* ===== verification/SystemRoles.thy ===== *)
theory SystemRoles
  imports RbacProperties
begin

text \<open>System roles are fixed: no sequence of role operations changes, removes or adds one.\<close>

section \<open>System roles\<close>

datatype role_request =
    CreateRole uuid CreateRoleRequest
  | UpdateRole uuid uuid UpdateRoleRequest
  | DeleteRole uuid uuid
  | AddRolePermission uuid uuid uuid uuid
  | RemoveRolePermission uuid uuid uuid
  | AssignRole uuid uuid uuid uuid "go_time option"
  | RevokeRole uuid uuid uuid

fun role_handle :: "env \<Rightarrow> role_request \<Rightarrow> (world, unit) state" where
  "role_handle e (CreateRole t req) = do { _ \<leftarrow> Role_CreateRole e t req; State_Monad.return () }"
| "role_handle e (UpdateRole t r req) = do { _ \<leftarrow> Role_UpdateRole e t r req; State_Monad.return () }"
| "role_handle e (DeleteRole t r) = do { _ \<leftarrow> Role_DeleteRole e t r; State_Monad.return () }"
| "role_handle e (AddRolePermission t r p g) = do { _ \<leftarrow> AddPermission e t r p g; State_Monad.return () }"
| "role_handle e (RemoveRolePermission t r p) = do { _ \<leftarrow> RemovePermission e t r p; State_Monad.return () }"
| "role_handle e (AssignRole t r u g x) = do { _ \<leftarrow> AssignToUser e t r u g x; State_Monad.return () }"
| "role_handle e (RevokeRole t r u) = do { _ \<leftarrow> RevokeFromUser e t r u; State_Monad.return () }"

fun role_run :: "(env \<times> role_request) list \<Rightarrow> (world, unit) state" where
  "role_run [] = State_Monad.return ()"
| "role_run ((e, r) # rs) = do { _ \<leftarrow> role_handle e r; role_run rs }"

text \<open>What the roles of \<open>S\<close> grant.\<close>

definition system_grants :: "Role set \<Rightarrow> world \<Rightarrow> RolePermission list" where
  "system_grants S w = filter (\<lambda>rp. rp_RoleID rp \<in> r_ID ` S) (role_permissions w)"

text \<open>The invariant: role IDs are unique, and the system roles are what they were; so is what they grant, if \<open>G\<close> tells it.\<close>

definition system_fixed :: "Role set \<Rightarrow> RolePermission list option \<Rightarrow> world \<Rightarrow> bool" where
  "system_fixed S G w \<longleftrightarrow> distinct (map r_ID (roles w)) \<and> {r \<in> set (roles w). r_IsSystem r} = S
     \<and> (\<forall>g. G = Some g \<longrightarrow> system_grants S w = g)"

text \<open>The roles whose grants may change.\<close>

definition grantable :: "Role set \<Rightarrow> RolePermission list option \<Rightarrow> uuid \<Rightarrow> bool" where
  "grantable S G i \<longleftrightarrow> G = None \<or> (\<forall>s \<in> S. r_ID s \<noteq> i)"

lemma system_fixed_roles: "roles w' = roles w \<Longrightarrow> role_permissions w' = role_permissions w \<Longrightarrow> preserving (system_fixed S G) w w'"
  by (simp add: preserving_def system_fixed_def system_grants_def)

interpretation sysrole: world_preorder "preserving (system_fixed S G)" for S G
  by unfold_locales (auto simp: preserving_def system_fixed_def system_grants_def)

text \<open>A role outside the system roles shares no ID with them, so what is written under its ID leaves them alone.\<close>

lemma system_fixed_other: "system_fixed S G w \<Longrightarrow> r \<in> set (roles w) \<Longrightarrow> \<not> r_IsSystem r \<Longrightarrow> \<forall>s \<in> S. r_ID s \<noteq> r_ID r"
  by (auto simp: system_fixed_def dest: distinct_map_eq)

lemma map_save_ids: "map r_ID (map (\<lambda>r. if r_ID r = r_ID row then row else r) xs) = map r_ID xs"
  by simp

lemma distinct_save_row: "distinct (map r_ID xs) \<Longrightarrow> distinct (map r_ID (save_row r_ID row xs))"
  by (auto simp: save_row_def list_ex_iff simp del: map_map simp: map_save_ids)

lemma sysrole_Create: "\<not> r_IsSystem r \<Longrightarrow> steps (preserving (system_fixed S G)) (Role_Create e r)"
  unfolding steps_def preserving_def
  by (auto simp: Role_Create_def roles.Insert_run system_fixed_def roles_clash_def system_grants_def)

lemma sysrole_Update:
  assumes "\<forall>s \<in> S. r_ID s \<noteq> r_ID r" "\<not> r_IsSystem r"
  shows "steps (preserving (system_fixed S G)) (Role_Update e r)"
  unfolding steps_def preserving_def
  using assms by (auto simp: Role_Update_def roles.Save_run system_fixed_def distinct_save_row save_row_set system_grants_def)

lemma system_fixed_map:
  assumes "system_fixed S G w" "roles w' = map f (roles w)" "role_permissions w' = role_permissions w"
    and id: "\<And>r. r_ID (f r) = r_ID r" and sys: "\<And>r. r_IsSystem (f r) = r_IsSystem r" and same: "\<And>r. r \<in> S \<Longrightarrow> f r = r"
  shows "system_fixed S G w'"
proof -
  have "{r \<in> f ` set (roles w). r_IsSystem r} = f ` {r \<in> set (roles w). r_IsSystem r}"
    using sys by blast
  also have "\<dots> = S"
    using assms(1) same by (force simp: system_fixed_def)
  finally show ?thesis
    using assms(1-3) id by (simp add: system_fixed_def comp_def system_grants_def)
qed

lemma sysrole_Delete:
  assumes "\<forall>s \<in> S. r_ID s \<noteq> i"
  shows "steps (preserving (system_fixed S G)) (Role_Delete e t i)"
  unfolding steps_def preserving_def
proof (intro allI impI)
  fix w
  assume inv: "system_fixed S G w"
  show "system_fixed S G (snd (run_state (Role_Delete e t i) w))"
  proof (cases "fails e (stmts w)")
    case True
    then show ?thesis
      using inv by (simp add: Role_Delete_def run_orReturn roles.Update_run system_fixed_def system_grants_def)
  next
    case False
    show ?thesis
      by (rule system_fixed_map [OF inv, where f = "\<lambda>r. if r_TenantID r = t \<and> r_ID r = i \<and> role_live r
            then r\<lparr>r_DeletedAt := Some (now e)\<rparr> else r"])
        (use assms False in \<open>auto simp: Role_Delete_def run_orReturn roles.Update_run run_succeed\<close>)
  qed
qed

text \<open>A handler that loads a role and goes on: the role is a row of the table, and what follows need only keep the
  invariant for such a role.\<close>

lemma sysrole_First:
  assumes "\<And>role w. system_fixed S G w \<Longrightarrow> role \<in> set (roles w) \<Longrightarrow> r_ID role = i \<Longrightarrow> steps (preserving (system_fixed S G)) (k role)"
  shows "steps (preserving (system_fixed S G)) (orReturn (Role_GetByID e t i) g k)"
  unfolding steps_def
proof
  fix w
  have "preserving (system_fixed S G) w (snd (run_state (k role) (w\<lparr>stmts := Suc (stmts w)\<rparr>)))"
    if "system_fixed S G w" "role_of w t i = Some role" for role
  proof -
    have "role \<in> set (roles w)" "r_ID role = i"
      using find_SomeD [OF that(2) [unfolded role_of_def]] by simp_all
    from assms [OF that(1) this] show ?thesis
      using sysrole.stmts_only [of S G w "Suc (stmts w)"] inv.R_trans [of "system_fixed S G" w] unfolding steps_def by blast
  qed
  then show "preserving (system_fixed S G) w (snd (run_state (orReturn (Role_GetByID e t i) g k) w))"
    by (auto simp: run_orReturn RoleGet_run preserving_def system_fixed_def system_grants_def split: option.split)
qed

lemma sysrole_reads [effect_intros]:
  "steps (preserving (system_fixed S G)) (Role_GetByName e t n)" "steps (preserving (system_fixed S G)) (Permission_GetByName e n)"
  "steps (preserving (system_fixed S G)) (Permission_GetByID e p)" "steps (preserving (system_fixed S G)) (RolePermission_GetRolePermissions e i)"
  "steps (preserving (system_fixed S G)) (RolePermission_GetByRoleAndPermission e i p)"
  "steps (preserving (system_fixed S G)) (UserRole_GetByUserAndRole e t u i)" "steps (preserving (system_fixed S G)) (UserRole_GetRoleUsers e t i)"
  unfolding Role_GetByName_def Permission_GetByName_def Permission_GetByID_def RolePermission_GetRolePermissions_def
    RolePermission_GetByRoleAndPermission_def UserRole_GetByUserAndRole_def UserRole_GetRoleUsers_def
  by (intro sysrole.world_steps)+

lemma sysrole_assignments [effect_intros]:
  "steps (preserving (system_fixed S G)) (UserRole_Create e ur)" "steps (preserving (system_fixed S G)) (UserRole_Delete e t u i)"
  unfolding UserRole_Create_def UserRole_Delete_def
  by (intro sysrole.world_steps sysrole.steps_sqlInsert sysrole.steps_sqlDelete system_fixed_roles; simp)+

lemma sysrole_grant:
  assumes "grantable S G i"
  shows "rp_RoleID rp = i \<Longrightarrow> steps (preserving (system_fixed S G)) (RolePermission_Create e rp)"
    "steps (preserving (system_fixed S G)) (RolePermission_Delete e i p)"
proof -
  show "steps (preserving (system_fixed S G)) (RolePermission_Create e rp)" if "rp_RoleID rp = i"
    unfolding RolePermission_Create_def
    by (intro sysrole.steps_sqlInsert)
      (use assms that in \<open>auto simp: preserving_def system_fixed_def system_grants_def grantable_def\<close>)
  have "filter (\<lambda>r. rp_RoleID r \<in> r_ID ` S) (filter (\<lambda>r. \<not> (rp_RoleID r = i \<and> rp_PermissionID r = p)) rps)
      = filter (\<lambda>r. rp_RoleID r \<in> r_ID ` S) rps" if "\<forall>s \<in> S. r_ID s \<noteq> i" for rps
    unfolding filter_filter using that by (intro filter_cong) auto
  then show "steps (preserving (system_fixed S G)) (RolePermission_Delete e i p)"
    unfolding RolePermission_Delete_def
    by (intro sysrole.steps_sqlDelete)
      (use assms in \<open>auto simp: preserving_def system_fixed_def system_grants_def grantable_def simp del: filter_filter\<close>)
qed

lemma sysrole_add: "grantable S G i \<Longrightarrow> steps (preserving (system_fixed S G)) (addPermissions e t i names)"
  by (induction names) (auto intro!: sysrole.world_steps effect_intros sysrole_grant)

lemma sysrole_remove: "grantable S G i \<Longrightarrow> steps (preserving (system_fixed S G)) (removePermissions e i rps)"
  by (induction rps) (auto intro!: sysrole.world_steps effect_intros sysrole_grant)

lemma sysrole_UpdateRole [effect_intros]: "steps (preserving (system_fixed S G)) (Role_UpdateRole e t i req)"
  unfolding Role_UpdateRole_def
proof (rule sysrole_First)
  fix role w
  assume *: "system_fixed S G w" "role \<in> set (roles w)" "r_ID role = i"
  have grant: "grantable S G i" if "\<not> r_IsSystem role"
    using system_fixed_other [OF *(1,2) that] *(3) by (simp add: grantable_def)
  have upd: "\<forall>s \<in> S. r_ID s \<noteq> r_ID (updatedRole e req role)" "\<not> r_IsSystem (updatedRole e req role)" if "\<not> r_IsSystem role"
    using that system_fixed_other [OF *(1,2)] by (auto simp: updatedRole_def Let_def split: option.splits)
  show "steps (preserving (system_fixed S G)) (if r_IsSystem role then failWith ErrBusinessRuleViolation
     else let role = updatedRole e req role in
       orReturn (Role_Update e role) (Wrapped ''failed to update role'') (\<lambda>_.
         case urr_Permissions req of
           None \<Rightarrow> succeed role
         | Some names \<Rightarrow> do {
             existing \<leftarrow> RolePermission_GetRolePermissions e i;
             _ \<leftarrow> (case existing of Inl _ \<Rightarrow> State_Monad.return () | Inr rps \<Rightarrow> removePermissions e i rps);
             _ \<leftarrow> addPermissions e t i names;
             succeed role
           }))"
    using upd grant
    by (cases "r_IsSystem role") (auto simp: Let_def intro!: sysrole.world_steps effect_intros sysrole_Update sysrole_add sysrole_remove)
qed

lemma sysrole_DeleteRole [effect_intros]: "steps (preserving (system_fixed S G)) (Role_DeleteRole e t i)"
  unfolding Role_DeleteRole_def
proof (rule sysrole_First)
  fix role w
  assume *: "system_fixed S G w" "role \<in> set (roles w)" "r_ID role = i"
  have other: "\<forall>s \<in> S. r_ID s \<noteq> i" if "\<not> r_IsSystem role"
    using system_fixed_other [OF *(1,2) that] *(3) by simp
  show "steps (preserving (system_fixed S G)) (if r_IsSystem role then failWith ErrBusinessRuleViolation
     else orReturn (UserRole_GetRoleUsers e t i) (Wrapped ''failed to check role assignments'') (\<lambda>userRoles.
       if userRoles \<noteq> [] then failWith ErrBusinessRuleViolation
       else do {
         existing \<leftarrow> RolePermission_GetRolePermissions e i;
         _ \<leftarrow> (case existing of Inl _ \<Rightarrow> State_Monad.return () | Inr rps \<Rightarrow> removePermissions e i rps);
         mapErr (Wrapped ''failed to delete role'') (Role_Delete e t i)
       }))"
    using other
    by (cases "r_IsSystem role")
      (auto simp: grantable_def intro!: sysrole.world_steps effect_intros sysrole_Delete sysrole_remove)
qed

text \<open>The ID of a role that could be inserted was nobody's before.\<close>

lemma sysrole_orCreate:
  assumes "\<not> r_IsSystem r" "grantable S G (r_ID r) \<Longrightarrow> steps (preserving (system_fixed S G)) (k ())"
  shows "steps (preserving (system_fixed S G)) (orReturn (Role_Create e r) h k)"
  unfolding steps_def preserving_def
proof (intro allI impI)
  fix w
  assume inv: "system_fixed S G w"
  obtain x w1 where x: "run_state (Role_Create e r) w = (x, w1)"
    by fastforce
  have 1: "system_fixed S G w1"
    using inv.steps_run [OF sysrole_Create [OF assms(1)] x] inv by (simp add: preserving_def)
  show "system_fixed S G (snd (run_state (orReturn (Role_Create e r) h k) w))"
  proof (cases x)
    case (Inr u)
    then have "\<forall>y \<in> set (roles w). r_ID y \<noteq> r_ID r"
      using x by (auto simp: Role_Create_def roles.Insert_run roles_clash_def list_ex_iff split: if_splits)
    then have "grantable S G (r_ID r)"
      using inv by (auto simp: grantable_def system_fixed_def)
    from assms(2) [OF this] show ?thesis
      using 1 by (simp add: run_orReturn x Inr steps_def preserving_def)
  qed (use 1 x in \<open>simp add: run_orReturn\<close>)
qed

lemma sysrole_CreateRole: "steps (preserving (system_fixed S G)) (Role_CreateRole e t req)"
  unfolding Role_CreateRole_def Let_def
  by (intro inv.steps_bind inv.steps_orReturn inv.steps_return inv.steps_if inv.steps_failWith effect_intros
      sysrole.steps_uuid_New sysrole_orCreate inv.steps_succeed sysrole_add; simp)

text \<open>The roles on which a request adds or removes a permission.\<close>

fun edits_grants :: "role_request \<Rightarrow> uuid set" where
  "edits_grants (AddRolePermission t r p g) = {r}"
| "edits_grants (RemoveRolePermission t r p) = {r}"
| "edits_grants _ = {}"

lemma sysrole_handle:
  assumes "\<forall>i \<in> edits_grants r. grantable S G i"
  shows "steps (preserving (system_fixed S G)) (role_handle e r)"
proof (cases r)
  case (CreateRole t req)
  then show ?thesis
    by (auto intro!: sysrole.world_steps sysrole_CreateRole)
next
  case (AddRolePermission t r p g)
  then show ?thesis
    using assms by (auto simp: AddPermission_def Role_GetByID_def intro!: sysrole.world_steps effect_intros sysrole_grant)
next
  case (RemoveRolePermission t r p)
  then show ?thesis
    using assms by (auto simp: RemovePermission_def Role_GetByID_def intro!: sysrole.world_steps effect_intros sysrole_grant)
next
  case (AssignRole t r u g x)
  then show ?thesis
    by (auto simp: AssignToUser_def Role_GetByID_def intro!: sysrole.world_steps effect_intros)
next
  case (RevokeRole t r u)
  then show ?thesis
    by (auto simp: RevokeFromUser_def Role_GetByID_def intro!: sysrole.world_steps effect_intros)
qed (auto intro!: sysrole.world_steps effect_intros)

lemma sysrole_run:
  assumes "\<forall>(e, r) \<in> set rs. \<forall>i \<in> edits_grants r. grantable S G i"
  shows "steps (preserving (system_fixed S G)) (role_run rs)"
  using assms by (induction rs rule: role_run.induct) (auto intro!: sysrole.world_steps sysrole_handle)

text \<open>C22: Whatever role requests are served, in any order and with any database faults, the rows of the system roles stay exactly
  what they were: none is renamed, deactivated, deleted or added, and role IDs stay unique. What they grant stays the same, too, unless
  a request names a system role itself to add or remove a permission, which the code does not refuse.\<close>

theorem system_roles_fixed:
  assumes "distinct (map r_ID (roles w))"
    and "system = {r \<in> set (roles w). r_IsSystem r}" "w' = snd (run_state (role_run rs) w)"
  shows "{r \<in> set (roles w'). r_IsSystem r} = system \<and> distinct (map r_ID (roles w'))
     \<and> ((\<forall>(e, r) \<in> set rs. edits_grants r \<inter> r_ID ` system = {}) \<longrightarrow> system_grants system w' = system_grants system w)"
proof (intro conjI impI)
  have "steps (preserving (system_fixed system None)) (role_run rs)"
    by (rule sysrole_run) (auto simp: grantable_def)
  then have "system_fixed system None w'"
    using assms by (simp add: steps_def preserving_def system_fixed_def)
  then show "{r \<in> set (roles w'). r_IsSystem r} = system" "distinct (map r_ID (roles w'))"
    by (simp_all add: system_fixed_def)
  assume "\<forall>(e, r) \<in> set rs. edits_grants r \<inter> r_ID ` system = {}"
  then have "steps (preserving (system_fixed system (Some (system_grants system w)))) (role_run rs)"
    by (intro sysrole_run) (fastforce simp: grantable_def)
  then show "system_grants system w' = system_grants system w"
    using assms by (simp add: steps_def preserving_def system_fixed_def)
qed

text \<open>A system role that another role shares its permission with: the update, the deletion and the removed permission of the other
  role leave it alone.\<close>

lemma system_roles_fixed_witness:
  "let w = (rbac_world None)\<lparr>roles := [rbac_role\<lparr>r_IsSystem := True\<rparr>, rbac_role\<lparr>r_ID := 64\<rparr>]\<rparr>;
       w' = snd (run_state (role_run [(sample_env, UpdateRole 1 60 \<lparr>urr_DisplayName = ''x'', urr_Description = [],
         urr_IsActive = Some False, urr_Permissions = Some []\<rparr>), (sample_env, RemoveRolePermission 1 64 61), (sample_env, DeleteRole 1 60)]) w)
   in {r \<in> set (roles w'). r_IsSystem r} = {rbac_role\<lparr>r_IsSystem := True\<rparr>}
      \<and> system_grants {rbac_role\<lparr>r_IsSystem := True\<rparr>} w' = role_permissions (rbac_world None) \<and> role_permissions (rbac_world None) \<noteq> []"
proof -
  let ?w = "(rbac_world None)\<lparr>roles := [rbac_role\<lparr>r_IsSystem := True\<rparr>, rbac_role\<lparr>r_ID := 64\<rparr>]\<rparr>"
  let ?rs = "[(sample_env, UpdateRole 1 60 \<lparr>urr_DisplayName = ''x'', urr_Description = [],
         urr_IsActive = Some False, urr_Permissions = Some []\<rparr>), (sample_env, RemoveRolePermission 1 64 61), (sample_env, DeleteRole 1 60)]"
  have sys: "{r \<in> set (roles ?w). r_IsSystem r} = {rbac_role\<lparr>r_IsSystem := True\<rparr>}"
    by (auto simp: rbac_role_def)
  have "distinct (map r_ID (roles ?w))"
    by (simp add: rbac_role_def)
  from system_roles_fixed [OF this refl refl, of ?rs]
  have "{r \<in> set (roles (snd (run_state (role_run ?rs) ?w))). r_IsSystem r} = {rbac_role\<lparr>r_IsSystem := True\<rparr>}
     \<and> system_grants {rbac_role\<lparr>r_IsSystem := True\<rparr>} (snd (run_state (role_run ?rs) ?w)) = system_grants {rbac_role\<lparr>r_IsSystem := True\<rparr>} ?w"
    unfolding sys by (simp add: rbac_role_def)
  moreover have "system_grants {rbac_role\<lparr>r_IsSystem := True\<rparr>} ?w = role_permissions (rbac_world None)" "role_permissions (rbac_world None) \<noteq> []"
    by (simp_all add: system_grants_def rbac_world_def rbac_role_def)
  ultimately show ?thesis
    unfolding Let_def by simp
qed

end
