(* ===== verification/Caches.thy ===== *)
theory Caches
  imports World "HOL-Library.AList"
begin

text \<open>In-memory caches beside the database: a Go map from keys to entries that carry an expiry time, emptied when an insertion
  finds it full. The map is an association list without duplicate keys.\<close>

type_synonym ('k, 'v) cache = "('k \<times> 'v) list"

definition cache_store :: "nat \<Rightarrow> 'k \<Rightarrow> 'v \<Rightarrow> ('k, 'v) cache \<Rightarrow> ('k, 'v) cache" where
  "cache_store bound k v c = AList.update k v (if bound \<le> length c then [] else c)"

text \<open>What the users of a bounded cache rely on: a stored entry is found, other keys keep their entry or lose it, and the size
  stays within the bound.\<close>

locale bounded_cache =
  fixes lookup :: "'c \<Rightarrow> 'k \<Rightarrow> 'v option"
    and store :: "'k \<Rightarrow> 'v \<Rightarrow> 'c \<Rightarrow> 'c"
    and size :: "'c \<Rightarrow> nat"
    and bound :: nat
  assumes lookup_stored: "lookup (store k v c) k = Some v"
    and lookup_other: "k' \<noteq> k \<Longrightarrow> lookup (store k v c) k' = Some v' \<Longrightarrow> lookup c k' = Some v'"
    and size_store: "size c \<le> bound \<Longrightarrow> size (store k v c) \<le> bound"
begin

definition every :: "('k \<Rightarrow> 'v \<Rightarrow> bool) \<Rightarrow> 'c \<Rightarrow> bool" where
  "every P c \<longleftrightarrow> (\<forall>k v. lookup c k = Some v \<longrightarrow> P k v)"

lemma every_store:
  assumes "every P c" "P k v"
  shows "every P (store k v c)"
  unfolding every_def
proof (intro allI impI)
  fix k' v'
  assume "lookup (store k v c) k' = Some v'"
  then show "P k' v'"
    using assms lookup_stored [of k v c] lookup_other [of k' k v c v'] by (cases "k' = k") (auto simp: every_def)
qed

lemma every_found: "every P c \<Longrightarrow> lookup c k = Some v \<Longrightarrow> P k v"
  by (simp add: every_def)

end

text \<open>Every association-list cache with a positive bound is one.\<close>

lemma cache_store_lookup: "map_of (cache_store bound k v c) = (if bound \<le> length c then [k \<mapsto> v] else (map_of c)(k \<mapsto> v))"
  by (simp add: cache_store_def update_conv')

lemma AList_update_length: "length (AList.update k v c) \<le> Suc (length c)"
  by (induction c) auto

lemma cache_store_size: "0 < bound \<Longrightarrow> length c \<le> bound \<Longrightarrow> length (cache_store bound k v c) \<le> bound"
  using AList_update_length [of k v c] by (auto simp: cache_store_def)

section \<open>Programs on the database and a cache\<close>

definition onWorld :: "(world, 'a) state \<Rightarrow> (world \<times> 'c, 'a) state" where
  "onWorld m = State (\<lambda>(w, c). case run_state m w of (a, w') \<Rightarrow> (a, (w', c)))"

definition onCache :: "('c \<Rightarrow> 'a \<times> 'c) \<Rightarrow> (world \<times> 'c, 'a) state" where
  "onCache f = State (\<lambda>(w, c). case f c of (a, c') \<Rightarrow> (a, (w, c')))"

lemma run_onWorld [monad_simps]: "run_state (onWorld m) (w, c) = (case run_state m w of (a, w') \<Rightarrow> (a, (w', c)))"
  by (simp add: onWorld_def)

lemma run_onCache [monad_simps]: "run_state (onCache f) (w, c) = (case f c of (a, c') \<Rightarrow> (a, (w, c')))"
  by (simp add: onCache_def)

end
