(* ===== verification/ClientService.thy ===== *)
theory ClientService
  imports Caches Hmac MoreRepos
begin

text \<open>OAuth clients (\<^verbatim>\<open>internal/services/client_service_impl.go\<close>) and the cache of verified client secrets
  (\<^verbatim>\<open>client_secret_cache.go\<close>).\<close>

section \<open>Cache of verified secrets\<close>

definition clientSecretCacheTTL :: duration where "clientSecretCacheTTL = seconds (10 * 60)"

definition maxCachedClientSecrets :: nat where "maxCachedClientSecrets = 10000"

record clientSecretCache =
  csc_key :: string
  csc_ttl :: duration
  csc_entries :: "(uuid \<times> string, string \<times> go_time) cache"

definition newClientSecretCache :: "env \<Rightarrow> duration \<Rightarrow> (world, clientSecretCache option) state" where
  "newClientSecretCache e ttl = State (\<lambda>w.
     (case randBytes e (draws w) 32 of
        None \<Rightarrow> None
      | Some key \<Rightarrow> Some \<lparr>csc_key = key, csc_ttl = ttl, csc_entries = []\<rparr>,
      w\<lparr>draws := Suc (draws w)\<rparr>))"

definition mac :: "clientSecretCache \<Rightarrow> string \<Rightarrow> string" where
  "mac c secret = hmac sha256 (csc_key c) secret"

text \<open>A nil cache remembers nothing.\<close>

definition verified :: "env \<Rightarrow> uuid \<Rightarrow> string \<Rightarrow> string \<Rightarrow> clientSecretCache option \<Rightarrow> bool" where
  "verified e clientID storedHash secret cache =
     (case cache of
        None \<Rightarrow> False
      | Some c \<Rightarrow>
          (case map_of (csc_entries c) (clientID, storedHash) of
             None \<Rightarrow> False
           | Some (m, expires) \<Rightarrow> if \<not> now e < expires then False else m = mac c secret))"

definition remember :: "env \<Rightarrow> uuid \<Rightarrow> string \<Rightarrow> string \<Rightarrow> clientSecretCache option \<Rightarrow> clientSecretCache option" where
  "remember e clientID storedHash secret cache =
     (case cache of
        None \<Rightarrow> None
      | Some c \<Rightarrow> Some (c\<lparr>csc_entries :=
          cache_store maxCachedClientSecrets (clientID, storedHash) (mac c secret, now e + csc_ttl c) (csc_entries c)\<rparr>))"

interpretation secrets: bounded_cache map_of "cache_store maxCachedClientSecrets" length maxCachedClientSecrets
  by unfold_locales (auto simp: cache_store_lookup maxCachedClientSecrets_def cache_store_size split: if_splits)

section \<open>Clients\<close>

record CreateClientRequest =
  ccr_Name :: string
  ccr_RedirectURIs :: "string list"
  ccr_PostLogoutRedirectURIs :: "string list"
  ccr_GrantTypes :: "string list"
  ccr_Scopes :: "string list"
  ccr_IsPublic :: bool

record UpdateClientRequest =
  ucr_Name :: string
  ucr_RedirectURIs :: "string list"
  ucr_PostLogoutRedirectURIs :: "string list option"
  ucr_GrantTypes :: "string list"
  ucr_Scopes :: "string list"
  ucr_IsPublic :: "bool option"

definition TokenEndpointAuthNone :: string where "TokenEndpointAuthNone = ''none''"

definition TokenEndpointAuthClientSecretBasic :: string where "TokenEndpointAuthClientSecretBasic = ''client_secret_basic''"

definition TokenEndpointAuthClientSecretPost :: string where "TokenEndpointAuthClientSecretPost = ''client_secret_post''"

definition tokenEndpointAuthMethodFor :: "bool \<Rightarrow> string" where
  "tokenEndpointAuthMethodFor isPublic = (if isPublic then TokenEndpointAuthNone else TokenEndpointAuthClientSecretBasic)"

definition generateClientID :: "env \<Rightarrow> (world, string) state" where
  "generateClientID e = do { i \<leftarrow> uuid_New e; State_Monad.return (''client_'' @ take 16 (uuidString e i)) }"

definition generateClientSecret :: "env \<Rightarrow> string op" where
  "generateClientSecret e = orReturn (randomToken e 32) id (\<lambda>s. succeed (''secret_'' @ s))"

text \<open>bcrypt salts its hash, so each call draws from the random source.\<close>

definition hashClientSecret :: "env \<Rightarrow> string \<Rightarrow> string op" where
  "hashClientSecret e secret = State (\<lambda>w.
     (case bcryptGenerate e (draws w) secret of None \<Rightarrow> Inl (ErrMsg ''bcrypt'') | Some h \<Rightarrow> Inr h,
      w\<lparr>draws := Suc (draws w)\<rparr>))"

text \<open>A new secret and its hash.\<close>

definition newClientSecret :: "env \<Rightarrow> (string \<times> string) op" where
  "newClientSecret e =
     orReturn (generateClientSecret e) (Wrapped ''failed to generate client secret'') (\<lambda>plainSecret.
     orReturn (hashClientSecret e plainSecret) (Wrapped ''failed to hash client secret'') (\<lambda>secretHash.
     succeed (plainSecret, secretHash)))"

definition CreateClient :: "env \<Rightarrow> uuid \<Rightarrow> CreateClientRequest \<Rightarrow> Client op" where
  "CreateClient e tenantID req =
     (if ccr_Name req = [] then failWith (ErrMsg ''client name is required'')
      else if ccr_RedirectURIs req = [] then failWith (ErrMsg ''at least one redirect URI is required'')
      else if ccr_GrantTypes req = [] then failWith (ErrMsg ''at least one grant type is required'')
      else do {
        clientID \<leftarrow> generateClientID e;
        orReturn (if \<not> ccr_IsPublic req then newClientSecret e else succeed ([], [])) id (\<lambda>(plainSecret, secretHash). do {
          i \<leftarrow> uuid_New e;
          orReturn (Client_Create e
            \<lparr>c_ID = i, c_TenantID = tenantID, c_ClientID = clientID, c_ClientSecret = secretHash, c_PlainClientSecret = [],
             c_Name = ccr_Name req, c_RedirectURIs = ccr_RedirectURIs req,
             c_PostLogoutRedirectURIs = ccr_PostLogoutRedirectURIs req, c_GrantTypes = ccr_GrantTypes req,
             c_Scopes = ccr_Scopes req, c_IsPublic = ccr_IsPublic req,
             c_TokenEndpointAuthMethod = tokenEndpointAuthMethodFor (ccr_IsPublic req), c_DynamicallyRegistered = False,
             c_RegistrationAccessToken = [], c_CreatedAt = zero_time, c_UpdatedAt = zero_time, c_DeletedAt = None\<rparr>)
            (Wrapped ''failed to create client'') (\<lambda>client. succeed (client\<lparr>c_PlainClientSecret := plainSecret\<rparr>))
        })
      })"

definition GetClientByID :: "env \<Rightarrow> uuid \<Rightarrow> uuid \<Rightarrow> Client op" where
  "GetClientByID e tenantID clientID = Client_GetByID e tenantID clientID"

definition GetClientByClientID :: "env \<Rightarrow> uuid \<Rightarrow> string \<Rightarrow> Client op" where
  "GetClientByClientID e tenantID clientID = Client_GetByClientID e tenantID clientID"

definition updatedFields :: "UpdateClientRequest \<Rightarrow> Client \<Rightarrow> Client" where
  "updatedFields req client =
     (let c1 = (if ucr_Name req \<noteq> [] then client\<lparr>c_Name := ucr_Name req\<rparr> else client);
          c2 = (if ucr_RedirectURIs req \<noteq> [] then c1\<lparr>c_RedirectURIs := ucr_RedirectURIs req\<rparr> else c1);
          c3 = (case ucr_PostLogoutRedirectURIs req of None \<Rightarrow> c2 | Some us \<Rightarrow> c2\<lparr>c_PostLogoutRedirectURIs := us\<rparr>);
          c4 = (if ucr_GrantTypes req \<noteq> [] then c3\<lparr>c_GrantTypes := ucr_GrantTypes req\<rparr> else c3)
      in if ucr_Scopes req \<noteq> [] then c4\<lparr>c_Scopes := ucr_Scopes req\<rparr> else c4)"

text \<open>The change of client type: a client made confidential gets a secret, one made public loses it.\<close>

definition updatedType :: "env \<Rightarrow> UpdateClientRequest \<Rightarrow> Client \<Rightarrow> (Client \<times> string) op" where
  "updatedType e req client =
     (case ucr_IsPublic req of
        None \<Rightarrow> succeed (client, [])
      | Some isPublic \<Rightarrow>
          let c1 = client\<lparr>c_IsPublic := isPublic, c_TokenEndpointAuthMethod := tokenEndpointAuthMethodFor isPublic\<rparr>
          in orReturn (if \<not> isPublic \<and> c_ClientSecret c1 = []
                       then orReturn (newClientSecret e) id
                              (\<lambda>(plainSecret, secretHash). succeed (c1\<lparr>c_ClientSecret := secretHash\<rparr>, plainSecret))
                       else succeed (c1, [])) id
               (\<lambda>(c2, plainSecret). succeed (if isPublic then c2\<lparr>c_ClientSecret := []\<rparr> else c2, plainSecret)))"

definition UpdateClient :: "env \<Rightarrow> uuid \<Rightarrow> uuid \<Rightarrow> UpdateClientRequest \<Rightarrow> Client op" where
  "UpdateClient e tenantID clientID req =
     orReturn (Client_GetByID e tenantID clientID) id (\<lambda>client0.
     orReturn (updatedType e req (updatedFields req client0)) id (\<lambda>(client, plainSecret).
     orReturn (Client_Update e client) (Wrapped ''failed to update client'') (\<lambda>_.
     succeed (client\<lparr>c_UpdatedAt := now e, c_PlainClientSecret := plainSecret\<rparr>))))"

definition DeleteClient :: "env \<Rightarrow> uuid \<Rightarrow> uuid \<Rightarrow> unit op" where
  "DeleteClient e tenantID clientID =
     orReturn (Client_GetByID e tenantID clientID) id (\<lambda>_.
     orReturn (Client_Delete e tenantID clientID) (Wrapped ''failed to delete client'') (\<lambda>_.
     orReturn (AccessToken_DeleteByClientID e tenantID clientID) (Wrapped ''failed to revoke client access tokens'') (\<lambda>_.
     orReturn (RefreshToken_DeleteByClientID e tenantID clientID) (Wrapped ''failed to revoke client refresh tokens'')
       (\<lambda>_. succeed ()))))"

definition ListClients :: "env \<Rightarrow> uuid \<Rightarrow> int \<Rightarrow> int \<Rightarrow> (Client list \<times> PageInfo) op" where
  "ListClients e tenantID limit0 offset0 =
     (let limit = (if limit0 \<le> 0 \<or> limit0 > 100 then 20 else limit0);
          offset = (if offset0 < 0 then 0 else offset0)
      in orReturn (Client_List e tenantID limit offset) (Wrapped ''failed to list clients'')
           (\<lambda>(clients, total). succeed (NewPaginatedResponse clients limit offset total)))"

definition ValidateClient :: "env \<Rightarrow> uuid \<Rightarrow> string \<Rightarrow> string \<Rightarrow> (world \<times> clientSecretCache option, err + Client) state" where
  "ValidateClient e tenantID clientID clientSecret =
     orReturn (onWorld (Client_GetByClientID e tenantID clientID)) (\<lambda>_. ErrInvalidClient) (\<lambda>client.
     if c_IsPublic client then (if clientSecret \<noteq> [] then failWith ErrInvalidClient else succeed client)
     else if clientSecret = [] \<or> c_ClientSecret client = [] then failWith ErrInvalidClient
     else do {
       hit \<leftarrow> onCache (\<lambda>c. (verified e (c_ID client) (c_ClientSecret client) clientSecret c, c));
       if hit then succeed client
       else if \<not> bcryptCompare e (c_ClientSecret client) clientSecret then failWith ErrInvalidClient
       else do {
         _ \<leftarrow> onCache (\<lambda>c. ((), remember e (c_ID client) (c_ClientSecret client) clientSecret c));
         succeed client
       }
     })"

definition ValidateRedirectURI :: "Client \<Rightarrow> string \<Rightarrow> err + unit" where
  "ValidateRedirectURI client redirectURI =
     (if list_ex (\<lambda>allowedURI. allowedURI = redirectURI) (c_RedirectURIs client) then Inr ()
      else Inl (ErrMsg ''redirect URI not allowed''))"

end
