(* ===== verification/ClientProperties.thy ===== *)
theory ClientProperties
  imports ClientService Samples
begin

text \<open>Client authentication: the cache of verified secrets does not change its answers, a new secret authenticates the client
  it was issued to, and a deleted client is gone with its tokens.\<close>

section \<open>The secret cache is transparent\<close>

text \<open>Client authentication without a cache.\<close>

definition ValidateClient_spec :: "env \<Rightarrow> uuid \<Rightarrow> string \<Rightarrow> string \<Rightarrow> Client op" where
  "ValidateClient_spec e tenantID clientID clientSecret =
     orReturn (Client_GetByClientID e tenantID clientID) (\<lambda>_. ErrInvalidClient) (\<lambda>client.
     if (if c_IsPublic client then clientSecret = []
         else clientSecret \<noteq> [] \<and> c_ClientSecret client \<noteq> [] \<and> bcryptCompare e (c_ClientSecret client) clientSecret)
     then succeed client else failWith ErrInvalidClient)"

text \<open>Every remembered code belongs to a secret that bcrypt accepted for that hash.\<close>

definition vouched :: "(string \<Rightarrow> string \<Rightarrow> bool) \<Rightarrow> clientSecretCache option \<Rightarrow> bool" where
  "vouched compare cache \<longleftrightarrow> (\<forall>c. cache = Some c \<longrightarrow>
     length (csc_entries c) \<le> maxCachedClientSecrets
     \<and> secrets.every (\<lambda>k v. \<exists>s. fst v = mac c s \<and> compare (snd k) s) (csc_entries c))"

lemma vouched_new: "fst (run_state (newClientSecretCache e ttl) w) = cache \<Longrightarrow> vouched compare cache"
  by (auto simp: newClientSecretCache_def vouched_def secrets.every_def split: option.splits)

lemma vouched_remember:
  assumes "vouched compare cache" "compare storedHash secret"
  shows "vouched compare (remember e clientID storedHash secret cache)"
proof (cases cache)
  case (Some c)
  have mac: "mac (c\<lparr>csc_entries := x\<rparr>) = mac c" for x
    by (simp add: mac_def fun_eq_iff)
  have "\<exists>s. fst (mac c secret, now e + csc_ttl c) = mac c s \<and> compare (snd (clientID, storedHash)) s"
    using assms(2) by auto
  then have "secrets.every (\<lambda>k v. \<exists>s. fst v = mac c s \<and> compare (snd k) s)
      (cache_store maxCachedClientSecrets (clientID, storedHash) (mac c secret, now e + csc_ttl c) (csc_entries c))"
    using assms(1) Some by (intro secrets.every_store) (simp_all add: vouched_def)
  moreover have "length (cache_store maxCachedClientSecrets (clientID, storedHash) (mac c secret, now e + csc_ttl c) (csc_entries c))
      \<le> maxCachedClientSecrets"
    using assms(1) Some by (intro secrets.size_store) (simp add: vouched_def)
  ultimately show ?thesis
    using Some by (simp add: vouched_def remember_def mac)
qed (simp add: vouched_def remember_def)

lemma vouched_hit:
  assumes "vouched compare cache" "verified e clientID storedHash secret cache"
  shows "\<exists>c s. cache = Some c \<and> mac c s = mac c secret \<and> compare storedHash s"
proof -
  obtain c m expires where c: "cache = Some c" "map_of (csc_entries c) (clientID, storedHash) = Some (m, expires)" "m = mac c secret"
    using assms(2) by (auto simp: verified_def split: option.splits if_splits)
  then have "\<exists>s. m = mac c s \<and> compare storedHash s"
    using secrets.every_found [OF _ c(2)] assms(1) by (fastforce simp: vouched_def)
  then show ?thesis
    using c by auto
qed

lemma ValidateClient_run:
  assumes "vouched (bcryptCompare e) cache" "run_state (ValidateClient e t clientID secret) (w, cache) = (r, (w', cache'))"
  shows "vouched (bcryptCompare e) cache' \<and> snd (run_state (ValidateClient_spec e t clientID secret) w) = w'
     \<and> (r = fst (run_state (ValidateClient_spec e t clientID secret) w)
        \<or> (\<exists>c client other. cache = Some c \<and> r = Inr client \<and> mac c other = mac c secret \<and> other \<noteq> secret
             \<and> bcryptCompare e (c_ClientSecret client) other))"
proof -
  obtain r0 w0 where get: "run_state (Client_GetByClientID e t clientID) w = (r0, w0)"
    by fastforce
  show ?thesis
  proof (cases r0)
    case (Inl er)
    then show ?thesis
      using assms get by (auto simp: ValidateClient_def ValidateClient_spec_def run_orReturn run_onWorld)
  next
    case (Inr client)
    show ?thesis
    proof (cases "c_IsPublic client \<or> secret = [] \<or> c_ClientSecret client = []")
      case True
      then show ?thesis
        using assms get Inr
        by (auto simp: ValidateClient_def ValidateClient_spec_def run_orReturn run_onWorld run_failWith run_succeed split: if_splits)
    next
      case False
      let ?hit = "verified e (c_ID client) (c_ClientSecret client) secret cache"
      have r: "(r, w', cache') = (if ?hit then (Inr client, w0, cache)
          else if \<not> bcryptCompare e (c_ClientSecret client) secret then (Inl ErrInvalidClient, w0, cache)
          else (Inr client, w0, remember e (c_ID client) (c_ClientSecret client) secret cache))"
        using assms(2) get Inr False
        by (simp add: ValidateClient_def run_orReturn run_onWorld run_onCache run_bind run_failWith run_succeed split: if_splits)
      have s: "run_state (ValidateClient_spec e t clientID secret) w =
          (if bcryptCompare e (c_ClientSecret client) secret then Inr client else Inl ErrInvalidClient, w0)"
        using get Inr False by (simp add: ValidateClient_spec_def run_orReturn run_failWith run_succeed)
      show ?thesis
      proof (cases ?hit)
        case True
        then obtain c other where "cache = Some c" "mac c other = mac c secret" "bcryptCompare e (c_ClientSecret client) other"
          using vouched_hit [OF assms(1) True] by blast
        then show ?thesis
          using r s True assms(1) by (cases "other = secret") auto
      next
        case miss: False
        then show ?thesis
          using r s assms(1) vouched_remember [OF assms(1), of "c_ClientSecret client" secret] by (auto split: if_splits)
      qed
    qed
  qed
qed

text \<open>The cache after a sequence of authentications; the database may be anything at each of them.\<close>

fun cache_after :: "(env \<times> world \<times> uuid \<times> string \<times> string) list \<Rightarrow> clientSecretCache option \<Rightarrow> clientSecretCache option" where
  "cache_after [] cache = cache"
| "cache_after ((e, w, t, clientID, secret) # rs) cache =
     cache_after rs (snd (snd (run_state (ValidateClient e t clientID secret) (w, cache))))"

lemma cache_after_vouched:
  assumes "vouched compare cache" "\<forall>(e, _) \<in> set rs. bcryptCompare e = compare"
  shows "vouched compare (cache_after rs cache)"
  using assms
proof (induction rs cache rule: cache_after.induct)
  case (2 e w t clientID secret rs cache)
  obtain r w' cache' where run: "run_state (ValidateClient e t clientID secret) (w, cache) = (r, (w', cache'))"
    by (metis surj_pair)
  have "bcryptCompare e = compare"
    using 2(3) by simp
  then have "vouched compare cache'"
    using ValidateClient_run [OF _ run] 2(2) by simp
  then show ?case
    using 2 run by simp
qed simp

lemma ValidateClient_cache:
  "\<exists>c. snd (snd (run_state (ValidateClient e t clientID secret) (w, Some c0))) = Some c \<and> csc_key c = csc_key c0"
  by (auto simp: ValidateClient_def remember_def run_orReturn run_onWorld run_onCache run_bind run_failWith run_succeed
      split: sum.splits prod.splits)

lemma cache_after_some: "\<exists>c. cache_after rs (Some c0) = Some c \<and> csc_key c = csc_key c0"
proof (induction rs arbitrary: c0)
  case (Cons a rs)
  obtain e w t i s where a: "a = (e, w, t, i, s)"
    by (metis surj_pair)
  obtain c1 where "snd (snd (run_state (ValidateClient e t i s) (w, Some c0))) = Some c1" "csc_key c1 = csc_key c0"
    using ValidateClient_cache by blast
  then show ?case
    using Cons.IH [of c1] a by auto
qed simp

text \<open>C23: Authenticating a client through the secret cache gives the answer, and leaves the database, as bcrypt alone would,
  whatever authentications came before and however the database changed in between; the one exception is a collision of
  HMAC-SHA256 under the cache's random key with a secret bcrypt accepted. The cache never exceeds its bound.\<close>

theorem secret_cache_transparent:
  assumes "fst (run_state (newClientSecretCache e0 clientSecretCacheTTL) w0) = Some c0"
    and "\<forall>(e', _) \<in> set rs. bcryptCompare e' = bcryptCompare e"
    and "run_state (ValidateClient e t clientID secret) (w, cache_after rs (Some c0)) = (r, (w', cache'))"
  shows "snd (run_state (ValidateClient_spec e t clientID secret) w) = w'
     \<and> (r = fst (run_state (ValidateClient_spec e t clientID secret) w)
        \<or> (\<exists>client other. r = Inr client \<and> hmac sha256 (csc_key c0) other = hmac sha256 (csc_key c0) secret \<and> other \<noteq> secret
             \<and> bcryptCompare e (c_ClientSecret client) other))
     \<and> (\<exists>c. cache' = Some c \<and> length (csc_entries c) \<le> maxCachedClientSecrets)"
proof -
  have v: "vouched (bcryptCompare e) (cache_after rs (Some c0))"
    using assms(1,2) by (intro cache_after_vouched vouched_new) auto
  obtain c where c: "cache_after rs (Some c0) = Some c" "csc_key c = csc_key c0"
    using cache_after_some by blast
  obtain c' where "cache' = Some c'"
    using ValidateClient_cache [of e t clientID secret w c] assms(3) c(1) by auto
  then show ?thesis
    using ValidateClient_run [OF v assms(3)] c by (auto simp: mac_def vouched_def)
qed

lemma secret_cache_transparent_witness:
  "\<exists>c0 r w' cache'. fst (run_state (newClientSecretCache sample_env clientSecretCacheTTL) empty_world) = Some c0
     \<and> run_state (ValidateClient sample_env 1 ''app'' ''pw'')
         (sample_world, cache_after [(sample_env, sample_world, 1, ''app'', ''pw''), (sample_env, empty_world, 1, ''app'', ''no'')] (Some c0))
       = (r, (w', cache'))
     \<and> snd (run_state (ValidateClient_spec sample_env 1 ''app'' ''pw'') sample_world) = w'"
proof -
  obtain c0 where c0: "fst (run_state (newClientSecretCache sample_env clientSecretCacheTTL) empty_world) = Some c0"
    by (simp add: newClientSecretCache_def sample_env_def)
  obtain r w' cache' where run: "run_state (ValidateClient sample_env 1 ''app'' ''pw'')
       (sample_world, cache_after [(sample_env, sample_world, 1, ''app'', ''pw''), (sample_env, empty_world, 1, ''app'', ''no'')] (Some c0))
     = (r, (w', cache'))"
    by (metis surj_pair)
  show ?thesis
    using secret_cache_transparent [OF c0 _ run] c0 run by auto
qed

section \<open>Issued secrets\<close>

lemma newClientSecret_Inr:
  assumes "run_state (newClientSecret e) w = (Inr (plain, hash), w')"
  shows "plain \<noteq> [] \<and> (\<exists>n. bcryptGenerate e n plain = Some hash) \<and> clients w' = clients w \<and> stmts w' = stmts w"
  using assms
  by (auto simp: newClientSecret_def generateClientSecret_def hashClientSecret_def run_orReturn run_succeed run_randomToken
      split: option.splits)

lemma Client_Create_Inr:
  assumes "run_state (Client_Create e row) v = (Inr c, v')"
  shows "clients v' = clients v @ [Client_row e c] \<and> (\<forall>r \<in> set (clients v). \<not> clients_clash r (Client_row e c))
     \<and> c_TenantID c = c_TenantID row \<and> c_ClientID c = c_ClientID row \<and> c_DeletedAt c = c_DeletedAt row
     \<and> c_IsPublic c = c_IsPublic row \<and> c_ClientSecret c = c_ClientSecret row \<and> c_PlainClientSecret c = c_PlainClientSecret row
     \<and> c_Scopes c = c_Scopes row \<and> c_DynamicallyRegistered c = c_DynamicallyRegistered row
     \<and> c_RegistrationAccessToken c = c_RegistrationAccessToken row"
  using assms by (auto simp: Client_Create_def Client_row_def run_orReturn run_succeed clients.Insert_run Let_def split: if_splits)

lemma CreateClient_Inr:
  assumes "run_state (CreateClient e t req) w = (Inr client, w')"
  shows "\<exists>v row. clients v = clients w \<and> run_state (Client_Create e row) v = (Inr (client\<lparr>c_PlainClientSecret := []\<rparr>), w')
     \<and> c_TenantID row = t \<and> c_DeletedAt row = None \<and> c_IsPublic row = ccr_IsPublic req \<and> c_PlainClientSecret row = []
     \<and> (\<not> ccr_IsPublic req \<longrightarrow> c_PlainClientSecret client \<noteq> []
          \<and> (\<exists>n. bcryptGenerate e n (c_PlainClientSecret client) = Some (c_ClientSecret row)))"
proof -
  obtain w1 clientID plain hash w2 i w3 row c where
    id: "run_state (generateClientID e) w = (clientID, w1)"
    and secret: "run_state (if \<not> ccr_IsPublic req then newClientSecret e else succeed ([], [])) w1 = (Inr (plain, hash), w2)"
    and uuid: "run_state (uuid_New e) w2 = (i, w3)"
    and row: "row = \<lparr>c_ID = i, c_TenantID = t, c_ClientID = clientID, c_ClientSecret = hash, c_PlainClientSecret = [],
             c_Name = ccr_Name req, c_RedirectURIs = ccr_RedirectURIs req,
             c_PostLogoutRedirectURIs = ccr_PostLogoutRedirectURIs req, c_GrantTypes = ccr_GrantTypes req,
             c_Scopes = ccr_Scopes req, c_IsPublic = ccr_IsPublic req,
             c_TokenEndpointAuthMethod = tokenEndpointAuthMethodFor (ccr_IsPublic req), c_DynamicallyRegistered = False,
             c_RegistrationAccessToken = [], c_CreatedAt = zero_time, c_UpdatedAt = zero_time, c_DeletedAt = None\<rparr>"
    and create: "run_state (Client_Create e row) w3 = (Inr c, w')" "client = c\<lparr>c_PlainClientSecret := plain\<rparr>"
    using assms unfolding CreateClient_def
    by (auto simp: run_orReturn run_bind run_failWith run_succeed split: if_splits sum.splits prod.splits)
  have "clients w3 = clients w"
    using id uuid secret newClientSecret_Inr [of e w1 plain hash w2]
    by (auto simp: generateClientID_def run_bind run_return run_uuid_New run_succeed split: if_splits)
  moreover have "c_PlainClientSecret c = []"
    using create(1) row by (auto simp: Client_Create_def run_orReturn run_succeed Let_def split: prod.splits sum.splits)
  ultimately show ?thesis
    using create secret newClientSecret_Inr [of e w1 plain hash w2] row
    by (intro exI [of _ w3] exI [of _ row]) (auto simp: run_succeed split: if_splits)
qed

text \<open>The secret returned when a confidential client is created authenticates that client from then on, with whatever cache;
  it is not stored anywhere in the clients table.\<close>

theorem client_secret_roundtrip:
  assumes "run_state (CreateClient e t req) w = (Inr client, w')" "\<not> ccr_IsPublic req"
    and "\<forall>n p h. bcryptGenerate e n p = Some h \<longrightarrow> h \<noteq> [] \<and> bcryptCompare e2 h p"
    and "\<not> fails e2 (stmts w')" "\<forall>c \<in> set (clients w). c_PlainClientSecret c = []"
  shows "fst (run_state (ValidateClient e2 t (c_ClientID client) (c_PlainClientSecret client)) (w', cache)) = Inr (client\<lparr>c_PlainClientSecret := []\<rparr>)
     \<and> (\<forall>c \<in> set (clients w'). c_PlainClientSecret c = [])"
proof -
  obtain v row where v: "clients v = clients w" "run_state (Client_Create e row) v = (Inr (client\<lparr>c_PlainClientSecret := []\<rparr>), w')"
    "c_TenantID row = t" "c_DeletedAt row = None" "\<not> c_IsPublic row" "c_PlainClientSecret row = []"
    "c_PlainClientSecret client \<noteq> []" "\<exists>n. bcryptGenerate e n (c_PlainClientSecret client) = Some (c_ClientSecret row)"
    using CreateClient_Inr [OF assms(1)] assms(2) by auto
  let ?stored = "client\<lparr>c_PlainClientSecret := []\<rparr>"
  have stored: "clients w' = clients w @ [?stored]" "\<forall>r \<in> set (clients w). \<not> clients_clash r ?stored"
    "c_TenantID ?stored = t" "c_ClientID ?stored = c_ClientID client" "c_DeletedAt ?stored = None" "\<not> c_IsPublic ?stored"
    "c_ClientSecret ?stored = c_ClientSecret row"
    using Client_Create_Inr [OF v(2)] v(1,3-6) by (simp_all add: Client_row_def)
  have "find (\<lambda>c. c_TenantID c = t \<and> c_ClientID c = c_ClientID client \<and> client_live c) (clients w') = Some ?stored"
    using stored(2-5) unfolding stored(1)
    by (auto simp: find_append client_live_def clients_clash_def find_None_iff split: option.split dest!: find_SomeD)
  then have "run_state (Client_GetByClientID e2 t (c_ClientID client)) w' = (Inr ?stored, w'\<lparr>stmts := Suc (stmts w')\<rparr>)"
    using assms(4) by (simp add: Client_GetByClientID_def clients.First_run)
  moreover have "bcryptCompare e2 (c_ClientSecret ?stored) (c_PlainClientSecret client)" "c_ClientSecret ?stored \<noteq> []"
    using v(8) assms(3) stored(7) by auto
  ultimately have "fst (run_state (ValidateClient e2 t (c_ClientID client) (c_PlainClientSecret client)) (w', cache)) = Inr ?stored"
    using v(7) stored(6) by (simp add: ValidateClient_def run_orReturn run_onWorld run_onCache run_bind run_succeed)
  then show ?thesis
    using stored(1) assms(5) by auto
qed

section \<open>Deletion\<close>

text \<open>Deleting a client withdraws the client and every token issued to it, and nothing of anyone else.\<close>

theorem deleted_client_gone:
  assumes "run_state (DeleteClient e t i) w = (Inr (), w')"
  shows "find (\<lambda>c. c_TenantID c = t \<and> c_ID c = i \<and> client_live c) (clients w') = None
     \<and> access_tokens w' = filter (\<lambda>a. \<not> (at_TenantID a = t \<and> at_ClientID a = i)) (access_tokens w)
     \<and> refresh_tokens w' = filter (\<lambda>r. \<not> (rt_TenantID r = t \<and> rt_ClientID r = i)) (refresh_tokens w)
     \<and> filter (\<lambda>c. \<not> (c_TenantID c = t \<and> c_ID c = i)) (clients w') = filter (\<lambda>c. \<not> (c_TenantID c = t \<and> c_ID c = i)) (clients w)"
proof -
  let ?P = "\<lambda>c. c_TenantID c = t \<and> c_ID c = i \<and> client_live c"
  have w': "clients w' = map (\<lambda>c. if ?P c then c\<lparr>c_DeletedAt := Some (now e)\<rparr> else c) (clients w)"
    "access_tokens w' = filter (\<lambda>a. \<not> (at_TenantID a = t \<and> at_ClientID a = i)) (access_tokens w)"
    "refresh_tokens w' = filter (\<lambda>r. \<not> (rt_TenantID r = t \<and> rt_ClientID r = i)) (refresh_tokens w)"
  proof -
    obtain v1 v2 v3 where v: "v1 = w\<lparr>stmts := Suc (stmts w)\<rparr>" "run_state (Client_Delete e t i) v1 = (Inr (), v2)"
      "run_state (AccessToken_DeleteByClientID e t i) v2 = (Inr (), v3)" "run_state (RefreshToken_DeleteByClientID e t i) v3 = (Inr (), w')"
      using assms
      by (auto simp: DeleteClient_def orReturn_Inr_iff run_succeed Client_GetByID_def clients.First_run split: if_splits option.splits)
    have "clients v2 = map (\<lambda>c. if ?P c then c\<lparr>c_DeletedAt := Some (now e)\<rparr> else c) (clients w)"
      "access_tokens v2 = access_tokens w" "refresh_tokens v2 = refresh_tokens w"
      using v(2) by (auto simp: v(1) Client_Delete_def run_orReturn run_succeed clients.Update_run split: if_splits)
    then show "clients w' = map (\<lambda>c. if ?P c then c\<lparr>c_DeletedAt := Some (now e)\<rparr> else c) (clients w)"
      "access_tokens w' = filter (\<lambda>a. \<not> (at_TenantID a = t \<and> at_ClientID a = i)) (access_tokens w)"
      "refresh_tokens w' = filter (\<lambda>r. \<not> (rt_TenantID r = t \<and> rt_ClientID r = i)) (refresh_tokens w)"
      using v(3,4) by (auto simp: AccessToken_DeleteByClientID_def RefreshToken_DeleteByClientID_def access_tokens.Delete_run
          refresh_tokens.Delete_run split: if_splits)
  qed
  have "filter Q (map f cs) = filter Q cs" if "\<forall>c. Q (f c) = Q c" "\<forall>c. Q c \<longrightarrow> f c = c" for Q :: "Client \<Rightarrow> bool" and f cs
    by (induction cs) (simp_all add: that [rule_format])
  then have "filter (\<lambda>c. \<not> (c_TenantID c = t \<and> c_ID c = i)) (clients w') = filter (\<lambda>c. \<not> (c_TenantID c = t \<and> c_ID c = i)) (clients w)"
    unfolding w'(1) by simp
  moreover have "\<not> ?P c" if "c \<in> set (clients w')" for c
    using that unfolding w'(1) set_map by (elim imageE) (simp add: client_live_def)
  then have "find ?P (clients w') = None"
    unfolding find_None_iff by blast
  ultimately show ?thesis
    using w'(2,3) by blast
qed

section \<open>Instances\<close>

definition sample_request :: CreateClientRequest where
  "sample_request = \<lparr>ccr_Name = ''Site'', ccr_RedirectURIs = [''https://site/cb''], ccr_PostLogoutRedirectURIs = [],
     ccr_GrantTypes = [''authorization_code''], ccr_Scopes = [''read''], ccr_IsPublic = False\<rparr>"

lemma client_secret_roundtrip_witness:
  "\<exists>client w'. run_state (CreateClient sample_env 1 sample_request) empty_world = (Inr client, w')
     \<and> fst (run_state (ValidateClient sample_env 1 (c_ClientID client) (c_PlainClientSecret client)) (w', None)) = Inr (client\<lparr>c_PlainClientSecret := []\<rparr>)"
proof -
  obtain client w' where run: "run_state (CreateClient sample_env 1 sample_request) empty_world = (Inr client, w')"
    by (simp add: CreateClient_def sample_request_def generateClientID_def newClientSecret_def generateClientSecret_def
        hashClientSecret_def Client_Create_def run_orReturn run_bind run_return run_succeed run_uuid_New run_randomToken
        clients.Insert_run sample_env_def empty_world_def Let_def)
  then show ?thesis
    using client_secret_roundtrip [OF run, of sample_env None] by (simp add: sample_request_def sample_env_def empty_world_def)
qed

lemma deleted_client_gone_witness:
  "\<exists>w'. run_state (DeleteClient sample_env 1 5) sample_world = (Inr (), w')
     \<and> find (\<lambda>c. c_TenantID c = 1 \<and> c_ID c = 5 \<and> client_live c) (clients w') = None \<and> refresh_tokens w' = []"
proof -
  obtain w' where run: "run_state (DeleteClient sample_env 1 5) sample_world = (Inr (), w')"
    by (simp add: DeleteClient_def Client_GetByID_def Client_Delete_def AccessToken_DeleteByClientID_def RefreshToken_DeleteByClientID_def
        run_orReturn run_succeed clients.First_run clients.Update_run access_tokens.Delete_run refresh_tokens.Delete_run sample_defs)
  then show ?thesis
    using deleted_client_gone [OF run] by (simp add: sample_defs)
qed

end
