(* ===== verification/Middleware.thy ===== *)
theory Middleware
  imports Rbac Caches AuthService
begin

text \<open>The HTTP middleware (\<^verbatim>\<open>internal/middleware/middleware.go\<close>, \<^verbatim>\<open>tenant_resolver.go\<close>, \<^verbatim>\<open>authz.go\<close>). A middleware takes
  the gin context to the context it hands on, or ends the request with an error answer; log lines are left out.\<close>

section \<open>The gin context\<close>

text \<open>\<^verbatim>\<open>GetHeader\<close>, \<^verbatim>\<open>Param\<close> and \<^verbatim>\<open>PostForm\<close> give the empty string for what is absent; \<open>g_Keys\<close> is what \<^verbatim>\<open>c.Set\<close> stored,
  \<open>g_Out\<close> the response headers set so far.\<close>

datatype ctx_value = UUIDValue uuid | StringValue string

record gin =
  g_Method :: string
  g_Path :: string
  g_URI :: string
  g_Host :: string
  g_Header :: "string \<Rightarrow> string"
  g_Param :: "string \<Rightarrow> string"
  g_PostForm :: "string \<Rightarrow> string"
  g_ClientIP :: string
  g_Body :: string
  g_Keys :: "string \<rightharpoonup> ctx_value"
  g_Out :: "string \<rightharpoonup> string"

datatype reply = Proceed gin | Abort gin nat string string

definition setKey :: "string \<Rightarrow> ctx_value \<Rightarrow> gin \<Rightarrow> gin" where
  "setKey k v g = g\<lparr>g_Keys := (g_Keys g)(k \<mapsto> v)\<rparr>"

definition setHeader :: "string \<Rightarrow> string \<Rightarrow> gin \<Rightarrow> gin" where
  "setHeader k v g = g\<lparr>g_Out := (g_Out g)(k \<mapsto> v)\<rparr>"

definition TenantIDKey :: string where "TenantIDKey = ''tenant_id''"
definition RequestIDKey :: string where "RequestIDKey = ''request_id''"
definition UserIDKey :: string where "UserIDKey = ''user_id''"
definition ClientIDKey :: string where "ClientIDKey = ''client_id''"

definition GetTenantID :: "gin \<Rightarrow> uuid option" where
  "GetTenantID g = (case g_Keys g TenantIDKey of Some (UUIDValue i) \<Rightarrow> Some i | _ \<Rightarrow> None)"

definition GetRequestID :: "gin \<Rightarrow> string" where
  "GetRequestID g = (case g_Keys g RequestIDKey of Some (StringValue i) \<Rightarrow> i | _ \<Rightarrow> [])"

definition GetUserID :: "gin \<Rightarrow> uuid option" where
  "GetUserID g = (case g_Keys g UserIDKey of Some (UUIDValue i) \<Rightarrow> Some i | _ \<Rightarrow> None)"

definition GetClientID :: "gin \<Rightarrow> string option" where
  "GetClientID g = (case g_Keys g ClientIDKey of Some (StringValue i) \<Rightarrow> if i \<noteq> [] then Some i else None | _ \<Rightarrow> None)"

section \<open>Tenant of a host name\<close>

text \<open>\<^verbatim>\<open>net.SplitHostPort\<close>: \<open>None\<close> for its errors.\<close>

definition last_index :: "char \<Rightarrow> string \<Rightarrow> nat option" where
  "last_index c s = (case find (\<lambda>i. s ! i = c) (rev [0..<length s]) of None \<Rightarrow> None | Some i \<Rightarrow> Some i)"

definition first_index :: "char \<Rightarrow> string \<Rightarrow> nat option" where
  "first_index c s = find (\<lambda>i. s ! i = c) [0..<length s]"

definition net_SplitHostPort :: "string \<Rightarrow> (string \<times> string) option" where
  "net_SplitHostPort s =
     (case last_index CHR '':'' s of
        None \<Rightarrow> None
      | Some i \<Rightarrow>
          (case (if hd s = CHR ''['' then
                   (case first_index CHR '']'' s of
                      None \<Rightarrow> None
                    | Some en \<Rightarrow> if en + 1 = i then Some (take (en - 1) (tl s), 1, en + 1) else None)
                 else if CHR '':'' \<in> set (take i s) then None else Some (take i s, 0, 0)) of
             None \<Rightarrow> None
           | Some (host, j, k) \<Rightarrow>
               if CHR ''['' \<in> set (drop j s) \<or> CHR '']'' \<in> set (drop k s) then None
               else Some (host, drop (i + 1) s)))"

definition normalizeHost :: "env \<Rightarrow> string \<Rightarrow> string" where
  "normalizeHost e host0 =
     (let host = (case net_SplitHostPort host0 of Some (h, _) \<Rightarrow> h | None \<Rightarrow> host0);
          s = strings_ToLower (uniLower e) (strings_TrimSpace host)
      in if suffix ''.'' s then butlast s else s)"

definition maxCachedDomains :: nat where "maxCachedDomains = 10000"

record domainEntry =
  de_tenantID :: uuid
  de_found :: bool
  de_expires :: go_time

record DomainTenantResolver =
  dr_ttl :: duration
  dr_entries :: "(string, domainEntry) cache"

definition NewDomainTenantResolver :: "duration \<Rightarrow> DomainTenantResolver" where
  "NewDomainTenantResolver ttl = \<lparr>dr_ttl = ttl, dr_entries = []\<rparr>"

definition Resolve :: "env \<Rightarrow> string \<Rightarrow> (world \<times> DomainTenantResolver, uuid \<times> bool) state" where
  "Resolve e host =
     (let domain = normalizeHost e host in
      if domain = [] then State_Monad.return (uuid_Nil, False)
      else do {
        cached \<leftarrow> onCache (\<lambda>r. (map_of (dr_entries r) domain, r));
        if (case cached of Some entry \<Rightarrow> now e < de_expires entry | None \<Rightarrow> False)
        then State_Monad.return (case cached of Some entry \<Rightarrow> (de_tenantID entry, de_found entry) | None \<Rightarrow> (uuid_Nil, False))
        else do {
          r \<leftarrow> onWorld (Tenant_GetByDomain e domain);
          case (case r of
                  Inr tenant \<Rightarrow> Some (t_ID tenant, t_IsActive tenant)
                | Inl er \<Rightarrow> if errors_Is er ErrTenantNotFound then Some (uuid_Nil, False) else None) of
            None \<Rightarrow> State_Monad.return (uuid_Nil, False)
          | Some (tenantID, found) \<Rightarrow> do {
              _ \<leftarrow> onCache (\<lambda>r. ((), r\<lparr>dr_entries :=
                     cache_store maxCachedDomains domain
                       \<lparr>de_tenantID = tenantID, de_found = found, de_expires = now e + dr_ttl r\<rparr> (dr_entries r)\<rparr>));
              State_Monad.return (tenantID, found)
            }
        }
      })"

interpretation domains: bounded_cache map_of "cache_store maxCachedDomains" length maxCachedDomains
  by unfold_locales (auto simp: cache_store_lookup maxCachedDomains_def cache_store_size split: if_splits)

section \<open>Tenant context\<close>

text \<open>\<^verbatim>\<open>keys.Parse\<close> without further options.\<close>

definition noOptions :: parser_options where
  "noOptions = \<lparr>po_ValidMethods = [], po_Issuer = None, po_Audience = None, po_ExpirationRequired = False,
     po_WithoutClaimsValidation = False\<rparr>"

definition BearerPrefix :: string where "BearerPrefix = ''Bearer ''"

definition extractTenantFromJWT :: "env \<Rightarrow> string \<Rightarrow> uuid option" where
  "extractTenantFromJWT e tokenString =
     (case KeySet_ParseJWTClaims (jwt e) (keys e) tokenString noOptions of
        Inl _ \<Rightarrow> None
      | Inr token \<Rightarrow>
          if \<not> tok_Valid token then None
          else if jc_TenantID (tok_Claims token) = [] then None
          else uuidParse e (jc_TenantID (tok_Claims token)))"

definition extractTenantFromSubdomain :: "env \<Rightarrow> string \<Rightarrow> uuid option" where
  "extractTenantFromSubdomain e host =
     (let parts = strings_Split CHR ''.'' host in if 3 \<le> length parts then uuidParse e (hd parts) else None)"

text \<open>The sources in their order: bearer token, X-Tenant-ID, UUID subdomain, registered domain (when a resolver is wired in).\<close>

definition extractTenantID :: "env \<Rightarrow> bool \<Rightarrow> gin \<Rightarrow> (world \<times> DomainTenantResolver, uuid option) state" where
  "extractTenantID e domains g =
     (let authHeader = g_Header g ''Authorization'';
          fromJWT = (if authHeader \<noteq> [] \<and> strings_HasPrefix authHeader BearerPrefix
                     then extractTenantFromJWT e (strings_TrimPrefix authHeader BearerPrefix) else None);
          tenantHeader = g_Header g ''X-Tenant-ID'';
          fromHeader = (if tenantHeader \<noteq> [] then uuidParse e tenantHeader else None)
      in case fromJWT of
           Some tenantID \<Rightarrow> State_Monad.return (Some tenantID)
         | None \<Rightarrow>
         (case fromHeader of
           Some tenantID \<Rightarrow> State_Monad.return (Some tenantID)
         | None \<Rightarrow>
         (case extractTenantFromSubdomain e (g_Host g) of
           Some tenantID \<Rightarrow> State_Monad.return (Some tenantID)
         | None \<Rightarrow>
           if \<not> domains then State_Monad.return None
           else do {
             (tenantID, ok) \<leftarrow> Resolve e (g_Host g);
             State_Monad.return (if ok then Some tenantID else None)
           })))"

definition parseUserIDs :: "env \<Rightarrow> string \<Rightarrow> uuid list option" where
  "parseUserIDs e raw =
     (let parts = filter (\<lambda>p. p \<noteq> []) (map strings_TrimSpace (strings_Split CHR '','' raw)); ids = map (uuidParse e) parts
      in if list_ex (\<lambda>i. i = None) ids then None else Some (map the ids))"

definition isOAuthEndpoint :: "string \<Rightarrow> bool" where
  "isOAuthEndpoint path = list_ex (strings_HasPrefix path) [''/oauth/'', ''/account/'', ''/.well-known/'', ''/userinfo'']"

definition isPublicEndpoint :: "string \<Rightarrow> bool" where
  "isPublicEndpoint path = list_ex (strings_HasPrefix path) [''/health'', ''/metrics'', ''/static/'', ''/favicon.ico'']"

definition newRequestID :: "env \<Rightarrow> gin \<Rightarrow> (world, gin) state" where
  "newRequestID e g = do {
     i \<leftarrow> uuid_New e;
     State_Monad.return (setHeader ''X-Request-ID'' (uuidString e i) (setKey RequestIDKey (StringValue (uuidString e i)) g))
   }"

definition TenantContext :: "env \<Rightarrow> bool \<Rightarrow> gin \<Rightarrow> (world \<times> DomainTenantResolver, reply) state" where
  "TenantContext e domains g0 = do {
     g \<leftarrow> onWorld (newRequestID e g0);
     if isOAuthEndpoint (g_Path g) then do {
       t \<leftarrow> extractTenantID e domains g;
       State_Monad.return (Proceed (case t of Some tenantID \<Rightarrow> setKey TenantIDKey (UUIDValue tenantID) g | None \<Rightarrow> g))
     }
     else if isPublicEndpoint (g_Path g) then State_Monad.return (Proceed g)
     else do {
       t \<leftarrow> extractTenantID e domains g;
       State_Monad.return (case t of
           None \<Rightarrow> Abort g 401 ''UNAUTHORIZED'' ''Invalid or missing tenant context''
         | Some tenantID \<Rightarrow> Proceed (setKey TenantIDKey (UUIDValue tenantID) g))
     }
   }"

definition RequestID :: "env \<Rightarrow> gin \<Rightarrow> (world, reply) state" where
  "RequestID e g0 = do { g \<leftarrow> newRequestID e g0; State_Monad.return (Proceed g) }"

section \<open>Authentication\<close>

definition unauthorized :: "gin \<Rightarrow> string \<Rightarrow> (world, reply) state" where
  "unauthorized g message = State_Monad.return (Abort g 401 ''UNAUTHORIZED'' message)"

definition setClaims :: "env \<Rightarrow> JWTClaims \<Rightarrow> gin \<Rightarrow> gin" where
  "setClaims e claims g =
     (let g1 = (case uuidParse e (jc_UserID claims) of Some userID \<Rightarrow> setKey UserIDKey (UUIDValue userID) g | None \<Rightarrow> g);
          g2 = (if jc_ClientID claims \<noteq> [] then setKey ClientIDKey (StringValue (jc_ClientID claims)) g1 else g1)
      in case uuidParse e (jc_TenantID claims) of Some tenantID \<Rightarrow> setKey TenantIDKey (UUIDValue tenantID) g2 | None \<Rightarrow> g2)"

text \<open>\<open>validator\<close> is the \<^verbatim>\<open>AccessTokenValidator\<close>, when one is wired in.\<close>

definition RequireAuth :: "env \<Rightarrow> (uuid \<Rightarrow> string \<Rightarrow> JWTClaims op) option \<Rightarrow> gin \<Rightarrow> (world, reply) state" where
  "RequireAuth e validator g =
     (let authHeader = g_Header g ''Authorization''; tokenString = strings_TrimPrefix authHeader BearerPrefix in
      if authHeader = [] then unauthorized g ''Authorization header required''
      else if \<not> strings_HasPrefix authHeader BearerPrefix then unauthorized g ''Invalid authorization header format''
      else if tokenString = [] then unauthorized g ''Missing access token''
      else case KeySet_ParseJWTClaims (jwt e) (keys e) tokenString noOptions of
        Inl _ \<Rightarrow> unauthorized g ''Invalid or expired token''
      | Inr token \<Rightarrow>
          if \<not> tok_Valid token then unauthorized g ''Invalid or expired token''
          else let claims = tok_Claims token in
          (case validator of
             None \<Rightarrow> State_Monad.return (Proceed (setClaims e claims g))
           | Some validate \<Rightarrow>
               (case uuidParse e (jc_TenantID claims) of
                  None \<Rightarrow> unauthorized g ''Invalid token claims''
                | Some tenantID \<Rightarrow> do {
                    r \<leftarrow> validate tenantID tokenString;
                    (case r of
                       Inl _ \<Rightarrow> unauthorized g ''Invalid or expired token''
                     | Inr _ \<Rightarrow> State_Monad.return (Proceed (setClaims e claims g)))
                  })))"

section \<open>Authorization\<close>

text \<open>\<open>checker\<close> is the \<^verbatim>\<open>PermissionChecker\<close>; an empty \<open>resource\<close> is for super admins only.\<close>

definition deny :: "gin \<Rightarrow> (world, reply) state" where
  "deny g = State_Monad.return (Abort g 403 ''INSUFFICIENT_PERMISSIONS'' ''Insufficient permissions'')"

definition authorize ::
  "env \<Rightarrow> (uuid \<Rightarrow> uuid \<Rightarrow> string \<Rightarrow> string \<Rightarrow> bool op) \<Rightarrow> uuid list \<Rightarrow> string \<Rightarrow> string \<Rightarrow> string \<Rightarrow> gin \<Rightarrow> (world, reply) state" where
  "authorize e checker superAdmins resource action selfParam g =
     (case GetUserID g of
        None \<Rightarrow> deny g
      | Some userID \<Rightarrow>
          if userID = uuid_Nil then deny g
          else if userID \<in> set superAdmins then State_Monad.return (Proceed g)
          else if selfParam \<noteq> [] \<and> uuidParse e (g_Param g selfParam) = Some userID then State_Monad.return (Proceed g)
          else if resource = [] then deny g
          else case GetTenantID g of
            None \<Rightarrow> unauthorized g ''Invalid tenant context''
          | Some tenantID \<Rightarrow> do {
              r \<leftarrow> checker tenantID userID resource action;
              (case r of
                 Inl _ \<Rightarrow> State_Monad.return (Abort g 500 ''INTERNAL_ERROR'' ''Permission check failed'')
               | Inr allowed \<Rightarrow> if \<not> allowed then deny g else State_Monad.return (Proceed g))
            })"

definition Require :: "env \<Rightarrow> (uuid \<Rightarrow> uuid \<Rightarrow> string \<Rightarrow> string \<Rightarrow> bool op) \<Rightarrow> uuid list \<Rightarrow> string \<Rightarrow> string \<Rightarrow> gin \<Rightarrow> (world, reply) state" where
  "Require e checker superAdmins resource action = authorize e checker superAdmins resource action []"

definition RequireOrSelf ::
  "env \<Rightarrow> (uuid \<Rightarrow> uuid \<Rightarrow> string \<Rightarrow> string \<Rightarrow> bool op) \<Rightarrow> uuid list \<Rightarrow> string \<Rightarrow> string \<Rightarrow> string \<Rightarrow> gin \<Rightarrow> (world, reply) state" where
  "RequireOrSelf e checker superAdmins resource action userParam = authorize e checker superAdmins resource action userParam"

definition RequireSuperAdmin :: "env \<Rightarrow> (uuid \<Rightarrow> uuid \<Rightarrow> string \<Rightarrow> string \<Rightarrow> bool op) \<Rightarrow> uuid list \<Rightarrow> gin \<Rightarrow> (world, reply) state" where
  "RequireSuperAdmin e checker superAdmins = authorize e checker superAdmins [] [] []"

section \<open>Headers and credentials\<close>

record CORSConfig =
  cors_AllowedOrigins :: string
  cors_AllowedMethods :: string
  cors_AllowedHeaders :: string

definition CORS :: "CORSConfig \<Rightarrow> gin \<Rightarrow> reply" where
  "CORS cfg g0 =
     (let origin = g_Header g0 ''Origin'';
          originAllowed = list_ex (\<lambda>o'. let allowedOrigin = strings_TrimSpace o' in allowedOrigin = ''*'' \<or> allowedOrigin = origin)
                            (strings_Split CHR '','' (cors_AllowedOrigins cfg));
          g1 = (if origin \<noteq> [] \<and> originAllowed then setHeader ''Access-Control-Allow-Origin'' origin g0 else g0);
          g = setHeader ''Access-Control-Max-Age'' ''86400'' (setHeader ''Access-Control-Allow-Credentials'' ''true''
                (setHeader ''Access-Control-Allow-Headers'' (cors_AllowedHeaders cfg)
                  (setHeader ''Access-Control-Allow-Methods'' (cors_AllowedMethods cfg) g1)))
      in if g_Method g = ''OPTIONS'' then Abort g 204 [] [] else Proceed g)"

definition Authentication :: "gin \<Rightarrow> reply" where
  "Authentication g =
     (let authHeader = g_Header g ''Authorization'' in
      if authHeader = [] then Abort g 401 ''unauthorized'' ''Authorization header is required''
      else if CHR '' '' \<notin> set authHeader \<or> takeWhile (\<lambda>c. c \<noteq> CHR '' '') authHeader \<noteq> ''Bearer''
      then Abort g 401 ''unauthorized'' ''Invalid authorization header format''
      else let token = tl (dropWhile (\<lambda>c. c \<noteq> CHR '' '') authHeader) in
        if token = [] then Abort g 401 ''unauthorized'' ''Token is required''
        else Proceed (setKey ''access_token'' (StringValue token) g))"

definition ClientAuthentication :: "gin \<Rightarrow> reply" where
  "ClientAuthentication g =
     (if g_Header g ''Authorization'' \<noteq> [] \<and> strings_HasPrefix (g_Header g ''Authorization'') ''Basic ''
      then Proceed (setKey ''client_auth_method'' (StringValue ''basic'') g)
      else let clientID = g_PostForm g ''client_id''; clientSecret = g_PostForm g ''client_secret'' in
        if clientID = [] then Abort g 401 ''invalid_client'' ''Client authentication failed''
        else Proceed (setKey ''client_auth_method'' (StringValue ''post'')
               (setKey ''client_secret'' (StringValue clientSecret) (setKey ClientIDKey (StringValue clientID) g))))"

definition SecurityHeaders :: "gin \<Rightarrow> reply" where
  "SecurityHeaders g0 =
     (let g = setHeader ''Content-Security-Policy'' (''default-src '' @ [CHR 0x27] @ ''self'' @ [CHR 0x27])
                (setHeader ''Referrer-Policy'' ''strict-origin-when-cross-origin''
                  (setHeader ''X-XSS-Protection'' ''1; mode=block'' (setHeader ''X-Frame-Options'' ''DENY''
                    (setHeader ''X-Content-Type-Options'' ''nosniff'' g0))))
      in if strings_HasPrefix (g_Path g) ''/oauth/'' \<or> strings_HasPrefix (g_Path g) ''/api/'' \<or> strings_HasPrefix (g_Path g) ''/userinfo''
         then Proceed (setHeader ''Expires'' ''0'' (setHeader ''Pragma'' ''no-cache''
                (setHeader ''Cache-Control'' ''no-store, no-cache, must-revalidate, private'' g)))
         else Proceed g)"

definition ValidateContentType :: "string \<Rightarrow> gin \<Rightarrow> reply" where
  "ValidateContentType expectedType g =
     (if (g_Method g = ''POST'' \<or> g_Method g = ''PUT'' \<or> g_Method g = ''PATCH'')
         \<and> (g_Header g ''Content-Type'' = [] \<or> \<not> sublist expectedType (g_Header g ''Content-Type''))
      then Abort g 415 ''unsupported_media_type'' (''Content-Type must be '' @ expectedType)
      else Proceed g)"

definition getClientIP :: "gin \<Rightarrow> string" where
  "getClientIP g =
     (if g_Header g ''X-Forwarded-For'' \<noteq> [] then strings_TrimSpace (hd (strings_Split CHR '','' (g_Header g ''X-Forwarded-For'')))
      else if g_Header g ''X-Real-IP'' \<noteq> [] then strings_TrimSpace (g_Header g ''X-Real-IP'')
      else g_ClientIP g)"

section \<open>Chains\<close>

text \<open>The next middleware runs only when the one before it proceeded.\<close>

definition andThen :: "('s, reply) state \<Rightarrow> (gin \<Rightarrow> ('s, reply) state) \<Rightarrow> ('s, reply) state" where
  "andThen m k = do { r \<leftarrow> m; case r of Proceed g \<Rightarrow> k g | Abort g status code message \<Rightarrow> State_Monad.return r }"

text \<open>A guarded management route as the server wires it: tenant context, request ID, authentication with the token store, authorization
  by role.\<close>

definition guardedRoute ::
  "env \<Rightarrow> uuid list \<Rightarrow> string \<Rightarrow> string \<Rightarrow> string \<Rightarrow> gin \<Rightarrow> (world \<times> DomainTenantResolver, reply) state" where
  "guardedRoute e superAdmins resource action selfParam g =
     andThen (TenantContext e True g) (\<lambda>g1.
     andThen (onWorld (RequestID e g1)) (\<lambda>g2.
     andThen (onWorld (RequireAuth e (Some (ValidateAccessToken e)) g2)) (\<lambda>g3.
     onWorld (authorize e (HasPermission e) superAdmins resource action selfParam g3))))"

end
