(* ===== verification/MiddlewareProperties.thy ===== *)
theory MiddlewareProperties
  imports Middleware RbacProperties
begin

text \<open>What the middleware guarantees: who passes a guarded route, who is not turned away, and how current a tenant found by
  its domain is.\<close>

section \<open>Reading requests\<close>

text \<open>The guards write no table: they count statements and draw request IDs.\<close>

definition quiet :: "world \<Rightarrow> world \<Rightarrow> bool" where
  "quiet w w' \<longleftrightarrow> (\<exists>n d. w' = w\<lparr>stmts := n, draws := d\<rparr>)"

lemma quietI: "quiet w (w\<lparr>stmts := n, draws := d\<rparr>)"
  by (auto simp: quiet_def)

lemma quiet_refl: "quiet w w"
  unfolding quiet_def by (rule exI [of _ "stmts w"], rule exI [of _ "draws w"]) simp

lemma quiet_trans: "quiet w v \<Longrightarrow> quiet v x \<Longrightarrow> quiet w x"
  unfolding quiet_def by (elim exE, simp, rule exI, rule exI, rule refl)

lemma quiet_stmts: "quiet w (w\<lparr>stmts := n\<rparr>)"
  using quietI [where w = w and n = n and d = "draws w"] by simp

lemma quiet_draws: "quiet w (w\<lparr>draws := n\<rparr>)"
  using quietI [where w = w and n = "stmts w" and d = n] by simp

lemma only_read_quiet: "only_read w w' \<Longrightarrow> quiet w w'"
  by (auto simp: only_read_def quiet_stmts)

lemma quietD:
  assumes "quiet w w'"
  shows "access_tokens w' = access_tokens w" "user_holds w' = user_holds w"
  using assms by (auto simp: quiet_def user_holds_def [abs_def] role_of_def role_grants_def permission_of_def)

lemma gin_sets [simp]:
  "g_Header (setKey k v g) = g_Header g" "g_Header (setHeader a b g) = g_Header g"
  "g_Param (setKey k v g) = g_Param g" "g_Param (setHeader a b g) = g_Param g"
  "g_Path (setKey k v g) = g_Path g" "g_Path (setHeader a b g) = g_Path g"
  "g_Host (setKey k v g) = g_Host g" "g_Host (setHeader a b g) = g_Host g"
  "g_Keys (setKey k v g) = (g_Keys g)(k \<mapsto> v)" "g_Keys (setHeader a b g) = g_Keys g"
  by (simp_all add: setKey_def setHeader_def)

lemma context_keys [simp]:
  "UserIDKey \<noteq> RequestIDKey" "UserIDKey \<noteq> TenantIDKey" "UserIDKey \<noteq> ClientIDKey" "TenantIDKey \<noteq> ClientIDKey"
  "RequestIDKey \<noteq> UserIDKey" "TenantIDKey \<noteq> UserIDKey" "ClientIDKey \<noteq> UserIDKey" "ClientIDKey \<noteq> TenantIDKey"
  by (simp_all add: UserIDKey_def RequestIDKey_def TenantIDKey_def ClientIDKey_def)

section \<open>Tenants by domain\<close>

text \<open>What the tenant table says of a host.\<close>

definition registered :: "env \<Rightarrow> world \<Rightarrow> string \<Rightarrow> uuid \<times> bool" where
  "registered e w host =
     (case find (\<lambda>t. t_Domain t = normalizeHost e host \<and> tenant_live t) (tenants w) of
        None \<Rightarrow> (uuid_Nil, False) | Some tenant \<Rightarrow> (t_ID tenant, t_IsActive tenant))"

lemma Resolve_run:
  "run_state (Resolve e host) (w, r) =
     (let domain = normalizeHost e host in
      if domain = [] then ((uuid_Nil, False), (w, r))
      else case map_of (dr_entries r) domain of
        Some entry \<Rightarrow>
          if now e < de_expires entry then ((de_tenantID entry, de_found entry), (w, r))
          else if fails e (stmts w) then ((uuid_Nil, False), (w\<lparr>stmts := Suc (stmts w)\<rparr>, r))
          else (registered e w host, (w\<lparr>stmts := Suc (stmts w)\<rparr>, r\<lparr>dr_entries := cache_store maxCachedDomains domain
            \<lparr>de_tenantID = fst (registered e w host), de_found = snd (registered e w host), de_expires = now e + dr_ttl r\<rparr> (dr_entries r)\<rparr>))
      | None \<Rightarrow>
          if fails e (stmts w) then ((uuid_Nil, False), (w\<lparr>stmts := Suc (stmts w)\<rparr>, r))
          else (registered e w host, (w\<lparr>stmts := Suc (stmts w)\<rparr>, r\<lparr>dr_entries := cache_store maxCachedDomains domain
            \<lparr>de_tenantID = fst (registered e w host), de_found = snd (registered e w host), de_expires = now e + dr_ttl r\<rparr> (dr_entries r)\<rparr>)))"
  by (auto simp: Resolve_def Let_def run_bind run_return run_onCache run_onWorld Tenant_GetByDomain_def tenants.First_run
      registered_def split: option.splits prod.splits)

text \<open>The resolver after earlier requests: each sees the clock and tables of its time.\<close>

fun resolver_after :: "(env \<times> world \<times> string) list \<Rightarrow> DomainTenantResolver \<Rightarrow> DomainTenantResolver" where
  "resolver_after [] r = r"
| "resolver_after ((e, w, host) # rs) r = resolver_after rs (snd (snd (run_state (Resolve e host) (w, r))))"

text \<open>Every entry answers a request of the history, and runs out \<open>ttl\<close> after it.\<close>

definition remembered :: "(env \<times> world \<times> string) set \<Rightarrow> duration \<Rightarrow> DomainTenantResolver \<Rightarrow> bool" where
  "remembered H ttl r \<longleftrightarrow> dr_ttl r = ttl \<and> length (dr_entries r) \<le> maxCachedDomains
     \<and> domains.every (\<lambda>domain entry. \<exists>(e, w, host) \<in> H. normalizeHost e host = domain
          \<and> (de_tenantID entry, de_found entry) = registered e w host \<and> de_expires entry = now e + ttl) (dr_entries r)"

lemma remembered_mono: "remembered H ttl r \<Longrightarrow> H \<subseteq> H' \<Longrightarrow> remembered H' ttl r"
  unfolding remembered_def domains.every_def by blast

lemma remembered_store:
  assumes "remembered H ttl r" "(e, w, host) \<in> H"
  shows "remembered H ttl (r\<lparr>dr_entries := cache_store maxCachedDomains (normalizeHost e host)
     \<lparr>de_tenantID = fst (registered e w host), de_found = snd (registered e w host), de_expires = now e + dr_ttl r\<rparr> (dr_entries r)\<rparr>)"
  using assms domains.size_store domains.every_store unfolding remembered_def
  by (auto intro!: domains.every_store bexI [of _ "(e, w, host)"] domains.size_store)

lemma remembered_Resolve:
  assumes "remembered H ttl r"
  shows "remembered (insert (e, w, host) H) ttl (snd (snd (run_state (Resolve e host) (w, r))))"
proof -
  have "remembered (insert (e, w, host) H) ttl r"
    using assms remembered_mono by blast
  then show ?thesis
    using remembered_store [of "insert (e, w, host) H" ttl r e w host]
    by (auto simp: Resolve_run Let_def split: option.split)
qed

lemma remembered_after: "remembered H ttl r \<Longrightarrow> remembered (set rs \<union> H) ttl (resolver_after rs r)"
proof (induction rs arbitrary: H r)
  case (Cons x rs)
  obtain e w host where x: "x = (e, w, host)"
    by (cases x) auto
  have "set rs \<union> insert (e, w, host) H = set (x # rs) \<union> H"
    unfolding x by auto
  then show ?case
    using Cons.IH [OF remembered_Resolve [OF Cons.prems, of e w host]] by (simp add: x)
qed simp

text \<open>C25: After any earlier requests, the tenant found for a host is what the tenant table says now, or what it said for the same
  domain less than the time to live ago; otherwise the host has no domain or the database failed, and no tenant is found. The
  cache stays within its bound although hosts are chosen by clients.\<close>

theorem resolver_fresh:
  assumes "run_state (Resolve e host) (w, resolver_after rs (NewDomainTenantResolver ttl)) = (answer, (w', r'))"
  shows "(answer = registered e w host
       \<or> (\<exists>(e1, w1, host1) \<in> set rs. normalizeHost e1 host1 = normalizeHost e host \<and> answer = registered e1 w1 host1 \<and> now e < now e1 + ttl)
       \<or> (answer = (uuid_Nil, False) \<and> (normalizeHost e host = [] \<or> fails e (stmts w))))
     \<and> length (dr_entries r') \<le> maxCachedDomains"
proof -
  let ?r = "resolver_after rs (NewDomainTenantResolver ttl)"
  have "remembered {} ttl (NewDomainTenantResolver ttl)"
    by (simp add: remembered_def NewDomainTenantResolver_def domains.every_def)
  then have r: "remembered (set rs) ttl ?r"
    using remembered_after [of "{}" ttl _ rs] by simp
  have hit: "\<exists>(e1, w1, host1) \<in> set rs. normalizeHost e1 host1 = normalizeHost e host
      \<and> (de_tenantID entry, de_found entry) = registered e1 w1 host1 \<and> de_expires entry = now e1 + ttl"
    if "map_of (dr_entries ?r) (normalizeHost e host) = Some entry" for entry
    using r that domains.every_found unfolding remembered_def by fast
  have "remembered (insert (e, w, host) (set rs)) ttl r'"
    using remembered_Resolve [OF r, of e w host] assms by simp
  then have "length (dr_entries r') \<le> maxCachedDomains"
    by (simp add: remembered_def)
  moreover have "answer = registered e w host
       \<or> (\<exists>(e1, w1, host1) \<in> set rs. normalizeHost e1 host1 = normalizeHost e host \<and> answer = registered e1 w1 host1 \<and> now e < now e1 + ttl)
       \<or> (answer = (uuid_Nil, False) \<and> (normalizeHost e host = [] \<or> fails e (stmts w)))"
  proof (cases "\<exists>entry. map_of (dr_entries ?r) (normalizeHost e host) = Some entry \<and> now e < de_expires entry")
    case True
    then obtain entry where entry: "map_of (dr_entries ?r) (normalizeHost e host) = Some entry" "now e < de_expires entry"
      by blast
    then have "answer = (de_tenantID entry, de_found entry) \<or> normalizeHost e host = [] \<and> answer = (uuid_Nil, False)"
      using assms by (auto simp: Resolve_run Let_def split: if_splits)
    then show ?thesis
      using hit [OF entry(1)] entry(2) by fastforce
  next
    case False
    then show ?thesis
      using assms by (auto simp: Resolve_run Let_def split: if_splits option.splits)
  qed
  ultimately show ?thesis
    by blast
qed

section \<open>Guarded routes\<close>

interpretation quiet: world_preorder quiet
  by unfold_locales (auto intro: quiet_refl quiet_trans quietI)

text \<open>Tenant resolution leaves the tables alone.\<close>

lemma Resolve_quiet: "run_state (Resolve e host) (w, r) = (x, (w', r')) \<Longrightarrow> quiet w w'"
  by (auto simp: Resolve_run Let_def quiet_refl quiet_stmts split: option.splits if_splits)

lemma extractTenantID_quiet: "run_state (extractTenantID e domains g) (w, r) = (x, (w', r')) \<Longrightarrow> quiet w w'"
  by (auto simp: extractTenantID_def Let_def run_return run_bind quiet_refl split: option.splits if_splits prod.splits
      dest: Resolve_quiet)

text \<open>What a middleware passes on differs from what it got in the context keys and response headers only.\<close>

definition same_request :: "gin \<Rightarrow> gin \<Rightarrow> bool" where
  "same_request g g' \<longleftrightarrow> g_Header g' = g_Header g \<and> g_Param g' = g_Param g \<and> g_Path g' = g_Path g"

lemma newRequestID_run:
  "run_state (newRequestID e g) w =
     (let i = uuidString e (newUUID e (draws w)) in (setHeader ''X-Request-ID'' i (setKey RequestIDKey (StringValue i) g)), w\<lparr>draws := Suc (draws w)\<rparr>)"
  by (simp add: newRequestID_def run_bind run_uuid_New run_return Let_def)

lemma TenantContext_Proceed:
  assumes "run_state (TenantContext e domains g) (w, r) = (Proceed g', (w', r'))"
  shows "same_request g g' \<and> g_Keys g' UserIDKey = g_Keys g UserIDKey \<and> quiet w w'"
proof -
  have "quiet w v" if "quiet (w\<lparr>draws := n\<rparr>) v" for v n
    using that quiet_draws quiet_trans by blast
  then show ?thesis
    using assms
    by (auto simp: TenantContext_def run_bind run_onWorld newRequestID_run run_return Let_def same_request_def quiet_draws
        split: prod.splits if_splits option.splits dest!: extractTenantID_quiet)
qed

lemma RequestID_Proceed:
  "run_state (RequestID e g) w = (Proceed g', w') \<Longrightarrow> same_request g g' \<and> g_Keys g' UserIDKey = g_Keys g UserIDKey \<and> quiet w w'"
  by (auto simp: RequestID_def run_bind newRequestID_run run_return Let_def same_request_def quiet_draws)

text \<open>A request that is authenticated: it carries a bearer token that verifies, is a live row of the token table for the
  tenant of its claims, and names its user.\<close>

definition bearer :: "gin \<Rightarrow> string \<Rightarrow> bool" where
  "bearer g tok \<longleftrightarrow> g_Header g ''Authorization'' = BearerPrefix @ tok \<and> tok \<noteq> []"

definition stored_token :: "world \<Rightarrow> uuid \<Rightarrow> string \<Rightarrow> bool" where
  "stored_token w t tok \<longleftrightarrow> (\<exists>row \<in> set (access_tokens w). at_TenantID row = t \<and> at_Token row = hashToken tok)"

definition accepted_claims :: "env \<Rightarrow> string \<Rightarrow> JWTClaims \<Rightarrow> bool" where
  "accepted_claims e tok claims \<longleftrightarrow>
     (\<exists>token. KeySet_ParseJWTClaims (jwt e) (keys e) tok noOptions = Inr token \<and> tok_Valid token \<and> tok_Claims token = claims)
     \<and> (\<exists>token. KeySet_ParseJWTClaims (jwt e) (keys e) tok (accessTokenOptions e) = Inr token \<and> tok_Valid token
          \<and> HasType (uniLower e) token TypeAccessToken
          \<and> (\<forall>t. uuidParse e (jc_TenantID claims) = Some t \<longrightarrow> jc_TenantID (tok_Claims token) = uuidString e t))"

lemma ValidateAccessToken_run:
  "run_state (ValidateAccessToken e t tok) w =
     (case KeySet_ParseJWTClaims (jwt e) (keys e) tok (accessTokenOptions e) of
        Inl er \<Rightarrow> (Inl er, w)
      | Inr token \<Rightarrow>
          if \<not> tok_Valid token then (Inl (ErrMsg ''invalid token''), w)
          else if \<not> HasType (uniLower e) token TypeAccessToken then (Inl ErrInvalidToken, w)
          else if jc_TenantID (tok_Claims token) \<noteq> uuidString e t then (Inl ErrTenantMismatch, w)
          else (if fails e (stmts w) \<or> \<not> stored_token w t tok then Inl ErrRevokedToken else Inr (tok_Claims token), w\<lparr>stmts := Suc (stmts w)\<rparr>))"
  by (auto simp: ValidateAccessToken_def run_orReturn run_return run_failWith run_succeed AccessToken_GetByToken_def
      access_tokens.First_run stored_token_def find_None_iff split: sum.splits option.splits dest: find_SomeD)

lemma RequireAuth_Proceed:
  assumes "run_state (RequireAuth e (Some (ValidateAccessToken e)) g) w = (Proceed g', w')"
  shows "\<exists>tok claims t. bearer g tok \<and> accepted_claims e tok claims \<and> uuidParse e (jc_TenantID claims) = Some t \<and> stored_token w t tok
     \<and> g' = setClaims e claims g \<and> quiet w w'"
proof -
  let ?tok = "strings_TrimPrefix (g_Header g ''Authorization'') BearerPrefix"
  obtain token t where t: "g_Header g ''Authorization'' \<noteq> []" "strings_HasPrefix (g_Header g ''Authorization'') BearerPrefix" "?tok \<noteq> []"
    "KeySet_ParseJWTClaims (jwt e) (keys e) ?tok noOptions = Inr token" "tok_Valid token"
    "uuidParse e (jc_TenantID (tok_Claims token)) = Some t" "g' = setClaims e (tok_Claims token) g"
    and v: "\<exists>c. run_state (ValidateAccessToken e t ?tok) w = (Inr c, w')"
    using assms by (auto simp: RequireAuth_def Let_def unauthorized_def run_return run_bind split: if_splits sum.splits option.splits prod.splits)
  have "bearer g ?tok"
    using t(2,3) by (auto simp: bearer_def strings_HasPrefix_def strings_TrimPrefix_def prefix_def)
  moreover have "accepted_claims e ?tok (tok_Claims token) \<and> stored_token w t ?tok \<and> quiet w w'"
    using v t(4-6) by (auto simp: ValidateAccessToken_run accepted_claims_def quiet_stmts split: sum.splits if_splits)
  ultimately show ?thesis
    using t by blast
qed

definition may_pass :: "env \<Rightarrow> world \<Rightarrow> uuid list \<Rightarrow> string \<Rightarrow> string \<Rightarrow> string \<Rightarrow> gin \<Rightarrow> uuid \<Rightarrow> uuid \<Rightarrow> bool" where
  "may_pass e w superAdmins resource action selfParam g t u \<longleftrightarrow> u \<noteq> uuid_Nil
     \<and> (u \<in> set superAdmins \<or> (selfParam \<noteq> [] \<and> uuidParse e (g_Param g selfParam) = Some u)
        \<or> (resource \<noteq> [] \<and> (\<exists>p \<in> user_holds w (now e) t u. covers resource action p)))"

lemma authorize_Proceed:
  assumes "run_state (authorize e (HasPermission e) superAdmins resource action selfParam g) w = (Proceed g', w')"
    and "GetTenantID g = Some t"
  shows "g' = g \<and> (\<exists>u. GetUserID g = Some u \<and> may_pass e w superAdmins resource action selfParam g t u)"
  using assms
  by (auto simp: authorize_def deny_def unauthorized_def may_pass_def run_return run_bind 
      split: option.splits if_splits sum.splits prod.splits dest!: HasPermission_Inr)

lemma setClaims_ids:
  assumes "g_Keys g UserIDKey = None" "uuidParse e (jc_TenantID claims) = Some t"
  shows "GetUserID (setClaims e claims g) = uuidParse e (jc_UserID claims)" "GetTenantID (setClaims e claims g) = Some t"
    "same_request g (setClaims e claims g)"
  using assms by (auto simp: setClaims_def GetUserID_def GetTenantID_def same_request_def Let_def split: option.split)

lemma andThen_Proceed:
  "run_state (andThen m k) s = (Proceed g', s') \<longleftrightarrow> (\<exists>g v. run_state m s = (Proceed g, v) \<and> run_state (k g) v = (Proceed g', s'))"
  by (auto simp: andThen_def run_bind run_return split: prod.splits reply.splits)

lemma onWorld_eq: "run_state (onWorld m) (w, r) = (x, (w', r')) \<longleftrightarrow> run_state m w = (x, w') \<and> r' = r"
  by (auto simp: run_onWorld split: prod.split)

lemma may_pass_cong: "same_request g g' \<Longrightarrow> quiet w w' \<Longrightarrow> may_pass e w' sa res act self g' t u = may_pass e w sa res act self g t u"
  by (simp add: may_pass_def same_request_def quietD)

text \<open>Whoever passes a guarded route holds a token that verifies, has not been revoked (its row is there), was issued in the
  tenant the request then acts in, and is a super admin, the very user the path names, or holds the permission in that tenant.
  This is so under any database faults, and whatever tenant the headers or the host claim.\<close>

theorem guarded_route_sound:
  assumes "run_state (guardedRoute e superAdmins resource action selfParam g) (w, r) = (Proceed g', (w', r'))"
    and "g_Keys g UserIDKey = None"
  shows "\<exists>tok claims t u. bearer g tok \<and> accepted_claims e tok claims \<and> stored_token w t tok
     \<and> uuidParse e (jc_TenantID claims) = Some t \<and> uuidParse e (jc_UserID claims) = Some u
     \<and> may_pass e w superAdmins resource action selfParam g t u
     \<and> GetUserID g' = Some u \<and> GetTenantID g' = Some t"
proof -
  obtain g1 v1 r1 where 1: "run_state (TenantContext e True g) (w, r) = (Proceed g1, (v1, r1))"
    and rest: "run_state (andThen (onWorld (RequestID e g1)) (\<lambda>g2.
        andThen (onWorld (RequireAuth e (Some (ValidateAccessToken e)) g2)) (\<lambda>g3.
        onWorld (authorize e (HasPermission e) superAdmins resource action selfParam g3)))) (v1, r1) = (Proceed g', (w', r'))"
    using assms(1) unfolding guardedRoute_def andThen_Proceed by auto
  obtain g2 g3 v2 v3 where 2: "run_state (RequestID e g1) v1 = (Proceed g2, v2)"
    and 3: "run_state (RequireAuth e (Some (ValidateAccessToken e)) g2) v2 = (Proceed g3, v3)"
    and 4: "run_state (authorize e (HasPermission e) superAdmins resource action selfParam g3) v3 = (Proceed g', w')"
    using rest unfolding andThen_Proceed by (auto simp: onWorld_eq)
  have g2: "same_request g g2" "g_Keys g2 UserIDKey = None" "quiet w v2"
    using TenantContext_Proceed [OF 1] RequestID_Proceed [OF 2] assms(2) quiet_trans by (auto simp: same_request_def)
  obtain tok claims t where t: "bearer g2 tok" "accepted_claims e tok claims" "uuidParse e (jc_TenantID claims) = Some t"
    "stored_token v2 t tok" "g3 = setClaims e claims g2" "quiet v2 v3"
    using RequireAuth_Proceed [OF 3] by blast
  note ids = setClaims_ids [OF g2(2) t(3)]
  obtain u where u: "g' = g3" "GetUserID g3 = Some u" "may_pass e v3 superAdmins resource action selfParam g3 t u"
    using authorize_Proceed [OF 4, of t] ids(2) t(5) by blast
  have "may_pass e w superAdmins resource action selfParam g t u"
    using u(3) g2(1,3) ids(3) t(5,6) may_pass_cong [of g g3 w v3] quiet_trans by (auto simp: same_request_def)
  moreover have "stored_token w t tok"
    using t(4) g2(3) by (simp add: stored_token_def quietD)
  ultimately show ?thesis
    using t(1-3,5) u(1,2) ids g2(1) by (auto simp: bearer_def same_request_def)
qed

text \<open>Without database faults the permission check answers.\<close>

lemma rolePermissions_answers:
  assumes "\<forall>n. \<not> fails e n"
  shows "\<exists>a w'. run_state (rolePermissions_loop e rps seen acc) w = (Inr a, w')"
  using assms
  by (induction rps arbitrary: seen acc w) (auto simp: run_succeed run_bind PermissionGet_run run_failWith split: option.split)

lemma userRoles_answers:
  assumes "\<forall>n. \<not> fails e n"
  shows "\<exists>a w'. run_state (userRoles_loop e t urs seen acc) w = (Inr a, w')"
proof (induction urs arbitrary: seen acc w)
  case (Cons ur urs)
  have "\<exists>a w'. run_state (orReturn (rolePermissions_loop e rps seen acc) id (\<lambda>(seen, acc). userRoles_loop e t urs seen acc)) w = (Inr a, w')" for rps w
    using rolePermissions_answers [OF assms, of rps seen acc w] Cons.IH by (auto simp: run_orReturn)
  then show ?case
    using Cons.IH assms
    by (auto simp: run_bind RoleGet_run run_failWith run_orReturn RolePermissions_run split: option.split)
qed (simp add: run_succeed)

lemma HasPermission_answers:
  assumes "\<forall>n. \<not> fails e n"
  shows "\<exists>w'. run_state (HasPermission e t u resource action) w = (Inr (\<exists>p \<in> user_holds w (now e) t u. covers resource action p), w')"
proof -
  let ?urs = "filter (\<lambda>x. ur_TenantID x = t \<and> ur_UserID x = u) (user_roles w)"
  obtain ps w' where "run_state (userRoles_loop e t ?urs (\<lambda>_. False) []) (w\<lparr>stmts := Suc (stmts w)\<rparr>) = (Inr ps, w')"
    using userRoles_answers [OF assms] by blast
  then obtain a where "run_state (HasPermission e t u resource action) w = (Inr a, w')"
    using assms by (simp add: HasPermission_def GetUserPermissions_def run_orReturn UserRoles_run run_succeed)
  then show ?thesis
    using HasPermission_Inr by blast
qed

lemma bearer_header:
  assumes "bearer g tok"
  shows "g_Header g ''Authorization'' \<noteq> []" "strings_HasPrefix (g_Header g ''Authorization'') BearerPrefix"
    "strings_TrimPrefix (g_Header g ''Authorization'') BearerPrefix = tok" "tok \<noteq> []"
  using assms by (auto simp: bearer_def strings_HasPrefix_def strings_TrimPrefix_def BearerPrefix_def)

lemma bearer_tenant:
  assumes "bearer g tok" "accepted_claims e tok claims" "jc_TenantID claims \<noteq> []" "uuidParse e (jc_TenantID claims) = Some t"
  shows "run_state (extractTenantID e domains g) s = (Some t, s)"
  using assms(2-4) by (auto simp: extractTenantID_def Let_def bearer_header [OF assms(1)] extractTenantFromJWT_def accepted_claims_def run_return)

lemma TenantContext_bearer:
  assumes "bearer g tok" "accepted_claims e tok claims" "jc_TenantID claims \<noteq> []" "uuidParse e (jc_TenantID claims) = Some t"
  shows "\<exists>g'. run_state (TenantContext e domains g) (w, r) = (Proceed g', (w\<lparr>draws := Suc (draws w)\<rparr>, r))"
proof -
  have "bearer (setHeader a b (setKey k v g)) tok" for a b k v
    using assms(1) by (simp add: bearer_def)
  from bearer_tenant [OF this assms(2-4)] show ?thesis
    by (simp add: TenantContext_def run_bind run_onWorld newRequestID_run run_return Let_def)
qed

lemma RequireAuth_bearer:
  assumes "bearer g tok" "accepted_claims e tok claims" "uuidParse e (jc_TenantID claims) = Some t" "stored_token w t tok"
    and "\<forall>n. \<not> fails e n"
  shows "run_state (RequireAuth e (Some (ValidateAccessToken e)) g) w = (Proceed (setClaims e claims g), w\<lparr>stmts := Suc (stmts w)\<rparr>)"
proof -
  have "run_state (ValidateAccessToken e t tok) w = (Inr (tok_Claims token), w\<lparr>stmts := Suc (stmts w)\<rparr>)"
    if "KeySet_ParseJWTClaims (jwt e) (keys e) tok (accessTokenOptions e) = Inr token" "tok_Valid token"
      "HasType (uniLower e) token TypeAccessToken" "jc_TenantID (tok_Claims token) = uuidString e t" for token
    using that assms(4,5) by (simp add: ValidateAccessToken_run)
  then show ?thesis
    using assms(2,3) by (auto simp: RequireAuth_def Let_def bearer_header [OF assms(1)] accepted_claims_def run_bind run_return)
qed

lemma guardedRoute_Proceed:
  assumes "bearer g tok" "accepted_claims e tok claims" "stored_token w t tok"
    and "jc_TenantID claims \<noteq> []" "uuidParse e (jc_TenantID claims) = Some t" "uuidParse e (jc_UserID claims) = Some u"
    and "may_pass e w superAdmins resource action selfParam g t u" "g_Keys g UserIDKey = None" "\<forall>n. \<not> fails e n"
  shows "\<exists>g' w'. run_state (guardedRoute e superAdmins resource action selfParam g) (w, r) = (Proceed g', (w', r))"
proof -
  let ?w = "w\<lparr>draws := Suc (draws w)\<rparr>"
  obtain g1 where 1: "run_state (TenantContext e True g) (w, r) = (Proceed g1, (?w, r))"
    using TenantContext_bearer [OF assms(1,2,4,5)] by blast
  obtain g2 v2 where 2: "run_state (RequestID e g1) ?w = (Proceed g2, v2)"
    by (simp add: RequestID_def run_bind newRequestID_run run_return Let_def)
  have g2: "same_request g g2" "g_Keys g2 UserIDKey = None" "quiet w v2"
    using TenantContext_Proceed [OF 1] RequestID_Proceed [OF 2] assms(8) quiet_trans by (auto simp: same_request_def)
  let ?g3 = "setClaims e claims g2" and ?v3 = "v2\<lparr>stmts := Suc (stmts v2)\<rparr>"
  have "bearer g2 tok" "stored_token v2 t tok"
    using assms(1,3) g2(1,3) by (simp_all add: bearer_def same_request_def stored_token_def quietD)
  then have 3: "run_state (RequireAuth e (Some (ValidateAccessToken e)) g2) v2 = (Proceed ?g3, ?v3)"
    using RequireAuth_bearer assms(2,5,9) by blast
  note ids = setClaims_ids [OF g2(2) assms(5)]
  have "quiet w ?v3" "same_request g ?g3"
    using g2(1,3) ids(3) quiet_trans quiet_stmts by (auto simp: same_request_def)
  then have "may_pass e ?v3 superAdmins resource action selfParam ?g3 t u"
    using assms(7) may_pass_cong by blast
  then have "\<exists>w'. run_state (authorize e (HasPermission e) superAdmins resource action selfParam ?g3) ?v3 = (Proceed ?g3, w')"
    using ids(1,2) assms(6) HasPermission_answers [OF assms(9), of t u resource action ?v3]
    by (auto simp: authorize_def may_pass_def deny_def run_return run_bind)
  then show ?thesis
    using 1 2 3 unfolding guardedRoute_def andThen_Proceed by (auto simp: onWorld_eq)
qed

text \<open>C24: Conversely nobody entitled is turned away: while the database answers, a request with a verified, stored token whose user
  is a super admin, the user the path names, or a holder of the permission passes the guarded route.\<close>

theorem guarded_route_live:
  assumes "bearer g tok" "accepted_claims e tok claims" "stored_token w t tok"
    and "jc_TenantID claims \<noteq> []" "uuidParse e (jc_TenantID claims) = Some t" "uuidParse e (jc_UserID claims) = Some u"
    and "may_pass e w superAdmins resource action selfParam g t u" "g_Keys g UserIDKey = None" "\<forall>n. \<not> fails e n"
  shows "\<exists>g' w'. run_state (guardedRoute e superAdmins resource action selfParam g) (w, r) = (Proceed g', (w', r))"
  by (rule guardedRoute_Proceed [OF assms])

section \<open>Instances\<close>

definition route_gin :: gin where
  "route_gin = \<lparr>g_Method = ''GET'', g_Path = ''/v1/users'', g_URI = ''/v1/users'', g_Host = ''acme.id:443'',
     g_Header = (\<lambda>h. if h = ''Authorization'' then ''Bearer abc'' else []), g_Param = (\<lambda>_. []), g_PostForm = (\<lambda>_. []),
     g_ClientIP = ''192.0.2.1'', g_Body = [], g_Keys = Map.empty, g_Out = Map.empty\<rparr>"

definition route_world :: world where
  "route_world = (rbac_world None)\<lparr>access_tokens :=
     [\<lparr>at_ID = 50, at_TenantID = 1, at_Token = hashToken ''abc'', at_ClientID = 5, at_UserID = 7, at_FamilyID = 40,
       at_Scope = ''read'', at_ExpiresAt = 5000, at_CreatedAt = 500\<rparr>],
     tenants := [\<lparr>t_ID = 1, t_Name = ''Acme'', t_Domain = ''acme.id'', t_IsActive = True, t_CreatedAt = 0, t_UpdatedAt = 0, t_DeletedAt = None\<rparr>]\<rparr>"

definition route_claims :: JWTClaims where
  "route_claims = JWTClaims_zero\<lparr>jc_TenantID := ''x'', jc_Scope := ''openid'', jc_UserID := ''xxxxxxx''\<rparr>"

lemma access_token_typ: "strings_TrimPrefix (strings_ToLower (\<lambda>s. s) TypeAccessToken) ''application/'' = strings_ToLower (\<lambda>s. s) TypeAccessToken"
  by code_simp

lemma route_request: "bearer route_gin ''abc''" "g_Keys route_gin UserIDKey = None"
  by (simp_all add: bearer_def route_gin_def BearerPrefix_def)

lemma route_token: "accepted_claims sample_env ''abc'' route_claims" "jc_TenantID route_claims \<noteq> []"
  "uuidParse sample_env (jc_TenantID route_claims) = Some 1" "uuidParse sample_env (jc_UserID route_claims) = Some 7"
  by (simp_all add: accepted_claims_def KeySet_ParseJWTClaims_def sample_env_def sample_jwt_def route_claims_def HasType_def
      access_token_typ JWTClaims_zero_def)

lemma route_rights: "stored_token route_world 1 ''abc''" "may_pass sample_env route_world [] ''users'' ''read'' [] route_gin 1 7"
  by (auto simp: stored_token_def route_world_def may_pass_def user_holds_def rbac_world_def rbac_assignment_def rbac_role_def
      rbac_permission_def UserRole_IsExpired_def role_of_def role_live_def role_grants_def permission_of_def permission_live_def
      covers_def PermissionActionManage_def)

lemma guarded_route_live_witness:
  "\<exists>g' w'. run_state (guardedRoute sample_env [] ''users'' ''read'' [] route_gin) (route_world, NewDomainTenantResolver 60)
     = (Proceed g', (w', NewDomainTenantResolver 60))"
  by (rule guarded_route_live [OF route_request(1) route_token(1) route_rights(1) route_token(2-4) route_rights(2) route_request(2)])
    (simp add: sample_env_def)

lemma guarded_route_sound_witness:
  "\<exists>tok claims t u. bearer route_gin tok \<and> accepted_claims sample_env tok claims \<and> stored_token route_world t tok
     \<and> may_pass sample_env route_world [] ''users'' ''read'' [] route_gin t u"
proof -
  have ok: "\<forall>n. \<not> fails sample_env n"
    by (simp add: sample_env_def)
  obtain g' w' where "run_state (guardedRoute sample_env [] ''users'' ''read'' [] route_gin) (route_world, NewDomainTenantResolver 60)
     = (Proceed g', (w', NewDomainTenantResolver 60))"
    using guardedRoute_Proceed [OF route_request(1) route_token(1) route_rights(1) route_token(2-4) route_rights(2) route_request(2) ok]
    by blast
  from guarded_route_sound [OF this route_request(2)] show ?thesis
    by blast
qed

lemma route_host: "normalizeHost sample_env ''acme.id:443'' = ''acme.id''" "normalizeHost sample_env ''ACME.id.'' = ''acme.id''"
  unfolding sample_env_def by code_simp+

text \<open>The first lookup is remembered for a minute; the tenant renamed meanwhile is still found.\<close>

lemma resolver_fresh_witness:
  "\<exists>answer w' r'. run_state (Resolve (sample_env\<lparr>now := 1050\<rparr>) ''ACME.id.'')
       (empty_world, resolver_after [(sample_env, route_world, ''acme.id:443'')] (NewDomainTenantResolver 60)) = (answer, (w', r'))
     \<and> answer = registered sample_env route_world ''acme.id:443'' \<and> length (dr_entries r') \<le> maxCachedDomains"
proof -
  have host: "normalizeHost (sample_env\<lparr>now := n\<rparr>) h = normalizeHost sample_env h" for n h
    by (simp add: normalizeHost_def)
  have reg: "registered sample_env route_world ''acme.id:443'' = (1, True)"
    by (simp add: registered_def route_host route_world_def tenant_live_def)
  have env: "now sample_env = 1000" "fails sample_env n = False" for n
    by (simp_all add: sample_env_def)
  obtain w' r' where run: "run_state (Resolve (sample_env\<lparr>now := 1050\<rparr>) ''ACME.id.'')
      (empty_world, resolver_after [(sample_env, route_world, ''acme.id:443'')] (NewDomainTenantResolver 60)) = ((1, True), (w', r'))"
    by (simp add: Resolve_run host route_host NewDomainTenantResolver_def cache_store_lookup maxCachedDomains_def reg env)
  show ?thesis
  proof (intro exI conjI)
    show "length (dr_entries r') \<le> maxCachedDomains"
      using resolver_fresh [OF run] by (rule conjunct2)
  qed (use run reg in simp_all)
qed

end
