(* ===== verification/Registration.thy ===== *)
theory Registration
  imports ClientService Scope
begin

text \<open>Dynamic client registration (\<^verbatim>\<open>internal/services/registration_service_impl.go\<close>, \<^verbatim>\<open>client_metadata.go\<close>; RFC 7591 and 7592).
  \<^verbatim>\<open>net/url.Parse\<close> and \<^verbatim>\<open>net.ParseIP\<close> are parameters; log lines are left out.\<close>

record parsed_url =
  pu_Scheme :: string
  pu_Host :: string
  pu_Hostname :: string
  pu_HasUser :: bool

text \<open>\<open>url_Parse\<close> gives \<^const>\<open>None\<close> for an error; a URL is absolute when its scheme is not empty. \<open>ip_IsLoopback\<close>: the string is an IP
  address and a loopback one.\<close>

record netlib =
  url_Parse :: "string \<Rightarrow> parsed_url option"
  ip_IsLoopback :: "string \<Rightarrow> bool"

section \<open>Metadata\<close>

record ClientMetadata =
  md_ClientID :: string
  md_RedirectURIs :: "string list"
  md_PostLogoutRedirectURIs :: "string list"
  md_TokenEndpointAuthMethod :: string
  md_GrantTypes :: "string list"
  md_ResponseTypes :: "string list"
  md_ClientName :: string
  md_Scope :: string

record registeredMetadata =
  rm_name :: string
  rm_redirectURIs :: "string list"
  rm_postLogoutRedirectURIs :: "string list"
  rm_grantTypes :: "string list"
  rm_authMethod :: string
  rm_scopes :: "string list"

definition maxRegisteredURIs :: nat where "maxRegisteredURIs = 10"
definition maxRegisteredURILen :: nat where "maxRegisteredURILen = 2000"
definition maxClientNameLength :: nat where "maxClientNameLength = 255"
definition defaultDynamicClient :: string where "defaultDynamicClient = ''Dynamically registered client''"
definition responseTypeCode :: string where "responseTypeCode = ''code''"
definition maxRegisteredScopes :: nat where "maxRegisteredScopes = 50"
definition maxRegisteredScopeLen :: nat where "maxRegisteredScopeLen = 128"

definition dynamicGrantTypes :: "string list" where
  "dynamicGrantTypes = [GrantTypeAuthorizationCode, GrantTypeRefreshToken, GrantTypeClientCredentials, GrantTypeDeviceCode]"

definition rm_isPublic :: "registeredMetadata \<Rightarrow> bool" where
  "rm_isPublic m \<longleftrightarrow> rm_authMethod m = TokenEndpointAuthNone"

definition invalidMetadata :: "string \<Rightarrow> err" where
  "invalidMetadata description = RegistrationError ''invalid_client_metadata'' description"

definition invalidRedirect :: "string \<Rightarrow> err" where
  "invalidRedirect description = RegistrationError ''invalid_redirect_uri'' description"

fun dedupe_loop :: "string list \<Rightarrow> string list \<Rightarrow> string list" where
  "dedupe_loop seen [] = []"
| "dedupe_loop seen (v0 # vs) =
     (let v = strings_TrimSpace v0 in
      if v \<noteq> [] \<and> v \<notin> set seen then v # dedupe_loop (v # seen) vs else dedupe_loop seen vs)"

definition dedupe :: "string list \<Rightarrow> string list" where
  "dedupe values = dedupe_loop [] values"

text \<open>The loop is over runes; a byte outside ASCII starts no rune that is allowed.\<close>

definition validScopeToken :: "string \<Rightarrow> bool" where
  "validScopeToken s \<longleftrightarrow> s \<noteq> [] \<and> length s \<le> maxRegisteredScopeLen
     \<and> list_all (\<lambda>c. 0x21 \<le> byte_code c \<and> byte_code c \<le> 0x7e \<and> c \<noteq> CHR 0x22 \<and> c \<noteq> CHR 0x5C) s"

text \<open>\<^verbatim>\<open>unicode.IsControl\<close> on a rune of the string: C0 and DEL are single bytes, C1 is U+0080 to U+009F.\<close>

fun hasControl :: "string \<Rightarrow> bool" where
  "hasControl [] = False"
| "hasControl (c # cs) =
     (byte_code c < 32 \<or> byte_code c = 127 \<or> (byte_code c = 0xC2 \<and> cs \<noteq> [] \<and> 128 \<le> byte_code (hd cs) \<and> byte_code (hd cs) < 160)
      \<or> hasControl cs)"

definition isLoopback :: "netlib \<Rightarrow> string \<Rightarrow> bool" where
  "isLoopback n host \<longleftrightarrow> host = ''localhost'' \<or> ip_IsLoopback n host"

definition checkRegisteredURI :: "env \<Rightarrow> netlib \<Rightarrow> string \<Rightarrow> string \<Rightarrow> err option" where
  "checkRegisteredURI e n field raw =
     (if maxRegisteredURILen < length raw \<or> CHR ''#'' \<in> set raw
      then Some (invalidRedirect (field @ '' must not be too long or contain a fragment''))
      else case url_Parse n raw of
        None \<Rightarrow> Some (invalidRedirect (field @ '' must be absolute URIs''))
      | Some u \<Rightarrow>
          if pu_Scheme u = [] then Some (invalidRedirect (field @ '' must be absolute URIs''))
          else let scheme = strings_ToLower (uniLower e) (pu_Scheme u) in
            if scheme = ''https'' then
              (if pu_Host u = [] \<or> pu_HasUser u then Some (invalidRedirect (field @ '' must have a host and no user information'')) else None)
            else if scheme = ''http'' then
              (if \<not> isLoopback n (pu_Hostname u) \<or> pu_HasUser u
               then Some (invalidRedirect (''http '' @ field @ '' are allowed only for loopback addresses'')) else None)
            else if CHR ''.'' \<notin> set (pu_Scheme u)
            then Some (invalidRedirect (field @ '' must use https, loopback http or a reverse-domain scheme'')) else None)"

fun checkRegisteredURIs :: "env \<Rightarrow> netlib \<Rightarrow> string \<Rightarrow> string list \<Rightarrow> err option" where
  "checkRegisteredURIs e n field [] = None"
| "checkRegisteredURIs e n field (raw # uris) =
     (case checkRegisteredURI e n field raw of Some er \<Rightarrow> Some er | None \<Rightarrow> checkRegisteredURIs e n field uris)"

definition validateRegisteredURIs :: "env \<Rightarrow> netlib \<Rightarrow> string list \<Rightarrow> string \<Rightarrow> err + string list" where
  "validateRegisteredURIs e n uris0 field =
     (let uris = dedupe uris0 in
      if maxRegisteredURIs < length uris then Inl (invalidRedirect (''too many '' @ field))
      else case checkRegisteredURIs e n field uris of Some er \<Rightarrow> Inl er | None \<Rightarrow> Inr uris)"

text \<open>\<^verbatim>\<open>validateClientMetadata\<close> in the order of its checks; \<open>validateGrants\<close> is its part on grants, response types and the
  authentication method.\<close>

definition validateGrants :: "ClientMetadata \<Rightarrow> err + string list \<times> string" where
  "validateGrants meta =
     (let grantTypes = (if dedupe (md_GrantTypes meta) = [] then [GrantTypeAuthorizationCode] else dedupe (md_GrantTypes meta));
          has = (\<lambda>g. g \<in> set grantTypes);
          responseTypes = dedupe (md_ResponseTypes meta);
          authMethod = (if md_TokenEndpointAuthMethod meta = [] then TokenEndpointAuthClientSecretBasic else md_TokenEndpointAuthMethod meta)
      in case find (\<lambda>g. g \<notin> set dynamicGrantTypes) grantTypes of
           Some g \<Rightarrow> Inl (invalidMetadata (''grant_type '' @ g @ '' cannot be registered''))
         | None \<Rightarrow>
             if has GrantTypeRefreshToken \<and> \<not> has GrantTypeAuthorizationCode \<and> \<not> has GrantTypeDeviceCode
             then Inl (invalidMetadata ''refresh_token requires the authorization_code or device_code grant'')
             else if responseTypes \<noteq> [] \<and> \<not> (has GrantTypeAuthorizationCode \<and> responseTypes = [responseTypeCode]) \<and> \<not> has GrantTypeAuthorizationCode
             then Inl (invalidMetadata ''response_types require the authorization_code grant'')
             else if responseTypes \<noteq> [] \<and> \<not> (has GrantTypeAuthorizationCode \<and> responseTypes = [responseTypeCode])
             then Inl (invalidMetadata ''only the code response type is supported'')
             else if authMethod \<notin> {TokenEndpointAuthNone, TokenEndpointAuthClientSecretBasic, TokenEndpointAuthClientSecretPost}
             then Inl (invalidMetadata ''unsupported token_endpoint_auth_method'')
             else if authMethod = TokenEndpointAuthNone \<and> has GrantTypeClientCredentials
             then Inl (invalidMetadata ''client_credentials requires an authenticated client'')
             else Inr (grantTypes, authMethod))"

definition validateClientMetadata :: "env \<Rightarrow> netlib \<Rightarrow> ClientMetadata \<Rightarrow> err + registeredMetadata" where
  "validateClientMetadata e n meta =
     (case validateGrants meta of Inl er \<Rightarrow> Inl er | Inr (grantTypes, authMethod) \<Rightarrow>
     (case validateRegisteredURIs e n (md_RedirectURIs meta) ''redirect_uris'' of Inl er \<Rightarrow> Inl er | Inr redirectURIs \<Rightarrow>
      if GrantTypeAuthorizationCode \<in> set grantTypes \<and> redirectURIs = []
      then Inl (invalidRedirect ''redirect_uris is required for the authorization_code grant'')
      else
     (case validateRegisteredURIs e n (md_PostLogoutRedirectURIs meta) ''post_logout_redirect_uris'' of Inl er \<Rightarrow> Inl er | Inr postLogout \<Rightarrow>
      let trimmed = strings_TrimSpace (md_ClientName meta);
          name = (if trimmed = [] then defaultDynamicClient else trimmed);
          scopes = ParseScope (md_Scope meta)
      in if maxClientNameLength < length name \<or> hasControl name
         then Inl (invalidMetadata ''client_name is too long or contains control characters'')
         else if maxRegisteredScopes < length scopes then Inl (invalidMetadata ''too many scopes'')
         else case find (\<lambda>s. \<not> validScopeToken s) scopes of
           Some s \<Rightarrow> Inl (invalidMetadata (''invalid scope '' @ s))
         | None \<Rightarrow> Inr \<lparr>rm_name = name, rm_redirectURIs = redirectURIs, rm_postLogoutRedirectURIs = postLogout,
                        rm_grantTypes = grantTypes, rm_authMethod = authMethod, rm_scopes = scopes\<rparr>)))"

section \<open>Initial access tokens\<close>

record CreateInitialAccessTokenRequest =
  cia_Description :: string
  cia_Scopes :: "string list"
  cia_ExpiresIn :: int
  cia_MaxUses :: int

definition defaultInitialAccessTokenTTL :: duration where "defaultInitialAccessTokenTTL = seconds (24 * 3600)"
definition maxInitialAccessTokenTTL :: duration where "maxInitialAccessTokenTTL = seconds (30 * 24 * 3600)"
definition maxInitialAccessTokenUses :: int where "maxInitialAccessTokenUses = 1000"
definition registrationTokenBytes :: nat where "registrationTokenBytes = 32"

definition CreateInitialAccessToken ::
  "env \<Rightarrow> uuid \<Rightarrow> uuid option \<Rightarrow> CreateInitialAccessTokenRequest \<Rightarrow> (InitialAccessToken \<times> string) op" where
  "CreateInitialAccessToken e tenantID createdBy req =
     (let scopes = dedupe (cia_Scopes req);
          ttl = (if cia_ExpiresIn req = 0 then defaultInitialAccessTokenTTL else seconds (cia_ExpiresIn req));
          maxUses = (if cia_MaxUses req = 0 then 1 else cia_MaxUses req)
      in if scopes = [] then failWith (invalidMetadata ''scopes must not be empty'')
         else case find (\<lambda>s. \<not> validScopeToken s) scopes of
           Some s \<Rightarrow> failWith (invalidMetadata (''invalid scope '' @ s))
         | None \<Rightarrow>
             if ttl \<le> 0 \<or> ttl > maxInitialAccessTokenTTL
             then failWith (invalidMetadata ''expires_in must be between 1 second and 30 days'')
             else if maxUses < 0 \<or> maxUses > maxInitialAccessTokenUses
             then failWith (invalidMetadata ''max_uses must be between 1 and 1000'')
             else orReturn (randomToken e registrationTokenBytes) (Wrapped ''failed to generate initial access token'') (\<lambda>token. do {
               i \<leftarrow> uuid_New e;
               let record = \<lparr>ia_ID = i, ia_TenantID = tenantID, ia_TokenHash = hashToken token, ia_Description = cia_Description req,
                     ia_Scopes = scopes, ia_MaxUses = maxUses, ia_Uses = 0, ia_CreatedBy = createdBy, ia_ExpiresAt = now e + ttl,
                     ia_RevokedAt = None, ia_CreatedAt = now e\<rparr>;
               orReturn (InitialAccessToken_Create e record) id (\<lambda>_. succeed (record, token))
             }))"

definition ListInitialAccessTokens :: "env \<Rightarrow> uuid \<Rightarrow> InitialAccessToken list op" where
  "ListInitialAccessTokens e tenantID = InitialAccessToken_List e tenantID"

definition RevokeInitialAccessToken :: "env \<Rightarrow> uuid \<Rightarrow> uuid \<Rightarrow> unit op" where
  "RevokeInitialAccessToken e tenantID i = InitialAccessToken_Revoke e tenantID i"

section \<open>Registration\<close>

record ClientRegistrationResponse =
  rr_Metadata :: ClientMetadata
  rr_ClientID :: string
  rr_ClientSecret :: string
  rr_ClientIDIssuedAt :: int
  rr_ClientSecretExpiresAt :: "int option"
  rr_RegistrationAccessToken :: string
  rr_RegistrationClientURI :: string

definition registrationResponse :: "string \<Rightarrow> Client \<Rightarrow> ClientRegistrationResponse" where
  "registrationResponse baseURL0 client =
     (let baseURL = (if suffix ''/'' baseURL0 then butlast baseURL0 else baseURL0) in
      \<lparr>rr_Metadata = \<lparr>md_ClientID = [], md_RedirectURIs = c_RedirectURIs client,
         md_PostLogoutRedirectURIs = c_PostLogoutRedirectURIs client,
         md_TokenEndpointAuthMethod = c_TokenEndpointAuthMethod client, md_GrantTypes = c_GrantTypes client,
         md_ResponseTypes = (if Client_HasGrantType client GrantTypeAuthorizationCode then [responseTypeCode] else []),
         md_ClientName = c_Name client, md_Scope = strings_Join (c_Scopes client) '' ''\<rparr>,
       rr_ClientID = c_ClientID client, rr_ClientSecret = [], rr_ClientIDIssuedAt = time_unix (c_CreatedAt client),
       rr_ClientSecretExpiresAt = None, rr_RegistrationAccessToken = [],
       rr_RegistrationClientURI = baseURL @ ''/oauth/register/'' @ url_PathEscape (c_ClientID client)\<rparr>)"

text \<open>Scopes default to the ceiling, and may not exceed it.\<close>

definition cappedScopes :: "string list \<Rightarrow> string list \<Rightarrow> string \<Rightarrow> err + string list" where
  "cappedScopes requested allowed message =
     (let scopes = (if requested = [] then allowed else requested) in
      if \<not> ScopeIsSubset (strings_Join scopes '' '') (strings_Join allowed '' '') then Inl (invalidMetadata message) else Inr scopes)"

text \<open>The client row of validated metadata, and the second half of \<^verbatim>\<open>Register\<close>, after the token has been used.\<close>

definition registeredClient :: "env \<Rightarrow> uuid \<Rightarrow> registeredMetadata \<Rightarrow> string list \<Rightarrow> uuid \<Rightarrow> string \<Rightarrow> string \<Rightarrow> string \<Rightarrow> Client" where
  "registeredClient e tenantID md scopes i clientID secretHash registrationToken =
     \<lparr>c_ID = i, c_TenantID = tenantID, c_ClientID = clientID, c_ClientSecret = secretHash, c_PlainClientSecret = [],
      c_Name = rm_name md, c_RedirectURIs = rm_redirectURIs md, c_PostLogoutRedirectURIs = rm_postLogoutRedirectURIs md,
      c_GrantTypes = rm_grantTypes md, c_Scopes = scopes, c_IsPublic = rm_isPublic md,
      c_TokenEndpointAuthMethod = rm_authMethod md, c_DynamicallyRegistered = True,
      c_RegistrationAccessToken = hashToken registrationToken, c_CreatedAt = now e, c_UpdatedAt = zero_time, c_DeletedAt = None\<rparr>"

definition registerClient :: "env \<Rightarrow> uuid \<Rightarrow> registeredMetadata \<Rightarrow> string list \<Rightarrow> ClientRegistrationResponse op" where
  "registerClient e tenantID md scopes =
     orReturn (randomToken e registrationTokenBytes) (Wrapped ''failed to generate registration access token'') (\<lambda>registrationToken.
     orReturn (if \<not> rm_isPublic md then newClientSecret e else succeed ([], [])) id (\<lambda>(plainSecret, secretHash). do {
       i \<leftarrow> uuid_New e;
       clientID \<leftarrow> generateClientID e;
       orReturn (Client_Create e (registeredClient e tenantID md scopes i clientID secretHash registrationToken))
         (Wrapped ''failed to create client'') (\<lambda>client.
       succeed ((registrationResponse (cf_ServerURL (config e)) client)\<lparr>rr_ClientSecret := plainSecret,
         rr_ClientSecretExpiresAt := (if plainSecret \<noteq> [] then Some 0 else None),
         rr_RegistrationAccessToken := registrationToken\<rparr>))
     }))"

definition Register :: "env \<Rightarrow> netlib \<Rightarrow> uuid \<Rightarrow> string \<Rightarrow> ClientMetadata \<Rightarrow> ClientRegistrationResponse op" where
  "Register e n tenantID initialAccessToken meta =
     (if initialAccessToken = [] then failWith ErrInvalidToken
      else let iatHash = hashToken initialAccessToken in
        orReturn (InitialAccessToken_GetByHash e tenantID iatHash)
          (\<lambda>er. if errors_Is er ErrInitialAccessTokenNotFound then ErrInvalidToken else er) (\<lambda>iat.
        orReturn (State_Monad.return (validateClientMetadata e n meta)) id (\<lambda>md.
        orReturn (State_Monad.return (cappedScopes (rm_scopes md) (ia_Scopes iat) ''scope exceeds what this initial access token allows'')) id (\<lambda>scopes.
        orReturn (InitialAccessToken_Consume e tenantID iatHash)
          (\<lambda>er. if errors_Is er ErrInitialAccessTokenNotFound then ErrInvalidToken else er) (\<lambda>_.
        registerClient e tenantID md scopes)))))"

definition authorizeRegistration :: "env \<Rightarrow> uuid \<Rightarrow> string \<Rightarrow> string \<Rightarrow> Client op" where
  "authorizeRegistration e tenantID clientID registrationToken =
     (if registrationToken = [] then failWith ErrInvalidToken
      else orReturn (Client_GetByClientID e tenantID clientID)
             (\<lambda>er. if errors_Is er ErrClientNotFound then ErrInvalidToken else er) (\<lambda>client.
        if \<not> c_DynamicallyRegistered client \<or> c_RegistrationAccessToken client = []
           \<or> c_RegistrationAccessToken client \<noteq> hashToken registrationToken
        then failWith ErrInvalidToken else succeed client))"

definition ReadRegistration :: "env \<Rightarrow> uuid \<Rightarrow> string \<Rightarrow> string \<Rightarrow> ClientRegistrationResponse op" where
  "ReadRegistration e tenantID clientID registrationToken =
     orReturn (authorizeRegistration e tenantID clientID registrationToken) id
       (\<lambda>client. succeed (registrationResponse (cf_ServerURL (config e)) client))"

definition UpdateRegistration :: "env \<Rightarrow> netlib \<Rightarrow> uuid \<Rightarrow> string \<Rightarrow> string \<Rightarrow> ClientMetadata \<Rightarrow> ClientRegistrationResponse op" where
  "UpdateRegistration e n tenantID clientID registrationToken meta =
     orReturn (authorizeRegistration e tenantID clientID registrationToken) id (\<lambda>client0.
     if md_ClientID meta \<noteq> clientID then failWith (invalidMetadata ''client_id must match the client being updated'')
     else orReturn (State_Monad.return (validateClientMetadata e n meta)) id (\<lambda>md.
       if rm_isPublic md \<noteq> c_IsPublic client0
       then failWith (invalidMetadata ''token_endpoint_auth_method cannot switch between public and confidential'')
       else orReturn (State_Monad.return (cappedScopes (rm_scopes md) (c_Scopes client0) ''scope can only be narrowed'')) id (\<lambda>scopes.
         let client = client0\<lparr>c_Name := rm_name md, c_RedirectURIs := rm_redirectURIs md,
               c_PostLogoutRedirectURIs := rm_postLogoutRedirectURIs md, c_GrantTypes := rm_grantTypes md, c_Scopes := scopes,
               c_TokenEndpointAuthMethod := rm_authMethod md, c_UpdatedAt := now e\<rparr>
         in orReturn (Client_Update e client) (Wrapped ''failed to update client'')
              (\<lambda>_. succeed (registrationResponse (cf_ServerURL (config e)) client)))))"

definition DeleteRegistration :: "env \<Rightarrow> uuid \<Rightarrow> string \<Rightarrow> string \<Rightarrow> unit op" where
  "DeleteRegistration e tenantID clientID registrationToken =
     orReturn (authorizeRegistration e tenantID clientID registrationToken) id
       (\<lambda>client. DeleteClient e tenantID (c_ID client))"

end
