(* ===== verification/RegistrationProperties.thy ===== *)
theory RegistrationProperties
  imports Registration Effects ClientProperties Samples
begin

text \<open>Dynamic registration: what a registered client may ask for, how often an initial access token registers, and what the
  registration token opens.\<close>

section \<open>Requests\<close>

datatype reg_request =
    MintToken uuid "uuid option" CreateInitialAccessTokenRequest
  | WithdrawToken uuid uuid
  | RegisterWith uuid string ClientMetadata
  | UpdateWith uuid string string ClientMetadata
  | DeleteWith uuid string string

text \<open>The answer names the initial access token a client was registered with.\<close>

fun reg_handle :: "env \<Rightarrow> netlib \<Rightarrow> reg_request \<Rightarrow> (world, (uuid \<times> string) option) state" where
  "reg_handle e n (MintToken t by' req) = do { _ \<leftarrow> CreateInitialAccessToken e t by' req; State_Monad.return None }"
| "reg_handle e n (WithdrawToken t i) = do { _ \<leftarrow> RevokeInitialAccessToken e t i; State_Monad.return None }"
| "reg_handle e n (RegisterWith t tok meta) = do {
     r \<leftarrow> Register e n t tok meta;
     State_Monad.return (case r of Inl _ \<Rightarrow> None | Inr _ \<Rightarrow> Some (t, tok))
   }"
| "reg_handle e n (UpdateWith t cid tok meta) = do { _ \<leftarrow> UpdateRegistration e n t cid tok meta; State_Monad.return None }"
| "reg_handle e n (DeleteWith t cid tok) = do { _ \<leftarrow> DeleteRegistration e t cid tok; State_Monad.return None }"

fun reg_run :: "netlib \<Rightarrow> (env \<times> reg_request) list \<Rightarrow> (world, (uuid \<times> string) option list) state" where
  "reg_run n [] = State_Monad.return []"
| "reg_run n ((e, r) # rs) = do { a \<leftarrow> reg_handle e n r; as \<leftarrow> reg_run n rs; State_Monad.return (a # as) }"

section \<open>Registered scopes stay below a token's\<close>

definition token_scopes :: "InitialAccessToken \<Rightarrow> string set" where
  "token_scopes ia = (\<Union>s \<in> set (ia_Scopes ia). set (ParseScope s))"

text \<open>The client with identifier \<open>i\<close> exists and asks for scopes of \<open>S\<close> only; soft-deleted rows count.\<close>

definition scope_bound :: "uuid \<Rightarrow> string set \<Rightarrow> world \<Rightarrow> bool" where
  "scope_bound i S w \<longleftrightarrow> (\<exists>c \<in> set (clients w). c_ID c = i) \<and> (\<forall>c \<in> set (clients w). c_ID c = i \<longrightarrow> registeredScopes c \<subseteq> S)"

lemma bound_tables: "clients w' = clients w \<Longrightarrow> preserving (scope_bound i S) w w'"
  by (simp add: preserving_def scope_bound_def)

interpretation bound: world_preorder "preserving (scope_bound i S)" for i S
  by unfold_locales (auto simp: preserving_def scope_bound_def)

text \<open>Statements on other tables leave the clients alone.\<close>

lemma bound_statements [effect_intros]:
  "steps (preserving (scope_bound i S)) (InitialAccessToken_Create e ia)" "steps (preserving (scope_bound i S)) (InitialAccessToken_Revoke e t k)"
  "steps (preserving (scope_bound i S)) (InitialAccessToken_GetByHash e t h)" "steps (preserving (scope_bound i S)) (Client_GetByClientID e t cid)"
  "steps (preserving (scope_bound i S)) (Client_GetByID e t k)" "steps (preserving (scope_bound i S)) (AccessToken_DeleteByClientID e t k)"
  "steps (preserving (scope_bound i S)) (RefreshToken_DeleteByClientID e t k)"
  unfolding InitialAccessToken_Create_def InitialAccessToken_Revoke_def InitialAccessToken_GetByHash_def Client_GetByClientID_def
    Client_GetByID_def AccessToken_DeleteByClientID_def RefreshToken_DeleteByClientID_def
  by (intro bound.world_steps bound.steps_sqlInsert bound.steps_sqlUpdate bound.steps_sqlDelete bound_tables; simp)+

lemma bound_Consume [effect_intros]: "steps (preserving (scope_bound i S)) (InitialAccessToken_Consume e t h)"
  unfolding InitialAccessToken_Consume_def
  by (intro bound.world_steps bound.steps_sqlUpdate bound_tables) (auto split: list.split intro: bound.world_steps)

text \<open>A new client has a new identifier, a deleted one keeps its scopes.\<close>

lemma bound_Create [effect_intros]: "steps (preserving (scope_bound i S)) (Client_Create e c)"
proof -
  have "preserving (scope_bound i S) w (snd (run_state (Client_Create e c) w))" for w
    by (auto simp: Client_Create_def Let_def run_orReturn run_succeed clients.Insert_run preserving_def scope_bound_def clients_clash_def
        Client_row_def split: if_splits)
  then show ?thesis
    by (simp add: steps_def)
qed

lemma bound_map:
  assumes "\<And>c. c_ID (f c) = c_ID c" "\<And>c. registeredScopes (f c) = registeredScopes c"
  shows "preserving (scope_bound i S) w (clients_update (map f) w)"
  using assms by (simp add: preserving_def scope_bound_def)

lemma bound_Delete [effect_intros]: "steps (preserving (scope_bound i S)) (Client_Delete e t k)"
  unfolding Client_Delete_def
  by (intro bound.world_steps bound.steps_sqlUpdate bound_map) (simp_all add: registeredScopes_def)

text \<open>The scopes a request ends up with.\<close>

lemma cappedScopes_Inr:
  assumes "cappedScopes requested allowed msg = Inr scopes"
  shows "(\<Union>s \<in> set scopes. set (ParseScope s)) \<subseteq> (\<Union>s \<in> set allowed. set (ParseScope s))"
  using assms by (auto simp: cappedScopes_def Let_def ScopeIsSubset_iff ParseScope_Join split: if_splits)

lemma inv_pure:
  "(\<And>a. x = Inr a \<Longrightarrow> steps (preserving I) (k a)) \<Longrightarrow> steps (preserving I) (orReturn (State_Monad.return x) h k)"
  by (cases x) (auto simp: steps_def run_orReturn run_return preserving_def)

lemma bound_Register: "steps (preserving (scope_bound i S)) (Register e n t tok meta)"
  unfolding Register_def Let_def registerClient_def newClientSecret_def generateClientSecret_def hashClientSecret_def generateClientID_def
  by (intro bound.world_steps inv.steps_if effect_intros)

text \<open>An update rests on the scopes the client has.\<close>

lemma authorize_found:
  assumes "run_state (authorizeRegistration e t cid tok) w = (Inr c, w')"
  shows "c \<in> set (clients w) \<and> c_TenantID c = t \<and> c_ClientID c = cid \<and> client_live c \<and> c_DynamicallyRegistered c
     \<and> c_RegistrationAccessToken c = hashToken tok \<and> tok \<noteq> [] \<and> w' = w\<lparr>stmts := Suc (stmts w)\<rparr>"
  using assms
  by (auto simp: authorizeRegistration_def run_failWith run_succeed run_orReturn Client_GetByClientID_def clients.First_run
      split: if_splits option.splits dest: find_SomeD)

lemma authorize_failed:
  "run_state (authorizeRegistration e t cid tok) w = (Inl er, w') \<Longrightarrow> w' = w \<or> w' = w\<lparr>stmts := Suc (stmts w)\<rparr>"
  by (auto simp: authorizeRegistration_def run_failWith run_succeed run_orReturn Client_GetByClientID_def clients.First_run
      split: if_splits option.splits)

lemma bound_save:
  assumes "scope_bound i S w" "c0 \<in> set (clients w)" "c_ID c = c_ID c0" "registeredScopes c \<subseteq> registeredScopes c0"
  shows "scope_bound i S (snd (run_state (Client_Update e c) w))"
proof -
  have row: "c_ID (Client_row e (c\<lparr>c_UpdatedAt := now e\<rparr>)) = c_ID c0"
    "registeredScopes (Client_row e (c\<lparr>c_UpdatedAt := now e\<rparr>)) \<subseteq> registeredScopes c0"
    using assms(3,4) by (simp_all add: Client_row_def registeredScopes_def)
  have "scope_bound i S (w\<lparr>clients := save_row c_ID (Client_row e (c\<lparr>c_UpdatedAt := now e\<rparr>)) (clients w), stmts := k\<rparr>)" for k
    using assms(1,2) row by (cases "c_ID c0 = i") (auto simp: scope_bound_def save_row_set)
  then show ?thesis
    using assms(1) by (auto simp: Client_Update_def clients.Save_run scope_bound_def)
qed

lemma bound_UpdateRegistration: "steps (preserving (scope_bound i S)) (UpdateRegistration e n t cid tok meta)"
  unfolding steps_def preserving_def
proof (intro allI impI)
  fix w
  assume w: "scope_bound i S w"
  show "scope_bound i S (snd (run_state (UpdateRegistration e n t cid tok meta) w))"
  proof (cases "run_state (authorizeRegistration e t cid tok) w")
    case (Pair r v)
    show ?thesis
    proof (cases r)
      case (Inl er)
      then have "v = w \<or> v = w\<lparr>stmts := Suc (stmts w)\<rparr>"
        using Pair authorize_failed by simp
      then show ?thesis
        using w Pair Inl by (auto simp: UpdateRegistration_def run_orReturn scope_bound_def)
    next
      case (Inr c0)
      then have c0: "c0 \<in> set (clients v)" "scope_bound i S v"
        using authorize_found [of e t cid tok w c0 v] w Pair by (auto simp: scope_bound_def)
      have "scope_bound i S (snd (run_state (Client_Update e (c0\<lparr>c_Name := a, c_RedirectURIs := b, c_PostLogoutRedirectURIs := d, c_GrantTypes := g,
          c_Scopes := scopes, c_TokenEndpointAuthMethod := m, c_UpdatedAt := x\<rparr>)) v))"
        if "cappedScopes q (c_Scopes c0) msg = Inr scopes" for a b d g scopes m x q msg
        by (rule bound_save [OF c0(2,1)]) (use cappedScopes_Inr [OF that] in \<open>simp_all add: registeredScopes_def\<close>)
      then show ?thesis
        using c0 Pair Inr
        by (auto simp: UpdateRegistration_def run_orReturn run_return run_failWith run_succeed Let_def split: sum.split prod.split)
          (metis snd_conv)+
    qed
  qed
qed

lemma bound_handle: "steps (preserving (scope_bound i S)) (reg_handle e n r)"
proof (cases r)
  case (MintToken t by' req)
  have "steps (preserving (scope_bound i S)) (CreateInitialAccessToken e t by' req)"
    unfolding CreateInitialAccessToken_def Let_def by (intro bound.world_steps inv.steps_if effect_intros)
  then show ?thesis
    using MintToken by (auto intro!: inv.steps_bind inv.steps_return)
next
  case (WithdrawToken t k)
  have "steps (preserving (scope_bound i S)) (RevokeInitialAccessToken e t k)"
    unfolding RevokeInitialAccessToken_def by (rule bound_statements)
  then show ?thesis
    using WithdrawToken by (auto intro!: inv.steps_bind inv.steps_return)
next
  case (DeleteWith t cid tok)
  have "steps (preserving (scope_bound i S)) (DeleteRegistration e t cid tok)"
    unfolding DeleteRegistration_def authorizeRegistration_def DeleteClient_def by (intro bound.world_steps inv.steps_if effect_intros)
  then show ?thesis
    using DeleteWith by (auto intro!: inv.steps_bind inv.steps_return)
qed (auto intro!: inv.steps_bind inv.steps_return bound_Register bound_UpdateRegistration)

lemma bound_run: "scope_bound i S w \<Longrightarrow> scope_bound i S (snd (run_state (reg_run n rs) w))"
proof -
  have "steps (preserving (scope_bound i S)) (reg_run n rs)"
    by (induction rs rule: reg_run.induct) (auto intro!: inv.steps_bind inv.steps_return bound_handle)
  then show "scope_bound i S w \<Longrightarrow> scope_bound i S (snd (run_state (reg_run n rs) w))"
    by (simp add: steps_def preserving_def)
qed

section \<open>What a registration stores\<close>

lemma registerClient_Inr:
  assumes "run_state (registerClient e t md scopes) w = (Inr resp, w')"
  shows "\<exists>v i cid sec tok client. run_state (Client_Create e (registeredClient e t md scopes i cid sec tok)) v = (Inr client, w')
     \<and> (\<exists>k bytes. randBytes e k registrationTokenBytes = Some bytes \<and> tok = b64url bytes)
     \<and> rr_RegistrationAccessToken resp = tok
     \<and> resp\<lparr>rr_ClientSecret := [], rr_ClientSecretExpiresAt := None, rr_RegistrationAccessToken := []\<rparr>
         = registrationResponse (cf_ServerURL (config e)) client"
proof -
  obtain tok v1 plain hash v2 where 1: "run_state (randomToken e registrationTokenBytes) w = (Inr tok, v1)"
    and 2: "run_state (do {
         i \<leftarrow> uuid_New e;
         clientID \<leftarrow> generateClientID e;
         orReturn (Client_Create e (registeredClient e t md scopes i clientID hash tok)) (Wrapped ''failed to create client'') (\<lambda>client.
         succeed ((registrationResponse (cf_ServerURL (config e)) client)\<lparr>rr_ClientSecret := plain,
           rr_ClientSecretExpiresAt := (if plain \<noteq> [] then Some 0 else None), rr_RegistrationAccessToken := tok\<rparr>))
       }) v2 = (Inr resp, w')"
    using assms unfolding registerClient_def orReturn_Inr_iff by auto
  obtain i v3 where 3: "run_state (uuid_New e) v2 = (i, v3)"
    by fastforce
  obtain cid v4 where 4: "run_state (generateClientID e) v3 = (cid, v4)"
    by fastforce
  obtain client where *: "run_state (Client_Create e (registeredClient e t md scopes i cid hash tok)) v4 = (Inr client, w')"
    "resp = (registrationResponse (cf_ServerURL (config e)) client)\<lparr>rr_ClientSecret := plain,
       rr_ClientSecretExpiresAt := (if plain \<noteq> [] then Some 0 else None), rr_RegistrationAccessToken := tok\<rparr>"
    using 2 by (auto simp: run_bind 3 4 orReturn_Inr_iff run_succeed)
  have "\<exists>k bytes. randBytes e k registrationTokenBytes = Some bytes \<and> tok = b64url bytes"
    using 1 by (auto simp: run_randomToken split: option.splits)
  moreover have "resp\<lparr>rr_ClientSecret := [], rr_ClientSecretExpiresAt := None, rr_RegistrationAccessToken := []\<rparr>
      = registrationResponse (cf_ServerURL (config e)) client" "rr_RegistrationAccessToken resp = tok"
    unfolding *(2) by (simp_all add: registrationResponse_def Let_def)
  ultimately show ?thesis
    using *(1) by blast
qed

text \<open>The client of a successful registration, by the token presented and none other.\<close>

lemma Register_Inr:
  assumes "run_state (Register e n t tok meta) w = (Inr resp, w1)"
  shows "\<exists>ia c. find (\<lambda>x. ia_TenantID x = t \<and> ia_TokenHash x = hashToken tok) (initial_access_tokens w) = Some ia
     \<and> (\<exists>cs. clients w1 = cs @ [c] \<and> (\<forall>x \<in> set cs. c_ID x \<noteq> c_ID c)) \<and> c_TenantID c = t \<and> c_ClientID c = rr_ClientID resp
     \<and> c_DynamicallyRegistered c \<and> registeredScopes c \<subseteq> token_scopes ia"
proof -
  obtain iat v1 md scopes v2 where 1: "run_state (InitialAccessToken_GetByHash e t (hashToken tok)) w = (Inr iat, v1)"
    and 2: "cappedScopes (rm_scopes md) (ia_Scopes iat) ''scope exceeds what this initial access token allows'' = Inr scopes"
    and 3: "run_state (registerClient e t md scopes) v2 = (Inr resp, w1)"
    using assms by (auto simp: Register_def Let_def orReturn_Inr_iff run_return run_failWith split: if_splits)
  have found: "find (\<lambda>x. ia_TenantID x = t \<and> ia_TokenHash x = hashToken tok) (initial_access_tokens w) = Some iat"
    using 1 by (auto simp: InitialAccessToken_GetByHash_def initial_access_tokens.First_run split: if_splits option.splits)
  obtain v i cid sec rat client where *:
    "run_state (Client_Create e (registeredClient e t md scopes i cid sec rat)) v = (Inr client, w1)"
    "resp\<lparr>rr_ClientSecret := [], rr_ClientSecretExpiresAt := None, rr_RegistrationAccessToken := []\<rparr>
       = registrationResponse (cf_ServerURL (config e)) client"
    using registerClient_Inr [OF 3] by blast
  note row = Client_Create_Inr [OF *(1)]
  have "rr_ClientID resp = rr_ClientID (resp\<lparr>rr_ClientSecret := [], rr_ClientSecretExpiresAt := None, rr_RegistrationAccessToken := []\<rparr>)"
    by simp
  then have "rr_ClientID resp = c_ClientID (Client_row e client)"
    unfolding *(2) by (simp add: registrationResponse_def Let_def Client_row_def)
  moreover have "registeredScopes (Client_row e client) \<subseteq> token_scopes iat"
    using row cappedScopes_Inr [OF 2] by (simp add: registeredScopes_def Client_row_def registeredClient_def token_scopes_def)
  ultimately show ?thesis
    using found row by (intro exI [of _ iat] exI [of _ "Client_row e client"]) (auto simp: Client_row_def registeredClient_def clients_clash_def)
qed

text \<open>C27: A client registered with an initial access token never asks for a scope beyond what that very token allowed, through any
  later registrations, updates and deletions, with tokens minted and revoked in between and any database faults.\<close>

theorem registered_scopes_capped:
  assumes "run_state (Register e n t tok meta) w = (Inr resp, w1)"
  shows "\<exists>ia i. find (\<lambda>x. ia_TenantID x = t \<and> ia_TokenHash x = hashToken tok) (initial_access_tokens w) = Some ia
     \<and> (\<exists>c \<in> set (clients w1). c_ID c = i \<and> c_TenantID c = t \<and> c_ClientID c = rr_ClientID resp \<and> c_DynamicallyRegistered c)
     \<and> (\<forall>n' rs. \<forall>c \<in> set (clients (snd (run_state (reg_run n' rs) w1))). c_ID c = i \<longrightarrow> registeredScopes c \<subseteq> token_scopes ia)"
proof -
  obtain ia c cs where c: "find (\<lambda>x. ia_TenantID x = t \<and> ia_TokenHash x = hashToken tok) (initial_access_tokens w) = Some ia"
    "clients w1 = cs @ [c]" "\<forall>x \<in> set cs. c_ID x \<noteq> c_ID c" "c_TenantID c = t" "c_ClientID c = rr_ClientID resp"
    "c_DynamicallyRegistered c" "registeredScopes c \<subseteq> token_scopes ia"
    using Register_Inr [OF assms] by blast
  have "scope_bound (c_ID c) (token_scopes ia) w1"
    using c(2,3,7) by (auto simp: scope_bound_def)
  then have "\<forall>n' rs. \<forall>x \<in> set (clients (snd (run_state (reg_run n' rs) w1))). c_ID x = c_ID c \<longrightarrow> registeredScopes x \<subseteq> token_scopes ia"
    using bound_run by (simp add: scope_bound_def)
  then show ?thesis
    using c(1,2,4-6) by (intro exI [of _ ia] exI [of _ "c_ID c"]) auto
qed

end
