(* ===== verification/RegistrationLimits.thy ===== *)
theory RegistrationLimits
  imports RegistrationProperties
begin

text \<open>How often an initial access token registers clients, and what the registration token of a client opens.\<close>

section \<open>A token registers at most as often as it says\<close>

definition token_row :: "string \<Rightarrow> world \<Rightarrow> InitialAccessToken option" where
  "token_row h w = find (\<lambda>ia. ia_TokenHash ia = h) (initial_access_tokens w)"

text \<open>The row of a token stays, its limit is fixed, its count grows by at least \<open>k\<close> and stays within the limit.\<close>

definition counts :: "string \<Rightarrow> int \<Rightarrow> world \<Rightarrow> world \<Rightarrow> bool" where
  "counts h k w w' \<longleftrightarrow> (distinct (map ia_TokenHash (initial_access_tokens w)) \<longrightarrow> distinct (map ia_TokenHash (initial_access_tokens w')))
     \<and> (\<forall>ia. distinct (map ia_TokenHash (initial_access_tokens w)) \<and> token_row h w = Some ia \<longrightarrow>
          (\<exists>ia'. token_row h w' = Some ia' \<and> ia_MaxUses ia' = ia_MaxUses ia \<and> ia_TenantID ia' = ia_TenantID ia
             \<and> ia_Uses ia + k \<le> ia_Uses ia' \<and> (ia_Uses ia \<le> ia_MaxUses ia \<longrightarrow> ia_Uses ia' \<le> ia_MaxUses ia')))"

lemma counts_trans:
  assumes "counts h k u v" "counts h l v w"
  shows "counts h (k + l) u w"
  unfolding counts_def
proof (intro conjI impI allI; (elim conjE)?)
  assume d: "distinct (map ia_TokenHash (initial_access_tokens u))"
  then show "distinct (map ia_TokenHash (initial_access_tokens w))"
    using assms by (simp add: counts_def)
  fix ia
  assume "token_row h u = Some ia"
  then obtain ia1 where 1: "token_row h v = Some ia1" "ia_MaxUses ia1 = ia_MaxUses ia" "ia_TenantID ia1 = ia_TenantID ia"
    "ia_Uses ia + k \<le> ia_Uses ia1" "ia_Uses ia \<le> ia_MaxUses ia \<longrightarrow> ia_Uses ia1 \<le> ia_MaxUses ia1"
    using assms(1) d unfolding counts_def by blast
  have "distinct (map ia_TokenHash (initial_access_tokens v))"
    using assms(1) d by (simp add: counts_def)
  then obtain ia2 where "token_row h w = Some ia2" "ia_MaxUses ia2 = ia_MaxUses ia1" "ia_TenantID ia2 = ia_TenantID ia1"
    "ia_Uses ia1 + l \<le> ia_Uses ia2" "ia_Uses ia1 \<le> ia_MaxUses ia1 \<longrightarrow> ia_Uses ia2 \<le> ia_MaxUses ia2"
    using assms(2) 1(1) unfolding counts_def by blast
  then show "\<exists>ia'. token_row h w = Some ia' \<and> ia_MaxUses ia' = ia_MaxUses ia \<and> ia_TenantID ia' = ia_TenantID ia
      \<and> ia_Uses ia + (k + l) \<le> ia_Uses ia' \<and> (ia_Uses ia \<le> ia_MaxUses ia \<longrightarrow> ia_Uses ia' \<le> ia_MaxUses ia')"
    using 1 by auto
qed

interpretation uses: world_preorder "counts h 0" for h
proof
  show "counts h 0 s s" for s
    by (simp add: counts_def)
  show "counts h 0 s u" if "counts h 0 s t" "counts h 0 t u" for s t u
    using counts_trans [OF that] by simp
  show "counts h 0 w (w\<lparr>stmts := n, draws := d\<rparr>)" for w n d
    by (simp add: counts_def token_row_def)
qed

lemma counts_tables: "initial_access_tokens w' = initial_access_tokens w \<Longrightarrow> counts h 0 w w'"
  by (simp add: counts_def token_row_def)

lemma find_map: "find P (map f xs) = map_option f (find (\<lambda>x. P (f x)) xs)"
  by (induction xs) auto

lemma counts_map:
  assumes "\<And>ia. ia_TokenHash (f ia) = ia_TokenHash ia" "\<And>ia. ia_MaxUses (f ia) = ia_MaxUses ia" "\<And>ia. ia_TenantID (f ia) = ia_TenantID ia"
    "\<And>ia. ia_TokenHash ia = h \<Longrightarrow> ia_Uses ia \<le> ia_Uses (f ia)"
    "\<And>ia. ia_Uses ia \<le> ia_MaxUses ia \<Longrightarrow> ia_Uses (f ia) \<le> ia_MaxUses ia"
  shows "counts h 0 w (initial_access_tokens_update (map f) w)"
  using assms by (auto simp: counts_def token_row_def find_map comp_def dest!: find_SomeD)

lemma uses_writes [effect_intros]:
  "steps (counts h 0) (Client_Create e c)" "steps (counts h 0) (Client_Update e c)" "steps (counts h 0) (Client_Delete e t i)"
  "steps (counts h 0) (AccessToken_DeleteByClientID e t i)" "steps (counts h 0) (RefreshToken_DeleteByClientID e t i)"
  "steps (counts h 0) (Client_GetByClientID e t cid)" "steps (counts h 0) (Client_GetByID e t i)"
  "steps (counts h 0) (InitialAccessToken_GetByHash e t h')"
  unfolding Client_Create_def Client_Update_def Client_Delete_def AccessToken_DeleteByClientID_def RefreshToken_DeleteByClientID_def
    Client_GetByClientID_def Client_GetByID_def InitialAccessToken_GetByHash_def Let_def
  by (intro uses.world_steps uses.steps_sqlInsert uses.steps_sqlSave uses.steps_sqlUpdate uses.steps_sqlDelete counts_tables; simp)+

lemma uses_Mint [effect_intros]: "steps (counts h 0) (InitialAccessToken_Create e ia)"
proof -
  have "counts h 0 w (snd (run_state (InitialAccessToken_Create e ia) w))" for w
    by (auto simp: InitialAccessToken_Create_def initial_access_tokens.Insert_run initial_access_tokens_clash_def counts_def token_row_def find_append)
  then show ?thesis
    by (simp add: steps_def)
qed

lemma uses_Withdraw [effect_intros]: "steps (counts h 0) (InitialAccessToken_Revoke e t i)"
  unfolding InitialAccessToken_Revoke_def by (intro uses.world_steps uses.steps_sqlUpdate counts_map) auto

lemma uses_Consume: "steps (counts h 0) (InitialAccessToken_Consume e t h')"
  unfolding InitialAccessToken_Consume_def
  by (intro uses.world_steps uses.steps_sqlUpdate counts_map) (auto split: list.split intro: uses.world_steps)

text \<open>A use that succeeds is counted.\<close>

lemma Consume_counts:
  assumes "run_state (InitialAccessToken_Consume e t h) w = (Inr x, w')"
  shows "counts h 1 w w'"
proof -
  let ?P = "\<lambda>t'. ia_TenantID t' = t \<and> ia_TokenHash t' = h \<and> ia_RevokedAt t' = None \<and> now e < ia_ExpiresAt t' \<and> ia_Uses t' < ia_MaxUses t'"
  let ?f = "\<lambda>r. if ?P r then r\<lparr>ia_Uses := ia_Uses r + 1\<rparr> else r"
  have "filter ?P (initial_access_tokens w) \<noteq> []" and w': "initial_access_tokens w' = map ?f (initial_access_tokens w)"
    using assms by (auto simp: InitialAccessToken_Consume_def run_orReturn initial_access_tokens.Update_run run_failWith run_succeed
        split: if_splits list.splits)
  then have hit: "\<exists>r \<in> set (initial_access_tokens w). ?P r"
    unfolding filter_empty_conv by blast
  have hash: "ia_TokenHash (?f r) = ia_TokenHash r" for r
    by simp
  show ?thesis
    unfolding counts_def
  proof (intro conjI impI allI; (elim conjE)?)
    assume d: "distinct (map ia_TokenHash (initial_access_tokens w))"
    then show "distinct (map ia_TokenHash (initial_access_tokens w'))"
      unfolding w' map_map comp_def by (simp only: hash)
    fix ia
    assume ia: "token_row h w = Some ia"
    obtain r where r: "r \<in> set (initial_access_tokens w)" "?P r"
      using hit by blast
    then have "r = ia"
      using distinct_map_eq [OF d r(1), of ia] find_SomeD [OF ia [unfolded token_row_def]] by simp
    moreover have "token_row h w' = map_option ?f (token_row h w)"
      unfolding token_row_def w' find_map hash ..
    ultimately show "\<exists>ia'. token_row h w' = Some ia' \<and> ia_MaxUses ia' = ia_MaxUses ia \<and> ia_TenantID ia' = ia_TenantID ia
        \<and> ia_Uses ia + 1 \<le> ia_Uses ia' \<and> (ia_Uses ia \<le> ia_MaxUses ia \<longrightarrow> ia_Uses ia' \<le> ia_MaxUses ia')"
      using r(2) ia by auto
  qed
qed

lemma uses_registerClient: "steps (counts h 0) (registerClient e t md scopes)"
  unfolding registerClient_def newClientSecret_def generateClientSecret_def hashClientSecret_def generateClientID_def
  by (intro uses.world_steps effect_intros uses.steps_if)

lemma uses_Register: "steps (counts h 0) (Register e n t tok meta)"
  unfolding Register_def Let_def
  by (intro uses.world_steps uses.steps_if effect_intros uses_Consume uses_registerClient)

lemma Register_counts:
  assumes "run_state (Register e n t tok meta) w = (Inr resp, w')"
  shows "counts (hashToken tok) 1 w w'"
proof -
  let ?h = "hashToken tok"
  obtain iat md scopes x v1 v2 where 1: "run_state (InitialAccessToken_GetByHash e t ?h) w = (Inr iat, v1)"
    and 2: "run_state (InitialAccessToken_Consume e t ?h) v1 = (Inr x, v2)"
    and 3: "run_state (registerClient e t md scopes) v2 = (Inr resp, w')"
    using assms by (auto simp: Register_def Let_def orReturn_Inr_iff run_return run_failWith split: if_splits)
  have "counts ?h 0 w v1" "counts ?h 0 v2 w'"
    using uses.steps_run [OF uses_writes(8) 1] uses.steps_run [OF uses_registerClient 3] by simp_all
  then show ?thesis
    using counts_trans [of ?h 0 w v1 1 v2] Consume_counts [OF 2] counts_trans [of ?h 1 w v2 0 w'] by simp
qed

definition registered_with :: "string \<Rightarrow> (uuid \<times> string) option \<Rightarrow> bool" where
  "registered_with tok a \<longleftrightarrow> (\<exists>t. a = Some (t, tok))"

lemma handle_counts:
  assumes "run_state (reg_handle e n r) w = (a, w')"
  shows "counts (hashToken tok) (if registered_with tok a then 1 else 0) w w'"
proof (cases r)
  case (MintToken t by' req)
  have "steps (counts h 0) (CreateInitialAccessToken e t by' req)" for h
    unfolding CreateInitialAccessToken_def Let_def by (intro uses.world_steps uses.steps_if effect_intros)
  then show ?thesis
    using assms MintToken by (auto simp: run_bind run_return registered_with_def steps_def split: prod.splits) (metis snd_conv)
next
  case (WithdrawToken t i)
  have "steps (counts h 0) (RevokeInitialAccessToken e t i)" for h
    unfolding RevokeInitialAccessToken_def by (rule uses_Withdraw)
  then show ?thesis
    using assms WithdrawToken by (auto simp: run_bind run_return registered_with_def steps_def split: prod.splits) (metis snd_conv)
next
  case (RegisterWith t tok1 meta)
  obtain r1 where r1: "run_state (Register e n t tok1 meta) w = (r1, w')" "a = (case r1 of Inl _ \<Rightarrow> None | Inr _ \<Rightarrow> Some (t, tok1))"
    using assms RegisterWith by (auto simp: run_bind run_return split: prod.splits)
  then show ?thesis
    using Register_counts [of e n t tok1 meta w _ w'] uses.steps_run [OF uses_Register r1(1)]
    by (auto simp: registered_with_def split: sum.splits)
next
  case (UpdateWith t cid tok1 meta)
  have "steps (counts h 0) (UpdateRegistration e n t cid tok1 meta)" for h
    unfolding UpdateRegistration_def authorizeRegistration_def Let_def by (intro uses.world_steps uses.steps_if effect_intros)
  then show ?thesis
    using assms UpdateWith by (auto simp: run_bind run_return registered_with_def steps_def split: prod.splits) (metis snd_conv)
next
  case (DeleteWith t cid tok1)
  have "steps (counts h 0) (DeleteRegistration e t cid tok1)" for h
    unfolding DeleteRegistration_def authorizeRegistration_def DeleteClient_def by (intro uses.world_steps uses.steps_if effect_intros)
  then show ?thesis
    using assms DeleteWith by (auto simp: run_bind run_return registered_with_def steps_def split: prod.splits) (metis snd_conv)
qed

lemma run_counts:
  "run_state (reg_run n rs) w = (as, w') \<Longrightarrow> counts (hashToken tok) (int (length (filter (registered_with tok) as))) w w'"
proof (induction rs arbitrary: w as w')
  case Nil
  then show ?case
    by (simp add: run_return uses.R_refl)
next
  case (Cons x rs)
  obtain e r where x: "x = (e, r)"
    by fastforce
  obtain a as1 v where a: "run_state (reg_handle e n r) w = (a, v)" "run_state (reg_run n rs) v = (as1, w')" "as = a # as1"
    using Cons.prems x by (auto simp: run_bind run_return split: prod.splits)
  show ?case
    using counts_trans [OF handle_counts [OF a(1), of tok] Cons.IH [OF a(2)]] a(3) by (simp split: if_splits)
qed

text \<open>C28: However many registrations are attempted with an initial access token, interleaved with any other requests and under any
  database faults, it registers at most as many clients as it has uses left.\<close>

theorem registration_uses_bounded:
  assumes "distinct (map ia_TokenHash (initial_access_tokens w))" "ia \<in> set (initial_access_tokens w)"
    and "ia_TokenHash ia = hashToken tok" "ia_Uses ia \<le> ia_MaxUses ia"
  shows "int (length (filter (registered_with tok) (fst (run_state (reg_run n rs) w)))) \<le> ia_MaxUses ia - ia_Uses ia"
proof -
  obtain as w' where run: "run_state (reg_run n rs) w = (as, w')"
    by fastforce
  have "token_row (hashToken tok) w = Some ia"
    unfolding token_row_def using find_key [OF assms(1,2)] assms(3) by simp
  then show ?thesis
    using run_counts [OF run, of tok] assms(1,4) by (auto simp: counts_def run)
qed

section \<open>The registration token\<close>

lemma authorizeRegistration_run:
  assumes "find (\<lambda>c. c_TenantID c = t \<and> c_ClientID c = cid \<and> client_live c) (clients w) = Some c" "\<not> fails e (stmts w)"
    and "c_DynamicallyRegistered c" "c_RegistrationAccessToken c = hashToken tok"
  shows "run_state (authorizeRegistration e t cid other) w =
     (if other = [] then (Inl ErrInvalidToken, w)
      else (if hashToken tok = hashToken other then Inr c else Inl ErrInvalidToken, w\<lparr>stmts := Suc (stmts w)\<rparr>))"
  using assms b64url_sha256_nonempty [of tok]
  by (auto simp: authorizeRegistration_def run_failWith run_succeed run_orReturn Client_GetByClientID_def clients.First_run hashToken_def)

text \<open>C29: The registration token handed out with a new client opens exactly that registration: reading it back gives what was
  answered, without the secrets, and any other token is refused, up to a collision of SHA-256.\<close>

theorem registration_roundtrip:
  assumes "run_state (Register e n t tok meta) w = (Inr resp, w')"
    and "\<forall>k bytes. randBytes e k registrationTokenBytes = Some bytes \<longrightarrow> bytes \<noteq> []"
    and "\<not> fails e2 (stmts w')" "config e2 = config e"
  shows "run_state (ReadRegistration e2 t (rr_ClientID resp) (rr_RegistrationAccessToken resp)) w' =
       (Inr (resp\<lparr>rr_ClientSecret := [], rr_ClientSecretExpiresAt := None, rr_RegistrationAccessToken := []\<rparr>), w'\<lparr>stmts := Suc (stmts w')\<rparr>)
     \<and> (\<forall>other. sha256 other \<noteq> sha256 (rr_RegistrationAccessToken resp) \<longrightarrow>
          fst (run_state (ReadRegistration e2 t (rr_ClientID resp) other) w') = Inl ErrInvalidToken)"
proof -
  obtain md scopes v2 where reg: "run_state (registerClient e t md scopes) v2 = (Inr resp, w')"
    using assms(1) by (auto simp: Register_def Let_def orReturn_Inr_iff run_return run_failWith split: if_splits)
  obtain v i cid sec rat client where *:
    "run_state (Client_Create e (registeredClient e t md scopes i cid sec rat)) v = (Inr client, w')"
    "\<exists>k bytes. randBytes e k registrationTokenBytes = Some bytes \<and> rat = b64url bytes" "rr_RegistrationAccessToken resp = rat"
    "resp\<lparr>rr_ClientSecret := [], rr_ClientSecretExpiresAt := None, rr_RegistrationAccessToken := []\<rparr>
       = registrationResponse (cf_ServerURL (config e)) client"
    using registerClient_Inr [OF reg] by blast
  note row = Client_Create_Inr [OF *(1)]
  have c: "c_TenantID client = t" "c_ClientID client = cid" "client_live client" "c_DynamicallyRegistered client"
    "c_RegistrationAccessToken client = hashToken rat"
    using row by (simp_all add: registeredClient_def client_live_def)
  have "rr_ClientID resp = rr_ClientID (resp\<lparr>rr_ClientSecret := [], rr_ClientSecretExpiresAt := None, rr_RegistrationAccessToken := []\<rparr>)"
    by simp
  then have id: "rr_ClientID resp = cid"
    unfolding *(4) using c(2) by (simp add: registrationResponse_def Let_def)
  let ?P = "\<lambda>c. c_TenantID c = t \<and> c_ClientID c = cid \<and> client_live c"
  have "find ?P (clients v) = None"
    using row c by (auto simp: find_None_iff clients_clash_def Client_row_def client_live_def)
  then have found: "find ?P (clients w') = Some (Client_row e client)"
    using row c by (simp add: find_append Client_row_def client_live_def)
  have stored: "c_DynamicallyRegistered (Client_row e client)" "c_RegistrationAccessToken (Client_row e client) = hashToken rat"
    "registrationResponse url (Client_row e client) = registrationResponse url client" for url
    using c by (simp_all add: Client_row_def registrationResponse_def Client_HasGrantType_def)
  have "b64url [] = []"
    by (simp add: b64url_def byte_codes_def)
  then have "rat \<noteq> []"
    using *(2) assms(2) b64url_inj [of _ "[]"] by auto
  then show ?thesis
    using authorizeRegistration_run [OF found assms(3) stored(1,2)] *(3,4) id stored(3) assms(4)
    by (auto simp: ReadRegistration_def run_orReturn run_succeed hashToken_eq_iff)
qed

section \<open>Instances\<close>

definition reg_token :: InitialAccessToken where
  "reg_token = \<lparr>ia_ID = 70, ia_TenantID = 1, ia_TokenHash = hashToken ''abc'', ia_Description = [], ia_Scopes = [''read''], ia_MaxUses = 2,
     ia_Uses = 0, ia_CreatedBy = None, ia_ExpiresAt = 5000, ia_RevokedAt = None, ia_CreatedAt = 0\<rparr>"

definition reg_world :: world where
  "reg_world = empty_world\<lparr>initial_access_tokens := [reg_token]\<rparr>"

definition reg_net :: netlib where
  "reg_net = \<lparr>url_Parse = (\<lambda>_. Some \<lparr>pu_Scheme = ''https'', pu_Host = ''app'', pu_Hostname = ''app'', pu_HasUser = False\<rparr>),
     ip_IsLoopback = (\<lambda>_. False)\<rparr>"

definition reg_meta :: ClientMetadata where
  "reg_meta = \<lparr>md_ClientID = [], md_RedirectURIs = [''https://app/cb''], md_PostLogoutRedirectURIs = [], md_TokenEndpointAuthMethod = ''none'',
     md_GrantTypes = [], md_ResponseTypes = [], md_ClientName = ''App'', md_Scope = ''read''\<rparr>"

lemma reg_validate: "validateClientMetadata sample_env reg_net reg_meta = Inr
   \<lparr>rm_name = ''App'', rm_redirectURIs = [''https://app/cb''], rm_postLogoutRedirectURIs = [], rm_grantTypes = [''authorization_code''],
    rm_authMethod = ''none'', rm_scopes = [''read'']\<rparr>"
  unfolding sample_env_def reg_net_def reg_meta_def by code_simp

lemma reg_capped: "cappedScopes [''read''] [''read''] ''scope exceeds what this initial access token allows'' = Inr [''read'']"
  by code_simp

lemma reg_env: "now sample_env = 1000" "fails sample_env k = False" "randBytes sample_env k m = Some rfc7636_octets"
  by (simp_all add: sample_env_def)

lemma reg_register:
  "\<exists>resp w'. run_state (Register sample_env reg_net 1 ''abc'' reg_meta) reg_world = (Inr resp, w') \<and> length (clients w') = 1"
  by (simp add: Register_def registerClient_def Let_def InitialAccessToken_GetByHash_def InitialAccessToken_Consume_def run_orReturn
      run_return run_bind run_succeed run_uuid_New run_randomToken initial_access_tokens.First_run initial_access_tokens.Update_run
      generateClientID_def Client_Create_def clients.Insert_run reg_world_def reg_token_def reg_validate reg_capped
      rm_isPublic_def TokenEndpointAuthNone_def empty_world_def reg_env)

lemma registered_scopes_capped_witness:
  "\<exists>resp w1. run_state (Register sample_env reg_net 1 ''abc'' reg_meta) reg_world = (Inr resp, w1)
     \<and> (\<exists>i. (\<exists>c \<in> set (clients w1). c_ID c = i \<and> c_ClientID c = rr_ClientID resp)
         \<and> (\<forall>c \<in> set (clients (snd (run_state (reg_run reg_net [(sample_env, WithdrawToken 1 70)]) w1))). c_ID c = i \<longrightarrow>
              registeredScopes c \<subseteq> {''read''}))"
proof -
  obtain resp w1 where run: "run_state (Register sample_env reg_net 1 ''abc'' reg_meta) reg_world = (Inr resp, w1)"
    using reg_register by blast
  have "ParseScope ''read'' = [''read'']"
    by code_simp
  then have scopes: "token_scopes reg_token = {''read''}"
    by (simp add: token_scopes_def reg_token_def)
  have "find (\<lambda>x. ia_TenantID x = 1 \<and> ia_TokenHash x = hashToken ''abc'') (initial_access_tokens reg_world) = Some reg_token"
    by (simp add: reg_world_def reg_token_def)
  then obtain i where "\<exists>c \<in> set (clients w1). c_ID c = i \<and> c_TenantID c = 1 \<and> c_ClientID c = rr_ClientID resp \<and> c_DynamicallyRegistered c"
    "\<forall>n' rs. \<forall>c \<in> set (clients (snd (run_state (reg_run n' rs) w1))). c_ID c = i \<longrightarrow> registeredScopes c \<subseteq> token_scopes reg_token"
    using registered_scopes_capped [OF run] by (elim exE conjE) simp
  then show ?thesis
    unfolding scopes using run by blast
qed

lemma registration_uses_bounded_witness:
  "int (length (filter (registered_with ''abc'') (fst (run_state (reg_run reg_net (replicate 5 (sample_env, RegisterWith 1 ''abc'' reg_meta))) reg_world)))) \<le> 2"
  using registration_uses_bounded [of reg_world reg_token "''abc''" reg_net "replicate 5 (sample_env, RegisterWith 1 ''abc'' reg_meta)"]
  by (simp add: reg_world_def reg_token_def)

lemma registration_roundtrip_witness:
  "\<exists>resp w'. run_state (Register sample_env reg_net 1 ''abc'' reg_meta) reg_world = (Inr resp, w')
     \<and> fst (run_state (ReadRegistration sample_env 1 (rr_ClientID resp) (rr_RegistrationAccessToken resp)) w')
         = Inr (resp\<lparr>rr_ClientSecret := [], rr_ClientSecretExpiresAt := None, rr_RegistrationAccessToken := []\<rparr>)"
proof -
  obtain resp w' where run: "run_state (Register sample_env reg_net 1 ''abc'' reg_meta) reg_world = (Inr resp, w')"
    using reg_register by blast
  have rand: "\<forall>k bytes. randBytes sample_env k registrationTokenBytes = Some bytes \<longrightarrow> bytes \<noteq> []"
    by (simp add: sample_env_def rfc7636_octets_def)
  have ok: "\<not> fails sample_env (stmts w')"
    by (simp add: sample_env_def)
  show ?thesis
    using registration_roundtrip [OF run rand ok refl] run by auto
qed

text \<open>The lifetime is multiplied in 64 bits: some 585 years wrap to 1.29 seconds and pass the check meant to bound it by 30 days.\<close>

lemma expires_in_wraps:
  "\<exists>ia tok w'. run_state (CreateInitialAccessToken sample_env 1 None
     \<lparr>cia_Description = [], cia_Scopes = [''read''], cia_ExpiresIn = 18446744075, cia_MaxUses = 1\<rparr>) empty_world = (Inr (ia, tok), w')
     \<and> ia_ExpiresAt ia = 1290449384"
proof -
  have "dedupe [''read''] = [''read'']" "validScopeToken ''read''"
    by code_simp+
  then show ?thesis
    by (simp add: CreateInitialAccessToken_def Let_def seconds_def wrap64_def nanosecond_per_second_def maxInitialAccessTokenTTL_def
        maxInitialAccessTokenUses_def run_orReturn run_bind run_succeed run_uuid_New run_randomToken reg_env InitialAccessToken_Create_def
        initial_access_tokens.Insert_run empty_world_def)
qed

end
