(* ===== verification/MetadataProperties.thy ===== *)
theory MetadataProperties
  imports RegistrationLimits
begin

text \<open>What validated client metadata looks like.\<close>

text \<open>Where a registered client may send browsers: https with a host and no user information, http to the loopback interface, or
  a private-use scheme that is a reverse domain name; never a fragment, never \<^verbatim>\<open>javascript:\<close> or \<^verbatim>\<open>data:\<close>.\<close>

definition safe_uri :: "env \<Rightarrow> netlib \<Rightarrow> string \<Rightarrow> bool" where
  "safe_uri e n raw \<longleftrightarrow> raw \<noteq> [] \<and> CHR ''#'' \<notin> set raw \<and> length raw \<le> maxRegisteredURILen
     \<and> (\<exists>u. url_Parse n raw = Some u \<and> pu_Scheme u \<noteq> [] \<and>
          (strings_ToLower (uniLower e) (pu_Scheme u) = ''https'' \<and> pu_Host u \<noteq> [] \<and> \<not> pu_HasUser u
           \<or> strings_ToLower (uniLower e) (pu_Scheme u) = ''http'' \<and> isLoopback n (pu_Hostname u) \<and> \<not> pu_HasUser u
           \<or> CHR ''.'' \<in> set (pu_Scheme u)))"

definition wf_metadata :: "env \<Rightarrow> netlib \<Rightarrow> registeredMetadata \<Rightarrow> bool" where
  "wf_metadata e n m \<longleftrightarrow>
     rm_grantTypes m \<noteq> [] \<and> set (rm_grantTypes m) \<subseteq> set dynamicGrantTypes \<and> distinct (rm_grantTypes m)
     \<and> (GrantTypeRefreshToken \<in> set (rm_grantTypes m) \<longrightarrow>
          GrantTypeAuthorizationCode \<in> set (rm_grantTypes m) \<or> GrantTypeDeviceCode \<in> set (rm_grantTypes m))
     \<and> (GrantTypeAuthorizationCode \<in> set (rm_grantTypes m) \<longrightarrow> rm_redirectURIs m \<noteq> [])
     \<and> rm_authMethod m \<in> {TokenEndpointAuthNone, TokenEndpointAuthClientSecretBasic, TokenEndpointAuthClientSecretPost}
     \<and> (rm_isPublic m \<longrightarrow> GrantTypeClientCredentials \<notin> set (rm_grantTypes m))
     \<and> (\<forall>us \<in> {rm_redirectURIs m, rm_postLogoutRedirectURIs m}. distinct us \<and> length us \<le> maxRegisteredURIs \<and> list_all (safe_uri e n) us)
     \<and> rm_name m \<noteq> [] \<and> length (rm_name m) \<le> maxClientNameLength \<and> \<not> hasControl (rm_name m)
     \<and> length (rm_scopes m) \<le> maxRegisteredScopes \<and> list_all validScopeToken (rm_scopes m)"

lemma dedupe_loop_wf: "distinct (dedupe_loop seen vs) \<and> set (dedupe_loop seen vs) \<inter> set seen = {} \<and> [] \<notin> set (dedupe_loop seen vs)"
  by (induction seen vs rule: dedupe_loop.induct) (auto simp: Let_def)

lemma dedupe_wf: "distinct (dedupe vs)" "[] \<notin> set (dedupe vs)"
  using dedupe_loop_wf [of "[]" vs] by (simp_all add: dedupe_def)

lemma checkRegisteredURI_None: "checkRegisteredURI e n field raw = None \<Longrightarrow> raw \<noteq> [] \<Longrightarrow> safe_uri e n raw"
  by (auto simp: checkRegisteredURI_def safe_uri_def Let_def split: if_splits option.splits)

lemma checkRegisteredURIs_None:
  "checkRegisteredURIs e n field uris = None \<Longrightarrow> [] \<notin> set uris \<Longrightarrow> list_all (safe_uri e n) uris"
  by (induction uris) (auto simp: checkRegisteredURI_None split: option.splits)

lemma validateRegisteredURIs_Inr:
  "validateRegisteredURIs e n us field = Inr uris \<Longrightarrow> distinct uris \<and> length uris \<le> maxRegisteredURIs \<and> list_all (safe_uri e n) uris"
  by (auto simp: validateRegisteredURIs_def Let_def dedupe_wf checkRegisteredURIs_None split: if_splits option.splits)

lemma validateGrants_Inr:
  assumes "validateGrants meta = Inr (gs, am)"
  shows "gs \<noteq> [] \<and> set gs \<subseteq> set dynamicGrantTypes \<and> distinct gs
     \<and> (GrantTypeRefreshToken \<in> set gs \<longrightarrow> GrantTypeAuthorizationCode \<in> set gs \<or> GrantTypeDeviceCode \<in> set gs)
     \<and> am \<in> {TokenEndpointAuthNone, TokenEndpointAuthClientSecretBasic, TokenEndpointAuthClientSecretPost}
     \<and> (am = TokenEndpointAuthNone \<longrightarrow> GrantTypeClientCredentials \<notin> set gs)"
  using assms dedupe_wf(1) [of "md_GrantTypes meta"]
  by (auto simp: validateGrants_def Let_def find_None_iff split: if_splits option.splits)

text \<open>C30: Whatever metadata a client sends, what is registered is well-formed: grants a client may give itself, consistent with each
  other and with the authentication method; redirect URIs that cannot leak a code to a foreign scheme or over plain http; bounded
  names, lists and scope tokens.\<close>

theorem registered_metadata_wf:
  assumes "validateClientMetadata e n meta = Inr m"
  shows "wf_metadata e n m"
proof -
  obtain gs am where 1: "validateGrants meta = Inr (gs, am)"
    using assms by (auto simp: validateClientMetadata_def split: sum.splits)
  obtain us where 2: "validateRegisteredURIs e n (md_RedirectURIs meta) ''redirect_uris'' = Inr us"
    using assms 1 by (auto simp: validateClientMetadata_def split: sum.splits)
  obtain ps where 3: "validateRegisteredURIs e n (md_PostLogoutRedirectURIs meta) ''post_logout_redirect_uris'' = Inr ps"
    using assms 1 2 by (auto simp: validateClientMetadata_def split: sum.splits if_splits)
  define name where "name = (if strings_TrimSpace (md_ClientName meta) = [] then defaultDynamicClient else strings_TrimSpace (md_ClientName meta))"
  define scopes where "scopes = ParseScope (md_Scope meta)"
  have m: "m = \<lparr>rm_name = name, rm_redirectURIs = us, rm_postLogoutRedirectURIs = ps, rm_grantTypes = gs, rm_authMethod = am, rm_scopes = scopes\<rparr>"
    and code: "GrantTypeAuthorizationCode \<in> set gs \<longrightarrow> us \<noteq> []"
    and len: "length name \<le> maxClientNameLength" "\<not> hasControl name" "length scopes \<le> maxRegisteredScopes"
      "find (\<lambda>s. \<not> validScopeToken s) scopes = None"
    using assms unfolding validateClientMetadata_def 1 2 3
    by (auto simp: Let_def not_less name_def scopes_def split: if_splits option.splits)
  have "name \<noteq> []"
    by (simp add: name_def defaultDynamicClient_def)
  then show ?thesis
    using validateGrants_Inr [OF 1] validateRegisteredURIs_Inr [OF 2] validateRegisteredURIs_Inr [OF 3] code len
    unfolding wf_metadata_def rm_isPublic_def m find_None_iff list_all_iff by simp
qed

lemma registered_metadata_wf_witness:
  "\<exists>m. validateClientMetadata sample_env reg_net reg_meta = Inr m \<and> wf_metadata sample_env reg_net m"
  using registered_metadata_wf [OF reg_validate] reg_validate by blast

end
