(* ===== verification/Users.thy ===== *)
theory Users
  imports MoreRepos Hmac
begin

text \<open>User accounts (\<^verbatim>\<open>internal/services/user_service_impl.go\<close>) and tenants (\<^verbatim>\<open>tenant_service.go\<close>). The e-mail sender is a
  parameter, log lines are left out.\<close>

section \<open>Requests and parameters\<close>

record CreateUserRequest =
  cur_Username :: string
  cur_Email :: string
  cur_Password :: string

record UpdateUserRequest =
  uur_Username :: string
  uur_Email :: string
  uur_Password :: string

text \<open>\<^verbatim>\<open>TemplateEmailSender\<close>: tenant, address, name, template, variables, priority; \<^const>\<open>None\<close> when no sender is configured.
  \<^verbatim>\<open>strings.EqualFold\<close> consults the Unicode tables only when a string is not ASCII.\<close>

type_synonym email_sender = "(uuid \<Rightarrow> string \<Rightarrow> string \<Rightarrow> string \<Rightarrow> (string \<times> string) list \<Rightarrow> int \<Rightarrow> unit op) option"

definition strings_EqualFold :: "(string \<Rightarrow> string \<Rightarrow> bool) \<Rightarrow> string \<Rightarrow> string \<Rightarrow> bool" where
  "strings_EqualFold uni s t = (if is_ascii s \<and> is_ascii t then map ascii_lower s = map ascii_lower t else uni s t)"

definition MaxLoginAttempts :: int where "MaxLoginAttempts = 5"
definition LockoutDuration :: duration where "LockoutDuration = seconds (30 * 60)"
definition EmailVerificationDuration :: duration where "EmailVerificationDuration = seconds (24 * 3600)"
definition PasswordResetDuration :: duration where "PasswordResetDuration = seconds 3600"
definition MaxPasswordResetsPerHour :: int where "MaxPasswordResetsPerHour = 3"
definition MinPasswordLength :: nat where "MinPasswordLength = 8"
definition emailLinkTokenBytes :: nat where "emailLinkTokenBytes = 32"

definition ErrPasswordTooShort :: err where "ErrPasswordTooShort = ErrMsg ''password must be at least 8 characters''"
definition errAccountEmailsUnavailable :: err where "errAccountEmailsUnavailable = ErrMsg ''account emails are not configured''"

definition hashPassword :: "env \<Rightarrow> string \<Rightarrow> string op" where
  "hashPassword e password = State (\<lambda>w.
     (case bcryptGenerate e (draws w) password of None \<Rightarrow> Inl (ErrMsg ''bcrypt'') | Some h \<Rightarrow> Inr h,
      w\<lparr>draws := Suc (draws w)\<rparr>))"

definition endUserSessions :: "env \<Rightarrow> uuid \<Rightarrow> uuid \<Rightarrow> unit op" where
  "endUserSessions e tenantID userID = mapErr (Wrapped ''failed to end user sessions'') (Session_DeleteByUserID e tenantID userID)"

definition revokeUserCredentials :: "env \<Rightarrow> uuid \<Rightarrow> uuid \<Rightarrow> unit op" where
  "revokeUserCredentials e tenantID userID =
     orReturn (endUserSessions e tenantID userID) id (\<lambda>_.
     orReturn (AccessToken_DeleteByUserID e tenantID userID) (Wrapped ''failed to revoke access tokens'') (\<lambda>_.
     orReturn (RefreshToken_DeleteByUserID e tenantID userID) (Wrapped ''failed to revoke refresh tokens'') (\<lambda>_. succeed ())))"

section \<open>Accounts\<close>

text \<open>Any failure of the two look-ups counts as \<open>free\<close>.\<close>

definition isFree :: "err + User \<Rightarrow> string \<Rightarrow> err + unit" where
  "isFree r message = (case r of Inr _ \<Rightarrow> Inl (ErrMsg message) | Inl _ \<Rightarrow> Inr ())"

definition newUser :: "uuid \<Rightarrow> uuid \<Rightarrow> CreateUserRequest \<Rightarrow> string \<Rightarrow> User" where
  "newUser i tenantID req passwordHash =
     \<lparr>u_ID = i, u_TenantID = tenantID, u_Username = cur_Username req, u_Email = cur_Email req, u_PasswordHash = passwordHash,
      u_Status = UserStatusOther [], u_EmailVerified = False, u_PhoneNumber = [], u_PhoneVerified = False, u_FirstName = [],
      u_LastName = [], u_Avatar = [], u_Locale = [], u_Timezone = [], u_LastLoginAt = None, u_LastLoginIP = [],
      u_FailedLoginAttempts = 0, u_LockedAt = None, u_LockedUntil = None, u_CreatedAt = zero_time, u_UpdatedAt = zero_time,
      u_DeletedAt = None\<rparr>"

definition CreateUser :: "env \<Rightarrow> uuid \<Rightarrow> CreateUserRequest \<Rightarrow> User op" where
  "CreateUser e tenantID req =
     (if cur_Username req = [] then failWith (ErrMsg ''username is required'')
      else if cur_Email req = [] then failWith (ErrMsg ''email is required'')
      else if cur_Password req = [] then failWith (ErrMsg ''password is required'')
      else do {
        byName \<leftarrow> User_GetByUsername e tenantID (cur_Username req);
        orReturn (State_Monad.return (isFree byName ''username already exists'')) id (\<lambda>_. do {
          byEmail \<leftarrow> User_GetByEmail e tenantID (cur_Email req);
          orReturn (State_Monad.return (isFree byEmail ''email already exists'')) id (\<lambda>_.
          orReturn (hashPassword e (cur_Password req)) (Wrapped ''failed to hash password'') (\<lambda>hashedPassword. do {
            i \<leftarrow> uuid_New e;
            let user = newUser i tenantID req hashedPassword;
            orReturn (User_Create e user) (Wrapped ''failed to create user'') (\<lambda>_. succeed (User_row e user))
          }))
        })
      })"

definition GetUserByID :: "env \<Rightarrow> uuid \<Rightarrow> uuid \<Rightarrow> User op" where
  "GetUserByID e tenantID userID = User_GetByID e tenantID userID"

definition GetUserByEmail :: "env \<Rightarrow> uuid \<Rightarrow> string \<Rightarrow> User op" where
  "GetUserByEmail e tenantID email = User_GetByEmail e tenantID email"

definition GetUserByUsername :: "env \<Rightarrow> uuid \<Rightarrow> string \<Rightarrow> User op" where
  "GetUserByUsername e tenantID username = User_GetByUsername e tenantID username"

definition UpdateUser :: "env \<Rightarrow> uuid \<Rightarrow> uuid \<Rightarrow> UpdateUserRequest \<Rightarrow> User op" where
  "UpdateUser e tenantID userID req =
     orReturn (User_GetByID e tenantID userID) id (\<lambda>user0.
     orReturn (if uur_Username req \<noteq> [] \<and> uur_Username req \<noteq> u_Username user0
               then do {
                 r \<leftarrow> User_GetByUsername e tenantID (uur_Username req);
                 orReturn (State_Monad.return (isFree r ''username already exists'')) id
                   (\<lambda>_. succeed (user0\<lparr>u_Username := uur_Username req\<rparr>))
               } else succeed user0) id (\<lambda>user1.
     orReturn (if uur_Email req \<noteq> [] \<and> uur_Email req \<noteq> u_Email user1
               then do {
                 r \<leftarrow> User_GetByEmail e tenantID (uur_Email req);
                 orReturn (State_Monad.return (isFree r ''email already exists'')) id
                   (\<lambda>_. succeed (user1\<lparr>u_Email := uur_Email req\<rparr>))
               } else succeed user1) id (\<lambda>user2.
     orReturn (if uur_Password req \<noteq> []
               then orReturn (hashPassword e (uur_Password req)) (Wrapped ''failed to hash password'')
                      (\<lambda>h. succeed (user2\<lparr>u_PasswordHash := h\<rparr>))
               else succeed user2) id (\<lambda>user.
     orReturn (User_Update e user) (Wrapped ''failed to update user'') (\<lambda>_.
     orReturn (if uur_Password req \<noteq> [] then endUserSessions e tenantID userID else succeed ()) id (\<lambda>_.
     succeed (user\<lparr>u_UpdatedAt := now e\<rparr>)))))))"

definition DeleteUser :: "env \<Rightarrow> uuid \<Rightarrow> uuid \<Rightarrow> unit op" where
  "DeleteUser e tenantID userID =
     orReturn (User_GetByID e tenantID userID) id (\<lambda>_.
     orReturn (User_Delete e tenantID userID) (Wrapped ''failed to delete user'') (\<lambda>_.
     orReturn (endUserSessions e tenantID userID) id (\<lambda>_. succeed ())))"

definition ListUsers :: "env \<Rightarrow> uuid \<Rightarrow> int \<Rightarrow> int \<Rightarrow> (User list \<times> PageInfo) op" where
  "ListUsers e tenantID limit0 offset0 =
     (let limit = (if limit0 \<le> 0 \<or> limit0 > 100 then 20 else limit0);
          offset = (if offset0 < 0 then 0 else offset0)
      in orReturn (User_List e tenantID limit offset) (Wrapped ''failed to list users'')
           (\<lambda>(users, total). succeed (NewPaginatedResponse users limit offset total)))"

section \<open>Signing in\<close>

text \<open>The account after an attempt.\<close>

definition afterLogin :: "env \<Rightarrow> string \<Rightarrow> User \<Rightarrow> User" where
  "afterLogin e ipAddress user =
     user\<lparr>u_FailedLoginAttempts := 0, u_LastLoginAt := Some (now e), u_LastLoginIP := ipAddress, u_LockedAt := None,
          u_LockedUntil := None, u_Status := (if u_Status user = UserStatusLocked then UserStatusActive else u_Status user),
          u_UpdatedAt := now e\<rparr>"

definition afterFailure :: "env \<Rightarrow> User \<Rightarrow> User" where
  "afterFailure e user =
     (let user1 = user\<lparr>u_FailedLoginAttempts := wrap64 (u_FailedLoginAttempts user + 1), u_UpdatedAt := now e\<rparr>
      in if u_FailedLoginAttempts user1 \<ge> MaxLoginAttempts
         then user1\<lparr>u_Status := UserStatusLocked, u_LockedAt := Some (now e), u_LockedUntil := Some (now e + LockoutDuration)\<rparr>
         else user1)"

definition RecordLoginAttempt :: "env \<Rightarrow> uuid \<Rightarrow> string \<Rightarrow> string \<Rightarrow> bool \<Rightarrow> unit op" where
  "RecordLoginAttempt e tenantID email ipAddress success = do {
     r \<leftarrow> User_GetByEmail e tenantID email;
     case r of
       Inl _ \<Rightarrow> succeed ()
     | Inr user \<Rightarrow> User_Update e (if success then afterLogin e ipAddress user else afterFailure e user)
   }"

definition Authenticate :: "env \<Rightarrow> uuid \<Rightarrow> string \<Rightarrow> string \<Rightarrow> User op" where
  "Authenticate e tenantID email password =
     orReturn (User_GetByEmail e tenantID email) (\<lambda>_. ErrInvalidCredentials) (\<lambda>user.
     if User_IsLocked (now e) user then failWith ErrUserLocked
     else if \<not> bcryptCompare e (u_PasswordHash user) password
     then do { _ \<leftarrow> RecordLoginAttempt e tenantID email [] False; failWith ErrInvalidCredentials }
     else do { _ \<leftarrow> RecordLoginAttempt e tenantID email [] True; succeed user })"

definition GetLoginHistory :: "int \<Rightarrow> int \<Rightarrow> unit list \<times> PageInfo" where
  "GetLoginHistory limit offset = NewPaginatedResponse [] limit offset 0"

section \<open>Status\<close>

definition UpdateStatus :: "env \<Rightarrow> uuid \<Rightarrow> uuid \<Rightarrow> UserStatus \<Rightarrow> unit op" where
  "UpdateStatus e tenantID userID status =
     orReturn (User_GetByID e tenantID userID) id (\<lambda>user.
     orReturn (User_Update e (user\<lparr>u_Status := status, u_UpdatedAt := now e\<rparr>)) id (\<lambda>_.
     if status = UserStatusSuspended \<or> status = UserStatusLocked then endUserSessions e tenantID userID else succeed ()))"

definition LockUser :: "env \<Rightarrow> uuid \<Rightarrow> uuid \<Rightarrow> go_time option \<Rightarrow> unit op" where
  "LockUser e tenantID userID lockedUntil =
     orReturn (User_GetByID e tenantID userID) id (\<lambda>user.
     orReturn (User_Update e (user\<lparr>u_Status := UserStatusLocked, u_LockedAt := Some (now e), u_LockedUntil := lockedUntil,
                u_UpdatedAt := now e\<rparr>)) id (\<lambda>_. endUserSessions e tenantID userID))"

definition UnlockUser :: "env \<Rightarrow> uuid \<Rightarrow> uuid \<Rightarrow> unit op" where
  "UnlockUser e tenantID userID =
     orReturn (User_GetByID e tenantID userID) id (\<lambda>user.
     User_Update e (user\<lparr>u_Status := UserStatusActive, u_FailedLoginAttempts := 0, u_LockedAt := None, u_LockedUntil := None,
       u_UpdatedAt := now e\<rparr>))"

definition SuspendUser :: "env \<Rightarrow> uuid \<Rightarrow> uuid \<Rightarrow> unit op" where
  "SuspendUser e tenantID userID = UpdateStatus e tenantID userID UserStatusSuspended"

definition ActivateUser :: "env \<Rightarrow> uuid \<Rightarrow> uuid \<Rightarrow> unit op" where
  "ActivateUser e tenantID userID = UpdateStatus e tenantID userID UserStatusActive"

section \<open>E-mail verification\<close>

definition displayName :: "User \<Rightarrow> string" where
  "displayName user =
     (if User_GetFullName user \<noteq> [] then User_GetFullName user
      else if u_Username user \<noteq> [] then u_Username user else u_Email user)"

definition linkBase :: "env \<Rightarrow> string" where
  "linkBase e = (let url = cf_ServerURL (config e) in if suffix ''/'' url then butlast url else url)"

definition SendVerificationEmail :: "env \<Rightarrow> email_sender \<Rightarrow> uuid \<Rightarrow> uuid \<Rightarrow> unit op" where
  "SendVerificationEmail e emails tenantID userID =
     (case emails of None \<Rightarrow> failWith errAccountEmailsUnavailable | Some send \<Rightarrow>
      orReturn (User_GetByID e tenantID userID) id (\<lambda>user.
      if u_EmailVerified user then failWith ErrEmailAlreadyVerified
      else orReturn (randomToken e emailLinkTokenBytes) (Wrapped ''failed to generate verification code'') (\<lambda>code.
        orReturn (EmailVerification_DeletePendingByUserID e tenantID userID) id (\<lambda>_. do {
          i \<leftarrow> uuid_New e;
          orReturn (EmailVerification_Create e
              \<lparr>emv_ID = i, emv_TenantID = tenantID, emv_UserID = userID, emv_Email = u_Email user, emv_CodeHash = hashToken code,
               emv_ExpiresAt = now e + EmailVerificationDuration, emv_VerifiedAt = None, emv_CreatedAt = zero_time\<rparr>) id (\<lambda>_.
          orReturn (send tenantID (u_Email user) (User_GetFullName user) ''email_verification''
              [(''user_name'', displayName user),
               (''verification_link'', linkBase e @ ''/account/verify-email?code='' @ url_QueryEscape code),
               (''expires_hours'', ''24'')] 1) (Wrapped ''failed to send verification email'') (\<lambda>_. succeed ()))
        }))))"

definition VerifyEmail :: "env \<Rightarrow> (string \<Rightarrow> string \<Rightarrow> bool) \<Rightarrow> uuid \<Rightarrow> string \<Rightarrow> User op" where
  "VerifyEmail e uniFold tenantID code =
     (if code = [] then failWith ErrInvalidVerificationCode
      else orReturn (EmailVerification_GetByCodeHash e tenantID (hashToken code)) id (\<lambda>verification.
        if emv_VerifiedAt verification \<noteq> None then failWith ErrInvalidVerificationCode
        else if EmailVerification_IsExpired (now e) verification then failWith ErrVerificationExpired
        else orReturn (User_GetByID e tenantID (emv_UserID verification)) id (\<lambda>user.
          if \<not> strings_EqualFold uniFold (u_Email user) (emv_Email verification) then failWith ErrInvalidVerificationCode
          else orReturn (EmailVerification_MarkVerified e (emv_ID verification)) id (\<lambda>claimed.
            if \<not> claimed then failWith ErrInvalidVerificationCode
            else let user' = user\<lparr>u_EmailVerified := True,
                       u_Status := (if u_Status user = UserStatusPending then UserStatusActive else u_Status user), u_UpdatedAt := now e\<rparr>
              in orReturn (User_Update e user') (Wrapped ''failed to update user'') (\<lambda>_. succeed user')))))"

section \<open>Passwords\<close>

definition notifyPasswordChanged :: "email_sender \<Rightarrow> User \<Rightarrow> (world, unit) state" where
  "notifyPasswordChanged emails user =
     (case emails of None \<Rightarrow> State_Monad.return ()
      | Some send \<Rightarrow> do {
          _ \<leftarrow> send (u_TenantID user) (u_Email user) (User_GetFullName user) ''password_changed'' [(''user_name'', displayName user)] 1;
          State_Monad.return ()
        })"

definition RequestPasswordReset :: "env \<Rightarrow> email_sender \<Rightarrow> uuid \<Rightarrow> string \<Rightarrow> unit op" where
  "RequestPasswordReset e emails tenantID email =
     (case emails of None \<Rightarrow> failWith errAccountEmailsUnavailable | Some send \<Rightarrow> do {
        r \<leftarrow> User_GetByEmail e tenantID email;
        case r of
          Inl er \<Rightarrow> if errors_Is er ErrUserNotFound then succeed () else failWith er
        | Inr user \<Rightarrow>
            if User_IsSuspended user then succeed ()
            else orReturn (PasswordReset_CountSince e tenantID (u_ID user) (now e - seconds 3600)) id (\<lambda>recent.
              if recent \<ge> MaxPasswordResetsPerHour then succeed ()
              else orReturn (randomToken e emailLinkTokenBytes) (Wrapped ''failed to generate reset token'') (\<lambda>token.
                orReturn (PasswordReset_RevokeUnusedByUserID e tenantID (u_ID user)) id (\<lambda>_. do {
                  i \<leftarrow> uuid_New e;
                  orReturn (PasswordReset_Create e
                      \<lparr>pr_ID = i, pr_TenantID = tenantID, pr_UserID = u_ID user, pr_TokenHash = hashToken token,
                       pr_ExpiresAt = now e + PasswordResetDuration, pr_UsedAt = None, pr_CreatedAt = zero_time\<rparr>) id (\<lambda>_.
                  orReturn (send tenantID (u_Email user) (User_GetFullName user) ''password_reset''
                      [(''user_name'', displayName user),
                       (''reset_link'', linkBase e @ ''/account/reset-password?token='' @ url_QueryEscape token),
                       (''expires_minutes'', ''60'')] 1) (Wrapped ''failed to send password reset email'') (\<lambda>_. succeed ()))
                })))
      })"

text \<open>The account after a reset: a lock with an end is lifted, one without stays.\<close>

definition afterReset :: "env \<Rightarrow> string \<Rightarrow> User \<Rightarrow> User" where
  "afterReset e hashedPassword user =
     (let user1 = user\<lparr>u_PasswordHash := hashedPassword, u_FailedLoginAttempts := 0\<rparr>;
          user2 = (if u_Status user1 = UserStatusLocked \<and> u_LockedUntil user1 \<noteq> None
                   then user1\<lparr>u_Status := UserStatusActive, u_LockedAt := None, u_LockedUntil := None\<rparr> else user1)
      in user2\<lparr>u_UpdatedAt := now e\<rparr>)"

text \<open>The second half of \<^verbatim>\<open>ResetPassword\<close>, once the token is claimed: the password, then every session and token of the user.\<close>

definition finishReset :: "env \<Rightarrow> email_sender \<Rightarrow> uuid \<Rightarrow> User \<Rightarrow> User op" where
  "finishReset e emails tenantID user =
     orReturn (User_Update e user) (Wrapped ''failed to update user password'') (\<lambda>_.
     orReturn (revokeUserCredentials e tenantID (u_ID user)) id (\<lambda>_. do {
       _ \<leftarrow> PasswordReset_RevokeUnusedByUserID e tenantID (u_ID user);
       _ \<leftarrow> notifyPasswordChanged emails user;
       succeed user
     }))"

definition ResetPassword :: "env \<Rightarrow> email_sender \<Rightarrow> uuid \<Rightarrow> string \<Rightarrow> string \<Rightarrow> User op" where
  "ResetPassword e emails tenantID token newPassword =
     (if length newPassword < MinPasswordLength then failWith ErrPasswordTooShort
      else if token = [] then failWith ErrInvalidVerificationCode
      else orReturn (PasswordReset_GetByTokenHash e tenantID (hashToken token)) id (\<lambda>reset.
        if PasswordReset_IsUsed reset then failWith ErrInvalidVerificationCode
        else if PasswordReset_IsExpired (now e) reset then failWith ErrVerificationExpired
        else orReturn (User_GetByID e tenantID (pr_UserID reset)) id (\<lambda>user0.
          if User_IsSuspended user0 then failWith ErrUserSuspended
          else orReturn (hashPassword e newPassword) (Wrapped ''failed to hash password'') (\<lambda>hashedPassword.
            orReturn (PasswordReset_MarkUsed e (pr_ID reset)) id (\<lambda>claimed.
            if \<not> claimed then failWith ErrInvalidVerificationCode
            else finishReset e emails tenantID (afterReset e hashedPassword user0))))))"

definition ChangePassword :: "env \<Rightarrow> email_sender \<Rightarrow> uuid \<Rightarrow> uuid \<Rightarrow> string \<Rightarrow> string \<Rightarrow> unit op" where
  "ChangePassword e emails tenantID userID oldPassword newPassword =
     orReturn (User_GetByID e tenantID userID) id (\<lambda>user0.
     if \<not> bcryptCompare e (u_PasswordHash user0) oldPassword then failWith ErrInvalidCredentials
     else orReturn (hashPassword e newPassword) (Wrapped ''failed to hash password'') (\<lambda>hashedPassword.
       let user = user0\<lparr>u_PasswordHash := hashedPassword\<rparr> in
       orReturn (User_Update e user) (Wrapped ''failed to change password'') (\<lambda>_.
       orReturn (endUserSessions e tenantID userID) id (\<lambda>_. do {
         _ \<leftarrow> notifyPasswordChanged emails user;
         succeed ()
       }))))"

section \<open>Tenants\<close>

record CreateTenantRequest =
  ctr_Name :: string
  ctr_Domain :: string

record UpdateTenantRequest =
  utr_Name :: string
  utr_Domain :: string
  utr_IsActive :: "bool option"

definition CreateTenant :: "env \<Rightarrow> CreateTenantRequest \<Rightarrow> Tenant op" where
  "CreateTenant e req =
     (if ctr_Name req = [] then failWith (ErrMsg ''tenant name is required'')
      else if ctr_Domain req = [] then failWith (ErrMsg ''tenant domain is required'')
      else do {
        r \<leftarrow> Tenant_GetByDomain e (ctr_Domain req);
        case r of
          Inr _ \<Rightarrow> failWith (ErrMsg (''tenant with domain '' @ ctr_Domain req @ '' already exists''))
        | Inl _ \<Rightarrow> do {
            i \<leftarrow> uuid_New e;
            let tenant = \<lparr>t_ID = i, t_Name = ctr_Name req, t_Domain = ctr_Domain req, t_IsActive = True,
                  t_CreatedAt = now e, t_UpdatedAt = now e, t_DeletedAt = None\<rparr>;
            orReturn (Tenant_Create e tenant) (Wrapped ''failed to create tenant'') (\<lambda>_. succeed tenant)
          }
      })"

definition GetTenantByID :: "env \<Rightarrow> uuid \<Rightarrow> Tenant op" where
  "GetTenantByID e i = Tenant_GetByID e i"

definition GetTenantByDomain :: "env \<Rightarrow> string \<Rightarrow> Tenant op" where
  "GetTenantByDomain e domain = Tenant_GetByDomain e domain"

definition UpdateTenant :: "env \<Rightarrow> uuid \<Rightarrow> UpdateTenantRequest \<Rightarrow> Tenant op" where
  "UpdateTenant e i req =
     orReturn (Tenant_GetByID e i) id (\<lambda>tenant0.
     let tenant1 = (if utr_Name req \<noteq> [] then tenant0\<lparr>t_Name := utr_Name req\<rparr> else tenant0) in
     orReturn (if utr_Domain req \<noteq> []
               then do {
                 r \<leftarrow> Tenant_GetByDomain e (utr_Domain req);
                 (case r of
                    Inr existing \<Rightarrow>
                      if t_ID existing \<noteq> i then failWith (ErrMsg (''tenant with domain '' @ utr_Domain req @ '' already exists''))
                      else succeed (tenant1\<lparr>t_Domain := utr_Domain req\<rparr>)
                  | Inl _ \<Rightarrow> succeed (tenant1\<lparr>t_Domain := utr_Domain req\<rparr>))
               } else succeed tenant1) id (\<lambda>tenant2.
     let tenant = (case utr_IsActive req of None \<Rightarrow> tenant2 | Some b \<Rightarrow> tenant2\<lparr>t_IsActive := b\<rparr>) in
     orReturn (Tenant_Update e tenant) (Wrapped ''failed to update tenant'') (\<lambda>_. succeed (tenant\<lparr>t_UpdatedAt := now e\<rparr>))))"

definition DeleteTenant :: "env \<Rightarrow> uuid \<Rightarrow> unit op" where
  "DeleteTenant e i =
     orReturn (Tenant_GetByID e i) id (\<lambda>_.
     orReturn (Tenant_Delete e i) (Wrapped ''failed to delete tenant'') (\<lambda>_. succeed ()))"

definition ListTenants :: "env \<Rightarrow> int \<Rightarrow> int \<Rightarrow> (Tenant list \<times> PageInfo) op" where
  "ListTenants e limit0 offset0 =
     (let limit = (if limit0 \<le> 0 \<or> limit0 > 100 then 20 else limit0);
          offset = (if offset0 < 0 then 0 else offset0)
      in orReturn (Tenant_List e limit offset) (Wrapped ''failed to list tenants'')
           (\<lambda>(tenants, total). succeed (NewPaginatedResponse tenants limit offset total)))"

end
