(* ===== verification/UserProperties.thy ===== *)
theory UserProperties
  imports Users Effects Samples
begin

text \<open>Accounts: how many passwords can be guessed before the account locks, what a lock does, and what a password reset leaves.\<close>

section \<open>Guessing passwords\<close>

definition account :: "world \<Rightarrow> uuid \<Rightarrow> string \<Rightarrow> User option" where
  "account w t email = find (\<lambda>u. u_TenantID u = t \<and> u_Email u = email \<and> user_live u) (users w)"

lemma GetByEmail_run:
  "run_state (User_GetByEmail e t email) w =
     (if fails e (stmts w) then Inl (Wrapped ''failed to get user by email'' DBError)
      else case account w t email of None \<Rightarrow> Inl ErrUserNotFound | Some u \<Rightarrow> Inr u, w\<lparr>stmts := Suc (stmts w)\<rparr>)"
  by (simp add: User_GetByEmail_def users.First_run account_def)

lemma account_stmts [simp]: "account (w\<lparr>stmts := n\<rparr>) t email = account w t email"
  by (simp add: account_def)

text \<open>Saving a row that keeps its identity keeps the table's keys apart and is what the next look-up finds.\<close>

definition same_identity :: "User \<Rightarrow> User \<Rightarrow> bool" where
  "same_identity u v \<longleftrightarrow> u_ID v = u_ID u \<and> u_TenantID v = u_TenantID u \<and> u_Email v = u_Email u \<and> u_Username v = u_Username u
     \<and> u_DeletedAt v = u_DeletedAt u"

definition users_ok :: "world \<Rightarrow> bool" where
  "users_ok w \<longleftrightarrow> (\<forall>u \<in> set (users w). \<forall>v \<in> set (users w). u \<noteq> v \<longrightarrow> \<not> users_clash u v)"

lemma Update_same:
  assumes "users_ok w" "account w t email = Some u" "same_identity u v" "\<not> fails e (stmts w)"
  shows "\<exists>w'. run_state (User_Update e v) w = (Inr (), w') \<and> users_ok w' \<and> account w' t email = Some (v\<lparr>u_UpdatedAt := now e\<rparr>)"
proof -
  let ?v = "v\<lparr>u_UpdatedAt := now e\<rparr>"
  have u: "u \<in> set (users w)" "u_TenantID u = t" "u_Email u = email" "user_live u"
    using find_SomeD [OF assms(2) [unfolded account_def]] by simp_all
  have clash: "users_clash r ?v = users_clash r u" "users_clash ?v r = users_clash u r" for r
    using assms(3) by (simp_all add: users_clash_def same_identity_def user_live_def)
  have id: "u_ID ?v = u_ID u"
    using assms(3) by (simp add: same_identity_def)
  have apart: "r = u" if "r \<in> set (users w)" "users_clash r u" for r
    using assms(1) u(1) that unfolding users_ok_def by blast
  have none: "\<not> (\<exists>r \<in> set (users w). u_ID r \<noteq> u_ID ?v \<and> users_clash r ?v)"
    using apart id clash by auto
  let ?w = "users_update (\<lambda>_. save_row u_ID ?v (users w)) (w\<lparr>stmts := Suc (stmts w)\<rparr>)"
  have run: "run_state (User_Update e v) w = (Inr (), ?w)"
    using assms(4) none by (simp add: User_Update_def users.Save_run)
  have rows: "set (users ?w) = insert ?v {r \<in> set (users w). u_ID r \<noteq> u_ID u}"
    by (simp add: save_row_set id)
  have sym: "users_clash r u \<longleftrightarrow> users_clash u r" for r
    by (auto simp: users_clash_def)
  have "users_ok ?w"
    unfolding users_ok_def rows
  proof (intro ballI impI)
    fix a b
    assume a: "a \<in> insert ?v {r \<in> set (users w). u_ID r \<noteq> u_ID u}" and b: "b \<in> insert ?v {r \<in> set (users w). u_ID r \<noteq> u_ID u}"
      and ne: "a \<noteq> b"
    consider "a = ?v" "b \<in> set (users w)" "u_ID b \<noteq> u_ID u" | "b = ?v" "a \<in> set (users w)" "u_ID a \<noteq> u_ID u"
      | "a \<in> set (users w)" "b \<in> set (users w)"
      using a b ne by blast
    then show "\<not> users_clash a b"
    proof cases
      case 1
      then show ?thesis
        using apart [of b] clash sym by auto
    next
      case 2
      then show ?thesis
        using apart [of a] clash by auto
    next
      case 3
      then show ?thesis
        using assms(1) ne unfolding users_ok_def by blast
    qed
  qed
  moreover have "account ?w t email = Some ?v"
    unfolding account_def
  proof (rule find_unique)
    show "?v \<in> set (users ?w)"
      using rows by blast
    show "u_TenantID ?v = t \<and> u_Email ?v = email \<and> user_live ?v"
      using assms(3) u by (simp add: same_identity_def user_live_def)
    show "y = ?v" if "y \<in> set (users ?w)" "u_TenantID y = t \<and> u_Email y = email \<and> user_live y" for y
    proof (rule ccontr)
      assume "y \<noteq> ?v"
      then have y: "y \<in> set (users w)" "u_ID y \<noteq> u_ID u"
        using that(1) unfolding rows by auto
      then have "y = u"
        using that(2) u by (intro apart) (auto simp: users_clash_def)
      then show False
        using y(2) by simp
    qed
  qed
  ultimately show ?thesis
    using run by blast
qed

lemma failure_identity: "same_identity u (afterFailure e u)" "same_identity u (afterLogin e ip u)"
  by (simp_all add: same_identity_def afterFailure_def afterLogin_def Let_def)

text \<open>A refused attempt on an account that is not locked counts.\<close>

lemma Authenticate_wrong:
  assumes "users_ok w" "account w t email = Some u" "\<not> User_IsLocked (now e) u" "\<not> bcryptCompare e (u_PasswordHash u) password"
    and "\<forall>n. \<not> fails e n"
  shows "\<exists>w'. run_state (Authenticate e t email password) w = (Inl ErrInvalidCredentials, w') \<and> users_ok w'
     \<and> account w' t email = Some ((afterFailure e u)\<lparr>u_UpdatedAt := now e\<rparr>)"
proof -
  let ?w = "w\<lparr>stmts := Suc (Suc (stmts w))\<rparr>"
  have "users_ok ?w" "account ?w t email = Some u"
    using assms(1,2) by (simp_all add: users_ok_def)
  from Update_same [OF this failure_identity(1) [of u e], of e] obtain w' where
    "run_state (User_Update e (afterFailure e u)) ?w = (Inr (), w')" "users_ok w'"
    "account w' t email = Some ((afterFailure e u)\<lparr>u_UpdatedAt := now e\<rparr>)"
    using assms(5) by blast
  then show ?thesis
    using assms(2-5) by (simp add: Authenticate_def RecordLoginAttempt_def run_orReturn run_bind GetByEmail_run run_failWith)
qed

lemma Authenticate_locked:
  assumes "account w t email = Some u" "User_IsLocked (now e) u" "\<not> fails e (stmts w)"
  shows "run_state (Authenticate e t email password) w = (Inl ErrUserLocked, w\<lparr>stmts := Suc (stmts w)\<rparr>)"
  using assms by (simp add: Authenticate_def run_orReturn GetByEmail_run run_failWith)

text \<open>A row of attempts, and what each was answered.\<close>

fun attempts :: "uuid \<Rightarrow> string \<Rightarrow> (env \<times> string) list \<Rightarrow> (world, (err + User) list) state" where
  "attempts t email [] = State_Monad.return []"
| "attempts t email ((e, password) # rs) = do { r \<leftarrow> Authenticate e t email password; as \<leftarrow> attempts t email rs; State_Monad.return (r # as) }"

lemma attempts_locked:
  assumes "account w t email = Some u" "u_Status u = UserStatusLocked" "\<forall>(e, _) \<in> set rs. \<forall>n. \<not> fails e n"
  shows "\<exists>w'. run_state (attempts t email rs) w = (replicate (length rs) (Inl ErrUserLocked), w') \<and> users w' = users w"
  using assms
proof (induction rs arbitrary: w)
  case (Cons x rs)
  obtain e p where x: "x = (e, p)"
    by fastforce
  let ?w = "w\<lparr>stmts := Suc (stmts w)\<rparr>"
  have "run_state (Authenticate e t email p) w = (Inl ErrUserLocked, ?w)"
    using Cons.prems x by (intro Authenticate_locked) (auto simp: User_IsLocked_def)
  moreover obtain w' where "run_state (attempts t email rs) ?w = (replicate (length rs) (Inl ErrUserLocked), w')" "users w' = users ?w"
    using Cons.IH [of ?w] Cons.prems by auto
  ultimately show ?case
    by (simp add: x run_bind run_return)
qed (simp add: run_return)

lemma attempts_wrong:
  assumes "users_ok w" "account w t email = Some u" "u_Status u \<noteq> UserStatusLocked" "u_LockedUntil u = None"
    and "0 \<le> u_FailedLoginAttempts u" "u_FailedLoginAttempts u < MaxLoginAttempts"
    and "\<forall>(e, password) \<in> set rs. \<not> bcryptCompare e (u_PasswordHash u) password \<and> (\<forall>n. \<not> fails e n)"
  shows "\<exists>w'. run_state (attempts t email rs) w =
       (let k = min (length rs) (nat (MaxLoginAttempts - u_FailedLoginAttempts u))
        in replicate k (Inl ErrInvalidCredentials) @ replicate (length rs - k) (Inl ErrUserLocked), w')
     \<and> (nat (MaxLoginAttempts - u_FailedLoginAttempts u) \<le> length rs \<longrightarrow>
          (\<exists>v. account w' t email = Some v \<and> u_Status v = UserStatusLocked))"
  using assms
proof (induction rs arbitrary: w u)
  case Nil
  then show ?case
    by (simp add: run_return)
next
  case (Cons x rs)
  obtain e p where x: "x = (e, p)"
    by fastforce
  let ?u = "(afterFailure e u)\<lparr>u_UpdatedAt := now e\<rparr>" and ?n = "u_FailedLoginAttempts u"
  have "\<not> User_IsLocked (now e) u"
    using Cons.prems(3,4) by (simp add: User_IsLocked_def)
  moreover have "\<not> bcryptCompare e (u_PasswordHash u) p" and ok: "\<forall>n. \<not> fails e n" and rest: "\<forall>(e, password) \<in> set rs. \<forall>n. \<not> fails e n"
    using Cons.prems(7) x by auto
  ultimately obtain w1 where 1: "run_state (Authenticate e t email p) w = (Inl ErrInvalidCredentials, w1)" "users_ok w1"
    "account w1 t email = Some ?u"
    using Authenticate_wrong [OF Cons.prems(1,2)] by blast
  have n: "wrap64 (?n + 1) = ?n + 1"
    using Cons.prems(5,6) by (simp add: MaxLoginAttempts_def)
  show ?case
  proof (cases "?n + 1 \<ge> MaxLoginAttempts")
    case True
    then have "u_Status ?u = UserStatusLocked" "?n = 4"
      using Cons.prems(6) n by (simp_all add: afterFailure_def Let_def MaxLoginAttempts_def)
    moreover obtain w' where "run_state (attempts t email rs) w1 = (replicate (length rs) (Inl ErrUserLocked), w')" "users w' = users w1"
      using attempts_locked [OF 1(3) calculation(1) rest] by blast
    ultimately show ?thesis
      using 1 by (auto simp: x run_bind run_return account_def MaxLoginAttempts_def)
  next
    case False
    then have u: "u_Status ?u \<noteq> UserStatusLocked" "u_LockedUntil ?u = None" "u_FailedLoginAttempts ?u = ?n + 1"
      "u_PasswordHash ?u = u_PasswordHash u"
      using Cons.prems(3,4) n by (simp_all add: afterFailure_def Let_def)
    have k: "nat (MaxLoginAttempts - ?n) = Suc (nat (MaxLoginAttempts - (?n + 1)))"
      using False by simp
    show ?thesis
      using Cons.IH [OF 1(2,3) u(1,2)] Cons.prems(5,7) False u(3,4)
      by (auto simp: x run_bind run_return 1(1) k Let_def)
  qed
qed

text \<open>C31: An account that is not locked gets at most as many wrong passwords compared as it has attempts left of five; from then on
  it is locked, and every further attempt, with whatever password and however much later, is refused without a comparison and
  without a trace.\<close>

theorem login_guesses_bounded:
  assumes "users_ok w" "account w t email = Some u" "u_Status u \<noteq> UserStatusLocked" "u_LockedUntil u = None"
    and "0 \<le> u_FailedLoginAttempts u" "u_FailedLoginAttempts u < MaxLoginAttempts"
    and "\<forall>(e, password) \<in> set rs. \<not> bcryptCompare e (u_PasswordHash u) password \<and> (\<forall>n. \<not> fails e n)"
  shows "\<exists>w'. run_state (attempts t email rs) w =
       (let k = min (length rs) (nat (MaxLoginAttempts - u_FailedLoginAttempts u))
        in replicate k (Inl ErrInvalidCredentials) @ replicate (length rs - k) (Inl ErrUserLocked), w')
     \<and> (nat (MaxLoginAttempts - u_FailedLoginAttempts u) \<le> length rs \<longrightarrow>
          (\<forall>later. (\<forall>(e, _) \<in> set later. \<forall>n. \<not> fails e n) \<longrightarrow>
             (\<exists>w2. run_state (attempts t email later) w' = (replicate (length later) (Inl ErrUserLocked), w2) \<and> users w2 = users w')))"
  using attempts_wrong [OF assms] attempts_locked by blast

text \<open>The witness: six wrong passwords, then the right one an hour after the lock has run out.\<close>

definition lock_user :: User where
  "lock_user = sample_user\<lparr>u_PasswordHash := ''bsecret''\<rparr>"

definition lock_world :: world where
  "lock_world = empty_world\<lparr>users := [lock_user]\<rparr>"

lemma login_guesses_bounded_witness:
  "\<exists>w'. run_state (attempts 1 ''a@x.io'' (replicate 6 (sample_env, ''guess''))) lock_world =
       (replicate 5 (Inl ErrInvalidCredentials) @ replicate 1 (Inl ErrUserLocked), w')
     \<and> fst (run_state (attempts 1 ''a@x.io'' [(sample_env\<lparr>now := now sample_env + 2 * LockoutDuration\<rparr>, ''secret'')]) w') = [Inl ErrUserLocked]"
proof -
  let ?rs = "replicate 6 (sample_env, ''guess'')" and ?later = "[(sample_env\<lparr>now := now sample_env + 2 * LockoutDuration\<rparr>, ''secret'')]"
  have w: "users_ok lock_world" "account lock_world 1 ''a@x.io'' = Some lock_user"
    by (simp_all add: users_ok_def account_def lock_world_def lock_user_def sample_user_def user_live_def)
  have u: "u_Status lock_user \<noteq> UserStatusLocked" "u_LockedUntil lock_user = None" "0 \<le> u_FailedLoginAttempts lock_user"
    "u_FailedLoginAttempts lock_user < MaxLoginAttempts"
    by (simp_all add: lock_user_def sample_user_def MaxLoginAttempts_def)
  have rs: "\<forall>(e, password) \<in> set ?rs. \<not> bcryptCompare e (u_PasswordHash lock_user) password \<and> (\<forall>n. \<not> fails e n)"
    by (simp add: sample_env_def lock_user_def)
  have later: "\<forall>(e, _) \<in> set ?later. \<forall>n. \<not> fails e n"
    by (simp add: sample_env_def)
  have left: "nat (MaxLoginAttempts - u_FailedLoginAttempts lock_user) = 5"
    by (simp add: lock_user_def sample_user_def MaxLoginAttempts_def)
  obtain w' where w': "run_state (attempts 1 ''a@x.io'' ?rs) lock_world = (let k = min (length ?rs) (nat (MaxLoginAttempts - u_FailedLoginAttempts lock_user))
        in replicate k (Inl ErrInvalidCredentials) @ replicate (length ?rs - k) (Inl ErrUserLocked), w')"
    "nat (MaxLoginAttempts - u_FailedLoginAttempts lock_user) \<le> length ?rs \<longrightarrow> (\<forall>later. (\<forall>(e, _) \<in> set later. \<forall>n. \<not> fails e n) \<longrightarrow>
       (\<exists>w2. run_state (attempts 1 ''a@x.io'' later) w' = (replicate (length later) (Inl ErrUserLocked), w2) \<and> users w2 = users w'))"
    using login_guesses_bounded [OF w u rs] by blast
  have "nat (MaxLoginAttempts - u_FailedLoginAttempts lock_user) \<le> length ?rs"
    by (simp add: left)
  from w'(2) [THEN mp, OF this, THEN spec, THEN mp, OF later] obtain w2 where
    "run_state (attempts 1 ''a@x.io'' ?later) w' = (replicate (length ?later) (Inl ErrUserLocked), w2)"
    by blast
  then show ?thesis
    using w'(1) unfolding left by (auto simp: Let_def)
qed

section \<open>Password resets\<close>

text \<open>Queueing an e-mail touches neither accounts nor credentials.\<close>

definition credentials :: "world \<Rightarrow> User list \<times> PasswordReset list \<times> Session list \<times> AccessToken list \<times> RefreshToken list" where
  "credentials w = (users w, password_resets w, sessions w, access_tokens w, refresh_tokens w)"

definition quiet_sender :: "email_sender \<Rightarrow> bool" where
  "quiet_sender emails \<longleftrightarrow> (\<forall>send. emails = Some send \<longrightarrow> (\<forall>t a n k v p. steps (framing credentials) (send t a n k v p)))"

lemma notify_credentials:
  "quiet_sender emails \<Longrightarrow> credentials (snd (run_state (notifyPasswordChanged emails user) w)) = credentials w"
  by (cases emails) (auto simp: notifyPasswordChanged_def run_return run_bind quiet_sender_def steps_def framing_def split: prod.split, metis snd_conv)

lemma revoke_run:
  assumes "run_state (revokeUserCredentials e t u) w = (Inr (), w')"
  shows "users w' = users w \<and> password_resets w' = password_resets w
     \<and> sessions w' = filter (\<lambda>s. \<not> (s_TenantID s = t \<and> s_UserID s = u)) (sessions w)
     \<and> access_tokens w' = filter (\<lambda>a. \<not> (at_TenantID a = t \<and> at_UserID a = u)) (access_tokens w)
     \<and> refresh_tokens w' = filter (\<lambda>r. \<not> (rt_TenantID r = t \<and> rt_UserID r = u)) (refresh_tokens w)"
  using assms
  by (auto simp: revokeUserCredentials_def endUserSessions_def Session_DeleteByUserID_def AccessToken_DeleteByUserID_def
      RefreshToken_DeleteByUserID_def run_orReturn run_mapErr run_succeed sessions.Delete_run access_tokens.Delete_run
      refresh_tokens.Delete_run split: if_splits)

definition reset_row :: "world \<Rightarrow> uuid \<Rightarrow> string \<Rightarrow> PasswordReset option" where
  "reset_row w t tok = find (\<lambda>v. pr_TenantID v = t \<and> pr_TokenHash v = hashToken tok) (password_resets w)"

lemma ResetPassword_Inr:
  assumes "run_state (ResetPassword e emails t tok new) w = (Inr user, w')" "quiet_sender emails"
  shows "\<exists>r u0 h n. reset_row w t tok = Some r \<and> pr_UsedAt r = None \<and> now e < pr_ExpiresAt r
     \<and> find (\<lambda>u. u_TenantID u = t \<and> u_ID u = pr_UserID r \<and> user_live u) (users w) = Some u0 \<and> u_Status u0 \<noteq> UserStatusSuspended
     \<and> bcryptGenerate e n new = Some h \<and> user = afterReset e h u0 \<and> MinPasswordLength \<le> length new
     \<and> users w' = save_row u_ID (user\<lparr>u_UpdatedAt := now e\<rparr>) (users w)
     \<and> sessions w' = filter (\<lambda>s. \<not> (s_TenantID s = t \<and> s_UserID s = u_ID user)) (sessions w)
     \<and> access_tokens w' = filter (\<lambda>a. \<not> (at_TenantID a = t \<and> at_UserID a = u_ID user)) (access_tokens w)
     \<and> refresh_tokens w' = filter (\<lambda>r. \<not> (rt_TenantID r = t \<and> rt_UserID r = u_ID user)) (refresh_tokens w)
     \<and> (\<exists>f. password_resets w' = map f (password_resets w) \<and> (\<forall>v. pr_TenantID (f v) = pr_TenantID v \<and> pr_TokenHash (f v) = pr_TokenHash v
          \<and> (pr_UsedAt v \<noteq> None \<or> pr_ID v = pr_ID r \<longrightarrow> pr_UsedAt (f v) \<noteq> None)
          \<and> (pr_ID v \<noteq> pr_ID r \<and> \<not> (pr_TenantID v = t \<and> pr_UserID v = u_ID user) \<longrightarrow> f v = v)))"
proof -
  let ?mark = "\<lambda>i. map (\<lambda>v. if pr_ID v = i \<and> pr_UsedAt v = None then v\<lparr>pr_UsedAt := Some (now e)\<rparr> else v)"
  obtain r u0 h n v2 where 1: "reset_row w t tok = Some r" "pr_UsedAt r = None" "now e < pr_ExpiresAt r"
    "find (\<lambda>u. u_TenantID u = t \<and> u_ID u = pr_UserID r \<and> user_live u) (users w) = Some u0" "u_Status u0 \<noteq> UserStatusSuspended"
    "bcryptGenerate e n new = Some h" "MinPasswordLength \<le> length new"
    and 2: "run_state (finishReset e emails t (afterReset e h u0)) v2 = (Inr user, w')"
    and v2: "users v2 = users w" "sessions v2 = sessions w" "access_tokens v2 = access_tokens w" "refresh_tokens v2 = refresh_tokens w"
      "password_resets v2 = ?mark (pr_ID r) (password_resets w)"
    using assms(1)
    by (auto simp: ResetPassword_def run_orReturn run_failWith PasswordReset_GetByTokenHash_def password_resets.First_run reset_row_def
        User_GetByID_def users.First_run hashPassword_def PasswordReset_MarkUsed_def password_resets.Update_run run_succeed Let_def
        PasswordReset_IsUsed_def PasswordReset_IsExpired_def User_IsSuspended_def not_less not_le
        split: if_splits option.splits)
  let ?u = "afterReset e h u0"
  obtain v3 v4 v5 where 3: "run_state (User_Update e ?u) v2 = (Inr (), v3)" "run_state (revokeUserCredentials e t (u_ID ?u)) v3 = (Inr (), v4)"
    and 5: "v5 = snd (run_state (PasswordReset_RevokeUnusedByUserID e t (u_ID ?u)) v4)"
      "w' = snd (run_state (notifyPasswordChanged emails ?u) v5)" "user = ?u"
    using 2 by (auto simp: finishReset_def orReturn_Inr_iff run_bind run_succeed case_prod_beta)
  have v3: "users v3 = save_row u_ID (?u\<lparr>u_UpdatedAt := now e\<rparr>) (users v2)" "sessions v3 = sessions v2"
    "access_tokens v3 = access_tokens v2" "refresh_tokens v3 = refresh_tokens v2" "password_resets v3 = password_resets v2"
    using 3(1) by (auto simp: User_Update_def users.Save_run split: if_splits)
  have v5: "users v5 = users v4" "sessions v5 = sessions v4" "access_tokens v5 = access_tokens v4" "refresh_tokens v5 = refresh_tokens v4"
    "\<exists>g. password_resets v5 = map g (password_resets v4) \<and> (\<forall>v. pr_TenantID (g v) = pr_TenantID v \<and> pr_TokenHash (g v) = pr_TokenHash v
       \<and> (pr_UsedAt v \<noteq> None \<longrightarrow> pr_UsedAt (g v) \<noteq> None) \<and> (\<not> (pr_TenantID v = t \<and> pr_UserID v = u_ID ?u) \<longrightarrow> g v = v))"
    unfolding 5(1) PasswordReset_RevokeUnusedByUserID_def
    by (auto simp: run_orReturn password_resets.Update_run run_succeed intro!: exI [of _
        "if fails e (stmts v4) then (\<lambda>v. v)
         else (\<lambda>r. if pr_TenantID r = t \<and> pr_UserID r = u_ID ?u \<and> pr_UsedAt r = None then r\<lparr>pr_UsedAt := Some (now e)\<rparr> else r)"])
  have w': "credentials w' = credentials v5"
    using notify_credentials [OF assms(2)] 5(2) by simp
  have "u_ID ?u = u_ID u0"
    by (simp add: afterReset_def Let_def)
  obtain g where g: "password_resets v5 = map g (password_resets v4)" "\<forall>v. pr_TenantID (g v) = pr_TenantID v \<and> pr_TokenHash (g v) = pr_TokenHash v
      \<and> (pr_UsedAt v \<noteq> None \<longrightarrow> pr_UsedAt (g v) \<noteq> None) \<and> (\<not> (pr_TenantID v = t \<and> pr_UserID v = u_ID ?u) \<longrightarrow> g v = v)"
    using v5(5) by blast
  let ?f = "\<lambda>v. g (if pr_ID v = pr_ID r \<and> pr_UsedAt v = None then v\<lparr>pr_UsedAt := Some (now e)\<rparr> else v)"
  have "password_resets w' = map ?f (password_resets w)"
    using w' g(1) revoke_run [OF 3(2)] v3(5) v2(5) by (simp add: credentials_def comp_def)
  moreover have "\<forall>v. pr_TenantID (?f v) = pr_TenantID v \<and> pr_TokenHash (?f v) = pr_TokenHash v
      \<and> (pr_UsedAt v \<noteq> None \<or> pr_ID v = pr_ID r \<longrightarrow> pr_UsedAt (?f v) \<noteq> None)
      \<and> (pr_ID v \<noteq> pr_ID r \<and> \<not> (pr_TenantID v = t \<and> pr_UserID v = u_ID user) \<longrightarrow> ?f v = v)"
    using g(2) 5(3) by auto
  ultimately have marked: "\<exists>f. password_resets w' = map f (password_resets w) \<and> (\<forall>v. pr_TenantID (f v) = pr_TenantID v
      \<and> pr_TokenHash (f v) = pr_TokenHash v \<and> (pr_UsedAt v \<noteq> None \<or> pr_ID v = pr_ID r \<longrightarrow> pr_UsedAt (f v) \<noteq> None)
      \<and> (pr_ID v \<noteq> pr_ID r \<and> \<not> (pr_TenantID v = t \<and> pr_UserID v = u_ID user) \<longrightarrow> f v = v))"
    by (intro exI [of _ ?f] conjI)
  have "users w' = save_row u_ID (user\<lparr>u_UpdatedAt := now e\<rparr>) (users w)"
    "sessions w' = filter (\<lambda>s. \<not> (s_TenantID s = t \<and> s_UserID s = u_ID user)) (sessions w)"
    "access_tokens w' = filter (\<lambda>a. \<not> (at_TenantID a = t \<and> at_UserID a = u_ID user)) (access_tokens w)"
    "refresh_tokens w' = filter (\<lambda>r. \<not> (rt_TenantID r = t \<and> rt_UserID r = u_ID user)) (refresh_tokens w)"
    using w' v5(1-4) revoke_run [OF 3(2)] v3(1-4) v2(1-4) 5(3) by (simp_all add: credentials_def)
  then show ?thesis
    using 1 marked 5(3) by blast
qed

text \<open>C32: A password reset hands the account to the holder of the link and to nobody else: it works only with a stored, unused,
  unexpired token of an account that is not suspended, removes exactly the sessions, access and refresh tokens of that user, leaves the
  accounts and the other reset links of everyone else as they are, stores the hash of the new password, and the token never works again.\<close>

theorem password_reset_takes_over:
  assumes "run_state (ResetPassword e emails t tok new) w = (Inr user, w')" "quiet_sender emails"
  shows "(\<exists>r. reset_row w t tok = Some r \<and> pr_UsedAt r = None \<and> now e < pr_ExpiresAt r \<and> u_ID user = pr_UserID r
        \<and> (\<forall>p \<in> set (password_resets w). pr_ID p \<noteq> pr_ID r \<and> \<not> (pr_TenantID p = t \<and> pr_UserID p = u_ID user) \<longrightarrow>
             p \<in> set (password_resets w')))
     \<and> u_TenantID user = t \<and> u_Status user \<noteq> UserStatusSuspended
     \<and> sessions w' = filter (\<lambda>s. \<not> (s_TenantID s = t \<and> s_UserID s = u_ID user)) (sessions w)
     \<and> access_tokens w' = filter (\<lambda>a. \<not> (at_TenantID a = t \<and> at_UserID a = u_ID user)) (access_tokens w)
     \<and> refresh_tokens w' = filter (\<lambda>r. \<not> (rt_TenantID r = t \<and> rt_UserID r = u_ID user)) (refresh_tokens w)
     \<and> (\<exists>n. bcryptGenerate e n new = Some (u_PasswordHash user)) \<and> user\<lparr>u_UpdatedAt := now e\<rparr> \<in> set (users w')
     \<and> (\<forall>u \<in> set (users w). u_ID u \<noteq> u_ID user \<longrightarrow> u \<in> set (users w'))
     \<and> (\<forall>e2 emails2 new2. \<exists>er. fst (run_state (ResetPassword e2 emails2 t tok new2) w') = Inl er)"
proof -
  obtain r u0 h n f where r: "reset_row w t tok = Some r" "pr_UsedAt r = None" "now e < pr_ExpiresAt r"
    and u0: "find (\<lambda>u. u_TenantID u = t \<and> u_ID u = pr_UserID r \<and> user_live u) (users w) = Some u0" "u_Status u0 \<noteq> UserStatusSuspended"
      "bcryptGenerate e n new = Some h" "user = afterReset e h u0"
    and rows: "users w' = save_row u_ID (user\<lparr>u_UpdatedAt := now e\<rparr>) (users w)"
      "sessions w' = filter (\<lambda>s. \<not> (s_TenantID s = t \<and> s_UserID s = u_ID user)) (sessions w)"
      "access_tokens w' = filter (\<lambda>a. \<not> (at_TenantID a = t \<and> at_UserID a = u_ID user)) (access_tokens w)"
      "refresh_tokens w' = filter (\<lambda>r. \<not> (rt_TenantID r = t \<and> rt_UserID r = u_ID user)) (refresh_tokens w)"
    and f: "password_resets w' = map f (password_resets w)"
      "\<forall>v. pr_TenantID (f v) = pr_TenantID v \<and> pr_TokenHash (f v) = pr_TokenHash v \<and> (pr_UsedAt v \<noteq> None \<or> pr_ID v = pr_ID r \<longrightarrow> pr_UsedAt (f v) \<noteq> None)
        \<and> (pr_ID v \<noteq> pr_ID r \<and> \<not> (pr_TenantID v = t \<and> pr_UserID v = u_ID user) \<longrightarrow> f v = v)"
    using ResetPassword_Inr [OF assms] by (elim exE conjE) (rule that)
  have user: "u_ID user = pr_UserID r" "u_TenantID user = t" "u_Status user \<noteq> UserStatusSuspended" "u_PasswordHash user = h"
    using u0(2,4) find_SomeD [OF u0(1)] by (auto simp: afterReset_def Let_def)
  have "find (\<lambda>v. pr_TenantID v = t \<and> pr_TokenHash v = hashToken tok) (map f xs)
      = map_option f (find (\<lambda>v. pr_TenantID v = t \<and> pr_TokenHash v = hashToken tok) xs)" for xs
    using f(2) by (induction xs) auto
  then have "reset_row w' t tok = Some (f r)" "pr_UsedAt (f r) \<noteq> None"
    using r(1) f by (simp_all add: reset_row_def)
  then have "\<exists>er. fst (run_state (ResetPassword e2 emails2 t tok new2) w') = Inl er" for e2 emails2 new2
    by (auto simp: ResetPassword_def run_orReturn run_failWith PasswordReset_GetByTokenHash_def password_resets.First_run reset_row_def
        PasswordReset_IsUsed_def split: option.splits)
  moreover have "p \<in> set (password_resets w')"
    if "p \<in> set (password_resets w)" "pr_ID p \<noteq> pr_ID r" "\<not> (pr_TenantID p = t \<and> pr_UserID p = u_ID user)" for p
    using f that by force
  moreover have "user\<lparr>u_UpdatedAt := now e\<rparr> \<in> set (users w')" "\<forall>u \<in> set (users w). u_ID u \<noteq> u_ID user \<longrightarrow> u \<in> set (users w')"
    by (auto simp: rows(1) save_row_set)
  ultimately show ?thesis
    using r u0(3) user rows(2-4) by blast
qed

definition reset_world :: world where
  "reset_world = empty_world\<lparr>users := [sample_user\<lparr>u_Status := UserStatusLocked, u_LockedUntil := Some 9000\<rparr>],
     password_resets := [\<lparr>pr_ID = 80, pr_TenantID = 1, pr_UserID = 7, pr_TokenHash = hashToken ''abc'', pr_ExpiresAt = 5000,
       pr_UsedAt = None, pr_CreatedAt = 0\<rparr>],
     access_tokens := [\<lparr>at_ID = 50, at_TenantID = 1, at_Token = ''x'', at_ClientID = 5, at_UserID = 7, at_FamilyID = 40,
       at_Scope = ''read'', at_ExpiresAt = 5000, at_CreatedAt = 500\<rparr>,
      \<lparr>at_ID = 51, at_TenantID = 1, at_Token = ''y'', at_ClientID = 5, at_UserID = 9, at_FamilyID = 41,
       at_Scope = ''read'', at_ExpiresAt = 5000, at_CreatedAt = 500\<rparr>]\<rparr>"

lemma password_reset_takes_over_witness:
  "\<exists>user w'. run_state (ResetPassword sample_env None 1 ''abc'' ''longer than eight'') reset_world = (Inr user, w')
     \<and> u_Status user = UserStatusActive \<and> map at_Token (access_tokens w') = [''y'']
     \<and> (\<exists>er. fst (run_state (ResetPassword sample_env None 1 ''abc'' ''another password'') w') = Inl er)"
proof -
  have env: "now sample_env = 1000" "fails sample_env k = False" "bcryptGenerate sample_env k p = Some (''b'' @ p)" for k p
    by (simp_all add: sample_env_def)
  obtain user w' where run: "run_state (ResetPassword sample_env None 1 ''abc'' ''longer than eight'') reset_world = (Inr user, w')"
    "u_Status user = UserStatusActive" "map at_Token (access_tokens w') = [''y'']"
    by (simp add: ResetPassword_def finishReset_def run_orReturn run_bind run_return run_succeed PasswordReset_GetByTokenHash_def
        password_resets.First_run User_GetByID_def users.First_run hashPassword_def PasswordReset_MarkUsed_def password_resets.Update_run
        User_Update_def users.Save_run revokeUserCredentials_def endUserSessions_def Session_DeleteByUserID_def sessions.Delete_run
        AccessToken_DeleteByUserID_def access_tokens.Delete_run RefreshToken_DeleteByUserID_def refresh_tokens.Delete_run run_mapErr
        PasswordReset_RevokeUnusedByUserID_def notifyPasswordChanged_def afterReset_def Let_def MinPasswordLength_def
        PasswordReset_IsUsed_def PasswordReset_IsExpired_def User_IsSuspended_def user_live_def reset_world_def sample_user_def
        empty_world_def env)
  have quiet: "quiet_sender None"
    by (simp add: quiet_sender_def)
  have "\<forall>e2 emails2 new2. \<exists>er. fst (run_state (ResetPassword e2 emails2 1 ''abc'' new2) w') = Inl er"
    using password_reset_takes_over [OF run(1) quiet] by (elim conjE)
  then obtain er where "fst (run_state (ResetPassword sample_env None 1 ''abc'' ''another password'') w') = Inl er"
    by blast
  then show ?thesis
    by (intro exI [of _ user] exI [of _ w'] exI [of _ er] conjI run)
qed

text \<open>A suspended or pending account still signs in: only a lock is looked at.\<close>

lemma suspended_user_signs_in:
  "fst (run_state (Authenticate sample_env 1 ''a@x.io'' ''secret'') (empty_world\<lparr>users := [lock_user\<lparr>u_Status := UserStatusSuspended\<rparr>]\<rparr>))
     = Inr (lock_user\<lparr>u_Status := UserStatusSuspended\<rparr>)"
  by (simp add: Authenticate_def RecordLoginAttempt_def run_orReturn run_bind run_succeed GetByEmail_run account_def user_live_def
      lock_user_def sample_user_def User_IsLocked_def sample_env_def empty_world_def split: prod.split)

end
