(* ===== verification/Idempotency.thy ===== *)
theory Idempotency
  imports Middleware Hmac
begin

text \<open>Retrying POST requests safely (\<^verbatim>\<open>internal/middleware/idempotency.go\<close>). \<^verbatim>\<open>encoding/json\<close> is a parameter; log lines are left out.\<close>

section \<open>Keys and fingerprints\<close>

definition maxIdempotencyKeyLength :: nat where "maxIdempotencyKeyLength = 255"
definition maxIdempotentBodyBytes :: nat where "maxIdempotentBodyBytes = 1048576"
definition idempotencyStaleAfter :: duration where "idempotencyStaleAfter = seconds 60"
definition IdempotencyKeyHeader :: string where "IdempotencyKeyHeader = ''Idempotency-Key''"

definition validIdempotencyKey :: "string \<Rightarrow> bool" where
  "validIdempotencyKey key \<longleftrightarrow> key \<noteq> [] \<and> length key \<le> maxIdempotencyKeyLength
     \<and> list_all (\<lambda>c. 0x21 \<le> byte_code c \<and> byte_code c \<le> 0x7e) key"

definition idempotencyPrincipal :: "env \<Rightarrow> gin \<Rightarrow> string" where
  "idempotencyPrincipal e g =
     (case GetUserID g of
        Some userID \<Rightarrow>
          if userID \<noteq> uuid_Nil then ''user:'' @ uuidString e userID
          else (case GetClientID g of Some clientID \<Rightarrow> ''client:'' @ clientID | None \<Rightarrow> ''anonymous'')
      | None \<Rightarrow> (case GetClientID g of Some clientID \<Rightarrow> ''client:'' @ clientID | None \<Rightarrow> ''anonymous''))"

definition requestFingerprint :: "string \<Rightarrow> string \<Rightarrow> string \<Rightarrow> string" where
  "requestFingerprint mthd uri body = hex_EncodeToString (sha256 (mthd @ [CHR 0x00] @ uri @ [CHR 0x00] @ body))"

section \<open>What is stored of a response\<close>

text \<open>A decoded JSON document: objects as association lists with distinct keys; numbers, strings, booleans and null are leaves.\<close>

datatype json = JObject "(string \<times> json) list" | JArray "json list" | JLeaf string

record jsonlib =
  json_Unmarshal :: "string \<Rightarrow> json option"
  json_Marshal :: "json \<Rightarrow> string option"

definition redactedResponseFields :: "string list" where
  "redactedResponseFields = [''client_secret'', ''secret'', ''otpauth_uri'', ''recovery_codes'', ''initial_access_token'']"

text \<open>The document without the redacted fields, and whether any was found; the answer for a field that is deleted is not looked at.\<close>

primrec redact :: "json \<Rightarrow> json \<times> bool" where
  "redact (JObject members) =
     (let children = map (map_prod id redact) members;
          kept = filter (\<lambda>(k, r). k \<notin> set redactedResponseFields) children
      in (JObject (map (map_prod id fst) kept), length kept < length children \<or> list_ex (snd \<circ> snd) kept))"
| "redact (JArray items) = (let children = map redact items in (JArray (map fst children), list_ex snd children))"
| "redact (JLeaf s) = (JLeaf s, False)"

definition redactResponse :: "jsonlib \<Rightarrow> string \<Rightarrow> string" where
  "redactResponse j body =
     (case json_Unmarshal j body of
        None \<Rightarrow> body
      | Some doc \<Rightarrow>
          if \<not> snd (redact doc) then body
          else (case json_Marshal j (fst (redact doc)) of None \<Rightarrow> body | Some out \<Rightarrow> out))"

section \<open>The middleware\<close>

record http_response =
  hr_Status :: int
  hr_ContentType :: string
  hr_Body :: string

text \<open>\<open>Passed\<close>: the handlers after it ran (\<^const>\<open>None\<close>: they panicked); \<open>Replayed\<close>: the stored response; \<open>Refused\<close>: an error.\<close>

datatype idempotency_reply = Passed "http_response option" | Replayed http_response | Refused int string string

definition respondInProgress :: idempotency_reply where
  "respondInProgress = Refused 409 ''RESOURCE_CONFLICT'' ''A request with this Idempotency-Key is still being processed''"

definition replayOrReject :: "IdempotencyKey \<Rightarrow> string \<Rightarrow> idempotency_reply" where
  "replayOrReject existing requestHash =
     (if ik_RequestHash existing \<noteq> requestHash
      then Refused 422 ''INVALID_REQUEST'' ''Idempotency-Key was already used with a different request''
      else if IdempotencyKey_InProgress existing then respondInProgress
      else Replayed \<lparr>hr_Status = ik_StatusCode existing,
             hr_ContentType = (if ik_ResponseContentType existing = [] then ''application/octet-stream'' else ik_ResponseContentType existing),
             hr_Body = ik_ResponseBody existing\<rparr>)"

definition idempotencyRecord :: "env \<Rightarrow> duration \<Rightarrow> uuid \<Rightarrow> uuid \<Rightarrow> gin \<Rightarrow> IdempotencyKey" where
  "idempotencyRecord e ttl i tenantID g =
     \<lparr>ik_ID = i, ik_TenantID = tenantID, ik_Principal = idempotencyPrincipal e g, ik_Key = g_Header g IdempotencyKeyHeader,
      ik_Method = g_Method g, ik_Path = g_URI g, ik_RequestHash = requestFingerprint (g_Method g) (g_URI g) (g_Body g),
      ik_StatusCode = 0, ik_ResponseContentType = [], ik_ResponseBody = [], ik_CreatedAt = zero_time, ik_ExpiresAt = now e + ttl\<rparr>"

text \<open>The handlers run; their response is stored, or the key released when they panicked, failed or the store did.\<close>

definition runStored ::
  "env \<Rightarrow> jsonlib \<Rightarrow> uuid \<Rightarrow> (world, http_response option) state \<Rightarrow> (world, idempotency_reply) state" where
  "runStored e j i handlers = do {
     response \<leftarrow> handlers;
     completed \<leftarrow> (case response of
        None \<Rightarrow> State_Monad.return False
      | Some r \<Rightarrow>
          if hr_Status r \<ge> 500 \<or> length (hr_Body r) > maxIdempotentBodyBytes then State_Monad.return False
          else do {
            stored \<leftarrow> IdempotencyKey_Complete e i (hr_Status r) (hr_ContentType r) (redactResponse j (hr_Body r));
            State_Monad.return (case stored of Inl _ \<Rightarrow> False | Inr _ \<Rightarrow> True)
          });
     _ \<leftarrow> (if completed then State_Monad.return (Inr ()) else IdempotencyKey_Delete e i);
     State_Monad.return (Passed response)
   }"

text \<open>\<open>readFails\<close>: reading the request body fails.\<close>

definition Idempotency ::
  "env \<Rightarrow> jsonlib \<Rightarrow> duration \<Rightarrow> bool \<Rightarrow> gin \<Rightarrow> (world, http_response option) state \<Rightarrow> (world, idempotency_reply) state" where
  "Idempotency e j ttl readFails g handlers =
     (let key = g_Header g IdempotencyKeyHeader in
      if g_Method g \<noteq> ''POST'' \<or> key = [] then do { r \<leftarrow> handlers; State_Monad.return (Passed r) }
      else if \<not> validIdempotencyKey key
      then State_Monad.return (Refused 400 ''INVALID_REQUEST'' ''Idempotency-Key must be 1-255 visible ASCII characters'')
      else case GetTenantID g of
        None \<Rightarrow> State_Monad.return (Refused 401 ''UNAUTHORIZED'' ''Invalid tenant context'')
      | Some tenantID \<Rightarrow>
          if readFails then State_Monad.return (Refused 400 ''INVALID_REQUEST'' ''Failed to read request body'')
          else if length (g_Body g) > maxIdempotentBodyBytes
          then State_Monad.return (Refused 413 ''INVALID_REQUEST'' ''Request body too large'')
          else do {
            i \<leftarrow> uuid_New e;
            let record = idempotencyRecord e ttl i tenantID g;
            begun \<leftarrow> IdempotencyKey_Begin e record (now e - idempotencyStaleAfter);
            (case begun of
               Inl er \<Rightarrow>
                 if errors_Is er ErrResourceConflict then State_Monad.return respondInProgress
                 else State_Monad.return (Refused 500 ''INTERNAL_ERROR'' ''Internal server error'')
             | Inr (True, _) \<Rightarrow> runStored e j i handlers
             | Inr (False, None) \<Rightarrow> State_Monad.return (Refused 500 ''INTERNAL_ERROR'' ''Internal server error'')
             | Inr (False, Some existing) \<Rightarrow> State_Monad.return (replayOrReject existing (ik_RequestHash record)))
          })"

end
