(* ===== verification/IdempotencyProperties.thy ===== *)
theory IdempotencyProperties
  imports Idempotency Effects Samples
begin

text \<open>Retried POST requests get the stored response; the handlers do not run again.\<close>

section \<open>The table of keys\<close>

definition keys_wf :: "world \<Rightarrow> bool" where
  "keys_wf w \<longleftrightarrow> distinct (map ik_ID (idempotency_keys w)) \<and> distinct (map idempotency_scope (idempotency_keys w))"

definition key_held :: "IdempotencyKey \<Rightarrow> world \<Rightarrow> bool" where
  "key_held k w \<longleftrightarrow> keys_wf w \<and> k \<in> set (idempotency_keys w)"

lemma same_id: "keys_wf w \<Longrightarrow> a \<in> set (idempotency_keys w) \<Longrightarrow> b \<in> set (idempotency_keys w) \<Longrightarrow> ik_ID a = ik_ID b \<Longrightarrow> a = b"
  by (rule distinct_map_eq [of ik_ID]) (auto simp: keys_wf_def)

lemma same_scope:
  "keys_wf w \<Longrightarrow> a \<in> set (idempotency_keys w) \<Longrightarrow> b \<in> set (idempotency_keys w) \<Longrightarrow> idempotency_scope a = idempotency_scope b \<Longrightarrow> a = b"
  by (rule distinct_map_eq [of idempotency_scope]) (auto simp: keys_wf_def)

lemma idempotency_scope_update [simp]:
  "idempotency_scope (k\<lparr>ik_StatusCode := s, ik_ResponseContentType := c, ik_ResponseBody := b\<rparr>) = idempotency_scope k"
  "idempotency_scope (k\<lparr>ik_CreatedAt := t\<rparr>) = idempotency_scope k"
  by (simp_all add: idempotency_scope_def)

lemma find_scope:
  assumes "key_held k w" "idempotency_scope k = s"
  shows "find (\<lambda>k. idempotency_scope k = s) (idempotency_keys w) = Some k"
proof -
  obtain k' where k': "find (\<lambda>k. idempotency_scope k = s) (idempotency_keys w) = Some k'"
    using assms by (cases "find (\<lambda>k. idempotency_scope k = s) (idempotency_keys w)") (auto simp: find_None_iff key_held_def)
  moreover have "k' = k"
    using same_scope [of w k' k] find_SomeD [OF k'] assms by (auto simp: key_held_def)
  ultimately show ?thesis by simp
qed

text \<open>Taking a dead record over replaces the one row of its scope.\<close>

lemma distinct_map_replace:
  assumes "distinct (map f xs)" "distinct (map g xs)" "\<forall>x \<in> set xs. g x \<noteq> g row \<longrightarrow> f x \<noteq> f row"
  shows "distinct (map f (map (\<lambda>x. if g x = g row then row else x) xs))"
  using assms by (induction xs) (auto simp: image_iff split: if_splits; metis)+

lemma begin_wf:
  assumes "keys_wf w" "idempotency_keys w' = map (\<lambda>k. if idempotency_scope k = idempotency_scope row then row else k) (idempotency_keys w)"
    and "\<not> list_ex (\<lambda>k. idempotency_scope k \<noteq> idempotency_scope row \<and> ik_ID k = ik_ID row) (idempotency_keys w)"
  shows "keys_wf w'"
  using assms distinct_map_replace [of ik_ID "idempotency_keys w" idempotency_scope row]
    distinct_map_replace [of idempotency_scope "idempotency_keys w" idempotency_scope row]
  by (auto simp: keys_wf_def list_ex_iff)

section \<open>Beginning a request\<close>

definition dead_key :: "env \<Rightarrow> go_time \<Rightarrow> IdempotencyKey \<Rightarrow> bool" where
  "dead_key e sb k \<longleftrightarrow> ik_ExpiresAt k < now e \<or> ik_StatusCode k = 0 \<and> ik_CreatedAt k < sb"

definition replaced :: "IdempotencyKey \<Rightarrow> world \<Rightarrow> world" where
  "replaced row = idempotency_keys_update (map (\<lambda>k. if idempotency_scope k = idempotency_scope row then row else k))"

lemma idempotency_keys_replaced:
  "idempotency_keys (replaced row w) = map (\<lambda>k. if idempotency_scope k = idempotency_scope row then row else k) (idempotency_keys w)"
  by (simp add: replaced_def)

lemma run_Begin:
  "run_state (IdempotencyKey_Begin e r sb) w =
     (let row = r\<lparr>ik_CreatedAt := now e\<rparr>; w1 = w\<lparr>stmts := Suc (stmts w)\<rparr>; failed = Wrapped ''failed to store idempotency key'' in
      if fails e (stmts w) then (Inl (failed DBError), w1)
      else case find (\<lambda>k. idempotency_scope k = idempotency_scope r) (idempotency_keys w) of
        None \<Rightarrow>
          if \<exists>k \<in> set (idempotency_keys w). ik_ID k = ik_ID r then (Inl (failed UniqueViolation), w1)
          else (Inr (True, None), idempotency_keys_update (\<lambda>rows. rows @ [row]) w1)
      | Some k \<Rightarrow>
          if dead_key e sb k
          then if \<exists>k \<in> set (idempotency_keys w). idempotency_scope k \<noteq> idempotency_scope r \<and> ik_ID k = ik_ID r
            then (Inl (failed UniqueViolation), w1)
            else (Inr (True, None), replaced row w1)
          else (if fails e (Suc (stmts w)) then Inl (Wrapped ''failed to get idempotency key'' DBError) else Inr (False, Some k),
                w1\<lparr>stmts := Suc (stmts w1)\<rparr>))"
proof (cases "find (\<lambda>k. idempotency_scope k = idempotency_scope r) (idempotency_keys w)")
  case None
  then show ?thesis
    by (simp add: IdempotencyKey_Begin_def run_orReturn run_runSQL run_succeed Let_def list_ex_iff)
next
  case (Some k)
  then show ?thesis
    by (auto simp: IdempotencyKey_Begin_def run_orReturn run_runSQL run_succeed idempotency_keys.First_run Let_def list_ex_iff
        dead_key_def replaced_def)
qed

text \<open>Either the new record is stored, and every live one is still there; or nothing is, and the record of the scope is returned.\<close>

lemma Begin_new:
  assumes "run_state (IdempotencyKey_Begin e r sb) w = (Inr (True, x), w')" "keys_wf w"
  shows "key_held (r\<lparr>ik_CreatedAt := now e\<rparr>) w'
     \<and> (\<forall>k. key_held k w \<longrightarrow> \<not> dead_key e sb k \<longrightarrow> key_held k w')"
proof (cases "find (\<lambda>k. idempotency_scope k = idempotency_scope r) (idempotency_keys w)")
  case None
  have "idempotency_keys w' = idempotency_keys w @ [r\<lparr>ik_CreatedAt := now e\<rparr>]" "\<forall>k \<in> set (idempotency_keys w). ik_ID k \<noteq> ik_ID r"
    using assms(1) None by (auto simp: run_Begin Let_def split: if_splits)
  then show ?thesis
    using assms(2) None by (auto simp: key_held_def keys_wf_def find_None_iff)
next
  case (Some k')
  let ?row = "r\<lparr>ik_CreatedAt := now e\<rparr>"
  have d: "dead_key e sb k'"
    and n: "\<forall>k \<in> set (idempotency_keys w). idempotency_scope k \<noteq> idempotency_scope r \<longrightarrow> ik_ID k \<noteq> ik_ID r"
    and w': "w' = replaced ?row (w\<lparr>stmts := Suc (stmts w)\<rparr>)"
    using assms(1) Some by (auto simp: run_Begin Let_def split: if_splits)
  have keys: "idempotency_keys w' = map (\<lambda>k. if idempotency_scope k = idempotency_scope ?row then ?row else k) (idempotency_keys w)"
    by (simp add: w' replaced_def)
  have wf: "keys_wf w'"
    by (rule begin_wf [OF assms(2) keys]) (use n in \<open>auto simp: list_ex_iff\<close>)
  have k': "k' \<in> set (idempotency_keys w)" "idempotency_scope k' = idempotency_scope r"
    using find_SomeD [OF Some] by auto
  have "?row \<in> set (idempotency_keys w')"
    using k' unfolding keys by force
  moreover have "k \<in> set (idempotency_keys w')" if "k \<in> set (idempotency_keys w)" "\<not> dead_key e sb k" for k
    using that same_scope [OF assms(2) that(1) k'(1)] k'(2) d unfolding keys by (auto simp: image_iff)
  ultimately show ?thesis
    using wf by (auto simp: key_held_def)
qed

lemma Begin_not_new:
  assumes "run_state (IdempotencyKey_Begin e r sb) w = (x, w')" "\<nexists>y. x = Inr (True, y)"
  shows "\<exists>n. w' = w\<lparr>stmts := n\<rparr>"
  using assms by (cases "find (\<lambda>k. idempotency_scope k = idempotency_scope r) (idempotency_keys w)")
    (auto simp: run_Begin Let_def split: if_splits)

lemma Begin_live:
  assumes "key_held k w" "idempotency_scope k = idempotency_scope r" "\<not> dead_key e sb k"
  shows "\<exists>n. run_state (IdempotencyKey_Begin e r sb) w = (Inr (False, Some k), w\<lparr>stmts := n\<rparr>)
     \<or> ((\<exists>n. fails e n) \<and> (\<exists>m. run_state (IdempotencyKey_Begin e r sb) w = (Inl (Wrapped m DBError), w\<lparr>stmts := n\<rparr>)))"
  using find_scope [OF assms(1,2)] assms(3) by (auto simp: run_Begin Let_def)

section \<open>Handling a request\<close>

lemma key_held_Delete:
  assumes "key_held k w" "ik_ID k \<noteq> i"
  shows "key_held k (snd (run_state (IdempotencyKey_Delete e i) w))"
  using assms by (auto simp: IdempotencyKey_Delete_def idempotency_keys.Delete_run key_held_def keys_wf_def distinct_map_filter)

lemma Complete_run:
  "run_state (IdempotencyKey_Complete e i s c b) w =
     (if fails e (stmts w) then (Inl (Wrapped ''failed to complete idempotency key'' DBError), w\<lparr>stmts := Suc (stmts w)\<rparr>)
      else (Inr (), idempotency_keys_update (\<lambda>_. map (\<lambda>k. if ik_ID k = i
               then k\<lparr>ik_StatusCode := s, ik_ResponseContentType := c, ik_ResponseBody := b\<rparr> else k) (idempotency_keys w))
             (w\<lparr>stmts := Suc (stmts w)\<rparr>)))"
  by (simp add: IdempotencyKey_Complete_def run_orReturn run_succeed idempotency_keys.Update_run)

lemma completed_wf:
  assumes "keys_wf w" "idempotency_keys w' = map (\<lambda>k. if ik_ID k = i
     then k\<lparr>ik_StatusCode := s, ik_ResponseContentType := c, ik_ResponseBody := b\<rparr> else k) (idempotency_keys w)"
  shows "keys_wf w'"
proof -
  have "map ik_ID (idempotency_keys w') = map ik_ID (idempotency_keys w)"
    "map idempotency_scope (idempotency_keys w') = map idempotency_scope (idempotency_keys w)"
    by (simp_all add: assms(2))
  then show ?thesis
    using assms(1) by (simp add: keys_wf_def)
qed

lemma key_held_Complete:
  assumes "key_held k w" "ik_ID k \<noteq> i"
  shows "key_held k (snd (run_state (IdempotencyKey_Complete e i s c b) w))"
proof (cases "fails e (stmts w)")
  case True
  then show ?thesis
    using assms by (simp add: Complete_run key_held_def keys_wf_def)
next
  case False
  let ?w' = "snd (run_state (IdempotencyKey_Complete e i s c b) w)"
  have keys: "idempotency_keys ?w' = map (\<lambda>k. if ik_ID k = i
     then k\<lparr>ik_StatusCode := s, ik_ResponseContentType := c, ik_ResponseBody := b\<rparr> else k) (idempotency_keys w)"
    using False by (simp add: Complete_run)
  show ?thesis
    using completed_wf [OF _ keys] assms unfolding key_held_def keys by (auto simp: image_iff)
qed

text \<open>A request in between leaves every live record alone that is not its own.\<close>

lemma runStored_keeps:
  assumes "key_held k w" "ik_ID k \<noteq> i" "steps (preserving (key_held k)) handlers"
  shows "key_held k (snd (run_state (runStored e j i handlers) w))"
proof -
  have "steps (preserving (key_held k)) (IdempotencyKey_Delete e i)" "steps (preserving (key_held k)) (IdempotencyKey_Complete e i s c b)" for s c b
    using key_held_Delete [OF _ assms(2)] key_held_Complete [OF _ assms(2)] by (simp_all add: steps_def preserving_def)
  then have "steps (preserving (key_held k)) (runStored e j i handlers)"
    unfolding runStored_def by (intro inv.steps_intros assms(3))
  then show ?thesis
    using assms(1) by (simp add: steps_def preserving_def)
qed

lemma Idempotency_keeps:
  assumes "key_held k w" "now e \<le> ik_ExpiresAt k" "ik_StatusCode k \<noteq> 0" "steps (preserving (key_held k)) handlers"
  shows "key_held k (snd (run_state (Idempotency e j ttl readFails g handlers) w))"
proof -
  have "steps (preserving (key_held k)) (do { r \<leftarrow> handlers; State_Monad.return (Passed r) })"
    by (intro inv.steps_intros assms(4))
  then have pass: "key_held k (snd (run_state (do { r \<leftarrow> handlers; State_Monad.return (Passed r) }) w))"
    using assms(1) by (simp add: steps_def preserving_def)
  have main: "key_held k (snd (run_state (do {
            i \<leftarrow> uuid_New e;
            let record = idempotencyRecord e ttl i t g;
            begun \<leftarrow> IdempotencyKey_Begin e record (now e - idempotencyStaleAfter);
            (case begun of
               Inl er \<Rightarrow>
                 if errors_Is er ErrResourceConflict then State_Monad.return respondInProgress
                 else State_Monad.return (Refused 500 ''INTERNAL_ERROR'' ''Internal server error'')
             | Inr (True, _) \<Rightarrow> runStored e j i handlers
             | Inr (False, None) \<Rightarrow> State_Monad.return (Refused 500 ''INTERNAL_ERROR'' ''Internal server error'')
             | Inr (False, Some existing) \<Rightarrow> State_Monad.return (replayOrReject existing (ik_RequestHash record)))
          }) w))" for t
  proof -
    let ?i = "newUUID e (draws w)" and ?w1 = "w\<lparr>draws := Suc (draws w)\<rparr>"
    let ?r = "idempotencyRecord e ttl ?i t g"
    obtain x w2 where x: "run_state (IdempotencyKey_Begin e ?r (now e - idempotencyStaleAfter)) ?w1 = (x, w2)"
      by fastforce
    have k1: "key_held k ?w1" "keys_wf ?w1"
      using assms(1) by (simp_all add: key_held_def keys_wf_def)
    show ?thesis
    proof (cases "\<exists>y. x = Inr (True, y)")
      case True
      then obtain y where y: "x = Inr (True, y)" by blast
      have live: "\<not> dead_key e (now e - idempotencyStaleAfter) k"
        using assms(2,3) by (simp add: dead_key_def)
      have held: "key_held (?r\<lparr>ik_CreatedAt := now e\<rparr>) w2" "key_held k w2"
        using Begin_new [OF x [unfolded y] k1(2)] k1(1) live by auto
      have "ik_ID k \<noteq> ?i"
        using same_id [of w2 k "?r\<lparr>ik_CreatedAt := now e\<rparr>"] held assms(3) by (auto simp: key_held_def idempotencyRecord_def)
      then show ?thesis
        using runStored_keeps [OF held(2) _ assms(4)] by (simp add: run_bind run_uuid_New x [unfolded y] Let_def)
    next
      case False
      then obtain n where "w2 = ?w1\<lparr>stmts := n\<rparr>"
        using Begin_not_new [OF x] by blast
      then show ?thesis
        using False k1(1)
        by (auto simp: run_bind run_uuid_New x Let_def run_return key_held_def keys_wf_def split: sum.split prod.split option.split bool.split)
    qed
  qed
  show ?thesis
    using assms(1) pass main unfolding Idempotency_def Let_def
    by (simp add: run_return split: option.split)
qed

section \<open>Replaying\<close>

lemma first_run:
  assumes "keys_wf w" "run_state (Idempotency e j ttl readFails g handlers) w = (Passed (Some r), w')"
    and "g_Method g = ''POST''" "g_Header g IdempotencyKeyHeader \<noteq> []" "GetTenantID g = Some t" "\<forall>n. \<not> fails e n"
    and "hr_Status r < 500" "length (hr_Body r) \<le> maxIdempotentBodyBytes" "steps (framing idempotency_keys) handlers"
  shows "\<exists>i. key_held ((idempotencyRecord e ttl i t g)\<lparr>ik_CreatedAt := now e, ik_StatusCode := hr_Status r,
       ik_ResponseContentType := hr_ContentType r, ik_ResponseBody := redactResponse j (hr_Body r)\<rparr>) w'"
proof -
  let ?i = "newUUID e (draws w)" and ?w1 = "w\<lparr>draws := Suc (draws w)\<rparr>"
  let ?r = "idempotencyRecord e ttl ?i t g"
  obtain x w2 where x: "run_state (IdempotencyKey_Begin e ?r (now e - idempotencyStaleAfter)) ?w1 = (x, w2)"
    by fastforce
  obtain y where y: "x = Inr (True, y)" and run: "run_state (runStored e j ?i handlers) w2 = (Passed (Some r), w')"
    using assms(2-5) x
    by (auto simp: Idempotency_def Let_def run_bind run_uuid_New run_return respondInProgress_def replayOrReject_def
        split: if_splits sum.splits prod.splits bool.splits option.splits)
  have "keys_wf ?w1"
    using assms(1) by (simp add: keys_wf_def)
  then have held: "key_held (?r\<lparr>ik_CreatedAt := now e\<rparr>) w2"
    using Begin_new [OF x [unfolded y]] by simp
  obtain resp w3 where h: "run_state handlers w2 = (resp, w3)"
    by fastforce
  then have keys: "idempotency_keys w3 = idempotency_keys w2"
    using frm.steps_run [OF assms(9) h] by (simp add: framing_def)
  have "resp = Some r"
    using run h by (auto simp: runStored_def run_bind run_return split: option.splits if_splits prod.splits)
  then have w': "w' = snd (run_state (IdempotencyKey_Complete e ?i (hr_Status r) (hr_ContentType r) (redactResponse j (hr_Body r))) w3)"
    using run h assms(6-8) by (simp add: runStored_def run_bind run_return Complete_run)
  have k: "idempotency_keys w' = map (\<lambda>k. if ik_ID k = ?i then k\<lparr>ik_StatusCode := hr_Status r, ik_ResponseContentType := hr_ContentType r,
       ik_ResponseBody := redactResponse j (hr_Body r)\<rparr> else k) (idempotency_keys w2)"
    using assms(6) by (simp add: w' Complete_run keys)
  have "ik_ID (?r\<lparr>ik_CreatedAt := now e\<rparr>) = ?i"
    by (simp add: idempotencyRecord_def)
  then show ?thesis
    using held completed_wf [OF _ k] unfolding key_held_def k by (intro exI [of _ ?i]) (force simp: image_iff)
qed

lemma stored_answers:
  assumes "key_held k w" "\<not> dead_key e (now e - idempotencyStaleAfter) k" "idempotency_scope k = (t, idempotencyPrincipal e g, key)"
    and "g_Method g = ''POST''" "g_Header g IdempotencyKeyHeader = key" "validIdempotencyKey key" "GetTenantID g = Some t"
    and "length (g_Body g) \<le> maxIdempotentBodyBytes"
  shows "\<exists>n d. run_state (Idempotency e j ttl False g handlers) w
       = (replayOrReject k (requestFingerprint (g_Method g) (g_URI g) (g_Body g)), w\<lparr>stmts := n, draws := d\<rparr>)
     \<or> (\<exists>n. fails e n) \<and> run_state (Idempotency e j ttl False g handlers) w
       = (Refused 500 ''INTERNAL_ERROR'' ''Internal server error'', w\<lparr>stmts := n, draws := d\<rparr>)"
proof -
  let ?i = "newUUID e (draws w)" and ?w1 = "w\<lparr>draws := Suc (draws w)\<rparr>"
  let ?r = "idempotencyRecord e ttl ?i t g"
  have key: "key \<noteq> []"
    using assms(6) by (simp add: validIdempotencyKey_def)
  have scope: "idempotency_scope k = idempotency_scope ?r"
    using assms(3,5) by (simp add: idempotency_scope_def idempotencyRecord_def)
  have "key_held k ?w1"
    using assms(1) by (simp add: key_held_def keys_wf_def)
  from Begin_live [OF this scope assms(2)] obtain n where n:
    "run_state (IdempotencyKey_Begin e ?r (now e - idempotencyStaleAfter)) ?w1 = (Inr (False, Some k), ?w1\<lparr>stmts := n\<rparr>)
     \<or> (\<exists>n. fails e n) \<and> (\<exists>m. run_state (IdempotencyKey_Begin e ?r (now e - idempotencyStaleAfter)) ?w1 = (Inl (Wrapped m DBError), ?w1\<lparr>stmts := n\<rparr>))"
    by blast
  have "ik_RequestHash ?r = requestFingerprint (g_Method g) (g_URI g) (g_Body g)"
    by (simp add: idempotencyRecord_def)
  with n show ?thesis
    using assms(4-8) key
    by (intro exI [of _ n] exI [of _ "Suc (draws w)"])
      (auto simp: Idempotency_def Let_def run_bind run_uuid_New run_return not_less)
qed

text \<open>Anything that may happen while a record is kept: other requests through the middleware, with other keys or the same, under
  database faults; clean-up; changes to other tables.\<close>

inductive meanwhile :: "go_time \<Rightarrow> world \<Rightarrow> world \<Rightarrow> bool" for until :: go_time and w :: world where
  nothing: "meanwhile until w w"
| request: "meanwhile until w v \<Longrightarrow> now e \<le> until \<Longrightarrow> steps (framing idempotency_keys) handlers
     \<Longrightarrow> meanwhile until w (snd (run_state (Idempotency e j ttl readFails g handlers) v))"
| cleanup: "meanwhile until w v \<Longrightarrow> now e \<le> until \<Longrightarrow> meanwhile until w (snd (run_state (IdempotencyKey_DeleteExpired e) v))"
| other: "meanwhile until w v \<Longrightarrow> idempotency_keys v' = idempotency_keys v \<Longrightarrow> meanwhile until w v'"

lemma meanwhile_keeps:
  assumes "meanwhile until w w'" "key_held k w" "ik_StatusCode k \<noteq> 0" "until \<le> ik_ExpiresAt k"
  shows "key_held k w'"
  using assms(1)
proof induction
  case nothing
  then show ?case by (rule assms(2))
next
  case (request v e handlers j ttl readFails g)
  have "steps (preserving (key_held k)) handlers"
    using request(3) by (auto simp: steps_def preserving_def framing_def key_held_def keys_wf_def)
  then show ?case
    using Idempotency_keeps [OF request(4)] request(2) assms(3,4) by simp
next
  case (cleanup v e)
  then show ?case
    using assms(4) by (auto simp: IdempotencyKey_DeleteExpired_def idempotency_keys.Delete_run key_held_def keys_wf_def distinct_map_filter)
next
  case (other v v')
  then show ?case by (simp add: key_held_def keys_wf_def)
qed

text \<open>C26: A retried POST is answered from the first response: once a request with a key has run to a response below 500, then until its
  record expires, whatever comes in between, the same principal of the tenant sending the same request under the key gets that
  response with its one-time secrets removed, another request under the key is refused, and in neither case do the handlers run:
  nothing but the counters of statements and random draws
  changes. When the database fails, the answer is an error.\<close>

theorem idempotent_replay:
  assumes "keys_wf w" "run_state (Idempotency e j ttl readFails g handlers) w = (Passed (Some r), w1)"
    and "g_Method g = ''POST''" "g_Header g IdempotencyKeyHeader = key" "validIdempotencyKey key" "GetTenantID g = Some t"
    and "\<forall>n. \<not> fails e n" "0 < hr_Status r" "hr_Status r < 500" "length (hr_Body r) \<le> maxIdempotentBodyBytes"
    and "steps (framing idempotency_keys) handlers"
    and "meanwhile (now e + ttl) w1 w2"
    and "g_Method g2 = ''POST''" "g_Header g2 IdempotencyKeyHeader = key" "GetTenantID g2 = Some t"
    and "idempotencyPrincipal e2 g2 = idempotencyPrincipal e g" "length (g_Body g2) \<le> maxIdempotentBodyBytes" "now e2 \<le> now e + ttl"
  shows "\<exists>answer n d. run_state (Idempotency e2 j ttl2 False g2 handlers2) w2 = (answer, w2\<lparr>stmts := n, draws := d\<rparr>)
     \<and> ((\<exists>n. fails e2 n) \<and> answer = Refused 500 ''INTERNAL_ERROR'' ''Internal server error''
        \<or> answer = (if requestFingerprint ''POST'' (g_URI g2) (g_Body g2) = requestFingerprint ''POST'' (g_URI g) (g_Body g)
            then Replayed \<lparr>hr_Status = hr_Status r,
                hr_ContentType = (if hr_ContentType r = [] then ''application/octet-stream'' else hr_ContentType r),
                hr_Body = redactResponse j (hr_Body r)\<rparr>
            else Refused 422 ''INVALID_REQUEST'' ''Idempotency-Key was already used with a different request''))"
proof -
  have "g_Header g IdempotencyKeyHeader \<noteq> []"
    using assms(4,5) by (auto simp: validIdempotencyKey_def)
  from first_run [OF assms(1-3) this assms(6,7,9,10,11)] obtain i where i:
    "key_held ((idempotencyRecord e ttl i t g)\<lparr>ik_CreatedAt := now e, ik_StatusCode := hr_Status r,
       ik_ResponseContentType := hr_ContentType r, ik_ResponseBody := redactResponse j (hr_Body r)\<rparr>) w1" (is "key_held ?k w1")
    by blast
  have k: "ik_StatusCode ?k = hr_Status r" "ik_ExpiresAt ?k = now e + ttl" "idempotency_scope ?k = (t, idempotencyPrincipal e2 g2, key)"
    using assms(4,16) by (simp_all add: idempotencyRecord_def idempotency_scope_def)
  have held: "key_held ?k w2"
    using meanwhile_keeps [OF assms(12) i] k(1,2) assms(8) by simp
  have live: "\<not> dead_key e2 (now e2 - idempotencyStaleAfter) ?k"
    using k(1,2) assms(8,18) by (simp add: dead_key_def)
  have "ik_RequestHash ?k = requestFingerprint ''POST'' (g_URI g) (g_Body g)"
    using assms(3) by (simp add: idempotencyRecord_def)
  then have "replayOrReject ?k (requestFingerprint (g_Method g2) (g_URI g2) (g_Body g2)) =
      (if requestFingerprint ''POST'' (g_URI g2) (g_Body g2) = requestFingerprint ''POST'' (g_URI g) (g_Body g)
       then Replayed \<lparr>hr_Status = hr_Status r,
                hr_ContentType = (if hr_ContentType r = [] then ''application/octet-stream'' else hr_ContentType r),
                hr_Body = redactResponse j (hr_Body r)\<rparr>
       else Refused 422 ''INVALID_REQUEST'' ''Idempotency-Key was already used with a different request'')"
    using assms(8,13) by (simp add: replayOrReject_def IdempotencyKey_InProgress_def)
  then show ?thesis
    using stored_answers [OF held live k(3) assms(13,14,5,15,17), of j ttl2 handlers2] by metis
qed

text \<open>The witness: a client is created, and the creation retried half a minute later.\<close>

definition retry_json :: jsonlib where
  "retry_json = \<lparr>json_Unmarshal = (\<lambda>body. Some (JObject [(''client_id'', JLeaf ''abc''), (''client_secret'', JLeaf ''s3cret'')])),
     json_Marshal = (\<lambda>doc. if doc = JObject [(''client_id'', JLeaf ''abc'')] then Some ''{client_id: abc}'' else None)\<rparr>"

definition retry_gin :: gin where
  "retry_gin = \<lparr>g_Method = ''POST'', g_Path = ''/v1/clients'', g_URI = ''/v1/clients'', g_Host = ''acme.id'',
     g_Header = (\<lambda>h. if h = IdempotencyKeyHeader then ''k1'' else []), g_Param = (\<lambda>_. []), g_PostForm = (\<lambda>_. []),
     g_ClientIP = ''192.0.2.1'', g_Body = ''{}'', g_Keys = [TenantIDKey \<mapsto> UUIDValue 1], g_Out = Map.empty\<rparr>"

definition retry_created :: http_response where
  "retry_created = \<lparr>hr_Status = 201, hr_ContentType = ''application/json'', hr_Body = ''{client_id: abc, client_secret: s3cret}''\<rparr>"

lemma retry_facts:
  "g_Method retry_gin = ''POST''" "g_Header retry_gin IdempotencyKeyHeader = ''k1''" "validIdempotencyKey ''k1''"
  "GetTenantID retry_gin = Some 1" "length (g_Body retry_gin) \<le> maxIdempotentBodyBytes"
  "0 < hr_Status retry_created" "hr_Status retry_created < 500" "length (hr_Body retry_created) \<le> maxIdempotentBodyBytes"
  by (simp_all add: retry_gin_def retry_created_def GetTenantID_def maxIdempotentBodyBytes_def)
    (simp add: validIdempotencyKey_def maxIdempotencyKeyLength_def byte_code_def)

lemma idempotent_replay_witness:
  "\<exists>w1 w2. run_state (Idempotency sample_env retry_json (seconds 3600) False retry_gin (State_Monad.return (Some retry_created))) empty_world
       = (Passed (Some retry_created), w1)
     \<and> run_state (Idempotency (sample_env\<lparr>now := now sample_env + 30\<rparr>) retry_json (seconds 3600) False retry_gin (State_Monad.return None)) w1
       = (Replayed \<lparr>hr_Status = 201, hr_ContentType = ''application/json'', hr_Body = ''{client_id: abc}''\<rparr>, w2)"
proof -
  let ?h = "State_Monad.return (Some retry_created) :: (world, http_response option) state"
  let ?e2 = "sample_env\<lparr>now := now sample_env + 30\<rparr>"
  have env: "fails sample_env n = False" "fails ?e2 n = False" for n
    by (simp_all add: sample_env_def)
  obtain w1 where w1: "run_state (Idempotency sample_env retry_json (seconds 3600) False retry_gin ?h) empty_world = (Passed (Some retry_created), w1)"
    using retry_facts
    by (simp add: Idempotency_def Let_def run_bind run_uuid_New run_Begin run_return env not_less)
      (simp add: empty_world_def runStored_def run_bind run_return Complete_run env not_less)
  have principal: "idempotencyPrincipal ?e2 retry_gin = idempotencyPrincipal sample_env retry_gin"
    by (simp add: idempotencyPrincipal_def split: option.split)
  have h: "steps (framing idempotency_keys) ?h" "keys_wf empty_world" "\<forall>n. \<not> fails sample_env n" "now ?e2 \<le> now sample_env + seconds 3600"
    by (simp_all add: frm.steps_return keys_wf_def empty_world_def env seconds_def nanosecond_per_second_def wrap64_def)
  have body: "redactResponse retry_json (hr_Body retry_created) = ''{client_id: abc}''"
    by (simp add: redactResponse_def retry_json_def redactedResponseFields_def)
  show ?thesis
    using idempotent_replay [OF h(2) w1 retry_facts(1-4) h(3) retry_facts(6-8) h(1) meanwhile.nothing retry_facts(1,2,4) principal
        retry_facts(5) h(4), of "seconds 3600" "State_Monad.return None"] w1 env(2) body
    by (auto simp: retry_created_def)
qed

end
