(* ===== verification/HandlerSecurity.thy ===== *)
theory HandlerSecurity
  imports Middleware Hmac
begin

text \<open>What the OAuth handlers share (\<^verbatim>\<open>internal/handlers/oauth_security.go\<close> and the signed tokens of
  \<^verbatim>\<open>oauth_mfa.go\<close>): client credentials of a request, CSRF tokens, and the token between the password and the second factor.\<close>

section \<open>Library routines\<close>

text \<open>\<^verbatim>\<open>strings.Cut\<close> at a character, and \<^verbatim>\<open>strings.SplitN\<close> with two parts: \<open>None\<close> when it does not occur.\<close>

definition strings_Cut :: "char \<Rightarrow> string \<Rightarrow> (string \<times> string) option" where
  "strings_Cut c s = (if c \<in> set s then Some (takeWhile (\<lambda>x. x \<noteq> c) s, tl (dropWhile (\<lambda>x. x \<noteq> c) s)) else None)"

text \<open>\<^verbatim>\<open>base64.RawURLEncoding\<close> and, with padding, \<^verbatim>\<open>base64.StdEncoding\<close>.\<close>

definition b64url_DecodeString :: "string \<Rightarrow> string option" where
  "b64url_DecodeString s =
     (if CHR ''+'' \<in> set s \<or> CHR ''/'' \<in> set s then None else b64std_DecodeString (map b64std_char s))"

definition b64padded_DecodeString :: "string \<Rightarrow> string option" where
  "b64padded_DecodeString s0 =
     (let s = filter (\<lambda>c. byte_code c \<noteq> 10 \<and> byte_code c \<noteq> 13) s0;
          unpadded = (if suffix ''=='' s then take (length s - 2) s else if suffix ''='' s then butlast s else s)
      in if length s mod 4 \<noteq> 0 then None
         else if CHR ''-'' \<in> set unpadded \<or> CHR ''_'' \<in> set unpadded then None else b64std_DecodeString unpadded)"

definition unhex :: "char \<Rightarrow> nat option" where
  "unhex c =
     (let n = byte_code c in
      if 48 \<le> n \<and> n \<le> 57 then Some (n - 48)
      else if 65 \<le> n \<and> n \<le> 70 then Some (n - 55)
      else if 97 \<le> n \<and> n \<le> 102 then Some (n - 87) else None)"

fun url_QueryUnescape :: "string \<Rightarrow> string option" where
  "url_QueryUnescape [] = Some []"
| "url_QueryUnescape (c # cs) =
     (if c = CHR ''%'' then
        (case cs of
           a # b # rest \<Rightarrow>
             (case (unhex a, unhex b) of
                (Some m, Some n) \<Rightarrow> map_option ((#) (char_of (16 * m + n))) (url_QueryUnescape rest)
              | _ \<Rightarrow> None)
         | _ \<Rightarrow> None)
      else map_option ((#) (if c = CHR ''+'' then CHR '' '' else c)) (url_QueryUnescape cs))"

section \<open>Requests\<close>

text \<open>The query parameters, form fields (\<^const>\<open>g_PostForm\<close>) and cookies of a request beside what the middleware sees.\<close>

record http_req =
  hq_gin :: gin
  hq_Query :: "string \<Rightarrow> string"
  hq_Cookie :: "string \<Rightarrow> string option"

definition hq_Post :: "http_req \<Rightarrow> bool" where
  "hq_Post r \<longleftrightarrow> g_Method (hq_gin r) = ''POST''"

definition hq_Form :: "http_req \<Rightarrow> string \<Rightarrow> string" where
  "hq_Form r = g_PostForm (hq_gin r)"

text \<open>\<^verbatim>\<open>Request.BasicAuth\<close>.\<close>

definition BasicAuth :: "http_req \<Rightarrow> (string \<times> string) option" where
  "BasicAuth r =
     (let auth = g_Header (hq_gin r) ''Authorization'' in
      if length auth < 6 \<or> map ascii_lower (take 6 auth) \<noteq> ''basic '' then None
      else case b64padded_DecodeString (drop 6 auth) of None \<Rightarrow> None | Some cs \<Rightarrow> strings_Cut CHR '':'' cs)"

definition clientCredentialsFromRequest :: "http_req \<Rightarrow> string \<times> string \<times> bool" where
  "clientCredentialsFromRequest r =
     (case BasicAuth r of
        Some (user, pass) \<Rightarrow>
          (let clientID = (case url_QueryUnescape user of Some decoded \<Rightarrow> decoded | None \<Rightarrow> user);
               clientSecret = (case url_QueryUnescape pass of Some decoded \<Rightarrow> decoded | None \<Rightarrow> pass)
           in (clientID, clientSecret, clientID \<noteq> []))
      | None \<Rightarrow>
          (let clientID = hq_Form r ''client_id''; clientSecret = hq_Form r ''client_secret''
           in (clientID, clientSecret, clientID \<noteq> [])))"

section \<open>CSRF tokens\<close>

definition csrfCookieName :: string where "csrfCookieName = ''sg_csrf''"
definition maxNonceLength :: nat where "maxNonceLength = 512"

definition signCSRFValue :: "string \<Rightarrow> string \<Rightarrow> string" where
  "signCSRFValue secret value = b64url (hmac sha256 secret value)"

definition newCSRFToken :: "env \<Rightarrow> string \<Rightarrow> string op" where
  "newCSRFToken e secret =
     orReturn (randomToken e 32) id (\<lambda>value. succeed (value @ ''.'' @ signCSRFValue secret value))"

definition validateCSRFToken :: "string \<Rightarrow> string \<Rightarrow> string \<Rightarrow> bool" where
  "validateCSRFToken secret formToken cookieToken =
     (if formToken = [] \<or> cookieToken = [] then False
      else if formToken \<noteq> cookieToken then False
      else case strings_Cut CHR ''.'' formToken of
        None \<Rightarrow> False
      | Some (value, sig) \<Rightarrow> sig = signCSRFValue secret value)"

section \<open>Pending second factors\<close>

definition mfaPurposeLogin :: string where "mfaPurposeLogin = ''login''"
definition mfaPurposeDevice :: string where "mfaPurposeDevice = ''device''"
definition mfaPendingTTL :: duration where "mfaPendingTTL = seconds (5 * 60)"

record mfaPending =
  pd_TenantID :: string
  pd_UserID :: string
  pd_Purpose :: string
  pd_Expires :: int

text \<open>\<^verbatim>\<open>encoding/json\<close> on \<^typ>\<open>mfaPending\<close>, \<^verbatim>\<open>url.Parse\<close> with \<^verbatim>\<open>Query().Set\<close> of the given parameters in turn and
  \<^verbatim>\<open>Encode\<close> (\<open>None\<close> when the URL does not parse).\<close>

record weblib =
  wl_Marshal :: "mfaPending \<Rightarrow> string"
  wl_Unmarshal :: "string \<Rightarrow> mfaPending option"
  wl_URLWith :: "string \<Rightarrow> (string \<times> string) list \<Rightarrow> string option"

definition newMFAPendingToken :: "weblib \<Rightarrow> string \<Rightarrow> mfaPending \<Rightarrow> string" where
  "newMFAPendingToken l secret p =
     (let payload = b64url (wl_Marshal l p) in payload @ ''.'' @ signCSRFValue secret (''mfa-pending:'' @ payload))"

definition parseMFAPendingToken :: "env \<Rightarrow> weblib \<Rightarrow> string \<Rightarrow> string \<Rightarrow> uuid \<Rightarrow> string \<Rightarrow> uuid option" where
  "parseMFAPendingToken e l secret token tenantID purpose =
     (case strings_Cut CHR ''.'' token of
        None \<Rightarrow> None
      | Some (payload, sig) \<Rightarrow>
          if sig \<noteq> signCSRFValue secret (''mfa-pending:'' @ payload) then None
          else case b64url_DecodeString payload of
            None \<Rightarrow> None
          | Some raw \<Rightarrow>
              (case wl_Unmarshal l raw of
                 None \<Rightarrow> None
               | Some p \<Rightarrow>
                   if pd_TenantID p \<noteq> uuidString e tenantID \<or> pd_Purpose p \<noteq> purpose \<or> time_unix (now e) > pd_Expires p then None
                   else uuidParse e (pd_UserID p)))"

end
