(* ===== verification/Authorize.thy ===== *)
theory Authorize
  imports HandlerSecurity SessionService MFAService ClientService Users
begin

text \<open>The browser side of the authorization code flow (\<^verbatim>\<open>internal/handlers/oauth_authorize.go\<close>, \<^verbatim>\<open>oauth_mfa.go\<close> and
  \<^verbatim>\<open>oauth_logout.go\<close>): authorization requests, login, second factor, consent, logout. Audit records and log lines are left out.\<close>

section \<open>Replies\<close>

text \<open>Rendered templates with their data (a nested map of hidden fields apart), error pages (status 400), redirects (status 302);
  with a reply come the cookies it sets, an empty value clearing one. \<open>PanicPage\<close>: the handler panics.\<close>

type_synonym form = "(string \<times> string) list"

datatype page = ErrorPage string string | RedirectPage string | HTMLPage string form form | PanicPage

type_synonym web_reply = "page \<times> (string \<times> string) list"

type_synonym 'a web = "(world, web_reply + 'a) state"

text \<open>A handler whose \<^verbatim>\<open>mfaService\<close> is nil asks no second factor; otherwise the service has its keys.\<close>

record OAuthHandler =
  h_JWTSecret :: string
  h_mfaService :: "Keys option"
  h_lib :: weblib

section \<open>Authorization requests\<close>

definition sessionCookieName :: string where "sessionCookieName = ''sg_session''"
definition promptNone :: string where "promptNone = ''none''"
definition promptLogin :: string where "promptLogin = ''login''"
definition promptConsent :: string where "promptConsent = ''consent''"
definition promptSelectAccount :: string where "promptSelectAccount = ''select_account''"

record AuthorizeRequest =
  aq_ResponseType :: string
  aq_ClientID :: string
  aq_RedirectURI :: string
  aq_Scope :: string
  aq_State :: string
  aq_CodeChallenge :: string
  aq_CodeChallengeMethod :: string
  aq_Nonce :: string
  aq_Prompt :: string
  aq_MaxAge :: string
  aq_Request :: string
  aq_RequestURI :: string

record authorizationRequest =
  ar_req :: AuthorizeRequest
  ar_client :: Client
  ar_scope :: string
  ar_prompt :: "string set"
  ar_maxAge :: duration

definition acceptsSession :: "env \<Rightarrow> authorizationRequest \<Rightarrow> Session \<Rightarrow> bool" where
  "acceptsSession e r session \<longleftrightarrow>
     \<not> (promptLogin \<in> ar_prompt r \<or> promptSelectAccount \<in> ar_prompt r)
     \<and> (ar_maxAge r < 0 \<or> time_sub (now e) (s_AuthTime session) \<le> ar_maxAge r)"

definition readAuthorizeRequest :: "(string \<Rightarrow> string) \<Rightarrow> AuthorizeRequest" where
  "readAuthorizeRequest get =
     \<lparr>aq_ResponseType = get ''response_type'', aq_ClientID = get ''client_id'', aq_RedirectURI = get ''redirect_uri'',
      aq_Scope = get ''scope'', aq_State = get ''state'', aq_CodeChallenge = get ''code_challenge'',
      aq_CodeChallengeMethod = get ''code_challenge_method'', aq_Nonce = get ''nonce'', aq_Prompt = get ''prompt'',
      aq_MaxAge = get ''max_age'', aq_Request = get ''request'', aq_RequestURI = get ''request_uri''\<rparr>"

definition AuthorizeRequest_Validate :: "AuthorizeRequest \<Rightarrow> err + unit" where
  "AuthorizeRequest_Validate r =
     (if aq_ResponseType r \<noteq> ''code'' then Inl (ErrMsg (''unsupported response_type: '' @ aq_ResponseType r)) else Inr ())"

text \<open>\<^verbatim>\<open>strconv.Atoi\<close>: an optional sign and decimal digits, within 64 bits.\<close>

definition atoi_digits :: "string \<Rightarrow> int" where
  "atoi_digits ds = foldl (\<lambda>n d. 10 * n + (int (byte_code d) - 48)) 0 ds"

definition strconv_Atoi :: "string \<Rightarrow> int option" where
  "strconv_Atoi s =
     (let ds = (if s \<noteq> [] \<and> (hd s = CHR ''-'' \<or> hd s = CHR ''+'') then tl s else s);
          n = (if s \<noteq> [] \<and> hd s = CHR ''-'' then - atoi_digits ds else atoi_digits ds)
      in if ds = [] \<or> \<not> list_all (\<lambda>c. 48 \<le> byte_code c \<and> byte_code c \<le> 57) ds then None
         else if wrap64 n = n then Some n else None)"

definition maxAge_of :: "string \<Rightarrow> duration option" where
  "maxAge_of s =
     (if s = [] then Some (-1)
      else case strconv_Atoi s of
        None \<Rightarrow> None
      | Some n \<Rightarrow> if n < 0 then None else Some (seconds n))"

text \<open>\<open>renderError\<close> with a redirect URI: to the client; the URI has been validated before.\<close>

definition renderError :: "env \<Rightarrow> OAuthHandler \<Rightarrow> string \<Rightarrow> string \<Rightarrow> string \<Rightarrow> string \<Rightarrow> page" where
  "renderError e h errorCode errorDescription redirectURI st =
     (if redirectURI \<noteq> [] then
        (case wl_URLWith (h_lib h) redirectURI ([(''error'', errorCode), (''error_description'', errorDescription)]
                @ (if st \<noteq> [] then [(''state'', st)] else []) @ [(''iss'', cf_ServerURL (config e))]) of
           Some u \<Rightarrow> RedirectPage u
         | None \<Rightarrow> ErrorPage errorCode errorDescription)
      else ErrorPage errorCode errorDescription)"

text \<open>The checks once client and redirect URI are known: an OAuth error code with its description, or the request.\<close>

definition checkAuthorizationRequest :: "Client \<Rightarrow> AuthorizeRequest \<Rightarrow> (string \<times> string) + authorizationRequest" where
  "checkAuthorizationRequest client req =
     (if aq_Request req \<noteq> [] then Inl (''request_not_supported'', ''The request parameter is not supported'')
      else if aq_RequestURI req \<noteq> [] then Inl (''request_uri_not_supported'', ''The request_uri parameter is not supported'')
      else case AuthorizeRequest_Validate req of
        Inl er \<Rightarrow> Inl (''unsupported_response_type'', ''unsupported response_type: '' @ aq_ResponseType req)
      | Inr _ \<Rightarrow>
      if length (aq_Nonce req) > maxNonceLength then Inl (''invalid_request'', ''nonce is too long'')
      else if \<not> Client_HasGrantType client ''authorization_code''
      then Inl (''unauthorized_client'', ''Client is not authorized for the authorization_code grant'')
      else case ValidateScopeForClient client (aq_Scope req) of
        Inl _ \<Rightarrow> Inl (''invalid_scope'', ''Requested scope is not allowed for this client'')
      | Inr scope \<Rightarrow>
      if c_IsPublic client \<and> (aq_CodeChallenge req = [] \<or> aq_CodeChallengeMethod req = [])
      then Inl (''invalid_request'', ''PKCE required for public clients'')
      else if c_IsPublic client \<and> aq_CodeChallengeMethod req \<noteq> ''S256''
      then Inl (''invalid_request'', ''Only S256 code challenge method supported'')
      else if promptNone \<in> set (strings_Fields (aq_Prompt req)) \<and> length (remdups (strings_Fields (aq_Prompt req))) > 1
      then Inl (''invalid_request'', ''prompt=none cannot be combined with other values'')
      else case maxAge_of (aq_MaxAge req) of
        None \<Rightarrow> Inl (''invalid_request'', ''max_age must be a non-negative integer'')
      | Some maxAge \<Rightarrow>
          Inr \<lparr>ar_req = req, ar_client = client, ar_scope = scope, ar_prompt = set (strings_Fields (aq_Prompt req)), ar_maxAge = maxAge\<rparr>)"

definition validateAuthorizationRequest :: "env \<Rightarrow> OAuthHandler \<Rightarrow> uuid \<Rightarrow> AuthorizeRequest \<Rightarrow> authorizationRequest web" where
  "validateAuthorizationRequest e h tenantID req =
     orReturn (GetClientByClientID e tenantID (aq_ClientID req)) (\<lambda>_. (ErrorPage ''invalid_client'' ''Invalid client'', [])) (\<lambda>client.
     orReturn (State_Monad.return (ValidateRedirectURI client (aq_RedirectURI req)))
       (\<lambda>_. (ErrorPage ''invalid_request'' ''Invalid redirect URI'', [])) (\<lambda>_.
     State_Monad.return (case checkAuthorizationRequest client req of
         Inl (code, description) \<Rightarrow> Inl (renderError e h code description (aq_RedirectURI req) (aq_State req), [])
       | Inr ar \<Rightarrow> Inr ar)))"

text \<open>An error on the way of a validated request.\<close>

definition failAuthorization :: "env \<Rightarrow> OAuthHandler \<Rightarrow> authorizationRequest \<Rightarrow> string \<Rightarrow> string \<Rightarrow> (world, web_reply) state" where
  "failAuthorization e h ar code description =
     State_Monad.return (renderError e h code description (aq_RedirectURI (ar_req ar)) (aq_State (ar_req ar)), [])"

section \<open>Pages\<close>

text \<open>The dash of the messages, in UTF-8.\<close>

definition em_dash :: string where "em_dash = [CHR 0xE2, CHR 0x80, CHR 0x94]"

definition authorizationFormData :: "authorizationRequest \<Rightarrow> form" where
  "authorizationFormData ar =
     [(''client_id'', aq_ClientID (ar_req ar)), (''client_name'', c_Name (ar_client ar)), (''redirect_uri'', aq_RedirectURI (ar_req ar)),
      (''scope'', ar_scope ar), (''state'', aq_State (ar_req ar)), (''code_challenge'', aq_CodeChallenge (ar_req ar)),
      (''code_challenge_method'', aq_CodeChallengeMethod (ar_req ar)), (''nonce'', aq_Nonce (ar_req ar)),
      (''prompt'', aq_Prompt (ar_req ar)), (''response_type'', ''code'')]"

text \<open>\<open>addCSRFToken\<close>: the token goes into the page and into a cookie; the page is completed only when there is one.\<close>

definition addCSRFToken :: "env \<Rightarrow> OAuthHandler \<Rightarrow> (string \<Rightarrow> (world, page) state) \<Rightarrow> (world, web_reply) state" where
  "addCSRFToken e h render = do {
     r \<leftarrow> newCSRFToken e (h_JWTSecret h);
     case r of
       Inl _ \<Rightarrow> State_Monad.return (ErrorPage ''server_error'' ''Internal server error'', [])
     | Inr csrfToken \<Rightarrow> do { p \<leftarrow> render csrfToken; State_Monad.return (p, [(csrfCookieName, csrfToken)]) }
   }"

definition errorField :: "string \<Rightarrow> form" where
  "errorField errorMsg = (if errorMsg \<noteq> [] then [(''error'', errorMsg)] else [])"

definition renderLoginPage :: "env \<Rightarrow> OAuthHandler \<Rightarrow> uuid \<Rightarrow> authorizationRequest \<Rightarrow> string \<Rightarrow> (world, web_reply) state" where
  "renderLoginPage e h tenantID ar errorMsg =
     addCSRFToken e h (\<lambda>csrfToken. do {
       t \<leftarrow> GetTenantByID e tenantID;
       State_Monad.return (HTMLPage ''login.html'' (authorizationFormData ar @ [(''csrf_token'', csrfToken)]
         @ (case t of Inr tenant \<Rightarrow> [(''tenant_info'', t_Name tenant)] | Inl _ \<Rightarrow> []) @ errorField errorMsg) [])
     })"

definition renderConsentPage :: "env \<Rightarrow> OAuthHandler \<Rightarrow> uuid \<Rightarrow> authorizationRequest \<Rightarrow> Session \<Rightarrow> (world, web_reply) state" where
  "renderConsentPage e h tenantID ar session =
     addCSRFToken e h (\<lambda>csrfToken. do {
       u \<leftarrow> GetUserByID e tenantID (s_UserID session);
       State_Monad.return (HTMLPage ''consent.html'' (authorizationFormData ar @ [(''csrf_token'', csrfToken)]
         @ (case u of Inr user \<Rightarrow> [(''user_email'', u_Email user)] | Inl _ \<Rightarrow> [])) [])
     })"

definition renderMFAPage :: "env \<Rightarrow> OAuthHandler \<Rightarrow> string \<Rightarrow> form \<Rightarrow> string \<Rightarrow> string \<Rightarrow> (world, web_reply) state" where
  "renderMFAPage e h action hidden pendingToken errorMsg =
     addCSRFToken e h (\<lambda>csrfToken.
       State_Monad.return (HTMLPage ''mfa.html'' ([(''action'', action), (''mfa_token'', pendingToken), (''csrf_token'', csrfToken)]
         @ errorField errorMsg) hidden))"

definition validCSRF :: "OAuthHandler \<Rightarrow> http_req \<Rightarrow> bool" where
  "validCSRF h r = validateCSRFToken (h_JWTSecret h) (hq_Form r ''csrf_token'')
     (case hq_Cookie r csrfCookieName of Some c \<Rightarrow> c | None \<Rightarrow> [])"

section \<open>Sessions of the browser\<close>

definition currentSession :: "env \<Rightarrow> uuid \<Rightarrow> http_req \<Rightarrow> (world, Session option) state" where
  "currentSession e tenantID r =
     (case hq_Cookie r sessionCookieName of
        None \<Rightarrow> State_Monad.return None
      | Some token \<Rightarrow>
          if token = [] then State_Monad.return None
          else do {
            s \<leftarrow> GetSession e tenantID token;
            case s of
              Inl _ \<Rightarrow> State_Monad.return None
            | Inr session \<Rightarrow> do {
                u \<leftarrow> GetUserByID e tenantID (s_UserID session);
                case u of
                  Inl er \<Rightarrow>
                    if \<not> errors_Is er ErrUserNotFound then State_Monad.return None
                    else do { _ \<leftarrow> EndSession e tenantID token; State_Monad.return None }
                | Inr user \<Rightarrow>
                    if User_IsSuspended user then do { _ \<leftarrow> EndSession e tenantID token; State_Monad.return None }
                    else State_Monad.return (Some session)
              }
          })"

definition deleteBrowserSession :: "env \<Rightarrow> uuid \<Rightarrow> http_req \<Rightarrow> (world, unit) state" where
  "deleteBrowserSession e tenantID r =
     (case hq_Cookie r sessionCookieName of
        None \<Rightarrow> State_Monad.return ()
      | Some token \<Rightarrow>
          if token = [] then State_Monad.return ()
          else do { _ \<leftarrow> EndSession e tenantID token; State_Monad.return () })"

definition endBrowserSession :: "env \<Rightarrow> uuid \<Rightarrow> http_req \<Rightarrow> (world, (string \<times> string) list) state" where
  "endBrowserSession e tenantID r = do {
     _ \<leftarrow> deleteBrowserSession e tenantID r;
     State_Monad.return [(sessionCookieName, [])]
   }"

section \<open>Codes and consent\<close>

definition issueAuthorizationCode :: "env \<Rightarrow> OAuthHandler \<Rightarrow> uuid \<Rightarrow> authorizationRequest \<Rightarrow> Session \<Rightarrow> (world, web_reply) state" where
  "issueAuthorizationCode e h tenantID ar session = do {
     r \<leftarrow> GenerateAuthorizationCode e tenantID (c_ID (ar_client ar)) (s_UserID session) (aq_RedirectURI (ar_req ar)) (ar_scope ar)
       (aq_CodeChallenge (ar_req ar)) (aq_CodeChallengeMethod (ar_req ar)) (aq_Nonce (ar_req ar)) (s_AuthTime session) (s_AMR session);
     case r of
       Inl _ \<Rightarrow> failAuthorization e h ar ''server_error'' ''Internal server error''
     | Inr authCode \<Rightarrow> State_Monad.return
         (case wl_URLWith (h_lib h) (aq_RedirectURI (ar_req ar)) ([(''code'', ac_Code authCode)]
                @ (if aq_State (ar_req ar) \<noteq> [] then [(''state'', aq_State (ar_req ar))] else []) @ [(''iss'', cf_ServerURL (config e))]) of
            None \<Rightarrow> ErrorPage ''invalid_request'' ''Invalid redirect URI''
          | Some u \<Rightarrow> RedirectPage u, [])
   }"

definition continueAuthorization :: "env \<Rightarrow> OAuthHandler \<Rightarrow> uuid \<Rightarrow> authorizationRequest \<Rightarrow> Session \<Rightarrow> (world, web_reply) state" where
  "continueAuthorization e h tenantID ar session = do {
     r \<leftarrow> HasConsent e tenantID (s_UserID session) (c_ID (ar_client ar)) (ar_scope ar);
     case r of
       Inl _ \<Rightarrow> failAuthorization e h ar ''server_error'' ''Internal server error''
     | Inr granted \<Rightarrow>
         if \<not> granted \<or> promptConsent \<in> ar_prompt ar
         then if promptNone \<in> ar_prompt ar then failAuthorization e h ar ''consent_required'' ''End-user consent is required''
              else renderConsentPage e h tenantID ar session
         else issueAuthorizationCode e h tenantID ar session
   }"

definition signIn :: "env \<Rightarrow> OAuthHandler \<Rightarrow> uuid \<Rightarrow> http_req \<Rightarrow> authorizationRequest \<Rightarrow> uuid \<Rightarrow> string list \<Rightarrow> (world, web_reply) state" where
  "signIn e h tenantID r ar userID amr = do {
     _ \<leftarrow> deleteBrowserSession e tenantID r;
     s \<leftarrow> CreateSession e tenantID userID amr (g_ClientIP (hq_gin r)) (g_Header (hq_gin r) ''User-Agent'');
     case s of
       Inl _ \<Rightarrow> failAuthorization e h ar ''server_error'' ''Internal server error''
     | Inr (token, session) \<Rightarrow> do {
         (p, cookies) \<leftarrow> continueAuthorization e h tenantID ar session;
         State_Monad.return (p, (sessionCookieName, token) # cookies)
       }
   }"

section \<open>The second factor\<close>

definition mfaRequired :: "env \<Rightarrow> OAuthHandler \<Rightarrow> uuid \<Rightarrow> uuid \<Rightarrow> bool op" where
  "mfaRequired e h tenantID userID = (case h_mfaService h of None \<Rightarrow> succeed False | Some _ \<Rightarrow> IsEnabled e tenantID userID)"

definition startMFA :: "env \<Rightarrow> OAuthHandler \<Rightarrow> uuid \<Rightarrow> uuid \<Rightarrow> string \<Rightarrow> string \<Rightarrow> form \<Rightarrow> (world, web_reply) state" where
  "startMFA e h tenantID userID purpose action hidden =
     renderMFAPage e h action hidden
       (newMFAPendingToken (h_lib h) (h_JWTSecret h)
          \<lparr>pd_TenantID = uuidString e tenantID, pd_UserID = uuidString e userID, pd_Purpose = purpose,
           pd_Expires = time_unix (now e + mfaPendingTTL)\<rparr>) []"

text \<open>\<open>restart\<close> renders the page the flow starts over with.\<close>

definition completeMFA ::
  "env \<Rightarrow> OAuthHandler \<Rightarrow> uuid \<Rightarrow> http_req \<Rightarrow> string \<Rightarrow> string \<Rightarrow> form \<Rightarrow> (string \<Rightarrow> (world, web_reply) state) \<Rightarrow> (uuid \<times> string list) web" where
  "completeMFA e h tenantID r purpose action hidden restart =
     (let pendingToken = hq_Form r ''mfa_token''; stop = (\<lambda>m. do { p \<leftarrow> m; State_Monad.return (Inl p) }) in
      case parseMFAPendingToken e (h_lib h) (h_JWTSecret h) pendingToken tenantID purpose of
        None \<Rightarrow> stop (restart (''Your sign-in took too long '' @ em_dash @ '' please enter your password again''))
      | Some userID \<Rightarrow> do {
          u \<leftarrow> GetUserByID e tenantID userID;
          case u of
            Inl _ \<Rightarrow> stop (restart ''Invalid email or password'')
          | Inr user \<Rightarrow>
              if User_IsSuspended user \<or> User_IsLocked (now e) user then stop (restart ''Invalid email or password'')
              else (case h_mfaService h of
                None \<Rightarrow> State_Monad.return (Inl (PanicPage, []))
              | Some ks \<Rightarrow> do {
                  v \<leftarrow> MFA_Verify e ks tenantID userID (hq_Form r ''code'');
                  case v of
                    Inr m \<Rightarrow> State_Monad.return (Inr (userID, AMRForSecondFactor m))
                  | Inl er \<Rightarrow>
                      if errors_Is er ErrInvalidMFACode
                      then stop (renderMFAPage e h action hidden pendingToken (''Invalid code '' @ em_dash @ '' please try again''))
                      else if errors_Is er ErrMFALocked then stop (restart (''Too many incorrect codes '' @ em_dash @ '' please try again in 15 minutes''))
                      else if errors_Is er ErrMFANotEnabled then stop (restart ''Please sign in again'')
                      else stop (restart (''Something went wrong '' @ em_dash @ '' please try again''))
                })
        })"

section \<open>The endpoints\<close>

definition tenantMessage :: string where
  "tenantMessage = ''Tenant context required '' @ em_dash @ '' use the tenant'' @ [CHR 0x27] @ ''s domain or provide X-Tenant-ID''"

definition csrfMessage :: "string \<Rightarrow> string" where
  "csrfMessage what = ''Invalid or missing CSRF token '' @ em_dash @ '' please retry '' @ what"

definition tenantRequired :: "http_req \<Rightarrow> (uuid \<Rightarrow> (world, web_reply) state) \<Rightarrow> (world, web_reply) state" where
  "tenantRequired r k =
     (case GetTenantID (hq_gin r) of
        None \<Rightarrow> State_Monad.return (ErrorPage ''invalid_request'' tenantMessage, [])
      | Some tenantID \<Rightarrow> k tenantID)"

definition csrfRequired :: "OAuthHandler \<Rightarrow> http_req \<Rightarrow> (world, web_reply) state \<Rightarrow> (world, web_reply) state" where
  "csrfRequired h r k =
     (if \<not> validCSRF h r then State_Monad.return (ErrorPage ''invalid_request'' (csrfMessage ''the authorization flow''), []) else k)"

definition orReply :: "'a web \<Rightarrow> ('a \<Rightarrow> (world, web_reply) state) \<Rightarrow> (world, web_reply) state" where
  "orReply m k = do { x \<leftarrow> m; case x of Inl p \<Rightarrow> State_Monad.return p | Inr a \<Rightarrow> k a }"

definition HandleAuthorize :: "env \<Rightarrow> OAuthHandler \<Rightarrow> http_req \<Rightarrow> (world, web_reply) state" where
  "HandleAuthorize e h r =
     tenantRequired r (\<lambda>tenantID.
     orReply (validateAuthorizationRequest e h tenantID (readAuthorizeRequest (if hq_Post r then hq_Form r else hq_Query r))) (\<lambda>ar. do {
       s \<leftarrow> currentSession e tenantID r;
       case (case s of Some session \<Rightarrow> if acceptsSession e ar session then Some session else None | None \<Rightarrow> None) of
         None \<Rightarrow>
           if promptNone \<in> ar_prompt ar then failAuthorization e h ar ''login_required'' ''End-user authentication is required''
           else renderLoginPage e h tenantID ar []
       | Some session \<Rightarrow> continueAuthorization e h tenantID ar session
     }))"

definition HandleLogin :: "env \<Rightarrow> OAuthHandler \<Rightarrow> http_req \<Rightarrow> (world, web_reply) state" where
  "HandleLogin e h r =
     tenantRequired r (\<lambda>tenantID. csrfRequired h r (
     orReply (validateAuthorizationRequest e h tenantID (readAuthorizeRequest (hq_Form r))) (\<lambda>ar. do {
       a \<leftarrow> Authenticate e tenantID (hq_Form r ''username'') (hq_Form r ''password'');
       case a of
         Inl _ \<Rightarrow> renderLoginPage e h tenantID ar ''Invalid email or password''
       | Inr user \<Rightarrow> do {
           required \<leftarrow> mfaRequired e h tenantID (u_ID user);
           case required of
             Inl _ \<Rightarrow> failAuthorization e h ar ''server_error'' ''Internal server error''
           | Inr True \<Rightarrow> startMFA e h tenantID (u_ID user) mfaPurposeLogin ''/oauth/login/mfa'' (authorizationFormData ar)
           | Inr False \<Rightarrow> signIn e h tenantID r ar (u_ID user) [AMRPassword]
         }
     })))"

definition HandleLoginMFA :: "env \<Rightarrow> OAuthHandler \<Rightarrow> http_req \<Rightarrow> (world, web_reply) state" where
  "HandleLoginMFA e h r =
     tenantRequired r (\<lambda>tenantID. csrfRequired h r (
     orReply (validateAuthorizationRequest e h tenantID (readAuthorizeRequest (hq_Form r))) (\<lambda>ar.
     orReply (completeMFA e h tenantID r mfaPurposeLogin ''/oauth/login/mfa'' (authorizationFormData ar) (renderLoginPage e h tenantID ar))
       (\<lambda>(userID, amr). signIn e h tenantID r ar userID amr))))"

definition HandleConsent :: "env \<Rightarrow> OAuthHandler \<Rightarrow> http_req \<Rightarrow> (world, web_reply) state" where
  "HandleConsent e h r =
     tenantRequired r (\<lambda>tenantID. csrfRequired h r (
     orReply (validateAuthorizationRequest e h tenantID (readAuthorizeRequest (hq_Form r))) (\<lambda>ar. do {
       s \<leftarrow> currentSession e tenantID r;
       case s of
         None \<Rightarrow> renderLoginPage e h tenantID ar (''Your session has expired '' @ em_dash @ '' please sign in again'')
       | Some session \<Rightarrow>
           if hq_Form r ''decision'' \<noteq> ''allow'' then failAuthorization e h ar ''access_denied'' ''The user denied the request''
           else do {
             g \<leftarrow> GrantConsent e tenantID (s_UserID session) (c_ID (ar_client ar)) (ar_scope ar);
             case g of
               Inl _ \<Rightarrow> failAuthorization e h ar ''server_error'' ''Internal server error''
             | Inr _ \<Rightarrow> issueAuthorizationCode e h tenantID ar session
           }
     })))"

section \<open>Logout\<close>

text \<open>The ID token hint, when there is one, and the client it names.\<close>

definition logoutHint :: "env \<Rightarrow> uuid \<Rightarrow> string \<Rightarrow> (IDTokenClaims option) web" where
  "logoutHint e tenantID raw =
     (if raw = [] then State_Monad.return (Inr None)
      else State_Monad.return (case ParseIDTokenHint e raw of
          Inl _ \<Rightarrow> Inl (ErrorPage ''invalid_request'' ''Invalid id_token_hint'', [])
        | Inr claims \<Rightarrow>
            if ic_TenantID claims \<noteq> uuidString e tenantID then Inl (ErrorPage ''invalid_request'' ''Invalid id_token_hint'', [])
            else Inr (Some claims)))"

definition logoutClient :: "IDTokenClaims option \<Rightarrow> string \<Rightarrow> string web" where
  "logoutClient hint clientID =
     State_Monad.return (case hint of
         None \<Rightarrow> Inr clientID
       | Some claims \<Rightarrow>
           if clientID \<noteq> [] \<and> clientID \<noteq> ic_Aud claims
           then Inl (ErrorPage ''invalid_request'' ''client_id does not match id_token_hint'', [])
           else Inr (ic_Aud claims))"

definition logoutRedirect :: "env \<Rightarrow> uuid \<Rightarrow> string \<Rightarrow> string \<Rightarrow> unit web" where
  "logoutRedirect e tenantID clientID redirectURI =
     (if redirectURI = [] then State_Monad.return (Inr ())
      else if clientID = []
      then State_Monad.return (Inl (ErrorPage ''invalid_request'' ''post_logout_redirect_uri requires client_id or id_token_hint'', []))
      else orReturn (GetClientByClientID e tenantID clientID) (\<lambda>_. (ErrorPage ''invalid_request'' ''Unknown client'', [])) (\<lambda>client.
        State_Monad.return (if redirectURI \<notin> set (c_PostLogoutRedirectURIs client)
          then Inl (ErrorPage ''invalid_request'' ''post_logout_redirect_uri is not registered for this client'', []) else Inr ())))"

definition HandleLogout :: "env \<Rightarrow> OAuthHandler \<Rightarrow> http_req \<Rightarrow> (world, web_reply) state" where
  "HandleLogout e h r =
     tenantRequired r (\<lambda>tenantID.
     if hq_Post r \<and> \<not> validCSRF h r then State_Monad.return (ErrorPage ''invalid_request'' (csrfMessage ''signing out''), [])
     else let get = (if hq_Post r then hq_Form r else hq_Query r); redirectURI = get ''post_logout_redirect_uri'' in
       orReply (logoutHint e tenantID (get ''id_token_hint'')) (\<lambda>hint.
       orReply (logoutClient hint (get ''client_id'')) (\<lambda>clientID.
       orReply (logoutRedirect e tenantID clientID redirectURI) (\<lambda>_. do {
         s \<leftarrow> currentSession e tenantID r;
         if (case s of
               None \<Rightarrow> False
             | Some session \<Rightarrow> \<not> (hq_Post r \<or> (case hint of Some claims \<Rightarrow> ui_Sub (ic_UserInfo claims) = uuidString e (s_UserID session) | None \<Rightarrow> False)))
         then addCSRFToken e h (\<lambda>csrfToken. State_Monad.return (HTMLPage ''logout.html''
                [(''confirm'', ''true''), (''client_id'', clientID), (''post_logout_redirect_uri'', redirectURI),
                 (''state'', get ''state''), (''csrf_token'', csrfToken)] []))
         else do {
           cookies \<leftarrow> endBrowserSession e tenantID r;
           State_Monad.return
             (case (if redirectURI \<noteq> []
                    then wl_URLWith (h_lib h) redirectURI (if get ''state'' \<noteq> [] then [(''state'', get ''state'')] else []) else None) of
                Some u \<Rightarrow> RedirectPage u
              | None \<Rightarrow> HTMLPage ''logout.html'' [(''confirm'', ''false'')] [], cookies)
         }
       }))))"

end
