(* ===== verification/TokenEndpoint.thy ===== *)
theory TokenEndpoint
  imports Authorize DeviceGrant
begin

text \<open>The endpoints that answer in JSON (\<^verbatim>\<open>internal/handlers/oauth_handler.go\<close>) and the device endpoints
  (\<^verbatim>\<open>oauth_device_handler.go\<close>). Metrics of the token endpoint, audit records and log lines are left out.\<close>

section \<open>Replies\<close>

record OpenIDConfiguration =
  oc_Issuer :: string
  oc_AuthorizationEndpoint :: string
  oc_TokenEndpoint :: string
  oc_UserInfoEndpoint :: string
  oc_JwksURI :: string
  oc_RevocationEndpoint :: string
  oc_IntrospectionEndpoint :: string
  oc_DeviceAuthorizationEndpoint :: string
  oc_RegistrationEndpoint :: string
  oc_EndSessionEndpoint :: string
  oc_ScopesSupported :: "string list"
  oc_ResponseTypesSupported :: "string list"
  oc_ResponseModesSupported :: "string list"
  oc_GrantTypesSupported :: "string list"
  oc_SubjectTypesSupported :: "string list"
  oc_IDTokenSigningAlgValuesSupported :: "string list"
  oc_TokenEndpointAuthMethodsSupported :: "string list"
  oc_RevocationEndpointAuthMethodsSupported :: "string list"
  oc_IntrospectionEndpointAuthMethodsSupported :: "string list"
  oc_CodeChallengeMethodsSupported :: "string list"
  oc_PromptValuesSupported :: "string list"
  oc_ClaimsSupported :: "string list"
  oc_ClaimsParameterSupported :: bool
  oc_RequestParameterSupported :: bool
  oc_RequestURIParameterSupported :: bool
  oc_AuthorizationResponseIssParameterSupported :: bool

text \<open>The body of a reply: an OAuth error with its status and description (empty: none), or what the services return; \<open>EmptyBody\<close>
  is status 200 alone. Response headers come with it.\<close>

datatype body =
    OAuthError int string string
  | TokenBody TokenResponse
  | ExchangeBody TokenExchangeResponse
  | DeviceBody DeviceAuthorizationResponse
  | UserInfoBody UserInfo
  | IntrospectionBody IntrospectionResponse
  | DiscoveryBody OpenIDConfiguration
  | JWKSBody "JWK list"
  | EmptyBody

type_synonym api_reply = "body \<times> (string \<times> string) list"

type_synonym 'a api = "(world \<times> clientSecretCache option, api_reply + 'a) state"

definition oauthError :: "int \<Rightarrow> string \<Rightarrow> string \<Rightarrow> api_reply" where
  "oauthError status code description = (OAuthError status code description, [])"

text \<open>The last reply of a handler, from a computation that may have replied early.\<close>

definition replied :: "api_reply api \<Rightarrow> (world \<times> clientSecretCache option, api_reply) state" where
  "replied m = do { x \<leftarrow> m; State_Monad.return (case x of Inl p \<Rightarrow> p | Inr p \<Rightarrow> p) }"

section \<open>Client authentication\<close>

definition basicChallenge :: "(string \<times> string) list" where
  "basicChallenge = [(''WWW-Authenticate'', ''Basic realm='' @ [CHR 0x22] @ ''oauth'' @ [CHR 0x22])]"

definition authenticateClient :: "env \<Rightarrow> uuid \<Rightarrow> http_req \<Rightarrow> Client api" where
  "authenticateClient e tenantID r =
     (case clientCredentialsFromRequest r of (clientID, clientSecret, ok) \<Rightarrow>
        if \<not> ok then failWith (OAuthError 401 ''invalid_client'' ''Client authentication required'', basicChallenge)
        else orReturn (ValidateClient e tenantID clientID clientSecret)
          (\<lambda>_. (OAuthError 401 ''invalid_client'' ''Client authentication failed'', basicChallenge)) succeed)"

text \<open>A client that registered the grant it uses.\<close>

definition requireGrant :: "Client \<Rightarrow> string \<Rightarrow> string \<Rightarrow> unit api" where
  "requireGrant client grantType name =
     (if \<not> Client_HasGrantType client grantType
      then failWith (oauthError 400 ''unauthorized_client'' (''Client is not authorized for the '' @ name @ '' grant'')) else succeed ())"

definition requireConfidential :: "Client \<Rightarrow> string \<Rightarrow> unit api" where
  "requireConfidential client description =
     (if c_IsPublic client then failWith (oauthError 401 ''invalid_client'' description) else succeed ())"

definition grantedScope :: "Client \<Rightarrow> string \<Rightarrow> string api" where
  "grantedScope client scope =
     orReturn (State_Monad.return (ValidateScopeForClient client scope))
       (\<lambda>_. oauthError 400 ''invalid_scope'' ''Requested scope is not allowed for this client'') succeed"

section \<open>The token endpoint\<close>

definition handleAuthorizationCodeGrant :: "env \<Rightarrow> uuid \<Rightarrow> http_req \<Rightarrow> api_reply api" where
  "handleAuthorizationCodeGrant e tenantID r =
     orReturn (authenticateClient e tenantID r) id (\<lambda>client.
     orReturn (requireGrant client ''authorization_code'' ''authorization_code'') id (\<lambda>_.
     orReturn (onWorld (ExchangeAuthorizationCode e tenantID (hq_Form r ''code'') (uuidString e (c_ID client)) []
                 (hq_Form r ''redirect_uri'') (hq_Form r ''code_verifier'')))
       (\<lambda>er. if er = ErrPKCEVerificationFailed then oauthError 400 ''invalid_grant'' ''PKCE verification failed''
              else oauthError 400 ''invalid_grant'' ''Authorization code is invalid or expired'') (\<lambda>tokens.
     succeed (TokenBody tokens, []))))"

definition handleRefreshTokenGrant :: "env \<Rightarrow> uuid \<Rightarrow> http_req \<Rightarrow> api_reply api" where
  "handleRefreshTokenGrant e tenantID r =
     orReturn (authenticateClient e tenantID r) id (\<lambda>client.
     orReturn (requireGrant client ''refresh_token'' ''refresh_token'') id (\<lambda>_.
     orReturn (onWorld (RefreshTokens e tenantID (hq_Form r ''refresh_token'') (uuidString e (c_ID client)) (hq_Form r ''scope'')))
       (\<lambda>er. if er = ErrInvalidScope then oauthError 400 ''invalid_scope'' ''Requested scope exceeds the originally granted scope''
              else oauthError 400 ''invalid_grant'' ''Refresh token is invalid or expired'') (\<lambda>tokens.
     succeed (TokenBody tokens, []))))"

definition handleClientCredentialsGrant :: "env \<Rightarrow> uuid \<Rightarrow> http_req \<Rightarrow> api_reply api" where
  "handleClientCredentialsGrant e tenantID r =
     orReturn (authenticateClient e tenantID r) id (\<lambda>client.
     orReturn (requireConfidential client ''Public clients cannot use the client_credentials grant'') id (\<lambda>_.
     orReturn (requireGrant client ''client_credentials'' ''client_credentials'') id (\<lambda>_.
     orReturn (grantedScope client (hq_Form r ''scope'')) id (\<lambda>scope.
     orReturn (onWorld (GenerateClientCredentialsTokens e tenantID client scope))
       (\<lambda>_. oauthError 500 ''server_error'' ''Failed to generate tokens'') (\<lambda>tokens.
     succeed (TokenBody tokens, []))))))"

definition handleDeviceCodeGrant :: "env \<Rightarrow> uuid \<Rightarrow> http_req \<Rightarrow> api_reply api" where
  "handleDeviceCodeGrant e tenantID r =
     (if hq_Form r ''device_code'' = [] then failWith (oauthError 400 ''invalid_request'' ''device_code is required'')
      else
        orReturn (authenticateClient e tenantID r) id (\<lambda>client.
        orReturn (requireGrant client GrantTypeDeviceCode ''device_code'') id (\<lambda>_.
        orReturn (onWorld (ExchangeDeviceCode e tenantID client (hq_Form r ''device_code'')))
          (\<lambda>er. if er = ErrAuthorizationPending then oauthError 400 ''authorization_pending'' []
                 else if er = ErrSlowDown then oauthError 400 ''slow_down'' []
                 else if er = ErrExpiredDeviceCode then oauthError 400 ''expired_token'' []
                 else if er = ErrDeviceAccessDenied then oauthError 400 ''access_denied'' []
                 else oauthError 400 ''invalid_grant'' ''Device code is invalid'') (\<lambda>tokens.
        succeed (TokenBody tokens, [])))))"

definition handleTokenExchangeGrant :: "env \<Rightarrow> uuid \<Rightarrow> http_req \<Rightarrow> api_reply api" where
  "handleTokenExchangeGrant e tenantID r =
     orReturn (authenticateClient e tenantID r) id (\<lambda>client.
     orReturn (requireConfidential client ''Token exchange requires a confidential client'') id (\<lambda>_.
     orReturn (requireGrant client GrantTypeTokenExchange ''token-exchange'') id (\<lambda>_.
     let subjectToken = hq_Form r ''subject_token''; subjectTokenType = hq_Form r ''subject_token_type'';
         requestedTokenType = hq_Form r ''requested_token_type'' in
     if subjectToken = [] \<or> subjectTokenType = []
     then failWith (oauthError 400 ''invalid_request'' ''subject_token and subject_token_type are required'')
     else if requestedTokenType \<noteq> [] \<and> requestedTokenType \<noteq> TokenTypeAccessToken
     then failWith (oauthError 400 ''invalid_request'' ''Only access tokens can be issued by this server'')
     else
       orReturn (onWorld (ExchangeToken e tenantID client subjectToken subjectTokenType (hq_Form r ''scope'')))
         (\<lambda>er. if er = ErrInvalidScope
                then oauthError 400 ''invalid_scope'' ''Requested scope exceeds the subject token or client registration''
                else oauthError 400 ''invalid_grant'' ''Subject token is invalid or expired'') (\<lambda>tokens.
       succeed (ExchangeBody tokens, [])))))"

definition tenantHeaderMessage :: string where
  "tenantHeaderMessage = ''Tenant context required '' @ em_dash @ '' provide X-Tenant-ID header''"

definition HandleToken :: "env \<Rightarrow> http_req \<Rightarrow> (world \<times> clientSecretCache option, api_reply) state" where
  "HandleToken e r = replied (
     case GetTenantID (hq_gin r) of
       None \<Rightarrow> failWith (oauthError 400 ''invalid_request'' tenantHeaderMessage)
     | Some tenantID \<Rightarrow>
         let grantType = hq_Form r ''grant_type'' in
         if grantType = ''authorization_code'' then handleAuthorizationCodeGrant e tenantID r
         else if grantType = ''refresh_token'' then handleRefreshTokenGrant e tenantID r
         else if grantType = ''client_credentials'' then handleClientCredentialsGrant e tenantID r
         else if grantType = GrantTypeDeviceCode then handleDeviceCodeGrant e tenantID r
         else if grantType = GrantTypeTokenExchange then handleTokenExchangeGrant e tenantID r
         else failWith (oauthError 400 ''unsupported_grant_type'' ''Grant type not supported''))"

section \<open>Claims, keys and metadata\<close>

definition quoted :: "string \<Rightarrow> string" where
  "quoted s = [CHR 0x22] @ s @ [CHR 0x22]"

definition bearerError :: "env \<Rightarrow> int \<Rightarrow> string \<Rightarrow> string \<Rightarrow> api_reply" where
  "bearerError e status code scope =
     (OAuthError status code [],
      [(''WWW-Authenticate'', ''Bearer realm='' @ quoted (cf_ServerURL (config e)) @ '', error='' @ quoted code
          @ (if scope \<noteq> [] then '', scope='' @ quoted scope else []))])"

definition HandleUserInfo :: "env \<Rightarrow> http_req \<Rightarrow> (world, api_reply) state" where
  "HandleUserInfo e r =
     (case GetTenantID (hq_gin r) of
        None \<Rightarrow> State_Monad.return (bearerError e 401 ''invalid_token'' [])
      | Some tenantID \<Rightarrow>
          let authHeader = g_Header (hq_gin r) ''Authorization'' in
          if \<not> strings_HasPrefix authHeader BearerPrefix
          then State_Monad.return (OAuthError 401 ''invalid_request'' [],
                 [(''WWW-Authenticate'', ''Bearer realm='' @ quoted (cf_ServerURL (config e)))])
          else do {
            u \<leftarrow> GetUserInfo e tenantID (strings_TrimPrefix authHeader BearerPrefix);
            State_Monad.return (case u of
                Inr userInfo \<Rightarrow> (UserInfoBody userInfo, [])
              | Inl er \<Rightarrow> if errors_Is er ErrInsufficientScope then bearerError e 403 ''insufficient_scope'' ''openid''
                           else bearerError e 401 ''invalid_token'' [])
          })"

definition GetDiscoveryDocument :: "env \<Rightarrow> OpenIDConfiguration" where
  "GetDiscoveryDocument e =
     (let base = cf_ServerURL (config e); clientAuthMethods = [''client_secret_basic'', ''client_secret_post''] in
      \<lparr>oc_Issuer = base, oc_AuthorizationEndpoint = base @ ''/oauth/authorize'', oc_TokenEndpoint = base @ ''/oauth/token'',
       oc_UserInfoEndpoint = base @ ''/userinfo'', oc_JwksURI = base @ ''/.well-known/jwks.json'',
       oc_RevocationEndpoint = base @ ''/oauth/revoke'', oc_IntrospectionEndpoint = base @ ''/oauth/introspect'',
       oc_DeviceAuthorizationEndpoint = base @ ''/oauth/device_authorization'', oc_RegistrationEndpoint = base @ ''/oauth/register'',
       oc_EndSessionEndpoint = base @ ''/oauth/logout'',
       oc_ScopesSupported = [ScopeOpenID, ScopeProfile, ScopeEmail, ScopePhone, ''read'', ''write''],
       oc_ResponseTypesSupported = [''code''], oc_ResponseModesSupported = [''query''],
       oc_GrantTypesSupported = [''authorization_code'', ''refresh_token'', ''client_credentials'', GrantTypeDeviceCode, GrantTypeTokenExchange],
       oc_SubjectTypesSupported = [''public''], oc_IDTokenSigningAlgValuesSupported = [KeySet_Algorithm (keys e)],
       oc_TokenEndpointAuthMethodsSupported = clientAuthMethods @ [''none''],
       oc_RevocationEndpointAuthMethodsSupported = clientAuthMethods, oc_IntrospectionEndpointAuthMethodsSupported = clientAuthMethods,
       oc_CodeChallengeMethodsSupported = [''S256''],
       oc_PromptValuesSupported = [''none'', ''login'', ''consent'', ''select_account''],
       oc_ClaimsSupported = [''sub'', ''iss'', ''aud'', ''exp'', ''iat'', ''auth_time'', ''amr'', ''nonce'', ''at_hash'', ''tenant_id'',
         ''name'', ''given_name'', ''family_name'', ''preferred_username'', ''picture'', ''locale'', ''zoneinfo'', ''updated_at'',
         ''email'', ''email_verified'', ''phone_number'', ''phone_number_verified''],
       oc_ClaimsParameterSupported = False, oc_RequestParameterSupported = False, oc_RequestURIParameterSupported = False,
       oc_AuthorizationResponseIssParameterSupported = True\<rparr>)"

definition HandleDiscovery :: "env \<Rightarrow> api_reply" where
  "HandleDiscovery e = (DiscoveryBody (GetDiscoveryDocument e), [])"

definition HandleJWKS :: "env \<Rightarrow> api_reply" where
  "HandleJWKS e = (JWKSBody (GetJWKS e), [(''Cache-Control'', ''public, max-age=900'')])"

section \<open>Introspection and revocation\<close>

definition HandleIntrospect :: "env \<Rightarrow> http_req \<Rightarrow> (world \<times> clientSecretCache option, api_reply) state" where
  "HandleIntrospect e r = replied (
     case GetTenantID (hq_gin r) of
       None \<Rightarrow> failWith (oauthError 400 ''invalid_request'' tenantHeaderMessage)
     | Some tenantID \<Rightarrow>
         orReturn (authenticateClient e tenantID r) id (\<lambda>client.
         orReturn (requireConfidential client ''Introspection requires a confidential client'') id (\<lambda>_.
         if hq_Form r ''token'' = [] then failWith (oauthError 400 ''invalid_request'' [])
         else orReturn (onWorld (IntrospectToken e tenantID (hq_Form r ''token'')))
           (\<lambda>_. (IntrospectionBody (IntrospectionResponse_zero\<lparr>ir_Active := False\<rparr>), [])) (\<lambda>introspection.
         succeed (IntrospectionBody introspection, [])))))"

definition HandleRevoke :: "env \<Rightarrow> http_req \<Rightarrow> (world \<times> clientSecretCache option, api_reply) state" where
  "HandleRevoke e r = replied (
     case GetTenantID (hq_gin r) of
       None \<Rightarrow> failWith (oauthError 401 ''invalid_client'' [])
     | Some tenantID \<Rightarrow>
         orReturn (authenticateClient e tenantID r) id (\<lambda>client.
         if hq_Form r ''token'' = [] then failWith (oauthError 400 ''invalid_request'' [])
         else do {
           _ \<leftarrow> onWorld (RevokeToken e tenantID (hq_Form r ''token'') (hq_Form r ''token_type_hint'') (c_ID client));
           succeed (EmptyBody, [])
         }))"

section \<open>Device endpoints\<close>

definition HandleDeviceAuthorization :: "env \<Rightarrow> http_req \<Rightarrow> (world \<times> clientSecretCache option, api_reply) state" where
  "HandleDeviceAuthorization e r = replied (
     case GetTenantID (hq_gin r) of
       None \<Rightarrow> failWith (oauthError 400 ''invalid_request'' tenantHeaderMessage)
     | Some tenantID \<Rightarrow>
         orReturn (authenticateClient e tenantID r) id (\<lambda>client.
         orReturn (requireGrant client GrantTypeDeviceCode ''device_code'') id (\<lambda>_.
         orReturn (grantedScope client (hq_Form r ''scope'')) id (\<lambda>scope.
         orReturn (onWorld (CreateDeviceAuthorization e tenantID client scope))
           (\<lambda>_. oauthError 500 ''server_error'' ''Failed to start device authorization'') (\<lambda>response.
         succeed (DeviceBody response, []))))))"

definition renderDevicePage :: "env \<Rightarrow> OAuthHandler \<Rightarrow> Tenant option \<Rightarrow> string \<Rightarrow> string \<Rightarrow> string \<Rightarrow> (world, web_reply) state" where
  "renderDevicePage e h tenant userCode errorMsg resultMsg =
     addCSRFToken e h (\<lambda>csrfToken.
       State_Monad.return (HTMLPage ''device.html'' ([(''user_code'', userCode), (''csrf_token'', csrfToken)]
         @ (case tenant of Some t \<Rightarrow> [(''tenant_info'', t_Name t)] | None \<Rightarrow> []) @ errorField errorMsg
         @ (if resultMsg \<noteq> [] then [(''result'', resultMsg)] else [])) []))"

text \<open>The tenant for the page, when it can be read.\<close>

definition deviceTenant :: "env \<Rightarrow> http_req \<Rightarrow> (uuid \<Rightarrow> Tenant option \<Rightarrow> (world, web_reply) state) \<Rightarrow> (world, web_reply) state" where
  "deviceTenant e r k =
     (case GetTenantID (hq_gin r) of
        None \<Rightarrow> State_Monad.return (ErrorPage ''invalid_request'' tenantHeaderMessage, [])
      | Some tenantID \<Rightarrow> do {
          t \<leftarrow> GetTenantByID e tenantID;
          k tenantID (case t of Inr tenant \<Rightarrow> Some tenant | Inl _ \<Rightarrow> None)
        })"

definition HandleDeviceVerificationPage :: "env \<Rightarrow> OAuthHandler \<Rightarrow> http_req \<Rightarrow> (world, web_reply) state" where
  "HandleDeviceVerificationPage e h r =
     deviceTenant e r (\<lambda>_ tenant. renderDevicePage e h tenant (hq_Query r ''user_code'') [] [])"

definition deviceOutcome :: "bool \<Rightarrow> err + unit \<Rightarrow> string \<times> string" where
  "deviceOutcome denied decided =
     (case decided of
        Inl er \<Rightarrow>
          (if er = ErrExpiredDeviceCode then ''This code has expired '' @ em_dash @ '' request a new one on your device''
           else ''Code not found '' @ em_dash @ '' check the code and try again'', [])
      | Inr _ \<Rightarrow>
          ([], if denied then ''Device denied '' @ em_dash @ '' the sign-in request was rejected''
               else ''Device approved '' @ em_dash @ '' you can return to your device now''))"

definition applyDeviceDecision ::
  "env \<Rightarrow> OAuthHandler \<Rightarrow> Tenant option \<Rightarrow> uuid \<Rightarrow> uuid \<Rightarrow> string \<Rightarrow> string \<Rightarrow> string list \<Rightarrow> (world, web_reply) state" where
  "applyDeviceDecision e h tenant tenantID userID userCode action amr = do {
     decided \<leftarrow> (if action = ''deny'' then DenyDeviceCode e tenantID userCode else ApproveDeviceCode e tenantID userCode userID amr);
     let (errorMsg, resultMsg) = deviceOutcome (action = ''deny'') decided in
       renderDevicePage e h tenant (if errorMsg \<noteq> [] then userCode else []) errorMsg resultMsg
   }"

definition reloadMessage :: string where
  "reloadMessage = ''Invalid or missing CSRF token '' @ em_dash @ '' please reload the page''"

definition HandleDeviceVerification :: "env \<Rightarrow> OAuthHandler \<Rightarrow> http_req \<Rightarrow> (world, web_reply) state" where
  "HandleDeviceVerification e h r =
     deviceTenant e r (\<lambda>tenantID tenant.
     let userCode = hq_Form r ''user_code'' in
     if \<not> validCSRF h r then renderDevicePage e h tenant userCode reloadMessage []
     else if strings_TrimSpace userCode = [] then renderDevicePage e h tenant [] ''Please enter the code shown on your device'' []
     else do {
       a \<leftarrow> Authenticate e tenantID (hq_Form r ''username'') (hq_Form r ''password'');
       case a of
         Inl _ \<Rightarrow> renderDevicePage e h tenant userCode ''Invalid email or password'' []
       | Inr user \<Rightarrow> do {
           required \<leftarrow> mfaRequired e h tenantID (u_ID user);
           case required of
             Inl _ \<Rightarrow> renderDevicePage e h tenant userCode (''Something went wrong '' @ em_dash @ '' please try again'') []
           | Inr True \<Rightarrow> startMFA e h tenantID (u_ID user) mfaPurposeDevice ''/oauth/device/mfa''
               [(''user_code'', userCode), (''action'', hq_Form r ''action'')]
           | Inr False \<Rightarrow> applyDeviceDecision e h tenant tenantID (u_ID user) userCode (hq_Form r ''action'') [AMRPassword]
         }
     })"

definition HandleDeviceMFA :: "env \<Rightarrow> OAuthHandler \<Rightarrow> http_req \<Rightarrow> (world, web_reply) state" where
  "HandleDeviceMFA e h r =
     deviceTenant e r (\<lambda>tenantID tenant.
     let userCode = hq_Form r ''user_code''; action = hq_Form r ''action'' in
     if \<not> validCSRF h r then renderDevicePage e h tenant userCode reloadMessage []
     else
       orReply (completeMFA e h tenantID r mfaPurposeDevice ''/oauth/device/mfa'' [(''user_code'', userCode), (''action'', action)]
           (\<lambda>msg. renderDevicePage e h tenant userCode msg []))
         (\<lambda>(userID, amr). applyDeviceDecision e h tenant tenantID userID userCode action amr))"

end
