(* ===== verification/AuthorizeProperties.thy ===== *)
theory AuthorizeProperties
  imports Authorize Effects UserProperties
begin

text \<open>What the browser endpoints let happen: which sessions, codes and redirects come out of any request.\<close>

datatype endpoint = AtAuthorize | AtLogin | AtLoginMFA | AtConsent | AtLogout

fun browser_handle :: "env \<Rightarrow> OAuthHandler \<Rightarrow> endpoint \<Rightarrow> http_req \<Rightarrow> (world, web_reply) state" where
  "browser_handle e h AtAuthorize r = HandleAuthorize e h r"
| "browser_handle e h AtLogin r = HandleLogin e h r"
| "browser_handle e h AtLoginMFA r = HandleLoginMFA e h r"
| "browser_handle e h AtConsent r = HandleConsent e h r"
| "browser_handle e h AtLogout r = HandleLogout e h r"

section \<open>Taking handlers apart\<close>

lemma orReply_cases:
  assumes "run_state (orReply m k) w = (rep, w')"
  obtains (early) "run_state m w = (Inl rep, w')"
  | (further) a v where "run_state m w = (Inr a, v)" "run_state (k a) v = (rep, w')"
  using assms by (auto simp: orReply_def run_bind run_return split: prod.splits sum.splits)

lemma tenantRequired_cases:
  assumes "run_state (tenantRequired r k) w = (rep, w')"
  obtains (early) "rep = (ErrorPage ''invalid_request'' tenantMessage, [])" "w' = w"
  | (further) t where "GetTenantID (hq_gin r) = Some t" "run_state (k t) w = (rep, w')"
  using assms by (auto simp: tenantRequired_def run_return split: option.splits)

lemma csrfRequired_cases:
  assumes "run_state (csrfRequired h r k) w = (rep, w')"
  obtains (early) "rep = (ErrorPage ''invalid_request'' (csrfMessage ''the authorization flow''), [])" "w' = w"
  | (further) "validCSRF h r" "run_state k w = (rep, w')"
  using assms by (auto simp: csrfRequired_def run_return split: if_splits)

lemma GetClient_run:
  "run_state (GetClientByClientID e t ci) w =
     (if fails e (stmts w) then Inl (Wrapped ''failed to get client by client_id'' DBError)
      else case find (\<lambda>c. c_TenantID c = t \<and> c_ClientID c = ci \<and> client_live c) (clients w) of None \<Rightarrow> Inl ErrClientNotFound | Some c \<Rightarrow> Inr c,
      w\<lparr>stmts := Suc (stmts w)\<rparr>)"
  by (simp add: GetClientByClientID_def Client_GetByClientID_def clients.First_run)

lemma validate_Inr:
  assumes "run_state (validateAuthorizationRequest e h t req) w = (Inr ar, w')"
  shows "\<exists>n c. w' = w\<lparr>stmts := n\<rparr> \<and> c \<in> set (clients w) \<and> c_TenantID c = t \<and> client_live c \<and> c_ClientID c = aq_ClientID req
     \<and> aq_RedirectURI req \<in> set (c_RedirectURIs c) \<and> checkAuthorizationRequest c req = Inr ar"
proof -
  obtain c where c: "find (\<lambda>c. c_TenantID c = t \<and> c_ClientID c = aq_ClientID req \<and> client_live c) (clients w) = Some c"
    "w' = w\<lparr>stmts := Suc (stmts w)\<rparr>" "aq_RedirectURI req \<in> set (c_RedirectURIs c)" "checkAuthorizationRequest c req = Inr ar"
    using assms
    by (auto simp: validateAuthorizationRequest_def run_orReturn GetClient_run run_return ValidateRedirectURI_def list_ex_iff
        split: if_splits option.splits sum.splits)
  then show ?thesis
    using find_SomeD [OF c(1)] by blast
qed

lemma check_Inr:
  assumes "checkAuthorizationRequest c req = Inr ar"
  shows "ar_req ar = req" "ar_client ar = c" "ValidateScopeForClient c (aq_Scope req) = Inr (ar_scope ar)"
    "c_IsPublic c \<Longrightarrow> aq_CodeChallenge req \<noteq> [] \<and> aq_CodeChallengeMethod req = ''S256''"
    "Client_HasGrantType c ''authorization_code''" "ar_prompt ar = set (strings_Fields (aq_Prompt req))"
  using assms unfolding checkAuthorizationRequest_def
  by (auto split: if_splits sum.splits option.splits)

lemma renderError_Redirect:
  "renderError e h code description uri st = RedirectPage u \<Longrightarrow> \<exists>ps. wl_URLWith (h_lib h) uri ps = Some u"
  by (auto simp: renderError_def split: if_splits option.splits)

lemma validate_Inl_Redirect:
  assumes "run_state (validateAuthorizationRequest e h t req) w = (Inl (RedirectPage u, cookies), w')"
  shows "\<exists>c ps. c \<in> set (clients w) \<and> c_TenantID c = t \<and> client_live c \<and> aq_RedirectURI req \<in> set (c_RedirectURIs c)
     \<and> wl_URLWith (h_lib h) (aq_RedirectURI req) ps = Some u"
proof -
  obtain c code description where c: "find (\<lambda>c. c_TenantID c = t \<and> c_ClientID c = aq_ClientID req \<and> client_live c) (clients w) = Some c"
    "aq_RedirectURI req \<in> set (c_RedirectURIs c)" "renderError e h code description (aq_RedirectURI req) (aq_State req) = RedirectPage u"
    using assms
    by (auto simp: validateAuthorizationRequest_def run_orReturn GetClient_run run_return ValidateRedirectURI_def list_ex_iff
        split: if_splits option.splits sum.splits)
  then show ?thesis
    using find_SomeD [OF c(1)] renderError_Redirect [OF c(3)] by blast
qed

section \<open>Redirects\<close>

text \<open>Pages that stay on the server, and replies that leave it only for one address.\<close>

definition to_uri :: "OAuthHandler \<Rightarrow> string \<Rightarrow> page \<Rightarrow> bool" where
  "to_uri h uri p \<longleftrightarrow> (\<forall>u. p = RedirectPage u \<longrightarrow> (\<exists>ps. wl_URLWith (h_lib h) uri ps = Some u))"

definition replies :: "(page \<Rightarrow> bool) \<Rightarrow> (world, web_reply) state \<Rightarrow> bool" where
  "replies P m \<longleftrightarrow> (\<forall>w. P (fst (fst (run_state m w))))"

lemma replies_return: "P p \<Longrightarrow> replies P (State_Monad.return (p, cookies))"
  by (simp add: replies_def run_return)

lemma replies_bind: "(\<And>a. replies P (k a)) \<Longrightarrow> replies P (State_Monad.bind m k)"
  by (auto simp: replies_def run_bind split: prod.split)

lemma replies_option: "replies P m \<Longrightarrow> (\<And>a. replies P (k a)) \<Longrightarrow> replies P (case x of None \<Rightarrow> m | Some a \<Rightarrow> k a)"
  by (simp split: option.split)

lemma replies_sum: "(\<And>a. replies P (f a)) \<Longrightarrow> (\<And>a. replies P (k a)) \<Longrightarrow> replies P (case x of Inl a \<Rightarrow> f a | Inr a \<Rightarrow> k a)"
  by (simp split: sum.split)

lemma replies_if: "replies P m \<Longrightarrow> replies P n \<Longrightarrow> replies P (if b then m else n)"
  by simp

lemma replies_prod: "(\<And>a b. replies P (k a b)) \<Longrightarrow> replies P (case x of (a, b) \<Rightarrow> k a b)"
  by (simp split: prod.split)

lemma replies_bool: "replies P m \<Longrightarrow> replies P n \<Longrightarrow> replies P (case b of True \<Rightarrow> m | False \<Rightarrow> n)"
  by (simp split: bool.split)

lemmas replies_intros = replies_bind replies_option replies_sum replies_if replies_prod replies_bool

lemma replies_run: "replies P m \<Longrightarrow> run_state m w = ((p, cookies), w') \<Longrightarrow> P p"
  unfolding replies_def by (metis fst_conv)

text \<open>Every page shown on the way of a validated request, and a reply that ends a second factor, either stays or goes to its client.\<close>

lemma to_uri_html [simp]: "to_uri h uri (HTMLPage t d x)" "to_uri h uri (ErrorPage c c2)" "to_uri h uri PanicPage"
  by (simp_all add: to_uri_def)

lemma to_uri_renderError [simp]: "to_uri h uri (renderError e h c d uri st)"
  using renderError_Redirect by (auto simp: to_uri_def)

lemma replies_addCSRF: "(\<And>tok w. P (fst (run_state (k tok) w))) \<Longrightarrow> P (ErrorPage ''server_error'' ''Internal server error'')
    \<Longrightarrow> replies P (addCSRFToken e h k)"
  by (auto simp: replies_def addCSRFToken_def run_bind run_return split: prod.split sum.split) (metis fst_conv)

lemma replies_pages:
  "replies (to_uri h uri) (renderLoginPage e h t ar msg)" "replies (to_uri h uri) (renderConsentPage e h t ar s)"
  "replies (to_uri h uri) (renderMFAPage e h a hidden tok msg)" "replies (to_uri h uri) (startMFA e h t u p a hidden)"
  unfolding renderLoginPage_def renderConsentPage_def renderMFAPage_def startMFA_def
  by (auto intro!: replies_addCSRF simp: run_bind run_return split: prod.split sum.split)

lemma replies_fail: "replies (to_uri h (aq_RedirectURI (ar_req ar))) (failAuthorization e h ar c d)"
  by (simp add: failAuthorization_def replies_return)

lemma replies_issue: "replies (to_uri h (aq_RedirectURI (ar_req ar))) (issueAuthorizationCode e h t ar s)"
  unfolding issueAuthorizationCode_def
  by (intro replies_intros replies_fail replies_return) (auto simp: to_uri_def split: option.split)

lemma replies_continue: "replies (to_uri h (aq_RedirectURI (ar_req ar))) (continueAuthorization e h t ar s)"
  unfolding continueAuthorization_def by (intro replies_intros replies_fail replies_issue replies_pages)

lemma replies_cookies: "replies P m \<Longrightarrow> replies P (do { (p, cookies) \<leftarrow> m; State_Monad.return (p, c # cookies) })"
  by (auto simp: replies_def run_bind run_return split: prod.split) (metis fst_conv)

lemma replies_signIn: "replies (to_uri h (aq_RedirectURI (ar_req ar))) (signIn e h t r ar u amr)"
  unfolding signIn_def
  by (rule replies_bind, rule replies_bind, rule replies_sum, rule replies_fail, rule replies_prod, rule replies_cookies,
      rule replies_continue)

lemma completeMFA_Inl:
  assumes "run_state (completeMFA e h t r p a hidden restart) w = (Inl (pg, cookies), w')" "\<And>m. replies (to_uri h uri) (restart m)"
  shows "to_uri h uri pg"
  using assms(1) unfolding completeMFA_def Let_def
  by (auto simp: run_bind run_return split: option.splits prod.splits sum.splits if_splits
      dest!: replies_run [OF assms(2)] replies_run [OF replies_pages(3) [where uri = uri]])

lemma replies_orReply:
  assumes "\<And>w pg cookies w'. run_state m w = (Inl (pg, cookies), w') \<Longrightarrow> P pg" "\<And>a. replies P (k a)"
  shows "replies P (orReply m k)"
  unfolding replies_def
proof
  fix w
  obtain x v where x: "run_state m w = (x, v)"
    by fastforce
  show "P (fst (fst (run_state (orReply m k) w)))"
    using assms x by (cases x) (auto simp: orReply_def run_bind run_return replies_def)
qed

text \<open>What the endpoints do once the authorization request is validated leaves the server only for the client.\<close>

lemma replies_validated:
  "replies (to_uri h (aq_RedirectURI (ar_req ar))) (orReply (completeMFA e h t r p a hidden (renderLoginPage e h t ar))
     (\<lambda>(userID, amr). signIn e h t r ar userID amr))"
  by (intro replies_orReply replies_prod replies_signIn completeMFA_Inl [OF _ replies_pages(1)])

definition registered_target :: "world \<Rightarrow> OAuthHandler \<Rightarrow> http_req \<Rightarrow> (Client \<Rightarrow> string list) \<Rightarrow> string \<Rightarrow> bool" where
  "registered_target w h r uris u \<longleftrightarrow> (\<exists>t c uri ps. GetTenantID (hq_gin r) = Some t \<and> c \<in> set (clients w) \<and> c_TenantID c = t \<and> client_live c
     \<and> uri \<in> set (uris c) \<and> wl_URLWith (h_lib h) uri ps = Some u)"

lemma validated_target:
  assumes "run_state (orReply (validateAuthorizationRequest e h t req) k) w = ((RedirectPage u, cookies), w')" "GetTenantID (hq_gin r) = Some t"
    and "\<And>ar. ar_req ar = req \<Longrightarrow> replies (to_uri h (aq_RedirectURI (ar_req ar))) (k ar)"
  shows "registered_target w h r c_RedirectURIs u"
  using assms(1)
proof (cases rule: orReply_cases)
  case early
  then show ?thesis
    using validate_Inl_Redirect assms(2) by (fastforce simp: registered_target_def)
next
  case (further ar v)
  obtain n c where c: "v = w\<lparr>stmts := n\<rparr>" "c \<in> set (clients w)" "c_TenantID c = t" "client_live c"
    "aq_RedirectURI req \<in> set (c_RedirectURIs c)" "checkAuthorizationRequest c req = Inr ar"
    using validate_Inr [OF further(1)] by blast
  have "to_uri h (aq_RedirectURI req) (RedirectPage u)"
    using replies_run [OF assms(3) further(2)] check_Inr(1) [OF c(6)] by simp
  then show ?thesis
    using c assms(2) by (auto simp: registered_target_def to_uri_def)
qed

lemma logoutRedirect_Inr:
  assumes "run_state (logoutRedirect e t clientID uri) w = (Inr v, w')" "uri \<noteq> []"
  shows "\<exists>c \<in> set (clients w). c_TenantID c = t \<and> client_live c \<and> uri \<in> set (c_PostLogoutRedirectURIs c)"
  using assms
  by (auto simp: logoutRedirect_def run_orReturn GetClient_run run_return split: if_splits option.splits dest!: find_SomeD)

lemma logout_early:
  "run_state (logoutHint e t raw) w \<noteq> (Inl (RedirectPage u, cookies), w')"
  "run_state (logoutClient hint ci) w \<noteq> (Inl (RedirectPage u, cookies), w')"
  "run_state (logoutRedirect e t clientID uri) w \<noteq> (Inl (RedirectPage u, cookies), w')"
  by (auto simp: logoutHint_def logoutClient_def logoutRedirect_def run_orReturn run_return
      split: option.splits if_splits prod.splits sum.splits)

lemma orReply_Inr:
  assumes "run_state (orReply m k) w = (rep, w')" "run_state m w \<noteq> (Inl rep, w')"
  shows "\<exists>a v. run_state m w = (Inr a, v) \<and> run_state (k a) v = (rep, w')"
  using assms by (cases rule: orReply_cases) auto

lemma logout_same: "run_state (logoutHint e t raw) w = (x, w') \<Longrightarrow> w' = w" "run_state (logoutClient hint ci) w = (y, w') \<Longrightarrow> w' = w"
  by (auto simp: logoutHint_def logoutClient_def run_return split: if_splits)

definition to_registered :: "OAuthHandler \<Rightarrow> string \<Rightarrow> page \<Rightarrow> bool" where
  "to_registered h uri p \<longleftrightarrow> (\<forall>u. p = RedirectPage u \<longrightarrow> uri \<noteq> [] \<and> (\<exists>ps. wl_URLWith (h_lib h) uri ps = Some u))"

lemma to_registered_page [simp]: "to_registered h uri (HTMLPage t d x)" "to_registered h uri (ErrorPage c c2)"
  by (simp_all add: to_registered_def)

lemma logout_target:
  assumes "run_state (HandleLogout e h r) w = ((RedirectPage u, cookies), w')"
  shows "registered_target w h r c_PostLogoutRedirectURIs u"
proof -
  let ?get = "if hq_Post r then hq_Form r else hq_Query r"
  let ?uri = "?get ''post_logout_redirect_uri''"
  obtain t where t: "GetTenantID (hq_gin r) = Some t"
    using assms unfolding HandleLogout_def by (auto elim: tenantRequired_cases)
  define last where "last = (\<lambda>(hint :: IDTokenClaims option) clientID. do {
         s \<leftarrow> currentSession e t r;
         if (case s of
               None \<Rightarrow> False
             | Some session \<Rightarrow> \<not> (hq_Post r \<or> (case hint of Some claims \<Rightarrow> ui_Sub (ic_UserInfo claims) = uuidString e (s_UserID session) | None \<Rightarrow> False)))
         then addCSRFToken e h (\<lambda>csrfToken. State_Monad.return (HTMLPage ''logout.html''
                [(''confirm'', ''true''), (''client_id'', clientID), (''post_logout_redirect_uri'', ?uri),
                 (''state'', ?get ''state''), (''csrf_token'', csrfToken)] []))
         else do {
           cookies \<leftarrow> endBrowserSession e t r;
           State_Monad.return
             (case (if ?uri \<noteq> []
                    then wl_URLWith (h_lib h) ?uri (if ?get ''state'' \<noteq> [] then [(''state'', ?get ''state'')] else []) else None) of
                Some u \<Rightarrow> RedirectPage u
              | None \<Rightarrow> HTMLPage ''logout.html'' [(''confirm'', ''false'')] [], cookies)
         }
       })"
  have last: "replies (to_registered h ?uri) (last hint clientID)" for hint clientID
    unfolding last_def
    by (intro replies_bind replies_if replies_addCSRF replies_return)
      (auto simp: run_return to_registered_def split: option.splits if_splits)
  have "run_state (orReply (logoutHint e t (?get ''id_token_hint'')) (\<lambda>hint.
       orReply (logoutClient hint (?get ''client_id'')) (\<lambda>clientID.
       orReply (logoutRedirect e t clientID ?uri) (\<lambda>_. last hint clientID)))) w = ((RedirectPage u, cookies), w')"
    using assms t unfolding HandleLogout_def tenantRequired_def Let_def last_def
    by (simp add: run_return split: if_split_asm del: if_split)
  from orReply_Inr [OF this logout_early(1)] obtain hint v1 where 1: "run_state (logoutHint e t (?get ''id_token_hint'')) w = (Inr hint, v1)"
    "run_state (orReply (logoutClient hint (?get ''client_id'')) (\<lambda>clientID.
       orReply (logoutRedirect e t clientID ?uri) (\<lambda>_. last hint clientID))) v1 = ((RedirectPage u, cookies), w')"
    by blast
  from orReply_Inr [OF 1(2) logout_early(2)] obtain clientID v2 where 2:
    "run_state (logoutClient hint (?get ''client_id'')) v1 = (Inr clientID, v2)"
    "run_state (orReply (logoutRedirect e t clientID ?uri) (\<lambda>_. last hint clientID)) v2 = ((RedirectPage u, cookies), w')"
    by blast
  from orReply_Inr [OF 2(2) logout_early(3)] obtain x v3 where 3: "run_state (logoutRedirect e t clientID ?uri) v2 = (Inr x, v3)"
    "run_state (last hint clientID) v3 = ((RedirectPage u, cookies), w')"
    by blast
  have "to_registered h ?uri (RedirectPage u)"
    by (rule replies_run [OF last 3(2)])
  moreover have "v2 = w"
    using logout_same(1) [OF 1(1)] logout_same(2) [OF 2(1)] by simp
  ultimately show ?thesis
    using logoutRedirect_Inr [OF 3(1)] t unfolding registered_target_def to_registered_def by blast
qed

text \<open>C33: Whatever is sent to the browser endpoints, a redirect goes only to an address that a live client of the tenant registered:
  with the code or an error to one of its redirect URIs, after a logout to one of its post-logout URIs. Errors found before the
  client and its URI are known stay on the server.\<close>

theorem no_open_redirect:
  assumes "run_state (browser_handle e h b r) w = ((RedirectPage u, cookies), w')"
  shows "\<exists>t c uri ps. GetTenantID (hq_gin r) = Some t \<and> c \<in> set (clients w) \<and> c_TenantID c = t \<and> client_live c
     \<and> uri \<in> set (if b = AtLogout then c_PostLogoutRedirectURIs c else c_RedirectURIs c) \<and> wl_URLWith (h_lib h) uri ps = Some u"
proof -
  note more = replies_intros replies_fail replies_pages replies_continue replies_issue replies_signIn
  have "registered_target w h r c_RedirectURIs u" if nl: "b \<noteq> AtLogout"
  proof -
    obtain t req k where run: "GetTenantID (hq_gin r) = Some t"
      "run_state (orReply (validateAuthorizationRequest e h t req) k) w = ((RedirectPage u, cookies), w')"
      "\<And>ar. replies (to_uri h (aq_RedirectURI (ar_req ar))) (k ar)"
    proof (cases b)
      case AtAuthorize
      then obtain t where t: "GetTenantID (hq_gin r) = Some t"
        using assms by (auto simp: HandleAuthorize_def elim: tenantRequired_cases)
      show ?thesis
        using assms AtAuthorize by (intro that [OF t]) (simp_all add: HandleAuthorize_def tenantRequired_def t, intro more)
    next
      case AtLogin
      then obtain t where t: "GetTenantID (hq_gin r) = Some t" "validCSRF h r"
        using assms by (auto simp: HandleLogin_def elim!: tenantRequired_cases csrfRequired_cases)
      show ?thesis
        using assms AtLogin
        by (intro that [OF t(1)]) (simp_all add: HandleLogin_def tenantRequired_def csrfRequired_def t, intro more)
    next
      case AtLoginMFA
      then obtain t where t: "GetTenantID (hq_gin r) = Some t" "validCSRF h r"
        using assms by (auto simp: HandleLoginMFA_def elim!: tenantRequired_cases csrfRequired_cases)
      show ?thesis
        using assms AtLoginMFA
        by (intro that [OF t(1)]) (simp_all add: HandleLoginMFA_def tenantRequired_def csrfRequired_def t, rule replies_validated)
    next
      case AtConsent
      then obtain t where t: "GetTenantID (hq_gin r) = Some t" "validCSRF h r"
        using assms by (auto simp: HandleConsent_def elim!: tenantRequired_cases csrfRequired_cases)
      show ?thesis
        using assms AtConsent
        by (intro that [OF t(1)]) (simp_all add: HandleConsent_def tenantRequired_def csrfRequired_def t, intro more)
    qed (use nl in simp)
    show ?thesis
      using validated_target [OF run(2,1)] run(3) by blast
  qed
  moreover have "registered_target w h r c_PostLogoutRedirectURIs u" if "b = AtLogout"
    using logout_target assms that by simp
  ultimately show ?thesis
    unfolding registered_target_def by (cases "b = AtLogout") simp_all
qed

end
