(* ===== verification/LoginProperties.thy ===== *)
theory LoginProperties
  imports AuthorizeProperties
begin

text \<open>Where sessions and authorization codes come from: every one is traced back to the request that made it.\<close>

section \<open>What the endpoints leave alone\<close>

text \<open>\<open>adds S C\<close>: sessions may end, only sessions of \<open>S\<close> and codes of \<open>C\<close> may appear.\<close>

definition adds :: "Session set \<Rightarrow> AuthorizationCode set \<Rightarrow> world \<Rightarrow> world \<Rightarrow> bool" where
  "adds S C w w' \<longleftrightarrow> set (sessions w') \<subseteq> set (sessions w) \<union> S \<and> set (auth_codes w') \<subseteq> set (auth_codes w) \<union> C"

interpretation ad: world_preorder "adds S C" for S C
  by unfold_locales (auto simp: adds_def)

lemma adds_less: "steps (adds {} {}) m \<Longrightarrow> steps (adds S C) m"
  by (auto simp: steps_def adds_def)

lemma adds_quiet [effect_intros]:
  "steps (adds S C) (GetClientByClientID e t ci)" "steps (adds S C) (newCSRFToken e secret)" "steps (adds S C) (GetTenantByID e t)"
  "steps (adds S C) (GetUserByID e t u)" "steps (adds S C) (Consent_Get e t u c)" "steps (adds S C) (IsEnabled e t u)"
  "steps (adds S C) (User_GetByEmail e t email)"
  unfolding GetClientByClientID_def Client_GetByClientID_def newCSRFToken_def GetTenantByID_def Tenant_GetByID_def GetUserByID_def
    User_GetByID_def Consent_Get_def IsEnabled_def MFA_Get_def User_GetByEmail_def Let_def
  by (intro ad.world_steps ad.steps_if)+

lemma adds_sessions [effect_intros]:
  "steps (adds S C) (GetSession e t tok)" "steps (adds S C) (EndSession e t tok)"
proof -
  have "steps (adds S C) (Session_DeleteByTokenHash e t hsh)" for hsh
    unfolding Session_DeleteByTokenHash_def by (rule ad.steps_sqlDelete) (auto simp: adds_def)
  then show "steps (adds S C) (GetSession e t tok)" "steps (adds S C) (EndSession e t tok)"
    unfolding GetSession_def EndSession_def Session_GetByTokenHash_def by (intro ad.world_steps; simp)+
qed

lemma adds_Authenticate [effect_intros]: "steps (adds S C) (Authenticate e t email pw)"
proof -
  have "steps (adds S C) (RecordLoginAttempt e t email ip ok)" for ip ok
    unfolding RecordLoginAttempt_def User_Update_def
    by (intro ad.world_steps effect_intros ad.steps_sqlSave) (auto simp: adds_def)
  then show ?thesis
    unfolding Authenticate_def by (intro ad.world_steps effect_intros)
qed

lemma adds_Verify [effect_intros]: "steps (adds S C) (MFA_Verify e ks t u code)"
proof -
  have "steps (adds S C) (MFA_UseStep e t' u' s)" "steps (adds S C) (MFA_RecordFailure e t' u' n till)" for t' u' s n till
    unfolding MFA_UseStep_def MFA_RecordFailure_def by (intro ad.world_steps ad.steps_sqlUpdate; simp add: adds_def)+
  moreover have "steps (adds S C) (MFA_UseRecoveryCode e t' u' hsh)" for t' u' hsh
    unfolding MFA_UseRecoveryCode_def
    by (intro ad.world_steps ad.steps_sqlUpdate ad.steps_runSQL) (auto simp: adds_def)
  ultimately show ?thesis
    unfolding MFA_Verify_def MFA_check_def MFA_Get_def by (intro ad.world_steps)
qed

lemma adds_Grant [effect_intros]: "steps (adds S C) (GrantConsent e t u c scope)"
proof -
  have "steps (adds S C) (Consent_Upsert e co)" for co
    unfolding Consent_Upsert_def Let_def by (intro ad.world_steps ad.steps_runSQL) (auto simp: adds_def split: if_splits)
  then show ?thesis
    unfolding GrantConsent_def Let_def by (intro ad.world_steps effect_intros)
qed

lemma adds_pages [effect_intros]:
  "(\<And>tok. steps (adds S C) (k tok)) \<Longrightarrow> steps (adds S C) (addCSRFToken e h k)" "steps (adds S C) (failAuthorization e h ar c d)"
  unfolding addCSRFToken_def failAuthorization_def by (intro ad.world_steps effect_intros; simp)+

lemma adds_pages2 [effect_intros]:
  "steps (adds S C) (renderLoginPage e h t ar msg)" "steps (adds S C) (renderConsentPage e h t ar s)"
  "steps (adds S C) (renderMFAPage e h a hidden tok msg)" "steps (adds S C) (startMFA e h t u p a hidden)"
  unfolding startMFA_def renderLoginPage_def renderConsentPage_def renderMFAPage_def by (intro effect_intros ad.world_steps)+

lemma adds_browser [effect_intros]:
  "steps (adds S C) (currentSession e t r)" "steps (adds S C) (deleteBrowserSession e t r)"
  "steps (adds S C) (validateAuthorizationRequest e h t req)" "steps (adds S C) (HasConsent e t u c sc)"
  "steps (adds S C) (mfaRequired e h t u)"
  unfolding currentSession_def deleteBrowserSession_def validateAuthorizationRequest_def HasConsent_def mfaRequired_def
  by (intro ad.world_steps effect_intros)+

lemma adds_completeMFA:
  assumes "\<And>m. steps (adds S C) (restart m)"
  shows "steps (adds S C) (completeMFA e h t r p a hidden restart)"
  unfolding completeMFA_def Let_def by (intro ad.world_steps effect_intros assms)

section \<open>Signing in\<close>

definition mfa_on :: "world \<Rightarrow> uuid \<Rightarrow> uuid \<Rightarrow> bool" where
  "mfa_on w t u \<longleftrightarrow> (case find (\<lambda>m. m_TenantID m = t \<and> m_UserID m = u) (user_mfa w) of None \<Rightarrow> False | Some m \<Rightarrow> UserMFA_Enabled m)"

text \<open>The request proves who its user is: by the password of an account without a second factor, or by the token of a passed
  password check together with the second factor.\<close>

definition signed_in :: "env \<Rightarrow> OAuthHandler \<Rightarrow> endpoint \<Rightarrow> http_req \<Rightarrow> world \<Rightarrow> uuid \<Rightarrow> uuid \<Rightarrow> string list \<Rightarrow> bool" where
  "signed_in e h b r w t u amr \<longleftrightarrow> validCSRF h r \<and>
     (b = AtLogin \<and> amr = [AMRPassword]
        \<and> (\<exists>user. account w t (hq_Form r ''username'') = Some user \<and> u_ID user = u \<and> \<not> User_IsLocked (now e) user
             \<and> bcryptCompare e (u_PasswordHash user) (hq_Form r ''password''))
        \<and> (h_mfaService h \<noteq> None \<longrightarrow> \<not> mfa_on w t u)
      \<or> b = AtLoginMFA
        \<and> (\<exists>ks n m v. h_mfaService h = Some ks
             \<and> parseMFAPendingToken e (h_lib h) (h_JWTSecret h) (hq_Form r ''mfa_token'') t mfaPurposeLogin = Some u
             \<and> run_state (MFA_Verify e ks t u (hq_Form r ''code'')) (w\<lparr>stmts := n\<rparr>) = (Inr m, v) \<and> amr = AMRForSecondFactor m))"

lemma Authenticate_Inr:
  assumes "run_state (Authenticate e t email pw) w = (Inr user, w')"
  shows "account w t email = Some user" "\<not> User_IsLocked (now e) user" "bcryptCompare e (u_PasswordHash user) pw"
  using assms
  by (auto simp: Authenticate_def run_orReturn GetByEmail_run run_failWith run_bind run_succeed split: if_splits option.splits prod.splits)

interpretation um: world_preorder "framing user_mfa"
  by unfold_locales (simp add: framing_def)

lemma Authenticate_user_mfa: "run_state (Authenticate e t email pw) w = (x, w') \<Longrightarrow> user_mfa w' = user_mfa w"
proof -
  have "steps (framing user_mfa) (RecordLoginAttempt e t email ip ok)" for ip ok
    unfolding RecordLoginAttempt_def User_Update_def User_GetByEmail_def
    by (intro um.world_steps um.steps_sqlSave) (simp_all add: framing_def)
  then have "steps (framing user_mfa) (Authenticate e t email pw)"
    unfolding Authenticate_def User_GetByEmail_def by (intro um.world_steps)
  then show "run_state (Authenticate e t email pw) w = (x, w') \<Longrightarrow> user_mfa w' = user_mfa w"
    using frm.steps_run by (auto simp: framing_def)
qed

lemma IsEnabled_run:
  "run_state (IsEnabled e t u) w =
     (if fails e (stmts w) then Inl (Wrapped ''failed to get MFA settings'' DBError) else Inr (mfa_on w t u), w\<lparr>stmts := Suc (stmts w)\<rparr>)"
  by (auto simp: IsEnabled_def MFA_Get_def run_bind user_mfa.First_run run_succeed run_failWith mfa_on_def split: option.split)

lemma GetUser_run:
  "run_state (GetUserByID e t u) w =
     (if fails e (stmts w) then Inl (Wrapped ''failed to get user by ID'' DBError)
      else case find (\<lambda>x. u_TenantID x = t \<and> u_ID x = u \<and> user_live x) (users w) of None \<Rightarrow> Inl ErrUserNotFound | Some x \<Rightarrow> Inr x,
      w\<lparr>stmts := Suc (stmts w)\<rparr>)"
  by (simp add: GetUserByID_def User_GetByID_def users.First_run)

lemma completeMFA_Inr:
  assumes "run_state (completeMFA e h t r p a hidden restart) w = (Inr (u, amr), w')"
  shows "\<exists>ks n m. h_mfaService h = Some ks \<and> parseMFAPendingToken e (h_lib h) (h_JWTSecret h) (hq_Form r ''mfa_token'') t p = Some u
     \<and> run_state (MFA_Verify e ks t u (hq_Form r ''code'')) (w\<lparr>stmts := n\<rparr>) = (Inr m, w') \<and> amr = AMRForSecondFactor m"
  using assms unfolding completeMFA_def Let_def
  by (auto simp: run_bind run_return GetUser_run split: option.splits prod.splits sum.splits if_splits)

section \<open>The session of the request\<close>

definition cookie_session :: "env \<Rightarrow> http_req \<Rightarrow> world \<Rightarrow> uuid \<Rightarrow> Session \<Rightarrow> bool" where
  "cookie_session e r w t s \<longleftrightarrow> s \<in> set (sessions w) \<and> s_TenantID s = t \<and> now e < s_ExpiresAt s
     \<and> (\<exists>token. hq_Cookie r sessionCookieName = Some token \<and> s_TokenHash s = hashToken token)
     \<and> (\<exists>user \<in> set (users w). u_ID user = s_UserID s \<and> u_TenantID user = t \<and> user_live user \<and> \<not> User_IsSuspended user)"

lemma currentSession_Some:
  assumes "run_state (currentSession e t r) w = (Some s, w')"
  shows "cookie_session e r w t s" "\<exists>n. w' = w\<lparr>stmts := n\<rparr>"
proof -
  obtain token user where *: "hq_Cookie r sessionCookieName = Some token"
    "find (\<lambda>s. s_TenantID s = t \<and> s_TokenHash s = hashToken token) (sessions w) = Some s" "now e < s_ExpiresAt s"
    "find (\<lambda>u. u_TenantID u = t \<and> u_ID u = s_UserID s \<and> user_live u) (users w) = Some user" "\<not> User_IsSuspended user"
    "w' = w\<lparr>stmts := Suc (Suc (stmts w))\<rparr>"
    using assms
    by (auto simp: currentSession_def run_bind run_return GetSession_def run_orReturn run_failWith run_succeed Session_Get_run
        GetUserByID_def User_GetByID_def users.First_run Session_IsExpired_def
        split: option.splits if_splits prod.splits sum.splits)
  then show "cookie_session e r w t s" "\<exists>n. w' = w\<lparr>stmts := n\<rparr>"
    using find_SomeD [OF *(2)] find_SomeD [OF *(4)] by (auto simp: cookie_session_def)
qed

section \<open>Traceback\<close>

definition request_ok :: "env \<Rightarrow> world \<Rightarrow> uuid \<Rightarrow> authorizationRequest \<Rightarrow> bool" where
  "request_ok e w t ar \<longleftrightarrow> ar_client ar \<in> set (clients w) \<and> c_TenantID (ar_client ar) = t \<and> client_live (ar_client ar)
     \<and> aq_RedirectURI (ar_req ar) \<in> set (c_RedirectURIs (ar_client ar)) \<and> checkAuthorizationRequest (ar_client ar) (ar_req ar) = Inr ar"

lemma validate_ok:
  assumes "run_state (validateAuthorizationRequest e h t req) w = (Inr ar, w')"
  shows "request_ok e w t ar \<and> (\<exists>n. w' = w\<lparr>stmts := n\<rparr>)"
  using validate_Inr [OF assms] by (auto simp: request_ok_def check_Inr)

text \<open>Every run of an endpoint either makes no session and no code, or continues for a session of the browser, or signs a user in.\<close>

definition traced :: "env \<Rightarrow> OAuthHandler \<Rightarrow> endpoint \<Rightarrow> http_req \<Rightarrow> world \<Rightarrow> web_reply \<Rightarrow> world \<Rightarrow> bool" where
  "traced e h b r w rep w' \<longleftrightarrow> adds {} {} w w' \<or>
     (\<exists>t ar v s. GetTenantID (hq_gin r) = Some t \<and> request_ok e w t ar \<and> adds {} {} w v \<and> cookie_session e r w t s \<and> s \<in> set (sessions v)
        \<and> (run_state (continueAuthorization e h t ar s) v = (rep, w')
           \<or> set (ParseScope (ar_scope ar)) \<subseteq> consentedScopes t (s_UserID s) (c_ID (ar_client ar)) v
             \<and> run_state (issueAuthorizationCode e h t ar s) v = (rep, w')))
     \<or> (\<exists>t ar v u amr. GetTenantID (hq_gin r) = Some t \<and> request_ok e w t ar \<and> adds {} {} w v \<and> signed_in e h b r w t u amr
        \<and> run_state (signIn e h t r ar u amr) v = (rep, w'))"

lemma traced_quiet: "adds {} {} w w' \<Longrightarrow> traced e h b r w rep w'"
  by (simp add: traced_def)

lemma traced_session:
  assumes "GetTenantID (hq_gin r) = Some t" "request_ok e w t ar" "adds {} {} w v" "cookie_session e r w t s" "s \<in> set (sessions v)"
    and "run_state (continueAuthorization e h t ar s) v = (rep, w')
           \<or> set (ParseScope (ar_scope ar)) \<subseteq> consentedScopes t (s_UserID s) (c_ID (ar_client ar)) v
             \<and> run_state (issueAuthorizationCode e h t ar s) v = (rep, w')"
  shows "traced e h b r w rep w'"
  unfolding traced_def using assms by blast

lemma traced_login:
  assumes "GetTenantID (hq_gin r) = Some t" "request_ok e w t ar" "adds {} {} w v" "signed_in e h b r w t u amr"
    and "run_state (signIn e h t r ar u amr) v = (rep, w')"
  shows "traced e h b r w rep w'"
  unfolding traced_def using assms by blast

lemma cookie_session_stmts [simp]: "cookie_session e r (w\<lparr>stmts := n\<rparr>) t s = cookie_session e r w t s"
  by (simp add: cookie_session_def)

lemma adds_refl [simp]: "adds {} {} w w" "adds {} {} w (w\<lparr>stmts := n\<rparr>)"
  by (simp_all add: adds_def)

lemma adds_steps: "adds {} {} w v \<Longrightarrow> steps (adds {} {}) m \<Longrightarrow> run_state m v = (x, w') \<Longrightarrow> adds {} {} w w'"
  by (rule ad.R_trans [OF _ ad.steps_run])

lemma traced_Authorize:
  assumes "run_state (HandleAuthorize e h r) w = (rep, w')"
  shows "traced e h AtAuthorize r w rep w'"
  using assms unfolding HandleAuthorize_def
proof (cases rule: tenantRequired_cases)
  case early
  then show ?thesis by (simp add: traced_quiet)
next
  case (further t)
  from further(2) show ?thesis
  proof (cases rule: orReply_cases)
    case early
    then show ?thesis
      using traced_quiet adds_steps [OF adds_refl(1) adds_browser(3)] by blast
  next
    case inner: (further ar v)
    note ok = validate_ok [OF inner(1)]
    obtain s v2 where s: "run_state (currentSession e t r) v = (s, v2)"
      by fastforce
    show ?thesis
    proof (cases "\<exists>session. s = Some session \<and> acceptsSession e ar session")
      case True
      then obtain session where session: "s = Some session" "acceptsSession e ar session" by blast
      have "run_state (continueAuthorization e h t ar session) v2 = (rep, w')"
        using inner(2) s session by (simp add: run_bind)
      moreover have c: "cookie_session e r w t session" and "\<exists>n. v2 = w\<lparr>stmts := n\<rparr>"
        using currentSession_Some [OF s [unfolded session(1)]] ok by auto
      moreover from this have "adds {} {} w v2" "session \<in> set (sessions v2)"
        by (auto simp: cookie_session_def)
      ultimately show ?thesis
        using traced_session [OF further(1) _ _ c] ok by blast
    next
      case False
      let ?else = "if promptNone \<in> ar_prompt ar then failAuthorization e h ar ''login_required'' ''End-user authentication is required''
              else renderLoginPage e h t ar []"
      have run: "run_state ?else v2 = (rep, w')"
        using inner(2) s False by (auto simp: run_bind split: option.splits if_splits)
      have quiet: "steps (adds {} {}) ?else"
        by (intro ad.steps_if effect_intros)
      have "adds {} {} w v2"
        using ok adds_steps [OF _ adds_browser(1) s, of w] by auto
      then show ?thesis
        by (rule traced_quiet [OF adds_steps [OF _ quiet run]])
    qed
  qed
qed

lemma traced_early:
  assumes "run_state (validateAuthorizationRequest e h t req) w = (Inl rep, w')"
  shows "traced e h b r w rep w'"
  by (rule traced_quiet [OF adds_steps [OF adds_refl(1) adds_browser(3) assms]])

lemma traced_Login:
  assumes "run_state (HandleLogin e h r) w = (rep, w')"
  shows "traced e h AtLogin r w rep w'"
proof (cases "\<exists>t. GetTenantID (hq_gin r) = Some t \<and> validCSRF h r")
  case False
  then show ?thesis
    using assms by (auto simp: HandleLogin_def tenantRequired_def csrfRequired_def run_return traced_quiet split: option.splits if_splits)
next
  case True
  then obtain t where t: "GetTenantID (hq_gin r) = Some t" "validCSRF h r" by blast
  define k where "k = (\<lambda>ar (user :: User). do {
           required \<leftarrow> mfaRequired e h t (u_ID user);
           case required of
             Inl _ \<Rightarrow> failAuthorization e h ar ''server_error'' ''Internal server error''
           | Inr True \<Rightarrow> startMFA e h t (u_ID user) mfaPurposeLogin ''/oauth/login/mfa'' (authorizationFormData ar)
           | Inr False \<Rightarrow> signIn e h t r ar (u_ID user) [AMRPassword]
         })"
  have "run_state (orReply (validateAuthorizationRequest e h t (readAuthorizeRequest (hq_Form r))) (\<lambda>ar. do {
       a \<leftarrow> Authenticate e t (hq_Form r ''username'') (hq_Form r ''password'');
       case a of
         Inl _ \<Rightarrow> renderLoginPage e h t ar ''Invalid email or password''
       | Inr user \<Rightarrow> k ar user })) w = (rep, w')"
    using assms unfolding k_def HandleLogin_def tenantRequired_def csrfRequired_def by (simp only: t option.case simp_thms if_False)
  then show ?thesis
  proof (cases rule: orReply_cases)
    case early
    then show ?thesis by (rule traced_early)
  next
    case (further ar v)
    obtain a v2 where a: "run_state (Authenticate e t (hq_Form r ''username'') (hq_Form r ''password'')) v = (a, v2)"
      by fastforce
    note ok = validate_ok [OF further(1)]
    then have v2: "adds {} {} w v2"
      using adds_steps [OF _ adds_Authenticate a, of w] by auto
    show ?thesis
    proof (cases a)
      case (Inl er)
      then have "run_state (renderLoginPage e h t ar ''Invalid email or password'') v2 = (rep, w')"
        using further(2) a by (simp add: run_bind)
      then show ?thesis
        by (rule traced_quiet [OF adds_steps [OF v2 adds_pages2(1)]])
    next
      case (Inr user)
      obtain x v3 where x: "run_state (mfaRequired e h t (u_ID user)) v2 = (x, v3)"
        by fastforce
      have v3: "adds {} {} w v3"
        by (rule adds_steps [OF v2 adds_browser(5) x])
      have run: "run_state (k ar user) v2 = (rep, w')"
        using further(2) a Inr by (simp add: run_bind)
      show ?thesis
      proof (cases "x = Inr False")
        case True
        have "user_mfa v2 = user_mfa w"
          using Authenticate_user_mfa [OF a] ok by auto
        then have "h_mfaService h \<noteq> None \<longrightarrow> \<not> mfa_on w t (u_ID user)"
          using x True by (auto simp: mfaRequired_def IsEnabled_run mfa_on_def split: option.splits if_splits)
        then have "signed_in e h AtLogin r w t (u_ID user) [AMRPassword]"
          using Authenticate_Inr [OF a [unfolded Inr]] ok t by (auto simp: signed_in_def)
        moreover have "run_state (signIn e h t r ar (u_ID user) [AMRPassword]) v3 = (rep, w')"
          using run x True by (simp add: k_def run_bind)
        ultimately show ?thesis
          using traced_login [OF t(1) _ v3] ok by blast
      next
        case False
        let ?else = "case x of Inl _ \<Rightarrow> failAuthorization e h ar ''server_error'' ''Internal server error''
            | Inr _ \<Rightarrow> startMFA e h t (u_ID user) mfaPurposeLogin ''/oauth/login/mfa'' (authorizationFormData ar)"
        have else: "run_state ?else v3 = (rep, w')"
          using run x False by (auto simp: k_def run_bind split: sum.splits bool.splits)
        have quiet: "steps (adds {} {}) ?else"
          by (intro ad.steps_sum effect_intros)
        show ?thesis
          by (rule traced_quiet [OF adds_steps [OF v3 quiet else]])
      qed
    qed
  qed
qed

lemma traced_LoginMFA:
  assumes "run_state (HandleLoginMFA e h r) w = (rep, w')"
  shows "traced e h AtLoginMFA r w rep w'"
proof (cases "\<exists>t. GetTenantID (hq_gin r) = Some t \<and> validCSRF h r")
  case False
  then show ?thesis
    using assms by (auto simp: HandleLoginMFA_def tenantRequired_def csrfRequired_def run_return traced_quiet split: option.splits if_splits)
next
  case True
  then obtain t where t: "GetTenantID (hq_gin r) = Some t" "validCSRF h r" by blast
  have "run_state (orReply (validateAuthorizationRequest e h t (readAuthorizeRequest (hq_Form r))) (\<lambda>ar.
      orReply (completeMFA e h t r mfaPurposeLogin ''/oauth/login/mfa'' (authorizationFormData ar) (renderLoginPage e h t ar))
       (\<lambda>(userID, amr). signIn e h t r ar userID amr))) w = (rep, w')"
    using assms t by (simp add: HandleLoginMFA_def tenantRequired_def csrfRequired_def)
  then show ?thesis
  proof (cases rule: orReply_cases)
    case early
    then show ?thesis by (rule traced_early)
  next
    case (further ar v)
    from validate_ok [OF further(1)] obtain n where ok: "request_ok e w t ar" "v = w\<lparr>stmts := n\<rparr>" by blast
    then have v: "adds {} {} w v" by simp
    have quiet: "steps (adds {} {}) (completeMFA e h t r mfaPurposeLogin ''/oauth/login/mfa'' (authorizationFormData ar) (renderLoginPage e h t ar))"
      by (intro adds_completeMFA effect_intros)
    from further(2) show ?thesis
    proof (cases rule: orReply_cases)
      case early
      then show ?thesis
        by (rule traced_quiet [OF adds_steps [OF v quiet]])
    next
      case inner: (further ua v2)
      obtain u amr where ua: "ua = (u, amr)" by fastforce
      have "signed_in e h AtLoginMFA r w t u amr"
        using completeMFA_Inr [OF inner(1) [unfolded ua]] ok(2) t(2) by (auto simp: signed_in_def)
      then show ?thesis
        using traced_login [OF t(1) ok(1) adds_steps [OF v quiet inner(1)]] inner(2) ua by simp
    qed
  qed
qed

lemma granted_consented:
  assumes "run_state (GrantConsent e t u c scope) w = (Inr x, w')"
  shows "set (ParseScope scope) \<subseteq> consentedScopes t u c w'"
  using GrantConsent_Inr [OF assms, of "e\<lparr>fails := \<lambda>_. False\<rparr>"] by auto

interpretation fs: world_preorder "framing sessions"
  by unfold_locales (simp add: framing_def)

lemma Grant_sessions: "run_state (GrantConsent e t u c scope) w = (x, w') \<Longrightarrow> sessions w' = sessions w"
proof -
  have "steps (framing sessions) (Consent_Upsert e co)" for co
    unfolding Consent_Upsert_def Let_def by (intro fs.world_steps fs.steps_runSQL) (auto simp: framing_def split: if_splits)
  then have "steps (framing sessions) (GrantConsent e t u c scope)"
    unfolding GrantConsent_def Let_def Consent_Get_def by (intro fs.world_steps)
  then show "run_state (GrantConsent e t u c scope) w = (x, w') \<Longrightarrow> sessions w' = sessions w"
    using frm.steps_run by (auto simp: framing_def)
qed

lemma traced_Consent:
  assumes "run_state (HandleConsent e h r) w = (rep, w')"
  shows "traced e h AtConsent r w rep w'"
proof (cases "\<exists>t. GetTenantID (hq_gin r) = Some t \<and> validCSRF h r")
  case False
  then show ?thesis
    using assms by (auto simp: HandleConsent_def tenantRequired_def csrfRequired_def run_return traced_quiet split: option.splits if_splits)
next
  case True
  then obtain t where t: "GetTenantID (hq_gin r) = Some t" "validCSRF h r" by blast
  define k where "k = (\<lambda>ar s. if hq_Form r ''decision'' \<noteq> ''allow'' then failAuthorization e h ar ''access_denied'' ''The user denied the request''
           else do {
             g \<leftarrow> GrantConsent e t (s_UserID s) (c_ID (ar_client ar)) (ar_scope ar);
             case g of
               Inl _ \<Rightarrow> failAuthorization e h ar ''server_error'' ''Internal server error''
             | Inr _ \<Rightarrow> issueAuthorizationCode e h t ar s
           })"
  have "run_state (orReply (validateAuthorizationRequest e h t (readAuthorizeRequest (hq_Form r))) (\<lambda>ar. do {
       s \<leftarrow> currentSession e t r;
       case s of
         None \<Rightarrow> renderLoginPage e h t ar (''Your session has expired '' @ em_dash @ '' please sign in again'')
       | Some session \<Rightarrow> k ar session })) w = (rep, w')"
    using assms unfolding k_def HandleConsent_def tenantRequired_def csrfRequired_def by (simp only: t option.case simp_thms if_False)
  then show ?thesis
  proof (cases rule: orReply_cases)
    case early
    then show ?thesis by (rule traced_early)
  next
    case (further ar v)
    from validate_ok [OF further(1)] obtain n where ok: "request_ok e w t ar" "v = w\<lparr>stmts := n\<rparr>" by blast
    obtain x v2 where x: "run_state (currentSession e t r) v = (x, v2)"
      by fastforce
    have v2: "adds {} {} w v2"
      using adds_steps [OF _ adds_browser(1) x, of w] ok(2) by simp
    show ?thesis
    proof (cases x)
      case None
      then have "run_state (renderLoginPage e h t ar (''Your session has expired '' @ em_dash @ '' please sign in again'')) v2 = (rep, w')"
        using further(2) x by (simp add: run_bind)
      then show ?thesis
        by (rule traced_quiet [OF adds_steps [OF v2 adds_pages2(1)]])
    next
      case (Some s)
      then have run: "run_state (k ar s) v2 = (rep, w')"
        using further(2) x by (simp add: run_bind)
      have c: "cookie_session e r w t s" and "\<exists>n. v2 = w\<lparr>stmts := n\<rparr>"
        using currentSession_Some [OF x [unfolded Some]] ok(2) by auto
      then have s: "s \<in> set (sessions v2)"
        by (auto simp: cookie_session_def)
      obtain g v3 where g: "run_state (GrantConsent e t (s_UserID s) (c_ID (ar_client ar)) (ar_scope ar)) v2 = (g, v3)"
        by fastforce
      have v3: "adds {} {} w v3"
        by (rule adds_steps [OF v2 adds_Grant g])
      show ?thesis
      proof (cases "hq_Form r ''decision'' = ''allow'' \<and> (\<exists>y. g = Inr y)")
        case True
        then obtain y where y: "g = Inr y" by blast
        have "run_state (issueAuthorizationCode e h t ar s) v3 = (rep, w')"
          using run g True y by (simp add: k_def run_bind)
        moreover have "set (ParseScope (ar_scope ar)) \<subseteq> consentedScopes t (s_UserID s) (c_ID (ar_client ar)) v3"
          by (rule granted_consented [OF g [unfolded y]])
        moreover have "s \<in> set (sessions v3)"
          using Grant_sessions [OF g] s by simp
        ultimately show ?thesis
          using traced_session [OF t(1) ok(1) v3 c] by blast
      next
        case False
        then consider "run_state (failAuthorization e h ar ''access_denied'' ''The user denied the request'') v2 = (rep, w')"
          | "run_state (failAuthorization e h ar ''server_error'' ''Internal server error'') v3 = (rep, w')"
          using run g by (auto simp: k_def run_bind split: if_splits sum.splits)
        then show ?thesis
          by cases (rule traced_quiet [OF adds_steps [OF v2 adds_pages(2)]], assumption,
            rule traced_quiet [OF adds_steps [OF v3 adds_pages(2)]], assumption)
      qed
    qed
  qed
qed

lemma adds_orReply [effect_intros]:
  "steps (adds S C) m \<Longrightarrow> (\<And>a. steps (adds S C) (k a)) \<Longrightarrow> steps (adds S C) (orReply m k)"
  unfolding orReply_def by (intro ad.world_steps)

lemma traced_Logout:
  assumes "run_state (HandleLogout e h r) w = (rep, w')"
  shows "traced e h AtLogout r w rep w'"
proof -
  have "steps (adds {} {}) (HandleLogout e h r)"
    unfolding HandleLogout_def tenantRequired_def Let_def logoutHint_def logoutClient_def logoutRedirect_def endBrowserSession_def
    by (intro ad.world_steps effect_intros)
  then show ?thesis
    by (rule traced_quiet [OF adds_steps [OF adds_refl(1) _ assms]])
qed

lemma browser_traced: "run_state (browser_handle e h b r) w = (rep, w') \<Longrightarrow> traced e h b r w rep w'"
  by (cases b) (simp_all add: traced_Authorize traced_Login traced_LoginMFA traced_Consent traced_Logout)

section \<open>New sessions\<close>

definition logins :: "env \<Rightarrow> uuid \<Rightarrow> uuid \<Rightarrow> string list \<Rightarrow> Session set" where
  "logins e t u amr = {s. s_TenantID s = t \<and> s_UserID s = u \<and> s_AMR s = amr \<and> s_AuthTime s = now e}"

definition codes_for :: "uuid \<Rightarrow> authorizationRequest \<Rightarrow> Session \<Rightarrow> AuthorizationCode set" where
  "codes_for t ar s = {ac. ac_TenantID ac = t \<and> ac_ClientID ac = c_ID (ar_client ar) \<and> ac_UserID ac = s_UserID s
     \<and> ac_RedirectURI ac = aq_RedirectURI (ar_req ar) \<and> ac_Scope ac = ar_scope ar
     \<and> ac_CodeChallenge ac = aq_CodeChallenge (ar_req ar) \<and> ac_CodeChallengeMethod ac = aq_CodeChallengeMethod (ar_req ar)
     \<and> ac_AuthTime ac = Some (s_AuthTime s) \<and> ac_AMR ac = s_AMR s}"

lemma adds_CreateSession: "steps (adds (logins e t u amr) C) (CreateSession e t u amr ip ua)"
  unfolding CreateSession_def Session_Create_def Let_def
  by (intro ad.world_steps ad.steps_sqlInsert) (auto simp: adds_def logins_def)

lemma adds_issue: "steps (adds S (codes_for t ar s)) (issueAuthorizationCode e h t ar s)"
proof -
  have "steps (adds S (codes_for t ar s)) (GenerateAuthorizationCode e t (c_ID (ar_client ar)) (s_UserID s) (aq_RedirectURI (ar_req ar)) (ar_scope ar)
       (aq_CodeChallenge (ar_req ar)) (aq_CodeChallengeMethod (ar_req ar)) nonce (s_AuthTime s) (s_AMR s))" for nonce
    unfolding GenerateAuthorizationCode_def AuthCode_Create_def Let_def
    by (intro ad.world_steps ad.steps_sqlInsert) (auto simp: adds_def codes_for_def)
  then show ?thesis
    unfolding issueAuthorizationCode_def by (intro ad.world_steps effect_intros)
qed

lemma adds_continue: "steps (adds S (codes_for t ar s)) (continueAuthorization e h t ar s)"
  unfolding continueAuthorization_def by (intro ad.world_steps effect_intros adds_issue)

lemma adds_UNIV: "steps (adds S C) m \<Longrightarrow> steps (adds S UNIV) m"
  by (auto simp: steps_def adds_def)

lemma adds_signIn: "steps (adds (logins e t u amr) UNIV) (signIn e h t r ar u amr)"
  unfolding signIn_def
  by (intro ad.world_steps effect_intros adds_CreateSession adds_UNIV [OF adds_continue])

text \<open>C34: A session is started only for a user who proved who they are in this very request, protected against request forgery: with
  the password of an account that is not locked and has no second factor, or, with a second factor, by the token of a passed
  password check and a code that the second factor accepts. The session records when and how. No other request to the browser
  endpoints, whatever it carries, starts one.\<close>

theorem sessions_need_every_factor:
  assumes "run_state (browser_handle e h b r) w = (rep, w')" "s \<in> set (sessions w')" "s \<notin> set (sessions w)"
  shows "\<exists>t. GetTenantID (hq_gin r) = Some t \<and> s_TenantID s = t \<and> s_AuthTime s = now e \<and> signed_in e h b r w t (s_UserID s) (s_AMR s)"
  using browser_traced [OF assms(1)] unfolding traced_def
proof (elim disjE exE conjE)
  assume "adds {} {} w w'"
  then show ?thesis using assms(2,3) by (auto simp: adds_def)
next
  fix t ar v s2
  assume v: "adds {} {} w v"
  assume "run_state (continueAuthorization e h t ar s2) v = (rep, w')"
  then have "adds {} (codes_for t ar s2) v w'"
    using ad.steps_run [OF adds_continue] by blast
  then show ?thesis using v assms(2,3) by (auto simp: adds_def)
next
  fix t ar v s2
  assume v: "adds {} {} w v"
  assume "run_state (issueAuthorizationCode e h t ar s2) v = (rep, w')"
  then have "adds {} (codes_for t ar s2) v w'"
    using ad.steps_run [OF adds_issue] by blast
  then show ?thesis using v assms(2,3) by (auto simp: adds_def)
next
  fix t ar v u amr
  assume t: "GetTenantID (hq_gin r) = Some t" "signed_in e h b r w t u amr" and v: "adds {} {} w v"
  assume "run_state (signIn e h t r ar u amr) v = (rep, w')"
  then have "adds (logins e t u amr) UNIV v w'"
    using ad.steps_run [OF adds_signIn] by blast
  then have "s \<in> logins e t u amr"
    using v assms(2,3) by (auto simp: adds_def)
  then show ?thesis
    using t by (auto simp: logins_def)
qed

end
