(* ===== verification/CodeProperties.thy ===== *)
theory CodeProperties
  imports LoginProperties
begin

text \<open>Where authorization codes come from, and what they may grant.\<close>

section \<open>New codes\<close>

definition code_ok :: "env \<Rightarrow> http_req \<Rightarrow> world \<Rightarrow> world \<Rightarrow> AuthorizationCode \<Rightarrow> bool" where
  "code_ok e r w w' ac \<longleftrightarrow> (\<exists>t c. GetTenantID (hq_gin r) = Some t \<and> c \<in> set (clients w) \<and> c_TenantID c = t \<and> client_live c
     \<and> Client_HasGrantType c ''authorization_code'' \<and> ac_TenantID ac = t \<and> ac_ClientID ac = c_ID c
     \<and> ac_RedirectURI ac \<in> set (c_RedirectURIs c) \<and> ScopeIsSubset (ac_Scope ac) (strings_Join (c_Scopes c) '' '')
     \<and> (c_IsPublic c \<longrightarrow> ac_CodeChallenge ac \<noteq> [] \<and> ac_CodeChallengeMethod ac = ''S256'')
     \<and> set (ParseScope (ac_Scope ac)) \<subseteq> consentedScopes t (ac_UserID ac) (c_ID c) w')"

definition only_codes :: "world \<Rightarrow> world \<Rightarrow> bool" where
  "only_codes w w' \<longleftrightarrow> sessions w' = sessions w \<and> consents w' = consents w"

interpretation oc: world_preorder only_codes
  by unfold_locales (auto simp: only_codes_def)

lemma oc_issue: "steps only_codes (issueAuthorizationCode e h t ar s)"
proof -
  have "steps only_codes (GenerateAuthorizationCode e t c u uri sc ch m nonce at amr)" for c u uri sc ch m nonce at amr
    unfolding GenerateAuthorizationCode_def AuthCode_Create_def Let_def
    by (intro oc.world_steps oc.steps_sqlInsert) (simp add: only_codes_def)
  then show ?thesis
    unfolding issueAuthorizationCode_def failAuthorization_def by (intro oc.world_steps)
qed

lemma code_ok_issued:
  assumes "run_state (issueAuthorizationCode e h t ar s) v = (rep, w')" "ac \<in> set (auth_codes w')" "ac \<notin> set (auth_codes v)"
    and "GetTenantID (hq_gin r) = Some t" "request_ok e w t ar"
    and "set (ParseScope (ar_scope ar)) \<subseteq> consentedScopes t (s_UserID s) (c_ID (ar_client ar)) v"
  shows "code_ok e r w w' ac \<and> ac \<in> codes_for t ar s \<and> sessions w' = sessions v"
proof -
  have ac: "ac \<in> codes_for t ar s"
    using ad.steps_run [OF adds_issue assms(1), of "{}"] assms(2,3) by (auto simp: adds_def)
  have w': "sessions w' = sessions v" "consents w' = consents v"
    using oc.steps_run [OF oc_issue assms(1)] by (simp_all add: only_codes_def)
  then have "consentedScopes t (s_UserID s) (c_ID (ar_client ar)) w' = consentedScopes t (s_UserID s) (c_ID (ar_client ar)) v"
    by (simp add: consentedScopes_def)
  moreover note check = check_Inr [of "ar_client ar" "ar_req ar" ar]
  ultimately show ?thesis
    using ac assms(4-6) w'(1) check ValidateScopeForClient_Inr(1)
    unfolding code_ok_def request_ok_def codes_for_def
    by (intro conjI exI [of _ t] exI [of _ "ar_client ar"]) auto
qed

lemma code_ok_continued:
  assumes "run_state (continueAuthorization e h t ar s) v = (rep, w')" "ac \<in> set (auth_codes w')" "ac \<notin> set (auth_codes v)"
    and "GetTenantID (hq_gin r) = Some t" "request_ok e w t ar"
  shows "code_ok e r w w' ac \<and> ac \<in> codes_for t ar s \<and> sessions w' = sessions v"
proof -
  have "run_state (HasConsent e t (s_UserID s) (c_ID (ar_client ar)) (ar_scope ar)) v
      = (if fails e (stmts v) then Inl (Wrapped ''failed to get consent'' DBError)
         else Inr (case find (\<lambda>x. co_TenantID x = t \<and> co_UserID x = s_UserID s \<and> co_ClientID x = c_ID (ar_client ar)) (consents v) of
           None \<Rightarrow> False | Some x \<Rightarrow> ScopeIsSubset (ar_scope ar) (co_Scope x)), v\<lparr>stmts := Suc (stmts v)\<rparr>)"
    by (auto simp: HasConsent_def run_bind Consent_Get_run run_succeed run_failWith split: option.split)
  moreover have "ac \<notin> set (auth_codes w')" if "steps (adds {} {}) m" "run_state m (v\<lparr>stmts := n\<rparr>) = (rep, w')" for m :: "(world, web_reply) state" and n
    using adds_steps [OF adds_refl(2) that] assms(3) by (auto simp: adds_def)
  note quiet = this [OF adds_pages(2)] this [OF adds_pages2(2)]
  ultimately have "run_state (issueAuthorizationCode e h t ar s) (v\<lparr>stmts := Suc (stmts v)\<rparr>) = (rep, w')"
    and "set (ParseScope (ar_scope ar)) \<subseteq> consentedScopes t (s_UserID s) (c_ID (ar_client ar)) (v\<lparr>stmts := Suc (stmts v)\<rparr>)"
    using assms(1,2) unfolding continueAuthorization_def
    by (auto simp: run_bind consentedScopes_def ScopeIsSubset_iff split: if_splits option.splits dest: quiet)
  then show ?thesis
    using code_ok_issued [OF _ assms(2) _ assms(4,5)] assms(3) by auto
qed

lemma code_ok_signed_in:
  assumes "run_state (signIn e h t r ar u amr) v = (rep, w')" "ac \<in> set (auth_codes w')" "ac \<notin> set (auth_codes v)"
    and "GetTenantID (hq_gin r) = Some t" "request_ok e w t ar"
  shows "\<exists>s \<in> set (sessions w'). code_ok e r w w' ac \<and> ac \<in> codes_for t ar s \<and> s \<in> logins e t u amr"
proof -
  obtain x v1 where x: "run_state (deleteBrowserSession e t r) v = (x, v1)"
    by (metis surj_pair)
  obtain y v2 where y: "run_state (CreateSession e t u amr (g_ClientIP (hq_gin r)) (g_Header (hq_gin r) ''User-Agent'')) v1 = (y, v2)"
    by fastforce
  have new: "ac \<notin> set (auth_codes v2)"
    using ad.steps_run [OF adds_browser(2) x, of "{}" "{}"] ad.steps_run [OF adds_CreateSession y, of "{}"] assms(3)
    by (auto simp: adds_def)
  show ?thesis
  proof (cases y)
    case (Inl er)
    then show ?thesis
      using assms(1,2) new x y by (simp add: signIn_def run_bind failAuthorization_def run_return)
  next
    case (Inr ts)
    obtain tok s where ts: "ts = (tok, s)" by fastforce
    obtain rep2 where "run_state (continueAuthorization e h t ar s) v2 = (rep2, w')"
      using assms(1) x y Inr ts by (auto simp: signIn_def run_bind run_return split: prod.splits)
    from code_ok_continued [OF this assms(2) new assms(4,5)]
    have "code_ok e r w w' ac \<and> ac \<in> codes_for t ar s" "sessions w' = sessions v2" by simp_all
    then show ?thesis
      using CreateSession_Inr [OF y [unfolded Inr ts]] by (auto simp: logins_def)
  qed
qed

text \<open>C35: An authorization code is made only for a client and a user who both qualify, from a request of that tenant: a live
  client of the tenant with the authorization code grant, one of its registered redirect URIs and only scopes registered for it,
  PKCE when the client is public; and the user has consented to every scope of the code. The code is made from a stored session
  with its user, time and methods of authentication: the unexpired session of the request's own cookie, whose user is live and not
  suspended, or one that a login in this request started.\<close>

theorem codes_need_session_and_consent:
  assumes "run_state (browser_handle e h b r) w = (rep, w')" "ac \<in> set (auth_codes w')" "ac \<notin> set (auth_codes w)"
  shows "code_ok e r w w' ac
    \<and> (\<exists>s. s_TenantID s = ac_TenantID ac \<and> s_UserID s = ac_UserID ac \<and> Some (s_AuthTime s) = ac_AuthTime ac \<and> s_AMR s = ac_AMR ac
         \<and> (cookie_session e r w (ac_TenantID ac) s
            \<or> s \<in> set (sessions w') \<and> s_AuthTime s = now e \<and> signed_in e h b r w (ac_TenantID ac) (ac_UserID ac) (ac_AMR ac)))"
  using browser_traced [OF assms(1)] unfolding traced_def
proof (elim disjE exE conjE)
  assume "adds {} {} w w'"
  then show ?thesis using assms(2,3) by (auto simp: adds_def)
next
  fix t ar v s
  assume t: "GetTenantID (hq_gin r) = Some t" "request_ok e w t ar" and v: "adds {} {} w v" and s: "cookie_session e r w t s"
    and run: "run_state (continueAuthorization e h t ar s) v = (rep, w')"
  have "ac \<notin> set (auth_codes v)"
    using v assms(3) by (auto simp: adds_def)
  from code_ok_continued [OF run assms(2) this t] show ?thesis
    using s by (intro conjI exI [of _ s]) (auto simp: codes_for_def cookie_session_def)
next
  fix t ar v s
  assume t: "GetTenantID (hq_gin r) = Some t" "request_ok e w t ar" and v: "adds {} {} w v" and s: "cookie_session e r w t s"
    and c: "set (ParseScope (ar_scope ar)) \<subseteq> consentedScopes t (s_UserID s) (c_ID (ar_client ar)) v"
    and run: "run_state (issueAuthorizationCode e h t ar s) v = (rep, w')"
  have "ac \<notin> set (auth_codes v)"
    using v assms(3) by (auto simp: adds_def)
  from code_ok_issued [OF run assms(2) this t c] show ?thesis
    using s by (intro conjI exI [of _ s]) (auto simp: codes_for_def cookie_session_def)
next
  fix t ar v u amr
  assume t: "GetTenantID (hq_gin r) = Some t" "request_ok e w t ar" "signed_in e h b r w t u amr" and v: "adds {} {} w v"
    and run: "run_state (signIn e h t r ar u amr) v = (rep, w')"
  have "ac \<notin> set (auth_codes v)"
    using v assms(3) by (auto simp: adds_def)
  from code_ok_signed_in [OF run assms(2) this t(1,2)] obtain s where
    "s \<in> set (sessions w')" "code_ok e r w w' ac" "ac \<in> codes_for t ar s" "s \<in> logins e t u amr" by blast
  then show ?thesis
    using t(3) by (intro conjI exI [of _ s]) (auto simp: codes_for_def logins_def)
qed

end
