(* ===== verification/BrowserSamples.thy ===== *)
theory BrowserSamples
  imports CodeProperties
begin

text \<open>One browser at the sample deployment: a refused silent login, a login with a password, and a code for a session with consent.\<close>

definition browser_request :: "string \<Rightarrow> form \<Rightarrow> form \<Rightarrow> http_req" where
  "browser_request method fs cookies =
     \<lparr>hq_gin = \<lparr>g_Method = method, g_Path = [], g_URI = [], g_Host = [], g_Header = (\<lambda>_. []), g_Param = (\<lambda>_. []),
        g_PostForm = (\<lambda>k. case map_of fs k of Some v \<Rightarrow> v | None \<Rightarrow> []), g_ClientIP = ''10.0.0.1'', g_Body = [],
        g_Keys = [TenantIDKey \<mapsto> UUIDValue 1], g_Out = Map.empty\<rparr>,
      hq_Query = (\<lambda>k. case map_of fs k of Some v \<Rightarrow> v | None \<Rightarrow> []), hq_Cookie = map_of cookies\<rparr>"

definition app_fields :: form where
  "app_fields = [(''response_type'', ''code''), (''client_id'', ''app''), (''redirect_uri'', ''https://app/cb''), (''scope'', ''read'')]"

definition sample_handler :: OAuthHandler where
  "sample_handler = \<lparr>h_JWTSecret = ''key'', h_mfaService = None,
     h_lib = \<lparr>wl_Marshal = pd_UserID, wl_Unmarshal = (\<lambda>_. None), wl_URLWith = (\<lambda>u ps. Some u)\<rparr>\<rparr>"

definition csrf_token :: string where
  "csrf_token = ''v'' @ ''.'' @ signCSRFValue ''key'' ''v''"

definition sample_session :: Session where
  "sample_session = \<lparr>s_ID = 60, s_TenantID = 1, s_UserID = 7, s_TokenHash = hashToken ''abc'', s_AuthTime = 800, s_AMR = [''pwd''],
     s_IPAddress = [], s_UserAgent = [], s_ExpiresAt = 5000, s_CreatedAt = 0\<rparr>"

definition browser_world :: world where
  "browser_world = empty_world\<lparr>users := [sample_user\<lparr>u_PasswordHash := ''bsecret''\<rparr>], clients := [sample_client], sessions := [sample_session],
     consents := [\<lparr>co_ID = 70, co_TenantID = 1, co_UserID = 7, co_ClientID = 5, co_Scope = ''read'', co_CreatedAt = 0, co_UpdatedAt = 0\<rparr>]\<rparr>"

lemma request_tenant: "GetTenantID (hq_gin (browser_request m fs cs)) = Some 1"
  by (simp add: browser_request_def GetTenantID_def)

lemma request_field: "hq_Form (browser_request m fs cs) k = (case map_of fs k of Some v \<Rightarrow> v | None \<Rightarrow> [])"
    "hq_Query (browser_request m fs cs) k = (case map_of fs k of Some v \<Rightarrow> v | None \<Rightarrow> [])"
    "hq_Cookie (browser_request m fs cs) = map_of cs" "hq_Post (browser_request m fs cs) \<longleftrightarrow> m = ''POST''"
  by (simp_all add: browser_request_def hq_Form_def hq_Post_def)

lemma csrf_valid: "validCSRF sample_handler (browser_request m ((''csrf_token'', csrf_token) # fs) [(csrfCookieName, csrf_token)])"
  by (simp add: validCSRF_def request_field validateCSRFToken_def csrf_token_def strings_Cut_def sample_handler_def)

lemma env_facts: "now sample_env = 1000" "fails sample_env k = False" "randBytes sample_env n k = Some rfc7636_octets"
    "bcryptCompare sample_env h p \<longleftrightarrow> h = ''b'' @ p" "newUUID sample_env n = of_nat (n + 100)" "config sample_env = sample_config"
  by (simp_all add: sample_env_def)

lemma sample_validates: "ValidateScopeForClient sample_client ''read'' = Inr ''read''"
  unfolding ValidateScopeForClient_def sample_client_def by code_simp

lemma no_fields: "strings_Fields [] = []"
  by code_simp

lemma one_field: "strings_Fields ''none'' = [''none'']"
  by code_simp

lemma sample_client_found:
  "run_state (GetClientByClientID sample_env 1 ''app'') browser_world = (Inr sample_client, browser_world\<lparr>stmts := 1\<rparr>)"
  by (simp add: GetClient_run env_facts browser_world_def sample_client_def client_live_def empty_world_def)

definition app_form :: "form \<Rightarrow> form" where
  "app_form extra = app_fields @ extra"

lemma app_form_validates:
  assumes "map_of extra ''prompt'' \<in> {None, Some ''none''}" "\<forall>k \<in> {''code_challenge'', ''code_challenge_method'', ''nonce'', ''max_age'', ''request'', ''request_uri''}. map_of extra k = None"
  shows "\<exists>ar. ar_client ar = sample_client \<and> ar_scope ar = ''read'' \<and> aq_RedirectURI (ar_req ar) = ''https://app/cb''
     \<and> ar_prompt ar = (if map_of extra ''prompt'' = None then {} else {''none''}) \<and> ar_maxAge ar = -1
     \<and> run_state (validateAuthorizationRequest sample_env h 1 (readAuthorizeRequest (\<lambda>k. case map_of (app_form extra) k of Some v \<Rightarrow> v | None \<Rightarrow> []))) browser_world
          = (Inr ar, browser_world\<lparr>stmts := 1\<rparr>)"
proof -
  have live: "ValidateRedirectURI sample_client ''https://app/cb'' = Inr ()" "Client_HasGrantType sample_client ''authorization_code''"
    "\<not> c_IsPublic sample_client"
    by (simp_all add: ValidateRedirectURI_def Client_HasGrantType_def sample_client_def)
  show ?thesis
    using assms
    by (auto simp: validateAuthorizationRequest_def readAuthorizeRequest_def app_form_def app_fields_def run_orReturn sample_client_found
        run_return live checkAuthorizationRequest_def AuthorizeRequest_Validate_def maxNonceLength_def sample_validates no_fields one_field
        promptNone_def maxAge_of_def)
qed

lemma handler_facts: "wl_URLWith (h_lib sample_handler) u ps = Some u" "h_mfaService sample_handler = None" "h_JWTSecret sample_handler = ''key''"
  by (simp_all add: sample_handler_def)

lemma no_open_redirect_witness:
  "\<exists>u cookies w'. run_state (browser_handle sample_env sample_handler AtAuthorize
       (browser_request ''GET'' (app_form [(''prompt'', ''none'')]) [])) browser_world = ((RedirectPage u, cookies), w')
     \<and> (\<exists>c uri ps. c \<in> set (clients browser_world) \<and> uri \<in> set (c_RedirectURIs c) \<and> wl_URLWith (h_lib sample_handler) uri ps = Some u)"
proof -
  let ?fs = "app_form [(''prompt'', ''none'')]"
  let ?r = "browser_request ''GET'' ?fs []"
  obtain ar where ar: "ar_prompt ar = {''none''}" "aq_RedirectURI (ar_req ar) = ''https://app/cb''"
    "run_state (validateAuthorizationRequest sample_env sample_handler 1 (readAuthorizeRequest
        (\<lambda>k. case map_of ?fs k of Some v \<Rightarrow> v | None \<Rightarrow> []))) browser_world = (Inr ar, browser_world\<lparr>stmts := 1\<rparr>)"
    using app_form_validates [of "[(''prompt'', ''none'')]" sample_handler] by auto
  have get: "hq_Query ?r = (\<lambda>k. case map_of ?fs k of Some v \<Rightarrow> v | None \<Rightarrow> [])" "\<not> hq_Post ?r"
    by (simp_all add: request_field fun_eq_iff)
  have run: "run_state (browser_handle sample_env sample_handler AtAuthorize ?r) browser_world
      = ((RedirectPage ''https://app/cb'', []), browser_world\<lparr>stmts := 1\<rparr>)"
    unfolding browser_handle.simps HandleAuthorize_def tenantRequired_def request_tenant orReply_def get(2) if_False
      get(1) option.case run_bind ar(3) prod.case sum.case
    by (simp add: ar currentSession_def request_field run_bind
        sessionCookieName_def run_return promptNone_def failAuthorization_def renderError_def handler_facts)
  show ?thesis
    using no_open_redirect [OF run] run by fastforce
qed

lemma consented:
  assumes "consents v = consents browser_world"
  shows "run_state (HasConsent sample_env 1 7 5 ''read'') v = (Inr True, v\<lparr>stmts := Suc (stmts v)\<rparr>)"
  using assms
  by (simp add: HasConsent_def run_bind Consent_Get_run run_succeed env_facts browser_world_def ScopeIsSubset_iff)

lemma code_issued:
  assumes "consents v = consents browser_world" "auth_codes v = []" "ar_client ar = sample_client" "ar_scope ar = ''read''" "ar_prompt ar = {}"
    "aq_RedirectURI (ar_req ar) = ''https://app/cb''" "s_UserID s = 7"
  shows "\<exists>rep w' ac. run_state (continueAuthorization sample_env sample_handler 1 ar s) v = (rep, w') \<and> auth_codes w' = [ac] \<and> sessions w' = sessions v"
  using assms consented [OF assms(1)]
  by (simp add: continueAuthorization_def run_bind promptConsent_def issueAuthorizationCode_def GenerateAuthorizationCode_def run_orReturn
      run_randomToken run_uuid_New run_succeed run_return AuthCode_Create_def auth_codes.Insert_run env_facts sample_client_def Let_def
      split: prod.split)

lemma orReply_run: "run_state m w = (Inr a, v) \<Longrightarrow> run_state (orReply m k) w = run_state (k a) v"
  by (simp add: orReply_def run_bind)

lemma csrf_cookie: "sessionCookieName \<noteq> csrfCookieName"
  by (simp add: csrfCookieName_def sessionCookieName_def)

lemma signed_in_run:
  assumes "consents v = consents browser_world" "auth_codes v = []" "ar_client ar = sample_client" "ar_scope ar = ''read''" "ar_prompt ar = {}"
    "aq_RedirectURI (ar_req ar) = ''https://app/cb''" "sessions v = [sample_session]" "draws v = 0"
  shows "\<exists>rep w' s. run_state (signIn sample_env sample_handler 1 (browser_request m fs [(csrfCookieName, tok)]) ar 7 [AMRPassword]) v = (rep, w')
     \<and> sessions w' = [sample_session, s] \<and> s_AuthTime s = 1000"
proof -
  let ?r = "browser_request m fs [(csrfCookieName, tok)]"
  obtain ts v2 where ts: "run_state (CreateSession sample_env 1 7 [AMRPassword] (g_ClientIP (hq_gin ?r)) (g_Header (hq_gin ?r) ''User-Agent'')) v = (Inr ts, v2)"
    "consents v2 = consents v" "auth_codes v2 = auth_codes v"
    using assms(7,8)
    by (auto simp: sessions_clash_def sample_session_def CreateSession_def sessionTokenBytes_def Session_Create_def sessions.Insert_run run_orReturn run_bind run_randomToken run_uuid_New
        run_succeed env_facts Let_def rfc7636_encode)
  obtain tok s where [simp]: "ts = (tok, s)" by fastforce
  note c = CreateSession_Inr [OF ts(1) [simplified]]
  obtain rep w' ac where "run_state (continueAuthorization sample_env sample_handler 1 ar s) v2 = (rep, w')" "sessions w' = sessions v2"
    using code_issued [of v2 ar s] assms(1-6) ts(2,3) c by auto
  then show ?thesis
    using c assms(7) ts(1) env_facts(1)
    by (auto simp: signIn_def run_bind run_return deleteBrowserSession_def request_field csrf_cookie split: prod.split)
qed

lemma login_run:
  "\<exists>rep w' s. run_state (browser_handle sample_env sample_handler AtLogin (browser_request ''POST''
       ((''csrf_token'', csrf_token) # app_form [(''username'', ''a@x.io''), (''password'', ''secret'')]) [(csrfCookieName, csrf_token)])) browser_world = (rep, w')
     \<and> sessions w' = [sample_session, s] \<and> s_AuthTime s = 1000"
proof -
  let ?fs = "app_form [(''username'', ''a@x.io''), (''password'', ''secret'')]"
  let ?r = "browser_request ''POST'' ((''csrf_token'', csrf_token) # ?fs) [(csrfCookieName, csrf_token)]"
  have get: "readAuthorizeRequest (hq_Form ?r) = readAuthorizeRequest (\<lambda>k. case map_of ?fs k of Some v \<Rightarrow> v | None \<Rightarrow> [])"
    by (simp add: readAuthorizeRequest_def request_field)
  have field: "hq_Form ?r ''username'' = ''a@x.io''" "hq_Form ?r ''password'' = ''secret''"
    by (simp_all add: request_field app_form_def app_fields_def)
  obtain ar where ar: "ar_client ar = sample_client" "ar_scope ar = ''read''" "ar_prompt ar = {}" "aq_RedirectURI (ar_req ar) = ''https://app/cb''"
    "run_state (validateAuthorizationRequest sample_env sample_handler 1 (readAuthorizeRequest
        (\<lambda>k. case map_of ?fs k of Some v \<Rightarrow> v | None \<Rightarrow> []))) browser_world = (Inr ar, browser_world\<lparr>stmts := 1\<rparr>)"
    using app_form_validates [of "[(''username'', ''a@x.io''), (''password'', ''secret'')]" sample_handler] by auto
  obtain user v where user: "run_state (Authenticate sample_env 1 ''a@x.io'' ''secret'') (browser_world\<lparr>stmts := 1\<rparr>) = (Inr user, v)"
    "u_ID user = 7" "consents v = consents browser_world" "auth_codes v = []" "sessions v = [sample_session]" "draws v = 0"
    by (simp add: Authenticate_def RecordLoginAttempt_def run_orReturn run_bind run_succeed GetByEmail_run account_def user_live_def
      afterLogin_def browser_world_def sample_user_def User_IsLocked_def env_facts empty_world_def User_Update_def users.Save_run)
  show ?thesis
    using signed_in_run [OF user(3,4) ar(1-4) user(5,6), of "''POST''" "(''csrf_token'', csrf_token) # ?fs" csrf_token]
    by (simp add: HandleLogin_def tenantRequired_def request_tenant csrfRequired_def csrf_valid get field orReply_run [OF ar(5)] run_bind
        user(1) [unfolded One_nat_def] user(2) mfaRequired_def handler_facts run_succeed del: not_None_eq)
qed

lemma sessions_need_every_factor_witness:
  "\<exists>rep w' s. run_state (browser_handle sample_env sample_handler AtLogin (browser_request ''POST''
       ((''csrf_token'', csrf_token) # app_form [(''username'', ''a@x.io''), (''password'', ''secret'')]) [(csrfCookieName, csrf_token)])) browser_world = (rep, w')
     \<and> s \<in> set (sessions w') \<and> s_UserID s = 7 \<and> s_AMR s = [AMRPassword]"
proof -
  let ?r = "browser_request ''POST'' ((''csrf_token'', csrf_token) # app_form [(''username'', ''a@x.io''), (''password'', ''secret'')]) [(csrfCookieName, csrf_token)]"
  obtain rep w' s where run: "run_state (browser_handle sample_env sample_handler AtLogin ?r) browser_world = (rep, w')"
    "sessions w' = [sample_session, s]" "s_AuthTime s = 1000"
    using login_run by blast
  have "s \<notin> set (sessions browser_world)" "s \<in> set (sessions w')"
    using run(2,3) by (auto simp: browser_world_def sample_session_def)
  from sessions_need_every_factor [OF run(1) this(2,1)]
  have "signed_in sample_env sample_handler AtLogin ?r browser_world 1 (s_UserID s) (s_AMR s)"
    by (auto simp: request_tenant)
  then show ?thesis
    using run by (auto simp: signed_in_def account_def browser_world_def request_field app_form_def app_fields_def sample_user_def split: if_splits)
qed

lemma codes_need_session_and_consent_witness:
  "\<exists>rep w' ac. run_state (browser_handle sample_env sample_handler AtAuthorize
       (browser_request ''GET'' (app_form []) [(sessionCookieName, ''abc'')])) browser_world = (rep, w')
     \<and> ac \<in> set (auth_codes w') \<and> ac_UserID ac = 7 \<and> ac_AuthTime ac = Some 800"
proof -
  let ?r = "browser_request ''GET'' (app_form []) [(sessionCookieName, ''abc'')]"
  obtain ar where ar: "ar_client ar = sample_client" "ar_scope ar = ''read''" "ar_prompt ar = {}" "aq_RedirectURI (ar_req ar) = ''https://app/cb''"
    "ar_maxAge ar = -1"
    "run_state (validateAuthorizationRequest sample_env sample_handler 1 (readAuthorizeRequest
        (\<lambda>k. case map_of (app_form []) k of Some v \<Rightarrow> v | None \<Rightarrow> []))) browser_world = (Inr ar, browser_world\<lparr>stmts := 1\<rparr>)"
    using app_form_validates [of "[]" sample_handler] by auto
  have get: "hq_Query ?r = (\<lambda>k. case map_of (app_form []) k of Some v \<Rightarrow> v | None \<Rightarrow> [])" "\<not> hq_Post ?r"
    by (simp_all add: request_field fun_eq_iff)
  obtain v where v: "run_state (currentSession sample_env 1 ?r) (browser_world\<lparr>stmts := 1\<rparr>) = (Some sample_session, v)"
    "consents v = consents browser_world" "auth_codes v = []" "sessions v = [sample_session]"
    by (simp add: currentSession_def request_field GetSession_def run_orReturn run_bind run_return run_succeed Session_Get_run GetUser_run
        Session_IsExpired_def User_IsSuspended_def user_live_def env_facts browser_world_def sample_session_def sample_user_def empty_world_def)
  have accepts: "acceptsSession sample_env ar sample_session"
    by (simp add: acceptsSession_def ar)
  obtain rep w' ac where run: "run_state (continueAuthorization sample_env sample_handler 1 ar sample_session) v = (rep, w')"
    "auth_codes w' = [ac]" "sessions w' = sessions v"
    using code_issued [of v ar sample_session] v ar by (auto simp: sample_session_def)
  have "run_state (browser_handle sample_env sample_handler AtAuthorize ?r) browser_world = (rep, w')"
    by (simp add: HandleAuthorize_def tenantRequired_def request_tenant get orReply_run [OF ar(6)] run_bind v(1) [unfolded One_nat_def]
        accepts run(1) del: not_None_eq)
  moreover from codes_need_session_and_consent [OF this, of ac] have "ac_UserID ac = 7 \<and> ac_AuthTime ac = Some 800"
    using run(2) by (auto simp: browser_world_def empty_world_def cookie_session_def sample_session_def signed_in_def)
  ultimately show ?thesis
    using run(2) by auto
qed

end
