(* ===== verification/TokenProperties.thy ===== *)
theory TokenProperties
  imports TokenEndpoint ClientProperties DeviceProperties RefreshProperties BrowserSamples
begin

text \<open>What the token endpoint answers: tokens only to an authenticated client against evidence for its grant, and errors that say
  why and, before a grant is looked at, change nothing.\<close>

section \<open>The client of a request\<close>

text \<open>A live client of the tenant under the presented ID: a public one without a secret, or one whose secret bcrypt accepts; a
  secret that the cache vouches for may instead collide under the cache's HMAC with one that bcrypt accepted.\<close>

definition authenticated_as :: "env \<Rightarrow> uuid \<Rightarrow> http_req \<Rightarrow> world \<Rightarrow> clientSecretCache option \<Rightarrow> Client \<Rightarrow> bool" where
  "authenticated_as e t r w cache c \<longleftrightarrow>
     (\<exists>secret. clientCredentialsFromRequest r = (c_ClientID c, secret, True) \<and> c \<in> set (clients w) \<and> c_TenantID c = t \<and> client_live c
        \<and> (if c_IsPublic c then secret = []
           else secret \<noteq> [] \<and> (\<exists>s. bcryptCompare e (c_ClientSecret c) s \<and> (s = secret \<or> (\<exists>k. cache = Some k \<and> mac k s = mac k secret)))))"

lemma authenticated_stmts [simp]: "authenticated_as e t r (w\<lparr>stmts := n\<rparr>) = authenticated_as e t r w"
  by (simp add: authenticated_as_def fun_eq_iff)

lemma ClientGet_run:
  "run_state (Client_GetByClientID e t ci) w =
     (if fails e (stmts w) then Inl (Wrapped ''failed to get client by client_id'' DBError)
      else case find (\<lambda>c. c_TenantID c = t \<and> c_ClientID c = ci \<and> client_live c) (clients w) of None \<Rightarrow> Inl ErrClientNotFound | Some c \<Rightarrow> Inr c,
      w\<lparr>stmts := Suc (stmts w)\<rparr>)"
  by (simp add: Client_GetByClientID_def clients.First_run)

lemma authenticateClient_cases:
  assumes "run_state (authenticateClient e t r) (w, cache) = (x, (w', cache'))" "vouched (bcryptCompare e) cache"
  obtains (refused) d where "x = Inl (OAuthError 401 ''invalid_client'' d, basicChallenge)" "w' = w\<lparr>stmts := stmts w'\<rparr>"
  | (client) c where "x = Inr c" "authenticated_as e t r w cache c" "w' = w\<lparr>stmts := Suc (stmts w)\<rparr>"
proof -
  obtain i s ok where cred: "clientCredentialsFromRequest r = (i, s, ok)"
    by (metis prod_cases3)
  show ?thesis
  proof (cases ok)
    case False
    then show ?thesis
      using refused assms(1) cred by (auto simp: authenticateClient_def run_failWith)
  next
    case True
    show ?thesis
    proof (cases x)
      case (Inl p)
      then show ?thesis
        using refused assms(1) cred True
        by (auto simp: authenticateClient_def ValidateClient_def run_orReturn run_onWorld run_onCache run_bind run_failWith run_succeed
            ClientGet_run split: if_splits option.splits)
    next
      case (Inr c)
      then have c: "find (\<lambda>c. c_TenantID c = t \<and> c_ClientID c = i \<and> client_live c) (clients w) = Some c" "w' = w\<lparr>stmts := Suc (stmts w)\<rparr>"
        and sec: "if c_IsPublic c then s = [] else s \<noteq> [] \<and> (verified e (c_ID c) (c_ClientSecret c) s cache \<or> bcryptCompare e (c_ClientSecret c) s)"
        using assms(1) cred True
        by (auto simp: authenticateClient_def ValidateClient_def run_orReturn run_onWorld run_onCache run_bind run_failWith run_succeed
            ClientGet_run split: if_splits option.splits)
      have "\<exists>s'. bcryptCompare e (c_ClientSecret c) s' \<and> (s' = s \<or> (\<exists>k. cache = Some k \<and> mac k s' = mac k s))" if "\<not> c_IsPublic c"
        using sec that vouched_hit [OF assms(2)] by (cases "bcryptCompare e (c_ClientSecret c) s") (auto, metis)
      then have "authenticated_as e t r w cache c"
        unfolding authenticated_as_def using sec find_SomeD [OF c(1)] cred True by (intro exI [of _ s]) auto
      then show ?thesis
        using client [OF Inr _ c(2)] by simp
    qed
  qed
qed

section \<open>Evidence\<close>

text \<open>What the tables say for the tokens of a reply, by the grant that was asked for.\<close>

definition evidence :: "env \<Rightarrow> uuid \<Rightarrow> Client \<Rightarrow> http_req \<Rightarrow> world \<Rightarrow> TokenResponse \<Rightarrow> bool" where
  "evidence e t c r w resp \<longleftrightarrow>
     (let grant = hq_Form r ''grant_type'' in
      grant = ''authorization_code''
        \<and> (\<exists>ac \<in> set (auth_codes w). ac_TenantID ac = t \<and> ac_Code ac = hq_Form r ''code'' \<and> ac_UsedAt ac = None \<and> now e < ac_ExpiresAt ac
             \<and> uuidString e (ac_ClientID ac) = uuidString e (c_ID c) \<and> ac_RedirectURI ac = hq_Form r ''redirect_uri''
             \<and> (ac_CodeChallenge ac \<noteq> [] \<longrightarrow> b64url (sha256 (hq_Form r ''code_verifier'')) = ac_CodeChallenge ac)
             \<and> tr_Scope resp = ac_Scope ac)
      \<or> grant = ''refresh_token''
        \<and> (\<exists>rt \<in> set (refresh_tokens w). live_refresh t (hashToken (hq_Form r ''refresh_token'')) rt \<and> now e < rt_ExpiresAt rt
             \<and> uuidString e (rt_ClientID rt) = uuidString e (c_ID c) \<and> ScopeIsSubset (tr_Scope resp) (rt_Scope rt))
      \<or> grant = ''client_credentials'' \<and> \<not> c_IsPublic c \<and> set (ParseScope (tr_Scope resp)) \<subseteq> registeredScopes c
      \<or> grant = GrantTypeDeviceCode
        \<and> (\<exists>dc \<in> set (device_codes w). dc_TenantID dc = t \<and> dc_DeviceCode dc = hashToken (hq_Form r ''device_code'') \<and> dc_ClientID dc = c_ID c
             \<and> dc_Status dc = DeviceCodeApproved \<and> now e < dc_ExpiresAt dc \<and> tr_Scope resp = dc_Scope dc))"

definition exchange_evidence :: "uuid \<Rightarrow> Client \<Rightarrow> http_req \<Rightarrow> world \<Rightarrow> TokenExchangeResponse \<Rightarrow> bool" where
  "exchange_evidence t c r w resp \<longleftrightarrow> hq_Form r ''grant_type'' = GrantTypeTokenExchange \<and> \<not> c_IsPublic c
     \<and> (\<exists>a \<in> set (access_tokens w). at_TenantID a = t \<and> at_Token a = hashToken (hq_Form r ''subject_token''))
     \<and> set (ParseScope (te_Scope resp)) \<subseteq> registeredScopes c"

lemma evidence_stmts [simp]: "evidence e t c r (w\<lparr>stmts := n\<rparr>) = evidence e t c r w"
    "exchange_evidence t c r (w\<lparr>stmts := n\<rparr>) = exchange_evidence t c r w"
  by (simp_all add: evidence_def exchange_evidence_def fun_eq_iff)

text \<open>The errors of the endpoint with their status; those found before the grant is looked at, which leave the tables alone.\<close>

definition token_error :: "int \<Rightarrow> string \<Rightarrow> bool" where
  "token_error status code \<longleftrightarrow> (status, code) \<in>
     {(401, ''invalid_client''), (500, ''server_error'')} \<union>
     {400} \<times> {''invalid_request'', ''invalid_grant'', ''invalid_scope'', ''unauthorized_client'', ''unsupported_grant_type'',
       ''authorization_pending'', ''slow_down'', ''expired_token'', ''access_denied''}"

definition early_error :: "string \<Rightarrow> bool" where
  "early_error code \<longleftrightarrow> code \<in> {''invalid_client'', ''invalid_request'', ''unauthorized_client'', ''unsupported_grant_type''}"

definition answers :: "env \<Rightarrow> uuid \<Rightarrow> http_req \<Rightarrow> world \<Rightarrow> clientSecretCache option \<Rightarrow> body \<Rightarrow> world \<Rightarrow> bool" where
  "answers e t r w cache b w' \<longleftrightarrow>
     (case b of
        TokenBody resp \<Rightarrow> (\<exists>c. authenticated_as e t r w cache c \<and> Client_HasGrantType c (hq_Form r ''grant_type'') \<and> evidence e t c r w resp)
      | ExchangeBody resp \<Rightarrow> (\<exists>c. authenticated_as e t r w cache c \<and> Client_HasGrantType c (hq_Form r ''grant_type'') \<and> exchange_evidence t c r w resp)
      | OAuthError status code _ \<Rightarrow> token_error status code \<and> (early_error code \<longrightarrow> w' = w\<lparr>stmts := stmts w'\<rparr>)
      | _ \<Rightarrow> False)"

lemma answers_stmts [simp]: "answers e t r (w\<lparr>stmts := n\<rparr>) cache = answers e t r w cache"
  by (auto simp: answers_def fun_eq_iff split: body.split)

section \<open>The grants\<close>

lemma api_cases:
  assumes "run_state (replied (orReturn m f k)) s = (p, s')"
  obtains (early) x where "run_state m s = (Inl x, s')" "p = f x"
  | (further) a u where "run_state m s = (Inr a, u)" "run_state (replied (k a)) u = (p, s')"
  using assms by (auto simp: replied_def run_bind run_return run_orReturn split: prod.splits sum.splits)

lemma replied_run: "run_state (replied (failWith p)) s = (p, s)" "run_state (replied (succeed p)) s = (p, s)"
  by (simp_all add: replied_def run_bind run_return run_failWith run_succeed)

text \<open>What every grant does first.\<close>

lemma client_first:
  assumes "run_state (replied (orReturn (authenticateClient e t r) id k)) (w, cache) = ((b, hs), (w', cache'))" "vouched (bcryptCompare e) cache"
    and "\<And>c cache1. authenticated_as e t r w cache c \<Longrightarrow>
      run_state (replied (k c)) (w\<lparr>stmts := Suc (stmts w)\<rparr>, cache1) = ((b, hs), (w', cache')) \<Longrightarrow> answers e t r w cache b w'"
  shows "answers e t r w cache b w'"
  using assms(1)
proof (cases rule: api_cases)
  case (early x)
  then show ?thesis
    by (cases rule: authenticateClient_cases [OF early(1) assms(2)])
      (auto simp: answers_def token_error_def early_error_def)
next
  case (further c u)
  obtain w1 cache1 where u: "u = (w1, cache1)" by fastforce
  show ?thesis
    using authenticateClient_cases [OF further(1) [unfolded u] assms(2)] assms(3) further(2) u by (metis Inr_inject sum.distinct(1))
qed

lemma require_answers:
  assumes "run_state (replied (orReturn (requireGrant c g name) id k)) (w\<lparr>stmts := n\<rparr>, cache1) = ((b, hs), (w', cache'))"
    and "Client_HasGrantType c g \<Longrightarrow> run_state (replied (k ())) (w\<lparr>stmts := n\<rparr>, cache1) = ((b, hs), (w', cache')) \<Longrightarrow> answers e t r w cache b w'"
  shows "answers e t r w cache b w'"
  using assms
  by (auto simp: requireGrant_def replied_def run_orReturn run_bind run_return run_failWith run_succeed oauthError_def
      answers_def token_error_def split: if_splits)

lemma confidential_answers:
  assumes "run_state (replied (orReturn (requireConfidential c d) id k)) (w\<lparr>stmts := n\<rparr>, cache1) = ((b, hs), (w', cache'))"
    and "\<not> c_IsPublic c \<Longrightarrow> run_state (replied (k ())) (w\<lparr>stmts := n\<rparr>, cache1) = ((b, hs), (w', cache')) \<Longrightarrow> answers e t r w cache b w'"
  shows "answers e t r w cache b w'"
  using assms
  by (auto simp: requireConfidential_def replied_def run_orReturn run_bind run_return run_failWith run_succeed oauthError_def
      answers_def token_error_def split: if_splits)

text \<open>The service behind a grant, and the reply it is turned into.\<close>

definition late_error :: "api_reply \<Rightarrow> bool" where
  "late_error p \<longleftrightarrow> (\<exists>st code d. p = oauthError st code d \<and> token_error st code \<and> \<not> early_error code)"

lemma late_error_if: "late_error p \<Longrightarrow> late_error q \<Longrightarrow> late_error (if b then p else q)"
  by simp

lemma late_errors [simp]: "late_error (oauthError 400 ''invalid_grant'' d)" "late_error (oauthError 400 ''invalid_scope'' d)"
    "late_error (oauthError 500 ''server_error'' d)" "late_error (oauthError 400 ''authorization_pending'' d)"
    "late_error (oauthError 400 ''slow_down'' d)" "late_error (oauthError 400 ''expired_token'' d)" "late_error (oauthError 400 ''access_denied'' d)"
  by (simp_all add: late_error_def oauthError_def token_error_def early_error_def)

lemma service_answers:
  assumes "run_state (replied (orReturn (onWorld m) f (\<lambda>x. succeed (g x, [])))) (v, cache1) = ((b, hs), (w', cache'))"
    and "\<And>er. late_error (f er)" "\<And>x. run_state m v = (Inr x, w') \<Longrightarrow> answers e t r w cache (g x) w'"
  shows "answers e t r w cache b w'"
proof -
  obtain y v2 where m: "run_state m v = (y, v2)"
    by fastforce
  show ?thesis
  proof (cases y)
    case (Inl er)
    then show ?thesis
      using assms(1) assms(2) [of er] m
      by (auto simp: replied_def run_bind run_return run_orReturn run_onWorld late_error_def oauthError_def answers_def)
  next
    case (Inr x)
    then show ?thesis
      using assms(1,3) m by (auto simp: replied_def run_bind run_return run_orReturn run_onWorld run_succeed)
  qed
qed

lemma tokens_answer:
  "authenticated_as e t r w cache c \<Longrightarrow> Client_HasGrantType c (hq_Form r ''grant_type'') \<Longrightarrow> evidence e t c r w x \<Longrightarrow> answers e t r w cache (TokenBody x) w'"
  "authenticated_as e t r w cache c \<Longrightarrow> Client_HasGrantType c (hq_Form r ''grant_type'') \<Longrightarrow> exchange_evidence t c r w y \<Longrightarrow> answers e t r w cache (ExchangeBody y) w'"
  by (auto simp: answers_def)

lemma code_evidence:
  assumes "run_state (ExchangeAuthorizationCode e t (hq_Form r ''code'') (uuidString e (c_ID c)) [] (hq_Form r ''redirect_uri'')
      (hq_Form r ''code_verifier'')) (w\<lparr>stmts := n\<rparr>) = (Inr x, w')" "hq_Form r ''grant_type'' = ''authorization_code''"
  shows "evidence e t c r w x"
proof -
  from Exchange_Inr [OF assms(1)] obtain ac where "ac \<in> set (auth_codes w)" "ac_TenantID ac = t" "ac_Code ac = hq_Form r ''code''"
    "ac_UsedAt ac = None" "now e < ac_ExpiresAt ac" "uuidString e (ac_ClientID ac) = uuidString e (c_ID c)"
    "ac_RedirectURI ac = hq_Form r ''redirect_uri''" "tr_Scope x = ac_Scope ac"
    "ac_CodeChallenge ac \<noteq> [] \<longrightarrow> b64url (sha256 (hq_Form r ''code_verifier'')) = ac_CodeChallenge ac"
    by (auto simp: issued_def)
  then show ?thesis
    unfolding evidence_def Let_def by (intro disjI1 conjI [OF assms(2)] bexI [of _ ac] conjI) simp_all
qed

lemma refresh_evidence:
  assumes "run_state (RefreshTokens e t (hq_Form r ''refresh_token'') (uuidString e (c_ID c)) (hq_Form r ''scope'')) (w\<lparr>stmts := n\<rparr>)
      = (Inr x, w')" "hq_Form r ''grant_type'' = ''refresh_token''"
  shows "evidence e t c r w x"
proof -
  from Refresh_Inr [OF assms(1)] obtain rt where "rt \<in> set (refresh_tokens w)" "live_refresh t (hashToken (hq_Form r ''refresh_token'')) rt"
    "now e < rt_ExpiresAt rt" "uuidString e (rt_ClientID rt) = uuidString e (c_ID c)" "ScopeIsSubset (tr_Scope x) (rt_Scope rt)"
    by auto
  then show ?thesis
    unfolding evidence_def Let_def by (intro disjI2 [OF disjI1] conjI [OF assms(2)] bexI [of _ rt] conjI) simp_all
qed

lemma credentials_evidence:
  assumes "run_state (GenerateClientCredentialsTokens e t c s) v = (Inr x, w')" "ValidateScopeForClient c req = Inr s"
    "hq_Form r ''grant_type'' = ''client_credentials''" "\<not> c_IsPublic c"
  shows "evidence e t c r w x"
proof -
  have "tr_Scope x = s"
    using assms(1)
    by (auto simp: GenerateClientCredentialsTokens_def orReturn_Inr_iff run_bind run_succeed run_emit split: prod.splits)
  then have "set (ParseScope (tr_Scope x)) \<subseteq> registeredScopes c"
    using validate_scope_spec [where c = c and r = req] assms(2) by (auto simp: registeredScopes_def)
  then show ?thesis
    unfolding evidence_def Let_def using assms(3,4) by simp
qed

lemma device_evidence:
  assumes "run_state (ExchangeDeviceCode e t c (hq_Form r ''device_code'')) (w\<lparr>stmts := n\<rparr>) = (Inr x, w')"
    "hq_Form r ''grant_type'' = GrantTypeDeviceCode"
  shows "evidence e t c r w x"
proof -
  from ExchangeDevice_Inr [OF assms(1)] obtain dc where "dc \<in> set (device_codes w)" "dc_TenantID dc = t"
    "dc_DeviceCode dc = hashToken (hq_Form r ''device_code'')" "dc_ClientID dc = c_ID c" "dc_Status dc = DeviceCodeApproved"
    "now e < dc_ExpiresAt dc" "tr_Scope x = dc_Scope dc"
    by (auto simp: issued_def)
  then show ?thesis
    unfolding evidence_def Let_def by (intro disjI2 conjI [OF assms(2)] bexI [of _ dc] conjI) simp_all
qed

lemma exchange_token_evidence:
  assumes "run_state (ExchangeToken e t c (hq_Form r ''subject_token'') ty sc) (w\<lparr>stmts := n\<rparr>) = (Inr x, w')"
    "hq_Form r ''grant_type'' = GrantTypeTokenExchange" "\<not> c_IsPublic c"
  shows "exchange_evidence t c r w x"
  using ExchangeToken_Inr [OF assms(1)] assms(2,3) unfolding exchange_evidence_def by auto

lemma code_answers:
  assumes "run_state (replied (handleAuthorizationCodeGrant e t r)) (w, cache) = ((b, hs), (w', cache'))"
    "vouched (bcryptCompare e) cache" and grant: "hq_Form r ''grant_type'' = ''authorization_code''"
  shows "answers e t r w cache b w'"
  using assms(1) unfolding handleAuthorizationCodeGrant_def
  by (elim client_first [OF _ assms(2)] require_answers service_answers)
    (simp, rule tokens_answer(1), assumption, simp add: grant, rule code_evidence [OF _ grant])

lemma refresh_answers:
  assumes "run_state (replied (handleRefreshTokenGrant e t r)) (w, cache) = ((b, hs), (w', cache'))"
    "vouched (bcryptCompare e) cache" and grant: "hq_Form r ''grant_type'' = ''refresh_token''"
  shows "answers e t r w cache b w'"
  using assms(1) unfolding handleRefreshTokenGrant_def
  by (elim client_first [OF _ assms(2)] require_answers service_answers)
    (simp, rule tokens_answer(1), assumption, simp add: grant, rule refresh_evidence [OF _ grant])

lemma scope_answers:
  assumes "run_state (replied (orReturn (grantedScope c sc) id k)) (w\<lparr>stmts := n\<rparr>, cache1) = ((b, hs), (w', cache'))"
    and "\<And>s. ValidateScopeForClient c sc = Inr s \<Longrightarrow> run_state (replied (k s)) (w\<lparr>stmts := n\<rparr>, cache1) = ((b, hs), (w', cache'))
      \<Longrightarrow> answers e t r w cache b w'"
  shows "answers e t r w cache b w'"
  using assms
  by (auto simp: grantedScope_def replied_def run_orReturn run_bind run_return run_succeed oauthError_def
      answers_def token_error_def early_error_def split: sum.splits)

lemma credentials_answers:
  assumes "run_state (replied (handleClientCredentialsGrant e t r)) (w, cache) = ((b, hs), (w', cache'))"
    "vouched (bcryptCompare e) cache" and grant: "hq_Form r ''grant_type'' = ''client_credentials''"
  shows "answers e t r w cache b w'"
  using assms(1) unfolding handleClientCredentialsGrant_def
  by (elim client_first [OF _ assms(2)] confidential_answers require_answers scope_answers service_answers)
    (simp, rule tokens_answer(1), assumption, simp add: grant, rule credentials_evidence [OF _ _ grant])

lemma device_answers:
  assumes "run_state (replied (handleDeviceCodeGrant e t r)) (w, cache) = ((b, hs), (w', cache'))"
    "vouched (bcryptCompare e) cache" "hq_Form r ''grant_type'' = GrantTypeDeviceCode"
  shows "answers e t r w cache b w'"
proof (cases "hq_Form r ''device_code'' = []")
  case True
  then show ?thesis
    using assms(1) by (auto simp: handleDeviceCodeGrant_def replied_run oauthError_def answers_def token_error_def)
next
  case False
  then have "run_state (replied (orReturn (authenticateClient e t r) id (\<lambda>client.
        orReturn (requireGrant client GrantTypeDeviceCode ''device_code'') id (\<lambda>_.
        orReturn (onWorld (ExchangeDeviceCode e t client (hq_Form r ''device_code'')))
          (\<lambda>er. if er = ErrAuthorizationPending then oauthError 400 ''authorization_pending'' []
                 else if er = ErrSlowDown then oauthError 400 ''slow_down'' []
                 else if er = ErrExpiredDeviceCode then oauthError 400 ''expired_token'' []
                 else if er = ErrDeviceAccessDenied then oauthError 400 ''access_denied'' []
                 else oauthError 400 ''invalid_grant'' ''Device code is invalid'') (\<lambda>tokens.
        succeed (TokenBody tokens, [])))))) (w, cache) = ((b, hs), (w', cache'))"
    using assms(1) by (simp add: handleDeviceCodeGrant_def)
  then show ?thesis
    by (elim client_first [OF _ assms(2)] require_answers service_answers)
      (simp, rule tokens_answer(1), assumption, simp add: assms(3), rule device_evidence [OF _ assms(3)])
qed

lemma exchange_answers:
  assumes "run_state (replied (handleTokenExchangeGrant e t r)) (w, cache) = ((b, hs), (w', cache'))"
    "vouched (bcryptCompare e) cache" "hq_Form r ''grant_type'' = GrantTypeTokenExchange"
  shows "answers e t r w cache b w'"
proof -
  have service: "answers e t r w cache b w'"
    if "authenticated_as e t r w cache c" "\<not> c_IsPublic c" "Client_HasGrantType c GrantTypeTokenExchange"
      and run: "run_state (replied (let subjectToken = hq_Form r ''subject_token''; subjectTokenType = hq_Form r ''subject_token_type'';
         requestedTokenType = hq_Form r ''requested_token_type'' in
     if subjectToken = [] \<or> subjectTokenType = []
     then failWith (oauthError 400 ''invalid_request'' ''subject_token and subject_token_type are required'')
     else if requestedTokenType \<noteq> [] \<and> requestedTokenType \<noteq> TokenTypeAccessToken
     then failWith (oauthError 400 ''invalid_request'' ''Only access tokens can be issued by this server'')
     else
       orReturn (onWorld (ExchangeToken e t c subjectToken subjectTokenType (hq_Form r ''scope'')))
         (\<lambda>er. if er = ErrInvalidScope
                then oauthError 400 ''invalid_scope'' ''Requested scope exceeds the subject token or client registration''
                else oauthError 400 ''invalid_grant'' ''Subject token is invalid or expired'') (\<lambda>tokens.
       succeed (ExchangeBody tokens, [])))) (w\<lparr>stmts := n\<rparr>, cache1) = ((b, hs), (w', cache'))" for c n cache1
  proof (cases "hq_Form r ''subject_token'' = [] \<or> hq_Form r ''subject_token_type'' = []
      \<or> hq_Form r ''requested_token_type'' \<noteq> [] \<and> hq_Form r ''requested_token_type'' \<noteq> TokenTypeAccessToken")
    case True
    then show ?thesis
      using run by (auto simp: Let_def replied_run oauthError_def answers_def token_error_def split: if_splits)
  next
    case False
    then have grant: "\<not> (hq_Form r ''subject_token'' = [] \<or> hq_Form r ''subject_token_type'' = [])"
      "\<not> (hq_Form r ''requested_token_type'' \<noteq> [] \<and> hq_Form r ''requested_token_type'' \<noteq> TokenTypeAccessToken)"
      by blast+
    then have "run_state (replied (orReturn (onWorld (ExchangeToken e t c (hq_Form r ''subject_token'') (hq_Form r ''subject_token_type'') (hq_Form r ''scope'')))
         (\<lambda>er. if er = ErrInvalidScope
                then oauthError 400 ''invalid_scope'' ''Requested scope exceeds the subject token or client registration''
                else oauthError 400 ''invalid_grant'' ''Subject token is invalid or expired'') (\<lambda>tokens.
       succeed (ExchangeBody tokens, [])))) (w\<lparr>stmts := n\<rparr>, cache1) = ((b, hs), (w', cache'))"
      using run unfolding Let_def by (simp only: grant if_False)
    then show ?thesis
      by (elim service_answers)
        (simp, rule tokens_answer(2) [OF that(1)], simp add: that(3) assms(3), rule exchange_token_evidence [OF _ assms(3) that(2)])
  qed
  from assms(1) show ?thesis
    unfolding handleTokenExchangeGrant_def
    by (elim client_first [OF _ assms(2)] confidential_answers require_answers) (rule service)
qed

section \<open>The endpoint\<close>

text \<open>C36: The token endpoint gives tokens only to a client that authenticated as a live client of the tenant, in a grant it
  registered, against evidence in the tables: an unused unexpired code or a live refresh token of that very client, a device code
  of it that a user approved, a stored subject token, or, for its own account, a confidential client; scopes stay within what was
  granted or registered. Every other answer is an OAuth error under its own status, and an error found before the grant is looked
  at leaves the database as it was.\<close>

theorem token_endpoint_answers:
  assumes "run_state (HandleToken e r) (w, cache) = ((b, headers), (w', cache'))" "vouched (bcryptCompare e) cache"
  shows "(case b of
      TokenBody resp \<Rightarrow> \<exists>t c. GetTenantID (hq_gin r) = Some t \<and> authenticated_as e t r w cache c
        \<and> Client_HasGrantType c (hq_Form r ''grant_type'') \<and> evidence e t c r w resp
    | ExchangeBody resp \<Rightarrow> \<exists>t c. GetTenantID (hq_gin r) = Some t \<and> authenticated_as e t r w cache c
        \<and> Client_HasGrantType c (hq_Form r ''grant_type'') \<and> exchange_evidence t c r w resp
    | OAuthError status code _ \<Rightarrow> token_error status code \<and> (early_error code \<longrightarrow> w' = w\<lparr>stmts := stmts w'\<rparr>)
    | _ \<Rightarrow> False)"
proof (cases "GetTenantID (hq_gin r)")
  case None
  then show ?thesis
    using assms(1) by (auto simp: HandleToken_def replied_run oauthError_def token_error_def)
next
  case (Some t)
  have "answers e t r w cache b w'"
  proof (cases "hq_Form r ''grant_type'' \<in> {''authorization_code'', ''refresh_token'', ''client_credentials'', GrantTypeDeviceCode, GrantTypeTokenExchange}")
    case False
    then show ?thesis
      using assms(1) Some by (auto simp: HandleToken_def Let_def replied_run oauthError_def answers_def token_error_def)
  next
    case True
    have distinct: "GrantTypeDeviceCode \<noteq> ''authorization_code''" "GrantTypeDeviceCode \<noteq> ''refresh_token''" "GrantTypeDeviceCode \<noteq> ''client_credentials''"
      "GrantTypeTokenExchange \<noteq> ''authorization_code''" "GrantTypeTokenExchange \<noteq> ''refresh_token''"
      "GrantTypeTokenExchange \<noteq> ''client_credentials''" "GrantTypeTokenExchange \<noteq> GrantTypeDeviceCode"
      by (simp_all add: GrantTypeDeviceCode_def GrantTypeTokenExchange_def)
    show ?thesis
      using assms True distinct Some unfolding HandleToken_def Let_def
      by (elim insertE emptyE) (simp_all add: code_answers refresh_answers credentials_answers device_answers exchange_answers)
  qed
  then show ?thesis
    using Some by (auto simp: answers_def split: body.splits)
qed

definition token_request :: http_req where
  "token_request = browser_request ''POST'' [(''grant_type'', ''authorization_code''), (''code'', ''code''), (''redirect_uri'', ''https://app/cb''),
     (''code_verifier'', rfc7636_verifier), (''client_id'', ''app''), (''client_secret'', ''pw'')] []"

lemma token_endpoint_answers_witness:
  "\<exists>resp headers w' cache'. run_state (HandleToken sample_env token_request) (sample_world, None) = ((TokenBody resp, headers), (w', cache'))
     \<and> tr_Scope resp = ''read''"
proof -
  have cred: "clientCredentialsFromRequest token_request = (''app'', ''pw'', True)"
    by (simp add: clientCredentialsFromRequest_def BasicAuth_def token_request_def browser_request_def hq_Form_def)
  have client: "run_state (ValidateClient sample_env 1 ''app'' ''pw'') (sample_world, None) = (Inr sample_client, (sample_world\<lparr>stmts := 1\<rparr>, None))"
    by (simp add: ValidateClient_def run_orReturn run_onWorld run_onCache run_bind run_succeed ClientGet_run verified_def remember_def
        env_facts sample_world_def empty_world_def sample_client_def client_live_def)
  obtain resp w1 where tokens: "run_state (ExchangeAuthorizationCode sample_env 1 ''code'' ''xxxxx'' [] ''https://app/cb'' rfc7636_verifier)
      (sample_world\<lparr>stmts := 1\<rparr>) = (Inr resp, w1)"
    by (simp add: service_defs sql_defs monad_simps sample_defs)
  have id: "uuidString sample_env (c_ID sample_client) = ''xxxxx''" "Client_HasGrantType sample_client ''authorization_code''"
    by (simp_all add: sample_env_def sample_client_def sample_client_id Client_HasGrantType_def)
  have tenant: "GetTenantID (hq_gin token_request) = Some 1"
    by (simp add: token_request_def request_tenant)
  have form: "hq_Form token_request k = (case map_of [(''grant_type'', ''authorization_code''), (''code'', ''code''), (''redirect_uri'', ''https://app/cb''),
     (''code_verifier'', rfc7636_verifier), (''client_id'', ''app''), (''client_secret'', ''pw'')] k of Some v \<Rightarrow> v | None \<Rightarrow> [])" for k
    by (simp add: token_request_def request_field)
  have run: "run_state (HandleToken sample_env token_request) (sample_world, None) = ((TokenBody resp, []), (w1, None))"
    using client tokens
    by (simp add: HandleToken_def handleAuthorizationCodeGrant_def authenticateClient_def requireGrant_def replied_def run_orReturn run_bind
        run_return run_succeed run_onWorld cred id form tenant Let_def)
  have "tr_Scope resp = ''read''"
    using token_endpoint_answers [OF run]
    by (auto simp: vouched_def evidence_def form sample_world_def empty_world_def sample_code_def GrantTypeDeviceCode_def)
  then show ?thesis
    using run by blast
qed

end
