(* ===== verification/EmailService.thy ===== *)
theory EmailService
  imports Users Otp
begin

text \<open>E-mail: templates, the queue and its worker (\<^verbatim>\<open>internal/services/email_service_impl.go\<close>,
  \<^verbatim>\<open>email_templates_default.go\<close> and the first half of \<^verbatim>\<open>internal/repo/gorm/email.go\<close>). Metrics and log lines are left out.\<close>

section \<open>Strings\<close>

text \<open>\<^verbatim>\<open>strings.ReplaceAll\<close> for an old string that is not empty; \<open>k\<close> characters of a match are still to be skipped.\<close>

fun replace_skip :: "string \<Rightarrow> string \<Rightarrow> nat \<Rightarrow> string \<Rightarrow> string" where
  "replace_skip old new k [] = []"
| "replace_skip old new (Suc k) (c # cs) = replace_skip old new k cs"
| "replace_skip old new 0 (c # cs) =
     (if strings_HasPrefix (c # cs) old then new @ replace_skip old new (length old - 1) cs else c # replace_skip old new 0 cs)"

definition strings_ReplaceAll :: "string \<Rightarrow> string \<Rightarrow> string \<Rightarrow> string" where
  "strings_ReplaceAll s old new = replace_skip old new 0 s"

definition html_EscapeString :: "string \<Rightarrow> string" where
  "html_EscapeString s = concat (map (\<lambda>c.
     if c = CHR ''&'' then ''&amp;'' else if c = CHR 0x27 then ''&#39;'' else if c = CHR ''<'' then ''&lt;''
     else if c = CHR ''>'' then ''&gt;'' else if c = CHR 0x22 then ''&#34;'' else [c]) s)"

section \<open>The tables\<close>

definition emailStatusPending :: string where "emailStatusPending = ''pending''"
definition emailStatusSending :: string where "emailStatusSending = ''sending''"
definition emailStatusFailed :: string where "emailStatusFailed = ''failed''"
definition staleSendingAfter :: duration where "staleSendingAfter = seconds (10 * 60)"

definition template_live :: "EmailTemplate \<Rightarrow> bool" where
  "template_live t \<longleftrightarrow> et_DeletedAt t = None"

definition email_templates_clash :: "EmailTemplate \<Rightarrow> EmailTemplate \<Rightarrow> bool" where
  "email_templates_clash r t \<longleftrightarrow> et_ID r = et_ID t
     \<or> template_live r \<and> template_live t \<and> et_TenantID r = et_TenantID t \<and> et_Name r = et_Name t"

text \<open>As for tenants, a false \<^verbatim>\<open>is_active\<close> becomes the column default on Create.\<close>

definition EmailTemplate_Create :: "env \<Rightarrow> EmailTemplate \<Rightarrow> unit op" where
  "EmailTemplate_Create e t =
     sqlInsert e email_templates email_templates_update email_templates_clash
       (t\<lparr>et_IsActive := True, et_CreatedAt := autoCreateTime e (et_CreatedAt t), et_UpdatedAt := autoCreateTime e (et_UpdatedAt t)\<rparr>)
       ''failed to create email template''"

definition EmailTemplate_GetByName :: "env \<Rightarrow> uuid \<Rightarrow> string \<Rightarrow> EmailTemplate op" where
  "EmailTemplate_GetByName e tenantID name =
     sqlFirst e email_templates (\<lambda>t. et_TenantID t = tenantID \<and> et_Name t = name \<and> template_live t)
       ErrResourceNotFound ''failed to get email template''"

definition EmailTemplate_Update :: "env \<Rightarrow> EmailTemplate \<Rightarrow> unit op" where
  "EmailTemplate_Update e t =
     sqlSave e email_templates email_templates_update et_ID email_templates_clash (t\<lparr>et_UpdatedAt := now e\<rparr>)
       ''failed to update email template''"

definition EmailTemplate_Delete :: "env \<Rightarrow> uuid \<Rightarrow> string \<Rightarrow> unit op" where
  "EmailTemplate_Delete e tenantID name =
     orReturn (sqlUpdate e email_templates email_templates_update
        (\<lambda>t. et_TenantID t = tenantID \<and> et_Name t = name \<and> template_live t)
        (\<lambda>t. t\<lparr>et_DeletedAt := Some (now e)\<rparr>) ''failed to delete email template'') id (\<lambda>_. succeed ())"

definition email_queue_clash :: "EmailQueue \<Rightarrow> EmailQueue \<Rightarrow> bool" where
  "email_queue_clash r m \<longleftrightarrow> eq_ID r = eq_ID m"

definition EmailQueue_Create :: "env \<Rightarrow> EmailQueue \<Rightarrow> unit op" where
  "EmailQueue_Create e m =
     sqlInsert e email_queue email_queue_update email_queue_clash
       (m\<lparr>eq_Status := (if eq_Status m = [] then emailStatusPending else eq_Status m),
          eq_Priority := (if eq_Priority m = 0 then 5 else eq_Priority m),
          eq_MaxAttempts := (if eq_MaxAttempts m = 0 then 3 else eq_MaxAttempts m),
          eq_CreatedAt := autoCreateTime e (eq_CreatedAt m), eq_UpdatedAt := autoCreateTime e (eq_UpdatedAt m)\<rparr>)
       ''failed to queue email''"

definition EmailQueue_GetByID :: "env \<Rightarrow> uuid \<Rightarrow> uuid \<Rightarrow> EmailQueue op" where
  "EmailQueue_GetByID e tenantID emailID =
     sqlFirst e email_queue (\<lambda>m. eq_TenantID m = tenantID \<and> eq_ID m = emailID) ErrResourceNotFound ''failed to get email''"

text \<open>One UPDATE ... RETURNING: the due rows and those claimed too long ago, at most \<open>limit\<close>, by priority and schedule. The
  claimed rows come back in table order.\<close>

definition claimable :: "env \<Rightarrow> EmailQueue \<Rightarrow> bool" where
  "claimable e m \<longleftrightarrow> eq_Status m = emailStatusPending \<and> eq_ScheduledAt m \<le> now e
     \<or> eq_Status m = emailStatusSending \<and> eq_UpdatedAt m < now e - staleSendingAfter"

definition claimed :: "env \<Rightarrow> EmailQueue \<Rightarrow> EmailQueue" where
  "claimed e m = m\<lparr>eq_Status := emailStatusSending, eq_UpdatedAt := now e\<rparr>"

definition claim_ids :: "env \<Rightarrow> nat \<Rightarrow> EmailQueue list \<Rightarrow> uuid list" where
  "claim_ids e limit rows = map eq_ID (take limit (sort_key eq_Priority (sort_key eq_ScheduledAt (filter (claimable e) rows))))"

definition GetPendingEmails :: "env \<Rightarrow> nat \<Rightarrow> (EmailQueue list) op" where
  "GetPendingEmails e limit =
     mapErr (Wrapped ''failed to claim pending emails'')
       (runSQL e (\<lambda>w. let ids = claim_ids e limit (email_queue w); taken = (\<lambda>m. eq_ID m \<in> set ids) in
          Inr (map (claimed e) (filter taken (email_queue w)), email_queue_update (map (\<lambda>m. if taken m then claimed e m else m)) w)))"

definition EmailQueue_Update :: "env \<Rightarrow> EmailQueue \<Rightarrow> unit op" where
  "EmailQueue_Update e m =
     sqlSave e email_queue email_queue_update eq_ID email_queue_clash (m\<lparr>eq_UpdatedAt := now e\<rparr>) ''failed to update email''"

definition EmailQueue_Delete :: "env \<Rightarrow> uuid \<Rightarrow> uuid \<Rightarrow> unit op" where
  "EmailQueue_Delete e tenantID emailID =
     sqlDelete e email_queue_update (\<lambda>m. eq_TenantID m = tenantID \<and> eq_ID m = emailID) ''failed to delete email''"

text \<open>The count of each status that occurs.\<close>

definition EmailQueue_GetQueueStatus :: "env \<Rightarrow> uuid \<Rightarrow> (string \<rightharpoonup> int) op" where
  "EmailQueue_GetQueueStatus e tenantID =
     orReturn (sqlFind e email_queue (\<lambda>m. eq_TenantID m = tenantID) ''failed to get email queue status'') id (\<lambda>rows.
     succeed (map_of (map (\<lambda>s. (s, int (length (filter (\<lambda>m. eq_Status m = s) rows)))) (remdups (map eq_Status rows)))))"

definition GetFailedEmails :: "env \<Rightarrow> uuid \<Rightarrow> int \<Rightarrow> (EmailQueue list) op" where
  "GetFailedEmails e tenantID maxAttempts =
     sqlFind e email_queue (\<lambda>m. eq_TenantID m = tenantID \<and> eq_Status m = emailStatusFailed \<and> eq_Attempts m < maxAttempts)
       ''failed to get failed emails''"

section \<open>Templates\<close>

definition CreateTemplate :: "env \<Rightarrow> uuid \<Rightarrow> EmailTemplate \<Rightarrow> unit op" where
  "CreateTemplate e tenantID template = do {
     i \<leftarrow> uuid_New e;
     mapErr (Wrapped ''failed to create email template'')
       (EmailTemplate_Create e (template\<lparr>et_ID := i, et_TenantID := tenantID, et_CreatedAt := now e, et_UpdatedAt := now e\<rparr>))
   }"

definition GetTemplate :: "env \<Rightarrow> uuid \<Rightarrow> string \<Rightarrow> EmailTemplate op" where
  "GetTemplate e tenantID name = mapErr (Wrapped ''failed to get email template'') (EmailTemplate_GetByName e tenantID name)"

definition UpdateTemplate :: "env \<Rightarrow> uuid \<Rightarrow> string \<Rightarrow> EmailTemplate \<Rightarrow> unit op" where
  "UpdateTemplate e tenantID name template =
     orReturn (EmailTemplate_GetByName e tenantID name) (Wrapped ''failed to get existing template'') (\<lambda>existing.
     mapErr (Wrapped ''failed to update email template'')
       (EmailTemplate_Update e (existing\<lparr>et_Subject := et_Subject template, et_BodyHTML := et_BodyHTML template,
          et_BodyText := et_BodyText template, et_Variables := et_Variables template, et_IsActive := et_IsActive template,
          et_UpdatedAt := now e\<rparr>)))"

definition DeleteTemplate :: "env \<Rightarrow> uuid \<Rightarrow> string \<Rightarrow> unit op" where
  "DeleteTemplate e tenantID name = mapErr (Wrapped ''failed to delete email template'') (EmailTemplate_Delete e tenantID name)"

text \<open>\<^verbatim>\<open>range\<close> visits a map in any order: the variables come in the order they are visited.\<close>

definition processTemplate :: "string \<Rightarrow> (string \<times> string) list \<Rightarrow> (string \<Rightarrow> string) option \<Rightarrow> string" where
  "processTemplate template variables escape =
     foldl (\<lambda>result (key, value). strings_ReplaceAll result (''{{'' @ key @ ''}}'')
        (case escape of Some esc \<Rightarrow> esc value | None \<Rightarrow> value)) template variables"

definition sanitizeHeader :: "string \<Rightarrow> string" where
  "sanitizeHeader value = map (\<lambda>c. if byte_code c = 13 \<or> byte_code c = 10 then CHR '' '' else c) value"

section \<open>Default templates\<close>

definition nl :: string where "nl = [CHR 0x0A]"

definition link_tag :: "string \<Rightarrow> string \<Rightarrow> string" where
  "link_tag target label = ''<p><a href='' @ [CHR 0x22] @ target @ [CHR 0x22] @ ''>'' @ label @ ''</a></p>''"

definition default_template :: "string \<Rightarrow> string \<Rightarrow> string \<Rightarrow> string \<Rightarrow> string list \<Rightarrow> EmailTemplate" where
  "default_template name subject html text variables =
     \<lparr>et_ID = uuid_Nil, et_TenantID = uuid_Nil, et_Name = name, et_Subject = subject, et_BodyHTML = html, et_BodyText = text,
      et_Variables = variables, et_IsActive = True, et_CreatedAt = zero_time, et_UpdatedAt = zero_time, et_DeletedAt = None\<rparr>"

definition defaultEmailTemplates :: "string \<rightharpoonup> EmailTemplate" where
  "defaultEmailTemplates =
     [''email_verification'' \<mapsto> default_template ''email_verification'' ''Verify your email address''
        (''<p>Hi {{user_name}},</p>'' @ ''<p>Confirm your email address by opening this link:</p>''
          @ link_tag ''{{verification_link}}'' ''Verify email address''
          @ ''<p>The link expires in {{expires_hours}} hours. If you did not create an account, ignore this email.</p>'')
        (''Hi {{user_name}},'' @ nl @ nl @ ''Confirm your email address by opening this link:'' @ nl @ nl @ ''{{verification_link}}'' @ nl @ nl
          @ ''The link expires in {{expires_hours}} hours. If you did not create an account, ignore this email.'' @ nl)
        [''user_name'', ''verification_link'', ''expires_hours''],
      ''password_reset'' \<mapsto> default_template ''password_reset'' ''Reset your password''
        (''<p>Hi {{user_name}},</p>''
          @ ''<p>Someone asked to reset the password for your account. To choose a new password, open this link:</p>''
          @ link_tag ''{{reset_link}}'' ''Reset password''
          @ ''<p>The link expires in {{expires_minutes}} minutes and works once. If you did not ask for this, ignore this email; your password is unchanged.</p>'')
        (''Hi {{user_name}},'' @ nl @ nl
          @ ''Someone asked to reset the password for your account. To choose a new password, open this link:'' @ nl @ nl
          @ ''{{reset_link}}'' @ nl @ nl
          @ ''The link expires in {{expires_minutes}} minutes and works once. If you did not ask for this, ignore this email; your password is unchanged.'' @ nl)
        [''user_name'', ''reset_link'', ''expires_minutes''],
      ''password_changed'' \<mapsto> default_template ''password_changed'' ''Your password was changed''
        (''<p>Hi {{user_name}},</p>'' @ ''<p>The password for your account was just changed.</p>''
          @ ''<p>If this was not you, reset your password immediately and contact your administrator.</p>'')
        (''Hi {{user_name}},'' @ nl @ nl @ ''The password for your account was just changed. ''
          @ ''If this was not you, reset your password immediately and contact your administrator.'' @ nl)
        [''user_name'']]"

section \<open>Queueing\<close>

text \<open>The \<^verbatim>\<open>SMTP*\<close> settings of the configuration, and what lies outside the program: the order in which a \<^verbatim>\<open>range\<close> loop visits a
  map (by loop), \<^verbatim>\<open>mime.QEncoding\<close>, and the SMTP server: whether it offers STARTTLS, and the error text it answers a step of
  the \<open>n\<close>-th dialogue with, the message being the one to deliver.\<close>

datatype smtp_step = DialTLS | NewClient | Dial | StartTLS | Auth | MailFrom | RcptTo | Data | WriteBody

record mailer =
  ml_SMTPHost :: string
  ml_SMTPUser :: string
  ml_SMTPUseTLS :: bool
  ml_SMTPFrom :: string
  ml_SMTPFromName :: string
  ml_range :: "nat \<Rightarrow> (string \<times> string) list \<Rightarrow> (string \<times> string) list"
  ml_QEncode :: "string \<Rightarrow> string"
  ml_STARTTLS :: "nat \<Rightarrow> bool"
  ml_answer :: "nat \<Rightarrow> smtp_step \<Rightarrow> string \<Rightarrow> string option"

text \<open>The row that is queued for a request.\<close>

definition queuedEmail :: "env \<Rightarrow> mailer \<Rightarrow> uuid \<Rightarrow> uuid \<Rightarrow> SendEmailRequest \<Rightarrow> EmailTemplate \<Rightarrow> EmailQueue" where
  "queuedEmail e m i tenantID req template =
     \<lparr>eq_ID = i, eq_TenantID = tenantID, eq_UserID = None, eq_ToEmail = sr_ToEmail req, eq_ToName = sr_ToName req,
      eq_FromEmail = ml_SMTPFrom m, eq_FromName = ml_SMTPFromName m,
      eq_Subject = sanitizeHeader (processTemplate (et_Subject template) (ml_range m 0 (sr_Variables req)) None),
      eq_BodyHTML = processTemplate (et_BodyHTML template) (ml_range m 1 (sr_Variables req)) (Some html_EscapeString),
      eq_BodyText = processTemplate (et_BodyText template) (ml_range m 2 (sr_Variables req)) None,
      eq_Status = ''pending'', eq_Priority = (if sr_Priority req \<le> 0 then 5 else sr_Priority req), eq_Attempts = 0, eq_MaxAttempts = 3,
      eq_LastError = [], eq_ScheduledAt = now e, eq_SentAt = None, eq_CreatedAt = now e, eq_UpdatedAt = now e\<rparr>"

definition SendEmail :: "env \<Rightarrow> mailer \<Rightarrow> uuid \<Rightarrow> SendEmailRequest \<Rightarrow> unit op" where
  "SendEmail e m tenantID req = do {
     own \<leftarrow> EmailTemplate_GetByName e tenantID (sr_Template req);
     case (case own of
             Inr template \<Rightarrow> Inr template
           | Inl er \<Rightarrow>
               (case (if errors_Is er ErrResourceNotFound then defaultEmailTemplates (sr_Template req) else None) of
                  Some fallback \<Rightarrow> Inr fallback
                | None \<Rightarrow> Inl er)) of
       Inl er \<Rightarrow> failWith (Wrapped ''failed to get email template'' er)
     | Inr template \<Rightarrow>
         if \<not> et_IsActive template then failWith (ErrMsg ''email template is not active'')
         else do {
           i \<leftarrow> uuid_New e;
           mapErr (Wrapped ''failed to queue email'') (EmailQueue_Create e (queuedEmail e m i tenantID req template))
         }
   }"

definition SendTemplateEmail :: "env \<Rightarrow> mailer \<Rightarrow> uuid \<Rightarrow> string \<Rightarrow> string \<Rightarrow> string \<Rightarrow> (string \<times> string) list \<Rightarrow> int \<Rightarrow> unit op" where
  "SendTemplateEmail e m tenantID toEmail toName templateName variables priority =
     SendEmail e m tenantID \<lparr>sr_ToEmail = toEmail, sr_ToName = toName, sr_Template = templateName, sr_Variables = variables,
       sr_Priority = priority\<rparr>"

section \<open>Delivery\<close>

definition crlf :: string where "crlf = [CHR 0x0D, CHR 0x0A]"

text \<open>One part of the message; an empty body gives none.\<close>

definition mimePart :: "string \<Rightarrow> string \<Rightarrow> string \<Rightarrow> string" where
  "mimePart boundary contentType content =
     (if content \<noteq> []
      then ''--'' @ boundary @ crlf @ ''Content-Type: '' @ contentType @ ''; charset='' @ [CHR 0x22] @ ''utf-8'' @ [CHR 0x22] @ crlf @ crlf
           @ content @ crlf
      else [])"

definition mimeHeader :: "mailer \<Rightarrow> string \<Rightarrow> string \<Rightarrow> string \<Rightarrow> string \<Rightarrow> string" where
  "mimeHeader m boundary from to subject =
     ''From: '' @ sanitizeHeader from @ crlf @ ''To: '' @ sanitizeHeader to @ crlf
     @ ''Subject: '' @ ml_QEncode m (sanitizeHeader subject) @ crlf @ ''MIME-Version: 1.0'' @ crlf
     @ ''Content-Type: multipart/alternative; boundary='' @ [CHR 0x22] @ boundary @ [CHR 0x22] @ crlf @ crlf"

definition buildMIMEMessage :: "env \<Rightarrow> mailer \<Rightarrow> string \<Rightarrow> string \<Rightarrow> string \<Rightarrow> string \<Rightarrow> string \<Rightarrow> string" where
  "buildMIMEMessage e m from to subject bodyHTML bodyText =
     (let boundary = ''ShieldGate_'' @ decimal (nat (now e)) in
      mimeHeader m boundary from to subject @ mimePart boundary ''text/plain'' bodyText @ mimePart boundary ''text/html'' bodyHTML
      @ ''--'' @ boundary @ ''--'' @ crlf)"

fun stepError :: "smtp_step \<Rightarrow> string \<Rightarrow> string" where
  "stepError DialTLS er = ''TLS dial failed: '' @ er"
| "stepError NewClient er = ''SMTP client creation failed: '' @ er"
| "stepError Dial er = ''SMTP dial failed: '' @ er"
| "stepError StartTLS er = ''STARTTLS failed: '' @ er"
| "stepError Auth er = ''SMTP auth failed: '' @ er"
| "stepError MailFrom er = ''SMTP MAIL FROM failed: '' @ er"
| "stepError RcptTo er = ''SMTP RCPT TO failed: '' @ er"
| "stepError Data er = ''SMTP DATA failed: '' @ er"
| "stepError WriteBody er = er"

definition smtpSteps :: "mailer \<Rightarrow> nat \<Rightarrow> smtp_step list" where
  "smtpSteps m n =
     (if ml_SMTPUseTLS m then [DialTLS, NewClient] else Dial # (if ml_STARTTLS m n then [StartTLS] else []))
     @ (if ml_SMTPUser m \<noteq> [] then [Auth] else []) @ [MailFrom, RcptTo, Data, WriteBody]"

text \<open>The steps up to the first error. The deferred \<^verbatim>\<open>Close\<close> of the data writer, which reads the server's verdict on the message, is
  no step: its error is dropped.\<close>

fun dialogue :: "(smtp_step \<Rightarrow> string option) \<Rightarrow> smtp_step list \<Rightarrow> string + unit" where
  "dialogue answer [] = Inr ()"
| "dialogue answer (s # ss) = (case answer s of Some er \<Rightarrow> Inl (stepError s er) | None \<Rightarrow> dialogue answer ss)"

definition sendViaSMTP :: "env \<Rightarrow> mailer \<Rightarrow> EmailQueue \<Rightarrow> (world, string + unit) state" where
  "sendViaSMTP e m email =
     (if ml_SMTPHost m = [] then succeed ()
      else State (\<lambda>w.
        let from = ml_SMTPFromName m @ '' <'' @ ml_SMTPFrom m @ ''>'';
            to = (if eq_ToName email \<noteq> [] then eq_ToName email @ '' <'' @ eq_ToEmail email @ ''>'' else eq_ToEmail email);
            message = buildMIMEMessage e m from to (eq_Subject email) (eq_BodyHTML email) (eq_BodyText email);
            n = length (smtp_log w); r = dialogue (\<lambda>s. ml_answer m n s message) (smtpSteps m n)
        in (r, w\<lparr>smtp_log := smtp_log w @ [(eq_ID email, r = Inr ())]\<rparr>)))"

text \<open>The row after an attempt: to be tried again after 1, 2, 4 ... minutes, given up, or sent and emptied.\<close>

definition afterSendFailure :: "env \<Rightarrow> string \<Rightarrow> EmailQueue \<Rightarrow> EmailQueue" where
  "afterSendFailure e er email =
     (let email' = email\<lparr>eq_LastError := er\<rparr> in
      if eq_Attempts email' < eq_MaxAttempts email'
      then email'\<lparr>eq_Status := emailStatusPending, eq_ScheduledAt := now e + wrap64 (push_bit (nat (eq_Attempts email' - 1)) (seconds 60))\<rparr>
      else email'\<lparr>eq_Status := emailStatusFailed\<rparr>)"

definition afterSend :: "env \<Rightarrow> EmailQueue \<Rightarrow> EmailQueue" where
  "afterSend e email = email\<lparr>eq_Status := ''sent'', eq_SentAt := Some (now e), eq_BodyHTML := [], eq_BodyText := []\<rparr>"

definition processEmail :: "env \<Rightarrow> mailer \<Rightarrow> EmailQueue \<Rightarrow> unit op" where
  "processEmail e m email0 = do {
     let email = email0\<lparr>eq_Attempts := eq_Attempts email0 + 1, eq_UpdatedAt := now e\<rparr>;
     r \<leftarrow> sendViaSMTP e m email;
     case r of
       Inl er \<Rightarrow> do {
         _ \<leftarrow> EmailQueue_Update e (afterSendFailure e er email);
         failWith (Wrapped ''SMTP send failed'' (ErrMsg er))
       }
     | Inr _ \<Rightarrow> mapErr (Wrapped ''failed to update email status'') (EmailQueue_Update e (afterSend e email))
   }"

fun processEmails :: "env \<Rightarrow> mailer \<Rightarrow> EmailQueue list \<Rightarrow> (world, unit) state" where
  "processEmails e m [] = State_Monad.return ()"
| "processEmails e m (email # emails) = do { _ \<leftarrow> processEmail e m email; processEmails e m emails }"

definition ProcessQueue :: "env \<Rightarrow> mailer \<Rightarrow> unit op" where
  "ProcessQueue e m =
     orReturn (GetPendingEmails e 100) (Wrapped ''failed to get pending emails'') (\<lambda>emails. do {
     _ \<leftarrow> processEmails e m emails;
     succeed ()
   })"

definition GetQueueStatus :: "env \<Rightarrow> uuid \<Rightarrow> (string \<rightharpoonup> int) op" where
  "GetQueueStatus e tenantID = mapErr (Wrapped ''failed to get queue status'') (EmailQueue_GetQueueStatus e tenantID)"

fun resetFailed :: "env \<Rightarrow> EmailQueue list \<Rightarrow> (world, unit) state" where
  "resetFailed e [] = State_Monad.return ()"
| "resetFailed e (email # emails) = do {
     _ \<leftarrow> EmailQueue_Update e (email\<lparr>eq_Status := emailStatusPending, eq_ScheduledAt := now e, eq_LastError := [], eq_UpdatedAt := now e\<rparr>);
     resetFailed e emails
   }"

definition RetryFailedEmails :: "env \<Rightarrow> uuid \<Rightarrow> int \<Rightarrow> unit op" where
  "RetryFailedEmails e tenantID maxAttempts =
     orReturn (GetFailedEmails e tenantID maxAttempts) (Wrapped ''failed to get failed emails'') (\<lambda>failedEmails. do {
     _ \<leftarrow> resetFailed e failedEmails;
     succeed ()
   })"

end
