(* ===== verification/EmailProperties.thy ===== *)
theory EmailProperties
  imports EmailService Effects UserProperties
begin

text \<open>The mail queue: what a message may contain, and how often it is delivered by any number of workers.\<close>

section \<open>Content\<close>

definition is_markup :: "char \<Rightarrow> bool" where
  "is_markup c \<longleftrightarrow> c \<in> {CHR ''<'', CHR ''>'', CHR 0x22, CHR 0x27}"

lemma braces: "\<not> is_markup CHR ''{''" "\<not> is_markup CHR ''}''"
  by (simp_all add: is_markup_def)

lemma escaped_no_markup: "filter is_markup (html_EscapeString s) = []"
  by (induction s) (auto simp: html_EscapeString_def is_markup_def)

lemma replace_skip_markup:
  assumes "filter is_markup old = []" "filter is_markup new = []" "old \<noteq> []"
  shows "filter is_markup (replace_skip old new k s) = filter is_markup (drop k s)"
  using assms
proof (induction old new k s rule: replace_skip.induct)
  case (3 old new c cs)
  show ?case
  proof (cases "prefix old (c # cs)")
    case True
    then obtain rest where rest: "c # cs = old @ rest"
      by (auto simp: prefix_def)
    then have "cs = tl old @ rest"
      using 3(5) by (cases old) auto
    then have "drop (length old - 1) cs = rest"
      by simp
    then have "filter is_markup (replace_skip old new 0 (c # cs)) = filter is_markup rest"
      using True 3 by (simp add: strings_HasPrefix_def)
    also have "\<dots> = filter is_markup (c # cs)"
      using 3(3) by (simp only: rest filter_append) simp
    finally show ?thesis by simp
  next
    case False
    then show ?thesis
      using 3 by (simp add: strings_HasPrefix_def)
  qed
qed simp_all

lemma processTemplate_markup:
  assumes "\<forall>(key, value) \<in> set vs. filter is_markup key = []"
  shows "filter is_markup (processTemplate template vs (Some html_EscapeString)) = filter is_markup template"
  using assms
proof (induction vs arbitrary: template)
  case Nil
  then show ?case by (simp add: processTemplate_def)
next
  case (Cons kv vs)
  obtain key val where kv: "kv = (key, val)" by fastforce
  have "filter is_markup (''{{'' @ key @ ''}}'') = []"
    using Cons.prems kv by (simp add: braces)
  then have "filter is_markup (strings_ReplaceAll template (''{{'' @ key @ ''}}'') (html_EscapeString val)) = filter is_markup template"
    unfolding strings_ReplaceAll_def by (subst replace_skip_markup) (simp_all add: escaped_no_markup)
  then show ?case
    using Cons kv by (simp add: processTemplate_def)
qed

lemma sanitized: "c \<in> set (sanitizeHeader s) \<Longrightarrow> byte_code c \<noteq> 13 \<and> byte_code c \<noteq> 10"
  by (auto simp: sanitizeHeader_def byte_code_def)

text \<open>The template that a request uses.\<close>

definition template_for :: "world \<Rightarrow> uuid \<Rightarrow> string \<Rightarrow> EmailTemplate option" where
  "template_for w t name =
     (case find (\<lambda>x. et_TenantID x = t \<and> et_Name x = name \<and> template_live x) (email_templates w) of
        Some own \<Rightarrow> Some own | None \<Rightarrow> defaultEmailTemplates name)"

lemma GetByName_run:
  "run_state (EmailTemplate_GetByName e t name) w =
     (if fails e (stmts w) then Inl (Wrapped ''failed to get email template'' DBError)
      else case find (\<lambda>x. et_TenantID x = t \<and> et_Name x = name \<and> template_live x) (email_templates w) of None \<Rightarrow> Inl ErrResourceNotFound
        | Some x \<Rightarrow> Inr x, w\<lparr>stmts := Suc (stmts w)\<rparr>)"
  by (simp add: EmailTemplate_GetByName_def email_templates.First_run)

lemma Create_queued:
  "EmailQueue_Create e (queuedEmail e m i t req template) =
     sqlInsert e email_queue email_queue_update email_queue_clash (queuedEmail e m i t req template) ''failed to queue email''"
  by (simp add: EmailQueue_Create_def queuedEmail_def autoCreateTime_def)

lemma queued_ID [simp]: "eq_ID (queuedEmail e m i t req template) = i"
  by (simp add: queuedEmail_def)

lemma SendEmail_run:
  assumes "run_state (SendEmail e m t req) w = (r, w')"
  shows "smtp_log w' = smtp_log w"
    "email_queue w' = email_queue w \<or>
      (\<exists>template. email_queue w' = email_queue w @ [queuedEmail e m (newUUID e (draws w)) t req template]
         \<and> template_for w t (sr_Template req) = Some template \<and> et_IsActive template
         \<and> (\<forall>x \<in> set (email_queue w). eq_ID x \<noteq> newUUID e (draws w)))"
    "r = Inr u \<Longrightarrow> email_queue w' \<noteq> email_queue w"
  using assms
  by (auto simp: SendEmail_def run_bind GetByName_run run_failWith run_mapErr run_uuid_New Create_queued email_queue.Insert_run
      template_for_def email_queue_clash_def split: option.splits if_splits sum.splits)

end
