(* ===== verification/MailQueue.thy ===== *)
theory MailQueue
  imports EmailProperties
begin

text \<open>The mail queue under several workers: each claims a batch and delivers it message by message while requests queue, other
  workers claim and deliver, and failed messages are reset.\<close>

section \<open>Workers\<close>

text \<open>Beside the database, what each worker has claimed and not yet delivered.\<close>

type_synonym mail_state = "world \<times> (nat \<Rightarrow> EmailQueue list)"

text \<open>A worker comes to a message within the time after which others may take it over, and the statement that stores the outcome
  of a delivery does not fail; any other statement and any SMTP step may. \<open>limit\<close> bounds the attempts that resets ask for. Every step
  has its own environment, so the clock moves.\<close>

inductive mail_reach :: "int \<Rightarrow> mail_state \<Rightarrow> bool" for limit where
  Start: "email_queue w = [] \<Longrightarrow> smtp_log w = [] \<Longrightarrow> mail_reach limit (w, \<lambda>_. [])"
| Queue: "mail_reach limit (w, held) \<Longrightarrow> run_state (SendEmail e m t req) w = (r, w') \<Longrightarrow> mail_reach limit (w', held)"
| Claim: "mail_reach limit (w, held) \<Longrightarrow> held i = [] \<Longrightarrow> (\<forall>j. \<forall>c \<in> set (held j). now e \<le> eq_UpdatedAt c + staleSendingAfter) \<Longrightarrow>
    run_state (GetPendingEmails e 100) w = (Inr emails, w') \<Longrightarrow> mail_reach limit (w', held(i := emails))"
| NoClaim: "mail_reach limit (w, held) \<Longrightarrow> run_state (GetPendingEmails e 100) w = (Inl er, w') \<Longrightarrow> mail_reach limit (w', held)"
| Deliver: "mail_reach limit (w, held) \<Longrightarrow> held i = c # cs \<Longrightarrow> \<not> fails e (stmts w) \<Longrightarrow>
    run_state (processEmail e m c) w = (r, w') \<Longrightarrow> mail_reach limit (w', held(i := cs))"
| Retry: "mail_reach limit (w, held) \<Longrightarrow> n \<le> limit \<Longrightarrow> run_state (RetryFailedEmails e t n) w = (r, w') \<Longrightarrow> mail_reach limit (w', held)"

section \<open>Invariant\<close>

definition tries :: "(uuid \<times> bool) list \<Rightarrow> uuid \<Rightarrow> nat" where
  "tries log i = length (filter (\<lambda>(j, ok). j = i) log)"

definition deliveries :: "(uuid \<times> bool) list \<Rightarrow> uuid \<Rightarrow> nat" where
  "deliveries log i = length (filter (\<lambda>(j, ok). j = i \<and> ok) log)"

definition mail_ok :: "int \<Rightarrow> (uuid \<times> bool) list \<Rightarrow> EmailQueue \<Rightarrow> bool" where
  "mail_ok limit log m \<longleftrightarrow> int (tries log (eq_ID m)) \<le> eq_Attempts m \<and> eq_Attempts m \<le> max 3 limit
     \<and> deliveries log (eq_ID m) \<le> (if eq_Status m = ''sent'' then 1 else 0)
     \<and> (eq_Status m = emailStatusPending \<or> eq_Status m = emailStatusSending \<longrightarrow> eq_Attempts m < max 3 limit)
     \<and> (eq_Status m = ''sent'' \<longrightarrow> eq_BodyHTML m = [] \<and> eq_BodyText m = []) \<and> eq_MaxAttempts m = 3"

definition mail_inv :: "int \<Rightarrow> EmailQueue list \<Rightarrow> (uuid \<times> bool) list \<Rightarrow> (nat \<Rightarrow> EmailQueue list) \<Rightarrow> bool" where
  "mail_inv limit rows log held \<longleftrightarrow> distinct (map eq_ID rows) \<and> (\<forall>m \<in> set rows. mail_ok limit log m) \<and> fst ` set log \<subseteq> set (map eq_ID rows)
     \<and> (\<forall>j. \<forall>c \<in> set (held j). c \<in> set rows \<and> eq_Status c = emailStatusSending)
     \<and> (\<forall>j. distinct (map eq_ID (held j)))
     \<and> (\<forall>i j. i \<noteq> j \<longrightarrow> (\<forall>c \<in> set (held i). \<forall>d \<in> set (held j). eq_ID c \<noteq> eq_ID d))"

lemma mail_invD:
  assumes "mail_inv limit rows log held"
  shows "distinct (map eq_ID rows)" "x \<in> set rows \<Longrightarrow> mail_ok limit log x" "fst ` set log \<subseteq> set (map eq_ID rows)"
    "c \<in> set (held j) \<Longrightarrow> c \<in> set rows" "c \<in> set (held j) \<Longrightarrow> eq_Status c = emailStatusSending" "distinct (map eq_ID (held j))"
    "i \<noteq> j \<Longrightarrow> d \<in> set (held i) \<Longrightarrow> c \<in> set (held j) \<Longrightarrow> eq_ID d \<noteq> eq_ID c"
    "x \<in> set rows \<Longrightarrow> y \<in> set rows \<Longrightarrow> eq_ID x = eq_ID y \<Longrightarrow> x = y"
  using assms distinct_map_eq [of eq_ID rows x y] by (auto simp: mail_inv_def)

lemma mail_invI:
  assumes "map eq_ID rows' = map eq_ID rows" "distinct (map eq_ID rows)" "\<And>x. x \<in> set rows' \<Longrightarrow> mail_ok limit log x"
    and "fst ` set log \<subseteq> set (map eq_ID rows)" "\<And>j c. c \<in> set (held j) \<Longrightarrow> c \<in> set rows' \<and> eq_Status c = emailStatusSending"
    and "\<And>j. distinct (map eq_ID (held j))" "\<And>i j c d. i \<noteq> j \<Longrightarrow> c \<in> set (held i) \<Longrightarrow> d \<in> set (held j) \<Longrightarrow> eq_ID c \<noteq> eq_ID d"
  shows "mail_inv limit rows' log held"
  unfolding mail_inv_def assms(1)
proof (intro conjI allI ballI impI)
  show "eq_ID c \<noteq> eq_ID d" if "i \<noteq> j" "c \<in> set (held i)" "d \<in> set (held j)" for i j c d
    using that by (rule assms(7))
qed (use assms(2-6) in auto)

lemma status_distinct [simp]: "emailStatusSending \<noteq> emailStatusPending" "emailStatusPending \<noteq> emailStatusSending" "emailStatusSending \<noteq> ''sent''"
  "emailStatusPending \<noteq> ''sent''" "emailStatusFailed \<noteq> ''sent''" "emailStatusFailed \<noteq> emailStatusPending" "emailStatusFailed \<noteq> emailStatusSending"
  "''sent'' \<noteq> emailStatusPending" "''sent'' \<noteq> emailStatusSending" "emailStatusSending \<noteq> emailStatusFailed"
  by (simp_all add: emailStatusSending_def emailStatusPending_def emailStatusFailed_def)

text \<open>One row gives way to another of the same ID.\<close>

lemma save_ids: "m \<in> set rows \<Longrightarrow> eq_ID m' = eq_ID m \<Longrightarrow> map eq_ID (save_row eq_ID m' rows) = map eq_ID rows"
  by (auto simp: save_row_def list_ex_iff)

lemma mail_inv_replace:
  assumes inv: "mail_inv limit rows log held" and m: "m \<in> set rows" "eq_ID m' = eq_ID m" "mail_ok limit log m'"
    and free: "\<And>j. m \<notin> set (held j)"
  shows "mail_inv limit (save_row eq_ID m' rows) log held"
proof (rule mail_invI [OF save_ids [OF m(1,2)] mail_invD(1) [OF inv] _ mail_invD(3) [OF inv]])
  show "mail_ok limit log x" if "x \<in> set (save_row eq_ID m' rows)" for x
    using that m(3) mail_invD(2) [OF inv] by (auto simp: save_row_set)
  show "c \<in> set (save_row eq_ID m' rows) \<and> eq_Status c = emailStatusSending" if "c \<in> set (held j)" for j c
    using mail_invD(4,5) [OF inv that] mail_invD(8) [OF inv _ m(1), of c] free that m(2) by (auto simp: save_row_set)
qed (use mail_invD(6,7) [OF inv] in auto)

lemma mail_inv_new:
  assumes inv: "mail_inv limit rows log held" and i: "\<forall>x \<in> set rows. eq_ID x \<noteq> i"
  shows "mail_inv limit (rows @ [queuedEmail e m i t req template]) log held"
proof -
  have "i \<notin> set (map eq_ID rows)"
    using i by auto
  then have "i \<notin> fst ` set log"
    using mail_invD(3) [OF inv] by blast
  then have "tries log i = 0" "deliveries log i = 0"
    by (force simp: tries_def deliveries_def filter_empty_conv)+
  then have "mail_ok limit log (queuedEmail e m i t req template)"
    by (auto simp: mail_ok_def queuedEmail_def emailStatusPending_def)
  then show ?thesis
    using inv i unfolding mail_inv_def by auto
qed

section \<open>Claims\<close>

lemma claim_ids_claimable:
  assumes "mail_inv limit rows log held" "m \<in> set rows" "eq_ID m \<in> set (claim_ids e n rows)"
  shows "claimable e m"
proof -
  obtain x where x: "x \<in> set rows" "claimable e x" "eq_ID x = eq_ID m"
    using assms(3) by (auto simp: claim_ids_def dest!: in_set_takeD)
  then show ?thesis
    using mail_invD(8) [OF assms(1) x(1) assms(2)] by simp
qed

lemma Claim_run:
  assumes "run_state (GetPendingEmails e n) w = (r, w')"
  shows "smtp_log w' = smtp_log w"
    "r = Inr emails \<Longrightarrow> emails = map (claimed e) (filter (\<lambda>m. eq_ID m \<in> set (claim_ids e n (email_queue w))) (email_queue w))"
    "email_queue w' = (if \<exists>x. r = Inr x then map (\<lambda>m. if eq_ID m \<in> set (claim_ids e n (email_queue w)) then claimed e m else m) (email_queue w)
       else email_queue w)"
  using assms by (auto simp: GetPendingEmails_def run_mapErr run_runSQL Let_def split: if_splits)

lemma claimed_simps [simp]: "eq_ID (claimed e m) = eq_ID m" "eq_Status (claimed e m) = emailStatusSending" "eq_Attempts (claimed e m) = eq_Attempts m"
  by (simp_all add: claimed_def)

lemma mail_inv_claim:
  fixes n :: nat
  assumes inv: "mail_inv limit rows log held" and idle: "held i = []"
    and timely: "\<forall>j. \<forall>c \<in> set (held j). now e \<le> eq_UpdatedAt c + staleSendingAfter"
  defines "taken \<equiv> \<lambda>m. eq_ID m \<in> set (claim_ids e n rows)"
  shows "mail_inv limit (map (\<lambda>m. if taken m then claimed e m else m) rows) log (held(i := map (claimed e) (filter taken rows)))"
proof -
  have claimable: "claimable e m" if "m \<in> set rows" "taken m" for m
    using claim_ids_claimable [OF inv that(1)] that(2) unfolding taken_def by blast
  have ok: "mail_ok limit log (claimed e m)" if m: "m \<in> set rows" "taken m" for m
    using claimable [OF m] mail_invD(2) [OF inv m(1)] by (auto simp: claimable_def mail_ok_def claimed_def)
  have free: "\<not> taken c" if c: "c \<in> set (held j)" for j c
    using claimable [OF mail_invD(4) [OF inv c]] mail_invD(5) [OF inv c] timely c by (fastforce simp: claimable_def)
  have apart: "eq_ID x \<noteq> eq_ID c" if x: "x \<in> set rows" "taken x" and c: "c \<in> set (held j)" for x c j
    using mail_invD(8) [OF inv x(1) mail_invD(4) [OF inv c]] free [OF c] x(2) by blast
  show ?thesis
  proof (rule mail_invI [OF _ mail_invD(1) [OF inv] _ mail_invD(3) [OF inv]])
    show "map eq_ID (map (\<lambda>m. if taken m then claimed e m else m) rows) = map eq_ID rows"
      by simp
    show "mail_ok limit log x" if "x \<in> set (map (\<lambda>m. if taken m then claimed e m else m) rows)" for x
      using that ok mail_invD(2) [OF inv] by auto
    show "c \<in> set (map (\<lambda>m. if taken m then claimed e m else m) rows) \<and> eq_Status c = emailStatusSending"
      if "c \<in> set ((held(i := map (claimed e) (filter taken rows))) j)" for j c
      using that free [of c j] mail_invD(4,5) [OF inv, of c j] by (auto split: if_splits)
    show "distinct (map eq_ID ((held(i := map (claimed e) (filter taken rows))) j))" for j
      using mail_invD(6) [OF inv] mail_invD(1) [OF inv] by (simp add: comp_def distinct_map_filter)
    show "eq_ID c \<noteq> eq_ID d" if "a \<noteq> b" "c \<in> set ((held(i := map (claimed e) (filter taken rows))) a)"
      "d \<in> set ((held(i := map (claimed e) (filter taken rows))) b)" for a b c d
      using that apart apart [THEN not_sym] mail_invD(7) [OF inv that(1)] by (auto split: if_splits)
  qed
qed

section \<open>Deliveries\<close>

lemma send_run:
  assumes "run_state (sendViaSMTP e m mail) w = (r, w')"
  shows "stmts w' = stmts w" "email_queue w' = email_queue w" "smtp_log w' = smtp_log w \<and> r = Inr () \<or> smtp_log w' = smtp_log w @ [(eq_ID mail, r = Inr ())]"
  using assms by (auto simp: sendViaSMTP_def run_succeed Let_def split: if_splits)

lemma tries_snoc: "tries (log @ [(i, ok)]) j = tries log j + (if i = j then 1 else 0)"
    "deliveries (log @ [(i, ok)]) j = deliveries log j + (if i = j \<and> ok then 1 else 0)"
  by (simp_all add: tries_def deliveries_def)

lemma outcome_ok:
  assumes "mail_ok limit log c" "eq_Status c = emailStatusSending" "log' = log \<and> ok \<or> log' = log @ [(eq_ID c, ok)]"
    and "c1 = c\<lparr>eq_Attempts := eq_Attempts c + 1, eq_UpdatedAt := u\<rparr>"
  shows "mail_ok limit log' ((if ok then afterSend e c1 else afterSendFailure e er c1)\<lparr>eq_UpdatedAt := v\<rparr>)"
  using assms by (auto simp: mail_ok_def afterSend_def afterSendFailure_def Let_def tries_snoc)

lemma outcome_ID: "eq_ID (afterSend e c) = eq_ID c" "eq_ID (afterSendFailure e er c) = eq_ID c"
  by (simp_all add: afterSend_def afterSendFailure_def Let_def)

lemma QueueUpdate_run:
  assumes "\<not> fails e (stmts w)"
  shows "run_state (EmailQueue_Update e c) w = (Inr (), w\<lparr>stmts := Suc (stmts w), email_queue := save_row eq_ID (c\<lparr>eq_UpdatedAt := now e\<rparr>) (email_queue w)\<rparr>)"
  using assms by (auto simp: EmailQueue_Update_def email_queue.Save_run email_queue_clash_def)

lemma mail_inv_deliver:
  assumes inv: "mail_inv limit (email_queue w) (smtp_log w) held" and head: "held i = c # cs" and db: "\<not> fails e (stmts w)"
    and run: "run_state (processEmail e m c) w = (r, w')"
  shows "mail_inv limit (email_queue w') (smtp_log w') (held(i := cs))"
proof -
  define c1 where "c1 = c\<lparr>eq_Attempts := eq_Attempts c + 1, eq_UpdatedAt := now e\<rparr>"
  have c: "c \<in> set (email_queue w)" "eq_Status c = emailStatusSending"
    using mail_invD(4,5) [OF inv, of c i] head by auto
  obtain s v where s: "run_state (sendViaSMTP e m c1) w = (s, v)"
    by fastforce
  define ok where "ok \<longleftrightarrow> s = Inr ()"
  have log: "smtp_log v = smtp_log w \<and> ok \<or> smtp_log v = smtp_log w @ [(eq_ID c, ok)]" and v: "stmts v = stmts w" "email_queue v = email_queue w"
    using send_run [OF s] by (auto simp: ok_def c1_def)
  define c2 where "c2 = (if ok then afterSend e c1 else afterSendFailure e (projl s) c1)\<lparr>eq_UpdatedAt := now e\<rparr>"
  have w': "email_queue w' = save_row eq_ID c2 (email_queue w)" "smtp_log w' = smtp_log v"
    using run s v db unfolding processEmail_def Let_def c1_def [symmetric]
    by (auto simp: run_bind run_failWith run_mapErr QueueUpdate_run c2_def ok_def split: sum.splits)
  have c2: "mail_ok limit (smtp_log v) c2" "eq_ID c2 = eq_ID c"
    unfolding c2_def using outcome_ok [OF mail_invD(2) [OF inv c(1)] c(2) log c1_def] by (auto simp: outcome_ID c1_def)
  have others: "mail_ok limit (smtp_log v) x" if "x \<in> set (email_queue w)" "eq_ID x \<noteq> eq_ID c" for x
    using mail_invD(2) [OF inv that(1)] log that(2) by (auto simp: mail_ok_def tries_snoc)
  have less: "set ((held(i := cs)) j) \<subseteq> set (held j)" for j
    using head by auto
  have gone: "eq_ID x \<noteq> eq_ID c" if x: "x \<in> set ((held(i := cs)) j)" for j x
  proof (cases "j = i")
    case True
    then have "x \<in> set cs" "eq_ID c \<notin> eq_ID ` set cs"
      using mail_invD(6) [OF inv, of i] head x by auto
    then show ?thesis
      by (metis image_eqI)
  next
    case False
    then show ?thesis
      using mail_invD(7) [OF inv False, of x c] head x by auto
  qed
  show ?thesis
    unfolding w'
  proof (rule mail_invI [OF save_ids [OF c(1) c2(2)] mail_invD(1) [OF inv]])
    show "mail_ok limit (smtp_log v) x" if "x \<in> set (save_row eq_ID c2 (email_queue w))" for x
      using that others c2 by (auto simp: save_row_set)
    have logged: "fst ` set (smtp_log v) \<subseteq> insert (eq_ID c) (fst ` set (smtp_log w))" and known: "eq_ID c \<in> set (map eq_ID (email_queue w))"
      using log c(1) by auto
    show "fst ` set (smtp_log v) \<subseteq> set (map eq_ID (email_queue w))"
      by (rule order_trans [OF logged]) (simp only: insert_subset known mail_invD(3) [OF inv] simp_thms)
    show "x \<in> set (save_row eq_ID c2 (email_queue w)) \<and> eq_Status x = emailStatusSending" if "x \<in> set ((held(i := cs)) j)" for j x
      using gone [OF that] mail_invD(4,5) [OF inv, of x j] less [of j] that c2(2) by (auto simp: save_row_set)
    show "distinct (map eq_ID ((held(i := cs)) j))" for j
      using mail_invD(6) [OF inv, of j] head by (auto simp: fun_upd_def split: if_splits)
    show "eq_ID x \<noteq> eq_ID y" if "a \<noteq> b" "x \<in> set ((held(i := cs)) a)" "y \<in> set ((held(i := cs)) b)" for a b x y
      using mail_invD(7) [OF inv that(1), of x y] that less by blast
  qed
qed

section \<open>Resets\<close>

lemma resetFailed_inv:
  assumes "run_state (resetFailed e mails) w = (u, w')" "mail_inv limit (email_queue w) (smtp_log w) held"
    and "\<forall>m \<in> set mails. m \<in> set (email_queue w) \<and> eq_Status m = emailStatusFailed \<and> eq_Attempts m < limit" "distinct (map eq_ID mails)"
  shows "mail_inv limit (email_queue w') (smtp_log w') held"
  using assms
proof (induction mails arbitrary: w)
  case Nil
  then show ?case by (simp add: run_return)
next
  case (Cons m mails)
  let ?m = "m\<lparr>eq_Status := emailStatusPending, eq_ScheduledAt := now e, eq_LastError := [], eq_UpdatedAt := now e\<rparr>"
  obtain x v where x: "run_state (EmailQueue_Update e ?m) w = (x, v)" and rest: "run_state (resetFailed e mails) v = (u, w')"
    using Cons.prems(1) by (auto simp: run_bind split: prod.splits)
  have m: "m \<in> set (email_queue w)" "eq_Status m = emailStatusFailed" "eq_Attempts m < limit"
    using Cons.prems(3) by auto
  have v: "smtp_log v = smtp_log w" "email_queue v = email_queue w \<or> email_queue v = save_row eq_ID ?m (email_queue w)"
    using x by (auto simp: EmailQueue_Update_def email_queue.Save_run split: if_splits)
  have "mail_ok limit (smtp_log w) ?m"
    using mail_invD(2) [OF Cons.prems(2) m(1)] m(2,3) by (auto simp: mail_ok_def)
  moreover have "m \<notin> set (held j)" for j
    using mail_invD(5) [OF Cons.prems(2)] m(2) by fastforce
  ultimately have "mail_inv limit (save_row eq_ID ?m (email_queue w)) (smtp_log w) held"
    by (intro mail_inv_replace [OF Cons.prems(2) m(1)]) auto
  then have inv: "mail_inv limit (email_queue v) (smtp_log v) held"
    using v Cons.prems(2) by auto
  have "y \<in> set (email_queue v)" if "y \<in> set mails" for y
    using v(2) Cons.prems(3,4) that by (auto simp: save_row_set) (metis image_eqI)
  then show ?case
    using Cons.IH [OF rest inv] Cons.prems(3,4) by auto
qed

lemma mail_inv_retry:
  assumes "run_state (RetryFailedEmails e t n) w = (r, w')" "mail_inv limit (email_queue w) (smtp_log w) held" "n \<le> limit"
  shows "mail_inv limit (email_queue w') (smtp_log w') held"
proof -
  define mails where "mails = filter (\<lambda>m. eq_TenantID m = t \<and> eq_Status m = emailStatusFailed \<and> eq_Attempts m < n) (email_queue w)"
  have mails: "\<forall>m \<in> set mails. m \<in> set (email_queue w) \<and> eq_Status m = emailStatusFailed \<and> eq_Attempts m < limit" "distinct (map eq_ID mails)"
    using assms(3) mail_invD(1) [OF assms(2)] by (auto simp: mails_def distinct_map_filter)
  obtain u v where v: "run_state (resetFailed e mails) (w\<lparr>stmts := Suc (stmts w)\<rparr>) = (u, v)"
    by (metis surj_pair)
  have "mail_inv limit (email_queue v) (smtp_log v) held"
    by (rule resetFailed_inv [OF v _ _ mails(2)]) (use assms(2) mails(1) in auto)
  moreover have "w' = w\<lparr>stmts := Suc (stmts w)\<rparr> \<or> w' = v"
    using assms(1) v
    by (auto simp: RetryFailedEmails_def GetFailedEmails_def sqlFind_def run_orReturn run_mapErr run_runSQL run_bind run_succeed Let_def
        mails_def split: if_splits)
  ultimately show ?thesis
    using assms(2) by auto
qed

section \<open>At most once\<close>

lemma mail_reach_inv: "mail_reach limit (w, held) \<Longrightarrow> mail_inv limit (email_queue w) (smtp_log w) held"
proof (induction "(w, held)" arbitrary: w held rule: mail_reach.induct)
  case (Start w)
  then show ?case by (simp add: mail_inv_def)
next
  case (Queue w held e m t req r w')
  then show ?case
    using SendEmail_run [OF Queue(3)] mail_inv_new by fastforce
next
  case (Claim w held i e emails w')
  note c = Claim_run [OF Claim(5)]
  show ?case
    using mail_inv_claim [OF Claim(2,3,4), of 100] c(1,3) c(2) [OF refl] by simp
next
  case (NoClaim w held e er w')
  then show ?case
    using Claim_run [OF NoClaim(3)] by simp
next
  case (Deliver w held i c cs e m r w')
  then show ?case
    using mail_inv_deliver by blast
next
  case (Retry w held n e t r w')
  then show ?case
    using mail_inv_retry by blast
qed

text \<open>C37: However many workers share the queue and whatever SMTP servers answer, a message is delivered at most once, is tried at
  most three times, or as often as a reset asks for, and is marked as sent only with its bodies erased; as long as a worker comes
  to each message it claimed within the time after which others take over, and the outcomes of deliveries can be stored.\<close>

theorem mail_delivered_once:
  assumes "mail_reach limit (w, held)" "m \<in> set (email_queue w)"
  shows "deliveries (smtp_log w) (eq_ID m) \<le> 1 \<and> int (tries (smtp_log w) (eq_ID m)) \<le> max 3 limit
    \<and> (deliveries (smtp_log w) (eq_ID m) = 1 \<longrightarrow> eq_Status m = ''sent'')
    \<and> (eq_Status m = ''sent'' \<longrightarrow> eq_BodyHTML m = [] \<and> eq_BodyText m = [])"
  using mail_invD(2) [OF mail_reach_inv [OF assms(1)] assms(2)] by (auto simp: mail_ok_def split: if_splits)

end
