(* ===== verification/MailSamples.thy ===== *)
theory MailSamples
  imports MailQueue
begin

text \<open>The worker's round as steps of the queue, what a queued message can contain, and one message on its way.\<close>

section \<open>A round of the worker\<close>

lemma processEmails_reach:
  assumes "mail_reach limit (w, held(i := emails))" "\<forall>n. \<not> fails e n"
  shows "mail_reach limit (snd (run_state (processEmails e m emails) w), held(i := []))"
  using assms(1)
proof (induction emails arbitrary: w)
  case Nil
  then show ?case by (simp add: run_return)
next
  case (Cons c cs)
  obtain r v where r: "run_state (processEmail e m c) w = (r, v)"
    by fastforce
  have "mail_reach limit (v, (held(i := c # cs))(i := cs))"
    by (rule Deliver [OF Cons.prems _ _ r]) (simp_all add: assms(2))
  then have "mail_reach limit (v, held(i := cs))"
    by simp
  from Cons.IH [OF this] show ?case
    using r by (simp add: run_bind)
qed

text \<open>\<^const>\<open>ProcessQueue\<close> is a claim and the deliveries of its batch, so it stays within the reachable states.\<close>

lemma ProcessQueue_reach:
  assumes "mail_reach limit (w, held)" "held i = []" "\<forall>j. \<forall>c \<in> set (held j). now e \<le> eq_UpdatedAt c + staleSendingAfter"
    "\<forall>n. \<not> fails e n"
  shows "mail_reach limit (snd (run_state (ProcessQueue e m) w), held)"
proof -
  obtain emails v where v: "run_state (GetPendingEmails e 100) w = (Inr emails, v)"
    using assms(4) by (simp add: GetPendingEmails_def run_mapErr run_runSQL Let_def)
  have "mail_reach limit (snd (run_state (processEmails e m emails) v), held(i := []))"
    by (rule processEmails_reach [OF Claim [OF assms(1-3) v] assms(4)])
  moreover have "held(i := []) = held"
    using assms(2) by auto
  moreover have "snd (run_state (ProcessQueue e m) w) = snd (run_state (processEmails e m emails) v)"
    using v by (simp add: ProcessQueue_def run_orReturn run_bind run_succeed split: prod.split)
  ultimately show ?thesis
    by simp
qed

text \<open>The mail service is a sender as the account service requires it: it leaves users, sessions and tokens alone.\<close>

interpretation crd: world_preorder "framing credentials"
  by unfold_locales (simp add: framing_def credentials_def)

lemma mail_sender_quiet: "quiet_sender (Some (SendTemplateEmail e m))"
proof -
  have "steps (framing credentials) (EmailQueue_Create e mail)" for mail
    unfolding EmailQueue_Create_def by (rule crd.steps_sqlInsert) (simp add: framing_def credentials_def)
  then have "steps (framing credentials) (SendEmail e m t req)" for t req
    unfolding SendEmail_def EmailTemplate_GetByName_def by (intro crd.world_steps)
  then show ?thesis
    by (simp add: quiet_sender_def SendTemplateEmail_def)
qed

section \<open>Content of a message\<close>

definition is_newline :: "char \<Rightarrow> bool" where
  "is_newline c \<longleftrightarrow> byte_code c = 13 \<or> byte_code c = 10"

lemma no_newline: "\<forall>c \<in> set s. \<not> is_newline c \<Longrightarrow> filter is_newline s = []"
  by simp

lemma sanitized_newline: "\<forall>c \<in> set (sanitizeHeader s). \<not> is_newline c"
  using sanitized by (auto simp: is_newline_def)

lemma header_newlines:
  assumes "\<forall>s. (\<forall>c \<in> set s. \<not> is_newline c) \<longrightarrow> (\<forall>c \<in> set (ml_QEncode m s). \<not> is_newline c)" "\<forall>c \<in> set boundary. \<not> is_newline c"
  shows "filter is_newline (mimeHeader m boundary from to subject) = concat (replicate 6 crlf)"
proof -
  have "filter is_newline (ml_QEncode m (sanitizeHeader subject)) = []" "filter is_newline boundary = []"
    "filter is_newline (sanitizeHeader from) = []" "filter is_newline (sanitizeHeader to) = []"
    using assms sanitized_newline by (intro no_newline; blast)+
  then show ?thesis
    by (simp add: mimeHeader_def crlf_def is_newline_def byte_code_def numeral_eq_Suc)
qed

text \<open>C38: What a user controls cannot break out of its place in a message. A queued message comes from the tenant's own active
  template of the name or the built-in one, is due at once and not yet tried; its subject has no line break, its header has exactly the
  six line breaks the format gives it whatever the names and addresses are, and the HTML body has no markup character that the
  template does not have, in the template's order.\<close>

theorem email_content_safe:
  assumes "run_state (SendEmail e m t req) w = (Inr u, w')" "\<forall>vs. set (ml_range m 1 vs) = set vs"
    and "\<forall>(key, val) \<in> set (sr_Variables req). filter is_markup key = []"
    and "\<forall>s. (\<forall>c \<in> set s. \<not> is_newline c) \<longrightarrow> (\<forall>c \<in> set (ml_QEncode m s). \<not> is_newline c)"
  shows "\<exists>template mail. template_for w t (sr_Template req) = Some template \<and> et_IsActive template
    \<and> email_queue w' = email_queue w @ [mail] \<and> eq_Status mail = emailStatusPending \<and> eq_Attempts mail = 0 \<and> eq_ScheduledAt mail = now e
    \<and> eq_TenantID mail = t \<and> eq_ToEmail mail = sr_ToEmail req
    \<and> (\<forall>c \<in> set (eq_Subject mail). \<not> is_newline c)
    \<and> (\<forall>boundary from to. (\<forall>c \<in> set boundary. \<not> is_newline c)
         \<longrightarrow> filter is_newline (mimeHeader m boundary from to (eq_Subject mail)) = concat (replicate 6 crlf))
    \<and> filter is_markup (eq_BodyHTML mail) = filter is_markup (et_BodyHTML template)"
proof -
  obtain template where template: "email_queue w' = email_queue w @ [queuedEmail e m (newUUID e (draws w)) t req template]"
    "template_for w t (sr_Template req) = Some template" "et_IsActive template"
    using SendEmail_run(2) [OF assms(1)] SendEmail_run(3) [OF assms(1) refl] by blast
  have "filter is_markup (processTemplate (et_BodyHTML template) (ml_range m 1 (sr_Variables req)) (Some html_EscapeString))
      = filter is_markup (et_BodyHTML template)"
    by (rule processTemplate_markup) (use assms(2,3) in auto)
  then show ?thesis
    using template header_newlines [OF assms(4)] sanitized_newline
    by (intro exI [of _ template] exI [of _ "queuedEmail e m (newUUID e (draws w)) t req template"])
      (auto simp: queuedEmail_def emailStatusPending_def)
qed

text \<open>A value may itself name a placeholder: what it stands for then depends on the order in which the map is read.\<close>

lemma placeholder_order:
  "processTemplate ''Hi {{user_name}}'' [(''user_name'', ''{{reset_link}}''), (''reset_link'', ''link'')] None = ''Hi link''
   \<and> processTemplate ''Hi {{user_name}}'' [(''reset_link'', ''link''), (''user_name'', ''{{reset_link}}'')] None = ''Hi {{reset_link}}''"
  unfolding processTemplate_def by code_simp

section \<open>One message\<close>

definition sample_mailer :: mailer where
  "sample_mailer = \<lparr>ml_SMTPHost = ''mx'', ml_SMTPUser = [], ml_SMTPUseTLS = False, ml_SMTPFrom = ''no-reply@id'', ml_SMTPFromName = ''Id'',
     ml_range = (\<lambda>_ vs. vs), ml_QEncode = (\<lambda>s. s), ml_STARTTLS = (\<lambda>_. False), ml_answer = (\<lambda>_ _ _. None)\<rparr>"

definition sample_mail_request :: SendEmailRequest where
  "sample_mail_request = \<lparr>sr_ToEmail = ''a@x.io'', sr_ToName = ''Alice'', sr_Template = ''password_changed'',
     sr_Variables = [(''user_name'', ''<b>'')], sr_Priority = 1\<rparr>"

lemma sample_template: "\<exists>template. defaultEmailTemplates ''password_changed'' = Some template \<and> et_IsActive template"
  by (simp add: defaultEmailTemplates_def default_template_def)

lemma sample_queued:
  "\<exists>template w'. run_state (SendEmail sample_env sample_mailer 1 sample_mail_request) empty_world = (Inr (), w')
     \<and> email_queue w' = [queuedEmail sample_env sample_mailer 100 1 sample_mail_request template] \<and> smtp_log w' = [] \<and> stmts w' = 2"
proof -
  obtain template where t: "defaultEmailTemplates ''password_changed'' = Some template" "et_IsActive template"
    using sample_template by blast
  have env: "fails sample_env k = False" "newUUID sample_env n = of_nat (n + 100)" for k n
    by (simp_all add: sample_env_def)
  show ?thesis
    by (intro exI [of _ template])
      (simp add: SendEmail_def run_bind GetByName_run run_mapErr run_uuid_New Create_queued email_queue.Insert_run env t
        sample_mail_request_def empty_world_def)
qed

lemma email_content_safe_witness:
  "\<exists>w' template mail. run_state (SendEmail sample_env sample_mailer 1 sample_mail_request) empty_world = (Inr (), w')
     \<and> template_for empty_world 1 ''password_changed'' = Some template \<and> email_queue w' = [mail]
     \<and> filter is_markup (eq_BodyHTML mail) = filter is_markup (et_BodyHTML template)"
proof -
  obtain w' where run: "run_state (SendEmail sample_env sample_mailer 1 sample_mail_request) empty_world = (Inr (), w')"
    using sample_queued by blast
  have "filter is_markup ''user_name'' = []"
    by (simp add: is_markup_def)
  then show ?thesis
    using email_content_safe [OF run] run by (fastforce simp: sample_mailer_def sample_mail_request_def empty_world_def)
qed

lemma mail_delivered_once_witness:
  "\<exists>w held m. mail_reach 3 (w, held) \<and> m \<in> set (email_queue w) \<and> eq_Status m = ''sent'' \<and> eq_BodyHTML m = []
     \<and> deliveries (smtp_log w) (eq_ID m) \<le> 1"
proof -
  obtain template w1 where w1: "run_state (SendEmail sample_env sample_mailer 1 sample_mail_request) empty_world = (Inr (), w1)"
    "email_queue w1 = [queuedEmail sample_env sample_mailer 100 1 sample_mail_request template]" "smtp_log w1 = []"
    using sample_queued by blast
  define w2 where "w2 = snd (run_state (ProcessQueue sample_env sample_mailer) w1)"
  have env: "fails sample_env k = False" for k
    by (simp add: sample_env_def)
  have start: "mail_reach 3 (w1, \<lambda>_. [])"
    by (rule Queue [OF Start w1(1)]) (simp_all add: empty_world_def)
  have reach: "mail_reach 3 (w2, \<lambda>_. [])"
    unfolding w2_def by (rule ProcessQueue_reach [OF start]) (simp_all add: env)
  have "claim_ids sample_env 100 (email_queue w1) = [100]"
    by (simp add: w1(2) claim_ids_def claimable_def queuedEmail_def emailStatusPending_def)
  then have "\<exists>m. email_queue w2 = [m] \<and> eq_Status m = ''sent''"
    by (simp add: w2_def ProcessQueue_def GetPendingEmails_def run_orReturn run_mapErr run_runSQL run_bind run_succeed run_return Let_def env
        w1(2) processEmail_def sendViaSMTP_def sample_mailer_def smtpSteps_def QueueUpdate_run afterSend_def save_row_def split: prod.split)
  then obtain m where m: "email_queue w2 = [m]" "eq_Status m = ''sent''"
    by blast
  then have "m \<in> set (email_queue w2)" by simp
  then show ?thesis
    using mail_delivered_once [OF reach] reach m(2) by blast
qed

end
