(* ===== verification/SignedTokens.thy ===== *)
theory SignedTokens
  imports BrowserSamples
begin

text \<open>The signed values a browser carries: the token between the two factors and the CSRF token.\<close>

lemma b64_char_in: "b64_char n \<in> set b64_alphabet"
proof -
  have "length b64_alphabet = 64"
    by (simp add: b64_alphabet_def)
  then show ?thesis
    by (simp add: b64_char_def nat_less_iff)
qed

lemma b64url_chars: "c \<in> set (b64url s) \<Longrightarrow> c \<in> set b64_alphabet"
  using b64_bytes_chars b64_char_in by (fastforce simp: b64url_def)

lemma b64url_no: "CHR ''.'' \<notin> set (b64url s)" "CHR ''+'' \<notin> set (b64url s)" "CHR ''/'' \<notin> set (b64url s)"
  using b64url_chars by (fastforce simp: b64_alphabet_def)+

lemma b64url_roundtrip: "b64url_DecodeString (b64url s) = Some s"
  using b64std_roundtrip [of s] by (simp add: b64url_DecodeString_def b64url_no b64std_EncodeToString_def)

lemma Cut_dot:
  assumes "CHR ''.'' \<notin> set a"
  shows "strings_Cut CHR ''.'' (a @ CHR ''.'' # b) = Some (a, b)"
proof -
  have "\<forall>x \<in> set a. x \<noteq> CHR ''.''"
    using assms by auto
  then show ?thesis
    by (simp add: strings_Cut_def takeWhile_append2 dropWhile_append2)
qed

lemma Cut_Some:
  assumes "strings_Cut CHR ''.'' s = Some (a, b)"
  shows "s = a @ CHR ''.'' # b"
proof -
  have "CHR ''.'' \<in> set s"
    using assms by (simp add: strings_Cut_def split: if_splits)
  then obtain a2 b2 where "s = a2 @ CHR ''.'' # b2" "CHR ''.'' \<notin> set a2"
    using split_list_first by metis
  then show ?thesis
    using assms Cut_dot [of a2 b2] by simp
qed

lemma sign_eq: "signCSRFValue secret a = signCSRFValue secret b \<longleftrightarrow> hmac sha256 secret a = hmac sha256 secret b"
  by (simp add: signCSRFValue_def b64url_inj)

definition pending :: "env \<Rightarrow> uuid \<Rightarrow> uuid \<Rightarrow> string \<Rightarrow> mfaPending" where
  "pending e t u purpose = \<lparr>pd_TenantID = uuidString e t, pd_UserID = uuidString e u, pd_Purpose = purpose,
     pd_Expires = time_unix (now e + mfaPendingTTL)\<rparr>"

text \<open>C39: The token that carries a passed password check to the second factor names its user again within its five minutes, for the
  same tenant and the same purpose, and nothing otherwise. Whatever is accepted as such a token bears the secret's HMAC of its own
  payload under the prefix of these tokens; where the same string also passes as a CSRF token, the HMAC of that payload with the
  prefix and the one without it are the same.\<close>

theorem pending_token_roundtrip:
  assumes "wl_Unmarshal l (wl_Marshal l (pending e t u purpose)) = Some (pending e t u purpose)" "\<forall>u. uuidParse e2 (uuidString e2 u) = Some u" "uuidString e2 = uuidString e"
  shows "parseMFAPendingToken e2 l secret (newMFAPendingToken l secret (pending e t u purpose)) t2 purpose2
      = (if t2 = t \<and> purpose2 = purpose \<and> time_unix (now e2) \<le> time_unix (now e + mfaPendingTTL) then Some u else None)
    \<and> (\<forall>tok u2 cookie. parseMFAPendingToken e2 l secret tok t2 purpose2 = Some u2 \<longrightarrow>
         (\<exists>payload. tok = payload @ ''.'' @ b64url (hmac sha256 secret (''mfa-pending:'' @ payload))
           \<and> (validateCSRFToken secret tok cookie \<longrightarrow> hmac sha256 secret (''mfa-pending:'' @ payload) = hmac sha256 secret payload)))"
proof (intro conjI allI impI)
  have inj: "uuidString e t2 = uuidString e t \<longleftrightarrow> t2 = t"
    using assms(2,3) by (metis option.inject)
  show "parseMFAPendingToken e2 l secret (newMFAPendingToken l secret (pending e t u purpose)) t2 purpose2
      = (if t2 = t \<and> purpose2 = purpose \<and> time_unix (now e2) \<le> time_unix (now e + mfaPendingTTL) then Some u else None)"
    using assms inj
    by (auto simp: parseMFAPendingToken_def newMFAPendingToken_def Let_def Cut_dot b64url_no b64url_roundtrip pending_def)
next
  fix tok u2 cookie
  assume p: "parseMFAPendingToken e2 l secret tok t2 purpose2 = Some u2"
  then obtain payload sig where cut: "strings_Cut CHR ''.'' tok = Some (payload, sig)"
    and sig: "sig = signCSRFValue secret (''mfa-pending:'' @ payload)"
    by (auto simp: parseMFAPendingToken_def split: option.splits if_splits)
  have tok: "tok = payload @ ''.'' @ b64url (hmac sha256 secret (''mfa-pending:'' @ payload))"
    using Cut_Some [OF cut] sig by (simp add: signCSRFValue_def)
  have "hmac sha256 secret (''mfa-pending:'' @ payload) = hmac sha256 secret payload" if "validateCSRFToken secret tok cookie"
  proof -
    have "sig = signCSRFValue secret payload"
      using that cut by (simp add: validateCSRFToken_def split: if_splits)
    then show ?thesis
      using sig by (simp only: sign_eq [symmetric])
  qed
  with tok show "\<exists>payload. tok = payload @ ''.'' @ b64url (hmac sha256 secret (''mfa-pending:'' @ payload))
      \<and> (validateCSRFToken secret tok cookie \<longrightarrow> hmac sha256 secret (''mfa-pending:'' @ payload) = hmac sha256 secret payload)"
    by blast
qed

lemma pending_token_roundtrip_witness:
  "\<exists>l. parseMFAPendingToken (sample_env\<lparr>now := 2000\<rparr>) l ''key'' (newMFAPendingToken l ''key'' (pending sample_env 1 7 mfaPurposeLogin)) 1 mfaPurposeLogin
       = Some 7
     \<and> parseMFAPendingToken (sample_env\<lparr>now := 2000\<rparr>) l ''key'' (newMFAPendingToken l ''key'' (pending sample_env 1 7 mfaPurposeLogin)) 1 mfaPurposeDevice
       = None"
proof -
  define l where "l = \<lparr>wl_Marshal = (\<lambda>_. ''{}''), wl_Unmarshal = (\<lambda>_. Some (pending sample_env 1 7 mfaPurposeLogin)), wl_URLWith = (\<lambda>u ps. Some u)\<rparr>"
  have lib: "wl_Unmarshal l (wl_Marshal l (pending sample_env 1 7 mfaPurposeLogin)) = Some (pending sample_env 1 7 mfaPurposeLogin)"
    by (simp add: l_def)
  have ids: "\<forall>u. uuidParse (sample_env\<lparr>now := 2000\<rparr>) (uuidString (sample_env\<lparr>now := 2000\<rparr>) u) = Some u"
    "uuidString (sample_env\<lparr>now := 2000\<rparr>) = uuidString sample_env"
    by (simp_all add: sample_env_def)
  have "time_unix (now (sample_env\<lparr>now := 2000\<rparr>)) \<le> time_unix (now sample_env + mfaPendingTTL)" "mfaPurposeDevice \<noteq> mfaPurposeLogin"
    by (simp_all add: sample_env_def mfaPendingTTL_def time_unix_def seconds_small nanosecond_per_second_def mfaPurposeLogin_def mfaPurposeDevice_def)
  then show ?thesis
    using pending_token_roundtrip [OF lib ids] by (intro exI [of _ l]) simp
qed

end
