(* ===== verification/ManagementApi.thy ===== *)
theory ManagementApi
  imports Authorize Registration Idempotency
begin

text \<open>The management API (\<^verbatim>\<open>/v1\<close>): the JSON handlers of tenants, users, second factors, clients, initial access tokens, roles and
  permissions (\<^verbatim>\<open>internal/handlers/*_handler.go\<close>), the guard of each route, and the chain in front of them. Audit records and log
  lines are left out, and so are the routes of the audit log and the list of permissions.\<close>

section \<open>Requests and replies\<close>

text \<open>The rest of the data \<^verbatim>\<open>ShouldBindJSON\<close> reads from bodies, and that function for each type, which is \<^verbatim>\<open>encoding/json\<close> and gin's
  validation by tags: an error text or the request.\<close>

record AssignRoleRequest =
  asr_UserID :: uuid
  asr_ExpiresAt :: "go_time option"

record ChangePasswordRequest =
  cpw_OldPassword :: string
  cpw_NewPassword :: string

record bindlib =
  bd_CreateTenant :: "string \<Rightarrow> string + CreateTenantRequest"
  bd_UpdateTenant :: "string \<Rightarrow> string + UpdateTenantRequest"
  bd_CreateUser :: "string \<Rightarrow> string + CreateUserRequest"
  bd_UpdateUser :: "string \<Rightarrow> string + UpdateUserRequest"
  bd_ChangePassword :: "string \<Rightarrow> string + ChangePasswordRequest"
  bd_MFACode :: "string \<Rightarrow> string + string"
  bd_CreateClient :: "string \<Rightarrow> string + CreateClientRequest"
  bd_UpdateClient :: "string \<Rightarrow> string + UpdateClientRequest"
  bd_CreateInitialAccessToken :: "string \<Rightarrow> string + CreateInitialAccessTokenRequest"
  bd_CreateRole :: "string \<Rightarrow> string + CreateRoleRequest"
  bd_UpdateRole :: "string \<Rightarrow> string + UpdateRoleRequest"
  bd_PermissionID :: "string \<Rightarrow> string + uuid"
  bd_AssignRole :: "string \<Rightarrow> string + AssignRoleRequest"
  bd_CreatePermission :: "string \<Rightarrow> string + CreatePermissionRequest"
  bd_UpdatePermission :: "string \<Rightarrow> string + UpdatePermissionRequest"

datatype api_data =
    NoData
  | TenantData Tenant | TenantPage "Tenant list" PageInfo
  | UserData User | UserPage "User list" PageInfo
  | MFAStatusData MFAStatus | EnrollmentData TOTPEnrollment | RecoveryCodes "string list"
  | ClientData Client | ClientPage "Client list" PageInfo
  | TokenData InitialAccessToken string | TokenList "InitialAccessToken list"
  | RoleData Role | RolePage "Role list" PageInfo | RoleList "Role list"
  | PermissionData Permission | PermissionList "Permission list"
  | Message string

text \<open>\<open>Respond\<close>: status, the field \<^verbatim>\<open>success\<close>, headers, data; \<open>RespondError\<close>: status, code, message, details; \<open>StatusOnly\<close>: no body.
  The request ID of the body is that of the context.\<close>

datatype api_answer =
  Respond int bool "(string \<times> string) list" api_data | RespondError int string string "(string \<times> string) list" | StatusOnly int

definition RespondWithSuccess :: "int \<Rightarrow> api_data \<Rightarrow> (world, api_answer) state" where
  "RespondWithSuccess status data = State_Monad.return (Respond status True [] data)"

definition RespondWithError :: "int \<Rightarrow> string \<Rightarrow> string \<Rightarrow> (string \<times> string) list \<Rightarrow> (world, api_answer) state" where
  "RespondWithError status code message details = State_Monad.return (RespondError status code message details)"

text \<open>The parts every handler starts with: the tenant of the context, an identifier of the path, the body.\<close>

definition withTenant :: "http_req \<Rightarrow> (uuid \<Rightarrow> (world, api_answer) state) \<Rightarrow> (world, api_answer) state" where
  "withTenant q k =
     (case GetTenantID (hq_gin q) of
        None \<Rightarrow> RespondWithError 401 ''UNAUTHORIZED'' ''Invalid tenant context'' []
      | Some tenantID \<Rightarrow> k tenantID)"

definition withID :: "env \<Rightarrow> http_req \<Rightarrow> string \<Rightarrow> string \<Rightarrow> (uuid \<Rightarrow> (world, api_answer) state) \<Rightarrow> (world, api_answer) state" where
  "withID e q name message k =
     (case uuidParse e (g_Param (hq_gin q) name) of
        None \<Rightarrow> RespondWithError 400 ''INVALID_REQUEST'' message []
      | Some i \<Rightarrow> k i)"

definition withBody ::
  "(string \<Rightarrow> string + 'a) \<Rightarrow> http_req \<Rightarrow> string \<Rightarrow> ('a \<Rightarrow> (world, api_answer) state) \<Rightarrow> (world, api_answer) state" where
  "withBody readBody q message k =
     (case readBody (g_Body (hq_gin q)) of
        Inl er \<Rightarrow> RespondWithError 400 ''VALIDATION_FAILED'' message [(''validation_errors'', er)]
      | Inr req \<Rightarrow> k req)"

definition serve :: "'a op \<Rightarrow> (err \<Rightarrow> (world, api_answer) state) \<Rightarrow> ('a \<Rightarrow> (world, api_answer) state) \<Rightarrow> (world, api_answer) state" where
  "serve m failed k = do { r \<leftarrow> m; case r of Inl er \<Rightarrow> failed er | Inr x \<Rightarrow> k x }"

text \<open>An error compared with \<^verbatim>\<open>==\<close> against one sentinel.\<close>

definition notFoundOr500 :: "err \<Rightarrow> string \<Rightarrow> string \<Rightarrow> err \<Rightarrow> (world, api_answer) state" where
  "notFoundOr500 sentinel missing message er =
     (if er = sentinel then RespondWithError 404 ''RESOURCE_NOT_FOUND'' missing []
      else RespondWithError 500 ''INTERNAL_ERROR'' message [])"

section \<open>Pages\<close>

text \<open>\<open>pageParams\<close>: as \<^verbatim>\<open>ListUsers\<close> and \<^verbatim>\<open>ListClients\<close> do it, a missing parameter counting as its default.\<close>

definition pageParams :: "http_req \<Rightarrow> int \<times> int" where
  "pageParams q =
     ((case strconv_Atoi (hq_Query q ''limit'') of Some n \<Rightarrow> if n < 1 \<or> n > 100 then 20 else n | None \<Rightarrow> 20),
      (case strconv_Atoi (hq_Query q ''offset'') of Some n \<Rightarrow> if n < 0 then 0 else n | None \<Rightarrow> 0))"

definition getPaginationParams :: "http_req \<Rightarrow> int \<times> int" where
  "getPaginationParams q =
     ((if hq_Query q ''limit'' \<noteq> []
       then (case strconv_Atoi (hq_Query q ''limit'') of Some n \<Rightarrow> if n > 0 \<and> n \<le> 100 then n else 20 | None \<Rightarrow> 20) else 20),
      (if hq_Query q ''offset'' \<noteq> []
       then (case strconv_Atoi (hq_Query q ''offset'') of Some n \<Rightarrow> if n \<ge> 0 then n else 0 | None \<Rightarrow> 0) else 0))"

section \<open>Tenants\<close>

text \<open>The error details name the resource; identifiers are told as sent.\<close>

definition withTenantParam :: "env \<Rightarrow> http_req \<Rightarrow> (uuid \<Rightarrow> (world, api_answer) state) \<Rightarrow> (world, api_answer) state" where
  "withTenantParam e q k =
     (case uuidParse e (g_Param (hq_gin q) ''id'') of
        None \<Rightarrow> RespondWithError 400 ''INVALID_REQUEST'' ''Invalid tenant ID format'' [(''tenant_id'', g_Param (hq_gin q) ''id'')]
      | Some i \<Rightarrow> k i)"

definition withTenantBody :: "(string \<Rightarrow> string + 'a) \<Rightarrow> http_req \<Rightarrow> ('a \<Rightarrow> (world, api_answer) state) \<Rightarrow> (world, api_answer) state" where
  "withTenantBody readBody q k =
     (case readBody (g_Body (hq_gin q)) of
        Inl er \<Rightarrow> RespondWithError 400 ''VALIDATION_FAILED'' ''Invalid request format'' [(''validation_error'', er)]
      | Inr req \<Rightarrow> k req)"

definition tenantMissing :: "env \<Rightarrow> uuid \<Rightarrow> (world, api_answer) state" where
  "tenantMissing e i = RespondWithError 404 ''RESOURCE_NOT_FOUND'' ''Tenant not found''
     [(''resource_type'', ''tenant''), (''resource_id'', uuidString e i)]"

definition domainTaken :: "string \<Rightarrow> (world, api_answer) state" where
  "domainTaken domain = RespondWithError 409 ''DUPLICATE_RESOURCE'' ''Tenant with this domain already exists'' [(''domain'', domain)]"

text \<open>\<^verbatim>\<open>CreateTenant\<close> writes its reply itself, without the field \<^verbatim>\<open>success\<close>.\<close>

definition TenantHandler_CreateTenant :: "env \<Rightarrow> bindlib \<Rightarrow> http_req \<Rightarrow> (world, api_answer) state" where
  "TenantHandler_CreateTenant e b q =
     withTenantBody (bd_CreateTenant b) q (\<lambda>req.
     serve (CreateTenant e req)
       (\<lambda>er. if er = ErrMsg (''tenant with domain '' @ ctr_Domain req @ '' already exists'') then domainTaken (ctr_Domain req)
             else RespondWithError 500 ''INTERNAL_ERROR'' ''Failed to create tenant'' [])
       (\<lambda>tenant. State_Monad.return (Respond 201 False [] (TenantData tenant))))"

definition TenantHandler_GetTenant :: "env \<Rightarrow> http_req \<Rightarrow> (world, api_answer) state" where
  "TenantHandler_GetTenant e q =
     withTenantParam e q (\<lambda>i.
     serve (GetTenantByID e i)
       (\<lambda>er. if er = ErrTenantNotFound then tenantMissing e i
             else RespondWithError 500 ''INTERNAL_ERROR'' ''Failed to retrieve tenant'' [])
       (\<lambda>tenant. RespondWithSuccess 201 (TenantData tenant)))"

definition TenantHandler_ListTenants :: "env \<Rightarrow> http_req \<Rightarrow> (world, api_answer) state" where
  "TenantHandler_ListTenants e q =
     (case getPaginationParams q of (limit, offset) \<Rightarrow>
     serve (ListTenants e limit offset)
       (\<lambda>er. RespondWithError 500 ''INTERNAL_ERROR'' ''Failed to retrieve tenants'' [])
       (\<lambda>(items, page). RespondWithSuccess 200 (TenantPage items page)))"

definition TenantHandler_UpdateTenant :: "env \<Rightarrow> bindlib \<Rightarrow> http_req \<Rightarrow> (world, api_answer) state" where
  "TenantHandler_UpdateTenant e b q =
     withTenantParam e q (\<lambda>i.
     withTenantBody (bd_UpdateTenant b) q (\<lambda>req.
     serve (UpdateTenant e i req)
       (\<lambda>er. if er = ErrTenantNotFound then tenantMissing e i
             else if er = ErrMsg (''tenant with domain '' @ utr_Domain req @ '' already exists'') then domainTaken (utr_Domain req)
             else RespondWithError 500 ''INTERNAL_ERROR'' ''Failed to update tenant'' [])
       (\<lambda>tenant. RespondWithSuccess 200 (TenantData tenant))))"

definition TenantHandler_DeleteTenant :: "env \<Rightarrow> http_req \<Rightarrow> (world, api_answer) state" where
  "TenantHandler_DeleteTenant e q =
     withTenantParam e q (\<lambda>i.
     serve (DeleteTenant e i)
       (\<lambda>er. if er = ErrTenantNotFound then tenantMissing e i
             else RespondWithError 500 ''INTERNAL_ERROR'' ''Failed to delete tenant'' [])
       (\<lambda>_. State_Monad.return (StatusOnly 204)))"

section \<open>Users\<close>

definition UserHandler_CreateUser :: "env \<Rightarrow> bindlib \<Rightarrow> email_sender \<Rightarrow> http_req \<Rightarrow> (world, api_answer) state" where
  "UserHandler_CreateUser e b emails q =
     withTenant q (\<lambda>tenantID.
     withBody (bd_CreateUser b) q ''Invalid request body'' (\<lambda>req.
     serve (CreateUser e tenantID req)
       (\<lambda>er. RespondWithError 500 ''INTERNAL_ERROR'' ''Failed to create user'' [])
       (\<lambda>user. do {
          _ \<leftarrow> (if \<not> u_EmailVerified user then SendVerificationEmail e emails tenantID (u_ID user) else succeed ());
          RespondWithSuccess 201 (UserData (user\<lparr>u_PasswordHash := []\<rparr>))
        })))"

definition UserHandler_GetUser :: "env \<Rightarrow> http_req \<Rightarrow> (world, api_answer) state" where
  "UserHandler_GetUser e q =
     withTenant q (\<lambda>tenantID.
     withID e q ''user_id'' ''Invalid user ID format'' (\<lambda>userID.
     serve (GetUserByID e tenantID userID) (notFoundOr500 ErrUserNotFound ''User not found'' ''Failed to get user'')
       (\<lambda>user. RespondWithSuccess 200 (UserData (user\<lparr>u_PasswordHash := []\<rparr>)))))"

definition UserHandler_UpdateUser :: "env \<Rightarrow> bindlib \<Rightarrow> http_req \<Rightarrow> (world, api_answer) state" where
  "UserHandler_UpdateUser e b q =
     withTenant q (\<lambda>tenantID.
     withID e q ''user_id'' ''Invalid user ID format'' (\<lambda>userID.
     withBody (bd_UpdateUser b) q ''Invalid request body'' (\<lambda>req.
     serve (UpdateUser e tenantID userID req) (notFoundOr500 ErrUserNotFound ''User not found'' ''Failed to update user'')
       (\<lambda>user. RespondWithSuccess 200 (UserData (user\<lparr>u_PasswordHash := []\<rparr>))))))"

definition UserHandler_DeleteUser :: "env \<Rightarrow> http_req \<Rightarrow> (world, api_answer) state" where
  "UserHandler_DeleteUser e q =
     withTenant q (\<lambda>tenantID.
     withID e q ''user_id'' ''Invalid user ID format'' (\<lambda>userID.
     serve (DeleteUser e tenantID userID) (notFoundOr500 ErrUserNotFound ''User not found'' ''Failed to delete user'')
       (\<lambda>_. RespondWithSuccess 200 (Message ''User deleted successfully''))))"

definition UserHandler_ListUsers :: "env \<Rightarrow> http_req \<Rightarrow> (world, api_answer) state" where
  "UserHandler_ListUsers e q =
     withTenant q (\<lambda>tenantID.
     (case pageParams q of (limit, offset) \<Rightarrow>
     serve (ListUsers e tenantID limit offset)
       (\<lambda>er. RespondWithError 500 ''INTERNAL_ERROR'' ''Failed to list users'' [])
       (\<lambda>(items, page). RespondWithSuccess 200 (UserPage items page))))"

definition UserHandler_ChangePassword :: "env \<Rightarrow> bindlib \<Rightarrow> email_sender \<Rightarrow> http_req \<Rightarrow> (world, api_answer) state" where
  "UserHandler_ChangePassword e b emails q =
     withTenant q (\<lambda>tenantID.
     withID e q ''user_id'' ''Invalid user ID format'' (\<lambda>userID.
     withBody (bd_ChangePassword b) q ''Invalid request body'' (\<lambda>req.
     serve (ChangePassword e emails tenantID userID (cpw_OldPassword req) (cpw_NewPassword req))
       (\<lambda>er. if er = ErrUserNotFound then RespondWithError 404 ''RESOURCE_NOT_FOUND'' ''User not found'' []
             else if er = ErrInvalidCredentials then RespondWithError 400 ''VALIDATION_FAILED'' ''Current password is incorrect'' []
             else RespondWithError 500 ''INTERNAL_ERROR'' ''Failed to change password'' [])
       (\<lambda>_. RespondWithSuccess 200 (Message ''Password changed successfully'')))))"

definition UserHandler_SendVerificationEmail :: "env \<Rightarrow> email_sender \<Rightarrow> http_req \<Rightarrow> (world, api_answer) state" where
  "UserHandler_SendVerificationEmail e emails q =
     withTenant q (\<lambda>tenantID.
     withID e q ''user_id'' ''Invalid user ID format'' (\<lambda>userID.
     serve (SendVerificationEmail e emails tenantID userID)
       (\<lambda>er. if errors_Is er ErrUserNotFound then RespondWithError 404 ''RESOURCE_NOT_FOUND'' ''User not found'' []
             else if errors_Is er ErrEmailAlreadyVerified then RespondWithError 409 ''RESOURCE_CONFLICT'' ''Email is already verified'' []
             else RespondWithError 500 ''INTERNAL_ERROR'' ''Failed to send verification email'' [])
       (\<lambda>_. State_Monad.return (StatusOnly 202))))"

section \<open>Second factors\<close>

text \<open>The messages have a dash that is not ASCII.\<close>

definition MFAHandler_target :: "env \<Rightarrow> http_req \<Rightarrow> (uuid \<Rightarrow> uuid \<Rightarrow> (world, api_answer) state) \<Rightarrow> (world, api_answer) state" where
  "MFAHandler_target e q k =
     withTenant q (\<lambda>tenantID. withID e q ''user_id'' ''Invalid user ID format'' (\<lambda>userID. k tenantID userID))"

definition MFAHandler_fail :: "err \<Rightarrow> (world, api_answer) state" where
  "MFAHandler_fail er =
     (if errors_Is er ErrUserNotFound then RespondWithError 404 ''RESOURCE_NOT_FOUND'' ''User not found'' []
      else if errors_Is er ErrMFANotEnabled then RespondWithError 404 ''RESOURCE_NOT_FOUND'' ''MFA is not enabled'' []
      else if errors_Is er ErrMFAAlreadyEnabled then RespondWithError 409 ''RESOURCE_CONFLICT'' ''MFA is already enabled'' []
      else if errors_Is er ErrMFANotEnrolling
      then RespondWithError 409 ''RESOURCE_CONFLICT'' (''No pending enrollment '' @ em_dash @ '' start again'') []
      else if errors_Is er ErrInvalidMFACode then RespondWithError 400 ''INVALID_VERIFICATION_CODE'' ''Invalid code'' []
      else if errors_Is er ErrMFALocked
      then RespondWithError 429 ''RATE_LIMIT_EXCEEDED'' (''Too many incorrect codes '' @ em_dash @ '' try again later'') []
      else RespondWithError 500 ''INTERNAL_ERROR'' ''Internal server error'' [])"

definition bindCode :: "bindlib \<Rightarrow> http_req \<Rightarrow> (string \<Rightarrow> (world, api_answer) state) \<Rightarrow> (world, api_answer) state" where
  "bindCode b q k =
     (case bd_MFACode b (g_Body (hq_gin q)) of
        Inl _ \<Rightarrow> RespondWithError 400 ''VALIDATION_FAILED'' ''Request body must contain code'' []
      | Inr code \<Rightarrow> k code)"

definition MFAHandler_verify ::
  "env \<Rightarrow> Keys \<Rightarrow> bindlib \<Rightarrow> http_req \<Rightarrow> uuid \<Rightarrow> uuid \<Rightarrow> (world, api_answer) state \<Rightarrow> (world, api_answer) state" where
  "MFAHandler_verify e ks b q tenantID userID k =
     bindCode b q (\<lambda>code. serve (MFA_Verify e ks tenantID userID code) MFAHandler_fail (\<lambda>_. k))"

definition MFAHandler_GetStatus :: "env \<Rightarrow> http_req \<Rightarrow> (world, api_answer) state" where
  "MFAHandler_GetStatus e q =
     MFAHandler_target e q (\<lambda>tenantID userID.
     serve (MFA_Status e tenantID userID) MFAHandler_fail (\<lambda>status. RespondWithSuccess 200 (MFAStatusData status)))"

definition MFAHandler_BeginTOTP :: "env \<Rightarrow> Keys \<Rightarrow> http_req \<Rightarrow> (world, api_answer) state" where
  "MFAHandler_BeginTOTP e ks q =
     MFAHandler_target e q (\<lambda>tenantID userID.
     serve (BeginTOTPEnrollment e ks tenantID userID) MFAHandler_fail
       (\<lambda>enrollment. RespondWithSuccess 201 (EnrollmentData enrollment)))"

definition MFAHandler_ConfirmTOTP :: "env \<Rightarrow> Keys \<Rightarrow> bindlib \<Rightarrow> http_req \<Rightarrow> (world, api_answer) state" where
  "MFAHandler_ConfirmTOTP e ks b q =
     MFAHandler_target e q (\<lambda>tenantID userID.
     bindCode b q (\<lambda>code.
     serve (ConfirmTOTPEnrollment e ks tenantID userID code) MFAHandler_fail
       (\<lambda>codes. RespondWithSuccess 200 (RecoveryCodes codes))))"

definition MFAHandler_RegenerateRecoveryCodes :: "env \<Rightarrow> Keys \<Rightarrow> bindlib \<Rightarrow> http_req \<Rightarrow> (world, api_answer) state" where
  "MFAHandler_RegenerateRecoveryCodes e ks b q =
     MFAHandler_target e q (\<lambda>tenantID userID.
     MFAHandler_verify e ks b q tenantID userID
       (serve (RegenerateRecoveryCodes e ks tenantID userID) MFAHandler_fail
          (\<lambda>codes. RespondWithSuccess 200 (RecoveryCodes codes))))"

definition MFAHandler_Disable :: "env \<Rightarrow> Keys \<Rightarrow> bindlib \<Rightarrow> http_req \<Rightarrow> (world, api_answer) state" where
  "MFAHandler_Disable e ks b q =
     MFAHandler_target e q (\<lambda>tenantID userID.
     MFAHandler_verify e ks b q tenantID userID
       (serve (MFA_Disable e tenantID userID) MFAHandler_fail (\<lambda>_. State_Monad.return (StatusOnly 204))))"

definition MFAHandler_Reset :: "env \<Rightarrow> http_req \<Rightarrow> (world, api_answer) state" where
  "MFAHandler_Reset e q =
     MFAHandler_target e q (\<lambda>tenantID userID.
     serve (MFA_Disable e tenantID userID) MFAHandler_fail (\<lambda>_. State_Monad.return (StatusOnly 204)))"

section \<open>Clients\<close>

definition ClientHandler_CreateClient :: "env \<Rightarrow> bindlib \<Rightarrow> http_req \<Rightarrow> (world, api_answer) state" where
  "ClientHandler_CreateClient e b q =
     withTenant q (\<lambda>tenantID.
     withBody (bd_CreateClient b) q ''Invalid request body'' (\<lambda>req.
     serve (CreateClient e tenantID req)
       (\<lambda>er. RespondWithError 500 ''INTERNAL_ERROR'' ''Failed to create client'' [])
       (\<lambda>client. RespondWithSuccess 201 (ClientData client))))"

definition ClientHandler_GetClient :: "env \<Rightarrow> http_req \<Rightarrow> (world, api_answer) state" where
  "ClientHandler_GetClient e q =
     withTenant q (\<lambda>tenantID.
     withID e q ''client_id'' ''Invalid client ID format'' (\<lambda>clientID.
     serve (GetClientByID e tenantID clientID) (notFoundOr500 ErrClientNotFound ''Client not found'' ''Failed to get client'')
       (\<lambda>client. RespondWithSuccess 200 (ClientData (client\<lparr>c_ClientSecret := []\<rparr>)))))"

definition ClientHandler_UpdateClient :: "env \<Rightarrow> bindlib \<Rightarrow> http_req \<Rightarrow> (world, api_answer) state" where
  "ClientHandler_UpdateClient e b q =
     withTenant q (\<lambda>tenantID.
     withID e q ''client_id'' ''Invalid client ID format'' (\<lambda>clientID.
     withBody (bd_UpdateClient b) q ''Invalid request body'' (\<lambda>req.
     serve (UpdateClient e tenantID clientID req) (notFoundOr500 ErrClientNotFound ''Client not found'' ''Failed to update client'')
       (\<lambda>client. RespondWithSuccess 200 (ClientData (client\<lparr>c_ClientSecret := []\<rparr>))))))"

definition ClientHandler_DeleteClient :: "env \<Rightarrow> http_req \<Rightarrow> (world, api_answer) state" where
  "ClientHandler_DeleteClient e q =
     withTenant q (\<lambda>tenantID.
     withID e q ''client_id'' ''Invalid client ID format'' (\<lambda>clientID.
     serve (DeleteClient e tenantID clientID) (notFoundOr500 ErrClientNotFound ''Client not found'' ''Failed to delete client'')
       (\<lambda>_. RespondWithSuccess 200 (Message ''Client deleted successfully''))))"

definition ClientHandler_ListClients :: "env \<Rightarrow> http_req \<Rightarrow> (world, api_answer) state" where
  "ClientHandler_ListClients e q =
     withTenant q (\<lambda>tenantID.
     (case pageParams q of (limit, offset) \<Rightarrow>
     serve (ListClients e tenantID limit offset)
       (\<lambda>er. RespondWithError 500 ''INTERNAL_ERROR'' ''Failed to list clients'' [])
       (\<lambda>(items, page). RespondWithSuccess 200 (ClientPage items page))))"

section \<open>Initial access tokens\<close>

text \<open>\<^verbatim>\<open>errors.As\<close> at a registration error: its description.\<close>

fun asRegistrationError :: "err \<Rightarrow> (string \<times> string) option" where
  "asRegistrationError (RegistrationError code description) = Some (code, description)"
| "asRegistrationError (Wrapped _ er) = asRegistrationError er"
| "asRegistrationError _ = None"

definition RegistrationHandler_CreateInitialAccessToken :: "env \<Rightarrow> bindlib \<Rightarrow> http_req \<Rightarrow> (world, api_answer) state" where
  "RegistrationHandler_CreateInitialAccessToken e b q =
     withTenant q (\<lambda>tenantID.
     (case bd_CreateInitialAccessToken b (g_Body (hq_gin q)) of
        Inl _ \<Rightarrow> RespondWithError 400 ''VALIDATION_FAILED'' ''Request body must contain scopes'' []
      | Inr req \<Rightarrow>
          let createdBy = (case GetUserID (hq_gin q) of Some userID \<Rightarrow> if userID \<noteq> uuid_Nil then Some userID else None | None \<Rightarrow> None) in
          serve (CreateInitialAccessToken e tenantID createdBy req)
            (\<lambda>er. case asRegistrationError er of
                    Some (_, description) \<Rightarrow> RespondWithError 400 ''VALIDATION_FAILED'' description []
                  | None \<Rightarrow> RespondWithError 500 ''INTERNAL_ERROR'' ''Internal server error'' [])
            (\<lambda>(record, token). State_Monad.return (Respond 201 True [(''Cache-Control'', ''no-store'')] (TokenData record token)))))"

definition RegistrationHandler_ListInitialAccessTokens :: "env \<Rightarrow> http_req \<Rightarrow> (world, api_answer) state" where
  "RegistrationHandler_ListInitialAccessTokens e q =
     withTenant q (\<lambda>tenantID.
     serve (ListInitialAccessTokens e tenantID)
       (\<lambda>er. RespondWithError 500 ''INTERNAL_ERROR'' ''Internal server error'' [])
       (\<lambda>tokens. RespondWithSuccess 200 (TokenList tokens)))"

definition RegistrationHandler_RevokeInitialAccessToken :: "env \<Rightarrow> http_req \<Rightarrow> (world, api_answer) state" where
  "RegistrationHandler_RevokeInitialAccessToken e q =
     withTenant q (\<lambda>tenantID.
     withID e q ''id'' ''Invalid token ID format'' (\<lambda>i.
     serve (RevokeInitialAccessToken e tenantID i)
       (\<lambda>er. if errors_Is er ErrInitialAccessTokenNotFound
             then RespondWithError 404 ''RESOURCE_NOT_FOUND'' ''Initial access token not found'' []
             else RespondWithError 500 ''INTERNAL_ERROR'' ''Internal server error'' [])
       (\<lambda>_. State_Monad.return (StatusOnly 204))))"

end
