(* ===== verification/ManagementRoutes.thy ===== *)
theory ManagementRoutes
  imports ManagementApi
begin

text \<open>The second half of the management API: roles and permissions (\<^verbatim>\<open>internal/handlers/rbac_handler.go\<close>), the routes with their guards,
  and the chain that serves a request.\<close>

section \<open>Roles\<close>

definition RBACHandler_handleServiceError :: "err \<Rightarrow> (world, api_answer) state" where
  "RBACHandler_handleServiceError er =
     (if errors_Is er ErrRoleNotFound then RespondWithError 404 ''RESOURCE_NOT_FOUND'' ''role not found'' []
      else if errors_Is er ErrPermissionNotFound then RespondWithError 404 ''RESOURCE_NOT_FOUND'' ''permission not found'' []
      else if errors_Is er ErrDuplicateResource then RespondWithError 409 ''DUPLICATE_RESOURCE'' ''Resource already exists'' []
      else if errors_Is er ErrBusinessRuleViolation then RespondWithError 422 ''BUSINESS_RULE_VIOLATION'' ''Business rule violation'' []
      else if errors_Is er ErrInsufficientPermissions then RespondWithError 403 ''INSUFFICIENT_PERMISSIONS'' ''Insufficient permissions'' []
      else RespondWithError 500 ''INTERNAL_ERROR'' ''Internal server error'' [])"

definition RBACHandler_CreateRole :: "env \<Rightarrow> bindlib \<Rightarrow> http_req \<Rightarrow> (world, api_answer) state" where
  "RBACHandler_CreateRole e b q =
     withTenant q (\<lambda>tenantID.
     withBody (bd_CreateRole b) q ''Invalid request format'' (\<lambda>req.
     serve (Role_CreateRole e tenantID req) RBACHandler_handleServiceError (\<lambda>role. RespondWithSuccess 201 (RoleData role))))"

definition RBACHandler_ListRoles :: "env \<Rightarrow> http_req \<Rightarrow> (world, api_answer) state" where
  "RBACHandler_ListRoles e q =
     withTenant q (\<lambda>tenantID.
     (case getPaginationParams q of (limit, offset) \<Rightarrow>
     serve (Role_ListRoles e tenantID limit offset) RBACHandler_handleServiceError
       (\<lambda>(items, page). RespondWithSuccess 200 (RolePage items page))))"

definition RBACHandler_GetRole :: "env \<Rightarrow> http_req \<Rightarrow> (world, api_answer) state" where
  "RBACHandler_GetRole e q =
     withTenant q (\<lambda>tenantID.
     withID e q ''role_id'' ''Invalid role ID'' (\<lambda>roleID.
     serve (RoleService_GetByID e tenantID roleID) RBACHandler_handleServiceError (\<lambda>role. RespondWithSuccess 200 (RoleData role))))"

definition RBACHandler_UpdateRole :: "env \<Rightarrow> bindlib \<Rightarrow> http_req \<Rightarrow> (world, api_answer) state" where
  "RBACHandler_UpdateRole e b q =
     withTenant q (\<lambda>tenantID.
     withID e q ''role_id'' ''Invalid role ID'' (\<lambda>roleID.
     withBody (bd_UpdateRole b) q ''Invalid request format'' (\<lambda>req.
     serve (Role_UpdateRole e tenantID roleID req) RBACHandler_handleServiceError (\<lambda>role. RespondWithSuccess 200 (RoleData role)))))"

definition RBACHandler_DeleteRole :: "env \<Rightarrow> http_req \<Rightarrow> (world, api_answer) state" where
  "RBACHandler_DeleteRole e q =
     withTenant q (\<lambda>tenantID.
     withID e q ''role_id'' ''Invalid role ID'' (\<lambda>roleID.
     serve (Role_DeleteRole e tenantID roleID) RBACHandler_handleServiceError (\<lambda>_. RespondWithSuccess 204 NoData)))"

text \<open>\<^verbatim>\<open>userID, _ := GetUserID(c)\<close>: the nil UUID when the context has no user.\<close>

definition callerOrNil :: "http_req \<Rightarrow> uuid" where
  "callerOrNil q = (case GetUserID (hq_gin q) of Some userID \<Rightarrow> userID | None \<Rightarrow> uuid_Nil)"

definition RBACHandler_AddPermissionToRole :: "env \<Rightarrow> bindlib \<Rightarrow> http_req \<Rightarrow> (world, api_answer) state" where
  "RBACHandler_AddPermissionToRole e b q =
     withTenant q (\<lambda>tenantID.
     withID e q ''role_id'' ''Invalid role ID'' (\<lambda>roleID.
     withBody (bd_PermissionID b) q ''Invalid request format'' (\<lambda>permissionID.
     serve (AddPermission e tenantID roleID permissionID (callerOrNil q)) RBACHandler_handleServiceError
       (\<lambda>_. RespondWithSuccess 204 NoData))))"

definition RBACHandler_RemovePermissionFromRole :: "env \<Rightarrow> http_req \<Rightarrow> (world, api_answer) state" where
  "RBACHandler_RemovePermissionFromRole e q =
     withTenant q (\<lambda>tenantID.
     withID e q ''role_id'' ''Invalid role ID'' (\<lambda>roleID.
     withID e q ''permission_id'' ''Invalid permission ID'' (\<lambda>permissionID.
     serve (RemovePermission e tenantID roleID permissionID) RBACHandler_handleServiceError
       (\<lambda>_. RespondWithSuccess 204 NoData))))"

definition RBACHandler_GetRolePermissions :: "env \<Rightarrow> http_req \<Rightarrow> (world, api_answer) state" where
  "RBACHandler_GetRolePermissions e q =
     withTenant q (\<lambda>tenantID.
     withID e q ''role_id'' ''Invalid role ID'' (\<lambda>roleID.
     serve (GetPermissions e tenantID roleID) RBACHandler_handleServiceError
       (\<lambda>permissions. RespondWithSuccess 200 (PermissionList permissions))))"

definition RBACHandler_AssignRoleToUser :: "env \<Rightarrow> bindlib \<Rightarrow> http_req \<Rightarrow> (world, api_answer) state" where
  "RBACHandler_AssignRoleToUser e b q =
     withTenant q (\<lambda>tenantID.
     withID e q ''role_id'' ''Invalid role ID'' (\<lambda>roleID.
     withBody (bd_AssignRole b) q ''Invalid request format'' (\<lambda>req.
     serve (AssignToUser e tenantID roleID (asr_UserID req) (callerOrNil q) (asr_ExpiresAt req)) RBACHandler_handleServiceError
       (\<lambda>_. RespondWithSuccess 204 NoData))))"

definition RBACHandler_RevokeRoleFromUser :: "env \<Rightarrow> http_req \<Rightarrow> (world, api_answer) state" where
  "RBACHandler_RevokeRoleFromUser e q =
     withTenant q (\<lambda>tenantID.
     withID e q ''role_id'' ''Invalid role ID'' (\<lambda>roleID.
     withID e q ''user_id'' ''Invalid user ID'' (\<lambda>userID.
     serve (RevokeFromUser e tenantID roleID userID) RBACHandler_handleServiceError (\<lambda>_. RespondWithSuccess 204 NoData))))"

definition RBACHandler_GetUserRoles :: "env \<Rightarrow> http_req \<Rightarrow> (world, api_answer) state" where
  "RBACHandler_GetUserRoles e q =
     withTenant q (\<lambda>tenantID.
     withID e q ''user_id'' ''Invalid user ID'' (\<lambda>userID.
     serve (GetUserRoles e tenantID userID) RBACHandler_handleServiceError (\<lambda>roles. RespondWithSuccess 200 (RoleList roles))))"

definition RBACHandler_GetUserPermissions :: "env \<Rightarrow> http_req \<Rightarrow> (world, api_answer) state" where
  "RBACHandler_GetUserPermissions e q =
     withTenant q (\<lambda>tenantID.
     withID e q ''user_id'' ''Invalid user ID'' (\<lambda>userID.
     serve (GetUserPermissions e tenantID userID) RBACHandler_handleServiceError
       (\<lambda>permissions. RespondWithSuccess 200 (PermissionList permissions))))"

section \<open>Permissions\<close>

definition RBACHandler_CreatePermission :: "env \<Rightarrow> bindlib \<Rightarrow> http_req \<Rightarrow> (world, api_answer) state" where
  "RBACHandler_CreatePermission e b q =
     withBody (bd_CreatePermission b) q ''Invalid request format'' (\<lambda>req.
     serve (Permission_CreatePermission e req) RBACHandler_handleServiceError
       (\<lambda>permission. RespondWithSuccess 201 (PermissionData permission)))"

definition RBACHandler_GetPermission :: "env \<Rightarrow> http_req \<Rightarrow> (world, api_answer) state" where
  "RBACHandler_GetPermission e q =
     withID e q ''permission_id'' ''Invalid permission ID'' (\<lambda>permissionID.
     serve (PermissionService_GetByID e permissionID) RBACHandler_handleServiceError
       (\<lambda>permission. RespondWithSuccess 200 (PermissionData permission)))"

definition RBACHandler_UpdatePermission :: "env \<Rightarrow> bindlib \<Rightarrow> http_req \<Rightarrow> (world, api_answer) state" where
  "RBACHandler_UpdatePermission e b q =
     withID e q ''permission_id'' ''Invalid permission ID'' (\<lambda>permissionID.
     withBody (bd_UpdatePermission b) q ''Invalid request format'' (\<lambda>req.
     serve (Permission_UpdatePermission e permissionID req) RBACHandler_handleServiceError
       (\<lambda>permission. RespondWithSuccess 200 (PermissionData permission))))"

definition RBACHandler_DeletePermission :: "env \<Rightarrow> http_req \<Rightarrow> (world, api_answer) state" where
  "RBACHandler_DeletePermission e q =
     withID e q ''permission_id'' ''Invalid permission ID'' (\<lambda>permissionID.
     serve (Permission_DeletePermission e permissionID) RBACHandler_handleServiceError (\<lambda>_. RespondWithSuccess 204 NoData))"

section \<open>Routes\<close>

datatype management_route =
    CreateTenantRoute | ListTenantsRoute | GetTenantRoute | UpdateTenantRoute | DeleteTenantRoute
  | CreateUserRoute | GetUserRoute | UpdateUserRoute | DeleteUserRoute | ListUsersRoute | ChangePasswordRoute | VerificationEmailRoute
  | MFAStatusRoute | BeginTOTPRoute | ConfirmTOTPRoute | RecoveryCodesRoute | DisableMFARoute | ResetMFARoute
  | CreateClientRoute | GetClientRoute | UpdateClientRoute | DeleteClientRoute | ListClientsRoute
  | CreateTokenRoute | ListTokensRoute | RevokeTokenRoute
  | CreateRoleRoute | ListRolesRoute | GetRoleRoute | UpdateRoleRoute | DeleteRoleRoute | AddPermissionRoute | RemovePermissionRoute
  | RolePermissionsRoute | AssignRoleRoute | RevokeRoleRoute
  | CreatePermissionRoute | GetPermissionRoute | UpdatePermissionRoute | DeletePermissionRoute | UserRolesRoute | UserPermissionsRoute

text \<open>Method and path, as the groups of \<^verbatim>\<open>setupRoutes\<close> and the \<^verbatim>\<open>RegisterRoutes\<close> methods put them together.\<close>

primrec route_pattern :: "management_route \<Rightarrow> string \<times> string" where
  "route_pattern CreateTenantRoute = (''POST'', ''/v1/tenants/admin/tenants'')"
| "route_pattern ListTenantsRoute = (''GET'', ''/v1/tenants/admin/tenants'')"
| "route_pattern GetTenantRoute = (''GET'', ''/v1/tenants/admin/tenants/:id'')"
| "route_pattern UpdateTenantRoute = (''PUT'', ''/v1/tenants/admin/tenants/:id'')"
| "route_pattern DeleteTenantRoute = (''DELETE'', ''/v1/tenants/admin/tenants/:id'')"
| "route_pattern CreateUserRoute = (''POST'', ''/v1/users'')"
| "route_pattern GetUserRoute = (''GET'', ''/v1/users/:user_id'')"
| "route_pattern UpdateUserRoute = (''PUT'', ''/v1/users/:user_id'')"
| "route_pattern DeleteUserRoute = (''DELETE'', ''/v1/users/:user_id'')"
| "route_pattern ListUsersRoute = (''GET'', ''/v1/users'')"
| "route_pattern ChangePasswordRoute = (''POST'', ''/v1/users/:user_id/change-password'')"
| "route_pattern VerificationEmailRoute = (''POST'', ''/v1/users/:user_id/verification-email'')"
| "route_pattern MFAStatusRoute = (''GET'', ''/v1/users/:user_id/mfa'')"
| "route_pattern BeginTOTPRoute = (''POST'', ''/v1/users/:user_id/mfa/totp'')"
| "route_pattern ConfirmTOTPRoute = (''POST'', ''/v1/users/:user_id/mfa/totp/confirm'')"
| "route_pattern RecoveryCodesRoute = (''POST'', ''/v1/users/:user_id/mfa/recovery-codes'')"
| "route_pattern DisableMFARoute = (''POST'', ''/v1/users/:user_id/mfa/disable'')"
| "route_pattern ResetMFARoute = (''DELETE'', ''/v1/users/:user_id/mfa'')"
| "route_pattern CreateClientRoute = (''POST'', ''/v1/clients'')"
| "route_pattern GetClientRoute = (''GET'', ''/v1/clients/:client_id'')"
| "route_pattern UpdateClientRoute = (''PUT'', ''/v1/clients/:client_id'')"
| "route_pattern DeleteClientRoute = (''DELETE'', ''/v1/clients/:client_id'')"
| "route_pattern ListClientsRoute = (''GET'', ''/v1/clients'')"
| "route_pattern CreateTokenRoute = (''POST'', ''/v1/client-registration-tokens'')"
| "route_pattern ListTokensRoute = (''GET'', ''/v1/client-registration-tokens'')"
| "route_pattern RevokeTokenRoute = (''DELETE'', ''/v1/client-registration-tokens/:id'')"
| "route_pattern CreateRoleRoute = (''POST'', ''/v1/roles'')"
| "route_pattern ListRolesRoute = (''GET'', ''/v1/roles'')"
| "route_pattern GetRoleRoute = (''GET'', ''/v1/roles/:role_id'')"
| "route_pattern UpdateRoleRoute = (''PUT'', ''/v1/roles/:role_id'')"
| "route_pattern DeleteRoleRoute = (''DELETE'', ''/v1/roles/:role_id'')"
| "route_pattern AddPermissionRoute = (''POST'', ''/v1/roles/:role_id/permissions'')"
| "route_pattern RemovePermissionRoute = (''DELETE'', ''/v1/roles/:role_id/permissions/:permission_id'')"
| "route_pattern RolePermissionsRoute = (''GET'', ''/v1/roles/:role_id/permissions'')"
| "route_pattern AssignRoleRoute = (''POST'', ''/v1/roles/:role_id/users'')"
| "route_pattern RevokeRoleRoute = (''DELETE'', ''/v1/roles/:role_id/users/:user_id'')"
| "route_pattern CreatePermissionRoute = (''POST'', ''/v1/permissions'')"
| "route_pattern GetPermissionRoute = (''GET'', ''/v1/permissions/:permission_id'')"
| "route_pattern UpdatePermissionRoute = (''PUT'', ''/v1/permissions/:permission_id'')"
| "route_pattern DeletePermissionRoute = (''DELETE'', ''/v1/permissions/:permission_id'')"
| "route_pattern UserRolesRoute = (''GET'', ''/v1/users/:user_id/roles'')"
| "route_pattern UserPermissionsRoute = (''GET'', ''/v1/users/:user_id/permissions'')"

datatype route_guard = Requires string string | RequiresOrSelf string string | SuperAdminOnly | SelfOnly

primrec guard_of :: "management_route \<Rightarrow> route_guard" where
  "guard_of CreateTenantRoute = SuperAdminOnly" | "guard_of ListTenantsRoute = SuperAdminOnly"
| "guard_of GetTenantRoute = SuperAdminOnly" | "guard_of UpdateTenantRoute = SuperAdminOnly" | "guard_of DeleteTenantRoute = SuperAdminOnly"
| "guard_of CreateUserRoute = Requires ''user'' ''create''" | "guard_of GetUserRoute = RequiresOrSelf ''user'' ''read''"
| "guard_of UpdateUserRoute = Requires ''user'' ''update''" | "guard_of DeleteUserRoute = Requires ''user'' ''delete''"
| "guard_of ListUsersRoute = Requires ''user'' ''read''" | "guard_of ChangePasswordRoute = RequiresOrSelf ''user'' ''update''"
| "guard_of VerificationEmailRoute = RequiresOrSelf ''user'' ''update''"
| "guard_of MFAStatusRoute = RequiresOrSelf ''user'' ''read''" | "guard_of BeginTOTPRoute = SelfOnly" | "guard_of ConfirmTOTPRoute = SelfOnly"
| "guard_of RecoveryCodesRoute = SelfOnly" | "guard_of DisableMFARoute = SelfOnly" | "guard_of ResetMFARoute = Requires ''user'' ''update''"
| "guard_of CreateClientRoute = Requires ''client'' ''create''" | "guard_of GetClientRoute = Requires ''client'' ''read''"
| "guard_of UpdateClientRoute = Requires ''client'' ''update''" | "guard_of DeleteClientRoute = Requires ''client'' ''delete''"
| "guard_of ListClientsRoute = Requires ''client'' ''read''"
| "guard_of CreateTokenRoute = Requires ''client'' ''create''" | "guard_of ListTokensRoute = Requires ''client'' ''read''"
| "guard_of RevokeTokenRoute = Requires ''client'' ''delete''"
| "guard_of CreateRoleRoute = Requires ''role'' ''create''" | "guard_of ListRolesRoute = Requires ''role'' ''read''"
| "guard_of GetRoleRoute = Requires ''role'' ''read''" | "guard_of UpdateRoleRoute = Requires ''role'' ''update''"
| "guard_of DeleteRoleRoute = Requires ''role'' ''delete''" | "guard_of AddPermissionRoute = Requires ''role'' ''update''"
| "guard_of RemovePermissionRoute = Requires ''role'' ''update''" | "guard_of RolePermissionsRoute = Requires ''role'' ''read''"
| "guard_of AssignRoleRoute = Requires ''role'' ''assign''" | "guard_of RevokeRoleRoute = Requires ''role'' ''assign''"
| "guard_of CreatePermissionRoute = SuperAdminOnly" | "guard_of GetPermissionRoute = Requires ''permission'' ''read''"
| "guard_of UpdatePermissionRoute = SuperAdminOnly" | "guard_of DeletePermissionRoute = SuperAdminOnly"
| "guard_of UserRolesRoute = RequiresOrSelf ''role'' ''read''" | "guard_of UserPermissionsRoute = RequiresOrSelf ''role'' ''read''"

definition requireSelf :: "env \<Rightarrow> gin \<Rightarrow> (world, reply) state" where
  "requireSelf e g =
     State_Monad.return (case GetUserID g of
        Some caller \<Rightarrow>
          if caller = uuid_Nil \<or> uuidString e caller \<noteq> g_Param g ''user_id''
          then Abort g 403 ''FORBIDDEN'' ''Only the user can manage their own authenticator'' else Proceed g
      | None \<Rightarrow> Abort g 403 ''FORBIDDEN'' ''Only the user can manage their own authenticator'')"

fun routeGuard :: "env \<Rightarrow> uuid list \<Rightarrow> route_guard \<Rightarrow> gin \<Rightarrow> (world, reply) state" where
  "routeGuard e superAdmins (Requires resource action) g = Require e (HasPermission e) superAdmins resource action g"
| "routeGuard e superAdmins (RequiresOrSelf resource action) g = RequireOrSelf e (HasPermission e) superAdmins resource action ''user_id'' g"
| "routeGuard e superAdmins SuperAdminOnly g = RequireSuperAdmin e (HasPermission e) superAdmins g"
| "routeGuard e superAdmins SelfOnly g = requireSelf e g"

primrec routeHandler :: "env \<Rightarrow> Keys \<Rightarrow> bindlib \<Rightarrow> email_sender \<Rightarrow> management_route \<Rightarrow> http_req \<Rightarrow> (world, api_answer) state" where
  "routeHandler e ks b emails CreateTenantRoute q = TenantHandler_CreateTenant e b q"
| "routeHandler e ks b emails ListTenantsRoute q = TenantHandler_ListTenants e q"
| "routeHandler e ks b emails GetTenantRoute q = TenantHandler_GetTenant e q"
| "routeHandler e ks b emails UpdateTenantRoute q = TenantHandler_UpdateTenant e b q"
| "routeHandler e ks b emails DeleteTenantRoute q = TenantHandler_DeleteTenant e q"
| "routeHandler e ks b emails CreateUserRoute q = UserHandler_CreateUser e b emails q"
| "routeHandler e ks b emails GetUserRoute q = UserHandler_GetUser e q"
| "routeHandler e ks b emails UpdateUserRoute q = UserHandler_UpdateUser e b q"
| "routeHandler e ks b emails DeleteUserRoute q = UserHandler_DeleteUser e q"
| "routeHandler e ks b emails ListUsersRoute q = UserHandler_ListUsers e q"
| "routeHandler e ks b emails ChangePasswordRoute q = UserHandler_ChangePassword e b emails q"
| "routeHandler e ks b emails VerificationEmailRoute q = UserHandler_SendVerificationEmail e emails q"
| "routeHandler e ks b emails MFAStatusRoute q = MFAHandler_GetStatus e q"
| "routeHandler e ks b emails BeginTOTPRoute q = MFAHandler_BeginTOTP e ks q"
| "routeHandler e ks b emails ConfirmTOTPRoute q = MFAHandler_ConfirmTOTP e ks b q"
| "routeHandler e ks b emails RecoveryCodesRoute q = MFAHandler_RegenerateRecoveryCodes e ks b q"
| "routeHandler e ks b emails DisableMFARoute q = MFAHandler_Disable e ks b q"
| "routeHandler e ks b emails ResetMFARoute q = MFAHandler_Reset e q"
| "routeHandler e ks b emails CreateClientRoute q = ClientHandler_CreateClient e b q"
| "routeHandler e ks b emails GetClientRoute q = ClientHandler_GetClient e q"
| "routeHandler e ks b emails UpdateClientRoute q = ClientHandler_UpdateClient e b q"
| "routeHandler e ks b emails DeleteClientRoute q = ClientHandler_DeleteClient e q"
| "routeHandler e ks b emails ListClientsRoute q = ClientHandler_ListClients e q"
| "routeHandler e ks b emails CreateTokenRoute q = RegistrationHandler_CreateInitialAccessToken e b q"
| "routeHandler e ks b emails ListTokensRoute q = RegistrationHandler_ListInitialAccessTokens e q"
| "routeHandler e ks b emails RevokeTokenRoute q = RegistrationHandler_RevokeInitialAccessToken e q"
| "routeHandler e ks b emails CreateRoleRoute q = RBACHandler_CreateRole e b q"
| "routeHandler e ks b emails ListRolesRoute q = RBACHandler_ListRoles e q"
| "routeHandler e ks b emails GetRoleRoute q = RBACHandler_GetRole e q"
| "routeHandler e ks b emails UpdateRoleRoute q = RBACHandler_UpdateRole e b q"
| "routeHandler e ks b emails DeleteRoleRoute q = RBACHandler_DeleteRole e q"
| "routeHandler e ks b emails AddPermissionRoute q = RBACHandler_AddPermissionToRole e b q"
| "routeHandler e ks b emails RemovePermissionRoute q = RBACHandler_RemovePermissionFromRole e q"
| "routeHandler e ks b emails RolePermissionsRoute q = RBACHandler_GetRolePermissions e q"
| "routeHandler e ks b emails AssignRoleRoute q = RBACHandler_AssignRoleToUser e b q"
| "routeHandler e ks b emails RevokeRoleRoute q = RBACHandler_RevokeRoleFromUser e q"
| "routeHandler e ks b emails CreatePermissionRoute q = RBACHandler_CreatePermission e b q"
| "routeHandler e ks b emails GetPermissionRoute q = RBACHandler_GetPermission e q"
| "routeHandler e ks b emails UpdatePermissionRoute q = RBACHandler_UpdatePermission e b q"
| "routeHandler e ks b emails DeletePermissionRoute q = RBACHandler_DeletePermission e q"
| "routeHandler e ks b emails UserRolesRoute q = RBACHandler_GetUserRoles e q"
| "routeHandler e ks b emails UserPermissionsRoute q = RBACHandler_GetUserPermissions e q"

section \<open>The chain\<close>

text \<open>The guard, then the handler; their reply is written by \<^verbatim>\<open>encoding/json\<close>, the parameter \<open>render\<close>.\<close>

definition guardedHandler ::
  "env \<Rightarrow> Keys \<Rightarrow> bindlib \<Rightarrow> email_sender \<Rightarrow> uuid list \<Rightarrow> (api_answer \<Rightarrow> http_response) \<Rightarrow> management_route \<Rightarrow> http_req
   \<Rightarrow> (world, http_response option) state" where
  "guardedHandler e ks b emails superAdmins render rt q = do {
     r \<leftarrow> routeGuard e superAdmins (guard_of rt) (hq_gin q);
     case r of
       Abort _ status code message \<Rightarrow> State_Monad.return (Some (render (RespondError (int status) code message [])))
     | Proceed g \<Rightarrow> do {
         a \<leftarrow> routeHandler e ks b emails rt (q\<lparr>hq_gin := g\<rparr>);
         State_Monad.return (Some (render a))
       }
   }"

definition idempotencyTTL :: duration where
  "idempotencyTTL = seconds (24 * 3600)"

datatype management_reply = Stopped gin nat string string | Served idempotency_reply

text \<open>Tenant, request ID, authentication with the token store, idempotency, then the guarded handler.\<close>

definition managementApi ::
  "env \<Rightarrow> Keys \<Rightarrow> bindlib \<Rightarrow> jsonlib \<Rightarrow> email_sender \<Rightarrow> uuid list \<Rightarrow> (api_answer \<Rightarrow> http_response) \<Rightarrow> bool \<Rightarrow> management_route \<Rightarrow> http_req
   \<Rightarrow> (world \<times> DomainTenantResolver, management_reply) state" where
  "managementApi e ks b j emails superAdmins render readFails rt q = do {
     r \<leftarrow> andThen (TenantContext e True (hq_gin q)) (\<lambda>g1.
         andThen (onWorld (RequestID e g1)) (\<lambda>g2. onWorld (RequireAuth e (Some (ValidateAccessToken e)) g2)));
     case r of
       Abort g status code message \<Rightarrow> State_Monad.return (Stopped g status code message)
     | Proceed g \<Rightarrow> do {
         a \<leftarrow> onWorld (Idempotency e j idempotencyTTL readFails g
                (guardedHandler e ks b emails superAdmins render rt (q\<lparr>hq_gin := g\<rparr>)));
         State_Monad.return (Served a)
       }
   }"

end
