(* ===== verification/TenantFrames.thy ===== *)
theory TenantFrames
  imports Effects Rbac EmailService MFAService Registration
begin

text \<open>What an operation for one tenant leaves alone: the rows of every other tenant. A row read by its identifier and tenant is
  saved under its identifier alone, so this rests on identifiers being unique across tenants, which every operation keeps.\<close>

section \<open>Rows and their tenants\<close>

text \<open>\<open>single_owner\<close>: rows with one key are of one tenant; \<open>claimed_by\<close>: no row of another tenant has one of the keys.\<close>

definition single_owner :: "('r \<Rightarrow> 'k) \<Rightarrow> ('r \<Rightarrow> uuid) \<Rightarrow> 'r list \<Rightarrow> bool" where
  "single_owner key owner rows \<longleftrightarrow> (\<forall>r \<in> set rows. \<forall>s \<in> set rows. key r = key s \<longrightarrow> owner r = owner s)"

definition claimed_by :: "uuid \<Rightarrow> 'k set \<Rightarrow> ('r \<Rightarrow> 'k) \<Rightarrow> ('r \<Rightarrow> uuid) \<Rightarrow> 'r list \<Rightarrow> bool" where
  "claimed_by t ks key owner rows \<longleftrightarrow> (\<forall>r \<in> set rows. key r \<in> ks \<longrightarrow> owner r = t)"

definition others :: "('r \<Rightarrow> uuid) \<Rightarrow> uuid \<Rightarrow> 'r list \<Rightarrow> 'r list" where
  "others owner t rows = filter (\<lambda>r. owner r \<noteq> t) rows"

lemma others_append [simp]: "owner row = t \<Longrightarrow> others owner t (rows @ [row]) = others owner t rows"
  by (simp add: others_def)

lemma others_map:
  assumes "\<And>r. r \<in> set rows \<Longrightarrow> P r \<Longrightarrow> owner r = t \<and> owner (f r) = t"
  shows "others owner t (map (\<lambda>r. if P r then f r else r) rows) = others owner t rows"
proof -
  have "owner (if P r then f r else r) \<noteq> t \<longleftrightarrow> owner r \<noteq> t" "owner r \<noteq> t \<Longrightarrow> (if P r then f r else r) = r" if "r \<in> set rows" for r
    using assms [OF that] by auto
  then show ?thesis
    by (induction rows) (simp_all add: others_def)
qed

lemma others_filter:
  assumes "\<And>r. r \<in> set rows \<Longrightarrow> owner r \<noteq> t \<Longrightarrow> Q r"
  shows "others owner t (filter Q rows) = others owner t rows"
  unfolding others_def filter_filter by (rule filter_cong) (use assms in auto)

lemma single_owner_append:
  assumes "single_owner key owner rows" "\<forall>r \<in> set rows. key r \<noteq> key row"
  shows "single_owner key owner (rows @ [row])"
proof -
  have "set (rows @ [row]) = insert row (set rows)"
    by simp
  then show ?thesis
    using assms unfolding single_owner_def by (metis insert_iff)
qed

lemma single_owner_map:
  assumes "single_owner key owner rows" "\<And>r. r \<in> set rows \<Longrightarrow> P r \<Longrightarrow> key (f r) = key r \<and> owner (f r) = owner r"
  shows "single_owner key owner (map (\<lambda>r. if P r then f r else r) rows)"
proof -
  have "key (if P r then f r else r) = key r \<and> owner (if P r then f r else r) = owner r" if "r \<in> set rows" for r
    using assms(2) that by simp
  then show ?thesis
    using assms(1) unfolding single_owner_def by (metis (no_types, lifting) imageE list.set_map)
qed

lemma single_owner_filter: "single_owner key owner rows \<Longrightarrow> single_owner key owner (filter P rows)"
  by (auto simp: single_owner_def)

text \<open>Claims depend on the rows of the other tenants only.\<close>

lemma claimed_others: "claimed_by t ks key owner rows \<longleftrightarrow> (\<forall>r \<in> set (others owner t rows). key r \<notin> ks)"
  by (auto simp: claimed_by_def others_def)

lemma claimed_read: "single_owner key owner rows \<Longrightarrow> r \<in> set rows \<Longrightarrow> key r = k \<Longrightarrow> owner r = t \<Longrightarrow> claimed_by t {k} key owner rows"
  unfolding single_owner_def claimed_by_def by (metis singletonD)

text \<open>Saving under a claimed key.\<close>

lemma save_map:
  assumes "claimed_by t ks key owner rows" "key row \<in> ks" "owner row = t"
  shows "others owner t (map (\<lambda>r. if key r = key row then row else r) rows) = others owner t rows"
    "single_owner key owner rows \<Longrightarrow> single_owner key owner (map (\<lambda>r. if key r = key row then row else r) rows)"
proof -
  have "owner r = t" if "r \<in> set rows" "key r = key row" for r
    using assms that by (simp add: claimed_by_def)
  then show "others owner t (map (\<lambda>r. if key r = key row then row else r) rows) = others owner t rows"
    "single_owner key owner rows \<Longrightarrow> single_owner key owner (map (\<lambda>r. if key r = key row then row else r) rows)"
    using assms(3) by (auto intro!: others_map single_owner_map)
qed

section \<open>The relation\<close>

definition ids_ok :: "world \<Rightarrow> bool" where
  "ids_ok w \<longleftrightarrow> single_owner u_ID u_TenantID (users w) \<and> single_owner c_ID c_TenantID (clients w) \<and> single_owner r_ID r_TenantID (roles w)
     \<and> single_owner m_UserID m_TenantID (user_mfa w)"

text \<open>The roles of other tenants, and what they grant.\<close>

definition foreign_roles :: "uuid \<Rightarrow> world \<Rightarrow> uuid set" where
  "foreign_roles t w = r_ID ` set (others r_TenantID t (roles w))"

definition foreign_grants :: "uuid \<Rightarrow> world \<Rightarrow> RolePermission list" where
  "foreign_grants t w = filter (\<lambda>p. rp_RoleID p \<in> foreign_roles t w) (role_permissions w)"

text \<open>Nothing but rows of tenant \<open>t\<close> differs, idempotency keys and the mail log apart.\<close>

definition confined :: "uuid \<Rightarrow> world \<Rightarrow> world \<Rightarrow> bool" where
  "confined t w w' \<longleftrightarrow> tenants w' = tenants w \<and> permissions w' = permissions w
     \<and> others u_TenantID t (users w') = others u_TenantID t (users w)
     \<and> others c_TenantID t (clients w') = others c_TenantID t (clients w)
     \<and> others r_TenantID t (roles w') = others r_TenantID t (roles w)
     \<and> others ur_TenantID t (user_roles w') = others ur_TenantID t (user_roles w)
     \<and> foreign_grants t w' = foreign_grants t w
     \<and> others m_TenantID t (user_mfa w') = others m_TenantID t (user_mfa w)
     \<and> others rc_TenantID t (mfa_recovery_codes w') = others rc_TenantID t (mfa_recovery_codes w)
     \<and> others s_TenantID t (sessions w') = others s_TenantID t (sessions w)
     \<and> others co_TenantID t (consents w') = others co_TenantID t (consents w)
     \<and> others ac_TenantID t (auth_codes w') = others ac_TenantID t (auth_codes w)
     \<and> others at_TenantID t (access_tokens w') = others at_TenantID t (access_tokens w)
     \<and> others rt_TenantID t (refresh_tokens w') = others rt_TenantID t (refresh_tokens w)
     \<and> others dc_TenantID t (device_codes w') = others dc_TenantID t (device_codes w)
     \<and> others ia_TenantID t (initial_access_tokens w') = others ia_TenantID t (initial_access_tokens w)
     \<and> others emv_TenantID t (email_verifications w') = others emv_TenantID t (email_verifications w)
     \<and> others pr_TenantID t (password_resets w') = others pr_TenantID t (password_resets w)
     \<and> others et_TenantID t (email_templates w') = others et_TenantID t (email_templates w)
     \<and> others eq_TenantID t (email_queue w') = others eq_TenantID t (email_queue w)"

definition claims :: "uuid \<Rightarrow> uuid set \<Rightarrow> uuid set \<Rightarrow> uuid set \<Rightarrow> world \<Rightarrow> bool" where
  "claims t us cs rs w \<longleftrightarrow> claimed_by t us u_ID u_TenantID (users w) \<and> claimed_by t cs c_ID c_TenantID (clients w)
     \<and> claimed_by t rs r_ID r_TenantID (roles w)"

definition stay :: "uuid \<Rightarrow> uuid set \<Rightarrow> uuid set \<Rightarrow> uuid set \<Rightarrow> world \<Rightarrow> world \<Rightarrow> bool" where
  "stay t us cs rs w w' \<longleftrightarrow> (ids_ok w \<and> claims t us cs rs w \<longrightarrow> ids_ok w' \<and> confined t w w')"

lemma confined_refl: "confined t w w"
  by (simp add: confined_def)

lemma confined_trans: "confined t w v \<Longrightarrow> confined t v x \<Longrightarrow> confined t w x"
  by (simp add: confined_def)

lemma confined_claims: "confined t w w' \<Longrightarrow> claims t us cs rs w' = claims t us cs rs w"
  by (simp add: confined_def claims_def claimed_others)

interpretation stay: world_preorder "stay t us cs rs" for t us cs rs
proof unfold_locales
  show "stay t us cs rs w w" for w
    by (simp add: stay_def confined_refl)
  show "stay t us cs rs w x" if "stay t us cs rs w v" "stay t us cs rs v x" for w v x
    using that confined_claims [of t w v] confined_trans [of t w v x] by (auto simp: stay_def)
  show "stay t us cs rs w (w\<lparr>stmts := n, draws := d\<rparr>)" for w n d
    by (simp add: stay_def confined_def ids_ok_def foreign_grants_def foreign_roles_def)
qed

text \<open>A program that needs no claim may run under any.\<close>

lemma stay_mono:
  assumes "steps (stay t us cs rs) m" "us \<subseteq> us2" "cs \<subseteq> cs2" "rs \<subseteq> rs2"
  shows "steps (stay t us2 cs2 rs2) m"
proof -
  have "claims t us cs rs w" if "claims t us2 cs2 rs2 w" for w
    using that assms(2-4) by (auto simp: claims_def claimed_by_def)
  then show ?thesis
    using assms(1) by (auto simp: steps_def stay_def)
qed

section \<open>Statements\<close>

context world_preorder
begin

lemma steps_sqlInsert_clash:
  assumes "\<And>w. \<forall>r \<in> set (get w). \<not> clash r row \<Longrightarrow> R w (upd (\<lambda>rows. rows @ [row]) w)"
  shows "steps R (sqlInsert e get upd clash row msg)"
  unfolding sqlInsert_def by (intro steps_intros steps_runSQL) (auto simp: assms list_ex_iff split: if_splits)

lemma steps_sqlSave_known:
  assumes "\<And>w. \<forall>r \<in> set (get w). key r \<noteq> key row \<Longrightarrow> R w (upd (\<lambda>rows. rows @ [row]) w)"
    and "\<And>w. R w (upd (map (\<lambda>r. if key r = key row then row else r)) w)"
  shows "steps R (sqlSave e get upd key clash row msg)"
  unfolding sqlSave_def by (intro steps_intros steps_runSQL) (auto simp: assms list_ex_iff split: if_splits)

end

named_theorems tenant_steps \<open>operations that stay within a tenant\<close>

lemmas stay_defs = stay_def confined_def ids_ok_def foreign_grants_def foreign_roles_def

lemma stay_reads [tenant_steps]:
  "steps (stay t us cs rs) (User_GetByID e t' i)" "steps (stay t us cs rs) (User_GetByUsername e t' s)"
  "steps (stay t us cs rs) (User_GetByEmail e t' s)" "steps (stay t us cs rs) (User_List e t' m n)"
  "steps (stay t us cs rs) (Client_GetByID e t' i)" "steps (stay t us cs rs) (Client_List e t' m n)"
  "steps (stay t us cs rs) (Tenant_GetByID e i)" "steps (stay t us cs rs) (MFA_Get e t' i)"
  "steps (stay t us cs rs) (MFA_CountUnusedRecoveryCodes e t' i)" "steps (stay t us cs rs) (InitialAccessToken_List e t')"
  "steps (stay t us cs rs) (Role_GetByID e t' i)" "steps (stay t us cs rs) (Role_GetByName e t' s)"
  "steps (stay t us cs rs) (Role_List e t' m n)" "steps (stay t us cs rs) (Permission_GetByID e i)"
  "steps (stay t us cs rs) (Permission_GetByName e s)" "steps (stay t us cs rs) (UserRole_GetByUserAndRole e t' i j)"
  "steps (stay t us cs rs) (UserRole_GetUserRoles e t' i)" "steps (stay t us cs rs) (UserRole_GetRoleUsers e t' i)"
  "steps (stay t us cs rs) (RolePermission_GetByRoleAndPermission e i j)"
  "steps (stay t us cs rs) (RolePermission_GetRolePermissions e i)" "steps (stay t us cs rs) (EmailTemplate_GetByName e t' s)"
  by (simp_all add: User_GetByID_def User_GetByUsername_def User_GetByEmail_def User_List_def Client_GetByID_def Client_List_def
      Tenant_GetByID_def MFA_Get_def MFA_CountUnusedRecoveryCodes_def InitialAccessToken_List_def Role_GetByID_def Role_GetByName_def
      Role_List_def Permission_GetByID_def Permission_GetByName_def UserRole_GetByUserAndRole_def UserRole_GetUserRoles_def
      UserRole_GetRoleUsers_def RolePermission_GetByRoleAndPermission_def RolePermission_GetRolePermissions_def
      EmailTemplate_GetByName_def stay.steps_sqlFirst stay.steps_sqlList stay.steps_sqlCount stay.steps_sqlFind)
    (intro stay.steps_mapErr stay.steps_runSQL; simp add: stay.R_refl)

lemma stay_User_Create [tenant_steps]: "u_TenantID u = t \<Longrightarrow> steps (stay t us cs rs) (User_Create e u)"
  unfolding User_Create_def
  by (rule stay.steps_sqlInsert_clash) (auto simp: stay_defs users_clash_def User_row_def intro!: single_owner_append)

lemma stay_User_Delete [tenant_steps]: "steps (stay t us cs rs) (User_Delete e t i)"
  unfolding User_Delete_def
  by (intro stay.steps_orReturn stay.steps_sqlUpdate stay.steps_succeed) (auto simp: stay_defs intro!: others_map single_owner_map)

lemma stay_User_Update:
  assumes "u_TenantID u = t" "u_ID u \<in> us"
  shows "steps (stay t us cs rs) (User_Update e u)"
  unfolding User_Update_def
proof (rule stay.steps_sqlSave_known)
  show "stay t us cs rs w (users_update (map (\<lambda>r. if u_ID r = u_ID (u\<lparr>u_UpdatedAt := now e\<rparr>) then u\<lparr>u_UpdatedAt := now e\<rparr> else r)) w)" for w
    using save_map [of t us u_ID u_TenantID "users w" "u\<lparr>u_UpdatedAt := now e\<rparr>"] assms
    by (simp add: stay_defs claims_def)
qed (use assms in \<open>auto simp: stay_defs intro!: single_owner_append\<close>)

lemma stay_Client_Create [tenant_steps]: "c_TenantID c = t \<Longrightarrow> steps (stay t us cs rs) (Client_Create e c)"
  unfolding Client_Create_def Let_def
  by (intro stay.steps_orReturn stay.steps_succeed, rule stay.steps_sqlInsert_clash)
    (auto simp: stay_defs clients_clash_def Client_row_def intro!: single_owner_append)

lemma stay_Client_Delete [tenant_steps]: "steps (stay t us cs rs) (Client_Delete e t i)"
  unfolding Client_Delete_def
  by (intro stay.steps_orReturn stay.steps_sqlUpdate stay.steps_succeed) (auto simp: stay_defs intro!: others_map single_owner_map)

lemma stay_Client_Update:
  assumes "c_TenantID c = t" "c_ID c \<in> cs"
  shows "steps (stay t us cs rs) (Client_Update e c)"
  unfolding Client_Update_def
proof (rule stay.steps_sqlSave_known)
  let ?c = "Client_row e (c\<lparr>c_UpdatedAt := now e\<rparr>)"
  show "stay t us cs rs w (clients_update (map (\<lambda>r. if c_ID r = c_ID ?c then ?c else r)) w)" for w
    using save_map [of t cs c_ID c_TenantID "clients w" ?c] assms
    by (simp add: stay_defs claims_def Client_row_def)
qed (use assms in \<open>auto simp: stay_defs Client_row_def intro!: single_owner_append\<close>)

text \<open>The grants of other tenants' roles depend on which those are.\<close>

lemma stay_Role_Create [tenant_steps]: "r_TenantID r = t \<Longrightarrow> steps (stay t us cs rs) (Role_Create e r)"
  unfolding Role_Create_def
  by (rule stay.steps_sqlInsert_clash) (auto simp: stay_defs roles_clash_def intro!: single_owner_append)

lemma stay_Role_Delete [tenant_steps]: "steps (stay t us cs rs) (Role_Delete e t i)"
  unfolding Role_Delete_def
  by (intro stay.steps_orReturn stay.steps_sqlUpdate stay.steps_succeed)
    (simp add: stay_defs, intro impI conjI single_owner_map others_map arg_cong [where f = "\<lambda>rs. filter (\<lambda>p. rp_RoleID p \<in> r_ID ` set rs) ps" for ps]; simp)

lemma stay_Role_Update:
  assumes "r_TenantID r = t" "r_ID r \<in> rs"
  shows "steps (stay t us cs rs) (Role_Update e r)"
  unfolding Role_Update_def
proof (rule stay.steps_sqlSave_known)
  show "stay t us cs rs w (roles_update (map (\<lambda>s. if r_ID s = r_ID (r\<lparr>r_UpdatedAt := now e\<rparr>) then r\<lparr>r_UpdatedAt := now e\<rparr> else s)) w)" for w
    using save_map [of t rs r_ID r_TenantID "roles w" "r\<lparr>r_UpdatedAt := now e\<rparr>"] assms
    by (simp add: stay_defs claims_def)
qed (use assms in \<open>auto simp: stay_defs intro!: single_owner_append\<close>)

lemma foreign_unclaimed: "claims t us cs rs w \<Longrightarrow> r \<in> set (others r_TenantID t (roles w)) \<Longrightarrow> r_ID r \<notin> rs"
  by (simp add: claims_def claimed_others)

lemma stay_RolePermission_Create: "rp_RoleID p \<in> rs \<Longrightarrow> steps (stay t us cs rs) (RolePermission_Create e p)"
  unfolding RolePermission_Create_def
  by (rule stay.steps_sqlInsert) (auto simp: stay_defs dest: foreign_unclaimed)

lemma stay_RolePermission_Delete: "i \<in> rs \<Longrightarrow> steps (stay t us cs rs) (RolePermission_Delete e i j)"
  unfolding RolePermission_Delete_def
  by (rule stay.steps_sqlDelete) (auto simp: stay_defs dest: foreign_unclaimed intro!: filter_cong)

lemma stay_UserRole [tenant_steps]:
  "ur_TenantID r = t \<Longrightarrow> steps (stay t us cs rs) (UserRole_Create e r)"
  "steps (stay t us cs rs) (UserRole_Delete e t i j)"
  unfolding UserRole_Create_def UserRole_Delete_def
  by (rule stay.steps_sqlInsert stay.steps_sqlDelete; auto simp: stay_defs intro!: others_filter)+

lemma stay_deletes [tenant_steps]:
  "steps (stay t us cs rs) (Session_DeleteByUserID e t i)"
  "steps (stay t us cs rs) (AccessToken_DeleteByClientID e t i)" "steps (stay t us cs rs) (RefreshToken_DeleteByClientID e t i)"
  "steps (stay t us cs rs) (AccessToken_DeleteByUserID e t i)" "steps (stay t us cs rs) (RefreshToken_DeleteByUserID e t i)"
  "steps (stay t us cs rs) (EmailVerification_DeletePendingByUserID e t i)"
  unfolding Session_DeleteByUserID_def AccessToken_DeleteByClientID_def RefreshToken_DeleteByClientID_def AccessToken_DeleteByUserID_def
    RefreshToken_DeleteByUserID_def EmailVerification_DeletePendingByUserID_def
  by (rule stay.steps_sqlDelete; auto simp: stay_defs intro!: others_filter)+

lemma stay_inserts [tenant_steps]:
  "emv_TenantID v = t \<Longrightarrow> steps (stay t us cs rs) (EmailVerification_Create e v)"
  "ia_TenantID i = t \<Longrightarrow> steps (stay t us cs rs) (InitialAccessToken_Create e i)"
  "eq_TenantID m = t \<Longrightarrow> steps (stay t us cs rs) (EmailQueue_Create e m)"
  unfolding EmailVerification_Create_def InitialAccessToken_Create_def EmailQueue_Create_def
  by (rule stay.steps_sqlInsert; auto simp: stay_defs)+

lemma stay_InitialAccessToken_Revoke [tenant_steps]: "steps (stay t us cs rs) (InitialAccessToken_Revoke e t i)"
  unfolding InitialAccessToken_Revoke_def
  by (intro stay.steps_orReturn stay.steps_sqlUpdate stay.steps_if stay.steps_failWith stay.steps_succeed)
    (auto simp: stay_defs intro!: others_map)

section \<open>Second factors\<close>

lemma stay_user_mfa:
  "find (\<lambda>r. m_UserID r = i) (user_mfa w) = None \<Longrightarrow> m_TenantID row = t \<Longrightarrow> m_UserID row = i
     \<Longrightarrow> stay t us cs rs w (user_mfa_update (\<lambda>rows. rows @ [row]) w)"
  "find (\<lambda>r. m_UserID r = i) (user_mfa w) = Some r \<Longrightarrow> m_TenantID r = t \<Longrightarrow> (\<And>r. m_UserID (f r) = m_UserID r \<and> m_TenantID (f r) = m_TenantID r)
     \<Longrightarrow> stay t us cs rs w (user_mfa_update (map (\<lambda>r. if m_UserID r = i then f r else r)) w)"
proof -
  assume find: "find (\<lambda>r. m_UserID r = i) (user_mfa w) = Some r" "m_TenantID r = t"
    and f: "\<And>r. m_UserID (f r) = m_UserID r \<and> m_TenantID (f r) = m_TenantID r"
  have "m_TenantID s = t" if "single_owner m_UserID m_TenantID (user_mfa w)" "s \<in> set (user_mfa w)" "m_UserID s = i" for s
    using find_SomeD [OF find(1)] find(2) that unfolding single_owner_def by metis
  then show "stay t us cs rs w (user_mfa_update (map (\<lambda>r. if m_UserID r = i then f r else r)) w)"
    using f by (auto simp: stay_defs intro!: others_map single_owner_map)
qed (auto simp: stay_defs find_None_iff intro!: single_owner_append)

lemma stay_MFA_SavePending [tenant_steps]: "m_TenantID m = t \<Longrightarrow> steps (stay t us cs rs) (MFA_SavePending e m)"
  unfolding MFA_SavePending_def Let_def
  by (intro stay.steps_orReturn stay.steps_runSQL stay.steps_if stay.steps_failWith stay.steps_succeed)
    (auto simp: stay.R_refl split: option.splits if_splits intro!: stay_user_mfa)

lemma stay_newRecoveryRows [tenant_steps]: "steps (stay t us cs rs) (newRecoveryRows e t' i hs)"
  by (induction hs) (auto intro!: stay.steps_bind stay.steps_return stay.steps_uuid_New)

lemma newRecoveryRows_tenant: "run_state (newRecoveryRows e t i hs) w = (rows, w') \<Longrightarrow> r \<in> set rows \<Longrightarrow> rc_TenantID r = t"
  by (induction hs arbitrary: rows w w') (auto simp: run_return run_bind split: prod.splits)

lemma stay_replaceRecoveryCodes [tenant_steps]: "steps (stay t us cs rs) (replaceRecoveryCodes e t i hs)"
proof -
  have store: "steps (stay t us cs rs) (mapErr g (runSQL e (\<lambda>w. if clash_free recovery_clash (mfa_recovery_codes w) rows
      then Inr ((), mfa_recovery_codes_update (\<lambda>old. old @ rows) w) else Inl UniqueViolation)))"
    if "\<And>r. r \<in> set rows \<Longrightarrow> rc_TenantID r = t" for rows g
  proof -
    have "others rc_TenantID t rows = []"
      using that by (simp add: others_def)
    then show ?thesis
      by (intro stay.steps_mapErr stay.steps_runSQL) (auto simp: stay_defs others_def split: if_splits)
  qed
  have "steps (stay t us cs rs) (State_Monad.bind (newRecoveryRows e t i hs) (\<lambda>codes. mapErr g (runSQL e (\<lambda>w.
      if clash_free recovery_clash (mfa_recovery_codes w) codes then Inr ((), mfa_recovery_codes_update (\<lambda>rows. rows @ codes) w)
      else Inl UniqueViolation))))" for g
    unfolding steps_def
  proof
    fix w
    obtain rows v where r: "run_state (newRecoveryRows e t i hs) w = (rows, v)"
      by fastforce
    have "stay t us cs rs w v"
      using stay_newRecoveryRows r by (rule stay.steps_run)
    then show "stay t us cs rs w (snd (run_state (State_Monad.bind (newRecoveryRows e t i hs) (\<lambda>codes. mapErr g (runSQL e (\<lambda>w.
      if clash_free recovery_clash (mfa_recovery_codes w) codes then Inr ((), mfa_recovery_codes_update (\<lambda>rows. rows @ codes) w)
      else Inl UniqueViolation)))) w))"
      using store [OF newRecoveryRows_tenant [OF r]] r stay.R_trans [of t us cs rs w v] by (simp add: run_bind steps_def)
  qed
  then show ?thesis
    unfolding replaceRecoveryCodes_def
    by (intro stay.steps_orReturn stay.steps_if stay.steps_succeed, intro stay.steps_sqlDelete)
      (auto simp: stay_defs intro!: others_filter)
qed

lemma stay_MFA_updates [tenant_steps]:
  "steps (stay t us cs rs) (MFA_UseStep e t i n)" "steps (stay t us cs rs) (MFA_RecordFailure e t i k u)"
  unfolding MFA_UseStep_def MFA_RecordFailure_def
  by (intro stay.steps_orReturn stay.steps_sqlUpdate stay.steps_succeed; auto simp: stay_defs intro!: others_map single_owner_map)+

lemma stay_MFA_Confirm [tenant_steps]: "steps (stay t us cs rs) (MFA_Confirm e t i n hs)"
  unfolding MFA_Confirm_def
  by (intro stay.steps_transaction stay.steps_orReturn stay.steps_sqlUpdate stay.steps_if stay.steps_failWith stay_replaceRecoveryCodes)
    (auto simp: stay_defs intro!: others_map single_owner_map)

lemma stay_MFA_UseRecoveryCode [tenant_steps]: "steps (stay t us cs rs) (MFA_UseRecoveryCode e t i h)"
  unfolding MFA_UseRecoveryCode_def
  by (intro stay.steps_transaction stay.steps_orReturn stay.steps_sqlUpdate stay.steps_if stay.steps_succeed stay.steps_runSQL)
    (auto simp: stay_defs intro!: others_map single_owner_map)

lemma stay_MFA_ReplaceRecoveryCodes [tenant_steps]: "steps (stay t us cs rs) (MFA_ReplaceRecoveryCodes e t i hs)"
  unfolding MFA_ReplaceRecoveryCodes_def by (intro stay.steps_transaction stay_replaceRecoveryCodes)

lemma stay_MFA_Delete [tenant_steps]: "steps (stay t us cs rs) (MFA_Delete e t i)"
  unfolding MFA_Delete_def
  by (intro stay.steps_transaction stay.steps_orReturn stay.steps_sqlDelete)
    (auto simp: stay_defs intro!: others_filter single_owner_filter)

end
