(* ===== verification/TenantServices.thy ===== *)
theory TenantServices
  imports TenantFrames
begin

text \<open>Every service operation for a tenant stays within it.\<close>

section \<open>Reading a row claims its identifier\<close>

lemma stay_after:
  assumes "steps (stay t us2 cs2 rs2) k" "ids_ok w \<Longrightarrow> claims t us cs rs w \<Longrightarrow> claims t us2 cs2 rs2 w"
  shows "stay t us cs rs w (snd (run_state k (w\<lparr>stmts := n\<rparr>)))"
proof -
  have "ids_ok (w\<lparr>stmts := n\<rparr>) = ids_ok w" "claims t us2 cs2 rs2 (w\<lparr>stmts := n\<rparr>) = claims t us2 cs2 rs2 w"
    "confined t (w\<lparr>stmts := n\<rparr>) v = confined t w v" for v
    by (simp_all add: ids_ok_def claims_def confined_def foreign_grants_def foreign_roles_def)
  then show ?thesis
    using assms(1) [unfolded steps_def, THEN spec [where x = "w\<lparr>stmts := n\<rparr>"]] assms(2) by (auto simp: stay_def)
qed

lemma stay_read_user:
  assumes "\<And>user. u_TenantID user = t \<Longrightarrow> u_ID user = i \<Longrightarrow> steps (stay t {i} cs rs) (k user)"
  shows "steps (stay t {} cs rs) (orReturn (User_GetByID e t i) f k)"
  unfolding steps_def
proof
  fix w
  show "stay t {} cs rs w (snd (run_state (orReturn (User_GetByID e t i) f k) w))"
  proof (cases "fails e (stmts w) \<or> find (\<lambda>u. u_TenantID u = t \<and> u_ID u = i \<and> user_live u) (users w) = None")
    case True
    then show ?thesis
      by (auto simp: run_orReturn User_GetByID_def users.First_run stay.stmts_only)
  next
    case False
    then obtain user where user: "find (\<lambda>u. u_TenantID u = t \<and> u_ID u = i \<and> user_live u) (users w) = Some user" "\<not> fails e (stmts w)"
      by auto
    then have row: "user \<in> set (users w)" "u_TenantID user = t" "u_ID user = i"
      using find_SomeD by fastforce+
    have "claims t {i} cs rs w" if "ids_ok w" "claims t {} cs rs w"
      using that claimed_read [of u_ID u_TenantID "users w" user i t] row by (simp add: claims_def ids_ok_def)
    then show ?thesis
      using stay_after [OF assms [OF row(2,3)]] user by (simp add: run_orReturn User_GetByID_def users.First_run)
  qed
qed

lemma stay_read_client:
  assumes "\<And>client. c_TenantID client = t \<Longrightarrow> c_ID client = i \<Longrightarrow> steps (stay t us {i} rs) (k client)"
  shows "steps (stay t us {} rs) (orReturn (Client_GetByID e t i) f k)"
  unfolding steps_def
proof
  fix w
  show "stay t us {} rs w (snd (run_state (orReturn (Client_GetByID e t i) f k) w))"
  proof (cases "fails e (stmts w) \<or> find (\<lambda>c. c_TenantID c = t \<and> c_ID c = i \<and> client_live c) (clients w) = None")
    case True
    then show ?thesis
      by (auto simp: run_orReturn Client_GetByID_def clients.First_run stay.stmts_only)
  next
    case False
    then obtain client where client: "find (\<lambda>c. c_TenantID c = t \<and> c_ID c = i \<and> client_live c) (clients w) = Some client" "\<not> fails e (stmts w)"
      by auto
    then have row: "client \<in> set (clients w)" "c_TenantID client = t" "c_ID client = i"
      using find_SomeD by fastforce+
    have "claims t us {i} rs w" if "ids_ok w" "claims t us {} rs w"
      using that claimed_read [of c_ID c_TenantID "clients w" client i t] row by (simp add: claims_def ids_ok_def)
    then show ?thesis
      using stay_after [OF assms [OF row(2,3)]] client by (simp add: run_orReturn Client_GetByID_def clients.First_run)
  qed
qed

lemma stay_read_role:
  assumes "\<And>role. r_TenantID role = t \<Longrightarrow> r_ID role = i \<Longrightarrow> steps (stay t us cs {i}) (k role)"
  shows "steps (stay t us cs {}) (orReturn (Role_GetByID e t i) f k)"
  unfolding steps_def
proof
  fix w
  show "stay t us cs {} w (snd (run_state (orReturn (Role_GetByID e t i) f k) w))"
  proof (cases "fails e (stmts w) \<or> find (\<lambda>r. r_TenantID r = t \<and> r_ID r = i \<and> role_live r) (roles w) = None")
    case True
    then show ?thesis
      by (auto simp: run_orReturn Role_GetByID_def roles.First_run stay.stmts_only)
  next
    case False
    then obtain role where role: "find (\<lambda>r. r_TenantID r = t \<and> r_ID r = i \<and> role_live r) (roles w) = Some role" "\<not> fails e (stmts w)"
      by auto
    then have row: "role \<in> set (roles w)" "r_TenantID role = t" "r_ID role = i"
      using find_SomeD by fastforce+
    have "claims t us cs {i} w" if "ids_ok w" "claims t us cs {} w"
      using that claimed_read [of r_ID r_TenantID "roles w" role i t] row by (simp add: claims_def ids_ok_def)
    then show ?thesis
      using stay_after [OF assms [OF row(2,3)]] role by (simp add: run_orReturn Role_GetByID_def roles.First_run)
  qed
qed

section \<open>Users\<close>

text \<open>A value a program can return.\<close>

lemma stay_orReturn_of:
  assumes "steps (stay t us cs rs) m" "\<And>s a s'. run_state m s = (Inr a, s') \<Longrightarrow> G a" "\<And>a. G a \<Longrightarrow> steps (stay t us cs rs) (k a)"
  shows "steps (stay t us cs rs) (orReturn m h k)"
  using assms by (intro stay.steps_orReturn_run) blast+

lemma stay_hashPassword [tenant_steps]: "steps (stay t us cs rs) (hashPassword e p)"
  unfolding hashPassword_def by (rule stay.steps_draw)

lemma stay_endUserSessions [tenant_steps]: "steps (stay t us cs rs) (endUserSessions e t i)"
  unfolding endUserSessions_def by (intro tenant_steps stay.world_steps)

lemma stay_CreateUser [tenant_steps]: "steps (stay t us cs rs) (CreateUser e t req)"
  unfolding CreateUser_def Let_def by (intro tenant_steps stay.world_steps) (simp add: newUser_def)

lemma stay_UpdateUser [tenant_steps]: "steps (stay t {} cs rs) (UpdateUser e t i req)"
  unfolding UpdateUser_def
  by (intro stay_read_user stay_orReturn_of [where G = "\<lambda>user. u_TenantID user = t \<and> u_ID user = i"])
    (auto simp: run_succeed run_bind run_orReturn run_return isFree_def hashPassword_def split: if_splits prod.splits sum.splits
      intro!: tenant_steps stay.world_steps stay_User_Update)

lemma stay_DeleteUser [tenant_steps]: "steps (stay t us cs rs) (DeleteUser e t i)"
  unfolding DeleteUser_def by (intro tenant_steps stay.world_steps)

lemma stay_ListUsers [tenant_steps]: "steps (stay t us cs rs) (ListUsers e t m n)"
  unfolding ListUsers_def Let_def by (intro tenant_steps stay.world_steps)

text \<open>The mail sender of the server, or none.\<close>

definition mails :: "env \<Rightarrow> email_sender \<Rightarrow> bool" where
  "mails e emails \<longleftrightarrow> (\<forall>send. emails = Some send \<longrightarrow> (\<exists>m. send = SendTemplateEmail e m))"

lemma stay_SendTemplateEmail [tenant_steps]: "steps (stay t us cs rs) (SendTemplateEmail e m t a b c vs n)"
  unfolding SendTemplateEmail_def SendEmail_def by (intro tenant_steps stay.world_steps) (simp add: queuedEmail_def)

lemma stay_SendVerificationEmail [tenant_steps]:
  assumes "mails e emails"
  shows "steps (stay t us cs rs) (SendVerificationEmail e emails t i)"
  using assms unfolding SendVerificationEmail_def mails_def
  by (cases emails) (auto intro!: tenant_steps stay.world_steps)

lemma stay_notifyPasswordChanged [tenant_steps]:
  assumes "mails e emails" "u_TenantID user = t"
  shows "steps (stay t us cs rs) (notifyPasswordChanged emails user)"
  using assms unfolding notifyPasswordChanged_def mails_def
  by (cases emails) (auto intro!: tenant_steps stay.world_steps)

lemma stay_ChangePassword [tenant_steps]:
  assumes "mails e emails"
  shows "steps (stay t {} cs rs) (ChangePassword e emails t i old new)"
  unfolding ChangePassword_def Let_def using assms
  by (intro stay_read_user) (auto intro!: tenant_steps stay.world_steps stay_User_Update)

section \<open>Second factors\<close>

lemma stay_endSessions [tenant_steps]: "steps (stay t us cs rs) (endSessions e t i)"
  unfolding endSessions_def by (intro tenant_steps stay.world_steps)

lemma stay_NewRecoveryCodes [tenant_steps]: "steps (stay t us cs rs) (NewRecoveryCodes_loop e n)"
  by (induction n) (auto simp: recoveryCode_def intro!: stay.world_steps)

lemma stay_sealing [tenant_steps]:
  "steps (stay t us cs rs) (NewSecret e)" "steps (stay t us cs rs) (Keys_Seal e ks s aad)" "steps (stay t us cs rs) (newRecoveryCodes e ks)"
  unfolding NewSecret_def Keys_Seal_def newRecoveryCodes_def NewRecoveryCodes_def
  by (intro tenant_steps stay.world_steps)+

lemma stay_MFA_reads [tenant_steps]: "steps (stay t us cs rs) (MFA_Status e t i)" "steps (stay t us cs rs) (IsEnabled e t i)"
  unfolding MFA_Status_def IsEnabled_def Let_def by (intro tenant_steps stay.world_steps)+

lemma stay_BeginTOTPEnrollment [tenant_steps]: "steps (stay t us cs rs) (BeginTOTPEnrollment e ks t i)"
  unfolding BeginTOTPEnrollment_def Let_def by (intro tenant_steps stay.world_steps) simp

lemma stay_ConfirmTOTPEnrollment [tenant_steps]: "steps (stay t us cs rs) (ConfirmTOTPEnrollment e ks t i code)"
  unfolding ConfirmTOTPEnrollment_def by (intro tenant_steps stay.world_steps)

lemma MFA_Get_tenant: "run_state (MFA_Get e t i) w = (Inr m, w') \<Longrightarrow> m_TenantID m = t"
  by (auto simp: MFA_Get_def user_mfa.First_run split: if_splits option.splits dest: find_SomeD)

lemma stay_MFA_check: "m_TenantID m = t \<Longrightarrow> steps (stay t us cs rs) (MFA_check e ks m code)"
  unfolding MFA_check_def by (auto intro!: tenant_steps stay.world_steps)

lemma stay_MFA_Verify [tenant_steps]: "steps (stay t us cs rs) (MFA_Verify e ks t i code)"
  unfolding MFA_Verify_def
  by (intro stay_orReturn_of [where G = "\<lambda>m. m_TenantID m = t"])
    (auto dest: MFA_Get_tenant intro!: tenant_steps stay.world_steps stay_MFA_check)

lemma stay_RegenerateRecoveryCodes [tenant_steps]: "steps (stay t us cs rs) (RegenerateRecoveryCodes e ks t i)"
  unfolding RegenerateRecoveryCodes_def by (intro tenant_steps stay.world_steps)

lemma stay_MFA_Disable [tenant_steps]: "steps (stay t us cs rs) (MFA_Disable e t i)"
  unfolding MFA_Disable_def by (intro tenant_steps stay.world_steps)

section \<open>Clients and initial access tokens\<close>

lemma stay_newClientSecret [tenant_steps]:
  "steps (stay t us cs rs) (generateClientID e)" "steps (stay t us cs rs) (hashClientSecret e p)" "steps (stay t us cs rs) (newClientSecret e)"
  unfolding generateClientID_def hashClientSecret_def newClientSecret_def generateClientSecret_def
  by (intro tenant_steps stay.world_steps)+

lemma stay_CreateClient [tenant_steps]: "steps (stay t us cs rs) (CreateClient e t req)"
  unfolding CreateClient_def by (intro tenant_steps stay.world_steps) simp

lemma updatedFields_identity: "c_ID (updatedFields req client) = c_ID client" "c_TenantID (updatedFields req client) = c_TenantID client"
  by (simp_all add: updatedFields_def Let_def split: option.split)

lemma updatedType_identity:
  "run_state (updatedType e req client) w = (Inr (c, plain), w') \<Longrightarrow> c_ID c = c_ID client \<and> c_TenantID c = c_TenantID client"
  by (auto simp: updatedType_def run_succeed run_orReturn Let_def split: option.splits if_splits prod.splits sum.splits)

lemma stay_updatedType [tenant_steps]: "steps (stay t us cs rs) (updatedType e req client)"
  unfolding updatedType_def Let_def by (intro tenant_steps stay.world_steps)

lemma stay_UpdateClient [tenant_steps]: "steps (stay t us {} rs) (UpdateClient e t i req)"
  unfolding UpdateClient_def
proof (rule stay_read_client, rule stay_orReturn_of [where G = "\<lambda>(c, _). c_TenantID c = t \<and> c_ID c = i"])
  fix client0 s x s'
  assume "c_TenantID client0 = t" "c_ID client0 = i" "run_state (updatedType e req (updatedFields req client0)) s = (Inr x, s')"
  then show "case x of (c, _) \<Rightarrow> c_TenantID c = t \<and> c_ID c = i"
    using updatedType_identity [of e req "updatedFields req client0" s "fst x" "snd x" s'] by (auto simp: updatedFields_identity)
qed (auto intro!: tenant_steps stay.world_steps stay_Client_Update)

lemma stay_DeleteClient [tenant_steps]: "steps (stay t us cs rs) (DeleteClient e t i)"
  unfolding DeleteClient_def by (intro tenant_steps stay.world_steps)

lemma stay_ListClients [tenant_steps]: "steps (stay t us cs rs) (ListClients e t m n)"
  unfolding ListClients_def Let_def by (intro tenant_steps stay.world_steps)

lemma stay_initial_access_tokens [tenant_steps]:
  "steps (stay t us cs rs) (CreateInitialAccessToken e t by req)" "steps (stay t us cs rs) (ListInitialAccessTokens e t)"
  "steps (stay t us cs rs) (RevokeInitialAccessToken e t i)"
  unfolding CreateInitialAccessToken_def ListInitialAccessTokens_def RevokeInitialAccessToken_def Let_def
  by (auto intro!: tenant_steps stay.world_steps)

section \<open>Roles\<close>

text \<open>A role that has just been made is claimed as well.\<close>

lemma stay_create_role:
  assumes "r_TenantID role = t" "steps (stay t us cs {r_ID role}) k"
  shows "steps (stay t us cs {}) (orReturn (Role_Create e role) f (\<lambda>_. k))"
  unfolding steps_def
proof
  fix w :: world
  let ?role = "role\<lparr>r_IsActive := True, r_CreatedAt := autoCreateTime e (r_CreatedAt role), r_UpdatedAt := autoCreateTime e (r_UpdatedAt role)\<rparr>"
  let ?w = "roles_update (\<lambda>_. roles w @ [?role]) (w\<lparr>stmts := Suc (stmts w)\<rparr>)"
  have create: "stay t us cs {} w (snd (run_state (Role_Create e role) w))"
    using stay_Role_Create [OF assms(1)] by (simp add: steps_def)
  show "stay t us cs {} w (snd (run_state (orReturn (Role_Create e role) f (\<lambda>_. k)) w))"
  proof (cases "fails e (stmts w) \<or> (\<exists>r \<in> set (roles w). roles_clash r ?role)")
    case True
    then show ?thesis
      by (auto simp: run_orReturn Role_Create_def roles.Insert_run stay.stmts_only)
  next
    case False
    then have run: "run_state (Role_Create e role) w = (Inr (), ?w)"
      by (auto simp: Role_Create_def roles.Insert_run)
    have "claims t us cs {r_ID role} ?w" if "claims t us cs {} w"
      using False that assms(1) by (auto simp: claims_def claimed_by_def roles_clash_def)
    then have "stay t us cs {} ?w (snd (run_state k ?w))" if "ids_ok w \<and> claims t us cs {} w"
      using that assms(2) by (auto simp: steps_def stay_def)
    then show ?thesis
      using create run stay.R_trans [of t us cs "{}" w ?w] by (auto simp: run_orReturn stay_def)
  qed
qed

lemma stay_addPermissions: "i \<in> rs \<Longrightarrow> steps (stay t us cs rs) (addPermissions e t' i names)"
  by (induction names) (auto intro!: tenant_steps stay.world_steps stay_RolePermission_Create)

lemma stay_removePermissions: "i \<in> rs \<Longrightarrow> steps (stay t us cs rs) (removePermissions e i rps)"
  by (induction rps) (auto intro!: tenant_steps stay.world_steps stay_RolePermission_Delete)

lemmas stay_grants = stay_addPermissions stay_removePermissions stay_RolePermission_Create stay_RolePermission_Delete

lemma stay_CreateRole [tenant_steps]: "steps (stay t us cs {}) (Role_CreateRole e t req)"
  unfolding Role_CreateRole_def Let_def
  by (intro stay.steps_bind stay.steps_orReturn [where m = "State_Monad.return x" for x] tenant_steps stay.steps_return stay.steps_if
      stay.steps_failWith stay.steps_uuid_New stay_create_role)
    (auto intro!: tenant_steps stay.world_steps stay_grants)

lemma updatedRole_identity: "r_ID (updatedRole e req role) = r_ID role" "r_TenantID (updatedRole e req role) = r_TenantID role"
  by (simp_all add: updatedRole_def Let_def split: option.split)

lemma stay_UpdateRole [tenant_steps]: "steps (stay t us cs {}) (Role_UpdateRole e t i req)"
  unfolding Role_UpdateRole_def Let_def
  by (intro stay_read_role) (auto simp: updatedRole_identity intro!: tenant_steps stay.world_steps stay_grants stay_Role_Update)

lemma stay_DeleteRole [tenant_steps]: "steps (stay t us cs {}) (Role_DeleteRole e t i)"
  unfolding Role_DeleteRole_def
  by (intro stay_read_role) (auto intro!: tenant_steps stay.world_steps stay_grants)

lemma stay_role_permissions [tenant_steps]:
  "steps (stay t us cs {}) (AddPermission e t i j by)" "steps (stay t us cs {}) (RemovePermission e t i j)"
  unfolding AddPermission_def RemovePermission_def
  by (intro stay_read_role; auto intro!: tenant_steps stay.world_steps stay_grants)+

lemma stay_role_assignments [tenant_steps]:
  "steps (stay t us cs rs) (AssignToUser e t i j by ex)" "steps (stay t us cs rs) (RevokeFromUser e t i j)"
  unfolding AssignToUser_def RevokeFromUser_def by (auto intro!: tenant_steps stay.world_steps)

lemma stay_loads [tenant_steps]:
  "steps (stay t us cs rs) (loadPermissions e rps)" "steps (stay t us cs rs) (loadRoles e t' urs)"
  "steps (stay t us cs rs) (rolePermissions_loop e rps seen acc)" "steps (stay t us cs rs) (userRoles_loop e t' urs seen acc)"
proof -
  show "steps (stay t us cs rs) (loadPermissions e rps)"
    by (induction rps) (auto intro!: tenant_steps stay.world_steps)
  show "steps (stay t us cs rs) (loadRoles e t' urs)"
    by (induction urs) (auto intro!: tenant_steps stay.world_steps)
  have perms: "steps (stay t us cs rs) (rolePermissions_loop e rps seen acc)" for rps seen acc
    by (induction rps arbitrary: seen acc) (auto intro!: tenant_steps stay.world_steps)
  then show "steps (stay t us cs rs) (rolePermissions_loop e rps seen acc)" .
  show "steps (stay t us cs rs) (userRoles_loop e t' urs seen acc)"
    by (induction urs arbitrary: seen acc) (auto intro!: tenant_steps stay.world_steps perms)
qed

lemma stay_role_reads [tenant_steps]:
  "steps (stay t us cs rs) (Role_ListRoles e t m n)" "steps (stay t us cs rs) (RoleService_GetByID e t i)"
  "steps (stay t us cs rs) (GetPermissions e t i)" "steps (stay t us cs rs) (GetUserRoles e t i)"
  "steps (stay t us cs rs) (GetUserPermissions e t i)" "steps (stay t us cs rs) (PermissionService_GetByID e i)"
  "steps (stay t us cs rs) (HasPermission e t i r a)" "steps (stay t us cs rs) (GetUserByID e t i)"
  "steps (stay t us cs rs) (GetClientByID e t i)"
  unfolding Role_ListRoles_def RoleService_GetByID_def GetPermissions_def GetUserRoles_def GetUserPermissions_def
    PermissionService_GetByID_def HasPermission_def GetUserByID_def GetClientByID_def
  by (auto intro!: tenant_steps stay.world_steps)

end
