(* ===== verification/ManagementProperties.thy ===== *)
theory ManagementProperties
  imports ManagementRoutes TenantServices MiddlewareProperties
begin

text \<open>The management API: nothing happens without a caller entitled to it, and nothing outside the caller's tenant.\<close>

section \<open>Handlers stay within their tenant\<close>

lemmas reply_defs = RespondWithSuccess_def RespondWithError_def notFoundOr500_def serve_def withID_def withBody_def MFAHandler_target_def
  MFAHandler_fail_def bindCode_def MFAHandler_verify_def RBACHandler_handleServiceError_def

lemma stay_withTenant: "GetTenantID (hq_gin q) = Some t \<Longrightarrow> steps (stay t us cs rs) (k t) \<Longrightarrow> steps (stay t us cs rs) (withTenant q k)"
  by (simp add: withTenant_def)

lemmas handler_steps = tenant_steps stay.world_steps stay_withTenant

lemma stay_user_handlers [tenant_steps]:
  assumes "GetTenantID (hq_gin q) = Some t"
  shows "mails e emails \<Longrightarrow> steps (stay t {} cs rs) (UserHandler_CreateUser e b emails q)"
    "steps (stay t {} cs rs) (UserHandler_GetUser e q)" "steps (stay t {} cs rs) (UserHandler_UpdateUser e b q)"
    "steps (stay t {} cs rs) (UserHandler_DeleteUser e q)" "steps (stay t {} cs rs) (UserHandler_ListUsers e q)"
    "mails e emails \<Longrightarrow> steps (stay t {} cs rs) (UserHandler_ChangePassword e b emails q)"
    "mails e emails \<Longrightarrow> steps (stay t {} cs rs) (UserHandler_SendVerificationEmail e emails q)"
  unfolding UserHandler_CreateUser_def UserHandler_GetUser_def UserHandler_UpdateUser_def UserHandler_DeleteUser_def
    UserHandler_ListUsers_def UserHandler_ChangePassword_def UserHandler_SendVerificationEmail_def reply_defs
  by (intro handler_steps assms; assumption)+

lemma stay_mfa_handlers [tenant_steps]:
  assumes "GetTenantID (hq_gin q) = Some t"
  shows "steps (stay t us cs rs) (MFAHandler_GetStatus e q)" "steps (stay t us cs rs) (MFAHandler_BeginTOTP e ks q)"
    "steps (stay t us cs rs) (MFAHandler_ConfirmTOTP e ks b q)" "steps (stay t us cs rs) (MFAHandler_RegenerateRecoveryCodes e ks b q)"
    "steps (stay t us cs rs) (MFAHandler_Disable e ks b q)" "steps (stay t us cs rs) (MFAHandler_Reset e q)"
  unfolding MFAHandler_GetStatus_def MFAHandler_BeginTOTP_def MFAHandler_ConfirmTOTP_def MFAHandler_RegenerateRecoveryCodes_def
    MFAHandler_Disable_def MFAHandler_Reset_def reply_defs
  by (intro handler_steps assms)+

lemma stay_client_handlers [tenant_steps]:
  assumes "GetTenantID (hq_gin q) = Some t"
  shows "steps (stay t us {} rs) (ClientHandler_CreateClient e b q)" "steps (stay t us {} rs) (ClientHandler_GetClient e q)"
    "steps (stay t us {} rs) (ClientHandler_UpdateClient e b q)" "steps (stay t us {} rs) (ClientHandler_DeleteClient e q)"
    "steps (stay t us {} rs) (ClientHandler_ListClients e q)"
    "steps (stay t us {} rs) (RegistrationHandler_CreateInitialAccessToken e b q)"
    "steps (stay t us {} rs) (RegistrationHandler_ListInitialAccessTokens e q)"
    "steps (stay t us {} rs) (RegistrationHandler_RevokeInitialAccessToken e q)"
  unfolding ClientHandler_CreateClient_def ClientHandler_GetClient_def ClientHandler_UpdateClient_def ClientHandler_DeleteClient_def
    ClientHandler_ListClients_def RegistrationHandler_CreateInitialAccessToken_def RegistrationHandler_ListInitialAccessTokens_def
    RegistrationHandler_RevokeInitialAccessToken_def reply_defs
  by (intro handler_steps assms)+

lemma stay_role_handlers [tenant_steps]:
  assumes "GetTenantID (hq_gin q) = Some t"
  shows "steps (stay t us cs {}) (RBACHandler_CreateRole e b q)" "steps (stay t us cs {}) (RBACHandler_ListRoles e q)"
    "steps (stay t us cs {}) (RBACHandler_GetRole e q)" "steps (stay t us cs {}) (RBACHandler_UpdateRole e b q)"
    "steps (stay t us cs {}) (RBACHandler_DeleteRole e q)" "steps (stay t us cs {}) (RBACHandler_AddPermissionToRole e b q)"
    "steps (stay t us cs {}) (RBACHandler_RemovePermissionFromRole e q)" "steps (stay t us cs {}) (RBACHandler_GetRolePermissions e q)"
    "steps (stay t us cs {}) (RBACHandler_AssignRoleToUser e b q)" "steps (stay t us cs {}) (RBACHandler_RevokeRoleFromUser e q)"
    "steps (stay t us cs {}) (RBACHandler_GetUserRoles e q)" "steps (stay t us cs {}) (RBACHandler_GetUserPermissions e q)"
    "steps (stay t us cs {}) (RBACHandler_GetPermission e q)"
  unfolding RBACHandler_CreateRole_def RBACHandler_ListRoles_def RBACHandler_GetRole_def RBACHandler_UpdateRole_def
    RBACHandler_DeleteRole_def RBACHandler_AddPermissionToRole_def RBACHandler_RemovePermissionFromRole_def
    RBACHandler_GetRolePermissions_def RBACHandler_AssignRoleToUser_def RBACHandler_RevokeRoleFromUser_def RBACHandler_GetUserRoles_def
    RBACHandler_GetUserPermissions_def RBACHandler_GetPermission_def reply_defs
  by (intro handler_steps assms)+

lemma stay_routeHandler:
  assumes "GetTenantID (hq_gin q) = Some t" "mails e emails" "guard_of rt \<noteq> SuperAdminOnly"
  shows "steps (stay t {} {} {}) (routeHandler e ks b emails rt q)"
  using assms by (cases rt) (simp_all add: tenant_steps)

section \<open>Idempotency around the handlers\<close>

text \<open>Only counters and stored responses differ.\<close>

definition bookkeeping :: "world \<Rightarrow> world \<Rightarrow> bool" where
  "bookkeeping w w' \<longleftrightarrow> (\<exists>n d ks. w' = w\<lparr>idempotency_keys := ks, stmts := n, draws := d\<rparr>)"

lemma bookkeepingI: "bookkeeping w (w\<lparr>idempotency_keys := ks, stmts := n, draws := d\<rparr>)"
  by (auto simp: bookkeeping_def)

lemma bookkeeping_keys: "bookkeeping w (idempotency_keys_update f w)" "bookkeeping w (w\<lparr>stmts := n, draws := d\<rparr>)" "bookkeeping w w"
  using bookkeepingI [where w = w and ks = "f (idempotency_keys w)" and n = "stmts w" and d = "draws w"]
    bookkeepingI [where w = w and ks = "idempotency_keys w" and n = n and d = d]
    bookkeepingI [where w = w and ks = "idempotency_keys w" and n = "stmts w" and d = "draws w"]
  by (cases w; simp)+

lemma bookkeeping_trans: "bookkeeping w v \<Longrightarrow> bookkeeping v x \<Longrightarrow> bookkeeping w x"
  unfolding bookkeeping_def by (elim exE, simp, intro exI, rule refl)

interpretation bk: world_preorder bookkeeping
  by unfold_locales (auto intro: bookkeeping_keys bookkeeping_trans)

lemma quiet_bookkeeping: "quiet w w' \<Longrightarrow> bookkeeping w w'"
  by (auto simp: quiet_def intro: bookkeeping_keys)

lemma bookkeeping_facts:
  assumes "bookkeeping w w'"
  shows "ids_ok w' = ids_ok w" "confined t w' x = confined t w x" "confined t x w' = confined t x w"
    "user_holds w' tm t u = user_holds w tm t u"
proof -
  obtain n d ks where w': "w' = w\<lparr>idempotency_keys := ks, stmts := n, draws := d\<rparr>"
    using assms unfolding bookkeeping_def by blast
  show "ids_ok w' = ids_ok w" "confined t w' x = confined t w x" "confined t x w' = confined t x w"
    unfolding w' by (simp_all add: ids_ok_def confined_def foreign_grants_def foreign_roles_def)
  have "role_of w' = role_of w" "role_grants w' = role_grants w"
    unfolding w' by (simp_all add: fun_eq_iff role_of_def role_grants_def permission_of_def)
  then show "user_holds w' tm t u = user_holds w tm t u"
    unfolding w' by (simp add: user_holds_def)
qed

lemma keys_bookkeeping:
  "steps bookkeeping (IdempotencyKey_Begin e r stale)" "steps bookkeeping (IdempotencyKey_Complete e i status ct body)"
  "steps bookkeeping (IdempotencyKey_Delete e i)"
  unfolding IdempotencyKey_Begin_def IdempotencyKey_Complete_def IdempotencyKey_Delete_def Let_def
  by (intro bk.world_steps bk.steps_runSQL bk.steps_sqlUpdate bk.steps_sqlDelete;
      auto intro: bookkeeping_keys split: option.splits if_splits)+

text \<open>Either the handlers do not run, or they run once, between bookkeeping.\<close>

lemma Idempotency_cases:
  assumes "run_state (Idempotency e j ttl readFails g handlers) w = (x, w')"
  shows "bookkeeping w w' \<or> (\<exists>v y v'. bookkeeping w v \<and> run_state handlers v = (y, v') \<and> bookkeeping v' w')"
proof -
  have stored: "\<exists>y v'. run_state handlers v = (y, v') \<and> bookkeeping v' w'" if "run_state (runStored e j i handlers) v = (x, w')" for i v
  proof -
    obtain y v' where h: "run_state handlers v = (y, v')"
      by fastforce
    have "bookkeeping v' w'"
      using that h bookkeeping_keys(3)
      by (auto simp: runStored_def run_bind run_return split: prod.splits option.splits if_splits sum.splits
          dest!: keys_bookkeeping(2) [THEN bk.steps_run] keys_bookkeeping(3) [THEN bk.steps_run] intro: bookkeeping_trans)
    with h show ?thesis
      by blast
  qed
  show ?thesis
  proof (cases "g_Method g \<noteq> ''POST'' \<or> g_Header g IdempotencyKeyHeader = []")
    case True
    then have "\<exists>y. run_state handlers w = (y, w')"
      using assms by (auto simp: Idempotency_def run_bind run_return split: prod.splits)
    then show ?thesis
      using bookkeeping_keys(3) by blast
  next
    case False
    show ?thesis
    proof (cases "\<not> validIdempotencyKey (g_Header g IdempotencyKeyHeader) \<or> GetTenantID g = None \<or> readFails
        \<or> length (g_Body g) > maxIdempotentBodyBytes")
      case True
      then have "w' = w"
        using assms False by (auto simp: Idempotency_def run_return split: option.splits if_splits)
      then show ?thesis
        by (simp add: bookkeeping_keys(3))
    next
      case ready: False
      then obtain t where t: "GetTenantID g = Some t"
        by auto
      let ?i = "newUUID e (draws w)" and ?w = "w\<lparr>draws := Suc (draws w)\<rparr>"
      obtain begun v where b: "run_state (IdempotencyKey_Begin e (idempotencyRecord e ttl ?i t g) (now e - idempotencyStaleAfter)) ?w = (begun, v)"
        by fastforce
      have "bookkeeping w v"
        using keys_bookkeeping(1) [THEN bk.steps_run, OF b] bk.draws_only bookkeeping_trans by blast
      moreover have "w' = v \<or> run_state (runStored e j ?i handlers) v = (x, w')"
        using assms False ready t b
        by (auto simp: Idempotency_def Let_def run_bind run_uuid_New run_return split: sum.splits bool.splits option.splits if_splits)
      ultimately show ?thesis
        using stored by blast
    qed
  qed
qed

section \<open>The guard\<close>

lemma quiet_loops:
  "steps quiet (rolePermissions_loop e rps seen acc)" "steps quiet (userRoles_loop e t urs seen acc)"
proof -
  have reads: "steps quiet (Permission_GetByID e i)" "steps quiet (Role_GetByID e t i)" "steps quiet (RolePermission_GetRolePermissions e i)" for i
    unfolding Permission_GetByID_def Role_GetByID_def RolePermission_GetRolePermissions_def by (intro quiet.world_steps)+
  have perms: "steps quiet (rolePermissions_loop e rps seen acc)" for rps seen acc
    by (induction rps arbitrary: seen acc) (auto intro!: quiet.world_steps reads)
  then show "steps quiet (rolePermissions_loop e rps seen acc)" .
  show "steps quiet (userRoles_loop e t urs seen acc)"
    by (induction urs arbitrary: seen acc) (auto intro!: quiet.world_steps reads perms)
qed

lemma quiet_authorize: "steps quiet (authorize e (HasPermission e) superAdmins resource action selfParam g)"
  unfolding authorize_def deny_def unauthorized_def HasPermission_def GetUserPermissions_def UserRole_GetUserRoles_def Let_def
  by (intro quiet.world_steps quiet_loops)

text \<open>What the guard of a route asks of the user \<open>u\<close> of tenant \<open>t\<close>.\<close>

fun route_allowed :: "env \<Rightarrow> world \<Rightarrow> uuid list \<Rightarrow> route_guard \<Rightarrow> gin \<Rightarrow> uuid \<Rightarrow> uuid \<Rightarrow> bool" where
  "route_allowed e w superAdmins (Requires resource action) g t u = may_pass e w superAdmins resource action [] g t u"
| "route_allowed e w superAdmins (RequiresOrSelf resource action) g t u = may_pass e w superAdmins resource action ''user_id'' g t u"
| "route_allowed e w superAdmins SuperAdminOnly g t u \<longleftrightarrow> u \<noteq> uuid_Nil \<and> u \<in> set superAdmins"
| "route_allowed e w superAdmins SelfOnly g t u \<longleftrightarrow> u \<noteq> uuid_Nil \<and> uuidString e u = g_Param g ''user_id''"

lemma route_allowed_cong:
  "same_request g g' \<Longrightarrow> bookkeeping w w' \<Longrightarrow> route_allowed e w' sa gd g' t u = route_allowed e w sa gd g t u"
  by (cases gd) (simp_all add: bookkeeping_facts may_pass_def same_request_def)

lemma routeGuard_run:
  assumes "run_state (routeGuard e superAdmins gd g) w = (r, w')" "GetTenantID g = Some t"
  shows "quiet w w'" "r = Proceed g' \<Longrightarrow> g' = g \<and> (\<exists>u. GetUserID g = Some u \<and> route_allowed e w superAdmins gd g t u)"
proof -
  show "quiet w w'"
    using assms(1) quiet_authorize [THEN quiet.steps_run]
    by (cases gd) (auto simp: Require_def RequireOrSelf_def RequireSuperAdmin_def requireSelf_def run_return quiet_refl)
  show "g' = g \<and> (\<exists>u. GetUserID g = Some u \<and> route_allowed e w superAdmins gd g t u)" if "r = Proceed g'"
  proof (cases gd)
    case SelfOnly
    then show ?thesis
      using assms that by (auto simp: requireSelf_def run_return split: option.splits if_splits)
  qed (use assms that in \<open>auto simp: Require_def RequireOrSelf_def RequireSuperAdmin_def may_pass_def [where selfParam = "[]" and resource = "[]"]
      dest!: authorize_Proceed [where t = t]\<close>)
qed

lemma guardedHandler_run:
  assumes "run_state (guardedHandler e ks b emails superAdmins render rt q) w = (y, w')" "GetTenantID (hq_gin q) = Some t"
    and "mails e emails" "ids_ok w"
  shows "bookkeeping w w' \<or> (\<exists>u. GetUserID (hq_gin q) = Some u \<and> route_allowed e w superAdmins (guard_of rt) (hq_gin q) t u
     \<and> (guard_of rt = SuperAdminOnly \<or> confined t w w'))"
proof -
  obtain r v where guard: "run_state (routeGuard e superAdmins (guard_of rt) (hq_gin q)) w = (r, v)"
    by fastforce
  note quiet = routeGuard_run(1) [OF guard assms(2)]
  show ?thesis
  proof (cases r)
    case (Abort g status code message)
    then have "w' = v"
      using assms(1) guard by (simp add: guardedHandler_def run_bind run_return)
    then show ?thesis
      using quiet_bookkeeping [OF quiet] by simp
  next
    case (Proceed g)
    then obtain u where u: "g = hq_gin q" "GetUserID (hq_gin q) = Some u" "route_allowed e w superAdmins (guard_of rt) (hq_gin q) t u"
      using routeGuard_run(2) [OF guard assms(2)] by blast
    have run: "w' = snd (run_state (routeHandler e ks b emails rt q) v)"
      using assms(1) guard Proceed u(1) by (auto simp: guardedHandler_def run_bind run_return split: prod.splits)
    have "confined t w w'" if "guard_of rt \<noteq> SuperAdminOnly"
    proof -
      have "stay t {} {} {} v w'"
        using stay_routeHandler [OF assms(2,3) that, of ks b] run by (simp add: steps_def)
      moreover have "ids_ok v" "claims t {} {} {} v"
        using bookkeeping_facts(1) [OF quiet_bookkeeping [OF quiet]] assms(4) by (simp_all add: claims_def claimed_by_def)
      ultimately show ?thesis
        using bookkeeping_facts(2) [OF quiet_bookkeeping [OF quiet]] by (simp add: stay_def)
    qed
    with u show ?thesis
      by blast
  qed
qed

section \<open>The chain\<close>

lemma front_run:
  assumes "run_state (andThen (TenantContext e True g) (\<lambda>g1. andThen (onWorld (RequestID e g1))
      (\<lambda>g2. onWorld (RequireAuth e (Some (ValidateAccessToken e)) g2)))) (w, r) = (x, (w', r'))"
    and "g_Keys g UserIDKey = None"
  shows "quiet w w'"
    "x = Proceed g3 \<Longrightarrow> \<exists>tok claims t. bearer g tok \<and> accepted_claims e tok claims \<and> stored_token w t tok
       \<and> uuidParse e (jc_TenantID claims) = Some t \<and> GetUserID g3 = uuidParse e (jc_UserID claims) \<and> GetTenantID g3 = Some t \<and> same_request g g3"
proof -
  obtain x1 w1 r1 where 1: "run_state (TenantContext e True g) (w, r) = (x1, (w1, r1))"
    by (metis prod.exhaust)
  have "quiet (w\<lparr>draws := Suc (draws w)\<rparr>) w1"
    using 1
    by (auto simp: TenantContext_def run_bind run_onWorld newRequestID_run run_return Let_def quiet_refl
        split: prod.splits if_splits option.splits dest!: extractTenantID_quiet)
  then have q1: "quiet w w1"
    using quiet_draws quiet_trans by blast
  have rest: "(\<exists>g0 s c m. x1 = Abort g0 s c m \<and> x = x1 \<and> w' = w1) \<or> (\<exists>g1 g2 w2. x1 = Proceed g1 \<and> run_state (RequestID e g1) w1 = (Proceed g2, w2)
      \<and> run_state (RequireAuth e (Some (ValidateAccessToken e)) g2) w2 = (x, w'))"
    using assms(1) 1 by (auto simp: andThen_def run_bind run_onWorld run_return RequestID_def newRequestID_run Let_def split: reply.splits prod.splits)
  have auth: "quiet v v'" if "run_state (RequireAuth e (Some (ValidateAccessToken e)) g2) v = (x, v')" for g2 v v'
    using that
    by (auto simp: RequireAuth_def Let_def unauthorized_def run_return run_bind ValidateAccessToken_run quiet_refl quiet_stmts
        split: if_splits sum.splits option.splits prod.splits)
  show "quiet w w'"
    using rest
  proof (elim disjE exE conjE)
    fix g1 g2 w2
    assume "run_state (RequestID e g1) w1 = (Proceed g2, w2)" "run_state (RequireAuth e (Some (ValidateAccessToken e)) g2) w2 = (x, w')"
    then show "quiet w w'"
      using q1 auth RequestID_Proceed quiet_trans by meson
  qed (simp add: q1)
  assume x: "x = Proceed g3"
  then obtain g1 g2 w2 where 2: "x1 = Proceed g1" "run_state (RequestID e g1) w1 = (Proceed g2, w2)"
    and 3: "run_state (RequireAuth e (Some (ValidateAccessToken e)) g2) w2 = (Proceed g3, w')"
    using rest by blast
  have g2: "same_request g g2" "g_Keys g2 UserIDKey = None" "quiet w w2"
    using TenantContext_Proceed [OF 1 [unfolded 2(1)]] RequestID_Proceed [OF 2(2)] assms(2) quiet_trans by (auto simp: same_request_def)
  obtain tok claims t where t: "bearer g2 tok" "accepted_claims e tok claims" "uuidParse e (jc_TenantID claims) = Some t"
    "stored_token w2 t tok" "g3 = setClaims e claims g2"
    using RequireAuth_Proceed [OF 3] by blast
  have "stored_token w t tok" "bearer g tok"
    using t(1,4) g2(1,3) by (simp_all add: stored_token_def bearer_def same_request_def quietD)
  then show "\<exists>tok claims t. bearer g tok \<and> accepted_claims e tok claims \<and> stored_token w t tok
       \<and> uuidParse e (jc_TenantID claims) = Some t \<and> GetUserID g3 = uuidParse e (jc_UserID claims) \<and> GetTenantID g3 = Some t \<and> same_request g g3"
    using t setClaims_ids [OF g2(2) t(3)] g2(1) by (auto simp: same_request_def)
qed

text \<open>C40: Whatever is sent to the management API, either nothing but bookkeeping changes in the database, or the request carries a
  token that verifies, is stored and names a tenant and a user whom the guard of the route lets pass, and then nothing but rows of that
  very tenant changes, unless the route is one for super admins; under any database faults, retries with an idempotency key included.\<close>

theorem management_api_confined:
  assumes "run_state (managementApi e ks b j emails superAdmins render readFails rt q) (w, r) = (x, (w', r'))"
    and "g_Keys (hq_gin q) UserIDKey = None" "mails e emails" "ids_ok w"
  shows "bookkeeping w w' \<or> (\<exists>tok claims t u. bearer (hq_gin q) tok \<and> accepted_claims e tok claims \<and> stored_token w t tok
     \<and> uuidParse e (jc_TenantID claims) = Some t \<and> uuidParse e (jc_UserID claims) = Some u
     \<and> route_allowed e w superAdmins (guard_of rt) (hq_gin q) t u \<and> (guard_of rt = SuperAdminOnly \<or> confined t w w'))"
proof -
  let ?front = "andThen (TenantContext e True (hq_gin q)) (\<lambda>g1. andThen (onWorld (RequestID e g1))
      (\<lambda>g2. onWorld (RequireAuth e (Some (ValidateAccessToken e)) g2)))"
  obtain x1 w1 r1 where front: "run_state ?front (w, r) = (x1, (w1, r1))"
    by (metis prod.exhaust)
  note quiet = quiet_bookkeeping [OF front_run(1) [OF front assms(2)]]
  show ?thesis
  proof (cases x1)
    case (Abort g status code message)
    then show ?thesis
      using assms(1) front quiet by (simp add: managementApi_def run_bind run_return)
  next
    case (Proceed g)
    then obtain a where idem: "run_state (Idempotency e j idempotencyTTL readFails g
        (guardedHandler e ks b emails superAdmins render rt (q\<lparr>hq_gin := g\<rparr>))) w1 = (a, w')"
      using assms(1) front by (auto simp: managementApi_def run_bind run_return run_onWorld split: prod.splits)
    obtain tok claims t where t: "bearer (hq_gin q) tok" "accepted_claims e tok claims" "stored_token w t tok"
      "uuidParse e (jc_TenantID claims) = Some t" "GetUserID g = uuidParse e (jc_UserID claims)" "GetTenantID g = Some t" "same_request (hq_gin q) g"
      using front_run(2) [OF front assms(2) Proceed] by blast
    from Idempotency_cases [OF idem] show ?thesis
    proof
      assume "bookkeeping w1 w'"
      then show ?thesis
        using quiet bookkeeping_trans by blast
    next
      assume "\<exists>v y v'. bookkeeping w1 v \<and> run_state (guardedHandler e ks b emails superAdmins render rt (q\<lparr>hq_gin := g\<rparr>)) v = (y, v')
        \<and> bookkeeping v' w'"
      then obtain v y v' where v: "bookkeeping w1 v" "run_state (guardedHandler e ks b emails superAdmins render rt (q\<lparr>hq_gin := g\<rparr>)) v = (y, v')"
        "bookkeeping v' w'"
        by blast
      have before: "bookkeeping w v"
        using quiet v(1) by (rule bookkeeping_trans)
      have "ids_ok v"
        using bookkeeping_facts(1) [OF before] assms(4) by simp
      from guardedHandler_run [OF v(2) _ assms(3) this, of t] t(6)
      have "bookkeeping v v' \<or> (\<exists>u. GetUserID g = Some u \<and> route_allowed e v superAdmins (guard_of rt) g t u
          \<and> (guard_of rt = SuperAdminOnly \<or> confined t v v'))"
        by simp
      then show ?thesis
      proof
        assume "bookkeeping v v'"
        then show ?thesis
          using before v(3) bookkeeping_trans by blast
      next
        assume "\<exists>u. GetUserID g = Some u \<and> route_allowed e v superAdmins (guard_of rt) g t u
          \<and> (guard_of rt = SuperAdminOnly \<or> confined t v v')"
        then show ?thesis
          unfolding route_allowed_cong [OF t(7) before] bookkeeping_facts(2) [OF before] bookkeeping_facts(3) [OF v(3), symmetric] t(5)
          using t(1-4) by blast
      qed
    qed
  qed
qed

section \<open>An instance\<close>

text \<open>A super admin takes the editor role of the sample tenant from a user.\<close>

definition revoke_request :: http_req where
  "revoke_request = \<lparr>hq_gin = route_gin\<lparr>g_Method := ''DELETE'', g_Path := ''/v1/roles/r/users/u'', g_URI := ''/v1/roles/r/users/u'',
     g_Param := (\<lambda>k. if k = ''role_id'' then replicate 60 CHR ''x'' else replicate 7 CHR ''x'')\<rparr>, hq_Query = (\<lambda>_. []), hq_Cookie = (\<lambda>_. None)\<rparr>"

lemma front_bearer:
  assumes "bearer g tok" "accepted_claims e tok cl" "stored_token w t tok"
    and "jc_TenantID cl \<noteq> []" "uuidParse e (jc_TenantID cl) = Some t" "g_Keys g UserIDKey = None" "\<forall>n. \<not> fails e n"
  shows "\<exists>g' w'. run_state (andThen (TenantContext e True g) (\<lambda>g1. andThen (onWorld (RequestID e g1))
      (\<lambda>g2. onWorld (RequireAuth e (Some (ValidateAccessToken e)) g2)))) (w, r) = (Proceed g', (w', r))
    \<and> quiet w w' \<and> same_request g g' \<and> GetUserID g' = uuidParse e (jc_UserID cl) \<and> GetTenantID g' = Some t"
proof -
  let ?w = "w\<lparr>draws := Suc (draws w)\<rparr>"
  obtain g1 where 1: "run_state (TenantContext e True g) (w, r) = (Proceed g1, (?w, r))"
    using TenantContext_bearer [OF assms(1,2,4,5)] by blast
  obtain g2 v2 where 2: "run_state (RequestID e g1) ?w = (Proceed g2, v2)"
    by (simp add: RequestID_def run_bind newRequestID_run run_return Let_def)
  have g2: "same_request g g2" "g_Keys g2 UserIDKey = None" "quiet w v2"
    using TenantContext_Proceed [OF 1] RequestID_Proceed [OF 2] assms(6) quiet_trans by (auto simp: same_request_def)
  have "bearer g2 tok" "stored_token v2 t tok"
    using assms(1,3) g2(1,3) by (simp_all add: bearer_def same_request_def stored_token_def quietD)
  from RequireAuth_bearer [OF this(1) assms(2,5) this(2) assms(7)]
  have "run_state (andThen (TenantContext e True g) (\<lambda>g1. andThen (onWorld (RequestID e g1))
      (\<lambda>g2. onWorld (RequireAuth e (Some (ValidateAccessToken e)) g2)))) (w, r) = (Proceed (setClaims e cl g2), (v2\<lparr>stmts := Suc (stmts v2)\<rparr>, r))"
    using 1 2 unfolding andThen_Proceed by (auto simp: onWorld_eq)
  then show ?thesis
    using setClaims_ids [OF g2(2) assms(5)] g2(1,3) quiet_trans quiet_stmts by (auto simp: same_request_def)
qed

lemma revoke_takes_effect:
  assumes "quiet route_world w'"
  shows "\<exists>w2. run_state (RevokeFromUser sample_env 1 60 7) w' = (Inr (), w2) \<and> user_roles w2 = []"
  using assms
  by (auto simp: quiet_def RevokeFromUser_def run_orReturn RoleGet_run run_mapErr UserRole_Delete_def user_roles.Delete_run sample_env_def
      route_world_def rbac_world_def rbac_assignment_def rbac_role_def role_of_def role_live_def)

lemma management_api_confined_witness:
  "\<forall>ks b j render. \<exists>x w' r'. run_state (managementApi sample_env ks b j None [7] render False RevokeRoleRoute revoke_request)
       (route_world, NewDomainTenantResolver 60) = (x, (w', r'))
     \<and> user_roles w' = [] \<and> user_roles route_world \<noteq> [] \<and> confined 1 route_world w'"
proof (intro allI)
  fix ks b j render
  let ?g = "hq_gin revoke_request"
  have g: "bearer ?g ''abc''" "g_Keys ?g UserIDKey = None"
    using route_request by (simp_all add: revoke_request_def bearer_def)
  have ok: "\<forall>n. \<not> fails sample_env n"
    by (simp add: sample_env_def)
  obtain g' w1 where front: "run_state (andThen (TenantContext sample_env True ?g) (\<lambda>g1. andThen (onWorld (RequestID sample_env g1))
      (\<lambda>g2. onWorld (RequireAuth sample_env (Some (ValidateAccessToken sample_env)) g2)))) (route_world, NewDomainTenantResolver 60)
      = (Proceed g', (w1, NewDomainTenantResolver 60))"
    and g': "quiet route_world w1" "same_request ?g g'" "GetUserID g' = Some 7" "GetTenantID g' = Some 1"
    using front_bearer [OF g(1) route_token(1) route_rights(1) route_token(2,3) g(2) ok] route_token(4) by force
  have same: "g_Header g' IdempotencyKeyHeader = []" "g_Param g' = g_Param ?g"
    using g'(2) by (simp_all add: same_request_def revoke_request_def route_gin_def IdempotencyKeyHeader_def)
  obtain w2 where handled: "run_state (RevokeFromUser sample_env 1 60 7) w1 = (Inr (), w2)" "user_roles w2 = []"
    using revoke_takes_effect [OF g'(1)] by blast
  have "run_state (guardedHandler sample_env ks b None [7] render RevokeRoleRoute (revoke_request\<lparr>hq_gin := g'\<rparr>)) w1
      = (Some (render (Respond 204 True [] NoData)), w2)"
    using g'(3,4) same(2) handled(1)
    by (simp add: guardedHandler_def run_bind run_return Require_def authorize_def RBACHandler_RevokeRoleFromUser_def
        withTenant_def withID_def serve_def RespondWithSuccess_def revoke_request_def sample_env_def)
  then obtain x where run: "run_state (managementApi sample_env ks b j None [7] render False RevokeRoleRoute revoke_request)
       (route_world, NewDomainTenantResolver 60) = (x, (w2, NewDomainTenantResolver 60))"
    using front same(1) by (simp add: managementApi_def Idempotency_def Let_def run_bind run_return run_onWorld)
  have "mails sample_env None" "ids_ok route_world"
    by (simp_all add: mails_def ids_ok_def single_owner_def route_world_def rbac_world_def empty_world_def)
  note sound = management_api_confined [OF run g(2) this]
  have changed: "\<not> bookkeeping route_world w2"
    using handled(2) by (auto simp: bookkeeping_def route_world_def rbac_world_def)
  obtain tok c t where t: "bearer ?g tok" "accepted_claims sample_env tok c" "uuidParse sample_env (jc_TenantID c) = Some t" "confined t route_world w2"
    using sound changed by auto
  have "tok = ''abc''"
    using t(1) g(1) by (simp add: bearer_def)
  then have "c = route_claims"
    using t(2) route_token(1) by (auto simp: accepted_claims_def)
  then have "confined 1 route_world w2"
    using t(3,4) route_token(3) by simp
  then show "\<exists>x w' r'. run_state (managementApi sample_env ks b j None [7] render False RevokeRoleRoute revoke_request)
       (route_world, NewDomainTenantResolver 60) = (x, (w', r'))
     \<and> user_roles w' = [] \<and> user_roles route_world \<noteq> [] \<and> confined 1 route_world w'"
    using run handled(2) by (auto simp: route_world_def rbac_world_def)
qed

end
