(* ===== verification/Spec2Isabelle.thy ===== *)
theory Spec2Isabelle
  imports RefreshReplay RefreshRaces DeviceProperties SessionService OtpProperties MFAProperties SystemRoles ClientProperties MiddlewareProperties MetadataProperties UserProperties IdempotencyProperties TokenProperties MailSamples SignedTokens ManagementProperties
begin

text \<open>
  ShieldGate is an OAuth 2.0 authorization server and OpenID provider for several tenants, written in Go on gin (HTTP), gorm
  (PostgreSQL) and golang-jwt. A request passes the middleware, which finds its tenant and, on the management API, its user; a handler
  reads its parameters and calls a service; the service works on the tables through the repositories. Nothing else is shared between
  requests but three in-memory caches (of verified client secrets, of tenant domains and of loaded keys).

  \<^bold>\<open>How the model is made.\<close> Every operation of a service is a function of the environment of the request and a program in
  the state monad over the \<^verbatim>\<open>world\<close> (\<open>World\<close>): one list of rows for each table, the number of statements sent to the database so far,
  the number of random draws, and the log of the mail server. An operation returns \<open>err + 'a\<close>, so that every \<^verbatim>\<open>return nil, err\<close> of
  the source is a branch (\<open>orReturn\<close>, \<open>mapErr\<close>, \<open>failWith\<close> in \<open>Prelude\<close>); wrapped errors keep their chain, since the code looks through it
  with \<^verbatim>\<open>errors.Is\<close>. The environment holds the clock, read once for each request, the configuration, the random bytes by draw, the
  library functions, and which statements fail: a failing statement is a database fault and can be any of them. Strings are lists of bytes,
  integers are \<open>int\<close> with \<open>wrap64\<close> where the code multiplies or adds values a client chooses, UUIDs are 128-bit words, times are
  nanoseconds. A pointer is an option, a struct a record with its fields in the order of the source, a Go map an association list or a
  partial function.

  \<^bold>\<open>Parts, theories and code.\<close>
  \<^item> Standard library and prelude: \<open>Prelude\<close> (state monad, its rules, 64-bit integers), \<open>GoStrings\<close> (\<^verbatim>\<open>strings\<close>), \<open>Crypto\<close>, \<open>CryptoVectors\<close>,
    \<open>Hmac\<close> (SHA-256, SHA-1, HMAC, the base64 and base32 alphabets, percent escapes, UTF-8), all executable and tied to published vectors.
  \<^item> Data and tables: \<open>Models\<close> (\<^verbatim>\<open>internal/models/models.go\<close>), \<open>World\<close> (tables; the locale \<open>table\<close> states what a table is and is interpreted for
    each of them), \<open>Repos\<close>, \<open>MoreRepos\<close> and the first half of \<open>EmailService\<close> (\<^verbatim>\<open>internal/repo/gorm/*.go\<close> with the unique indexes of
    \<^verbatim>\<open>internal/database/database.go\<close>; soft-deleted rows stay in their table), \<open>Effects\<close> (the locale \<open>world_preorder\<close>: which relations between the
    worlds before and after survive every operation, so that frames and invariants are proved once).
  \<^item> Tokens: \<open>JwtKeys\<close> (\<^verbatim>\<open>internal/jwtkeys/jwtkeys.go\<close>), \<open>Scope\<close> (\<^verbatim>\<open>scope.go\<close>, \<^verbatim>\<open>oidc_claims.go\<close>), \<open>AuthService\<close> (\<^verbatim>\<open>auth_service_impl.go\<close>), \<open>DeviceGrant\<close>
    (\<^verbatim>\<open>device_token_exchange.go\<close>), \<open>SessionService\<close> (\<^verbatim>\<open>session_service_impl.go\<close>).
  \<^item> Second factor: \<open>Otp\<close> (\<^verbatim>\<open>internal/mfa\<close>), \<open>MFAService\<close> (\<^verbatim>\<open>mfa_service_impl.go\<close>).
  \<^item> Accounts, clients, rights: \<open>Users\<close> (\<^verbatim>\<open>user_service_impl.go\<close>, \<^verbatim>\<open>tenant_service.go\<close>), \<open>ClientService\<close> with \<open>Caches\<close> (\<^verbatim>\<open>client_service_impl.go\<close>,
    \<^verbatim>\<open>client_secret_cache.go\<close>), \<open>Registration\<close> (\<^verbatim>\<open>registration_service_impl.go\<close>, \<^verbatim>\<open>client_metadata.go\<close>), \<open>Rbac\<close> (\<^verbatim>\<open>role_service_impl.go\<close>,
    \<^verbatim>\<open>permission_service_impl.go\<close>).
  \<^item> E-mail: \<open>EmailService\<close> (\<^verbatim>\<open>email_service_impl.go\<close>, \<^verbatim>\<open>email_templates_default.go\<close>).
  \<^item> HTTP: \<open>Middleware\<close> (\<^verbatim>\<open>internal/middleware/middleware.go\<close>, \<^verbatim>\<open>authz.go\<close>, \<^verbatim>\<open>tenant_resolver.go\<close>), \<open>Idempotency\<close> (\<^verbatim>\<open>idempotency.go\<close>), \<open>HandlerSecurity\<close>
    and \<open>Authorize\<close> (\<^verbatim>\<open>internal/handlers/oauth_security.go\<close>, \<^verbatim>\<open>oauth_authorize.go\<close>, \<^verbatim>\<open>oauth_mfa.go\<close>, \<^verbatim>\<open>oauth_logout.go\<close>), \<open>TokenEndpoint\<close>
    (\<^verbatim>\<open>oauth_handler.go\<close>, \<^verbatim>\<open>oauth_device_handler.go\<close>). A handler's result is its reply: status, page data, headers, cookies.
  \<^item> Management API: \<open>ManagementApi\<close> (\<^verbatim>\<open>response.go\<close>, \<^verbatim>\<open>tenant_handler.go\<close>, \<^verbatim>\<open>user_handler.go\<close>, \<^verbatim>\<open>mfa_handler.go\<close>, \<^verbatim>\<open>client_handler.go\<close>, the
    initial access tokens of \<^verbatim>\<open>registration_handler.go\<close>) and \<open>ManagementRoutes\<close> (\<^verbatim>\<open>rbac_handler.go\<close>; one constructor for each route with its
    pattern and guard, and \<open>managementApi\<close>, the chain of \<^verbatim>\<open>cmd/auth-server/main.go\<close> that serves it: tenant, request ID, token, idempotency,
    guard, handler). Binding and rendering JSON are parameters (\<open>bindlib\<close>, \<open>render\<close>).
  \<^item> Interleaving: \<open>RefreshConcurrency\<close> takes \<^verbatim>\<open>RefreshTokens\<close> apart into its statements (\<open>rstep\<close>); \<open>RefreshRaces\<close> lets any number of requests
    run them in any order. \<open>MailQueue\<close> does the same for the workers of the mail queue, one delivery at a time.

  \<^bold>\<open>What is shown.\<close>
  \<^item> Codes and tokens (\<open>AuthProperties\<close>, \<open>RefreshProperties\<close>, \<open>RefreshReplay\<close>, \<open>RefreshConcurrency\<close>, \<open>RefreshRaces\<close>, \<open>DeviceProperties\<close>, \<open>TokenProperties\<close>): what a
    successful exchange proves about the request, single use of codes, device codes and refresh tokens, a replay leaves no token of the
    family, no sequence of refreshes widens a grant, one winner per token and empty revoked families under every interleaving (of requests
    that are answered, without faults), which ends after finitely many steps; token exchange stays below its ceiling; what the token endpoint answers, errors included.
  \<^item> Signing (\<open>JwtKeys\<close>, \<open>SignedTokens\<close>): no algorithm confusion, the keys that sign are published, the token between two factors
    reads back and is no CSRF token.
  \<^item> Browser flow (\<open>AuthorizeProperties\<close>, \<open>LoginProperties\<close>, \<open>CodeProperties\<close>): no open redirect; every session and every code is traced to a
    request that proved what it must prove.
  \<^item> Accounts (\<open>UserProperties\<close>, \<open>MFAProperties\<close>, \<open>OtpProperties\<close>, \<open>SessionService\<close>): bounds on guessing passwords and codes, no code
    of a time step twice, what a password reset takes over, how long a session lasts, how consent accumulates.
  \<^item> Rights (\<open>RbacProperties\<close>, \<open>SystemRoles\<close>, \<open>MiddlewareProperties\<close>, \<open>ClientProperties\<close>): the permission check against its relational
    reading, the rows of system roles are fixed, who passes a guarded route and who is not turned away (\<open>guarded_route_sound\<close>, \<open>guarded_route_live\<close>), the caches are transparent and bounded.
  \<^item> Tenants (\<open>TenantFrames\<close>, \<open>TenantServices\<close>, \<open>ManagementProperties\<close>): every operation behind the management API stays among the rows of the
    tenant it is called for, repository by repository and service by service, so that no route reaches another tenant's rows.
  \<^item> Registration, retries, mail (\<open>MetadataProperties\<close>, \<open>RegistrationProperties\<close>, \<open>RegistrationLimits\<close>, \<open>IdempotencyProperties\<close>, \<open>EmailProperties\<close>,
    \<open>MailQueue\<close>, \<open>MailSamples\<close>): registered metadata is well-formed, a client's scopes and a token's uses stay capped by the initial access token used, a retried POST gets the stored
    response without its secrets, a message is delivered once and cannot be broken out of.
  \<^item> \<open>Samples\<close> and \<open>BrowserSamples\<close> hold the concrete deployment on which the theorems are instantiated.

  \<^bold>\<open>Bounds and fuel.\<close> No definition takes fuel but \<open>rsteps\<close>, the run of one refresh request by itself: it takes nine statements, as many as
    the longest path of \<open>RefreshTokens\<close> has, which \<open>refresh_statements_refine\<close> shows to be enough; that interleaved requests need no more is
    \<open>refresh_requests_terminate\<close>. Every loop of the source that is modelled is structural recursion over the list it ranges over; the
    limits of the source (attempts, lifetimes, sizes) are its own constants.

  \<^bold>\<open>Not modelled.\<close>
  \<^item> Cryptography by contract only: RSA, ECDSA, Ed25519, PEM and X.509 (parameters of \<open>JwtKeys\<close>), bcrypt, AES-GCM and HKDF (parameters of
    \<open>Otp\<close>). Parsing libraries: \<^verbatim>\<open>encoding/json\<close>, \<^verbatim>\<open>net/url.Parse\<close>, \<^verbatim>\<open>net.ParseIP\<close>, \<^verbatim>\<open>mime.QEncoding\<close>, and the SMTP server.
  \<^item> Foreign keys and the ordering of strings by the database's collation, hence the lists of permissions and of e-mail templates.
  \<^item> The audit log (\<^verbatim>\<open>audit_service_impl.go\<close>), metrics, tracing and log lines (\<^verbatim>\<open>internal/observability\<close>): no modelled operation reads them.
  \<^item> Redis and the rate limit built on it, timeouts, panics and their recovery: timers and a server outside the program.
  \<^item> The routes of the audit log (\<^verbatim>\<open>audit_handler.go\<close>) and the list of permissions; the account pages (\<^verbatim>\<open>account_handler.go\<close>) and the public
    registration endpoints of \<^verbatim>\<open>registration_handler.go\<close>: each binds a request, calls one modelled service operation and maps its error.
  \<^item> Configuration, connection handling and wiring (\<^verbatim>\<open>config\<close>, \<^verbatim>\<open>internal/database\<close>, \<^verbatim>\<open>cmd\<close>).
\<close>

end
